(* ===== verification/Fuse_Prelude.thy ===== *)
theory Fuse_Prelude
  imports Main "HOL-Library.Word"
begin

text \<open>
  Shared vocabulary of the development: machine types, the error numbers of the Darwin kernel,
  outcomes of kernel code that may panic, single-bit flags of the flag words, and the list and
  byte lemmas that several components use.

  A mutex is not a value here: code that runs under one mutex is one atomic operation of the
  model, and a call that drops the mutex (\<^verbatim>\<open>msleep\<close>) is a parameter that maps the state
  before the sleep to the error it returns and the state after it.
\<close>

unbundle bit_operations_syntax

named_theorems flag_simps
named_theorems errno_simps
named_theorems wf_intros

section \<open>Machine types\<close>

type_synonym u8 = "8 word"
type_synonym u16 = "16 word"
type_synonym u32 = "32 word"
type_synonym u64 = "64 word"
type_synonym bytes = "u8 list"
type_synonym errno = int

text \<open>A vnode of the kernel is known by its address only.\<close>

type_synonym vnode = nat

section \<open>Error numbers\<close>

text \<open>The values of Darwin's \<^verbatim>\<open>sys/errno.h\<close> that the sources use.\<close>

abbreviation EPERM :: errno where "EPERM \<equiv> 1"
abbreviation ENOENT :: errno where "ENOENT \<equiv> 2"
abbreviation EINTR :: errno where "EINTR \<equiv> 4"
abbreviation EIO :: errno where "EIO \<equiv> 5"
abbreviation ENXIO :: errno where "ENXIO \<equiv> 6"
abbreviation ENOMEM :: errno where "ENOMEM \<equiv> 12"
abbreviation EACCES :: errno where "EACCES \<equiv> 13"
abbreviation EFAULT :: errno where "EFAULT \<equiv> 14"
abbreviation EBUSY :: errno where "EBUSY \<equiv> 16"
abbreviation ENODEV :: errno where "ENODEV \<equiv> 19"
abbreviation EINVAL :: errno where "EINVAL \<equiv> 22"
abbreviation EAGAIN :: errno where "EAGAIN \<equiv> 35"
abbreviation EPROTONOSUPPORT :: errno where "EPROTONOSUPPORT \<equiv> 43"
abbreviation ENOTSUP :: errno where "ENOTSUP \<equiv> 45"
abbreviation ENOTCONN :: errno where "ENOTCONN \<equiv> 57"
abbreviation ESTALE :: errno where "ESTALE \<equiv> 70"
abbreviation ENOSYS :: errno where "ENOSYS \<equiv> 78"

section \<open>Outcomes\<close>

text \<open>
  Kernel code either returns, or panics. The third outcome is an access outside live memory, a
  freed block, a null pointer or bytes past the end of a block: C gives it no meaning.
\<close>

datatype 'a outcome = Done 'a | Panic | BadAccess

fun bind_outcome :: "'a outcome \<Rightarrow> ('a \<Rightarrow> 'b outcome) \<Rightarrow> 'b outcome" where
  "bind_outcome (Done x) f = f x"
| "bind_outcome Panic f = Panic"
| "bind_outcome BadAccess f = BadAccess"

lemma bind_outcome_Done_iff:
  "bind_outcome m f = Done y \<longleftrightarrow> (\<exists>x. m = Done x \<and> f x = Done y)"
  by (cases m) auto

lemma bind_outcome_DoneE:
  assumes "bind_outcome m f = Done y"
  obtains x where "m = Done x" "f x = Done y"
  using assms by (cases m) auto

lemma bind_outcome_DoneE2:
  assumes "bind_outcome m f = Done y"
  obtains a b where "m = Done (a, b)" "f (a, b) = Done y"
  using assms by (cases m) auto

lemma bind_outcome_assoc:
  "bind_outcome (bind_outcome m f) g = bind_outcome m (\<lambda>x. bind_outcome (f x) g)"
  by (cases m) auto

lemma bind_outcome_cong [fundef_cong]:
  "m = m' \<Longrightarrow> (\<And>x. m' = Done x \<Longrightarrow> f x = f' x) \<Longrightarrow> bind_outcome m f = bind_outcome m' f'"
  by (cases m') auto

definition of_option :: "'a option \<Rightarrow> 'a outcome" where
  "of_option x = (case x of None \<Rightarrow> BadAccess | Some v \<Rightarrow> Done v)"

lemma of_option_simps [simp]:
  "of_option (Some v) = Done v"
  "of_option None = BadAccess"
  by (simp_all add: of_option_def)

section \<open>Flag words\<close>

definition has_flag :: "'a::len word \<Rightarrow> 'a word \<Rightarrow> bool" where
  "has_flag w m \<longleftrightarrow> w AND m \<noteq> 0"

definition set_flag :: "'a::len word \<Rightarrow> 'a word \<Rightarrow> 'a word" where
  "set_flag w m = w OR m"

definition clear_flag :: "'a::len word \<Rightarrow> 'a word \<Rightarrow> 'a word" where
  "clear_flag w m = w AND NOT m"

definition flagbit :: "nat \<Rightarrow> 'a::len word" where
  "flagbit n = push_bit n 1"

lemma bit_flagbit [flag_simps]:
  "bit (flagbit n :: 'a::len word) m \<longleftrightarrow> m = n \<and> n < LENGTH('a)"
  by (auto simp: flagbit_def bit_exp_iff)

lemma has_flag_flagbit [flag_simps]:
  "has_flag (w :: 'a::len word) (flagbit n) \<longleftrightarrow> bit w n"
proof -
  have "(w AND flagbit n = 0) \<longleftrightarrow> \<not> bit w n"
    by (simp add: flagbit_def push_bit_eq_mult and_exp_eq_0_iff_not_bit)
  then show ?thesis by (simp add: has_flag_def)
qed

lemma bit_set_flag [flag_simps]:
  "bit (set_flag w m) n \<longleftrightarrow> bit w n \<or> bit m n"
  by (simp add: set_flag_def bit_or_iff)

lemma bit_clear_flag [flag_simps]:
  "bit (clear_flag (w :: 'a::len word) m) n \<longleftrightarrow> bit w n \<and> \<not> bit m n"
  by (auto simp: clear_flag_def bit_and_iff bit_not_iff dest: bit_imp_le_length)

lemma has_flag_zero [simp]: "\<not> has_flag 0 m"
  by (simp add: has_flag_def)

section \<open>Lists\<close>

lemma distinct_remove1_iff: "distinct xs \<Longrightarrow> x \<notin> set (remove1 x xs)"
  by (simp add: set_remove1_eq)

lemma takeWhile_neq_remove1:
  "x \<in> set xs \<Longrightarrow> xs = takeWhile (\<lambda>y. y \<noteq> x) xs @ x # tl (dropWhile (\<lambda>y. y \<noteq> x) xs)"
  by (induction xs) auto

lemma find_Some_in: "find P xs = Some x \<Longrightarrow> x \<in> set xs \<and> P x"
  by (auto simp: find_Some_iff)

section \<open>Little-endian bytes\<close>

text \<open>Both kernels that load the extension are little-endian.\<close>

fun le_bytes :: "nat \<Rightarrow> nat \<Rightarrow> bytes" where
  "le_bytes 0 v = []"
| "le_bytes (Suc k) v = word_of_nat (v mod 256) # le_bytes k (v div 256)"

fun le_value :: "bytes \<Rightarrow> nat" where
  "le_value [] = 0"
| "le_value (b # bs) = unat b + 256 * le_value bs"

lemma length_le_bytes [simp]: "length (le_bytes k v) = k"
  by (induction k arbitrary: v) auto

lemma le_value_bytes: "le_value (le_bytes k v) = v mod 256 ^ k"
proof (induction k arbitrary: v)
  case (Suc k)
  have "le_value (le_bytes (Suc k) v) = v mod 256 + 256 * (v div 256 mod 256 ^ k)"
    by (simp add: Suc.IH unat_of_nat take_bit_eq_mod)
  also have "\<dots> = v mod (256 * 256 ^ k)"
    by (simp add: mod_mult2_eq)
  finally show ?case by simp
qed simp

lemma le_value_bound: "le_value bs < 256 ^ length bs"
proof (induction bs)
  case (Cons b bs)
  have "unat b < 256" using unsigned_less [of b] by simp
  with Cons show ?case by simp
qed simp

lemma le_bytes_value: "le_bytes (length bs) (le_value bs) = bs"
proof (induction bs)
  case (Cons b bs)
  have "unat b < 256" using unsigned_less [of b] by simp
  with Cons show ?case by simp
qed simp

lemma unat_u32_less: "unat (w :: u32) < 4294967296"
proof -
  have "unat w < 2 ^ LENGTH(32)" by (rule unsigned_less)
  then show ?thesis by simp
qed

lemma unat_u64_less: "unat (w :: u64) < 18446744073709551616"
proof -
  have "unat w < 2 ^ LENGTH(64)" by (rule unsigned_less)
  then show ?thesis by simp
qed

lemma le_value_word32: "le_value (le_bytes 4 (unat (w :: u32))) = unat w"
  using unat_u32_less [of w] by (simp add: le_value_bytes)

lemma le_value_word64: "le_value (le_bytes 8 (unat (w :: u64))) = unat w"
  using unat_u64_less [of w] by (simp add: le_value_bytes)

text \<open>The field of \<open>n\<close> bytes at offset \<open>off\<close> of a block of memory.\<close>

definition field_at :: "nat \<Rightarrow> nat \<Rightarrow> bytes \<Rightarrow> nat" where
  "field_at off n bs = le_value (take n (drop off bs))"

definition write_at :: "nat \<Rightarrow> bytes \<Rightarrow> bytes \<Rightarrow> bytes" where
  "write_at off v bs = take off bs @ v @ drop (off + length v) bs"

lemma length_write_at [simp]:
  "off + length v \<le> length bs \<Longrightarrow> length (write_at off v bs) = length bs"
  by (simp add: write_at_def)

lemma take_drop_write_at:
  "off + length v \<le> length bs \<Longrightarrow> take (length v) (drop off (write_at off v bs)) = v"
  by (simp add: write_at_def)

lemma take_write_at:
  "n \<le> off \<Longrightarrow> off \<le> length bs \<Longrightarrow> take n (write_at off v bs) = take n bs"
  by (simp add: write_at_def min_def)

text \<open>A store of bytes into a block, which C defines only within the block.\<close>

definition store_at :: "nat \<Rightarrow> bytes \<Rightarrow> bytes \<Rightarrow> bytes outcome" where
  "store_at off v bs =
     (if off + length v \<le> length bs then Done (write_at off v bs) else BadAccess)"

lemma store_at_Done [simp]:
  "off + length v \<le> length bs \<Longrightarrow> store_at off v bs = Done (write_at off v bs)"
  by (simp add: store_at_def)

text \<open>The conversion from \<^verbatim>\<open>size_t\<close> to \<^verbatim>\<open>int\<close> of the calls to \<^verbatim>\<open>uiomove\<close>.\<close>

definition int_of_size :: "nat \<Rightarrow> int" where
  "int_of_size n = sint (word_of_nat n :: u32)"

lemma int_of_size_small [simp]: "n < 2147483648 \<Longrightarrow> int_of_size n = int n"
  by (simp add: int_of_size_def signed_of_nat signed_take_bit_int_eq_self)

end
