(* ===== verification/Fuse_Kernel_ABI.thy ===== *)
theory Fuse_Kernel_ABI
  imports Fuse_Prelude
begin

text \<open>
  The message format that the kernel extension and the user-space daemon share
  (\<^verbatim>\<open>core/10.5/fusefs/fuse_kernel.h\<close>, with \<^verbatim>\<open>__FreeBSD__ >= 10\<close> as the
  project defines it): the layout of every structure under the C layout rules, the request
  opcodes, the two message headers and the alignment of directory entries.
\<close>

section \<open>C layout\<close>

datatype ctype = U32 | S32 | U64 | CArray ctype nat | CStruct "ctype list"

text \<open>
  \<open>align_up a n\<close> is the least multiple of \<open>a\<close> that is not below \<open>n\<close>. The parameter \<open>a64\<close> of
  the functions below is the alignment the ABI gives a 64-bit integer: 8 for x86-64, 4 for i386.
\<close>

definition align_up :: "nat \<Rightarrow> nat \<Rightarrow> nat" where
  "align_up a n = (n + a - 1) div a * a"

fun align_of :: "nat \<Rightarrow> ctype \<Rightarrow> nat" where
  "align_of a64 U32 = 4"
| "align_of a64 S32 = 4"
| "align_of a64 U64 = a64"
| "align_of a64 (CArray t n) = align_of a64 t"
| "align_of a64 (CStruct ts) = foldr max (map (align_of a64) ts) 1"

fun end_offset :: "(nat \<times> nat) list \<Rightarrow> nat \<Rightarrow> nat" where
  "end_offset [] off = off"
| "end_offset ((al, sz) # r) off = end_offset r (align_up al off + sz)"

fun size_of :: "nat \<Rightarrow> ctype \<Rightarrow> nat" where
  "size_of a64 U32 = 4"
| "size_of a64 S32 = 4"
| "size_of a64 U64 = 8"
| "size_of a64 (CArray t n) = n * size_of a64 t"
| "size_of a64 (CStruct ts) =
     align_up (align_of a64 (CStruct ts))
       (end_offset (map (\<lambda>t. (align_of a64 t, size_of a64 t)) ts) 0)"

text \<open>A structure declaration: its members by name, in order.\<close>

type_synonym layout = "(string \<times> ctype) list"

definition struct_of :: "layout \<Rightarrow> ctype" where
  "struct_of l = CStruct (map snd l)"

definition sizeof :: "nat \<Rightarrow> layout \<Rightarrow> nat" where
  "sizeof a64 l = size_of a64 (struct_of l)"

fun offsets_from :: "nat \<Rightarrow> nat \<Rightarrow> layout \<Rightarrow> (string \<times> nat) list" where
  "offsets_from a64 off [] = []"
| "offsets_from a64 off ((n, t) # r) =
     (n, align_up (align_of a64 t) off) #
     offsets_from a64 (align_up (align_of a64 t) off + size_of a64 t) r"

definition offsetof :: "nat \<Rightarrow> layout \<Rightarrow> string \<Rightarrow> nat option" where
  "offsetof a64 l f = map_of (offsets_from a64 0 l) f"


section \<open>Structures\<close>

definition fuse_attr :: layout where
  "fuse_attr =
    [(''ino'', U64), (''size'', U64), (''blocks'', U64), (''atime'', U64), (''mtime'', U64),
     (''ctime'', U64), (''crtime'', U64), (''atimensec'', U32), (''mtimensec'', U32),
     (''ctimensec'', U32), (''crtimensec'', U32), (''mode'', U32), (''nlink'', U32),
     (''uid'', U32), (''gid'', U32), (''rdev'', U32), (''flags'', U32)]"

definition fuse_kstatfs :: layout where
  "fuse_kstatfs =
    [(''blocks'', U64), (''bfree'', U64), (''bavail'', U64), (''files'', U64), (''ffree'', U64),
     (''bsize'', U32), (''namelen'', U32), (''frsize'', U32), (''padding'', U32),
     (''spare'', CArray U32 6)]"

definition fuse_file_lock :: layout where
  "fuse_file_lock = [(''start'', U64), (''end'', U64), (''type'', U32), (''pid'', U32)]"

definition fuse_entry_out :: layout where
  "fuse_entry_out =
    [(''nodeid'', U64), (''generation'', U64), (''entry_valid'', U64), (''attr_valid'', U64),
     (''entry_valid_nsec'', U32), (''attr_valid_nsec'', U32), (''attr'', struct_of fuse_attr)]"

definition fuse_forget_in :: layout where
  "fuse_forget_in = [(''nlookup'', U64)]"

definition fuse_attr_out :: layout where
  "fuse_attr_out =
    [(''attr_valid'', U64), (''attr_valid_nsec'', U32), (''dummy'', U32),
     (''attr'', struct_of fuse_attr)]"

definition fuse_getxtimes_out :: layout where
  "fuse_getxtimes_out =
    [(''bkuptime'', U64), (''crtime'', U64), (''bkuptimensec'', U32), (''crtimensec'', U32)]"

definition fuse_mknod_in :: layout where
  "fuse_mknod_in = [(''mode'', U32), (''rdev'', U32)]"

definition fuse_mkdir_in :: layout where
  "fuse_mkdir_in = [(''mode'', U32), (''padding'', U32)]"

definition fuse_rename_in :: layout where
  "fuse_rename_in = [(''newdir'', U64)]"

definition fuse_exchange_in :: layout where
  "fuse_exchange_in = [(''olddir'', U64), (''newdir'', U64), (''options'', U64)]"

definition fuse_link_in :: layout where
  "fuse_link_in = [(''oldnodeid'', U64)]"

definition fuse_setattr_in :: layout where
  "fuse_setattr_in =
    [(''valid'', U32), (''padding'', U32), (''fh'', U64), (''size'', U64), (''unused1'', U64),
     (''atime'', U64), (''mtime'', U64), (''unused2'', U64), (''atimensec'', U32),
     (''mtimensec'', U32), (''unused3'', U32), (''mode'', U32), (''unused4'', U32),
     (''uid'', U32), (''gid'', U32), (''unused5'', U32), (''bkuptime'', U64), (''chgtime'', U64),
     (''crtime'', U64), (''bkuptimensec'', U32), (''chgtimensec'', U32), (''crtimensec'', U32),
     (''flags'', U32)]"

definition fuse_open_in :: layout where
  "fuse_open_in = [(''flags'', U32), (''mode'', U32)]"

definition fuse_open_out :: layout where
  "fuse_open_out = [(''fh'', U64), (''open_flags'', U32), (''padding'', U32)]"

definition fuse_release_in :: layout where
  "fuse_release_in =
    [(''fh'', U64), (''flags'', U32), (''release_flags'', U32), (''lock_owner'', U64)]"

definition fuse_flush_in :: layout where
  "fuse_flush_in = [(''fh'', U64), (''unused'', U32), (''padding'', U32), (''lock_owner'', U64)]"

definition fuse_read_in :: layout where
  "fuse_read_in = [(''fh'', U64), (''offset'', U64), (''size'', U32), (''padding'', U32)]"

definition fuse_write_in :: layout where
  "fuse_write_in = [(''fh'', U64), (''offset'', U64), (''size'', U32), (''write_flags'', U32)]"

definition fuse_write_out :: layout where
  "fuse_write_out = [(''size'', U32), (''padding'', U32)]"

definition fuse_statfs_out :: layout where
  "fuse_statfs_out = [(''st'', struct_of fuse_kstatfs)]"

definition fuse_fsync_in :: layout where
  "fuse_fsync_in = [(''fh'', U64), (''fsync_flags'', U32), (''padding'', U32)]"

definition fuse_setxattr_in :: layout where
  "fuse_setxattr_in = [(''size'', U32), (''flags'', U32), (''position'', U32), (''padding'', U32)]"

definition fuse_getxattr_in :: layout where
  "fuse_getxattr_in = [(''size'', U32), (''padding'', U32), (''position'', U32), (''padding2'', U32)]"

definition fuse_getxattr_out :: layout where
  "fuse_getxattr_out = [(''size'', U32), (''padding'', U32)]"

definition fuse_lk_in :: layout where
  "fuse_lk_in = [(''fh'', U64), (''owner'', U64), (''lk'', struct_of fuse_file_lock)]"

definition fuse_lk_out :: layout where
  "fuse_lk_out = [(''lk'', struct_of fuse_file_lock)]"

definition fuse_access_in :: layout where
  "fuse_access_in = [(''mask'', U32), (''padding'', U32)]"

definition fuse_init_in :: layout where
  "fuse_init_in = [(''major'', U32), (''minor'', U32), (''max_readahead'', U32), (''flags'', U32)]"

definition fuse_init_out :: layout where
  "fuse_init_out =
    [(''major'', U32), (''minor'', U32), (''max_readahead'', U32), (''flags'', U32),
     (''unused'', U32), (''max_write'', U32)]"

definition fuse_interrupt_in :: layout where
  "fuse_interrupt_in = [(''unique'', U64)]"

definition fuse_bmap_in :: layout where
  "fuse_bmap_in = [(''block'', U64), (''blocksize'', U32), (''padding'', U32)]"

definition fuse_bmap_out :: layout where
  "fuse_bmap_out = [(''block'', U64)]"

definition fuse_in_header_layout :: layout where
  "fuse_in_header_layout =
    [(''len'', U32), (''opcode'', U32), (''unique'', U64), (''nodeid'', U64), (''uid'', U32),
     (''gid'', U32), (''pid'', U32), (''padding'', U32)]"

definition fuse_out_header_layout :: layout where
  "fuse_out_header_layout = [(''len'', U32), (''error'', S32), (''unique'', U64)]"

text \<open>\<^verbatim>\<open>fuse_dirent\<close> ends in a zero-length \<^verbatim>\<open>name\<close> array, which adds nothing.\<close>

definition fuse_dirent_layout :: layout where
  "fuse_dirent_layout = [(''ino'', U64), (''off'', U64), (''namelen'', U32), (''type'', U32)]"



section \<open>Request opcodes\<close>

datatype fuse_opcode =
    FUSE_LOOKUP | FUSE_FORGET | FUSE_GETATTR | FUSE_SETATTR | FUSE_READLINK | FUSE_SYMLINK
  | FUSE_MKNOD | FUSE_MKDIR | FUSE_UNLINK | FUSE_RMDIR | FUSE_RENAME | FUSE_LINK | FUSE_OPEN
  | FUSE_READ | FUSE_WRITE | FUSE_STATFS | FUSE_RELEASE | FUSE_FSYNC | FUSE_SETXATTR
  | FUSE_GETXATTR | FUSE_LISTXATTR | FUSE_REMOVEXATTR | FUSE_FLUSH | FUSE_INIT | FUSE_OPENDIR
  | FUSE_READDIR | FUSE_RELEASEDIR | FUSE_FSYNCDIR | FUSE_GETLK | FUSE_SETLK | FUSE_SETLKW
  | FUSE_ACCESS | FUSE_CREATE | FUSE_INTERRUPT | FUSE_BMAP | FUSE_DESTROY | FUSE_SETVOLNAME
  | FUSE_GETXTIMES | FUSE_EXCHANGE

fun opcode_num :: "fuse_opcode \<Rightarrow> nat" where
  "opcode_num FUSE_LOOKUP = 1"
| "opcode_num FUSE_FORGET = 2"
| "opcode_num FUSE_GETATTR = 3"
| "opcode_num FUSE_SETATTR = 4"
| "opcode_num FUSE_READLINK = 5"
| "opcode_num FUSE_SYMLINK = 6"
| "opcode_num FUSE_MKNOD = 8"
| "opcode_num FUSE_MKDIR = 9"
| "opcode_num FUSE_UNLINK = 10"
| "opcode_num FUSE_RMDIR = 11"
| "opcode_num FUSE_RENAME = 12"
| "opcode_num FUSE_LINK = 13"
| "opcode_num FUSE_OPEN = 14"
| "opcode_num FUSE_READ = 15"
| "opcode_num FUSE_WRITE = 16"
| "opcode_num FUSE_STATFS = 17"
| "opcode_num FUSE_RELEASE = 18"
| "opcode_num FUSE_FSYNC = 20"
| "opcode_num FUSE_SETXATTR = 21"
| "opcode_num FUSE_GETXATTR = 22"
| "opcode_num FUSE_LISTXATTR = 23"
| "opcode_num FUSE_REMOVEXATTR = 24"
| "opcode_num FUSE_FLUSH = 25"
| "opcode_num FUSE_INIT = 26"
| "opcode_num FUSE_OPENDIR = 27"
| "opcode_num FUSE_READDIR = 28"
| "opcode_num FUSE_RELEASEDIR = 29"
| "opcode_num FUSE_FSYNCDIR = 30"
| "opcode_num FUSE_GETLK = 31"
| "opcode_num FUSE_SETLK = 32"
| "opcode_num FUSE_SETLKW = 33"
| "opcode_num FUSE_ACCESS = 34"
| "opcode_num FUSE_CREATE = 35"
| "opcode_num FUSE_INTERRUPT = 36"
| "opcode_num FUSE_BMAP = 37"
| "opcode_num FUSE_DESTROY = 38"
| "opcode_num FUSE_SETVOLNAME = 61"
| "opcode_num FUSE_GETXTIMES = 62"
| "opcode_num FUSE_EXCHANGE = 63"

definition all_opcodes :: "fuse_opcode list" where
  "all_opcodes =
    [FUSE_LOOKUP, FUSE_FORGET, FUSE_GETATTR, FUSE_SETATTR, FUSE_READLINK, FUSE_SYMLINK,
     FUSE_MKNOD, FUSE_MKDIR, FUSE_UNLINK, FUSE_RMDIR, FUSE_RENAME, FUSE_LINK, FUSE_OPEN,
     FUSE_READ, FUSE_WRITE, FUSE_STATFS, FUSE_RELEASE, FUSE_FSYNC, FUSE_SETXATTR,
     FUSE_GETXATTR, FUSE_LISTXATTR, FUSE_REMOVEXATTR, FUSE_FLUSH, FUSE_INIT, FUSE_OPENDIR,
     FUSE_READDIR, FUSE_RELEASEDIR, FUSE_FSYNCDIR, FUSE_GETLK, FUSE_SETLK, FUSE_SETLKW,
     FUSE_ACCESS, FUSE_CREATE, FUSE_INTERRUPT, FUSE_BMAP, FUSE_DESTROY, FUSE_SETVOLNAME,
     FUSE_GETXTIMES, FUSE_EXCHANGE]"

text \<open>The opcode that a header's 32-bit opcode field names, if it names one.\<close>

definition opcode_of_num :: "nat \<Rightarrow> fuse_opcode option" where
  "opcode_of_num n = find (\<lambda>op. opcode_num op = n) all_opcodes"

section \<open>Message headers\<close>

record in_header =
  ih_len :: u32
  ih_opcode :: u32
  ih_unique :: u64
  ih_nodeid :: u64
  ih_uid :: u32
  ih_gid :: u32
  ih_pid :: u32
  ih_padding :: u32

record out_header =
  oh_len :: u32
  oh_error :: u32
  oh_unique :: u64

text \<open>The bytes of a header in memory, member by member at the offsets of the layout.\<close>

definition encode_in_header :: "in_header \<Rightarrow> bytes" where
  "encode_in_header h =
     le_bytes 4 (unat (ih_len h)) @ le_bytes 4 (unat (ih_opcode h)) @
     le_bytes 8 (unat (ih_unique h)) @ le_bytes 8 (unat (ih_nodeid h)) @
     le_bytes 4 (unat (ih_uid h)) @ le_bytes 4 (unat (ih_gid h)) @
     le_bytes 4 (unat (ih_pid h)) @ le_bytes 4 (unat (ih_padding h))"

definition decode_in_header :: "bytes \<Rightarrow> in_header" where
  "decode_in_header bs =
     \<lparr>ih_len = word_of_nat (field_at 0 4 bs), ih_opcode = word_of_nat (field_at 4 4 bs),
      ih_unique = word_of_nat (field_at 8 8 bs), ih_nodeid = word_of_nat (field_at 16 8 bs),
      ih_uid = word_of_nat (field_at 24 4 bs), ih_gid = word_of_nat (field_at 28 4 bs),
      ih_pid = word_of_nat (field_at 32 4 bs), ih_padding = word_of_nat (field_at 36 4 bs)\<rparr>"

definition encode_out_header :: "out_header \<Rightarrow> bytes" where
  "encode_out_header h =
     le_bytes 4 (unat (oh_len h)) @ le_bytes 4 (unat (oh_error h)) @
     le_bytes 8 (unat (oh_unique h))"

definition decode_out_header :: "bytes \<Rightarrow> out_header" where
  "decode_out_header bs =
     \<lparr>oh_len = word_of_nat (field_at 0 4 bs), oh_error = word_of_nat (field_at 4 4 bs),
      oh_unique = word_of_nat (field_at 8 8 bs)\<rparr>"

section \<open>Directory entries\<close>

definition FUSE_NAME_OFFSET :: nat where
  "FUSE_NAME_OFFSET = 24"

definition FUSE_DIRENT_ALIGN :: "u64 \<Rightarrow> u64" where
  "FUSE_DIRENT_ALIGN x = (x + 8 - 1) AND NOT (8 - 1)"

definition FUSE_DIRENT_SIZE :: "u32 \<Rightarrow> u64" where
  "FUSE_DIRENT_SIZE namelen = FUSE_DIRENT_ALIGN (of_nat FUSE_NAME_OFFSET + ucast namelen)"

section \<open>Lemmas\<close>

lemmas struct_defs =
  fuse_attr_def fuse_kstatfs_def fuse_file_lock_def fuse_entry_out_def fuse_forget_in_def
  fuse_attr_out_def fuse_getxtimes_out_def fuse_mknod_in_def fuse_mkdir_in_def
  fuse_rename_in_def fuse_exchange_in_def fuse_link_in_def fuse_setattr_in_def
  fuse_open_in_def fuse_open_out_def fuse_release_in_def fuse_flush_in_def fuse_read_in_def
  fuse_write_in_def fuse_write_out_def fuse_statfs_out_def fuse_fsync_in_def
  fuse_setxattr_in_def fuse_getxattr_in_def fuse_getxattr_out_def fuse_lk_in_def
  fuse_lk_out_def fuse_access_in_def fuse_init_in_def fuse_init_out_def
  fuse_interrupt_in_def fuse_bmap_in_def fuse_bmap_out_def fuse_in_header_layout_def
  fuse_out_header_layout_def fuse_dirent_layout_def

lemmas layout_eval = sizeof_def struct_of_def align_up_def struct_defs

lemma sizeof_headers [simp]:
  "sizeof 8 fuse_in_header_layout = 40"
  "sizeof 8 fuse_out_header_layout = 16"
  "sizeof 8 fuse_dirent_layout = 24"
  by (simp_all add: layout_eval)

lemma sizeof_replies [simp]:
  "sizeof 8 fuse_entry_out = 136"
  "sizeof 8 fuse_attr_out = 112"
  "sizeof 8 fuse_getxtimes_out = 24"
  "sizeof 8 fuse_open_out = 16"
  "sizeof 8 fuse_write_out = 8"
  "sizeof 8 fuse_statfs_out = 80"
  "sizeof 8 fuse_init_out = 24"
  by (simp_all add: layout_eval)

lemma field_at_prefix: "length v = n \<Longrightarrow> field_at 0 n (v @ r) = le_value v"
  by (simp add: field_at_def)

lemma field_at_skip:
  "length v \<le> off \<Longrightarrow> field_at off n (v @ r) = field_at (off - length v) n r"
  by (simp add: field_at_def)

lemmas header_codec =
  field_at_prefix field_at_skip le_value_word32 le_value_word64

lemma length_encode_in_header [simp]: "length (encode_in_header h) = 40"
  by (simp add: encode_in_header_def)

lemma length_encode_out_header [simp]: "length (encode_out_header h) = 16"
  by (simp add: encode_out_header_def)

lemma decode_encode_in_header: "decode_in_header (encode_in_header h @ r) = h"
  by (simp add: decode_in_header_def encode_in_header_def header_codec)

lemma decode_encode_out_header: "decode_out_header (encode_out_header h @ r) = h"
  by (simp add: decode_out_header_def encode_out_header_def header_codec)

lemma opcode_of_num_opcode_num: "opcode_of_num (opcode_num op) = Some op"
  by (cases op) (simp_all add: opcode_of_num_def all_opcodes_def)

lemma opcode_num_less: "opcode_num op < 64"
  by (cases op) simp_all

lemma unat_and_minus_8: "unat ((x :: u64) AND - 8) = unat x div 8 * 8"
proof -
  have m: "(7 :: u64) = mask 3" by (simp add: mask_eq_exp_minus_1)
  have n: "(- 8 :: u64) = NOT 7" by simp
  have "x AND - 8 = push_bit 3 (drop_bit 3 x)"
    unfolding n m by (rule bit_word_eqI)
      (auto simp: bit_and_iff bit_not_iff bit_push_bit_iff bit_drop_bit_eq bit_mask_iff)
  also have "\<dots> = word_of_nat (unat x div 8 * 8)"
    by (simp add: push_bit_eq_mult drop_bit_eq_div word_arith_nat_div)
  finally show ?thesis
    using unat_u64_less [of x] by (simp add: unat_word_ariths unat_of_nat take_bit_eq_mod)
qed

lemma unat_FUSE_DIRENT_SIZE: "unat (FUSE_DIRENT_SIZE n) = align_up 8 (FUSE_NAME_OFFSET + unat n)"
proof -
  have "unat (of_nat FUSE_NAME_OFFSET + ucast n + 8 - 1 :: u64) = FUSE_NAME_OFFSET + unat n + 7"
    using unat_u32_less [of n]
    by (simp add: FUSE_NAME_OFFSET_def unat_word_ariths unsigned_ucast_eq take_bit_eq_mod)
  then show ?thesis
    by (simp add: FUSE_DIRENT_SIZE_def FUSE_DIRENT_ALIGN_def unat_and_minus_8 align_up_def)
qed

section \<open>Properties\<close>


text \<open>
  the two message headers survive the trip through memory: decoding the bytes of a header,
  whatever follows them, gives the header back, and each header takes exactly the number of
  bytes that \<^verbatim>\<open>sizeof\<close> gives, so a body starts right behind it.
\<close>

lemma header_roundtrip:
  "decode_in_header (encode_in_header h @ body) = h \<and>
   length (encode_in_header h) = sizeof 8 fuse_in_header_layout \<and>
   decode_out_header (encode_out_header k @ body) = k \<and>
   length (encode_out_header k) = sizeof 8 fuse_out_header_layout"
  by (simp add: decode_encode_in_header decode_encode_out_header)

text \<open>
  The size of a directory entry is the least multiple of eight that holds the fixed part and
  the name, with no wrap-around for any 32-bit name length.
\<close>

lemma dirent_size_least:
  "8 dvd unat (FUSE_DIRENT_SIZE n) \<and>
   FUSE_NAME_OFFSET + unat n \<le> unat (FUSE_DIRENT_SIZE n) \<and>
   unat (FUSE_DIRENT_SIZE n) < FUSE_NAME_OFFSET + unat n + 8"
proof -
  have "unat (FUSE_DIRENT_SIZE n) = (FUSE_NAME_OFFSET + unat n + 7) div 8 * 8"
    by (simp add: unat_FUSE_DIRENT_SIZE align_up_def)
  then show ?thesis by presburger
qed

end
