(* ===== verification/Fuse_Iov.thy ===== *)
theory Fuse_Iov
  imports Fuse_Kernel_ABI
begin

text \<open>
  Kernel memory as the extension allocates it (\<^verbatim>\<open>fuse.h\<close>) and the resizable message
  buffers built on it (\<^verbatim>\<open>struct fuse_iov\<close> and the \<^verbatim>\<open>fiov_*\<close> functions of
  \<^verbatim>\<open>fuse_ipc.c\<close>).

  \<^verbatim>\<open>OSMalloc\<close> is the kernel's: the parameter \<open>osm\<close> maps the number of bytes asked for to
  the block it returns, with whatever bytes the block holds, or to \<open>None\<close> when it fails.
  \<open>osm_ok\<close> says what its documentation promises: a block has the sz that was asked for.
\<close>

type_synonym osmalloc = "nat \<Rightarrow> bytes option"

definition osm_ok :: "osmalloc \<Rightarrow> bool" where
  "osm_ok osm \<longleftrightarrow> (\<forall>n b. osm n = Some b \<longrightarrow> length b = n)"

definition zero_osm :: osmalloc where
  "zero_osm n = Some (replicate n 0)"

section \<open>Tunables and counters\<close>

text \<open>
  The tunables of \<^verbatim>\<open>fuse_sysctl.c\<close>. \<open>sizeof_fuse_ticket\<close> and \<open>sizeof_fuse_data\<close> are the
  sizes the compiler gives the two structures, which contain kernel types: they are parameters
  like them.
\<close>

record fuse_tunables =
  fuse_iov_credit :: int
  fuse_iov_permanent_bufsize :: u32
  fuse_max_freetickets :: u32
  fuse_max_tickets :: u32
  fuse_userkernel_bufsize :: u32
  sizeof_fuse_ticket :: nat
  sizeof_fuse_data :: nat

definition fuse_tunables_default :: fuse_tunables where
  "fuse_tunables_default =
     \<lparr>fuse_iov_credit = 16, fuse_iov_permanent_bufsize = 524288, fuse_max_freetickets = 1024,
      fuse_max_tickets = 0, fuse_userkernel_bufsize = 16777216, sizeof_fuse_ticket = 320,
      sizeof_fuse_data = 1384\<rparr>"

record fuse_counters =
  fuse_fh_current :: u32
  fuse_fh_reuse_count :: u32
  fuse_fh_upcall_count :: u32
  fuse_iov_current :: u32
  fuse_lookup_cache_hits :: u32
  fuse_lookup_cache_misses :: u32
  fuse_lookup_cache_overrides :: u32
  fuse_memory_allocated :: u32
  fuse_realloc_count :: u32
  fuse_tickets_current :: u32
  fuse_vnodes_current :: u32

definition fuse_counters_init :: fuse_counters where
  "fuse_counters_init =
     \<lparr>fuse_fh_current = 0, fuse_fh_reuse_count = 0, fuse_fh_upcall_count = 0,
      fuse_iov_current = 0, fuse_lookup_cache_hits = 0, fuse_lookup_cache_misses = 0,
      fuse_lookup_cache_overrides = 0, fuse_memory_allocated = 0, fuse_realloc_count = 0,
      fuse_tickets_current = 0, fuse_vnodes_current = 0\<rparr>"

section \<open>Allocation\<close>

text \<open>
  The size is cut to 32 bits on its way to \<^verbatim>\<open>OSMalloc\<close>, and, because
  \<^verbatim>\<open>FUSE_COUNT_MEMORY\<close> is defined, a failed allocation panics here.
\<close>

definition FUSE_OSMalloc ::
    "osmalloc \<Rightarrow> nat \<Rightarrow> fuse_counters \<Rightarrow> (bytes \<times> fuse_counters) outcome" where
  "FUSE_OSMalloc osm sz g =
     (case osm (sz mod 2 ^ 32) of
        None \<Rightarrow> Panic
      | Some b \<Rightarrow> Done (b, g\<lparr>fuse_memory_allocated := fuse_memory_allocated g + of_nat sz\<rparr>))"

definition FUSE_OSFree :: "nat \<Rightarrow> fuse_counters \<Rightarrow> fuse_counters" where
  "FUSE_OSFree sz g = g\<lparr>fuse_memory_allocated := fuse_memory_allocated g - of_nat sz\<rparr>"

definition FUSE_OSRealloc_nocopy ::
    "osmalloc \<Rightarrow> nat \<Rightarrow> nat \<Rightarrow> fuse_counters \<Rightarrow> (bytes \<times> fuse_counters) outcome" where
  "FUSE_OSRealloc_nocopy osm oldsize newsize g =
     bind_outcome (FUSE_OSMalloc osm newsize g) (\<lambda>(data, g1).
       let g2 = FUSE_OSFree oldsize g1
       in Done (data, g2\<lparr>fuse_realloc_count := fuse_realloc_count g2 + 1\<rparr>))"

text \<open>The variant for callers that can handle a failure: \<open>None\<close> is the null pointer.\<close>

definition FUSE_OSRealloc_nocopy_canfail ::
    "osmalloc \<Rightarrow> nat \<Rightarrow> nat \<Rightarrow> fuse_counters \<Rightarrow> (bytes option \<times> fuse_counters) outcome" where
  "FUSE_OSRealloc_nocopy_canfail osm oldsize newsize g =
     bind_outcome (FUSE_OSMalloc osm newsize g) (\<lambda>(data, g1).
       let g2 = FUSE_OSFree oldsize g1
       in Done (Some data, g2\<lparr>fuse_realloc_count := fuse_realloc_count g2 + 1\<rparr>))"

section \<open>Message buffers\<close>

record fuse_iov =
  base :: bytes
  len :: nat
  allocated_size :: nat
  credit :: int

definition FU_AT_LEAST :: "nat \<Rightarrow> nat" where
  "FU_AT_LEAST siz = max siz 160"

definition bzero :: "nat \<Rightarrow> bytes \<Rightarrow> bytes" where
  "bzero n b = write_at 0 (replicate n 0) b"

definition fiov_init ::
    "fuse_tunables \<Rightarrow> osmalloc \<Rightarrow> nat \<Rightarrow> fuse_counters \<Rightarrow> (fuse_iov \<times> fuse_counters) outcome" where
  "fiov_init tun osm sz g =
     (let msize = FU_AT_LEAST sz
      in bind_outcome (FUSE_OSMalloc osm msize g) (\<lambda>(b, g1).
           Done (\<lparr>base = bzero msize b, len = 0, allocated_size = msize,
                  credit = fuse_iov_credit tun\<rparr>,
                 g1\<lparr>fuse_iov_current := fuse_iov_current g1 + 1\<rparr>)))"

definition fiov_teardown :: "fuse_iov \<Rightarrow> fuse_counters \<Rightarrow> fuse_iov \<times> fuse_counters" where
  "fiov_teardown fiov g =
     (let g1 = FUSE_OSFree (allocated_size fiov) g
      in (fiov\<lparr>base := [], allocated_size := 0\<rparr>,
          g1\<lparr>fuse_iov_current := fuse_iov_current g1 - 1\<rparr>))"

text \<open>
  The condition of \<^verbatim>\<open>fiov_adjust\<close> with its side effect: the credit is spent only when the
  buffer is large enough and more than the permanent sz would stay unused. The tunable is
  unsigned, so the test whether it is negative never fails.
\<close>

definition fiov_must_realloc :: "fuse_tunables \<Rightarrow> fuse_iov \<Rightarrow> nat \<Rightarrow> bool \<times> fuse_iov" where
  "fiov_must_realloc tun fiov sz =
     (if allocated_size fiov < sz then (True, fiov)
      else if allocated_size fiov - sz > unat (fuse_iov_permanent_bufsize tun)
      then (credit fiov - 1 < 0, fiov\<lparr>credit := credit fiov - 1\<rparr>)
      else (False, fiov))"

definition fiov_adjust ::
    "fuse_tunables \<Rightarrow> osmalloc \<Rightarrow> fuse_iov \<Rightarrow> nat \<Rightarrow> fuse_counters \<Rightarrow>
     (fuse_iov \<times> fuse_counters) outcome" where
  "fiov_adjust tun osm fiov sz g =
     (case fiov_must_realloc tun fiov sz of
        (True, fiov1) \<Rightarrow>
          bind_outcome
            (FUSE_OSRealloc_nocopy osm (allocated_size fiov1) (FU_AT_LEAST sz) g)
            (\<lambda>(b, g1). Done (fiov1\<lparr>base := b, allocated_size := FU_AT_LEAST sz,
                                 credit := fuse_iov_credit tun, len := sz\<rparr>, g1))
      | (False, fiov1) \<Rightarrow> Done (fiov1\<lparr>len := sz\<rparr>, g))"

definition fiov_adjust_canfail ::
    "fuse_tunables \<Rightarrow> osmalloc \<Rightarrow> fuse_iov \<Rightarrow> nat \<Rightarrow> fuse_counters \<Rightarrow>
     (errno \<times> fuse_iov \<times> fuse_counters) outcome" where
  "fiov_adjust_canfail tun osm fiov sz g =
     (case fiov_must_realloc tun fiov sz of
        (True, fiov1) \<Rightarrow>
          bind_outcome
            (FUSE_OSRealloc_nocopy_canfail osm (allocated_size fiov1) (FU_AT_LEAST sz) g)
            (\<lambda>(tmpbase, g1). case tmpbase of
                None \<Rightarrow> Done (ENOMEM, fiov1, g1)
              | Some b \<Rightarrow> Done (0, fiov1\<lparr>base := b, allocated_size := FU_AT_LEAST sz,
                                      credit := fuse_iov_credit tun, len := sz\<rparr>, g1))
      | (False, fiov1) \<Rightarrow> Done (0, fiov1\<lparr>len := sz\<rparr>, g))"

definition fiov_refresh ::
    "fuse_tunables \<Rightarrow> osmalloc \<Rightarrow> fuse_iov \<Rightarrow> fuse_counters \<Rightarrow>
     (fuse_iov \<times> fuse_counters) outcome" where
  "fiov_refresh tun osm fiov g =
     fiov_adjust tun osm (fiov\<lparr>base := bzero (len fiov) (base fiov)\<rparr>) 0 g"

section \<open>Well-formed buffers\<close>

definition fiov_wf :: "fuse_iov \<Rightarrow> bool" where
  "fiov_wf f \<longleftrightarrow>
     length (base f) = allocated_size f \<and> len f \<le> allocated_size f \<and> 160 \<le> allocated_size f"

lemma osm_okD: "osm_ok osm \<Longrightarrow> osm n = Some b \<Longrightarrow> length b = n"
  by (simp add: osm_ok_def)

lemma osm_ok_zero: "osm_ok zero_osm"
  by (simp add: osm_ok_def zero_osm_def)

lemma length_bzero [simp]: "n \<le> length b \<Longrightarrow> length (bzero n b) = length b"
  by (simp add: bzero_def)

lemma FU_AT_LEAST_bounds: "n \<le> FU_AT_LEAST n" "160 \<le> FU_AT_LEAST n"
  by (simp_all add: FU_AT_LEAST_def)

lemma FU_AT_LEAST_small: "n < 2 ^ 32 \<Longrightarrow> FU_AT_LEAST n < 2 ^ 32"
  by (simp add: FU_AT_LEAST_def)

lemma FUSE_OSMalloc_Done:
  assumes "FUSE_OSMalloc osm sz g = Done (b, g')" "osm_ok osm" "sz < 2 ^ 32"
  shows "length b = sz"
  using assms by (auto simp: FUSE_OSMalloc_def split: option.splits dest: osm_okD)

lemma fiov_must_realloc_False:
  "fiov_must_realloc tun f sz = (False, f1) \<Longrightarrow>
     sz \<le> allocated_size f \<and> base f1 = base f \<and> allocated_size f1 = allocated_size f \<and>
     len f1 = len f"
  by (auto simp: fiov_must_realloc_def split: if_splits)

lemma fiov_must_realloc_fields:
  "fiov_must_realloc tun f sz = (r, f1) \<Longrightarrow>
     base f1 = base f \<and> allocated_size f1 = allocated_size f \<and> len f1 = len f"
  by (auto simp: fiov_must_realloc_def split: if_splits)

lemma FUSE_OSRealloc_nocopy_Done:
  assumes "FUSE_OSRealloc_nocopy osm o' n g = Done (b, g')" "osm_ok osm" "n < 2 ^ 32"
  shows "length b = n"
  using assms
  by (auto simp: FUSE_OSRealloc_nocopy_def bind_outcome_Done_iff Let_def dest: FUSE_OSMalloc_Done)

lemma canfail_eq_realloc:
  "FUSE_OSRealloc_nocopy_canfail osm o' n g =
     bind_outcome (FUSE_OSRealloc_nocopy osm o' n g) (\<lambda>(b, g'). Done (Some b, g'))"
  unfolding FUSE_OSRealloc_nocopy_canfail_def FUSE_OSRealloc_nocopy_def
  by (cases "FUSE_OSMalloc osm n g") (auto simp: Let_def)

lemma fiov_adjust_canfail_eq:
  "fiov_adjust_canfail tun osm f sz g =
     bind_outcome (fiov_adjust tun osm f sz g) (\<lambda>(f', g'). Done (0, f', g'))"
  unfolding fiov_adjust_canfail_def fiov_adjust_def canfail_eq_realloc
  by (auto simp: bind_outcome_assoc split: prod.splits bool.splits intro!: bind_outcome_cong)

lemma fiov_init_wf:
  assumes "fiov_init tun osm sz g = Done (f, g')" "osm_ok osm" "sz < 2 ^ 32"
  shows "fiov_wf f \<and> len f = 0 \<and> base f = replicate (FU_AT_LEAST sz) 0"
proof -
  from assms(1) obtain b g1 where m: "FUSE_OSMalloc osm (FU_AT_LEAST sz) g = Done (b, g1)"
    and f: "f = \<lparr>base = bzero (FU_AT_LEAST sz) b, len = 0,
                 allocated_size = FU_AT_LEAST sz, credit = fuse_iov_credit tun\<rparr>"
    by (auto simp: fiov_init_def bind_outcome_Done_iff Let_def)
  have "length b = FU_AT_LEAST sz"
    using m assms(2) FU_AT_LEAST_small [OF assms(3)] by (rule FUSE_OSMalloc_Done)
  then show ?thesis
    using FU_AT_LEAST_bounds [of sz] by (simp add: f fiov_wf_def bzero_def write_at_def)
qed

lemma fiov_adjust_wf:
  assumes "fiov_adjust tun osm f sz g = Done (f', g')" "osm_ok osm" "sz < 2 ^ 32" "fiov_wf f"
  shows "fiov_wf f' \<and> len f' = sz"
proof (cases "fiov_must_realloc tun f sz")
  case (Pair r f1)
  note fields = fiov_must_realloc_fields [OF Pair]
  show ?thesis
  proof (cases r)
    case True
    with assms(1) Pair obtain b where
      m: "FUSE_OSRealloc_nocopy osm (allocated_size f1) (FU_AT_LEAST sz) g = Done (b, g')"
      and f': "f' = f1\<lparr>base := b, allocated_size := FU_AT_LEAST sz,
                       credit := fuse_iov_credit tun, len := sz\<rparr>"
      by (auto simp: fiov_adjust_def bind_outcome_Done_iff)
    have "length b = FU_AT_LEAST sz"
      using m assms(2) FU_AT_LEAST_small [OF assms(3)] by (rule FUSE_OSRealloc_nocopy_Done)
    then show ?thesis
      using FU_AT_LEAST_bounds [of sz] by (simp add: f' fiov_wf_def)
  next
    case False
    with assms(1) Pair have "f' = f1\<lparr>len := sz\<rparr>" by (simp add: fiov_adjust_def)
    moreover have "sz \<le> allocated_size f"
      using Pair False fiov_must_realloc_False [of tun f sz f1] by simp
    ultimately show ?thesis using fields assms(4) by (simp add: fiov_wf_def)
  qed
qed

lemma fiov_wf_bzero: "fiov_wf f \<Longrightarrow> fiov_wf (f\<lparr>base := bzero (len f) (base f)\<rparr>)"
  by (simp add: fiov_wf_def)

lemma fiov_refresh_wf:
  assumes "fiov_refresh tun osm f g = Done (f', g')" "osm_ok osm" "fiov_wf f"
  shows "fiov_wf f' \<and> len f' = 0"
proof -
  have "fiov_adjust tun osm (f\<lparr>base := bzero (len f) (base f)\<rparr>) 0 g = Done (f', g')"
    using assms(1) by (simp add: fiov_refresh_def)
  moreover have "(0 :: nat) < 2 ^ 32" by simp
  ultimately show ?thesis
    using fiov_adjust_wf assms(2) fiov_wf_bzero [OF assms(3)] by blast
qed

section \<open>Properties\<close>

text \<open>
  a message buffer always really holds the bytes its length claims. Creating, resizing (by
  less than 4 GB) and recycling a buffer keep the block as large as the recorded allocation,
  never below 160 bytes, and at least as large as the length in use, which is the requested one.
\<close>

lemma fiov_buffers_wf:
  assumes "osm_ok osm" and "sz < 2 ^ 32" and "fiov_wf f"
  shows "(\<forall>f' g'. fiov_adjust tun osm f sz g = Done (f', g') \<longrightarrow> fiov_wf f' \<and> len f' = sz) \<and>
    (\<forall>f' g'. fiov_refresh tun osm f g = Done (f', g') \<longrightarrow> fiov_wf f' \<and> len f' = 0) \<and>
    (\<forall>f' g'. fiov_init tun osm sz g = Done (f', g') \<longrightarrow> fiov_wf f' \<and> len f' = 0)"
  using assms fiov_adjust_wf fiov_refresh_wf fiov_init_wf by blast

definition sample_iov :: fuse_iov where
  "sample_iov = \<lparr>base = replicate 160 0, len = 40, allocated_size = 160, credit = 16\<rparr>"

theorem fiov_buffers_wf_witness:
  "\<exists>f' g'. fiov_adjust fuse_tunables_default zero_osm sample_iov 300 fuse_counters_init = Done (f', g') \<and>
     fiov_wf f' \<and> len f' = 300"
proof -
  obtain f' g' where r:
    "fiov_adjust fuse_tunables_default zero_osm sample_iov 300 fuse_counters_init = Done (f', g')"
    by (simp add: fiov_adjust_def fiov_must_realloc_def sample_iov_def FUSE_OSRealloc_nocopy_def
        FUSE_OSMalloc_def zero_osm_def FU_AT_LEAST_def Let_def)
  have wf: "fiov_wf sample_iov" by (simp add: fiov_wf_def sample_iov_def)
  have "(300 :: nat) < 2 ^ 32" by simp
  from fiov_buffers_wf [OF osm_ok_zero this wf] r show ?thesis by blast
qed

text \<open>
  The resize that is meant to be able to fail cannot: whenever it has to reallocate and the
  kernel has no memory, it panics like the other one, and when it returns it returns zero. The
  callers' \<^verbatim>\<open>ENOMEM\<close> paths are dead code.
\<close>

lemma fiov_adjust_canfail_panics:
  assumes "fst (fiov_must_realloc tun f sz)" and "osm (FU_AT_LEAST sz mod 2 ^ 32) = None"
  shows "fiov_adjust_canfail tun osm f sz g = Panic \<and>
         (\<forall>osm' h e f' h'. fiov_adjust_canfail tun osm' f sz h = Done (e, f', h') \<longrightarrow> e = 0)"
proof -
  obtain f1 where "fiov_must_realloc tun f sz = (True, f1)"
    using assms(1) by (cases "fiov_must_realloc tun f sz") auto
  then have "fiov_adjust_canfail tun osm f sz g = Panic"
    using assms(2)
    by (simp add: fiov_adjust_canfail_def FUSE_OSRealloc_nocopy_canfail_def FUSE_OSMalloc_def)
  moreover have "e = 0" if "fiov_adjust_canfail tun osm' f sz h = Done (e, f', h')"
    for osm' h e f' h'
    using that by (auto simp: fiov_adjust_canfail_eq bind_outcome_Done_iff)
  ultimately show ?thesis by blast
qed

lemma fiov_adjust_canfail_panics_witness:
  "fst (fiov_must_realloc fuse_tunables_default sample_iov 300) \<and>
   fiov_adjust_canfail fuse_tunables_default (\<lambda>_. None) sample_iov 300 fuse_counters_init = Panic"
proof -
  have h: "fst (fiov_must_realloc fuse_tunables_default sample_iov 300)"
    by (simp add: fiov_must_realloc_def sample_iov_def)
  show ?thesis
    using h fiov_adjust_canfail_panics [OF h, where osm = "\<lambda>_. None"] by simp
qed

end
