(* ===== verification/Fuse_Queue.thy ===== *)
theory Fuse_Queue
  imports Fuse_Prelude
begin

text \<open>
  The contract of the session's tail queues (\<^verbatim>\<open>STAILQ\<close> and \<^verbatim>\<open>TAILQ\<close> of
  \<^verbatim>\<open>sys/queue.h\<close> as \<^verbatim>\<open>fuse_ipc.h\<close> wraps them): elements leave in the order in
  which they were inserted. \<open>items\<close> is the content of the queue inside the state that holds it,
  \<open>ok\<close> the invariant of the state and \<open>room\<close> the condition under which one more element fits.
\<close>

locale fifo =
  fixes push :: "'e \<Rightarrow> 's \<Rightarrow> 's"
    and pop :: "'s \<Rightarrow> 'e option \<times> 's"
    and items :: "'s \<Rightarrow> 'e list"
    and ok :: "'s \<Rightarrow> bool"
    and room :: "'s \<Rightarrow> bool"
  assumes items_push: "ok s \<Longrightarrow> room s \<Longrightarrow> items (push x s) = items s @ [x]"
    and ok_push: "ok s \<Longrightarrow> room s \<Longrightarrow> ok (push x s)"
    and pop_empty: "ok s \<Longrightarrow> items s = [] \<Longrightarrow> pop s = (None, s)"
    and pop_first: "ok s \<Longrightarrow> items s = x # xs \<Longrightarrow> fst (pop s) = Some x"
    and pop_rest: "ok s \<Longrightarrow> items s = x # xs \<Longrightarrow> items (snd (pop s)) = xs"
    and ok_pop: "ok s \<Longrightarrow> ok (snd (pop s))"
begin

fun drain :: "nat \<Rightarrow> 's \<Rightarrow> 'e list \<times> 's" where
  "drain 0 s = ([], s)"
| "drain (Suc n) s =
     (case pop s of
        (None, s1) \<Rightarrow> ([], s1)
      | (Some x, s1) \<Rightarrow> (let (xs, s2) = drain n s1 in (x # xs, s2)))"

lemma drain_take: "ok s \<Longrightarrow> fst (drain n s) = take n (items s)"
proof (induction n arbitrary: s)
  case 0
  then show ?case by simp
next
  case (Suc n)
  show ?case
  proof (cases "items s")
    case Nil
    with Suc.prems show ?thesis by (simp add: pop_empty)
  next
    case (Cons x xs)
    from Suc.prems Cons have p: "pop s = (Some x, snd (pop s))"
      by (metis pop_first prod.collapse)
    have "fst (drain n (snd (pop s))) = take n xs"
      using Suc.IH [OF ok_pop [OF Suc.prems]] pop_rest [OF Suc.prems Cons] by simp
    moreover have "fst (drain (Suc n) s) = x # fst (drain n (snd (pop s)))"
      by (subst drain.simps(2), subst p) (simp add: case_prod_beta Let_def)
    ultimately show ?thesis using Cons by simp
  qed
qed

lemma drain_items: "ok s \<Longrightarrow> items (snd (drain n s)) = drop n (items s) \<and> ok (snd (drain n s))"
proof (induction n arbitrary: s)
  case 0
  then show ?case by simp
next
  case (Suc n)
  show ?case
  proof (cases "items s")
    case Nil
    with Suc.prems show ?thesis by (simp add: pop_empty)
  next
    case (Cons x xs)
    from Suc.prems Cons have p: "pop s = (Some x, snd (pop s))"
      by (metis pop_first prod.collapse)
    have "snd (drain (Suc n) s) = snd (drain n (snd (pop s)))"
      by (subst drain.simps(2), subst p) (simp add: case_prod_beta Let_def)
    then show ?thesis
      using Suc.IH [OF ok_pop [OF Suc.prems]] pop_rest [OF Suc.prems Cons] Cons by simp
  qed
qed

lemma push_list:
  assumes "ok s" "\<And>xs t. ok t \<Longrightarrow> room t"
  shows "items (fold push xs s) = items s @ xs \<and> ok (fold push xs s)"
  using assms(1)
proof (induction xs arbitrary: s)
  case Nil
  then show ?case by simp
next
  case (Cons x xs)
  have "room s" using assms(2) Cons.prems by blast
  then show ?case
    using Cons.IH [OF ok_push [OF Cons.prems]] items_push [OF Cons.prems] by simp
qed

lemma fifo_order:
  assumes "ok s" "\<And>xs t. ok t \<Longrightarrow> room t" "items s = []"
  shows "fst (drain (length xs) (fold push xs s)) = xs"
  using push_list [OF assms(1,2), of xs] drain_take assms(3) by simp

end

end
