(* ===== verification/Fuse_Ticket.thy ===== *)
theory Fuse_Ticket
  imports Fuse_Iov Fuse_Queue
begin

text \<open>
  Tickets and the session that owns them (\<^verbatim>\<open>fuse_ipc.h\<close> and the first half of
  \<^verbatim>\<open>fuse_ipc.c\<close>): the ticket pool with its free list and its list of all tickets, the
  queue of messages for the daemon, the queue of tickets that wait for an answer, and the death
  of a session.

  A ticket is an address (a natural number) into the session's \<open>heap\<close>; an address that the heap
  does not map has been freed, and touching it is the outcome \<open>BadAccess\<close>. The queues are
  lists of addresses. Wake-ups and the dead-volume event are appended to \<open>kevents\<close>.
\<close>

section \<open>Data\<close>

type_synonym tid = nat

datatype ms_type = FT_M_FIOV | FT_M_BUF
datatype aw_type = FT_A_FIOV | FT_A_BUF

text \<open>The functions the sources install as answer handlers; \<open>None\<close> is the null pointer.\<close>

datatype fuse_handler =
    fuse_standard_handler_fn | fuse_internal_fsync_callback_fn | fuse_internal_forget_callback_fn

record fuse_ticket =
  tk_unique :: u64
  tk_flag :: u32
  tk_age :: u32
  tk_ms_fiov :: fuse_iov
  tk_ms_bufdata :: "bytes option"
  tk_ms_bufsize :: nat
  tk_ms_type :: ms_type
  tk_aw_fiov :: fuse_iov
  tk_aw_bufdata :: "bytes option"
  tk_aw_bufsize :: nat
  tk_aw_type :: aw_type
  tk_aw_ohead :: out_header
  tk_aw_errno :: errno
  tk_aw_handler :: "fuse_handler option"

definition FT_ANSW :: u32 where "FT_ANSW = 0x01"
definition FT_INVAL :: u32 where "FT_INVAL = 0x02"
definition FT_DIRTY :: u32 where "FT_DIRTY = 0x04"
definition FT_KILLL :: u32 where "FT_KILLL = 0x08"

datatype mount_state = FM_NOTMOUNTED | FM_MOUNTED

record ucred =
  cr_uid :: u32
  cr_ruid :: u32
  cr_gid :: u32
  cr_rgid :: u32
  cr_svgid :: u32

definition FSESS_DEAD :: u32 where "FSESS_DEAD = 0x00000001"
definition FSESS_OPENED :: u32 where "FSESS_OPENED = 0x00000002"
definition FSESS_INITED :: u32 where "FSESS_INITED = 0x00000004"
definition FSESS_ALLOW_OTHER :: u32 where "FSESS_ALLOW_OTHER = 0x00000010"
definition FSESS_ALLOW_ROOT :: u32 where "FSESS_ALLOW_ROOT = 0x00000020"
definition FSESS_DEFER_PERMISSIONS :: u32 where "FSESS_DEFER_PERMISSIONS = 0x00000100"
definition FSESS_DIRECT_IO :: u32 where "FSESS_DIRECT_IO = 0x00000200"
definition FSESS_NO_ALERTS :: u32 where "FSESS_NO_ALERTS = 0x00008000"
definition FSESS_NO_APPLEDOUBLE :: u32 where "FSESS_NO_APPLEDOUBLE = 0x00010000"
definition FSESS_NO_APPLEXATTR :: u32 where "FSESS_NO_APPLEXATTR = 0x00020000"
definition FSESS_NO_ATTRCACHE :: u32 where "FSESS_NO_ATTRCACHE = 0x00040000"
definition FSESS_NO_READAHEAD :: u32 where "FSESS_NO_READAHEAD = 0x00080000"
definition FSESS_NO_SYNCONCLOSE :: u32 where "FSESS_NO_SYNCONCLOSE = 0x00100000"
definition FSESS_NO_SYNCWRITES :: u32 where "FSESS_NO_SYNCWRITES = 0x00200000"
definition FSESS_NO_UBC :: u32 where "FSESS_NO_UBC = 0x00400000"
definition FSESS_NO_VNCACHE :: u32 where "FSESS_NO_VNCACHE = 0x00800000"
definition FSESS_CASE_INSENSITIVE :: u32 where "FSESS_CASE_INSENSITIVE = 0x01000000"
definition FSESS_VOL_RENAME :: u32 where "FSESS_VOL_RENAME = 0x02000000"
definition FSESS_XTIMES :: u32 where "FSESS_XTIMES = 0x04000000"

definition FUSE_DAEMON_TIMEOUT_NONE :: u32 where "FUSE_DAEMON_TIMEOUT_NONE = 0"
definition FUSE_DAEMON_TIMEOUT_PROCESSING :: u32 where "FUSE_DAEMON_TIMEOUT_PROCESSING = 1"
definition FUSE_DAEMON_TIMEOUT_DEAD :: u32 where "FUSE_DAEMON_TIMEOUT_DEAD = 2"

datatype kevent = Wakeup_ticket tid | Wakeup_one_data | Wakeup_ticketer | VQ_DEAD_event

record fuse_data =
  mount_st :: mount_state
  daemoncred :: ucred
  daemonpid :: int
  dataflags :: u32
  noimplflags :: u64
  ms_head :: "tid list"
  aw_head :: "tid list"
  freetickets_head :: "tid list"
  alltickets_head :: "tid list"
  freeticket_counter :: u32
  deadticket_counter :: u32
  ticketer :: u64
  fuse_libabi_major :: u32
  fuse_libabi_minor :: u32
  max_write :: u32
  blocksize :: u32
  iosize :: u32
  timeout_status :: u32
  daemon_timeout_p :: "nat option"

text \<open>A session: its \<^verbatim>\<open>fuse_data\<close> with the memory its tickets live in.\<close>

record session = fuse_data +
  heap :: "tid \<Rightarrow> fuse_ticket option"
  brk :: tid
  cnt :: fuse_counters
  kevents :: "kevent list"

text \<open>
  A sleep: \<^verbatim>\<open>msleep\<close> drops the mutex, other threads run, and it returns an error number
  (0 when woken) in the state they left.
\<close>

type_synonym sleep = "session \<Rightarrow> errno \<times> session"

section \<open>Access to a ticket\<close>

definition ticket :: "session \<Rightarrow> tid \<Rightarrow> fuse_ticket outcome" where
  "ticket s t = of_option (heap s t)"

definition put_ticket :: "tid \<Rightarrow> fuse_ticket \<Rightarrow> session \<Rightarrow> session" where
  "put_ticket t tk s = s\<lparr>heap := (heap s)(t := Some tk)\<rparr>"

definition upd_ticket :: "tid \<Rightarrow> (fuse_ticket \<Rightarrow> fuse_ticket) \<Rightarrow> session \<Rightarrow> session outcome" where
  "upd_ticket t f s = bind_outcome (ticket s t) (\<lambda>tk. Done (put_ticket t (f tk) s))"

definition event :: "kevent \<Rightarrow> session \<Rightarrow> session" where
  "event e s = s\<lparr>kevents := kevents s @ [e]\<rparr>"

definition fticket_answered :: "fuse_ticket \<Rightarrow> bool" where
  "fticket_answered tk \<longleftrightarrow> has_flag (tk_flag tk) FT_ANSW"

definition fticket_set_answered :: "fuse_ticket \<Rightarrow> fuse_ticket" where
  "fticket_set_answered tk = tk\<lparr>tk_flag := set_flag (tk_flag tk) FT_ANSW\<rparr>"

definition fticket_set_killl :: "fuse_ticket \<Rightarrow> fuse_ticket" where
  "fticket_set_killl tk = tk\<lparr>tk_flag := set_flag (tk_flag tk) FT_KILLL\<rparr>"

definition fticket_invalidate :: "fuse_ticket \<Rightarrow> fuse_ticket" where
  "fticket_invalidate tk = tk\<lparr>tk_flag := set_flag (tk_flag tk) FT_INVAL\<rparr>"

definition fticket_opcode :: "fuse_ticket \<Rightarrow> fuse_opcode option" where
  "fticket_opcode tk = opcode_of_num (field_at 4 4 (base (tk_ms_fiov tk)))"

section \<open>Life of a ticket\<close>

text \<open>A zeroed ticket with the members that \<^verbatim>\<open>fticket_alloc\<close> fills in.\<close>

definition new_ticket :: "u64 \<Rightarrow> fuse_iov \<Rightarrow> fuse_iov \<Rightarrow> fuse_ticket" where
  "new_ticket unique ms aw =
     \<lparr>tk_unique = unique, tk_flag = 0, tk_age = 0,
      tk_ms_fiov = ms, tk_ms_bufdata = None, tk_ms_bufsize = 0, tk_ms_type = FT_M_FIOV,
      tk_aw_fiov = aw, tk_aw_bufdata = None, tk_aw_bufsize = 0, tk_aw_type = FT_A_FIOV,
      tk_aw_ohead = \<lparr>oh_len = 0, oh_error = 0, oh_unique = 0\<rparr>, tk_aw_errno = 0,
      tk_aw_handler = None\<rparr>"

definition fticket_alloc ::
    "fuse_tunables \<Rightarrow> osmalloc \<Rightarrow> session \<Rightarrow> (tid \<times> session) outcome" where
  "fticket_alloc tun osm s =
     bind_outcome (FUSE_OSMalloc osm (sizeof_fuse_ticket tun) (cnt s)) (\<lambda>(_, g1).
     bind_outcome (fiov_init tun osm (sizeof 8 fuse_in_header_layout)
                     (g1\<lparr>fuse_tickets_current := fuse_tickets_current g1 + 1\<rparr>)) (\<lambda>(ms, g2).
     bind_outcome (fiov_init tun osm 0 g2) (\<lambda>(aw, g3).
       Done (brk s, s\<lparr>ticketer := ticketer s + 1,
                      heap := (heap s)(brk s := Some (new_ticket (ticketer s) ms aw)),
                      brk := Suc (brk s), cnt := g3\<rparr>))))"

definition fticket_refresh ::
    "fuse_tunables \<Rightarrow> osmalloc \<Rightarrow> tid \<Rightarrow> session \<Rightarrow> session outcome" where
  "fticket_refresh tun osm t s =
     bind_outcome (ticket s t) (\<lambda>tk.
     bind_outcome (fiov_refresh tun osm (tk_ms_fiov tk) (cnt s)) (\<lambda>(ms, g1).
     bind_outcome (fiov_refresh tun osm (tk_aw_fiov tk) g1) (\<lambda>(aw, g2).
       Done (put_ticket t
         (tk\<lparr>tk_ms_fiov := ms, tk_ms_bufdata := None, tk_ms_bufsize := 0, tk_ms_type := FT_M_FIOV,
             tk_aw_ohead := \<lparr>oh_len = 0, oh_error = 0, oh_unique = 0\<rparr>,
             tk_aw_fiov := aw, tk_aw_errno := 0, tk_aw_bufdata := None, tk_aw_bufsize := 0,
             tk_aw_type := FT_A_FIOV, tk_flag := 0, tk_age := tk_age tk + 1\<rparr>)
         (s\<lparr>cnt := g2\<rparr>)))))"

definition fticket_destroy :: "fuse_tunables \<Rightarrow> tid \<Rightarrow> session \<Rightarrow> session outcome" where
  "fticket_destroy tun t s =
     bind_outcome (ticket s t) (\<lambda>tk.
       let (ms, g1) = fiov_teardown (tk_ms_fiov tk) (cnt s);
           (aw, g2) = fiov_teardown (tk_aw_fiov tk) g1;
           g3 = FUSE_OSFree (sizeof_fuse_ticket tun) g2
       in Done (s\<lparr>heap := (heap s)(t := None),
                  cnt := g3\<lparr>fuse_tickets_current := fuse_tickets_current g3 - 1\<rparr>\<rparr>))"

section \<open>Sessions\<close>

definition fdata_dead_get :: "'a fuse_data_scheme \<Rightarrow> bool" where
  "fdata_dead_get d \<longleftrightarrow> has_flag (dataflags d) FSESS_DEAD"

definition fdata_set_dead :: "session \<Rightarrow> session" where
  "fdata_set_dead s =
     (if fdata_dead_get s then s
      else event VQ_DEAD_event (event Wakeup_ticketer (event Wakeup_one_data
             (s\<lparr>dataflags := set_flag (dataflags s) FSESS_DEAD\<rparr>))))"

text \<open>The zeroed structure with the members that \<^verbatim>\<open>fdata_alloc\<close> fills in.\<close>

definition fdata_fresh :: "ucred \<Rightarrow> int \<Rightarrow> tid \<Rightarrow> fuse_counters \<Rightarrow> session" where
  "fdata_fresh cred pid addr g =
     \<lparr>mount_st = FM_NOTMOUNTED, daemoncred = cred, daemonpid = pid, dataflags = 0,
      noimplflags = 0, ms_head = [], aw_head = [], freetickets_head = [], alltickets_head = [],
      freeticket_counter = 0, deadticket_counter = 0, ticketer = 0, fuse_libabi_major = 0,
      fuse_libabi_minor = 0, max_write = 0, blocksize = 0, iosize = 0,
      timeout_status = FUSE_DAEMON_TIMEOUT_NONE, daemon_timeout_p = None,
      heap = (\<lambda>_. None), brk = addr, cnt = g, kevents = []\<rparr>"

definition fdata_alloc ::
    "fuse_tunables \<Rightarrow> osmalloc \<Rightarrow> ucred \<Rightarrow> int \<Rightarrow> tid \<Rightarrow> fuse_counters \<Rightarrow> session outcome" where
  "fdata_alloc tun osm cred pid addr g =
     bind_outcome (FUSE_OSMalloc osm (sizeof_fuse_data tun) g) (\<lambda>(_, g1).
       Done (fdata_fresh cred pid addr g1))"

section \<open>Queues\<close>

definition fuse_ms_push :: "tid \<Rightarrow> session \<Rightarrow> session" where
  "fuse_ms_push t s = s\<lparr>ms_head := ms_head s @ [t]\<rparr>"

definition fuse_ms_push_head :: "tid \<Rightarrow> session \<Rightarrow> session" where
  "fuse_ms_push_head t s = s\<lparr>ms_head := t # ms_head s\<rparr>"

definition fuse_ms_pop :: "session \<Rightarrow> tid option \<times> session" where
  "fuse_ms_pop s =
     (case ms_head s of [] \<Rightarrow> (None, s) | t # r \<Rightarrow> (Some t, s\<lparr>ms_head := r\<rparr>))"

definition fuse_aw_push :: "tid \<Rightarrow> session \<Rightarrow> session" where
  "fuse_aw_push t s = s\<lparr>aw_head := aw_head s @ [t]\<rparr>"

definition fuse_aw_remove :: "tid \<Rightarrow> session \<Rightarrow> session" where
  "fuse_aw_remove t s = s\<lparr>aw_head := remove1 t (aw_head s)\<rparr>"

definition fuse_aw_pop :: "session \<Rightarrow> tid option \<times> session" where
  "fuse_aw_pop s =
     (case aw_head s of [] \<Rightarrow> (None, s) | t # r \<Rightarrow> (Some t, fuse_aw_remove t s))"

definition fuse_push_freeticks :: "tid \<Rightarrow> session \<Rightarrow> session" where
  "fuse_push_freeticks t s =
     s\<lparr>freetickets_head := freetickets_head s @ [t],
       freeticket_counter := freeticket_counter s + 1\<rparr>"

definition fuse_pop_freeticks :: "session \<Rightarrow> (tid option \<times> session) outcome" where
  "fuse_pop_freeticks s =
     (let (ftick, s1) =
        (case freetickets_head s of
           [] \<Rightarrow> (None, s)
         | t # r \<Rightarrow> (Some t, s\<lparr>freetickets_head := r,
                                freeticket_counter := freeticket_counter s - 1\<rparr>))
      in if freetickets_head s1 = [] \<and> freeticket_counter s1 \<noteq> 0 then Panic
         else Done (ftick, s1))"

definition fuse_push_allticks :: "tid \<Rightarrow> session \<Rightarrow> session" where
  "fuse_push_allticks t s = s\<lparr>alltickets_head := alltickets_head s @ [t]\<rparr>"

definition fuse_remove_allticks :: "tid \<Rightarrow> session \<Rightarrow> session" where
  "fuse_remove_allticks t s =
     s\<lparr>deadticket_counter := deadticket_counter s + 1,
       alltickets_head := remove1 t (alltickets_head s)\<rparr>"

definition fuse_pop_allticks :: "session \<Rightarrow> tid option \<times> session" where
  "fuse_pop_allticks s =
     (case alltickets_head s of
        [] \<Rightarrow> (None, s) | t # r \<Rightarrow> (Some t, fuse_remove_allticks t s))"

text \<open>
  \<^verbatim>\<open>fdata_destroy\<close> pops tickets until none is left; the list of all tickets gets shorter in
  every round, and its length bounds the rounds.
\<close>

fun destroy_allticks :: "fuse_tunables \<Rightarrow> nat \<Rightarrow> session \<Rightarrow> session outcome" where
  "destroy_allticks tun 0 s = Done s"
| "destroy_allticks tun (Suc n) s =
     (case fuse_pop_allticks s of
        (None, s1) \<Rightarrow> Done s1
      | (Some t, s1) \<Rightarrow> bind_outcome (fticket_destroy tun t s1) (destroy_allticks tun n))"

definition fdata_destroy :: "fuse_tunables \<Rightarrow> session \<Rightarrow> session outcome" where
  "fdata_destroy tun s =
     bind_outcome
       (destroy_allticks tun (length (alltickets_head s))
          (s\<lparr>timeout_status := FUSE_DAEMON_TIMEOUT_NONE\<rparr>))
       (\<lambda>s1. Done (s1\<lparr>cnt := FUSE_OSFree (sizeof_fuse_data tun) (cnt s1)\<rparr>))"

section \<open>The ticket pool\<close>

definition fuse_ticket_fetch ::
    "fuse_tunables \<Rightarrow> osmalloc \<Rightarrow> sleep \<Rightarrow> session \<Rightarrow> (tid \<times> session) outcome" where
  "fuse_ticket_fetch tun osm msleep s =
     bind_outcome
       (if freeticket_counter s = 0 then
          bind_outcome (fticket_alloc tun osm s) (\<lambda>(t, s1). Done (t, fuse_push_allticks t s1))
        else
          bind_outcome (fuse_pop_freeticks s) (\<lambda>(ftick, s1).
            case ftick of None \<Rightarrow> Panic | Some t \<Rightarrow> Done (t, s1)))
       (\<lambda>(t, s1).
          let (err, s2) =
            (if \<not> has_flag (dataflags s1) FSESS_INITED \<and> ticketer s1 > 1 then msleep s1
             else (if fuse_max_tickets tun \<noteq> 0 \<and>
                      ticketer s1 - ucast (deadticket_counter s1) > ucast (fuse_max_tickets tun)
                   then 1 else 0, s1))
          in Done (t, if err \<noteq> 0 then fdata_set_dead s2 else s2))"

text \<open>
  Dropping a ticket: it is freed when the free list is full or the ticket is marked for death,
  and refreshed and kept otherwise. The tunable is unsigned, so the test whether it is negative
  never fails.
\<close>

definition fuse_ticket_drop ::
    "fuse_tunables \<Rightarrow> osmalloc \<Rightarrow> tid \<Rightarrow> session \<Rightarrow> session outcome" where
  "fuse_ticket_drop tun osm t s =
     bind_outcome (ticket s t) (\<lambda>tk.
       if fuse_max_freetickets tun \<le> freeticket_counter s \<or> has_flag (tk_flag tk) FT_KILLL
       then fticket_destroy tun t (fuse_remove_allticks t s)
       else bind_outcome (fticket_refresh tun osm t s) (\<lambda>s1. Done (fuse_push_freeticks t s1)))"

definition fuse_ticket_kill :: "fuse_tunables \<Rightarrow> tid \<Rightarrow> session \<Rightarrow> session outcome" where
  "fuse_ticket_kill tun t s =
     bind_outcome (ticket s t) (\<lambda>_. fticket_destroy tun t (fuse_remove_allticks t s))"

definition fuse_ticket_drop_invalid ::
    "fuse_tunables \<Rightarrow> osmalloc \<Rightarrow> tid \<Rightarrow> session \<Rightarrow> session outcome" where
  "fuse_ticket_drop_invalid tun osm t s =
     bind_outcome (ticket s t) (\<lambda>tk.
       if has_flag (tk_flag tk) FT_INVAL then fuse_ticket_drop tun osm t s else Done s)"

section \<open>Requests\<close>

definition fuse_insert_callback ::
    "tid \<Rightarrow> fuse_handler option \<Rightarrow> session \<Rightarrow> session outcome" where
  "fuse_insert_callback t handler s =
     (if fdata_dead_get s then Done s
      else bind_outcome (upd_ticket t (\<lambda>tk. tk\<lparr>tk_aw_handler := handler\<rparr>) s)
             (\<lambda>s1. Done (fuse_aw_push t s1)))"

definition fuse_insert_message :: "tid \<Rightarrow> session \<Rightarrow> session outcome" where
  "fuse_insert_message t s =
     bind_outcome (ticket s t) (\<lambda>tk.
       if has_flag (tk_flag tk) FT_DIRTY then Panic
       else let s1 = put_ticket t (tk\<lparr>tk_flag := set_flag (tk_flag tk) FT_DIRTY\<rparr>) s
            in if fdata_dead_get s1 then Done s1
               else Done (event Wakeup_one_data (fuse_ms_push t s1)))"

definition fuse_insert_message_head :: "tid \<Rightarrow> session \<Rightarrow> session outcome" where
  "fuse_insert_message_head t s =
     bind_outcome (ticket s t) (\<lambda>tk.
       if has_flag (tk_flag tk) FT_DIRTY then Panic
       else let s1 = put_ticket t (tk\<lparr>tk_flag := set_flag (tk_flag tk) FT_DIRTY\<rparr>) s
            in if fdata_dead_get s1 then Done s1
               else Done (event Wakeup_one_data (fuse_ms_push_head t s1)))"

definition fuse_libabi_geq :: "'a fuse_data_scheme \<Rightarrow> u32 \<Rightarrow> u32 \<Rightarrow> bool" where
  "fuse_libabi_geq d abi_maj abi_min \<longleftrightarrow>
     fuse_libabi_major d > abi_maj \<or>
     fuse_libabi_major d = abi_maj \<and> fuse_libabi_minor d \<ge> abi_min"

section \<open>Flags\<close>

lemma FT_flagbit:
  "FT_ANSW = flagbit 0" "FT_INVAL = flagbit 1" "FT_DIRTY = flagbit 2" "FT_KILLL = flagbit 3"
  by (simp_all add: FT_ANSW_def FT_INVAL_def FT_DIRTY_def FT_KILLL_def flagbit_def)

lemma FSESS_flagbit:
  "FSESS_DEAD = flagbit 0" "FSESS_OPENED = flagbit 1" "FSESS_INITED = flagbit 2"
  "FSESS_ALLOW_OTHER = flagbit 4" "FSESS_ALLOW_ROOT = flagbit 5"
  "FSESS_DEFER_PERMISSIONS = flagbit 8" "FSESS_NO_ALERTS = flagbit 15"
  "FSESS_CASE_INSENSITIVE = flagbit 24" "FSESS_VOL_RENAME = flagbit 25" "FSESS_XTIMES = flagbit 26"
  by (simp_all add: FSESS_DEAD_def FSESS_OPENED_def FSESS_INITED_def FSESS_ALLOW_OTHER_def
      FSESS_ALLOW_ROOT_def FSESS_DEFER_PERMISSIONS_def FSESS_NO_ALERTS_def
      FSESS_CASE_INSENSITIVE_def FSESS_VOL_RENAME_def FSESS_XTIMES_def flagbit_def)

lemmas ticket_flags [flag_simps] = FT_flagbit FSESS_flagbit

section \<open>Frame lemmas\<close>

lemma event_fields [simp]:
  "heap (event e s) = heap s" "brk (event e s) = brk s" "cnt (event e s) = cnt s"
  "ms_head (event e s) = ms_head s" "aw_head (event e s) = aw_head s"
  "freetickets_head (event e s) = freetickets_head s"
  "alltickets_head (event e s) = alltickets_head s"
  "freeticket_counter (event e s) = freeticket_counter s"
  "deadticket_counter (event e s) = deadticket_counter s"
  "ticketer (event e s) = ticketer s" "dataflags (event e s) = dataflags s"
  "timeout_status (event e s) = timeout_status s" "mount_st (event e s) = mount_st s"
  "kevents (event e s) = kevents s @ [e]" "noimplflags (event e s) = noimplflags s"
  by (simp_all add: event_def)

lemma set_dead_fields [simp]:
  "heap (fdata_set_dead s) = heap s" "brk (fdata_set_dead s) = brk s"
  "cnt (fdata_set_dead s) = cnt s"
  "ms_head (fdata_set_dead s) = ms_head s" "aw_head (fdata_set_dead s) = aw_head s"
  "freetickets_head (fdata_set_dead s) = freetickets_head s"
  "alltickets_head (fdata_set_dead s) = alltickets_head s"
  "freeticket_counter (fdata_set_dead s) = freeticket_counter s"
  "deadticket_counter (fdata_set_dead s) = deadticket_counter s"
  "ticketer (fdata_set_dead s) = ticketer s" "mount_st (fdata_set_dead s) = mount_st s"
  "timeout_status (fdata_set_dead s) = timeout_status s"
  by (simp_all add: fdata_set_dead_def)

lemma fdata_set_dead_dead [simp]: "fdata_dead_get (fdata_set_dead s)"
  by (simp add: fdata_set_dead_def fdata_dead_get_def flag_simps)

lemma put_ticket_fields [simp]:
  "heap (put_ticket t tk s) = (heap s)(t := Some tk)" "brk (put_ticket t tk s) = brk s"
  "ms_head (put_ticket t tk s) = ms_head s" "aw_head (put_ticket t tk s) = aw_head s"
  "freetickets_head (put_ticket t tk s) = freetickets_head s"
  "alltickets_head (put_ticket t tk s) = alltickets_head s"
  "freeticket_counter (put_ticket t tk s) = freeticket_counter s"
  "deadticket_counter (put_ticket t tk s) = deadticket_counter s"
  "ticketer (put_ticket t tk s) = ticketer s" "dataflags (put_ticket t tk s) = dataflags s"
  "timeout_status (put_ticket t tk s) = timeout_status s" "cnt (put_ticket t tk s) = cnt s"
  "mount_st (put_ticket t tk s) = mount_st s" "kevents (put_ticket t tk s) = kevents s"
  by (simp_all add: put_ticket_def)

section \<open>Queues as FIFO contracts\<close>

interpretation msq: fifo fuse_ms_push fuse_ms_pop ms_head "\<lambda>_. True" "\<lambda>_. True"
  by unfold_locales (auto simp: fuse_ms_push_def fuse_ms_pop_def split: list.splits)

interpretation awq: fifo fuse_aw_push fuse_aw_pop aw_head "\<lambda>_. True" "\<lambda>_. True"
  by unfold_locales
    (auto simp: fuse_aw_push_def fuse_aw_pop_def fuse_aw_remove_def split: list.splits)

definition pop_freeticks_total :: "session \<Rightarrow> tid option \<times> session" where
  "pop_freeticks_total s = (case fuse_pop_freeticks s of Done r \<Rightarrow> r | _ \<Rightarrow> (None, s))"

definition free_count_ok :: "session \<Rightarrow> bool" where
  "free_count_ok s \<longleftrightarrow> unat (freeticket_counter s) = length (freetickets_head s)"

lemma unat_Suc_u32: "unat (w :: u32) < 4294967295 \<Longrightarrow> unat (w + 1) = Suc (unat w)"
  by (simp add: unat_word_ariths)

lemma unat_pred_u32: "unat (w :: u32) = Suc n \<Longrightarrow> unat (w - 1) = n"
proof -
  assume a: "unat w = Suc n"
  then have "w \<noteq> 0" by auto
  then show ?thesis using a by (simp add: unat_minus_one)
qed

lemma pop_freeticks_no_panic:
  assumes "free_count_ok s"
  shows "fuse_pop_freeticks s =
    Done (case freetickets_head s of
        [] \<Rightarrow> (None, s)
      | t # r \<Rightarrow> (Some t, s\<lparr>freetickets_head := r, freeticket_counter := freeticket_counter s - 1\<rparr>))"
  using assms unat_pred_u32 [of "freeticket_counter s"]
  by (auto simp: fuse_pop_freeticks_def free_count_ok_def unat_eq_zero split: list.splits)

interpretation freeq: fifo fuse_push_freeticks pop_freeticks_total freetickets_head
    free_count_ok "\<lambda>s. length (freetickets_head s) < 4294967295"
proof (unfold_locales, goal_cases)
  case (1 s x)
  then show ?case by (simp add: fuse_push_freeticks_def)
next
  case (2 s x)
  then show ?case by (simp add: fuse_push_freeticks_def free_count_ok_def unat_Suc_u32)
next
  case (3 s)
  then show ?case by (simp add: pop_freeticks_total_def pop_freeticks_no_panic)
next
  case (4 s x xs)
  then show ?case by (simp add: pop_freeticks_total_def pop_freeticks_no_panic)
next
  case (5 s x xs)
  then show ?case by (simp add: pop_freeticks_total_def pop_freeticks_no_panic)
next
  case (6 s)
  then show ?case
    by (auto simp: pop_freeticks_total_def pop_freeticks_no_panic free_count_ok_def
        unat_pred_u32 split: list.splits)
qed

section \<open>The pool invariant\<close>

text \<open>
  Every ticket of the session is allocated and on the list of all tickets exactly once, the free
  list holds refreshed tickets of that list, exactly once each and as many as the counter says,
  unique numbers are below the next one to be given out and differ between tickets, and the
  buffers of every ticket are well-formed.
\<close>

definition ticket_wf :: "fuse_ticket \<Rightarrow> bool" where
  "ticket_wf tk \<longleftrightarrow> fiov_wf (tk_ms_fiov tk) \<and> fiov_wf (tk_aw_fiov tk)"

text \<open>What a refresh leaves: no flags, no errors, both buffers of the ticket in use, no answer.\<close>

definition ticket_clean :: "fuse_ticket \<Rightarrow> bool" where
  "ticket_clean tk \<longleftrightarrow> tk_flag tk = 0 \<and> tk_aw_errno tk = 0 \<and> tk_ms_type tk = FT_M_FIOV \<and>
     tk_aw_type tk = FT_A_FIOV \<and> oh_error (tk_aw_ohead tk) = 0 \<and> len (tk_aw_fiov tk) = 0"

definition uniques_ok :: "session \<Rightarrow> bool" where
  "uniques_ok s \<longleftrightarrow>
     (\<forall>t tk. heap s t = Some tk \<longrightarrow> tk_unique tk < ticketer s) \<and>
     (\<forall>t u tk uk. heap s t = Some tk \<longrightarrow> heap s u = Some uk \<longrightarrow>
        tk_unique tk = tk_unique uk \<longrightarrow> t = u)"

definition pool_inv :: "session \<Rightarrow> bool" where
  "pool_inv s \<longleftrightarrow>
     distinct (alltickets_head s) \<and> distinct (freetickets_head s) \<and>
     set (freetickets_head s) \<subseteq> set (alltickets_head s) \<and>
     dom (heap s) = set (alltickets_head s) \<and> (\<forall>t \<in> dom (heap s). t < brk s) \<and>
     free_count_ok s \<and>
     (\<forall>t \<in> set (freetickets_head s). \<forall>tk. heap s t = Some tk \<longrightarrow> ticket_clean tk) \<and>
     uniques_ok s \<and> (\<forall>t tk. heap s t = Some tk \<longrightarrow> ticket_wf tk)"

text \<open>A ticket that some thread has fetched and not dropped yet.\<close>

definition in_use :: "session \<Rightarrow> tid \<Rightarrow> bool" where
  "in_use s t \<longleftrightarrow> t \<in> set (alltickets_head s) \<and> t \<notin> set (freetickets_head s)"

text \<open>
  What fetching and dropping the ticket \<open>t\<close> may change: that ticket, the bookkeeping of the pool
  and the counters, and nothing else of the session.
\<close>

definition pool_frame :: "tid \<Rightarrow> session \<Rightarrow> session \<Rightarrow> bool" where
  "pool_frame t s s' \<longleftrightarrow> (\<forall>v. v \<noteq> t \<longrightarrow> heap s' v = heap s v) \<and>
     s' = s\<lparr>freetickets_head := freetickets_head s', alltickets_head := alltickets_head s',
           freeticket_counter := freeticket_counter s', deadticket_counter := deadticket_counter s',
           ticketer := ticketer s', heap := heap s', brk := brk s', cnt := cnt s'\<rparr>"

lemma pool_frame_refl: "pool_frame t s s"
  by (simp add: pool_frame_def)

lemma pool_frame_trans: "pool_frame t s s1 \<Longrightarrow> pool_frame t s1 s2 \<Longrightarrow> pool_frame t s s2"
  unfolding pool_frame_def by (cases s, cases s1, cases s2) auto

lemma pool_frame_fields:
  assumes "pool_frame t s s'"
  shows "ms_head s' = ms_head s" "aw_head s' = aw_head s" "dataflags s' = dataflags s"
    "mount_st s' = mount_st s" "kevents s' = kevents s" "noimplflags s' = noimplflags s"
    "fuse_libabi_major s' = fuse_libabi_major s" "fuse_libabi_minor s' = fuse_libabi_minor s"
    "timeout_status s' = timeout_status s" "v \<noteq> t \<Longrightarrow> heap s' v = heap s v"
  using assms unfolding pool_frame_def by (cases s, cases s', auto)+

text \<open>What a sleeping thread relies on: the others keep the pool and its ticket alone.\<close>

definition sleep_ok :: "sleep \<Rightarrow> bool" where
  "sleep_ok msleep \<longleftrightarrow>
     (\<forall>s t. pool_inv s \<longrightarrow> in_use s t \<longrightarrow>
        pool_inv (snd (msleep s)) \<and> in_use (snd (msleep s)) t)"

lemma in_use_ticket: "pool_inv s \<Longrightarrow> in_use s t \<Longrightarrow> \<exists>tk. ticket s t = Done tk \<and> heap s t = Some tk"
proof -
  assume "pool_inv s" "in_use s t"
  then have "t \<in> dom (heap s)" by (simp add: pool_inv_def in_use_def)
  then show ?thesis by (auto simp: ticket_def)
qed

lemma pool_inv_set_dead [simp]: "pool_inv (fdata_set_dead s) = pool_inv s"
  by (simp add: pool_inv_def uniques_ok_def free_count_ok_def)

lemma pool_inv_event [simp]: "pool_inv (event e s) = pool_inv s"
  by (simp add: pool_inv_def uniques_ok_def free_count_ok_def)

lemma in_use_set_dead [simp]: "in_use (fdata_set_dead s) t = in_use s t"
  by (simp add: in_use_def)

text \<open>Replacing a ticket in use by one with the same number and good buffers keeps the pool.\<close>

lemma pool_inv_put_ticket:
  assumes "pool_inv s" "in_use s t" "heap s t = Some tk"
    and "tk_unique tk' = tk_unique tk" "ticket_wf tk'"
  shows "pool_inv (put_ticket t tk' s)"
  using assms
  by (auto simp: pool_inv_def in_use_def uniques_ok_def free_count_ok_def split: if_splits)

lemma pool_inv_cnt [simp]: "pool_inv (s\<lparr>cnt := g\<rparr>) = pool_inv s"
  by (simp add: pool_inv_def uniques_ok_def free_count_ok_def)

lemma pool_inv_queues [simp]:
  "pool_inv (s\<lparr>ms_head := q\<rparr>) = pool_inv s" "pool_inv (s\<lparr>aw_head := q\<rparr>) = pool_inv s"
  "pool_inv (s\<lparr>dataflags := x\<rparr>) = pool_inv s" "pool_inv (s\<lparr>timeout_status := y\<rparr>) = pool_inv s"
  "pool_inv (s\<lparr>noimplflags := z\<rparr>) = pool_inv s"
  by (simp_all add: pool_inv_def uniques_ok_def free_count_ok_def)

lemma in_use_queues [simp]:
  "in_use (s\<lparr>ms_head := q\<rparr>) = in_use s" "in_use (s\<lparr>aw_head := q\<rparr>) = in_use s"
  "in_use (s\<lparr>dataflags := x\<rparr>) = in_use s" "in_use (s\<lparr>timeout_status := y\<rparr>) = in_use s"
  "in_use (s\<lparr>noimplflags := z\<rparr>) = in_use s" "in_use (event e s) = in_use s"
  by (simp_all add: in_use_def fun_eq_iff)

lemma in_use_cnt [simp]: "in_use (s\<lparr>cnt := g\<rparr>) = in_use s"
  by (simp add: in_use_def fun_eq_iff)

lemma in_use_put_ticket [simp]: "in_use (put_ticket u tk s) = in_use s"
  by (simp add: in_use_def fun_eq_iff)

text \<open>The two message queues hold tickets that are in use, once each.\<close>

definition queues_ok :: "session \<Rightarrow> bool" where
  "queues_ok s \<longleftrightarrow> distinct (ms_head s) \<and> distinct (aw_head s) \<and>
     (\<forall>t \<in> set (ms_head s) \<union> set (aw_head s). in_use s t)"

section \<open>Fetching\<close>

definition osm_total :: "osmalloc \<Rightarrow> bool" where
  "osm_total osm \<longleftrightarrow> (\<forall>n. osm n \<noteq> None)"

lemma FUSE_OSMalloc_total: "osm_total osm \<Longrightarrow> \<exists>b g'. FUSE_OSMalloc osm n g = Done (b, g')"
  by (auto simp: osm_total_def FUSE_OSMalloc_def split: option.splits)

lemma fiov_init_total: "osm_total osm \<Longrightarrow> \<exists>f g'. fiov_init tun osm n g = Done (f, g')"
  using FUSE_OSMalloc_total [of osm "FU_AT_LEAST n" g]
  by (auto simp: fiov_init_def Let_def)

lemma fiov_adjust_total: "osm_total osm \<Longrightarrow> \<exists>f' g'. fiov_adjust tun osm f n g = Done (f', g')"
  using FUSE_OSMalloc_total [of osm "FU_AT_LEAST n" g]
  by (auto simp: fiov_adjust_def FUSE_OSRealloc_nocopy_def Let_def split: prod.splits bool.splits)

lemma fiov_refresh_total: "osm_total osm \<Longrightarrow> \<exists>f' g'. fiov_refresh tun osm f g = Done (f', g')"
  by (simp add: fiov_refresh_def fiov_adjust_total)

lemma uniques_ok_alloc:
  assumes ok: "uniques_ok s" and "unat (ticketer s) < 18446744073709551615"
    and u: "tk_unique tk = ticketer s" and "ticketer s' = ticketer s + 1"
    and h: "heap s' = (heap s)(t := Some tk)"
  shows "uniques_ok s'"
proof -
  have less: "ticketer s < ticketer s'"
    using assms(2,4) by (simp add: word_less_nat_alt unat_word_ariths)
  have old: "tk_unique k < ticketer s" if "heap s v = Some k" for v k
    using ok that by (auto simp: uniques_ok_def)
  have "tk_unique k < ticketer s'" if "heap s' v = Some k" for v k
    using that h u less old [of v k] by (auto split: if_splits)
  moreover have "v = w" if "heap s' v = Some k" "heap s' w = Some l" "tk_unique k = tk_unique l"
    for v w k l
  proof (cases "v = t \<or> w = t")
    case True
    then show ?thesis using that h u old [of v k] old [of w l] by (auto split: if_splits)
  next
    case False
    then have "heap s v = Some k" "heap s w = Some l" using that h by auto
    then show ?thesis using ok that(3) unfolding uniques_ok_def by blast
  qed
  ultimately show ?thesis unfolding uniques_ok_def by blast
qed

lemma fticket_alloc_inv:
  assumes inv: "pool_inv s" and "osm_ok osm" and room: "unat (ticketer s) < 18446744073709551615"
    and r: "fticket_alloc tun osm s = Done (t, s1)"
  shows "pool_inv (fuse_push_allticks t s1) \<and> in_use (fuse_push_allticks t s1) t \<and>
    t = brk s \<and> pool_frame t s (fuse_push_allticks t s1) \<and>
    (\<forall>v. v \<noteq> t \<longrightarrow> in_use (fuse_push_allticks t s1) v = in_use s v) \<and>
    (\<exists>tk. heap s1 t = Some tk \<and> ticket_clean tk \<and> tk_unique tk = ticketer s)"
proof -
  from r [unfolded fticket_alloc_def] obtain b g1 where
    r1: "bind_outcome (fiov_init tun osm (sizeof 8 fuse_in_header_layout)
           (g1\<lparr>fuse_tickets_current := fuse_tickets_current g1 + 1\<rparr>)) (\<lambda>(ms, g2).
         bind_outcome (fiov_init tun osm 0 g2) (\<lambda>(aw, g3).
           Done (brk s, s\<lparr>ticketer := ticketer s + 1,
             heap := (heap s)(brk s := Some (new_ticket (ticketer s) ms aw)),
             brk := Suc (brk s), cnt := g3\<rparr>))) = Done (t, s1)"
    by (rule bind_outcome_DoneE2) simp
  obtain ms g2 where ms: "fiov_init tun osm 40
      (g1\<lparr>fuse_tickets_current := fuse_tickets_current g1 + 1\<rparr>) = Done (ms, g2)"
    and r2: "bind_outcome (fiov_init tun osm 0 g2) (\<lambda>(aw, g3).
           Done (brk s, s\<lparr>ticketer := ticketer s + 1,
             heap := (heap s)(brk s := Some (new_ticket (ticketer s) ms aw)),
             brk := Suc (brk s), cnt := g3\<rparr>)) = Done (t, s1)"
    by (rule bind_outcome_DoneE2 [OF r1]) simp
  obtain aw g4 where aw: "fiov_init tun osm 0 g2 = Done (aw, g4)" and t: "t = brk s"
    and s1: "s1 = s\<lparr>ticketer := ticketer s + 1,
      heap := (heap s)(brk s := Some (new_ticket (ticketer s) ms aw)), brk := Suc (brk s), cnt := g4\<rparr>"
    by (rule bind_outcome_DoneE2 [OF r2]) auto
  define tk where "tk = new_ticket (ticketer s) ms aw"
  have "len aw = 0" using fiov_init_wf [OF aw assms(2)] by simp
  then have tk: "tk_unique tk = ticketer s" "ticket_clean tk" "tk_ms_fiov tk = ms" "tk_aw_fiov tk = aw"
    by (simp_all add: tk_def new_ticket_def ticket_clean_def)
  note s1 = s1 [folded tk_def]
  have wf: "ticket_wf tk"
    using fiov_init_wf [OF ms assms(2)] fiov_init_wf [OF aw assms(2)] tk
    by (simp add: ticket_wf_def)
  have fresh: "brk s \<notin> set (alltickets_head s)" "heap s (brk s) = None"
    using inv by (auto simp: pool_inv_def)
  have "uniques_ok (fuse_push_allticks t s1)"
    by (rule uniques_ok_alloc [where s = s and tk = tk and t = "brk s"])
      (use inv room tk s1 in \<open>simp_all add: pool_inv_def fuse_push_allticks_def\<close>)
  moreover have "pool_frame t s (fuse_push_allticks t s1)"
    by (simp add: pool_frame_def fuse_push_allticks_def s1 t)
  ultimately show ?thesis
    using inv wf fresh tk t s1
    by (auto simp: pool_inv_def in_use_def fuse_push_allticks_def free_count_ok_def less_Suc_eq
        split: if_splits)
qed

lemma fticket_alloc_total: "osm_total osm \<Longrightarrow> \<exists>t s1. fticket_alloc tun osm s = Done (t, s1)"
proof -
  assume o: "osm_total osm"
  obtain b g1 where 1: "FUSE_OSMalloc osm (sizeof_fuse_ticket tun) (cnt s) = Done (b, g1)"
    using FUSE_OSMalloc_total [OF o] by blast
  obtain ms g2 where 2: "fiov_init tun osm 40
      (g1\<lparr>fuse_tickets_current := fuse_tickets_current g1 + 1\<rparr>) = Done (ms, g2)"
    using fiov_init_total [OF o] by blast
  obtain aw g3 where 3: "fiov_init tun osm 0 g2 = Done (aw, g3)"
    using fiov_init_total [OF o] by blast
  show ?thesis using 1 2 3 by (simp add: fticket_alloc_def Let_def)
qed

lemma pop_freeticks_inv:
  assumes "pool_inv s" "freeticket_counter s \<noteq> 0"
  shows "\<exists>t s1. fuse_pop_freeticks s = Done (Some t, s1) \<and> pool_inv s1 \<and> in_use s1 t \<and>
    (\<forall>v. v \<noteq> t \<longrightarrow> in_use s1 v = in_use s v) \<and> pool_frame t s s1 \<and> (\<exists>tk. heap s1 t = Some tk \<and> ticket_clean tk)"
proof -
  have fc: "free_count_ok s" using assms(1) by (simp add: pool_inv_def)
  then have "freetickets_head s \<noteq> []"
    using assms(2) by (auto simp: free_count_ok_def unat_eq_zero)
  then obtain t r where f: "freetickets_head s = t # r" by (cases "freetickets_head s") auto
  let ?s1 = "s\<lparr>freetickets_head := r, freeticket_counter := freeticket_counter s - 1\<rparr>"
  have p: "fuse_pop_freeticks s = Done (Some t, ?s1)"
    using pop_freeticks_no_panic [OF fc] f by simp
  have "free_count_ok ?s1"
    using fc f by (simp add: free_count_ok_def unat_pred_u32)
  then have "pool_inv ?s1" "in_use ?s1 t" "\<forall>v. v \<noteq> t \<longrightarrow> in_use ?s1 v = in_use s v"
    using assms(1) f by (auto simp: pool_inv_def in_use_def uniques_ok_def)
  moreover have "t \<in> dom (heap s)" using assms(1) f by (auto simp: pool_inv_def)
  then obtain tk where "heap s t = Some tk" by blast
  then have "\<exists>tk. heap ?s1 t = Some tk \<and> ticket_clean tk"
    using assms(1) f by (simp add: pool_inv_def)
  moreover have "pool_frame t s ?s1" by (simp add: pool_frame_def)
  ultimately show ?thesis using p by blast
qed

lemma fetch_take_inv:
  assumes inv: "pool_inv s" and osm: "osm_ok osm" "osm_total osm"
    and room: "unat (ticketer s) < 18446744073709551615"
  shows "\<exists>t s1. (if freeticket_counter s = 0 then
          bind_outcome (fticket_alloc tun osm s) (\<lambda>(t, s1). Done (t, fuse_push_allticks t s1))
        else
          bind_outcome (fuse_pop_freeticks s) (\<lambda>(ftick, s1).
            case ftick of None \<Rightarrow> Panic | Some t \<Rightarrow> Done (t, s1))) = Done (t, s1) \<and>
     pool_inv s1 \<and> in_use s1 t \<and> \<not> in_use s t \<and> pool_frame t s s1 \<and>
     (\<forall>v. v \<noteq> t \<longrightarrow> in_use s1 v = in_use s v) \<and> (\<exists>tk. heap s1 t = Some tk \<and> ticket_clean tk)"
proof (cases "freeticket_counter s = 0")
  case True
  obtain t s1 where a: "fticket_alloc tun osm s = Done (t, s1)"
    using fticket_alloc_total [OF osm(2)] by blast
  note i = fticket_alloc_inv [OF inv osm(1) room a]
  have "\<not> in_use s t" using i inv by (auto simp: pool_inv_def in_use_def)
  moreover have "heap (fuse_push_allticks t s1) = heap s1" by (simp add: fuse_push_allticks_def)
  ultimately show ?thesis using True a i by auto
next
  case False
  obtain t s1 where p: "fuse_pop_freeticks s = Done (Some t, s1)" "pool_inv s1" "in_use s1 t"
    "\<forall>v. v \<noteq> t \<longrightarrow> in_use s1 v = in_use s v"
    "pool_frame t s s1" "\<exists>tk. heap s1 t = Some tk \<and> ticket_clean tk"
    using pop_freeticks_inv [OF inv False] by blast
  have "t \<in> set (freetickets_head s)"
    using p(1) by (auto simp: fuse_pop_freeticks_def Let_def split: list.splits if_splits)
  then have "\<not> in_use s t" by (simp add: in_use_def)
  then show ?thesis using False p by auto
qed

lemma fuse_ticket_fetch_inv:
  assumes inv: "pool_inv s" and osm: "osm_ok osm" "osm_total osm"
    and room: "unat (ticketer s) < 18446744073709551615" and sl: "sleep_ok msleep"
  shows "\<exists>t s'. fuse_ticket_fetch tun osm msleep s = Done (t, s') \<and> pool_inv s' \<and> in_use s' t \<and>
    \<not> in_use s t"
proof -
  obtain t s1 where r: "(if freeticket_counter s = 0 then
          bind_outcome (fticket_alloc tun osm s) (\<lambda>(t, s1). Done (t, fuse_push_allticks t s1))
        else
          bind_outcome (fuse_pop_freeticks s) (\<lambda>(ftick, s1).
            case ftick of None \<Rightarrow> Panic | Some t \<Rightarrow> Done (t, s1))) = Done (t, s1)"
    and i: "pool_inv s1" "in_use s1 t" "\<not> in_use s t"
    using fetch_take_inv [OF inv osm room] by blast
  have "pool_inv (snd (msleep s1))" "in_use (snd (msleep s1)) t"
    using sl i by (auto simp: sleep_ok_def)
  then show ?thesis
    unfolding fuse_ticket_fetch_def r using i by (simp add: Let_def case_prod_beta)
qed

lemma fuse_ticket_fetch_inited:
  assumes inv: "pool_inv s" and osm: "osm_ok osm" "osm_total osm"
    and room: "unat (ticketer s) < 18446744073709551615"
    and "has_flag (dataflags s) FSESS_INITED" and "fuse_max_tickets tun = 0"
  shows "\<exists>t s' tk. fuse_ticket_fetch tun osm msleep s = Done (t, s') \<and> pool_inv s' \<and>
    in_use s' t \<and> \<not> in_use s t \<and> pool_frame t s s' \<and>
    (\<forall>v. v \<noteq> t \<longrightarrow> in_use s' v = in_use s v) \<and> heap s' t = Some tk \<and> ticket_clean tk"
proof -
  obtain t s1 tk where r: "(if freeticket_counter s = 0 then
          bind_outcome (fticket_alloc tun osm s) (\<lambda>(t, s1). Done (t, fuse_push_allticks t s1))
        else
          bind_outcome (fuse_pop_freeticks s) (\<lambda>(ftick, s1).
            case ftick of None \<Rightarrow> Panic | Some t \<Rightarrow> Done (t, s1))) = Done (t, s1)"
    and i: "pool_inv s1" "in_use s1 t" "\<not> in_use s t" "pool_frame t s s1"
      "\<forall>v. v \<noteq> t \<longrightarrow> in_use s1 v = in_use s v" "heap s1 t = Some tk" "ticket_clean tk"
    using fetch_take_inv [OF inv osm room] by blast
  have "has_flag (dataflags s1) FSESS_INITED"
    using assms(5) pool_frame_fields(3) [OF i(4)] by simp
  then show ?thesis
    unfolding fuse_ticket_fetch_def r using i assms(6) by (simp add: Let_def)
qed

section \<open>Dropping\<close>

lemma fticket_refresh_inv:
  assumes inv: "pool_inv s" and u: "in_use s t" and osm: "osm_ok osm" "osm_total osm"
  shows "\<exists>s1 tk tk'. fticket_refresh tun osm t s = Done s1 \<and> pool_inv s1 \<and> in_use s1 t \<and>
    heap s t = Some tk \<and> heap s1 = (heap s)(t := Some tk') \<and> ticket_clean tk' \<and>
    pool_frame t s s1 \<and> tk_unique tk' = tk_unique tk \<and> tk_age tk' = tk_age tk + 1 \<and>
    alltickets_head s1 = alltickets_head s \<and> freetickets_head s1 = freetickets_head s \<and>
    freeticket_counter s1 = freeticket_counter s \<and> ms_head s1 = ms_head s \<and> aw_head s1 = aw_head s \<and>
    dataflags s1 = dataflags s \<and> ticketer s1 = ticketer s \<and> brk s1 = brk s"
proof -
  obtain tk where tk: "ticket s t = Done tk" "heap s t = Some tk"
    using in_use_ticket [OF inv u] by blast
  obtain ms g1 where ms: "fiov_refresh tun osm (tk_ms_fiov tk) (cnt s) = Done (ms, g1)"
    using fiov_refresh_total [OF osm(2)] by blast
  obtain aw g2 where aw: "fiov_refresh tun osm (tk_aw_fiov tk) g1 = Done (aw, g2)"
    using fiov_refresh_total [OF osm(2)] by blast
  have wf: "fiov_wf (tk_ms_fiov tk)" "fiov_wf (tk_aw_fiov tk)"
    using inv tk(2) by (auto simp: pool_inv_def ticket_wf_def)
  define tk' where "tk' = tk\<lparr>tk_ms_fiov := ms, tk_ms_bufdata := None, tk_ms_bufsize := 0,
      tk_ms_type := FT_M_FIOV, tk_aw_ohead := \<lparr>oh_len = 0, oh_error = 0, oh_unique = 0\<rparr>,
      tk_aw_fiov := aw, tk_aw_errno := 0, tk_aw_bufdata := None, tk_aw_bufsize := 0,
      tk_aw_type := FT_A_FIOV, tk_flag := 0, tk_age := tk_age tk + 1\<rparr>"
  have wf': "ticket_wf tk'"
    using fiov_refresh_wf [OF ms osm(1) wf(1)] fiov_refresh_wf [OF aw osm(1) wf(2)]
    by (simp add: ticket_wf_def tk'_def)
  have "len aw = 0" using fiov_refresh_wf [OF aw osm(1) wf(2)] by simp
  then have u': "tk_unique tk' = tk_unique tk" "ticket_clean tk'" "tk_age tk' = tk_age tk + 1"
    by (simp_all add: tk'_def ticket_clean_def)
  let ?s1 = "put_ticket t tk' (s\<lparr>cnt := g2\<rparr>)"
  have "fticket_refresh tun osm t s = Done ?s1"
    by (simp add: fticket_refresh_def tk(1) ms aw tk'_def)
  moreover have "pool_inv ?s1"
    by (rule pool_inv_put_ticket [where tk = tk]) (use inv u tk u' wf' in simp_all)
  moreover have "pool_frame t s ?s1" by (simp add: pool_frame_def put_ticket_def)
  ultimately show ?thesis using u tk(2) u' by (auto simp: in_use_def)
qed

lemma pool_inv_push_free:
  assumes "pool_inv s" "in_use s t" "heap s t = Some tk" "ticket_clean tk"
    and "freeticket_counter s < m"
  shows "pool_inv (fuse_push_freeticks t s)"
proof -
  have "unat (freeticket_counter s) < unat m" using assms(5) by (simp add: word_less_nat_alt)
  then have "unat (freeticket_counter s) < 4294967295" using unat_u32_less [of m] by simp
  then have "free_count_ok (fuse_push_freeticks t s)"
    using assms(1) by (simp add: pool_inv_def free_count_ok_def fuse_push_freeticks_def unat_Suc_u32)
  then show ?thesis
    using assms(1-4) by (auto simp: pool_inv_def in_use_def fuse_push_freeticks_def uniques_ok_def)
qed

lemma fticket_destroy_Done:
  assumes "heap s t = Some tk"
  shows "\<exists>g. fticket_destroy tun t s = Done (s\<lparr>heap := (heap s)(t := None), cnt := g\<rparr>)"
  unfolding fticket_destroy_def ticket_def assms
  by (simp add: case_prod_beta Let_def, rule exI, rule refl)

lemma destroy_inv:
  assumes inv: "pool_inv s" and u: "in_use s t"
  shows "\<exists>s'. fticket_destroy tun t (fuse_remove_allticks t s) = Done s' \<and> pool_inv s' \<and>
    heap s' t = None \<and> pool_frame t s s' \<and> (\<forall>v. v \<noteq> t \<longrightarrow> in_use s' v = in_use s v)"
proof -
  obtain tk where tk: "heap s t = Some tk" using in_use_ticket [OF inv u] by blast
  have "heap (fuse_remove_allticks t s) t = Some tk" using tk by (simp add: fuse_remove_allticks_def)
  then obtain g where d: "fticket_destroy tun t (fuse_remove_allticks t s) =
    Done ((fuse_remove_allticks t s)\<lparr>heap := (heap (fuse_remove_allticks t s))(t := None), cnt := g\<rparr>)"
    using fticket_destroy_Done by blast
  let ?s' = "(fuse_remove_allticks t s)\<lparr>heap := (heap (fuse_remove_allticks t s))(t := None), cnt := g\<rparr>"
  have "set (remove1 t (alltickets_head s)) = set (alltickets_head s) - {t}"
    using inv by (simp add: pool_inv_def set_remove1_eq)
  then have "pool_inv ?s'" "\<forall>v. v \<noteq> t \<longrightarrow> in_use ?s' v = in_use s v"
    using inv u
    by (auto simp: pool_inv_def in_use_def fuse_remove_allticks_def uniques_ok_def free_count_ok_def
        split: if_splits)
  moreover have "pool_frame t s ?s'" by (simp add: pool_frame_def fuse_remove_allticks_def)
  ultimately show ?thesis using d by simp
qed

lemma fuse_ticket_drop_inv:
  assumes inv: "pool_inv s" and u: "in_use s t" and osm: "osm_ok osm" "osm_total osm"
  shows "\<exists>s'. fuse_ticket_drop tun osm t s = Done s' \<and> pool_inv s' \<and> \<not> in_use s' t \<and>
    pool_frame t s s' \<and> (\<forall>v. v \<noteq> t \<longrightarrow> in_use s' v = in_use s v)"
proof -
  obtain tk where tk: "ticket s t = Done tk" using in_use_ticket [OF inv u] by blast
  show ?thesis
  proof (cases "fuse_max_freetickets tun \<le> freeticket_counter s \<or> has_flag (tk_flag tk) FT_KILLL")
    case True
    obtain s' where "fticket_destroy tun t (fuse_remove_allticks t s) = Done s'" "pool_inv s'"
      "heap s' t = None" "pool_frame t s s'"
      "\<forall>v. v \<noteq> t \<longrightarrow> in_use s' v = in_use s v"
      using destroy_inv [OF inv u] by blast
    moreover from this have "\<not> in_use s' t" by (auto simp: in_use_def pool_inv_def)
    ultimately show ?thesis using True tk by (simp add: fuse_ticket_drop_def)
  next
    case False
    obtain s1 tk' where r: "fticket_refresh tun osm t s = Done s1" "pool_inv s1" "in_use s1 t"
      "heap s1 t = Some tk'" "ticket_clean tk'" "pool_frame t s s1" "freeticket_counter s1 = freeticket_counter s"
      "alltickets_head s1 = alltickets_head s" "freetickets_head s1 = freetickets_head s"
      using fticket_refresh_inv [OF inv u osm, of tun] by fastforce
    have "pool_inv (fuse_push_freeticks t s1)"
      using r False by (intro pool_inv_push_free [where m = "fuse_max_freetickets tun"]) auto
    moreover have "fuse_ticket_drop tun osm t s = Done (fuse_push_freeticks t s1)"
      using False tk r(1) by (simp add: fuse_ticket_drop_def)
    moreover have "pool_frame t s (fuse_push_freeticks t s1)"
      by (rule pool_frame_trans [OF r(6)]) (simp add: pool_frame_def fuse_push_freeticks_def)
    ultimately show ?thesis using r by (auto simp: in_use_def fuse_push_freeticks_def)
  qed
qed

lemma fuse_ticket_kill_inv:
  assumes inv: "pool_inv s" and u: "in_use s t"
  shows "\<exists>s'. fuse_ticket_kill tun t s = Done s' \<and> pool_inv s' \<and> \<not> in_use s' t \<and>
    (\<forall>v. v \<noteq> t \<longrightarrow> in_use s' v = in_use s v)"
proof -
  obtain tk where tk: "ticket s t = Done tk" using in_use_ticket [OF inv u] by blast
  obtain s' where s': "fticket_destroy tun t (fuse_remove_allticks t s) = Done s'" "pool_inv s'"
    "heap s' t = None" "\<forall>v. v \<noteq> t \<longrightarrow> in_use s' v = in_use s v"
    using destroy_inv [OF inv u] by blast
  then have "\<not> in_use s' t" by (auto simp: in_use_def pool_inv_def)
  then show ?thesis using tk s' by (simp add: fuse_ticket_kill_def)
qed

lemma pool_inv_fdata_fresh: "pool_inv (fdata_fresh cred pid addr g)"
  by (simp add: fdata_fresh_def pool_inv_def uniques_ok_def free_count_ok_def)

lemma osm_total_zero: "osm_total zero_osm"
  by (simp add: osm_total_def zero_osm_def)

lemma sleep_ok_id: "sleep_ok (\<lambda>s. (0, s))"
  by (simp add: sleep_ok_def)

section \<open>Properties\<close>



text \<open>
  C3: dropping or killing a ticket that is in use returns it to the pool, on the free list or
  freed, without a panic, without touching freed memory and without disturbing any other ticket.
\<close>

theorem ticket_drop_returns:
  assumes "pool_inv s" and "in_use s t" and "osm_ok osm" and "osm_total osm"
  shows "(\<exists>s'. fuse_ticket_drop tun osm t s = Done s' \<and> pool_inv s' \<and> \<not> in_use s' t \<and>
           (\<forall>v. v \<noteq> t \<longrightarrow> in_use s' v = in_use s v)) \<and>
         (\<exists>s'. fuse_ticket_kill tun t s = Done s' \<and> pool_inv s' \<and> \<not> in_use s' t \<and>
           (\<forall>v. v \<noteq> t \<longrightarrow> in_use s' v = in_use s v))"
  using fuse_ticket_drop_inv [OF assms] fuse_ticket_kill_inv [OF assms(1,2)] by blast

theorem ticket_drop_returns_witness:
  "\<exists>t s s'. in_use s t \<and> fuse_ticket_drop fuse_tunables_default zero_osm t s = Done s' \<and>
     pool_inv s' \<and> \<not> in_use s' t"
proof -
  let ?s = "fdata_fresh \<lparr>cr_uid = 501, cr_ruid = 501, cr_gid = 20, cr_rgid = 20, cr_svgid = 20\<rparr> 77 0
    fuse_counters_init"
  have "unat (ticketer ?s) < 18446744073709551615" by (simp add: fdata_fresh_def)
  from fuse_ticket_fetch_inv [OF pool_inv_fdata_fresh osm_ok_zero osm_total_zero this sleep_ok_id]
  obtain t s where "pool_inv s" "in_use s t" by blast
  from ticket_drop_returns [OF this osm_ok_zero osm_total_zero, of fuse_tunables_default] this
  show ?thesis by blast
qed

end
