(* ===== verification/Fuse_Ipc.thy ===== *)
theory Fuse_Ipc
  imports Fuse_Ticket
begin

text \<open>
  Requests and their answers (the second half of \<^verbatim>\<open>fuse_ipc.c\<close>, with the senders of
  \<^verbatim>\<open>fuse_internal.c\<close> that need no answer): the dispatcher that builds a request in a ticket,
  the audit of the size of an answer's body, the handlers that the device calls on an answer, and
  the thread that waits for it.

  Parameters, in the record \<open>kenv\<close>, are what the surrounding kernel provides: the allocator, the
  current process, the sleep inside \<^verbatim>\<open>fuse_ticket_fetch\<close> and \<^verbatim>\<open>uiomove\<close> in both
  directions. The record \<open>waiting\<close> says what other threads do while the requester waits: before
  it sleeps, in each sleep (with the response of the alert panel, should it time out), and
  between the two critical sections that deal with an interrupted request.
\<close>

section \<open>The surrounding kernel\<close>

record vfs_context =
  vc_pid :: int
  vc_cred :: ucred

text \<open>A destination of \<^verbatim>\<open>uiomove\<close> in user space: the room left and the bytes delivered.\<close>

record uio =
  uio_resid :: nat
  uio_out :: bytes

record kenv =
  k_tun :: fuse_tunables
  k_osm :: osmalloc
  k_cur :: vfs_context
  k_sleep :: sleep
  k_uiomove_in :: "int \<Rightarrow> bytes \<Rightarrow> errno \<times> bytes \<times> bytes"
  k_uiomove_out :: "int \<Rightarrow> bytes \<Rightarrow> uio \<Rightarrow> errno \<times> uio"

text \<open>
  From user space, \<^verbatim>\<open>uiomove\<close> of \<open>n\<close> bytes returns an error number, the bytes it copied and
  the bytes still to come: it copies a prefix of at most \<open>n\<close> bytes, all of them when it succeeds
  and as many are there. To user space it appends the bytes and takes them off the room.
\<close>

definition uiomove_in_ok :: "(int \<Rightarrow> bytes \<Rightarrow> errno \<times> bytes \<times> bytes) \<Rightarrow> bool" where
  "uiomove_in_ok um \<longleftrightarrow>
     (\<forall>n bs e c r. 0 \<le> n \<longrightarrow> um n bs = (e, c, r) \<longrightarrow>
        c @ r = bs \<and> int (length c) \<le> n \<and> (e = 0 \<longrightarrow> length c = min (nat n) (length bs)))"

definition uiomove_out_ok :: "(int \<Rightarrow> bytes \<Rightarrow> uio \<Rightarrow> errno \<times> uio) \<Rightarrow> bool" where
  "uiomove_out_ok um \<longleftrightarrow>
     (\<forall>n bs u u'. 0 \<le> n \<longrightarrow> nat n \<le> length bs \<longrightarrow> nat n \<le> uio_resid u \<longrightarrow> um n bs u = (0, u') \<longrightarrow>
        u' = u\<lparr>uio_resid := uio_resid u - nat n, uio_out := uio_out u @ take (nat n) bs\<rparr>)"

definition plain_uiomove_in :: "int \<Rightarrow> bytes \<Rightarrow> errno \<times> bytes \<times> bytes" where
  "plain_uiomove_in n bs = (0, take (nat n) bs, drop (nat n) bs)"

definition plain_uiomove_out :: "int \<Rightarrow> bytes \<Rightarrow> uio \<Rightarrow> errno \<times> uio" where
  "plain_uiomove_out n bs u =
     (0, u\<lparr>uio_resid := uio_resid u - nat n, uio_out := uio_out u @ take (nat n) bs\<rparr>)"

section \<open>The dispatcher\<close>

text \<open>
  \<open>fd_finh\<close> and \<open>fd_indata\<close> point into the message buffer of a ticket, at the given offset;
  \<open>fd_answ\<close> points at the answer buffer of a ticket.
\<close>

record fuse_dispatcher =
  fd_tick :: "tid option"
  fd_finh :: "(tid \<times> nat) option"
  fd_indata :: "(tid \<times> nat) option"
  fd_iosize :: nat
  fd_nodeid :: u64
  fd_answ_stat :: errno
  fd_answ :: "tid option"

definition fdisp_uninit :: fuse_dispatcher where
  "fdisp_uninit =
     \<lparr>fd_tick = None, fd_finh = None, fd_indata = None, fd_iosize = 0, fd_nodeid = 0,
      fd_answ_stat = 0, fd_answ = None\<rparr>"

definition fdisp_init :: "fuse_dispatcher \<Rightarrow> nat \<Rightarrow> fuse_dispatcher" where
  "fdisp_init fd sz = fd\<lparr>fd_iosize := sz, fd_tick := None\<rparr>"

definition fuse_setup_ihead ::
    "kenv \<Rightarrow> bytes \<Rightarrow> fuse_ticket \<Rightarrow> u64 \<Rightarrow> fuse_opcode \<Rightarrow> nat \<Rightarrow> vfs_context option \<Rightarrow>
     bytes outcome" where
  "fuse_setup_ihead k ihead tk nid op blen context =
     (let c = (case context of Some c \<Rightarrow> c | None \<Rightarrow> k_cur k)
      in store_at 0
           (take 36 (encode_in_header
              \<lparr>ih_len = word_of_nat (sizeof 8 fuse_in_header_layout + blen),
               ih_opcode = word_of_nat (opcode_num op), ih_unique = tk_unique tk, ih_nodeid = nid,
               ih_uid = cr_uid (vc_cred c), ih_gid = cr_gid (vc_cred c),
               ih_pid = word_of_int (vc_pid c), ih_padding = 0\<rparr>))
           ihead)"

definition fdisp_ticket ::
    "kenv \<Rightarrow> fuse_dispatcher \<Rightarrow> session \<Rightarrow> (tid \<times> session) outcome" where
  "fdisp_ticket k fd s =
     (case fd_tick fd of
        Some t \<Rightarrow> bind_outcome (fticket_refresh (k_tun k) (k_osm k) t s) (\<lambda>s1. Done (t, s1))
      | None \<Rightarrow> fuse_ticket_fetch (k_tun k) (k_osm k) (k_sleep k) s)"

definition fdisp_make ::
    "kenv \<Rightarrow> fuse_dispatcher \<Rightarrow> fuse_opcode \<Rightarrow> u64 \<Rightarrow> vfs_context option \<Rightarrow> session \<Rightarrow>
     (fuse_dispatcher \<times> session) outcome" where
  "fdisp_make k fd op nid context s =
     bind_outcome (fdisp_ticket k fd s) (\<lambda>(t, s1).
     bind_outcome (ticket s1 t) (\<lambda>tk.
     bind_outcome
       (fiov_adjust (k_tun k) (k_osm k) (tk_ms_fiov tk)
          (sizeof 8 fuse_in_header_layout + fd_iosize fd) (cnt s1)) (\<lambda>(f, g).
     bind_outcome (fuse_setup_ihead k (base f) tk nid op (fd_iosize fd) context) (\<lambda>b.
       Done (fd\<lparr>fd_tick := Some t, fd_finh := Some (t, 0),
                fd_indata := Some (t, sizeof 8 fuse_in_header_layout)\<rparr>,
             put_ticket t (tk\<lparr>tk_ms_fiov := f\<lparr>base := b\<rparr>\<rparr>) (s1\<lparr>cnt := g\<rparr>))))))"

definition fdisp_make_canfail ::
    "kenv \<Rightarrow> fuse_dispatcher \<Rightarrow> fuse_opcode \<Rightarrow> u64 \<Rightarrow> vfs_context option \<Rightarrow> session \<Rightarrow>
     (errno \<times> fuse_dispatcher \<times> session) outcome" where
  "fdisp_make_canfail k fd op nid context s =
     bind_outcome (fdisp_ticket k fd s) (\<lambda>(t, s1).
     bind_outcome (ticket s1 t) (\<lambda>tk.
     bind_outcome
       (fiov_adjust_canfail (k_tun k) (k_osm k) (tk_ms_fiov tk)
          (sizeof 8 fuse_in_header_layout + fd_iosize fd) (cnt s1)) (\<lambda>(failed, f, g).
       if failed \<noteq> 0 then
         bind_outcome
           (fuse_ticket_kill (k_tun k) t
              (put_ticket t (tk\<lparr>tk_ms_fiov := f\<rparr>) (s1\<lparr>cnt := g\<rparr>)))
           (\<lambda>s2. Done (failed, fd\<lparr>fd_tick := Some t\<rparr>, s2))
       else
         bind_outcome (fuse_setup_ihead k (base f) tk nid op (fd_iosize fd) context) (\<lambda>b.
           Done (0, fd\<lparr>fd_tick := Some t, fd_finh := Some (t, 0),
                      fd_indata := Some (t, sizeof 8 fuse_in_header_layout)\<rparr>,
                 put_ticket t (tk\<lparr>tk_ms_fiov := f\<lparr>base := b\<rparr>\<rparr>) (s1\<lparr>cnt := g\<rparr>))))))"

text \<open>A store of a sender into the request body that \<^verbatim>\<open>indata\<close> points at.\<close>

definition write_indata ::
    "fuse_dispatcher \<Rightarrow> nat \<Rightarrow> bytes \<Rightarrow> session \<Rightarrow> session outcome" where
  "write_indata fd off v s =
     (case fd_indata fd of
        None \<Rightarrow> BadAccess
      | Some (t, p) \<Rightarrow>
          bind_outcome (ticket s t) (\<lambda>tk.
          bind_outcome (store_at (p + off) v (base (tk_ms_fiov tk))) (\<lambda>b.
            Done (put_ticket t (tk\<lparr>tk_ms_fiov := (tk_ms_fiov tk)\<lparr>base := b\<rparr>\<rparr>) s))))"

section \<open>Senders that want no answer\<close>

definition fuse_internal_forget_send ::
    "kenv \<Rightarrow> vfs_context option \<Rightarrow> u64 \<Rightarrow> u64 \<Rightarrow> fuse_dispatcher \<Rightarrow> session \<Rightarrow>
     (fuse_dispatcher \<times> session) outcome" where
  "fuse_internal_forget_send k context nodeid nlookup fdip s =
     bind_outcome
       (fdisp_make k (fdisp_init fdip (sizeof 8 fuse_forget_in)) FUSE_FORGET nodeid context s)
       (\<lambda>(fd, s1).
     bind_outcome (write_indata fd 0 (le_bytes 8 (unat nlookup)) s1) (\<lambda>s2.
     bind_outcome (of_option (fd_tick fd)) (\<lambda>t.
     bind_outcome (upd_ticket t fticket_invalidate s2) (\<lambda>s3.
     bind_outcome (fuse_insert_message t s3) (\<lambda>s4. Done (fd, s4))))))"

definition fuse_internal_interrupt_send :: "kenv \<Rightarrow> tid \<Rightarrow> session \<Rightarrow> session outcome" where
  "fuse_internal_interrupt_send k ftick s =
     bind_outcome
       (fdisp_make k (fdisp_init (fdisp_uninit\<lparr>fd_tick := Some ftick\<rparr>)
          (sizeof 8 fuse_interrupt_in)) FUSE_INTERRUPT 0 None s) (\<lambda>(fd, s1).
     bind_outcome (ticket s1 ftick) (\<lambda>tk.
     bind_outcome (write_indata fd 0 (le_bytes 8 (unat (tk_unique tk))) s1) (\<lambda>s2.
     bind_outcome (of_option (fd_tick fd)) (\<lambda>t.
     bind_outcome (upd_ticket t fticket_invalidate s2) (fuse_insert_message t)))))"

section \<open>Receiving an answer\<close>

definition PAGE_SIZE :: nat where "PAGE_SIZE = 4096"
definition FUSE_COMPAT_STATFS_SIZE :: nat where "FUSE_COMPAT_STATFS_SIZE = 48"

definition fuse_body_audit :: "session \<Rightarrow> fuse_ticket \<Rightarrow> nat \<Rightarrow> errno outcome" where
  "fuse_body_audit s tk blen =
     (let check = (\<lambda>b. Done (if b then 0 else EINVAL));
          read_size = field_at (sizeof 8 fuse_in_header_layout + 16) 4 (base (tk_ms_fiov tk))
      in if fdata_dead_get s then Done ENOTCONN
         else case fticket_opcode tk of
             None \<Rightarrow> Panic
           | Some op \<Rightarrow> (case op of
               FUSE_LOOKUP \<Rightarrow> check (blen = sizeof 8 fuse_entry_out)
             | FUSE_FORGET \<Rightarrow> Panic
             | FUSE_GETATTR \<Rightarrow> check (blen = sizeof 8 fuse_attr_out)
             | FUSE_SETATTR \<Rightarrow> check (blen = sizeof 8 fuse_attr_out)
             | FUSE_GETXTIMES \<Rightarrow> check (blen = sizeof 8 fuse_getxtimes_out)
             | FUSE_READLINK \<Rightarrow> check (PAGE_SIZE \<ge> blen)
             | FUSE_SYMLINK \<Rightarrow> check (blen = sizeof 8 fuse_entry_out)
             | FUSE_MKNOD \<Rightarrow> check (blen = sizeof 8 fuse_entry_out)
             | FUSE_MKDIR \<Rightarrow> check (blen = sizeof 8 fuse_entry_out)
             | FUSE_UNLINK \<Rightarrow> check (blen = 0)
             | FUSE_RMDIR \<Rightarrow> check (blen = 0)
             | FUSE_RENAME \<Rightarrow> check (blen = 0)
             | FUSE_LINK \<Rightarrow> check (blen = sizeof 8 fuse_entry_out)
             | FUSE_OPEN \<Rightarrow> check (blen = sizeof 8 fuse_open_out)
             | FUSE_READ \<Rightarrow> check (read_size \<ge> blen)
             | FUSE_WRITE \<Rightarrow> check (blen = sizeof 8 fuse_write_out)
             | FUSE_STATFS \<Rightarrow>
                 (if fuse_libabi_geq s 7 4 then check (blen = sizeof 8 fuse_statfs_out)
                  else check (blen = FUSE_COMPAT_STATFS_SIZE))
             | FUSE_RELEASE \<Rightarrow> check (blen = 0)
             | FUSE_FSYNC \<Rightarrow> check (blen = 0)
             | FUSE_SETXATTR \<Rightarrow> Done 0
             | FUSE_GETXATTR \<Rightarrow> Done 0
             | FUSE_LISTXATTR \<Rightarrow> Done 0
             | FUSE_REMOVEXATTR \<Rightarrow> Done 0
             | FUSE_FLUSH \<Rightarrow> check (blen = 0)
             | FUSE_INIT \<Rightarrow> check (blen = sizeof 8 fuse_init_out \<or> blen = 8)
             | FUSE_OPENDIR \<Rightarrow> check (blen = sizeof 8 fuse_open_out)
             | FUSE_READDIR \<Rightarrow> check (read_size \<ge> blen)
             | FUSE_RELEASEDIR \<Rightarrow> check (blen = 0)
             | FUSE_FSYNCDIR \<Rightarrow> check (blen = 0)
             | FUSE_GETLK \<Rightarrow> Panic
             | FUSE_SETLK \<Rightarrow> Panic
             | FUSE_SETLKW \<Rightarrow> Panic
             | FUSE_ACCESS \<Rightarrow> check (blen = 0)
             | FUSE_CREATE \<Rightarrow>
                 check (blen = sizeof 8 fuse_entry_out + sizeof 8 fuse_open_out)
             | FUSE_INTERRUPT \<Rightarrow> Done 0
             | FUSE_BMAP \<Rightarrow> Done 0
             | FUSE_DESTROY \<Rightarrow> check (blen = 0)
             | FUSE_EXCHANGE \<Rightarrow> check (blen = 0)
             | FUSE_SETVOLNAME \<Rightarrow> check (blen = 0)))"


definition fticket_aw_pull_uio ::
    "kenv \<Rightarrow> tid \<Rightarrow> bytes \<Rightarrow> session \<Rightarrow> (errno \<times> session) outcome" where
  "fticket_aw_pull_uio k t uio s =
     bind_outcome (ticket s t) (\<lambda>tk.
       if uio = [] then Done (0, s)
       else (case tk_aw_type tk of
           FT_A_FIOV \<Rightarrow>
             bind_outcome
               (fiov_adjust_canfail (k_tun k) (k_osm k) (tk_aw_fiov tk) (length uio) (cnt s))
               (\<lambda>(err, f, g).
                  if err \<noteq> 0 then
                    Done (err, put_ticket t (fticket_set_killl (tk\<lparr>tk_aw_fiov := f\<rparr>)) (s\<lparr>cnt := g\<rparr>))
                  else (case k_uiomove_in k (int_of_size (length uio)) uio of (e, c, r) \<Rightarrow>
                    bind_outcome (store_at 0 c (base f)) (\<lambda>b.
                      Done (e, put_ticket t (tk\<lparr>tk_aw_fiov := f\<lparr>base := b\<rparr>\<rparr>) (s\<lparr>cnt := g\<rparr>)))))
         | FT_A_BUF \<Rightarrow>
             (case k_uiomove_in k (int_of_size (length uio)) uio of (e, c, r) \<Rightarrow>
                bind_outcome (of_option (tk_aw_bufdata tk)) (\<lambda>bufdata.
                bind_outcome (store_at 0 c bufdata) (\<lambda>b.
                  Done (e, put_ticket t
                    (tk\<lparr>tk_aw_bufsize := length uio, tk_aw_bufdata := Some b\<rparr>) s))))))"

definition fticket_pull ::
    "kenv \<Rightarrow> tid \<Rightarrow> bytes \<Rightarrow> session \<Rightarrow> (errno \<times> session) outcome" where
  "fticket_pull k t uio s =
     bind_outcome (ticket s t) (\<lambda>tk.
       if oh_error (tk_aw_ohead tk) \<noteq> 0 then Done (0, s)
       else bind_outcome (fuse_body_audit s tk (length uio)) (\<lambda>err.
              if err = 0 then fticket_aw_pull_uio k t uio s else Done (err, s)))"

definition fuse_standard_handler ::
    "kenv \<Rightarrow> tid \<Rightarrow> bytes \<Rightarrow> session \<Rightarrow> (errno \<times> session) outcome" where
  "fuse_standard_handler k t uio s =
     bind_outcome (fticket_pull k t uio s) (\<lambda>(err, s1).
     bind_outcome (ticket s1 t) (\<lambda>tk.
       if fticket_answered tk then
         bind_outcome (fuse_ticket_drop (k_tun k) (k_osm k) t s1) (\<lambda>s2. Done (err, s2))
       else
         Done (err, event (Wakeup_ticket t)
           (put_ticket t ((fticket_set_answered tk)\<lparr>tk_aw_errno := err\<rparr>) s1))))"

definition FSESS_NOIMPLBIT :: "fuse_opcode \<Rightarrow> u64" where
  "FSESS_NOIMPLBIT op = push_bit (opcode_num op) 1"

definition fuse_implemented :: "session \<Rightarrow> u64 \<Rightarrow> bool" where
  "fuse_implemented s which \<longleftrightarrow> \<not> has_flag (noimplflags s) which"

definition fuse_clear_implemented :: "u64 \<Rightarrow> session \<Rightarrow> session" where
  "fuse_clear_implemented which s = s\<lparr>noimplflags := set_flag (noimplflags s) which\<rparr>"

definition fuse_set_implemented_custom :: "u64 \<Rightarrow> session \<Rightarrow> errno \<times> session" where
  "fuse_set_implemented_custom flags s = (0, s\<lparr>noimplflags := flags\<rparr>)"

definition fuse_internal_fsync_callback ::
    "kenv \<Rightarrow> tid \<Rightarrow> bytes \<Rightarrow> session \<Rightarrow> (errno \<times> session) outcome" where
  "fuse_internal_fsync_callback k t uio s =
     bind_outcome (ticket s t) (\<lambda>tk.
       let s1 = (if oh_error (tk_aw_ohead tk) = word_of_int ENOSYS then
                   (if fticket_opcode tk = Some FUSE_FSYNC
                    then fuse_clear_implemented (FSESS_NOIMPLBIT FUSE_FSYNC) s
                    else if fticket_opcode tk = Some FUSE_FSYNCDIR
                    then fuse_clear_implemented (FSESS_NOIMPLBIT FUSE_FSYNCDIR) s
                    else s)
                 else s)
       in bind_outcome (fuse_ticket_drop (k_tun k) (k_osm k) t s1) (\<lambda>s2. Done (0, s2)))"

definition fuse_internal_forget_callback ::
    "kenv \<Rightarrow> tid \<Rightarrow> bytes \<Rightarrow> session \<Rightarrow> (errno \<times> session) outcome" where
  "fuse_internal_forget_callback k t uio s =
     bind_outcome (ticket s t) (\<lambda>tk.
     bind_outcome
       (fuse_internal_forget_send k None (word_of_nat (field_at 16 8 (base (tk_ms_fiov tk)))) 1
          (fdisp_uninit\<lparr>fd_tick := Some t\<rparr>) s) (\<lambda>(fd, s1). Done (0, s1)))"

text \<open>The call through the function pointer \<^verbatim>\<open>tk_aw_handler\<close>.\<close>

fun call_handler ::
    "kenv \<Rightarrow> fuse_handler \<Rightarrow> tid \<Rightarrow> bytes \<Rightarrow> session \<Rightarrow> (errno \<times> session) outcome" where
  "call_handler k fuse_standard_handler_fn = fuse_standard_handler k"
| "call_handler k fuse_internal_fsync_callback_fn = fuse_internal_fsync_callback k"
| "call_handler k fuse_internal_forget_callback_fn = fuse_internal_forget_callback k"

section \<open>Waiting for an answer\<close>

text \<open>The responses of the alert panel; \<open>None\<close> is a panel that could not be shown.\<close>

datatype kunc_response =
    kKUNCDefaultResponse | kKUNCAlternateResponse | kKUNCOtherResponse | kKUNCCancelResponse
  | kKUNCUnknownResponse

record waiting =
  w_gap :: "session \<Rightarrow> session"
  w_sleeps :: "(sleep \<times> kunc_response option) list"
  w_race :: "session \<Rightarrow> session"

definition wait_alreadydead :: "tid \<Rightarrow> session \<Rightarrow> (errno option \<times> session) outcome" where
  "wait_alreadydead t s =
     bind_outcome (upd_ticket t fticket_set_answered
                     (if fdata_dead_get s then s else fdata_set_dead s))
       (\<lambda>s1. Done (Some ENOTCONN, s1))"

text \<open>The end of \<^verbatim>\<open>fticket_wait_answer\<close>, from the label \<^verbatim>\<open>out\<close>.\<close>

definition wait_out :: "tid \<Rightarrow> errno \<Rightarrow> session \<Rightarrow> (errno option \<times> session) outcome" where
  "wait_out t err s =
     bind_outcome (ticket s t) (\<lambda>tk.
       Done (Some (if err \<noteq> 0 \<or> fticket_answered tk then err else ENXIO), s))"

text \<open>
  The loop at the label \<^verbatim>\<open>again\<close>: one round for every sleep of the list. When the list
  is used up the thread is still asleep, which the result \<open>None\<close> says.
\<close>

fun wait_again ::
    "kenv \<Rightarrow> tid \<Rightarrow> (sleep \<times> kunc_response option) list \<Rightarrow> session \<Rightarrow>
     (errno option \<times> session) outcome" where
  "wait_again k t [] s = Done (None, s)"
| "wait_again k t ((msleep, alert) # rest) s =
     (case msleep s of (err, s1) \<Rightarrow>
        if err = EAGAIN then
          (if has_flag (dataflags s1) FSESS_NO_ALERTS then
             wait_alreadydead t (s1\<lparr>timeout_status := FUSE_DAEMON_TIMEOUT_DEAD\<rparr>)
           else if timeout_status s1 = FUSE_DAEMON_TIMEOUT_NONE then
             (let s2 = s1\<lparr>timeout_status := FUSE_DAEMON_TIMEOUT_PROCESSING\<rparr>;
                  rf = (case alert of None \<Rightarrow> kKUNCOtherResponse | Some r \<Rightarrow> r)
              in if rf = kKUNCDefaultResponse \<or> rf = kKUNCAlternateResponse \<or>
                    rf = kKUNCCancelResponse
                 then wait_again k t rest
                        (s2\<lparr>timeout_status := FUSE_DAEMON_TIMEOUT_NONE,
                           daemon_timeout_p :=
                             (if rf = kKUNCAlternateResponse then None
                              else daemon_timeout_p s2)\<rparr>)
                 else wait_alreadydead t (s2\<lparr>timeout_status := FUSE_DAEMON_TIMEOUT_DEAD\<rparr>))
           else if timeout_status s1 = FUSE_DAEMON_TIMEOUT_DEAD then wait_alreadydead t s1
           else wait_again k t rest s1)
        else if err = EINTR then
          bind_outcome (fuse_internal_interrupt_send k t s1) (wait_out t err)
        else wait_out t err s1)"

definition fticket_wait_answer ::
    "kenv \<Rightarrow> (sleep \<times> kunc_response option) list \<Rightarrow> tid \<Rightarrow> session \<Rightarrow>
     (errno option \<times> session) outcome" where
  "fticket_wait_answer k sleeps t s =
     bind_outcome (ticket s t) (\<lambda>tk.
       if fticket_answered tk then wait_out t 0 s
       else if fdata_dead_get s then
         bind_outcome (upd_ticket t fticket_set_answered s) (wait_out t ENOTCONN)
       else wait_again k t sleeps s)"

text \<open>The treatment of an interrupted request that has no answer yet.\<close>

definition fdisp_interrupted :: "(session \<Rightarrow> session) \<Rightarrow> tid \<Rightarrow> session \<Rightarrow> session outcome" where
  "fdisp_interrupted race t s =
     bind_outcome (ticket s t) (\<lambda>tk.
       let age = tk_age tk; s1 = race (put_ticket t (fticket_set_answered tk) s)
       in bind_outcome (ticket s1 t) (\<lambda>tk1.
            if t \<in> set (aw_head s1) \<and> tk_age tk1 = age
            then upd_ticket t (\<lambda>x. x\<lparr>tk_aw_handler := None\<rparr>) s1 else Done s1))"

definition fdisp_wait_answ ::
    "kenv \<Rightarrow> waiting \<Rightarrow> fuse_dispatcher \<Rightarrow> session \<Rightarrow>
     (errno option \<times> fuse_dispatcher \<times> session) outcome" where
  "fdisp_wait_answ k w fd s =
     bind_outcome (of_option (fd_tick fd)) (\<lambda>t.
     bind_outcome (fuse_insert_callback t (Some fuse_standard_handler_fn) s) (\<lambda>s1.
     bind_outcome (fuse_insert_message t s1) (\<lambda>s2.
     bind_outcome (fticket_wait_answer k (w_sleeps w) t (w_gap w s2)) (\<lambda>(e, s3).
     let fd0 = fd\<lparr>fd_answ_stat := 0\<rparr>;
         drop_with = (\<lambda>err fd'. bind_outcome (fuse_ticket_drop (k_tun k) (k_osm k) t s3)
                                  (\<lambda>s4. Done (Some err, fd', s4)))
     in case e of
          None \<Rightarrow> Done (None, fd0, s3)
        | Some err \<Rightarrow>
            bind_outcome (ticket s3 t) (\<lambda>tk.
              if err \<noteq> 0 then
                (if fticket_answered tk then drop_with err fd0
                 else bind_outcome (fdisp_interrupted (w_race w) t s3)
                        (\<lambda>s4. Done (Some err, fd0, s4)))
              else if tk_aw_errno tk \<noteq> 0 then drop_with EIO fd0
              else if oh_error (tk_aw_ohead tk) \<noteq> 0 then
                drop_with (sint (oh_error (tk_aw_ohead tk)))
                  (fd0\<lparr>fd_answ_stat := sint (oh_error (tk_aw_ohead tk))\<rparr>)
              else Done (Some 0, fd0\<lparr>fd_answ := Some t, fd_iosize := len (tk_aw_fiov tk)\<rparr>, s3))))))"

definition fdisp_simple_putget ::
    "kenv \<Rightarrow> waiting \<Rightarrow> fuse_dispatcher \<Rightarrow> fuse_opcode \<Rightarrow> u64 \<Rightarrow> vfs_context option \<Rightarrow> session \<Rightarrow>
     (errno option \<times> fuse_dispatcher \<times> session) outcome" where
  "fdisp_simple_putget k w fd op nid context s =
     bind_outcome (fdisp_make k (fdisp_init fd 0) op nid context s)
       (\<lambda>(fd1, s1). fdisp_wait_answ k w fd1 s1)"

section \<open>Building a request\<close>

lemma decode_header_overlay:
  "40 \<le> length b \<Longrightarrow>
     decode_in_header (write_at 0 (take 36 (encode_in_header h)) b) =
     h\<lparr>ih_padding := word_of_nat (field_at 36 4 b)\<rparr>"
proof -
  assume b: "40 \<le> length b"
  let ?v = "take 4 (drop 36 b)"
  have v: "le_bytes 4 (unat (word_of_nat (le_value ?v) :: u32)) = ?v"
  proof -
    have l: "length ?v = 4" using b by simp
    have "le_value ?v < 2 ^ 32" using le_value_bound [of ?v] unfolding l by simp
    then have "unat (word_of_nat (le_value ?v) :: u32) = le_value ?v"
      by (simp add: unat_of_nat take_bit_nat_eq_self)
    then show ?thesis using le_bytes_value [of ?v] l by simp
  qed
  have "drop 4 (drop 36 b) = drop 40 b" by simp
  then have "drop 36 b = ?v @ drop 40 b" by (metis append_take_drop_id)
  then have "write_at 0 (take 36 (encode_in_header h)) b =
      encode_in_header (h\<lparr>ih_padding := word_of_nat (field_at 36 4 b)\<rparr>) @ drop 40 b"
    using b v by (simp add: write_at_def encode_in_header_def field_at_def)
  then show ?thesis by (simp add: decode_encode_in_header)
qed

text \<open>The header that a request of the given kind carries, up to the padding.\<close>

definition request_header :: "kenv \<Rightarrow> u64 \<Rightarrow> u64 \<Rightarrow> fuse_opcode \<Rightarrow> nat \<Rightarrow> vfs_context option \<Rightarrow> u32 \<Rightarrow> in_header" where
  "request_header k unique nid op blen context pad =
     (let c = (case context of Some c \<Rightarrow> c | None \<Rightarrow> k_cur k)
      in \<lparr>ih_len = word_of_nat (40 + blen), ih_opcode = word_of_nat (opcode_num op),
          ih_unique = unique, ih_nodeid = nid, ih_uid = cr_uid (vc_cred c),
          ih_gid = cr_gid (vc_cred c), ih_pid = word_of_int (vc_pid c), ih_padding = pad\<rparr>)"

lemma fuse_setup_ihead_ok:
  assumes "40 \<le> length b"
  shows "\<exists>b' pad. fuse_setup_ihead k b tk nid op blen context = Done b' \<and> length b' = length b \<and>
    decode_in_header b' = request_header k (tk_unique tk) nid op blen context pad \<and>
    drop 40 b' = drop 40 b"
proof -
  let ?h = "request_header k (tk_unique tk) nid op blen context 0"
  have "fuse_setup_ihead k b tk nid op blen context =
      Done (write_at 0 (take 36 (encode_in_header ?h)) b)"
    using assms by (simp add: fuse_setup_ihead_def request_header_def Let_def)
  moreover have "decode_in_header (write_at 0 (take 36 (encode_in_header ?h)) b) =
      request_header k (tk_unique tk) nid op blen context (word_of_nat (field_at 36 4 b))"
    using assms by (simp add: decode_header_overlay) (simp add: request_header_def Let_def)
  ultimately show ?thesis using assms by (auto simp: write_at_def)
qed

lemma fdisp_make_ok:
  assumes inv: "pool_inv s" and osm: "osm_ok (k_osm k)" "osm_total (k_osm k)"
    and room: "unat (ticketer s) < 18446744073709551615"
    and ini: "has_flag (dataflags s) FSESS_INITED" and lim: "fuse_max_tickets (k_tun k) = 0"
    and fd: "fd_tick fd = None" and sz: "40 + fd_iosize fd < 2 ^ 32"
  shows "\<exists>t s' tk pad. fdisp_make k fd op nid context s =
      Done (fd\<lparr>fd_tick := Some t, fd_finh := Some (t, 0), fd_indata := Some (t, 40)\<rparr>, s') \<and>
    pool_inv s' \<and> in_use s' t \<and> \<not> in_use s t \<and> pool_frame t s s' \<and>
    (\<forall>v. v \<noteq> t \<longrightarrow> in_use s' v = in_use s v) \<and> heap s' t = Some tk \<and> ticket_clean tk \<and>
    len (tk_ms_fiov tk) = 40 + fd_iosize fd \<and>
    decode_in_header (base (tk_ms_fiov tk)) =
      request_header k (tk_unique tk) nid op (fd_iosize fd) context pad"
proof -
  obtain t s1 tk where f: "fuse_ticket_fetch (k_tun k) (k_osm k) (k_sleep k) s = Done (t, s1)"
    "pool_inv s1" "in_use s1 t" "\<not> in_use s t" "pool_frame t s s1"
    "\<forall>v. v \<noteq> t \<longrightarrow> in_use s1 v = in_use s v" "heap s1 t = Some tk" "ticket_clean tk"
    using fuse_ticket_fetch_inited [OF inv osm room ini lim] by blast
  obtain f1 g where a: "fiov_adjust (k_tun k) (k_osm k) (tk_ms_fiov tk) (40 + fd_iosize fd) (cnt s1)
      = Done (f1, g)" using fiov_adjust_total [OF osm(2)] by blast
  have wf: "ticket_wf tk" using f by (auto simp: pool_inv_def)
  then have wf1: "fiov_wf f1" "len f1 = 40 + fd_iosize fd"
    using fiov_adjust_wf [OF a osm(1)] sz by (auto simp: ticket_wf_def)
  then have "40 \<le> length (base f1)" by (simp add: fiov_wf_def)
  then obtain b pad where b: "fuse_setup_ihead k (base f1) tk nid op (fd_iosize fd) context = Done b"
    "length b = length (base f1)"
    "decode_in_header b = request_header k (tk_unique tk) nid op (fd_iosize fd) context pad"
    using fuse_setup_ihead_ok by blast
  let ?tk = "tk\<lparr>tk_ms_fiov := f1\<lparr>base := b\<rparr>\<rparr>"
  let ?s = "put_ticket t ?tk (s1\<lparr>cnt := g\<rparr>)"
  have "fdisp_make k fd op nid context s =
      Done (fd\<lparr>fd_tick := Some t, fd_finh := Some (t, 0), fd_indata := Some (t, 40)\<rparr>, ?s)"
    using f(1,7) a b(1) fd by (simp add: fdisp_make_def fdisp_ticket_def ticket_def)
  moreover have "pool_inv ?s"
    by (rule pool_inv_put_ticket [where tk = tk])
      (use f wf wf1 b(2) in \<open>simp_all add: ticket_wf_def fiov_wf_def\<close>)
  moreover have "pool_frame t s ?s"
    by (rule pool_frame_trans [OF f(5)]) (simp add: pool_frame_def put_ticket_def)
  ultimately show ?thesis
    using f wf1 b(3) by (auto simp: ticket_clean_def intro!: exI [where x = ?tk])
qed

end
