(* ===== verification/Fuse_Device.thy ===== *)
theory Fuse_Device
  imports Fuse_Ipc
begin

text \<open>
  The character devices \<^verbatim>\<open>/dev/fuse0\<close> to \<^verbatim>\<open>/dev/fuse23\<close> (\<^verbatim>\<open>fuse_device.c\<close>)
  through which a daemon reads requests and writes answers: opening, closing, reading, writing,
  the control calls, killing a session, and the start and the stop of the whole table.

  The session of a device is the one its \<^verbatim>\<open>data\<close> pointer refers to. The counters of the
  extension are global: an operation on a session starts from them and hands them back. The
  global mutex is modelled by whether the running thread holds it, because the code releases it
  on a path where it was not taken; releasing a mutex that is not held is \<open>BadAccess\<close>.
\<close>

section \<open>Data\<close>

definition MACFUSE_NDEVICES :: nat where "MACFUSE_NDEVICES = 24"

record fuse_device =
  usecount :: int
  fdev_pid :: int
  fdev_random :: u32
  fdev_dev :: int
  cdev :: bool
  fdev_mtx :: bool
  fdev_data :: "session option"

definition fuse_device_zero :: fuse_device where
  "fuse_device_zero =
     \<lparr>usecount = 0, fdev_pid = 0, fdev_random = 0, fdev_dev = 0, cdev = False, fdev_mtx = False,
      fdev_data = None\<rparr>"

record devices =
  fuse_cdev_major :: int
  fuse_interface_available :: bool
  fuse_device_table :: "fuse_device list"
  dev_cnt :: fuse_counters
  global_held :: bool

definition FUSE_DEVICE_GLOBAL_LOCK :: "devices \<Rightarrow> devices" where
  "FUSE_DEVICE_GLOBAL_LOCK d = d\<lparr>global_held := True\<rparr>"

definition FUSE_DEVICE_GLOBAL_UNLOCK :: "devices \<Rightarrow> devices outcome" where
  "FUSE_DEVICE_GLOBAL_UNLOCK d =
     (if global_held d then Done (d\<lparr>global_held := False\<rparr>) else BadAccess)"

text \<open>The slot of a unit; the macro computes an address and never yields a null pointer.\<close>

definition FUSE_DEVICE_FROM_UNIT_FAST :: "devices \<Rightarrow> int \<Rightarrow> fuse_device outcome" where
  "FUSE_DEVICE_FROM_UNIT_FAST d u =
     (if 0 \<le> u \<and> u < int (length (fuse_device_table d))
      then Done (fuse_device_table d ! nat u) else BadAccess)"

definition put_device :: "int \<Rightarrow> fuse_device \<Rightarrow> devices \<Rightarrow> devices" where
  "put_device u fdev d = d\<lparr>fuse_device_table := (fuse_device_table d)[nat u := fdev]\<rparr>"

definition fuse_device_get :: "devices \<Rightarrow> int \<Rightarrow> fuse_device option" where
  "fuse_device_get d u =
     (if u < 0 \<or> u \<ge> int MACFUSE_NDEVICES then None
      else (case FUSE_DEVICE_FROM_UNIT_FAST d u of Done x \<Rightarrow> Some x | _ \<Rightarrow> None))"

text \<open>Run an operation on the session of a device, with the global counters.\<close>

definition on_session ::
    "int \<Rightarrow> (session \<Rightarrow> ('a \<times> session) outcome) \<Rightarrow> devices \<Rightarrow> ('a \<times> devices) outcome" where
  "on_session u f d =
     bind_outcome (FUSE_DEVICE_FROM_UNIT_FAST d u) (\<lambda>fdev.
     bind_outcome (of_option (fdev_data fdev)) (\<lambda>s.
     bind_outcome (f (s\<lparr>cnt := dev_cnt d\<rparr>)) (\<lambda>(r, s1).
       Done (r, (put_device u (fdev\<lparr>fdev_data := Some s1\<rparr>) d)\<lparr>dev_cnt := cnt s1\<rparr>))))"

section \<open>Opening and closing\<close>

definition fuse_device_close_final :: "kenv \<Rightarrow> int \<Rightarrow> devices \<Rightarrow> devices outcome" where
  "fuse_device_close_final k u d =
     bind_outcome (FUSE_DEVICE_FROM_UNIT_FAST d u) (\<lambda>fdev.
     bind_outcome (of_option (fdev_data fdev)) (\<lambda>s.
     bind_outcome (fdata_destroy (k_tun k) (s\<lparr>cnt := dev_cnt d\<rparr>)) (\<lambda>s1.
       Done ((put_device u (fdev\<lparr>fdev_data := None, fdev_pid := -1, fdev_random := 0\<rparr>) d)
               \<lparr>dev_cnt := cnt s1\<rparr>))))"

definition fuse_device_open ::
    "kenv \<Rightarrow> int \<Rightarrow> ucred \<Rightarrow> int \<Rightarrow> u32 \<Rightarrow> devices \<Rightarrow> (errno \<times> devices) outcome" where
  "fuse_device_open k unt cred pid rnd d =
     (if \<not> fuse_interface_available d then Done (ENOENT, d)
      else if unt \<ge> int MACFUSE_NDEVICES \<or> unt < 0 then
        bind_outcome (FUSE_DEVICE_GLOBAL_UNLOCK d) (\<lambda>d1. Done (ENOENT, d1))
      else
        bind_outcome (FUSE_DEVICE_FROM_UNIT_FAST d unt) (\<lambda>fdev.
        let d1 = FUSE_DEVICE_GLOBAL_LOCK d
        in if usecount fdev \<noteq> 0 then
             bind_outcome (FUSE_DEVICE_GLOBAL_UNLOCK d1) (\<lambda>d2. Done (EBUSY, d2))
           else
             let fdev1 = fdev\<lparr>usecount := usecount fdev + 1\<rparr>
             in bind_outcome (FUSE_DEVICE_GLOBAL_UNLOCK (put_device unt fdev1 d1)) (\<lambda>d2.
                bind_outcome (fdata_alloc (k_tun k) (k_osm k) cred pid 0 (dev_cnt d2)) (\<lambda>fdata.
                  case fdev_data fdev1 of
                    Some _ \<Rightarrow>
                      let d3 = FUSE_DEVICE_GLOBAL_LOCK d2;
                          d4 = put_device unt (fdev1\<lparr>usecount := usecount fdev1 - 1\<rparr>) d3
                      in bind_outcome (FUSE_DEVICE_GLOBAL_UNLOCK d4) (\<lambda>d5.
                         bind_outcome (fdata_destroy (k_tun k) fdata) (\<lambda>s1.
                           Done (EBUSY, d5\<lparr>dev_cnt := cnt s1\<rparr>)))
                  | None \<Rightarrow>
                      Done (0, (put_device unt
                        (fdev1\<lparr>fdev_data :=
                                 Some (fdata\<lparr>dataflags := set_flag (dataflags fdata) FSESS_OPENED\<rparr>),
                               fdev_pid := pid, fdev_random := rnd\<rparr>) d2)\<lparr>dev_cnt := cnt fdata\<rparr>)))))"

text \<open>
  Taking every ticket off the answer queue, as closing and killing do; the queue gets shorter in
  every round, and its length bounds the rounds.
\<close>

fun notconn_all :: "nat \<Rightarrow> session \<Rightarrow> session outcome" where
  "notconn_all 0 s = Done s"
| "notconn_all (Suc n) s =
     (case fuse_aw_pop s of
        (None, s1) \<Rightarrow> Done s1
      | (Some t, s1) \<Rightarrow>
          bind_outcome
            (upd_ticket t (\<lambda>tk. (fticket_set_answered tk)\<lparr>tk_aw_errno := ENOTCONN\<rparr>) s1)
            (\<lambda>s2. notconn_all n (event (Wakeup_ticket t) s2)))"

definition fuse_device_close ::
    "kenv \<Rightarrow> int \<Rightarrow> devices \<Rightarrow> (errno \<times> devices) outcome" where
  "fuse_device_close k unt d =
     (if unt \<ge> int MACFUSE_NDEVICES then Done (ENOENT, d)
      else
        bind_outcome (FUSE_DEVICE_FROM_UNIT_FAST d unt) (\<lambda>fdev.
        case fdev_data fdev of
          None \<Rightarrow> Panic
        | Some data \<Rightarrow>
            let s0 = fdata_set_dead (data\<lparr>cnt := dev_cnt d\<rparr>);
                s1 = s0\<lparr>dataflags := clear_flag (dataflags s0) FSESS_OPENED\<rparr>
            in bind_outcome
                 (if mount_st s1 = FM_MOUNTED then
                    bind_outcome (notconn_all (length (aw_head s1)) s1) (\<lambda>s2.
                      Done (fdev\<lparr>fdev_data := Some s2\<rparr>, cnt s2))
                  else
                    bind_outcome (fdata_destroy (k_tun k) s1) (\<lambda>s2.
                      Done (fdev\<lparr>fdev_data := None, fdev_pid := -1, fdev_random := 0\<rparr>, cnt s2)))
                 (\<lambda>(fdev1, g).
                    let d1 = FUSE_DEVICE_GLOBAL_LOCK ((put_device unt fdev1 d)\<lparr>dev_cnt := g\<rparr>);
                        d2 = put_device unt (fdev1\<lparr>usecount := usecount fdev1 - 1\<rparr>) d1
                    in bind_outcome (FUSE_DEVICE_GLOBAL_UNLOCK d2) (\<lambda>d3. Done (0, d3)))))"

section \<open>Reading requests\<close>

datatype read_result = Read_error errno | Read_ticket tid | Read_asleep

text \<open>
  The read loop up to the release of the message mutex: one round for every sleep of the list;
  when the list is used up the daemon is still asleep.
\<close>

fun read_wait :: "bool \<Rightarrow> sleep list \<Rightarrow> session \<Rightarrow> read_result \<times> session" where
  "read_wait nonblock sleeps s =
     (if fdata_dead_get s then (Read_error ENODEV, s)
      else (case fuse_ms_pop s of
          (Some t, s1) \<Rightarrow> (Read_ticket t, s1)
        | (None, s1) \<Rightarrow>
            if nonblock then (Read_error EAGAIN, s1)
            else (case sleeps of
                [] \<Rightarrow> (Read_asleep, s1)
              | msleep # rest \<Rightarrow>
                  (case msleep s1 of (err, s2) \<Rightarrow>
                     if err \<noteq> 0 then (Read_error (if fdata_dead_get s2 then ENODEV else err), s2)
                     else (case fuse_ms_pop s2 of
                         (Some t, s3) \<Rightarrow> (Read_ticket t, s3)
                       | (None, s3) \<Rightarrow> read_wait nonblock rest s3)))))"

declare read_wait.simps [simp del]

text \<open>The buffers of a message, up to the first null pointer.\<close>

definition message_bufs :: "fuse_ticket \<Rightarrow> (bytes \<times> nat) list" where
  "message_bufs tk =
     (case tk_ms_type tk of
        FT_M_FIOV \<Rightarrow> [(base (tk_ms_fiov tk), len (tk_ms_fiov tk))]
      | FT_M_BUF \<Rightarrow>
          (base (tk_ms_fiov tk), len (tk_ms_fiov tk)) #
          (case tk_ms_bufdata tk of None \<Rightarrow> [] | Some b \<Rightarrow> [(b, tk_ms_bufsize tk)]))"

fun copy_out ::
    "kenv \<Rightarrow> (bytes \<times> nat) list \<Rightarrow> uio \<Rightarrow> session \<Rightarrow> (errno \<times> uio \<times> session) outcome" where
  "copy_out k [] uio s = Done (0, uio, s)"
| "copy_out k ((buf, buflen) # rest) uio s =
     (if uio_resid uio < buflen then
        Done (ENODEV, uio, s\<lparr>dataflags := set_flag (dataflags s) FSESS_DEAD\<rparr>)
      else if length buf < buflen then BadAccess
      else (case k_uiomove_out k (int_of_size buflen) buf uio of (err, uio1) \<Rightarrow>
              if err \<noteq> 0 then Done (err, uio1, s) else copy_out k rest uio1 s))"

definition fuse_device_read ::
    "kenv \<Rightarrow> bool \<Rightarrow> sleep list \<Rightarrow> (session \<Rightarrow> session) \<Rightarrow> uio \<Rightarrow> session \<Rightarrow>
     ((errno option \<times> uio) \<times> session) outcome" where
  "fuse_device_read k nonblock sleeps gap uio s =
     (case read_wait nonblock sleeps s of
        (Read_error err, s1) \<Rightarrow> Done ((Some err, uio), s1)
      | (Read_asleep, s1) \<Rightarrow> Done ((None, uio), s1)
      | (Read_ticket t, s0) \<Rightarrow>
          let s1 = gap s0
          in if fdata_dead_get s1 then
               bind_outcome (fuse_ticket_drop_invalid (k_tun k) (k_osm k) t s1)
                 (\<lambda>s2. Done ((Some ENODEV, uio), s2))
             else
               bind_outcome (ticket s1 t) (\<lambda>tk.
               bind_outcome (copy_out k (message_bufs tk) uio s1) (\<lambda>(err, uio1, s2).
               bind_outcome (ticket s2 t) (\<lambda>tk2.
               bind_outcome (fuse_ticket_drop_invalid (k_tun k) (k_osm k) t s2) (\<lambda>s3.
                 Done ((Some (if fticket_answered tk2 then EINTR else err), uio1), s3))))))"

section \<open>Writing answers\<close>

fun aw_find :: "session \<Rightarrow> u64 \<Rightarrow> tid list \<Rightarrow> tid option outcome" where
  "aw_find s unique [] = Done None"
| "aw_find s unique (t # ts) =
     bind_outcome (ticket s t) (\<lambda>tk.
       if tk_unique tk = unique then Done (Some t) else aw_find s unique ts)"

definition fuse_device_write ::
    "kenv \<Rightarrow> bytes \<Rightarrow> session \<Rightarrow> (errno \<times> session) outcome" where
  "fuse_device_write k uio s =
     (if length uio < sizeof 8 fuse_out_header_layout then Done (EINVAL, s)
      else (case k_uiomove_in k (int (sizeof 8 fuse_out_header_layout)) uio of (err, h, rest) \<Rightarrow>
        if err \<noteq> 0 then Done (err, s)
        else
          let ohead = decode_out_header h
          in if length rest + sizeof 8 fuse_out_header_layout \<noteq> unat (oh_len ohead) then Done (EINVAL, s)
             else if rest \<noteq> [] \<and> oh_error ohead \<noteq> 0 then Done (EINVAL, s)
             else
               let oh = ohead\<lparr>oh_error := - oh_error ohead\<rparr>
               in bind_outcome (aw_find s (oh_unique oh) (aw_head s)) (\<lambda>found.
                    case found of
                      None \<Rightarrow> Done (0, s)
                    | Some t \<Rightarrow>
                        let s1 = fuse_aw_remove t s
                        in bind_outcome (ticket s1 t) (\<lambda>tk.
                             case tk_aw_handler tk of
                               Some hnd \<Rightarrow>
                                 call_handler k hnd t rest (put_ticket t (tk\<lparr>tk_aw_ohead := oh\<rparr>) s1)
                             | None \<Rightarrow>
                                 bind_outcome (fuse_ticket_drop (k_tun k) (k_osm k) t s1)
                                   (\<lambda>s2. Done (0, s2))))))"

section \<open>Start and stop\<close>

text \<open>
  \<open>mknode\<close> says whether \<^verbatim>\<open>devfs_make_node\<close> succeeds for a unit; a device number is the
  major number shifted past the 24 bits of the minor number.
\<close>

definition makedev :: "int \<Rightarrow> nat \<Rightarrow> int" where
  "makedev major u = major * 2 ^ 24 + int u"

fun make_nodes ::
    "(nat \<Rightarrow> bool) \<Rightarrow> int \<Rightarrow> nat \<Rightarrow> nat \<Rightarrow> fuse_device list \<Rightarrow> (nat option \<times> fuse_device list)" where
  "make_nodes mknode major 0 i tab = (None, tab)"
| "make_nodes mknode major (Suc n) i tab =
     (if mknode i then
        make_nodes mknode major n (Suc i)
          (tab[i := \<lparr>usecount = 0, fdev_pid = -1, fdev_random = 0, fdev_dev = makedev major i,
                    cdev = True, fdev_mtx = True, fdev_data = None\<rparr>])
      else (Some i, tab))"

fun unmake_nodes :: "nat \<Rightarrow> fuse_device list \<Rightarrow> fuse_device list" where
  "unmake_nodes 0 tab = tab"
| "unmake_nodes (Suc i) tab =
     unmake_nodes i (tab[i := (tab ! i)\<lparr>cdev := False, fdev_dev := 0, fdev_mtx := False\<rparr>])"

definition fuse_devices_start ::
    "int \<Rightarrow> (nat \<Rightarrow> bool) \<Rightarrow> devices \<Rightarrow> int \<times> devices" where
  "fuse_devices_start major mknode d =
     (let tab = replicate MACFUSE_NDEVICES fuse_device_zero
      in if major = -1 then (5, d\<lparr>fuse_device_table := tab, fuse_cdev_major := -1\<rparr>)
         else (case make_nodes mknode major MACFUSE_NDEVICES 0 tab of
             (None, tab1) \<Rightarrow>
               (0, d\<lparr>fuse_device_table := tab1, fuse_cdev_major := major,
                    fuse_interface_available := True\<rparr>)
           | (Some i, tab1) \<Rightarrow>
               (5, d\<lparr>fuse_device_table := unmake_nodes i tab1, fuse_cdev_major := -1\<rparr>)))"

definition fuse_devices_stop :: "devices \<Rightarrow> (int \<times> devices) outcome" where
  "fuse_devices_stop d =
     (let d1 = FUSE_DEVICE_GLOBAL_LOCK (d\<lparr>fuse_interface_available := False\<rparr>)
      in if fuse_cdev_major d1 = -1 then
           bind_outcome (FUSE_DEVICE_GLOBAL_UNLOCK d1) (\<lambda>d2. Done (0, d2))
         else if \<exists>fdev \<in> set (fuse_device_table d1). usecount fdev \<noteq> 0 \<or> fdev_data fdev \<noteq> None then
           bind_outcome (FUSE_DEVICE_GLOBAL_UNLOCK (d1\<lparr>fuse_interface_available := True\<rparr>))
             (\<lambda>d2. Done (5, d2))
         else
           bind_outcome (FUSE_DEVICE_GLOBAL_UNLOCK
             (d1\<lparr>fuse_device_table :=
                  map (\<lambda>fdev. fdev\<lparr>cdev := False, fdev_dev := 0, fdev_pid := -1, fdev_random := 0,
                                 fdev_mtx := False\<rparr>) (fuse_device_table d1),
                fuse_cdev_major := -1\<rparr>)) (\<lambda>d2. Done (0, d2)))"

section \<open>Control calls\<close>

definition fuse_match_cred :: "ucred \<Rightarrow> ucred \<Rightarrow> errno" where
  "fuse_match_cred daemon request =
     (if cr_uid daemon = cr_uid request \<and> cr_uid daemon = cr_ruid request \<and>
         cr_gid daemon = cr_gid request \<and> cr_gid daemon = cr_rgid request \<and>
         cr_gid daemon = cr_svgid request
      then 0 else EPERM)"

text \<open>The control calls with the argument they read.\<close>

datatype fuse_dev_ioctl =
    FUSEDEVIOCSETIMPLEMENTEDBITS u64
  | FUSEDEVIOCGETHANDSHAKECOMPLETE
  | FUSEDEVIOCSETDAEMONDEAD
  | FUSEDEVIOCGETRANDOM
  | FUSEDEVIOCALTERVNODEFORINODE u64
  | FUSEDEVIOC_other

text \<open>
  The result is the error number and the 32-bit value a call stores for its caller. The call that
  alters a vnode works on the table of vnodes and not on the session: \<open>alter\<close> gives its result.
\<close>

definition fuse_device_ioctl ::
    "(u64 \<Rightarrow> errno) \<Rightarrow> int \<Rightarrow> fuse_dev_ioctl \<Rightarrow> devices \<Rightarrow> ((errno \<times> u32 option) \<times> devices) outcome" where
  "fuse_device_ioctl alter unt cmd d =
     bind_outcome (FUSE_DEVICE_FROM_UNIT_FAST d unt) (\<lambda>fdev.
       case fdev_data fdev of
         None \<Rightarrow> Done ((ENXIO, None), d)
       | Some _ \<Rightarrow>
           on_session unt (\<lambda>s.
             case cmd of
               FUSEDEVIOCSETIMPLEMENTEDBITS bits \<Rightarrow>
                 (case fuse_set_implemented_custom bits s of (e, s1) \<Rightarrow> Done ((e, None), s1))
             | FUSEDEVIOCGETHANDSHAKECOMPLETE \<Rightarrow>
                 Done (if mount_st s = FM_NOTMOUNTED then (ENXIO, None)
                       else (0, Some (dataflags s AND FSESS_INITED)), s)
             | FUSEDEVIOCSETDAEMONDEAD \<Rightarrow>
                 Done ((0, None), (fdata_set_dead s)\<lparr>timeout_status := FUSE_DAEMON_TIMEOUT_DEAD\<rparr>)
             | FUSEDEVIOCGETRANDOM \<Rightarrow> Done ((0, Some (fdev_random fdev)), s)
             | FUSEDEVIOCALTERVNODEFORINODE ino \<Rightarrow> Done ((alter ino, None), s)
             | FUSEDEVIOC_other \<Rightarrow> Done ((EINVAL, None), s)) d)"

definition fuse_device_kill ::
    "int \<Rightarrow> ucred option \<Rightarrow> devices \<Rightarrow> (errno \<times> devices) outcome" where
  "fuse_device_kill unt request d =
     (if unt < 0 \<or> unt \<ge> int MACFUSE_NDEVICES then Done (EINVAL, d)
      else
        bind_outcome (FUSE_DEVICE_FROM_UNIT_FAST d unt) (\<lambda>fdev.
          case fdev_data fdev of
            None \<Rightarrow> Done (ENOENT, d)
          | Some _ \<Rightarrow>
              on_session unt (\<lambda>s.
                case request of
                  None \<Rightarrow> Done (EPERM, s)
                | Some cred \<Rightarrow>
                    if cr_uid cred = 0 \<or> fuse_match_cred (daemoncred s) cred = 0 then
                      bind_outcome (notconn_all (length (aw_head s)) (fdata_set_dead s))
                        (\<lambda>s1. Done (0, s1))
                    else Done (EPERM, s)) d))"

definition fuse_device_print_vnodes ::
    "(int \<Rightarrow> bool) \<Rightarrow> int \<Rightarrow> ucred option \<Rightarrow> devices \<Rightarrow> errno outcome" where
  "fuse_device_print_vnodes busy unt request d =
     (if unt < 0 \<or> unt \<ge> int MACFUSE_NDEVICES then Done EINVAL
      else
        bind_outcome (FUSE_DEVICE_FROM_UNIT_FAST d unt) (\<lambda>fdev.
          case fdev_data fdev of
            None \<Rightarrow> Done ENOENT
          | Some s \<Rightarrow>
              if busy unt then Done EBUSY
              else (case request of
                  None \<Rightarrow> Done EPERM
                | Some cred \<Rightarrow>
                    Done (if cr_uid cred = 0 \<or> fuse_match_cred (daemoncred s) cred = 0
                          then 0 else EPERM))))"

section \<open>Reading\<close>

lemma ticketI: "heap s t = Some tk \<Longrightarrow> ticket s t = Done tk"
  by (simp add: ticket_def)

text \<open>A daemon that reads with enough room gets the message at the head of the queue.\<close>

lemma fuse_device_read_head:
  assumes um: "uiomove_out_ok (k_uiomove_out k)"
    and ok: "fst (k_uiomove_out k (int (len (tk_ms_fiov tk))) (base (tk_ms_fiov tk)) u) = 0"
    and live: "\<not> fdata_dead_get s" and q: "ms_head s = t # r" and h: "heap s t = Some tk"
    and ty: "tk_ms_type tk = FT_M_FIOV" and fl: "\<not> has_flag (tk_flag tk) FT_INVAL"
    and wf: "fiov_wf (tk_ms_fiov tk)" and sz: "len (tk_ms_fiov tk) < 2147483648"
    and room: "len (tk_ms_fiov tk) \<le> uio_resid u"
  shows "fuse_device_read k nb sleeps id u s =
    Done ((Some (if fticket_answered tk then EINTR else 0),
           u\<lparr>uio_resid := uio_resid u - len (tk_ms_fiov tk),
             uio_out := uio_out u @ take (len (tk_ms_fiov tk)) (base (tk_ms_fiov tk))\<rparr>),
          s\<lparr>ms_head := r\<rparr>)"
proof -
  let ?n = "len (tk_ms_fiov tk)" and ?b = "base (tk_ms_fiov tk)"
  let ?u = "u\<lparr>uio_resid := uio_resid u - ?n, uio_out := uio_out u @ take ?n ?b\<rparr>"
  have w: "read_wait nb sleeps s = (Read_ticket t, s\<lparr>ms_head := r\<rparr>)"
    using live q by (simp add: read_wait.simps fuse_ms_pop_def)
  have b: "?n \<le> length ?b" using wf by (simp add: fiov_wf_def)
  obtain u' where u: "k_uiomove_out k (int ?n) ?b u = (0, u')"
    using ok by (cases "k_uiomove_out k (int ?n) ?b u") auto
  then have "u' = ?u"
    using um b room unfolding uiomove_out_ok_def by (metis nat_int of_nat_0_le_iff)
  then have c: "copy_out k (message_bufs tk) u (s\<lparr>ms_head := r\<rparr>) = Done (0, ?u, s\<lparr>ms_head := r\<rparr>)"
    using ty b u room sz by (simp add: message_bufs_def)
  have d: "\<not> fdata_dead_get (s\<lparr>ms_head := r\<rparr>)" using live by (simp add: fdata_dead_get_def)
  have t: "ticket (s\<lparr>ms_head := r\<rparr>) t = Done tk" using h by (simp add: ticket_def)
  show ?thesis
    using w c d t fl by (simp add: fuse_device_read_def fuse_ticket_drop_invalid_def)
qed

section \<open>Writing\<close>

lemma aw_find_unique:
  assumes "uniques_ok s" "\<forall>v \<in> set q. heap s v \<noteq> None" "t \<in> set q" "heap s t = Some tk"
  shows "aw_find s (tk_unique tk) q = Done (Some t)"
  using assms(2,3)
proof (induction q)
  case (Cons v q)
  then obtain vk where v: "heap s v = Some vk" by auto
  show ?case
  proof (cases "tk_unique vk = tk_unique tk")
    case True
    then have "v = t" using assms(1,4) v unfolding uniques_ok_def by blast
    then show ?thesis using assms(4) by (simp add: ticketI)
  next
    case False
    then have "v \<noteq> t" using assms(4) v by auto
    then show ?thesis using Cons v False by (simp add: ticketI)
  qed
qed simp

lemma aw_find_none:
  assumes "\<forall>v \<in> set q. heap s v \<noteq> None" "\<forall>v \<in> set q. \<forall>vk. heap s v = Some vk \<longrightarrow> tk_unique vk \<noteq> u"
  shows "aw_find s u q = Done None"
  using assms
proof (induction q)
  case (Cons v q)
  then obtain vk where "heap s v = Some vk" by auto
  then show ?case using Cons by (simp add: ticketI)
qed simp

text \<open>The bytes of a well-formed answer.\<close>

definition answer_bytes :: "u64 \<Rightarrow> u32 \<Rightarrow> bytes \<Rightarrow> bytes" where
  "answer_bytes unique err body =
     encode_out_header \<lparr>oh_len = word_of_nat (16 + length body), oh_error = err, oh_unique = unique\<rparr> @ body"

lemma length_answer_bytes [simp]: "length (answer_bytes unique err body) = 16 + length body"
  by (simp add: answer_bytes_def)

definition uiomove_in_total :: "(int \<Rightarrow> bytes \<Rightarrow> errno \<times> bytes \<times> bytes) \<Rightarrow> bool" where
  "uiomove_in_total um \<longleftrightarrow> (\<forall>n bs. fst (um n bs) = 0)"

lemma uiomove_in_eq:
  assumes "uiomove_in_ok um" "uiomove_in_total um" "n \<le> length bs"
  shows "um (int n) bs = (0, take n bs, drop n bs)"
proof -
  obtain e c r where u: "um (int n) bs = (e, c, r)" by (cases "um (int n) bs") auto
  moreover have "e = 0" using assms(2) u unfolding uiomove_in_total_def by (metis fst_conv)
  moreover have "0 \<le> int n \<longrightarrow> um (int n) bs = (e, c, r) \<longrightarrow>
      c @ r = bs \<and> int (length c) \<le> int n \<and> (e = 0 \<longrightarrow> length c = min (nat (int n)) (length bs))"
    using assms(1) unfolding uiomove_in_ok_def by blast
  ultimately have "c @ r = bs" "length c = n" "e = 0" using assms(3) by auto
  then show ?thesis using u by auto
qed

text \<open>The device finds the waiting ticket and hands the body to its handler.\<close>

lemma fuse_device_write_answer:
  assumes um: "uiomove_in_ok (k_uiomove_in k)" "uiomove_in_total (k_uiomove_in k)"
    and inv: "pool_inv s" "queues_ok s" and t: "t \<in> set (aw_head s)" "heap s t = Some tk"
    and sz: "16 + length body < 2 ^ 32" and e: "body = [] \<or> err = 0"
  shows "fuse_device_write k (answer_bytes (tk_unique tk) err body) s =
    (let oh = \<lparr>oh_len = word_of_nat (16 + length body), oh_error = - err, oh_unique = tk_unique tk\<rparr>;
         s1 = fuse_aw_remove t s
     in case tk_aw_handler tk of
          Some h \<Rightarrow> call_handler k h t body (put_ticket t (tk\<lparr>tk_aw_ohead := oh\<rparr>) s1)
        | None \<Rightarrow> bind_outcome (fuse_ticket_drop (k_tun k) (k_osm k) t s1) (\<lambda>s2. Done (0, s2)))"
proof -
  let ?a = "answer_bytes (tk_unique tk) err body"
  have m: "k_uiomove_in k 16 ?a = (0, take 16 ?a, drop 16 ?a)"
    using uiomove_in_eq [OF um, of 16 ?a] by simp
  have d: "drop 16 ?a = body" by (simp add: answer_bytes_def)
  have h: "decode_out_header (take 16 ?a) =
      \<lparr>oh_len = word_of_nat (16 + length body), oh_error = err, oh_unique = tk_unique tk\<rparr>"
    using decode_encode_out_header [of _ "[]"] by (simp add: answer_bytes_def)
  have l: "unat (word_of_nat (16 + length body) :: u32) = 16 + length body"
    using sz by (simp add: unat_of_nat take_bit_nat_eq_self del: of_nat_add)
  have live: "\<forall>v \<in> set (aw_head s). heap s v \<noteq> None"
    using inv by (auto simp: queues_ok_def dest!: in_use_ticket)
  have f: "aw_find s (tk_unique tk) (aw_head s) = Done (Some t)"
    by (rule aw_find_unique) (use inv live t in \<open>auto simp: pool_inv_def\<close>)
  have tk: "ticket (fuse_aw_remove t s) t = Done tk" using t by (simp add: ticket_def fuse_aw_remove_def)
  show ?thesis
    unfolding fuse_device_write_def sizeof_headers of_nat_numeral m
    using d h l e f tk by (auto simp: Let_def split: option.splits)
qed

end
