(* ===== verification/Fuse_Exchange.thy ===== *)
theory Fuse_Exchange
  imports Fuse_Device
begin

text \<open>
  The exchange of requests and answers between callers, the device and the daemon, over the
  models of \<^verbatim>\<open>fuse_ipc.c\<close> and \<^verbatim>\<open>fuse_device.c\<close>: what the audit of an answer accepts, a
  whole request from the dispatcher to the daemon and back, requests that are interrupted, time
  out or meet a dead session, messages that want no answer, and the life of a device from its
  creation to its death.
\<close>

section \<open>Answers\<close>

text \<open>An answer of the right size to a waiting ticket is stored, recorded and announced.\<close>

lemma fuse_standard_handler_stores:
  assumes um: "uiomove_in_ok (k_uiomove_in k)" "uiomove_in_total (k_uiomove_in k)"
    and osm: "osm_ok (k_osm k)" "osm_total (k_osm k)"
    and h: "heap s t = Some tk" and wf: "fiov_wf (tk_aw_fiov tk)" and l0: "len (tk_aw_fiov tk) = 0"
    and ty: "tk_aw_type tk = FT_A_FIOV" and na: "\<not> fticket_answered tk"
    and oe: "oh_error (tk_aw_ohead tk) = 0"
    and au: "fuse_body_audit s tk (length body) = Done 0" and sz: "length body < 2147483648"
  shows "\<exists>f g. fuse_standard_handler k t body s =
      Done (0, event (Wakeup_ticket t) (put_ticket t
        ((fticket_set_answered (tk\<lparr>tk_aw_fiov := f\<rparr>))\<lparr>tk_aw_errno := 0\<rparr>) (s\<lparr>cnt := g\<rparr>))) \<and>
    fiov_wf f \<and> len f = length body \<and> take (length body) (base f) = body"
proof -
  have "\<exists>f g. fticket_aw_pull_uio k t body s =
      Done (0, put_ticket t (tk\<lparr>tk_aw_fiov := f\<rparr>) (s\<lparr>cnt := g\<rparr>)) \<and>
      fiov_wf f \<and> len f = length body \<and> take (length body) (base f) = body"
  proof (cases "body = []")
    case True
    have "s = put_ticket t (tk\<lparr>tk_aw_fiov := tk_aw_fiov tk\<rparr>) (s\<lparr>cnt := cnt s\<rparr>)"
      using h by (simp add: put_ticket_def fun_upd_idem)
    then have "fticket_aw_pull_uio k t body s =
        Done (0, put_ticket t (tk\<lparr>tk_aw_fiov := tk_aw_fiov tk\<rparr>) (s\<lparr>cnt := cnt s\<rparr>))"
      using True h by (simp add: fticket_aw_pull_uio_def ticketI)
    then show ?thesis
      using True wf l0 by (intro exI [where x = "tk_aw_fiov tk"] exI [where x = "cnt s"]) simp
  next
    case False
    obtain f g where a: "fiov_adjust (k_tun k) (k_osm k) (tk_aw_fiov tk) (length body) (cnt s) = Done (f, g)"
      using fiov_adjust_total [OF osm(2)] by blast
    have f: "fiov_wf f" "len f = length body" using fiov_adjust_wf [OF a osm(1) _ wf] sz by auto
    then have b: "length body \<le> length (base f)" by (simp add: fiov_wf_def)
    have m: "k_uiomove_in k (int (length body)) body = (0, body, [])"
      using uiomove_in_eq [OF um, of "length body" body] by simp
    have "fticket_aw_pull_uio k t body s =
        Done (0, put_ticket t (tk\<lparr>tk_aw_fiov := f\<lparr>base := write_at 0 body (base f)\<rparr>\<rparr>) (s\<lparr>cnt := g\<rparr>))"
      using False h ty m b sz a
      by (simp add: fticket_aw_pull_uio_def ticketI fiov_adjust_canfail_eq)
    then show ?thesis using f b by (auto simp: fiov_wf_def write_at_def)
  qed
  then obtain f g where p: "fticket_aw_pull_uio k t body s =
      Done (0, put_ticket t (tk\<lparr>tk_aw_fiov := f\<rparr>) (s\<lparr>cnt := g\<rparr>))"
    and f: "fiov_wf f" "len f = length body" "take (length body) (base f) = body" by blast
  have "fticket_pull k t body s = Done (0, put_ticket t (tk\<lparr>tk_aw_fiov := f\<rparr>) (s\<lparr>cnt := g\<rparr>))"
    using h oe au p by (simp add: fticket_pull_def ticketI)
  moreover have "\<not> fticket_answered (tk\<lparr>tk_aw_fiov := f\<rparr>)" using na by (simp add: fticket_answered_def)
  ultimately have "fuse_standard_handler k t body s =
      Done (0, event (Wakeup_ticket t) (put_ticket t
        ((fticket_set_answered (tk\<lparr>tk_aw_fiov := f\<rparr>))\<lparr>tk_aw_errno := 0\<rparr>) (s\<lparr>cnt := g\<rparr>)))"
    by (simp add: fuse_standard_handler_def ticket_def put_ticket_def fun_upd_idem)
  then show ?thesis using f by blast
qed


section \<open>One request, from the dispatcher to the daemon and back\<close>

text \<open>
  A daemon that, while a requester sleeps, reads one request and answers it with the body that
  \<open>reply\<close> computes from the message.
\<close>

definition daemon_answers :: "kenv \<Rightarrow> nat \<Rightarrow> (bytes \<Rightarrow> bytes) \<Rightarrow> sleep" where
  "daemon_answers k room reply s =
     (case fuse_device_read k False [] id \<lparr>uio_resid = room, uio_out = []\<rparr> s of
        Done ((Some e, u), s1) \<Rightarrow>
          (case fuse_device_write k
                  (answer_bytes (ih_unique (decode_in_header (uio_out u))) 0 (reply (uio_out u))) s1 of
             Done (e', s2) \<Rightarrow> (0, s2)
           | _ \<Rightarrow> (0, s1))
      | _ \<Rightarrow> (0, s))"

definition uiomove_out_total :: "(int \<Rightarrow> bytes \<Rightarrow> uio \<Rightarrow> errno \<times> uio) \<Rightarrow> bool" where
  "uiomove_out_total um \<longleftrightarrow> (\<forall>n bs u. fst (um n bs u) = 0)"

lemma fuse_body_audit_cong:
  assumes "dataflags s = dataflags s'" "fuse_libabi_major s = fuse_libabi_major s'"
    "fuse_libabi_minor s = fuse_libabi_minor s'" "base (tk_ms_fiov tk) = base (tk_ms_fiov tk')"
  shows "fuse_body_audit s tk n = fuse_body_audit s' tk' n"
  unfolding fuse_body_audit_def fuse_libabi_geq_def fdata_dead_get_def fticket_opcode_def assms ..

text \<open>What a requester finds when the daemon has served its request.\<close>

lemma daemon_answers_step:
  assumes um: "uiomove_in_ok (k_uiomove_in k)" "uiomove_in_total (k_uiomove_in k)"
      "uiomove_out_ok (k_uiomove_out k)" "uiomove_out_total (k_uiomove_out k)"
    and osm: "osm_ok (k_osm k)" "osm_total (k_osm k)"
    and inv: "pool_inv s" "queues_ok s" and live: "\<not> fdata_dead_get s"
    and q: "ms_head s = [t]" "t \<in> set (aw_head s)" and h: "heap s t = Some tk"
    and tk: "tk_ms_type tk = FT_M_FIOV" "tk_aw_type tk = FT_A_FIOV" "len (tk_aw_fiov tk) = 0"
      "\<not> has_flag (tk_flag tk) FT_INVAL" "\<not> fticket_answered tk"
      "tk_aw_handler tk = Some fuse_standard_handler_fn"
    and m: "m = take (len (tk_ms_fiov tk)) (base (tk_ms_fiov tk))"
      "ih_unique (decode_in_header m) = tk_unique tk"
    and room: "len (tk_ms_fiov tk) \<le> room" "len (tk_ms_fiov tk) < 2147483648"
    and re: "length (reply m) < 2147483648" "fuse_body_audit s tk (length (reply m)) = Done 0"
  shows "\<exists>s' tk'. daemon_answers k room reply s = (0, s') \<and> heap s' t = Some tk' \<and>
    pool_inv s' \<and> in_use s' = in_use s \<and> (\<forall>v. v \<noteq> t \<longrightarrow> heap s' v = heap s v) \<and>
    ms_head s' = [] \<and> aw_head s' = remove1 t (aw_head s) \<and> dataflags s' = dataflags s \<and>
    kevents s' = kevents s @ [Wakeup_ticket t] \<and>
    fticket_answered tk' \<and> tk_aw_errno tk' = 0 \<and> oh_error (tk_aw_ohead tk') = 0 \<and>
    len (tk_aw_fiov tk') = length (reply m) \<and>
    take (length (reply m)) (base (tk_aw_fiov tk')) = reply m"
proof -
  let ?u = "\<lparr>uio_resid = room, uio_out = []\<rparr>"
  let ?s1 = "s\<lparr>ms_head := []\<rparr>"
  let ?oh = "\<lparr>oh_len = word_of_nat (16 + length (reply m)), oh_error = 0, oh_unique = tk_unique tk\<rparr>"
  let ?tk1 = "tk\<lparr>tk_aw_ohead := ?oh\<rparr>"
  let ?s2 = "put_ticket t ?tk1 (fuse_aw_remove t ?s1)"
  have wf: "ticket_wf tk" using inv(1) h by (auto simp: pool_inv_def)
  have u: "in_use s t" using inv(2) q by (simp add: queues_ok_def)
  have rd: "fuse_device_read k False [] id ?u s =
      Done ((Some 0, \<lparr>uio_resid = room - len (tk_ms_fiov tk), uio_out = m\<rparr>), ?s1)"
    using fuse_device_read_head [where r = "[]" and u = ?u and s = s, OF um(3) _ live q(1) h tk(1,4)]
      um(4) wf room m(1) tk(5)
    by (simp add: uiomove_out_total_def ticket_wf_def)
  have inv1: "pool_inv ?s1" "queues_ok ?s1"
    using inv by (simp_all add: pool_inv_def queues_ok_def uniques_ok_def free_count_ok_def in_use_def)
  have wr: "fuse_device_write k (answer_bytes (tk_unique tk) 0 (reply m)) ?s1 =
      fuse_standard_handler k t (reply m) ?s2"
    using fuse_device_write_answer [OF um(1,2) inv1, of t tk "reply m" 0] q(2) h re(1) tk(6)
    by (simp add: Let_def)
  have au: "fuse_body_audit ?s2 ?tk1 (length (reply m)) = Done 0"
    by (subst fuse_body_audit_cong [where s' = s and tk' = tk])
      (use re in \<open>simp_all add: put_ticket_def fuse_aw_remove_def\<close>)
  obtain f g where st: "fuse_standard_handler k t (reply m) ?s2 =
      Done (0, event (Wakeup_ticket t) (put_ticket t
        ((fticket_set_answered (?tk1\<lparr>tk_aw_fiov := f\<rparr>))\<lparr>tk_aw_errno := 0\<rparr>) (?s2\<lparr>cnt := g\<rparr>)))"
    and f: "fiov_wf f" "len f = length (reply m)" "take (length (reply m)) (base f) = reply m"
    using fuse_standard_handler_stores [OF um(1,2) osm, of ?s2 t ?tk1 "reply m"] wf tk au re(1)
    by (auto simp: ticket_wf_def fticket_answered_def)
  let ?tk2 = "(fticket_set_answered (?tk1\<lparr>tk_aw_fiov := f\<rparr>))\<lparr>tk_aw_errno := 0\<rparr>"
  let ?s3 = "event (Wakeup_ticket t) (put_ticket t ?tk2 (?s2\<lparr>cnt := g\<rparr>))"
  have "daemon_answers k room reply s = (0, ?s3)"
    using rd wr st m(2) by (simp add: daemon_answers_def)
  moreover have "pool_inv ?s2"
    by (rule pool_inv_put_ticket [where tk = tk])
      (use inv u h wf in \<open>simp_all add: fuse_aw_remove_def ticket_wf_def\<close>)
  then have "pool_inv (put_ticket t ?tk2 (?s2\<lparr>cnt := g\<rparr>))"
    by (intro pool_inv_put_ticket [where tk = ?tk1])
      (use u wf f in \<open>simp_all add: fuse_aw_remove_def ticket_wf_def fticket_set_answered_def\<close>)
  ultimately show ?thesis
    using f by (intro exI [where x = ?s3] exI [where x = ?tk2])
      (simp add: fuse_aw_remove_def fticket_set_answered_def fticket_answered_def flag_simps)
qed

section \<open>The audit\<close>

text \<open>
  Which size of a body answers an operation: \<open>rs\<close> is the size that a read request asks for.
  The operations at the end are the ones whose answers are not checked.
\<close>

definition body_fits :: "session \<Rightarrow> fuse_opcode \<Rightarrow> nat \<Rightarrow> nat \<Rightarrow> bool" where
  "body_fits s op rs n \<longleftrightarrow>
     (if op \<in> {FUSE_LOOKUP, FUSE_SYMLINK, FUSE_MKNOD, FUSE_MKDIR, FUSE_LINK} then n = 136
      else if op \<in> {FUSE_GETATTR, FUSE_SETATTR} then n = 112
      else if op \<in> {FUSE_OPEN, FUSE_OPENDIR} then n = 16
      else if op \<in> {FUSE_READ, FUSE_READDIR} then n \<le> rs
      else if op = FUSE_GETXTIMES then n = 24
      else if op = FUSE_READLINK then n \<le> 4096
      else if op = FUSE_WRITE then n = 8
      else if op = FUSE_STATFS then n = (if fuse_libabi_geq s 7 4 then 80 else 48)
      else if op = FUSE_INIT then n = 24 \<or> n = 8
      else if op = FUSE_CREATE then n = 152
      else if op \<in> {FUSE_SETXATTR, FUSE_GETXATTR, FUSE_LISTXATTR, FUSE_REMOVEXATTR, FUSE_INTERRUPT,
        FUSE_BMAP} then True
      else n = 0)"

text \<open>The operations that the audit refuses to see an answer for.\<close>

definition never_answered :: "fuse_opcode \<Rightarrow> bool" where
  "never_answered op \<longleftrightarrow> op \<in> {FUSE_FORGET, FUSE_GETLK, FUSE_SETLK, FUSE_SETLKW}"

lemma fuse_body_audit_eq:
  assumes "\<not> fdata_dead_get s" "fticket_opcode tk = Some op"
  shows "fuse_body_audit s tk n =
    (if never_answered op then Panic
     else Done (if body_fits s op (field_at 56 4 (base (tk_ms_fiov tk))) n then 0 else EINVAL))"
  using assms
  by (cases op)
    (simp_all add: fuse_body_audit_def never_answered_def body_fits_def Let_def PAGE_SIZE_def
      FUSE_COMPAT_STATFS_SIZE_def)

section \<open>The bytes of a request\<close>

lemma field_at_take: "off + n \<le> l \<Longrightarrow> field_at off n (take l b) = field_at off n b"
  by (simp add: field_at_def drop_take min_def)

lemma field_at_drop: "field_at (off + k) n b = field_at k n (drop off b)"
  by (simp add: field_at_def add.commute)

lemma decode_in_header_take: "40 \<le> l \<Longrightarrow> decode_in_header (take l b) = decode_in_header b"
  by (simp add: decode_in_header_def field_at_take)

lemma unat_opcode_num: "unat (word_of_nat (opcode_num op) :: u32) = opcode_num op"
  using opcode_num_less [of op] by (simp add: unat_of_nat take_bit_nat_eq_self)

lemma fticket_opcode_header:
  assumes "ih_opcode (decode_in_header (base (tk_ms_fiov tk))) = word_of_nat (opcode_num op)"
    "8 \<le> length (base (tk_ms_fiov tk))"
  shows "fticket_opcode tk = Some op"
proof -
  let ?n = "field_at 4 4 (base (tk_ms_fiov tk))"
  have "length (take 4 (drop 4 (base (tk_ms_fiov tk)))) = 4" using assms(2) by simp
  then have "?n < 2 ^ 32"
    using le_value_bound [of "take 4 (drop 4 (base (tk_ms_fiov tk)))"] unfolding field_at_def by simp
  then have "unat (word_of_nat ?n :: u32) = ?n" by (simp add: unat_of_nat take_bit_nat_eq_self)
  moreover have "word_of_nat ?n = (word_of_nat (opcode_num op) :: u32)"
    using assms(1) by (simp add: decode_in_header_def)
  ultimately have "?n = opcode_num op" using unat_opcode_num by metis
  then show ?thesis by (simp add: fticket_opcode_def opcode_of_num_opcode_num)
qed

text \<open>
  One exchange as every caller of the dispatcher makes it: build the request, fill in its body,
  queue it and wait.
\<close>

definition rpc ::
    "kenv \<Rightarrow> waiting \<Rightarrow> fuse_opcode \<Rightarrow> u64 \<Rightarrow> vfs_context option \<Rightarrow> bytes \<Rightarrow> session \<Rightarrow>
     (errno option \<times> fuse_dispatcher \<times> session) outcome" where
  "rpc k w op nid context body s =
     bind_outcome (fdisp_make k (fdisp_init fdisp_uninit (length body)) op nid context s) (\<lambda>(fd, s1).
     bind_outcome (write_indata fd 0 body s1) (fdisp_wait_answ k w fd))"

text \<open>The request as it stands in its ticket, ready to be queued.\<close>

lemma request_built:
  assumes inv: "pool_inv s" and osm: "osm_ok (k_osm k)" "osm_total (k_osm k)"
    and room: "unat (ticketer s) < 18446744073709551615"
    and ini: "has_flag (dataflags s) FSESS_INITED" and lim: "fuse_max_tickets (k_tun k) = 0"
    and sz: "40 + length body < 2 ^ 32"
  shows "\<exists>fd t s1 s2 tk m pad. fdisp_make k (fdisp_init fdisp_uninit (length body)) op nid context s =
      Done (fd, s1) \<and> fd_tick fd = Some t \<and> write_indata fd 0 body s1 = Done s2 \<and>
    pool_inv s2 \<and> in_use s2 t \<and> \<not> in_use s t \<and> pool_frame t s s2 \<and>
    (\<forall>v. v \<noteq> t \<longrightarrow> in_use s2 v = in_use s v) \<and> heap s2 t = Some tk \<and> ticket_clean tk \<and>
    len (tk_ms_fiov tk) = 40 + length body \<and> m = take (40 + length body) (base (tk_ms_fiov tk)) \<and>
    decode_in_header m = request_header k (tk_unique tk) nid op (length body) context pad \<and>
    drop 40 m = body \<and> fticket_opcode tk = Some op \<and>
    (20 \<le> length body \<longrightarrow> field_at 56 4 (base (tk_ms_fiov tk)) = field_at 16 4 body)"
proof -
  let ?fd = "fdisp_init fdisp_uninit (length body)"
  have fd: "fd_tick ?fd = None" "fd_iosize ?fd = length body" by (simp_all add: fdisp_init_def)
  obtain t s1 tk pad where mk: "fdisp_make k ?fd op nid context s =
      Done (?fd\<lparr>fd_tick := Some t, fd_finh := Some (t, 0), fd_indata := Some (t, 40)\<rparr>, s1)"
    and i: "pool_inv s1" "in_use s1 t" "\<not> in_use s t" "pool_frame t s s1"
      "\<forall>v. v \<noteq> t \<longrightarrow> in_use s1 v = in_use s v" "heap s1 t = Some tk" "ticket_clean tk"
      "len (tk_ms_fiov tk) = 40 + length body"
      "decode_in_header (base (tk_ms_fiov tk)) =
        request_header k (tk_unique tk) nid op (length body) context pad"
    using fdisp_make_ok [OF inv osm room ini lim fd(1)] sz unfolding fd(2) by blast
  let ?b = "base (tk_ms_fiov tk)"
  have wf: "ticket_wf tk" using i by (auto simp: pool_inv_def)
  then have lb: "40 + length body \<le> length ?b" "160 \<le> length ?b"
    using i(8) by (auto simp: ticket_wf_def fiov_wf_def)
  let ?b' = "write_at 40 body ?b"
  let ?tk = "tk\<lparr>tk_ms_fiov := (tk_ms_fiov tk)\<lparr>base := ?b'\<rparr>\<rparr>"
  let ?s2 = "put_ticket t ?tk s1"
  let ?m = "take (40 + length body) ?b'"
  have w: "write_indata (?fd\<lparr>fd_tick := Some t, fd_finh := Some (t, 0), fd_indata := Some (t, 40)\<rparr>)
      0 body s1 = Done ?s2"
    using i(6) lb by (simp add: write_indata_def ticketI)
  have b: "take 40 ?b' = take 40 ?b" "?m = take 40 ?b @ body" "drop 40 ?b' = body @ drop (40 + length body) ?b"
    using lb by (simp_all add: write_at_def)
  have de: "decode_in_header ?b' = decode_in_header ?b"
    using b(1) decode_in_header_take [of 40] by (metis order_refl)
  have "pool_inv ?s2"
    by (rule pool_inv_put_ticket [where tk = tk])
      (use i wf lb in \<open>simp_all add: ticket_wf_def fiov_wf_def\<close>)
  moreover have "pool_frame t s ?s2"
    by (rule pool_frame_trans [OF i(4)]) (simp add: pool_frame_def put_ticket_def)
  moreover have "fticket_opcode ?tk = Some op"
    by (rule fticket_opcode_header) (use de i(9) lb in \<open>simp_all add: request_header_def Let_def\<close>)
  moreover have "field_at 56 4 ?b' = field_at 16 4 body" if "20 \<le> length body"
    using field_at_drop [of 40 16 4 ?b'] b(3) that by (simp add: field_at_def)
  moreover have "decode_in_header ?m = request_header k (tk_unique tk) nid op (length body) context pad"
    using de i(9) by (simp add: decode_in_header_take)
  moreover have "drop 40 ?m = body" using b(2) lb by simp
  moreover have "ticket_clean ?tk" using i(7) by (simp add: ticket_clean_def)
  ultimately show ?thesis
    using mk w i(2,3,5,8) 
    by (intro exI [where x = "?fd\<lparr>fd_tick := Some t, fd_finh := Some (t, 0), fd_indata := Some (t, 40)\<rparr>"]
        exI [where x = t] exI [where x = s1] exI [where x = ?s2] exI [where x = ?tk]
        exI [where x = ?m] exI [where x = pad]) simp
qed

section \<open>Round trip\<close>

text \<open>The kernel keeps the promises of its documentation and does not run out of memory.\<close>

definition kenv_ok :: "kenv \<Rightarrow> bool" where
  "kenv_ok k \<longleftrightarrow> osm_ok (k_osm k) \<and> osm_total (k_osm k) \<and>
     uiomove_in_ok (k_uiomove_in k) \<and> uiomove_in_total (k_uiomove_in k) \<and>
     uiomove_out_ok (k_uiomove_out k) \<and> uiomove_out_total (k_uiomove_out k) \<and>
     fuse_max_tickets (k_tun k) = 0"

text \<open>A live session that has exchanged its first message, with its invariants.\<close>

definition session_ready :: "session \<Rightarrow> bool" where
  "session_ready s \<longleftrightarrow> pool_inv s \<and> queues_ok s \<and> \<not> fdata_dead_get s \<and>
     has_flag (dataflags s) FSESS_INITED \<and> unat (ticketer s) < 18446744073709551615"

lemma insert_both:
  assumes "heap s t = Some tk" "tk_flag tk = 0" "\<not> fdata_dead_get s"
  shows "\<exists>s1 s2 tk2. fuse_insert_callback t (Some h) s = Done s1 \<and> fuse_insert_message t s1 = Done s2 \<and>
    tk2 = tk\<lparr>tk_aw_handler := Some h, tk_flag := FT_DIRTY\<rparr> \<and>
    s2 = event Wakeup_one_data (fuse_ms_push t (put_ticket t tk2 (fuse_aw_push t s)))"
  using assms
  by (simp add: fuse_insert_callback_def fuse_insert_message_def upd_ticket_def ticket_def
      put_ticket_def fdata_dead_get_def fuse_aw_push_def set_flag_def)

lemma wait_answ_served:
  assumes h: "heap s t = Some tk" "tk_flag tk = 0" "\<not> fdata_dead_get s"
    and fd: "fd_tick fd = Some t"
    and w: "w_sleeps w = (msleep, al) # r" "w_gap w = id"
    and sl: "msleep (event Wakeup_one_data (fuse_ms_push t (put_ticket t
        (tk\<lparr>tk_aw_handler := Some fuse_standard_handler_fn, tk_flag := FT_DIRTY\<rparr>)
        (fuse_aw_push t s)))) = (0, s')"
    and tk': "heap s' t = Some tk'" "fticket_answered tk'" "tk_aw_errno tk' = 0"
      "oh_error (tk_aw_ohead tk') = 0"
  shows "fdisp_wait_answ k w fd s =
    Done (Some 0, fd\<lparr>fd_answ_stat := 0, fd_answ := Some t, fd_iosize := len (tk_aw_fiov tk')\<rparr>, s')"
proof -
  let ?tk2 = "tk\<lparr>tk_aw_handler := Some fuse_standard_handler_fn, tk_flag := FT_DIRTY\<rparr>"
  let ?s2 = "event Wakeup_one_data (fuse_ms_push t (put_ticket t ?tk2 (fuse_aw_push t s)))"
  obtain s1 where i: "fuse_insert_callback t (Some fuse_standard_handler_fn) s = Done s1"
    "fuse_insert_message t s1 = Done ?s2" using insert_both [OF h] by blast
  have "ticket ?s2 t = Done ?tk2" by (simp add: ticket_def fuse_ms_push_def)
  moreover have "\<not> fticket_answered ?tk2"
    by (simp add: fticket_answered_def has_flag_def FT_ANSW_def FT_DIRTY_def)
  moreover have "\<not> fdata_dead_get ?s2"
    using h(3) by (simp add: fdata_dead_get_def fuse_ms_push_def fuse_aw_push_def)
  ultimately have "fticket_wait_answer k (w_sleeps w) t ?s2 = wait_out t 0 s'"
    using w sl by (simp add: fticket_wait_answer_def)
  also have "\<dots> = Done (Some 0, s')" using tk' by (simp add: wait_out_def ticketI)
  finally show ?thesis
    using fd i w(2) tk' by (simp add: fdisp_wait_answ_def ticketI)
qed

lemma body_fits_asked:
  assumes "body_fits s op rs n" "op \<in> {FUSE_READ, FUSE_READDIR} \<longrightarrow> rs' = rs"
  shows "body_fits s op rs' n"
proof (cases "op \<in> {FUSE_READ, FUSE_READDIR}")
  case False
  then have "body_fits s op rs' n = body_fits s op rs n" unfolding body_fits_def by simp
  then show ?thesis using assms(1) by simp
qed (use assms in simp)

lemma rpc_served:
  assumes k: "kenv_ok k" and s: "session_ready s" and q: "ms_head s = []"
    and op: "\<not> never_answered op" and sz: "40 + length body < 2147483648" "40 + length body \<le> room"
    and rd: "op \<in> {FUSE_READ, FUSE_READDIR} \<longrightarrow> 20 \<le> length body"
    and re: "\<And>m. drop 40 m = body \<Longrightarrow> length (reply m) < 2147483648 \<and>
               body_fits s op (field_at 16 4 body) (length (reply m))"
    and w: "w_gap w = id" "w_sleeps w = [(daemon_answers k room reply, None)]"
  shows "\<exists>m pad unique t fd' s' tk'. rpc k w op nid context body s = Done (Some 0, fd', s') \<and>
    decode_in_header m = request_header k unique nid op (length body) context pad \<and>
    drop 40 m = body \<and> fd_answ fd' = Some t \<and> heap s' t = Some tk' \<and>
    fd_iosize fd' = length (reply m) \<and>
    take (fd_iosize fd') (base (tk_aw_fiov tk')) = reply m \<and>
    pool_inv s' \<and> queues_ok s' \<and> in_use s' t \<and> ms_head s' = [] \<and> aw_head s' = aw_head s \<and>
    (\<forall>v. in_use s v \<longrightarrow> in_use s' v \<and> heap s' v = heap s v)"
proof -
  have osm: "osm_ok (k_osm k)" "osm_total (k_osm k)" and lim: "fuse_max_tickets (k_tun k) = 0"
    and um: "uiomove_in_ok (k_uiomove_in k)" "uiomove_in_total (k_uiomove_in k)"
      "uiomove_out_ok (k_uiomove_out k)" "uiomove_out_total (k_uiomove_out k)"
    using k by (auto simp: kenv_ok_def)
  have inv: "pool_inv s" "queues_ok s" "\<not> fdata_dead_get s" "has_flag (dataflags s) FSESS_INITED"
    "unat (ticketer s) < 18446744073709551615" using s by (auto simp: session_ready_def)
  have sz': "40 + length body < 2 ^ 32" using sz by simp
  obtain fd t s1 s2 tk m pad where mk: "fdisp_make k (fdisp_init fdisp_uninit (length body)) op nid
        context s = Done (fd, s1)" "fd_tick fd = Some t" "write_indata fd 0 body s1 = Done s2"
    and i: "pool_inv s2" "in_use s2 t" "\<not> in_use s t" "pool_frame t s s2"
      "\<forall>v. v \<noteq> t \<longrightarrow> in_use s2 v = in_use s v" "heap s2 t = Some tk" "ticket_clean tk"
    and m: "len (tk_ms_fiov tk) = 40 + length body" "m = take (40 + length body) (base (tk_ms_fiov tk))"
      "decode_in_header m = request_header k (tk_unique tk) nid op (length body) context pad"
      "drop 40 m = body" "fticket_opcode tk = Some op"
      "20 \<le> length body \<longrightarrow> field_at 56 4 (base (tk_ms_fiov tk)) = field_at 16 4 body"
    using request_built [OF inv(1) osm inv(5,4) lim sz'] by blast
  note fr = pool_frame_fields [OF i(4)]
  have notq: "t \<notin> set (aw_head s)" using i(3) inv(2) by (auto simp: queues_ok_def)
  let ?tk = "tk\<lparr>tk_aw_handler := Some fuse_standard_handler_fn, tk_flag := FT_DIRTY\<rparr>"
  let ?s3 = "event Wakeup_one_data (fuse_ms_push t (put_ticket t ?tk (fuse_aw_push t s2)))"
  have live: "\<not> fdata_dead_get s2" using inv(3) fr by (simp add: fdata_dead_get_def)
  have cl: "tk_flag tk = 0" "tk_ms_type tk = FT_M_FIOV" "tk_aw_type tk = FT_A_FIOV"
    "len (tk_aw_fiov tk) = 0" using i(7) by (auto simp: ticket_clean_def)
  have wf: "ticket_wf tk" using i(1,6) by (auto simp: pool_inv_def)
  have inv3: "pool_inv ?s3"
    by (simp add: fuse_ms_push_def)
      (rule pool_inv_put_ticket [where tk = tk],
        use i wf in \<open>simp_all add: fuse_aw_push_def ticket_wf_def\<close>)
  have qs: "ms_head ?s3 = [t]" "aw_head ?s3 = aw_head s @ [t]" "in_use ?s3 = in_use s2"
    using fr q by (simp_all add: fuse_ms_push_def fuse_aw_push_def)
  have q3: "queues_ok ?s3"
    using qs inv(2) i(2,5) notq by (auto simp: queues_ok_def)
  have live3: "\<not> fdata_dead_get ?s3"
    using live by (simp add: fdata_dead_get_def fuse_ms_push_def fuse_aw_push_def)
  have "fuse_body_audit ?s3 ?tk (length (reply m)) = fuse_body_audit s tk (length (reply m))"
    by (rule fuse_body_audit_cong)
      (use fr in \<open>simp_all add: fuse_ms_push_def fuse_aw_push_def put_ticket_def event_def\<close>)
  also have "\<dots> = Done 0"
    using fuse_body_audit_eq [OF inv(3) m(5)] op
      body_fits_asked [OF conjunct2 [OF re [OF m(4)]]] m(6) rd by auto
  finally have au: "fuse_body_audit ?s3 ?tk (length (reply m)) = Done 0" .
  obtain s4 tk4 where d: "daemon_answers k room reply ?s3 = (0, s4)" "heap s4 t = Some tk4"
    "pool_inv s4" "in_use s4 = in_use ?s3" "\<forall>v. v \<noteq> t \<longrightarrow> heap s4 v = heap ?s3 v"
    "ms_head s4 = []" "aw_head s4 = remove1 t (aw_head ?s3)"
    "fticket_answered tk4" "tk_aw_errno tk4 = 0" "oh_error (tk_aw_ohead tk4) = 0"
    "len (tk_aw_fiov tk4) = length (reply m)"
    "take (length (reply m)) (base (tk_aw_fiov tk4)) = reply m"
    using daemon_answers_step [OF um osm inv3 q3 live3 qs(1), of ?tk m room reply]
      qs(2) cl m re [OF m(4)] au sz
    by (auto simp: fuse_ms_push_def request_header_def Let_def fticket_answered_def has_flag_def
        FT_ANSW_def FT_DIRTY_def FT_INVAL_def)
  have "fdisp_wait_answ k w fd s2 = Done (Some 0,
      fd\<lparr>fd_answ_stat := 0, fd_answ := Some t, fd_iosize := len (tk_aw_fiov tk4)\<rparr>, s4)"
    using wait_answ_served [OF i(6) cl(1) live mk(2) w(2,1) d(1,2,8,9,10)] .
  then have "rpc k w op nid context body s = Done (Some 0,
      fd\<lparr>fd_answ_stat := 0, fd_answ := Some t, fd_iosize := len (tk_aw_fiov tk4)\<rparr>, s4)"
    using mk by (simp add: rpc_def)
  moreover have aw: "aw_head s4 = aw_head s" using d(7) qs(2) notq by (simp add: remove1_append)
  moreover have "queues_ok s4"
    using inv(2) aw d(4,6) qs(3) i(5,3) by (auto simp: queues_ok_def)
  moreover have "in_use s4 v \<and> heap s4 v = heap s v" if "in_use s v" for v
  proof -
    have "v \<noteq> t" using that i(3) by auto
    then show ?thesis using that d(4,5) qs(3) i(5) fr(10) [of v]
      by (simp add: fuse_ms_push_def fuse_aw_push_def)
  qed
  ultimately show ?thesis
    using m d qs(3) i(2)
    by (intro exI [where x = m] exI [where x = pad] exI [where x = "tk_unique tk"] exI [where x = t]
        exI [where x = "fd\<lparr>fd_answ_stat := 0, fd_answ := Some t, fd_iosize := len (tk_aw_fiov tk4)\<rparr>"]
        exI [where x = s4] exI [where x = tk4]) simp
qed

section \<open>A concrete kernel and session\<close>

definition sample_cred :: ucred where
  "sample_cred = \<lparr>cr_uid = 501, cr_ruid = 501, cr_gid = 20, cr_rgid = 20, cr_svgid = 20\<rparr>"

definition sample_kenv :: kenv where
  "sample_kenv =
     \<lparr>k_tun = fuse_tunables_default, k_osm = zero_osm, k_cur = \<lparr>vc_pid = 77, vc_cred = sample_cred\<rparr>,
      k_sleep = (\<lambda>s. (0, s)), k_uiomove_in = plain_uiomove_in, k_uiomove_out = plain_uiomove_out\<rparr>"

definition sample_session :: session where
  "sample_session = (fdata_fresh sample_cred 77 0 fuse_counters_init)\<lparr>dataflags := FSESS_INITED\<rparr>"

lemma kenv_ok_sample: "kenv_ok sample_kenv"
  unfolding kenv_ok_def sample_kenv_def
  by (auto simp: osm_ok_zero osm_total_zero uiomove_in_ok_def uiomove_in_total_def uiomove_out_ok_def
      uiomove_out_total_def plain_uiomove_in_def plain_uiomove_out_def fuse_tunables_default_def)

lemma sample_session_fields [simp]:
  "ms_head sample_session = []" "aw_head sample_session = []" "dataflags sample_session = FSESS_INITED"
  "ticketer sample_session = 0" "heap sample_session = (\<lambda>_. None)"
  "freetickets_head sample_session = []" "alltickets_head sample_session = []"
  by (simp_all add: sample_session_def fdata_fresh_def)

lemma session_ready_sample: "session_ready sample_session"
  by (simp add: session_ready_def queues_ok_def fdata_dead_get_def has_flag_def FSESS_DEAD_def
      FSESS_INITED_def) (simp add: sample_session_def pool_inv_fdata_fresh)

section \<open>Properties\<close>

text \<open>
  C1: a request makes the round trip. In a ready session, a request that is built with the
  dispatcher, queued and read by the daemon arrives as the daemon's message: its header names the
  operation, the node, the length and the caller's credentials, and its body is the caller's. When
  the daemon answers it with a body of a size that fits the operation, the caller's wait returns
  success and the answer buffer holds that body exactly; no other request in progress is
  disturbed, both queues are as before, and the session's invariants hold.
\<close>

theorem rpc_round_trip:
  assumes "kenv_ok k" and "session_ready s" and "ms_head s = []" and "\<not> never_answered op"
    and "40 + length body < 2147483648" and "40 + length body \<le> room"
    and "op \<in> {FUSE_READ, FUSE_READDIR} \<longrightarrow> 20 \<le> length body"
    and "\<And>m. drop 40 m = body \<Longrightarrow> length (reply m) < 2147483648 \<and>
           body_fits s op (field_at 16 4 body) (length (reply m))"
    and "w_gap w = id" and "w_sleeps w = [(daemon_answers k room reply, None)]"
  shows "\<exists>m pad unique t fd' s' tk'. rpc k w op nid context body s = Done (Some 0, fd', s') \<and>
    decode_in_header m = request_header k unique nid op (length body) context pad \<and>
    drop 40 m = body \<and> fd_answ fd' = Some t \<and> heap s' t = Some tk' \<and>
    fd_iosize fd' = length (reply m) \<and>
    take (fd_iosize fd') (base (tk_aw_fiov tk')) = reply m \<and>
    pool_inv s' \<and> queues_ok s' \<and> in_use s' t \<and> ms_head s' = [] \<and> aw_head s' = aw_head s \<and>
    (\<forall>v. in_use s v \<longrightarrow> in_use s' v \<and> heap s' v = heap s v)"
  by (rule rpc_served [OF assms])

theorem rpc_round_trip_witness:
  "\<exists>fd' s' t tk'. rpc sample_kenv
       \<lparr>w_gap = id, w_sleeps = [(daemon_answers sample_kenv 65536 (\<lambda>_. replicate 112 7), None)],
        w_race = id\<rparr> FUSE_GETATTR 1 None [] sample_session = Done (Some 0, fd', s') \<and>
     heap s' t = Some tk' \<and> fd_iosize fd' = 112 \<and>
     take 112 (base (tk_aw_fiov tk')) = replicate 112 7"
proof -
  let ?w = "\<lparr>w_gap = id, w_sleeps = [(daemon_answers sample_kenv 65536 (\<lambda>_. replicate 112 7), None)],
        w_race = id\<rparr>"
  have f: "length (replicate 112 (7 :: u8)) < 2147483648 \<and>
      body_fits sample_session FUSE_GETATTR (field_at 16 4 []) (length (replicate 112 (7 :: u8)))"
    by (simp add: body_fits_def)
  have op: "\<not> never_answered FUSE_GETATTR" by (simp add: never_answered_def)
  obtain t fd' s' tk' where "rpc sample_kenv ?w FUSE_GETATTR 1 None [] sample_session = Done (Some 0, fd', s')"
    "heap s' t = Some tk'" "fd_iosize fd' = length (replicate 112 (7 :: u8))"
    "take (fd_iosize fd') (base (tk_aw_fiov tk')) = replicate 112 7"
    using rpc_round_trip [OF kenv_ok_sample session_ready_sample _ op, of "[]" 65536
        "\<lambda>_. replicate 112 7" ?w 1 None] f by auto
  then show ?thesis
    by (intro exI [where x = fd'] exI [where x = s'] exI [where x = t] exI [where x = tk']) simp
qed

text \<open>
  an answer that is not well formed is refused and changes nothing: one shorter than the
  header, one whose length field is not its length, and one with both an error and a body.
\<close>


lemma malformed_answer_refused:
  assumes "uiomove_in_ok (k_uiomove_in k)" and "uiomove_in_total (k_uiomove_in k)"
    and "length uio < 16 \<or>
         unat (oh_len (decode_out_header (take 16 uio))) \<noteq> length uio \<or>
         (length uio > 16 \<and> oh_error (decode_out_header (take 16 uio)) \<noteq> 0)"
  shows "fuse_device_write k uio s = Done (EINVAL, s)"
proof (cases "length uio < 16")
  case False
  then have "k_uiomove_in k (int 16) uio = (0, take 16 uio, drop 16 uio)"
    using uiomove_in_eq [OF assms(1,2), of 16 uio] by simp
  then show ?thesis using assms(3) False by (auto simp: fuse_device_write_def Let_def)
qed (simp add: fuse_device_write_def)

lemma malformed_answer_refused_witness:
  "fuse_device_write sample_kenv (answer_bytes 5 9 [1, 2, 3]) sample_session =
     Done (EINVAL, sample_session)"
proof (rule malformed_answer_refused)
  show "uiomove_in_ok (k_uiomove_in sample_kenv)" "uiomove_in_total (k_uiomove_in sample_kenv)"
    using kenv_ok_sample by (simp_all add: kenv_ok_def)
  have "oh_error (decode_out_header (take 16 (answer_bytes 5 9 [1, 2, 3]))) = 9"
    using decode_encode_out_header [of _ "[]"] by (simp add: answer_bytes_def)
  then show "length (answer_bytes 5 9 [1, 2, 3]) < 16 \<or>
      unat (oh_len (decode_out_header (take 16 (answer_bytes 5 9 [1, 2, 3])))) \<noteq>
        length (answer_bytes 5 9 [1, 2, 3]) \<or>
      (length (answer_bytes 5 9 [1, 2, 3]) > 16 \<and>
        oh_error (decode_out_header (take 16 (answer_bytes 5 9 [1, 2, 3]))) \<noteq> 0)"
    by simp
qed

text \<open>
  An answer for which no ticket waits is accepted and changes nothing.
\<close>

lemma unknown_answer_ignored:
  assumes "kenv_ok k" and "pool_inv s" and "queues_ok s" and "16 + length body < 2 ^ 32"
    and "body = [] \<or> err = 0"
    and "\<And>t tk. t \<in> set (aw_head s) \<Longrightarrow> heap s t = Some tk \<Longrightarrow> tk_unique tk \<noteq> unique"
  shows "fuse_device_write k (answer_bytes unique err body) s = Done (0, s)"
proof -
  let ?a = "answer_bytes unique err body"
  have um: "uiomove_in_ok (k_uiomove_in k)" "uiomove_in_total (k_uiomove_in k)"
    using assms(1) by (simp_all add: kenv_ok_def)
  have m: "k_uiomove_in k 16 ?a = (0, take 16 ?a, body)"
    using uiomove_in_eq [OF um, of 16 ?a] by (simp add: answer_bytes_def)
  have h: "decode_out_header (take 16 ?a) =
      \<lparr>oh_len = word_of_nat (16 + length body), oh_error = err, oh_unique = unique\<rparr>"
    using decode_encode_out_header [of _ "[]"] by (simp add: answer_bytes_def)
  have l: "unat (word_of_nat (16 + length body) :: u32) = 16 + length body"
    using assms(4) by (simp add: unat_of_nat take_bit_nat_eq_self del: of_nat_add)
  have live: "\<forall>v \<in> set (aw_head s). heap s v \<noteq> None"
    using assms(2,3) by (auto simp: queues_ok_def dest!: in_use_ticket)
  then have "aw_find s unique (aw_head s) = Done None"
    by (rule aw_find_none) (use assms(6) in blast)
  then show ?thesis
    unfolding fuse_device_write_def sizeof_headers of_nat_numeral m
    using h l assms(5) by (auto simp: Let_def)
qed

lemma unknown_answer_ignored_witness:
  "fuse_device_write sample_kenv (answer_bytes 5 0 [1, 2, 3]) sample_session = Done (0, sample_session)"
  by (rule unknown_answer_ignored [OF kenv_ok_sample])
    (use session_ready_sample in \<open>simp_all add: session_ready_def\<close>)

section \<open>Requests that are given up\<close>

lemma queues_ok_frame:
  assumes "queues_ok s" "pool_frame t s s'" "\<forall>v. v \<noteq> t \<longrightarrow> in_use s' v = in_use s v"
    and "t \<notin> set (ms_head s)" "t \<notin> set (aw_head s)"
  shows "queues_ok s'"
  using assms(1,3-5) pool_frame_fields(1,2) [OF assms(2)] by (auto simp: queues_ok_def)

lemma drop_unqueued:
  assumes k: "kenv_ok k" and inv: "pool_inv s" "queues_ok s" "in_use s t"
    and q: "t \<notin> set (ms_head s)" "t \<notin> set (aw_head s)"
  shows "\<exists>s'. fuse_ticket_drop (k_tun k) (k_osm k) t s = Done s' \<and> pool_inv s' \<and> queues_ok s' \<and>
    \<not> in_use s' t \<and> pool_frame t s s' \<and> (\<forall>v. v \<noteq> t \<longrightarrow> in_use s' v = in_use s v)"
proof -
  have "osm_ok (k_osm k)" "osm_total (k_osm k)" using k by (simp_all add: kenv_ok_def)
  from fuse_ticket_drop_inv [OF inv(1,3) this] obtain s' where
    "fuse_ticket_drop (k_tun k) (k_osm k) t s = Done s'" "pool_inv s'" "\<not> in_use s' t"
    "pool_frame t s s'" "\<forall>v. v \<noteq> t \<longrightarrow> in_use s' v = in_use s v" by blast
  then show ?thesis using queues_ok_frame [OF inv(2) _ _ q] by blast
qed

text \<open>
  a request that was interrupted is not lost. The requester leaves its ticket on the answer
  queue without a handler; when the daemon's answer comes at last, whatever it is, the ticket goes
  back to the pool, the queues stay consistent and no other ticket is touched.
\<close>

lemma interrupted_ticket_returns:
  assumes "kenv_ok k" and "pool_inv s" and "queues_ok s" and "t \<in> set (aw_head s)"
    and "t \<notin> set (ms_head s)" and "heap s t = Some tk"
    and "16 + length body < 2 ^ 32" and "body = [] \<or> err = 0"
  shows "\<exists>s1 s2. fdisp_interrupted id t s = Done s1 \<and>
    fuse_device_write k (answer_bytes (tk_unique tk) err body) s1 = Done (0, s2) \<and>
    pool_inv s2 \<and> queues_ok s2 \<and> \<not> in_use s2 t \<and> aw_head s2 = remove1 t (aw_head s) \<and>
    (\<forall>v. v \<noteq> t \<longrightarrow> in_use s2 v = in_use s v \<and> heap s2 v = heap s v)"
proof -
  let ?tk = "(fticket_set_answered tk)\<lparr>tk_aw_handler := None\<rparr>"
  let ?s1 = "put_ticket t ?tk s"
  have um: "uiomove_in_ok (k_uiomove_in k)" "uiomove_in_total (k_uiomove_in k)"
    using assms(1) by (simp_all add: kenv_ok_def)
  have u: "in_use s t" using assms(3,4) by (simp add: queues_ok_def)
  have wf: "ticket_wf tk" using assms(2,6) by (auto simp: pool_inv_def)
  have i: "fdisp_interrupted id t s = Done ?s1"
    using assms(4,6)
    by (simp add: fdisp_interrupted_def ticketI Let_def upd_ticket_def)
      (simp add: put_ticket_def fticket_set_answered_def)
  have inv1: "pool_inv ?s1"
    by (rule pool_inv_put_ticket [OF assms(2) u assms(6)])
      (use wf in \<open>simp_all add: fticket_set_answered_def ticket_wf_def\<close>)
  have q1: "queues_ok ?s1" using assms(3) by (simp add: queues_ok_def)
  let ?s2 = "fuse_aw_remove t ?s1"
  have q2: "pool_inv ?s2" "queues_ok ?s2" "in_use ?s2 t" "t \<notin> set (aw_head ?s2)" "t \<notin> set (ms_head ?s2)"
    using inv1 q1 u assms(5) by (auto simp: fuse_aw_remove_def queues_ok_def set_remove1_eq)
  obtain s2 where d: "fuse_ticket_drop (k_tun k) (k_osm k) t ?s2 = Done s2" "pool_inv s2"
    "queues_ok s2" "\<not> in_use s2 t" "pool_frame t ?s2 s2" "\<forall>v. v \<noteq> t \<longrightarrow> in_use s2 v = in_use ?s2 v"
    using drop_unqueued [OF assms(1) q2(1-3,5,4)] by blast
  have "fuse_device_write k (answer_bytes (tk_unique ?tk) err body) ?s1 = Done (0, s2)"
    using fuse_device_write_answer [OF um inv1 q1, of t ?tk body err] assms(4,7,8) d(1)
    by (simp add: Let_def fticket_set_answered_def)
  moreover have "tk_unique ?tk = tk_unique tk" by (simp add: fticket_set_answered_def)
  moreover have "in_use s2 v = in_use s v \<and> heap s2 v = heap s v" if "v \<noteq> t" for v
    using that d(6) pool_frame_fields(10) [OF d(5) that] by (simp add: fuse_aw_remove_def)
  moreover have "aw_head s2 = remove1 t (aw_head s)"
    using pool_frame_fields(2) [OF d(5)] by (simp add: fuse_aw_remove_def)
  ultimately show ?thesis using i d by auto
qed

text \<open>A session in which one request has been read by the daemon and waits for its answer.\<close>

definition sample_ticket :: fuse_ticket where
  "sample_ticket =
     (new_ticket 0
        \<lparr>base = encode_in_header (request_header sample_kenv 0 1 FUSE_GETATTR 0 None 0) @ replicate 120 0,
         len = 40, allocated_size = 160, credit = 16\<rparr>
        \<lparr>base = replicate 160 0, len = 0, allocated_size = 160, credit = 16\<rparr>)
     \<lparr>tk_flag := FT_DIRTY, tk_aw_handler := Some fuse_standard_handler_fn\<rparr>"

definition sample_busy :: session where
  "sample_busy = sample_session\<lparr>ticketer := 1, heap := (\<lambda>_. None)(0 := Some sample_ticket), brk := 1,
     alltickets_head := [0], aw_head := [0]\<rparr>"

lemma sample_busy_fields [simp]:
  "heap sample_busy 0 = Some sample_ticket" "aw_head sample_busy = [0]" "ms_head sample_busy = []"
  "dataflags sample_busy = FSESS_INITED" "in_use sample_busy v = (v = 0)"
  by (simp_all add: sample_busy_def in_use_def)

lemma sample_ticket_fields [simp]:
  "tk_unique sample_ticket = 0" "tk_aw_handler sample_ticket = Some fuse_standard_handler_fn"
  "tk_flag sample_ticket = FT_DIRTY" "tk_aw_type sample_ticket = FT_A_FIOV"
  by (simp_all add: sample_ticket_def new_ticket_def)

lemma sample_busy_inv: "pool_inv sample_busy" "queues_ok sample_busy"
proof -
  have f: "freetickets_head sample_busy = []" "freeticket_counter sample_busy = 0"
    by (simp_all add: sample_busy_def sample_session_def fdata_fresh_def)
  have "ticket_wf sample_ticket" "(0 :: u64) < 1"
    by (simp_all add: ticket_wf_def fiov_wf_def sample_ticket_def new_ticket_def)
  then show "pool_inv sample_busy"
    using f by (simp add: pool_inv_def uniques_ok_def free_count_ok_def)
      (simp add: sample_busy_def)
  show "queues_ok sample_busy" by (simp add: queues_ok_def)
qed

theorem interrupted_ticket_returns_witness:
  "\<exists>s1 s2. fdisp_interrupted id 0 sample_busy = Done s1 \<and>
     fuse_device_write sample_kenv (answer_bytes 0 0 [1, 2, 3]) s1 = Done (0, s2) \<and> \<not> in_use s2 0"
  using interrupted_ticket_returns [OF kenv_ok_sample sample_busy_inv, of 0 sample_ticket "[1, 2, 3]" 0]
  by auto

lemma dead_wait:
  assumes k: "kenv_ok k" and dead: "fdata_dead_get s" and inv: "pool_inv s" "queues_ok s" "in_use s t"
    and q: "t \<notin> set (ms_head s)" "t \<notin> set (aw_head s)" and h: "heap s t = Some tk"
    and cl: "tk_flag tk = 0" and fd: "fd_tick fd = Some t" and w: "w_gap w = id"
  shows "\<exists>fd' s'. fdisp_wait_answ k w fd s = Done (Some ENOTCONN, fd', s') \<and> pool_inv s' \<and>
      queues_ok s' \<and> \<not> in_use s' t \<and> ms_head s' = ms_head s \<and> aw_head s' = aw_head s \<and>
      (\<forall>v. v \<noteq> t \<longrightarrow> in_use s' v = in_use s v \<and> heap s' v = heap s v)"
proof -
  let ?tk1 = "tk\<lparr>tk_flag := FT_DIRTY\<rparr>"
  let ?s1 = "put_ticket t ?tk1 s"
  let ?tk2 = "fticket_set_answered ?tk1"
  let ?s2 = "put_ticket t ?tk2 ?s1"
  have wf: "ticket_wf tk" using inv(1) h by (auto simp: pool_inv_def)
  have c: "fuse_insert_callback t h s = Done s" for h using dead by (simp add: fuse_insert_callback_def)
  have m: "fuse_insert_message t s = Done ?s1"
    using h cl dead by (simp add: fuse_insert_message_def ticketI set_flag_def fdata_dead_get_def)
  have na: "\<not> fticket_answered ?tk1" "fticket_answered ?tk2"
    by (simp_all add: fticket_answered_def fticket_set_answered_def flag_simps)
  have wa: "fticket_wait_answer k (w_sleeps w) t ?s1 = Done (Some ENOTCONN, ?s2)"
    using dead na
    by (simp add: fticket_wait_answer_def ticketI fdata_dead_get_def upd_ticket_def wait_out_def)
  have "pool_inv ?s1"
    by (rule pool_inv_put_ticket [OF inv(1,3) h]) (use wf in \<open>simp_all add: ticket_wf_def\<close>)
  then have inv2: "pool_inv ?s2"
    by (rule pool_inv_put_ticket [where tk = ?tk1])
      (use inv wf in \<open>simp_all add: ticket_wf_def fticket_set_answered_def\<close>)
  have q2: "queues_ok ?s2" "in_use ?s2 t" "t \<notin> set (ms_head ?s2)" "t \<notin> set (aw_head ?s2)"
    using inv q by (auto simp: queues_ok_def)
  obtain s' where d: "fuse_ticket_drop (k_tun k) (k_osm k) t ?s2 = Done s'" "pool_inv s'" "queues_ok s'"
    "\<not> in_use s' t" "pool_frame t ?s2 s'" "\<forall>v. v \<noteq> t \<longrightarrow> in_use s' v = in_use ?s2 v"
    using drop_unqueued [OF k inv2 q2] by blast
  have "fdisp_wait_answ k w fd s = Done (Some ENOTCONN, fd\<lparr>fd_answ_stat := 0\<rparr>, s')"
    using fd c m w wa na d(1) by (simp add: fdisp_wait_answ_def ticketI)
  moreover have "in_use s' v = in_use s v \<and> heap s' v = heap s v" if "v \<noteq> t" for v
    using that d(6) pool_frame_fields(10) [OF d(5) that] by simp
  ultimately show ?thesis using d pool_frame_fields(1,2) [OF d(5)] by auto
qed

text \<open>
  C33: a dead session answers nobody and loses no ticket. A daemon that reads gets
  \<^verbatim>\<open>ENODEV\<close>; a caller that sends gets \<^verbatim>\<open>ENOTCONN\<close> at once, its ticket goes back to the
  pool, nothing is queued and no other ticket is touched.
\<close>

theorem dead_session_refuses:
  assumes "kenv_ok k" and "fdata_dead_get s" and "pool_inv s" and "queues_ok s" and "in_use s t"
    and "t \<notin> set (ms_head s)" and "t \<notin> set (aw_head s)" and "heap s t = Some tk"
    and "tk_flag tk = 0" and "fd_tick fd = Some t" and "w_gap w = id"
  shows "fuse_device_read k nb sleeps gap u s = Done ((Some ENODEV, u), s) \<and>
    (\<exists>fd' s'. fdisp_wait_answ k w fd s = Done (Some ENOTCONN, fd', s') \<and> pool_inv s' \<and>
      queues_ok s' \<and> \<not> in_use s' t \<and> ms_head s' = ms_head s \<and> aw_head s' = aw_head s \<and>
      (\<forall>v. v \<noteq> t \<longrightarrow> in_use s' v = in_use s v \<and> heap s' v = heap s v))"
  using dead_wait [OF assms] assms(2) by (simp add: fuse_device_read_def read_wait.simps)

theorem dead_session_refuses_witness:
  "\<exists>s t fd fd' s'. fdata_dead_get s \<and> in_use s t \<and>
     fdisp_wait_answ sample_kenv \<lparr>w_gap = id, w_sleeps = [], w_race = id\<rparr> fd s =
       Done (Some ENOTCONN, fd', s') \<and> \<not> in_use s' t"
proof -
  let ?tk = "sample_ticket\<lparr>tk_flag := 0\<rparr>"
  let ?s = "(put_ticket 0 ?tk sample_busy)\<lparr>dataflags := FSESS_DEAD, aw_head := []\<rparr>"
  let ?fd = "fdisp_uninit\<lparr>fd_tick := Some 0\<rparr>"
  have d: "fdata_dead_get ?s" by (simp add: fdata_dead_get_def has_flag_def FSESS_DEAD_def)
  have "ticket_wf ?tk" by (simp add: ticket_wf_def fiov_wf_def sample_ticket_def new_ticket_def)
  then have "pool_inv (put_ticket 0 ?tk sample_busy)"
    by (intro pool_inv_put_ticket [OF sample_busy_inv(1) _ sample_busy_fields(1)]) simp_all
  then have i: "pool_inv ?s" "queues_ok ?s" "in_use ?s 0" by (simp_all add: queues_ok_def)
  from dead_session_refuses [OF kenv_ok_sample d i, of ?tk ?fd "\<lparr>w_gap = id, w_sleeps = [], w_race = id\<rparr>"
      False "[]" id "\<lparr>uio_resid = 0, uio_out = []\<rparr>"]
  have "\<exists>fd' s'. fdisp_wait_answ sample_kenv \<lparr>w_gap = id, w_sleeps = [], w_race = id\<rparr> ?fd ?s =
       Done (Some ENOTCONN, fd', s') \<and> \<not> in_use s' 0" by auto
  then show ?thesis using d i(3) by blast
qed

section \<open>The death of a session\<close>

text \<open>A ticket that was taken off the queue because its session died.\<close>

definition notconn_ticket :: "fuse_ticket \<Rightarrow> fuse_ticket" where
  "notconn_ticket tk = (fticket_set_answered tk)\<lparr>tk_aw_errno := ENOTCONN\<rparr>"

lemma notconn_all_spec:
  assumes "distinct (aw_head s)" "\<forall>t \<in> set (aw_head s). heap s t \<noteq> None" "n = length (aw_head s)"
  shows "notconn_all n s = Done (s\<lparr>aw_head := [],
      heap := (\<lambda>v. if v \<in> set (aw_head s) then map_option notconn_ticket (heap s v) else heap s v),
      kevents := kevents s @ map Wakeup_ticket (aw_head s)\<rparr>)"
  using assms
proof (induction n arbitrary: s)
  case 0
  then show ?case by simp
next
  case (Suc n)
  then obtain t q where q: "aw_head s = t # q" by (cases "aw_head s") auto
  then obtain tk where tk: "heap s t = Some tk" using Suc.prems(2) by auto
  let ?s1 = "event (Wakeup_ticket t) (put_ticket t (notconn_ticket tk) (s\<lparr>aw_head := q\<rparr>))"
  have step: "notconn_all (Suc n) s = notconn_all n ?s1"
    using q tk by (simp add: fuse_aw_pop_def fuse_aw_remove_def upd_ticket_def ticket_def notconn_ticket_def)
  have t: "t \<notin> set q" "distinct q" using Suc.prems(1) q by auto
  have "notconn_all n ?s1 = Done (?s1\<lparr>aw_head := [],
      heap := (\<lambda>v. if v \<in> set (aw_head ?s1) then map_option notconn_ticket (heap ?s1 v) else heap ?s1 v),
      kevents := kevents ?s1 @ map Wakeup_ticket (aw_head ?s1)\<rparr>)"
    by (rule Suc.IH) (use Suc.prems q t in auto)
  moreover have "(\<lambda>v. if v \<in> set (aw_head ?s1) then map_option notconn_ticket (heap ?s1 v) else heap ?s1 v) =
      (\<lambda>v. if v \<in> set (aw_head s) then map_option notconn_ticket (heap s v) else heap s v)"
    using q t tk by auto
  ultimately show ?case unfolding step using q by (simp add: event_def put_ticket_def)
qed

text \<open>
  who may kill a session, and what a kill does. Only root and the daemon's own user may; for
  anyone else the call returns \<^verbatim>\<open>EPERM\<close> and changes nothing. A kill marks the session dead
  and empties the answer queue: every ticket on it is marked as answered with
  \<^verbatim>\<open>ENOTCONN\<close>, its requester is woken, and no other ticket is touched.
\<close>

lemma device_kill_wakes_all:
  assumes "0 \<le> u" and "u < 24" and "length (fuse_device_table d) = 24"
    and "fdev_data (fuse_device_table d ! nat u) = Some s" and "pool_inv s" and "queues_ok s"
    and "cnt s = dev_cnt d"
  shows "if cr_uid cred = 0 \<or> fuse_match_cred (daemoncred s) cred = 0
    then \<exists>d' s'. fuse_device_kill u (Some cred) d = Done (0, d') \<and>
      fdev_data (fuse_device_table d' ! nat u) = Some s' \<and> fdata_dead_get s' \<and> aw_head s' = [] \<and>
      (\<forall>t \<in> set (aw_head s). Wakeup_ticket t \<in> set (kevents s') \<and>
         heap s' t = map_option notconn_ticket (heap s t)) \<and>
      (\<forall>t. t \<notin> set (aw_head s) \<longrightarrow> heap s' t = heap s t)
    else fuse_device_kill u (Some cred) d = Done (EPERM, d)"
proof -
  let ?fdev = "fuse_device_table d ! nat u"
  have fdev: "FUSE_DEVICE_FROM_UNIT_FAST d u = Done ?fdev"
    using assms(1-3) by (simp add: FUSE_DEVICE_FROM_UNIT_FAST_def)
  have sc: "s\<lparr>cnt := dev_cnt d\<rparr> = s" using assms(7) by (cases s) simp
  have rng: "\<not> (u < 0 \<or> int MACFUSE_NDEVICES \<le> u)" using assms(1,2) by (simp add: MACFUSE_NDEVICES_def)
  have same: "(put_device u (?fdev\<lparr>fdev_data := Some s\<rparr>) d)\<lparr>dev_cnt := cnt s\<rparr> = d"
  proof -
    have "?fdev\<lparr>fdev_data := Some s\<rparr> = ?fdev" using assms(4) by (cases ?fdev) simp
    then show ?thesis using assms(7) by (simp add: put_device_def)
  qed
  show ?thesis
  proof (cases "cr_uid cred = 0 \<or> fuse_match_cred (daemoncred s) cred = 0")
    case False
    then have "fuse_device_kill u (Some cred) d = Done (EPERM, d)"
      using rng assms(4) fdev same sc by (simp add: fuse_device_kill_def on_session_def)
    then show ?thesis using False by simp
  next
    case True
    let ?s1 = "fdata_set_dead s"
    have live: "\<forall>t \<in> set (aw_head ?s1). heap ?s1 t \<noteq> None"
      using assms(5,6) by (auto simp: queues_ok_def dest!: in_use_ticket)
    obtain s' where s': "notconn_all (length (aw_head s)) ?s1 = Done s'" "aw_head s' = []"
      "heap s' = (\<lambda>v. if v \<in> set (aw_head s) then map_option notconn_ticket (heap s v) else heap s v)"
      "kevents s' = kevents ?s1 @ map Wakeup_ticket (aw_head s)" "fdata_dead_get s'"
      using notconn_all_spec [OF _ live, of "length (aw_head s)"] assms(6) fdata_set_dead_dead [of s]
      by (simp add: queues_ok_def fdata_dead_get_def cong: if_cong)
    have "fuse_device_kill u (Some cred) d =
        Done (0, (put_device u (?fdev\<lparr>fdev_data := Some s'\<rparr>) d)\<lparr>dev_cnt := cnt s'\<rparr>)"
      using rng assms(4) fdev sc True s'(1) by (simp add: fuse_device_kill_def on_session_def)
    then show ?thesis using True s' assms(1-3) by (auto simp: put_device_def)
  qed
qed


lemma device_kill_wakes_all_witness:
  "\<exists>d d' s'. fuse_device_kill 0 (Some sample_cred) d = Done (0, d') \<and>
     fdev_data (fuse_device_table d' ! 0) = Some s' \<and> fdata_dead_get s' \<and> aw_head s' = [] \<and>
     heap s' 0 = Some (notconn_ticket sample_ticket)"
proof -
  let ?d = "\<lparr>fuse_cdev_major = 7, fuse_interface_available = True,
      fuse_device_table = (replicate 24 fuse_device_zero)[0 := fuse_device_zero\<lparr>fdev_data := Some sample_busy\<rparr>],
      dev_cnt = cnt sample_busy, global_held = False\<rparr>"
  have m: "fuse_match_cred (daemoncred sample_busy) sample_cred = 0"
    by (simp add: fuse_match_cred_def sample_busy_def sample_session_def fdata_fresh_def sample_cred_def)
  show ?thesis
    using device_kill_wakes_all [of 0 ?d sample_busy sample_cred] sample_busy_inv m by auto
qed

section \<open>The life of a device\<close>

lemma destroy_allticks_ok:
  assumes "distinct (alltickets_head s)" "dom (heap s) = set (alltickets_head s)"
    "n = length (alltickets_head s)"
  shows "\<exists>s'. destroy_allticks tun n s = Done s' \<and> dom (heap s') = {}"
  using assms
proof (induction n arbitrary: s)
  case (Suc n)
  then obtain t q where q: "alltickets_head s = t # q" by (cases "alltickets_head s") auto
  let ?s1 = "fuse_remove_allticks t s"
  have "t \<in> dom (heap s)" using Suc.prems(2) q by simp
  then obtain tk where "heap ?s1 t = Some tk" by (auto simp: fuse_remove_allticks_def)
  then obtain g where d: "fticket_destroy tun t ?s1 = Done (?s1\<lparr>heap := (heap ?s1)(t := None), cnt := g\<rparr>)"
    using fticket_destroy_Done by blast
  let ?s2 = "?s1\<lparr>heap := (heap ?s1)(t := None), cnt := g\<rparr>"
  have "\<exists>s'. destroy_allticks tun n ?s2 = Done s' \<and> dom (heap s') = {}"
  proof (rule Suc.IH)
    have "dom (heap ?s2) = dom (heap s) - {t}" by (simp add: fuse_remove_allticks_def)
    then show "dom (heap ?s2) = set (alltickets_head ?s2)"
      using Suc.prems q by (auto simp: fuse_remove_allticks_def)
  qed (use Suc.prems q in \<open>simp_all add: fuse_remove_allticks_def\<close>)
  then show ?case using q d by (simp add: fuse_pop_allticks_def)
qed simp

lemma fdata_destroy_ok:
  assumes "pool_inv s"
  shows "\<exists>s'. fdata_destroy tun s = Done s' \<and> dom (heap s') = {}"
proof -
  obtain s' where "destroy_allticks tun (length (alltickets_head s))
      (s\<lparr>timeout_status := FUSE_DAEMON_TIMEOUT_NONE\<rparr>) = Done s'" "dom (heap s') = {}"
    using destroy_allticks_ok [of "s\<lparr>timeout_status := FUSE_DAEMON_TIMEOUT_NONE\<rparr>"
        "length (alltickets_head s)" tun] assms by (auto simp: pool_inv_def)
  then show ?thesis by (simp add: fdata_destroy_def)
qed

lemma fdata_alloc_ok:
  assumes "osm_total osm"
  shows "\<exists>g'. fdata_alloc tun osm cred pid addr g = Done (fdata_fresh cred pid addr g')"
  using FUSE_OSMalloc_total [OF assms, of "sizeof_fuse_data tun" g] by (auto simp: fdata_alloc_def)

text \<open>
  The table has its 24 slots and no thread is inside the global mutex; a slot that is open has a
  session.
\<close>

definition dev_inv :: "devices \<Rightarrow> bool" where
  "dev_inv d \<longleftrightarrow> length (fuse_device_table d) = MACFUSE_NDEVICES \<and> \<not> global_held d \<and>
     (\<forall>fdev \<in> set (fuse_device_table d). (usecount fdev = 0 \<or> usecount fdev = 1) \<and>
        (usecount fdev = 1 \<longrightarrow> fdev_data fdev \<noteq> None) \<and>
        (\<forall>s. fdev_data fdev = Some s \<longrightarrow> pool_inv s \<and> queues_ok s))"

lemma dev_inv_slot:
  assumes "dev_inv d" "0 \<le> u" "u < 24"
  shows "FUSE_DEVICE_FROM_UNIT_FAST d u = Done (fuse_device_table d ! nat u)"
    "fuse_device_table d ! nat u \<in> set (fuse_device_table d)" "nat u < length (fuse_device_table d)"
    "\<not> (int MACFUSE_NDEVICES \<le> u \<or> u < 0)" "\<not> (u < 0 \<or> int MACFUSE_NDEVICES \<le> u)"
  using assms by (auto simp: dev_inv_def FUSE_DEVICE_FROM_UNIT_FAST_def MACFUSE_NDEVICES_def)

lemma set_put_device: "fdev \<in> set (xs[i := x]) \<Longrightarrow> fdev = x \<or> fdev \<in> set xs"
  using set_update_subset_insert [of xs i x] by auto

lemma dev_inv_put:
  assumes "dev_inv d" "usecount x = 0 \<or> usecount x = 1" "usecount x = 1 \<longrightarrow> fdev_data x \<noteq> None"
    "\<And>s. fdev_data x = Some s \<Longrightarrow> pool_inv s \<and> queues_ok s"
  shows "dev_inv ((put_device u x d)\<lparr>dev_cnt := g\<rparr>)"
  using assms by (auto simp: dev_inv_def put_device_def dest!: set_put_device)

lemma device_open_free:
  assumes inv: "dev_inv d" and u: "0 \<le> u" "u < 24" and av: "fuse_interface_available d"
    and osm: "osm_total (k_osm k)"
    and free: "usecount (fuse_device_table d ! nat u) = 0" "fdev_data (fuse_device_table d ! nat u) = None"
  shows "\<exists>g. fuse_device_open k u cred pid rnd d = Done (0,
    (put_device u ((fuse_device_table d ! nat u)\<lparr>usecount := 1,
       fdev_data := Some ((fdata_fresh cred pid 0 g)\<lparr>dataflags := FSESS_OPENED\<rparr>),
       fdev_pid := pid, fdev_random := rnd\<rparr>) d)\<lparr>dev_cnt := g\<rparr>)"
proof -
  let ?fdev = "fuse_device_table d ! nat u"
  note sl = dev_inv_slot [OF inv u]
  let ?d2 = "put_device u (?fdev\<lparr>usecount := 1\<rparr>) d"
  have ul: "FUSE_DEVICE_GLOBAL_UNLOCK (put_device u (?fdev\<lparr>usecount := 1\<rparr>) (FUSE_DEVICE_GLOBAL_LOCK d)) = Done ?d2"
    using inv by (simp add: FUSE_DEVICE_GLOBAL_UNLOCK_def FUSE_DEVICE_GLOBAL_LOCK_def put_device_def dev_inv_def)
  obtain g where g: "fdata_alloc (k_tun k) (k_osm k) cred pid 0 (dev_cnt ?d2) = Done (fdata_fresh cred pid 0 g)"
    using fdata_alloc_ok [OF osm] by blast
  have "cnt (fdata_fresh cred pid 0 g) = g" "dataflags (fdata_fresh cred pid 0 g) = 0"
    by (simp_all add: fdata_fresh_def)
  then have "fuse_device_open k u cred pid rnd d = Done (0,
    (put_device u ((?fdev\<lparr>usecount := 1\<rparr>)\<lparr>
       fdev_data := Some ((fdata_fresh cred pid 0 g)\<lparr>dataflags := FSESS_OPENED\<rparr>),
       fdev_pid := pid, fdev_random := rnd\<rparr>) ?d2)\<lparr>dev_cnt := g\<rparr>)"
    using sl av free ul g by (simp add: fuse_device_open_def Let_def set_flag_def)
  then show ?thesis by (simp add: put_device_def) (rule exI, rule refl)
qed

lemma device_open_busy:
  assumes inv: "dev_inv d" and u: "0 \<le> u" "u < 24" and av: "fuse_interface_available d"
    and osm: "osm_total (k_osm k)"
    and busy: "usecount (fuse_device_table d ! nat u) \<noteq> 0 \<or> fdev_data (fuse_device_table d ! nat u) \<noteq> None"
  shows "\<exists>g. fuse_device_open k u cred pid rnd d = Done (EBUSY, d\<lparr>dev_cnt := g\<rparr>)"
proof (cases "usecount (fuse_device_table d ! nat u) = 0")
  case False
  have "(FUSE_DEVICE_GLOBAL_LOCK d)\<lparr>global_held := False\<rparr> = d\<lparr>dev_cnt := dev_cnt d\<rparr>"
    using inv by (cases d) (simp add: FUSE_DEVICE_GLOBAL_LOCK_def dev_inv_def)
  then have "fuse_device_open k u cred pid rnd d = Done (EBUSY, d\<lparr>dev_cnt := dev_cnt d\<rparr>)"
    using False dev_inv_slot [OF inv u] av
    by (simp add: fuse_device_open_def Let_def FUSE_DEVICE_GLOBAL_UNLOCK_def)
      (simp add: FUSE_DEVICE_GLOBAL_LOCK_def)
  then show ?thesis by blast
next
  case True
  let ?fdev = "fuse_device_table d ! nat u"
  obtain s where s: "fdev_data ?fdev = Some s" using True busy by auto
  let ?d2 = "put_device u (?fdev\<lparr>usecount := 1\<rparr>) d"
  have ul: "FUSE_DEVICE_GLOBAL_UNLOCK (put_device u (?fdev\<lparr>usecount := 1\<rparr>) (FUSE_DEVICE_GLOBAL_LOCK d)) = Done ?d2"
    using inv by (simp add: FUSE_DEVICE_GLOBAL_UNLOCK_def FUSE_DEVICE_GLOBAL_LOCK_def put_device_def dev_inv_def)
  have "?fdev\<lparr>usecount := 0\<rparr> = ?fdev" using True by (cases ?fdev) simp
  then have ul2: "FUSE_DEVICE_GLOBAL_UNLOCK (put_device u (?fdev\<lparr>usecount := 0\<rparr>)
      (FUSE_DEVICE_GLOBAL_LOCK ?d2)) = Done d"
    using inv by (simp add: FUSE_DEVICE_GLOBAL_UNLOCK_def FUSE_DEVICE_GLOBAL_LOCK_def put_device_def dev_inv_def)
  obtain g where g: "fdata_alloc (k_tun k) (k_osm k) cred pid 0 (dev_cnt ?d2) = Done (fdata_fresh cred pid 0 g)"
    using fdata_alloc_ok [OF osm] by blast
  obtain s' where "fdata_destroy (k_tun k) (fdata_fresh cred pid 0 g) = Done s'"
    using fdata_destroy_ok [OF pool_inv_fdata_fresh] by blast
  then have "fuse_device_open k u cred pid rnd d = Done (EBUSY, d\<lparr>dev_cnt := cnt s'\<rparr>)"
    using dev_inv_slot [OF inv u] av True s ul ul2 g by (simp add: fuse_device_open_def Let_def)
  then show ?thesis by blast
qed

text \<open>
  a device belongs to one daemon at a time. Opening a slot that is neither open nor held by a
  lingering mount succeeds: the slot gets a fresh session with an empty pool and empty queues, the
  daemon's credentials and the random number, the other slots are untouched, and every further open of
  it returns \<^verbatim>\<open>EBUSY\<close> and leaves the table alone. So does opening a slot that is in use or
  lingers. The invariant of the table is kept.
\<close>

lemma device_open_exclusive:
  assumes "dev_inv d" and "0 \<le> u" and "u < 24" and "fuse_interface_available d" and "kenv_ok k"
  shows "if usecount (fuse_device_table d ! nat u) = 0 \<and> fdev_data (fuse_device_table d ! nat u) = None
    then \<exists>d' s. fuse_device_open k u cred pid rnd d = Done (0, d') \<and> dev_inv d' \<and>
      fdev_data (fuse_device_table d' ! nat u) = Some s \<and> daemoncred s = cred \<and>
      ms_head s = [] \<and> aw_head s = [] \<and> alltickets_head s = [] \<and> \<not> fdata_dead_get s \<and>
      fdev_random (fuse_device_table d' ! nat u) = rnd \<and>
      (\<forall>i. i \<noteq> nat u \<longrightarrow> fuse_device_table d' ! i = fuse_device_table d ! i) \<and>
      (\<forall>cred2 pid2 rnd2. \<exists>g. fuse_device_open k u cred2 pid2 rnd2 d' = Done (EBUSY, d'\<lparr>dev_cnt := g\<rparr>))
    else \<exists>g. fuse_device_open k u cred pid rnd d = Done (EBUSY, d\<lparr>dev_cnt := g\<rparr>)"
proof -
  have osm: "osm_total (k_osm k)" using assms(5) by (simp add: kenv_ok_def)
  let ?fdev = "fuse_device_table d ! nat u"
  show ?thesis
  proof (cases "usecount ?fdev = 0 \<and> fdev_data ?fdev = None")
    case False
    then show ?thesis using device_open_busy [OF assms(1-4) osm, of cred pid rnd] by auto
  next
    case True
    let ?s = "\<lambda>g. (fdata_fresh cred pid 0 g)\<lparr>dataflags := FSESS_OPENED\<rparr>"
    obtain g where o: "fuse_device_open k u cred pid rnd d = Done (0,
      (put_device u (?fdev\<lparr>usecount := 1, fdev_data := Some (?s g), fdev_pid := pid, fdev_random := rnd\<rparr>) d)
        \<lparr>dev_cnt := g\<rparr>)"
      using device_open_free [OF assms(1-4) osm] True by blast
    let ?d' = "(put_device u (?fdev\<lparr>usecount := 1, fdev_data := Some (?s g), fdev_pid := pid,
        fdev_random := rnd\<rparr>) d)\<lparr>dev_cnt := g\<rparr>"
    have sf: "daemoncred (?s g) = cred" "ms_head (?s g) = []" "aw_head (?s g) = []"
      "alltickets_head (?s g) = []" "\<not> fdata_dead_get (?s g)"
      by (simp_all add: fdata_fresh_def fdata_dead_get_def has_flag_def FSESS_OPENED_def FSESS_DEAD_def)
    have "queues_ok (?s g)" using sf by (simp add: queues_ok_def)
    then have inv: "dev_inv ?d'" by (intro dev_inv_put [OF assms(1)]) (auto simp: pool_inv_fdata_fresh)
    have slot: "fuse_device_table ?d' ! nat u = ?fdev\<lparr>usecount := 1, fdev_data := Some (?s g),
        fdev_pid := pid, fdev_random := rnd\<rparr>"
      using dev_inv_slot(3) [OF assms(1-3)] by (simp add: put_device_def)
    have "\<exists>g'. fuse_device_open k u c2 p2 r2 ?d' = Done (EBUSY, ?d'\<lparr>dev_cnt := g'\<rparr>)" for c2 p2 r2
      by (rule device_open_busy [OF inv assms(2,3) _ osm]) (use assms(4) slot in \<open>simp_all add: put_device_def\<close>)
    moreover have "\<forall>i. i \<noteq> nat u \<longrightarrow> fuse_device_table ?d' ! i = fuse_device_table d ! i"
      by (simp add: put_device_def)
    ultimately show ?thesis using True o inv slot sf
      by (simp only: if_True simp_thms) (intro exI [where x = ?d'] exI [where x = "?s g"], simp)
  qed
qed

lemma make_nodes_all:
  assumes "i + n = length tab" "\<forall>j. i \<le> j \<and> j < i + n \<longrightarrow> mknode j"
  shows "\<exists>tab'. make_nodes mknode major n i tab = (None, tab') \<and> length tab' = length tab \<and>
    (\<forall>l < i. tab' ! l = tab ! l) \<and>
    (\<forall>l. i \<le> l \<and> l < length tab \<longrightarrow>
       usecount (tab' ! l) = 0 \<and> fdev_data (tab' ! l) = None \<and> cdev (tab' ! l))"
  using assms
proof (induction n arbitrary: i tab)
  case (Suc n)
  let ?tab = "tab[i := \<lparr>usecount = 0, fdev_pid = -1, fdev_random = 0, fdev_dev = makedev major i,
                    cdev = True, fdev_mtx = True, fdev_data = None\<rparr>]"
  have "Suc i + n = length ?tab" "\<forall>j. Suc i \<le> j \<and> j < Suc i + n \<longrightarrow> mknode j"
    using Suc.prems by auto
  from Suc.IH [OF this] obtain tab' where t: "make_nodes mknode major n (Suc i) ?tab = (None, tab')"
    "length tab' = length ?tab" "\<forall>l < Suc i. tab' ! l = ?tab ! l"
    "\<forall>l. Suc i \<le> l \<and> l < length ?tab \<longrightarrow>
       usecount (tab' ! l) = 0 \<and> fdev_data (tab' ! l) = None \<and> cdev (tab' ! l)" by blast
  have "mknode i" using Suc.prems by simp
  moreover have "usecount (tab' ! l) = 0 \<and> fdev_data (tab' ! l) = None \<and> cdev (tab' ! l)"
    if "i \<le> l" "l < length tab" for l
    using that t(3,4) by (cases "l = i") auto
  ultimately show ?case using t by auto
qed auto

lemma make_nodes_fail:
  assumes "make_nodes mknode major n i tab = (Some j, tab')"
  shows "i \<le> j \<and> j < i + n \<and> \<not> mknode j \<and> length tab' = length tab \<and> (\<forall>l. j \<le> l \<longrightarrow> tab' ! l = tab ! l)"
  using assms
proof (induction n arbitrary: i tab)
  case (Suc n)
  show ?case
  proof (cases "mknode i")
    case True
    then show ?thesis using Suc.IH [of "Suc i"] Suc.prems by fastforce
  qed (use Suc.prems in auto)
qed simp

lemma make_nodes_none:
  "make_nodes mknode major n i tab = (None, tab') \<Longrightarrow> i \<le> j \<Longrightarrow> j < i + n \<Longrightarrow> mknode j"
proof (induction n arbitrary: i tab)
  case (Suc n)
  then show ?case by (cases "j = i") (auto split: if_splits)
qed simp

lemma unmake_nodes_spec:
  assumes "j \<le> length tab"
  shows "length (unmake_nodes j tab) = length tab \<and> (\<forall>l < j. \<not> cdev (unmake_nodes j tab ! l)) \<and>
    (\<forall>l. j \<le> l \<longrightarrow> unmake_nodes j tab ! l = tab ! l)"
  using assms
proof (induction j arbitrary: tab)
  case (Suc j)
  let ?tab = "tab[j := (tab ! j)\<lparr>cdev := False, fdev_dev := 0, fdev_mtx := False\<rparr>]"
  have i: "length (unmake_nodes j ?tab) = length ?tab \<and> (\<forall>l < j. \<not> cdev (unmake_nodes j ?tab ! l)) \<and>
    (\<forall>l. j \<le> l \<longrightarrow> unmake_nodes j ?tab ! l = ?tab ! l)"
    by (rule Suc.IH) (use Suc.prems in simp)
  have "\<not> cdev (unmake_nodes j ?tab ! l)" if "l < Suc j" for l
    using i that Suc.prems by (cases "l = j") auto
  then show ?case using i by auto
qed simp

text \<open>
  Starting the devices is all or nothing. If the switch entry and all 24 nodes can be made, the
  interface becomes available and the table satisfies its invariant with every slot free;
  otherwise the call fails, no node is left behind, no major number is kept and the interface is
  as available as before.
\<close>

lemma devices_start_all_or_nothing:
  assumes "\<not> global_held d"
  shows "if major \<noteq> -1 \<and> (\<forall>i < 24. mknode i)
    then \<exists>d'. fuse_devices_start major mknode d = (0, d') \<and> dev_inv d' \<and> fuse_interface_available d' \<and>
      (\<forall>fdev \<in> set (fuse_device_table d'). usecount fdev = 0 \<and> fdev_data fdev = None \<and> cdev fdev)
    else \<exists>d'. fuse_devices_start major mknode d = (5, d') \<and> fuse_cdev_major d' = -1 \<and>
      fuse_interface_available d' = fuse_interface_available d \<and>
      (\<forall>fdev \<in> set (fuse_device_table d'). \<not> cdev fdev)"
proof -
  let ?tab = "replicate MACFUSE_NDEVICES fuse_device_zero"
  have len: "0 + MACFUSE_NDEVICES = length ?tab" by simp
  show ?thesis
  proof (cases "major \<noteq> -1 \<and> (\<forall>i < 24. mknode i)")
    case True
    then have "\<forall>j. 0 \<le> j \<and> j < 0 + MACFUSE_NDEVICES \<longrightarrow> mknode j" by (simp add: MACFUSE_NDEVICES_def)
    from make_nodes_all [OF len this] obtain tab' where
      m: "make_nodes mknode major MACFUSE_NDEVICES 0 ?tab = (None, tab')" "length tab' = MACFUSE_NDEVICES"
      and a: "\<forall>l. l < MACFUSE_NDEVICES \<longrightarrow>
       usecount (tab' ! l) = 0 \<and> fdev_data (tab' ! l) = None \<and> cdev (tab' ! l)" by auto
    have "\<forall>fdev \<in> set tab'. usecount fdev = 0 \<and> fdev_data fdev = None \<and> cdev fdev"
      using a m(2) by (metis in_set_conv_nth)
    then show ?thesis using True m assms by (simp add: fuse_devices_start_def dev_inv_def)
  next
    case False
    show ?thesis
    proof (cases "major = -1")
      case True
      then show ?thesis by (simp add: fuse_devices_start_def fuse_device_zero_def)
    next
      case nm: False
      then obtain i where i: "i < 24" "\<not> mknode i" using False by blast
      obtain r tab' where m: "make_nodes mknode major MACFUSE_NDEVICES 0 ?tab = (r, tab')"
        by (cases "make_nodes mknode major MACFUSE_NDEVICES 0 ?tab")
      then obtain j where r: "r = Some j"
        using i make_nodes_none [of mknode major MACFUSE_NDEVICES 0 ?tab tab' i]
        by (cases r) (auto simp: MACFUSE_NDEVICES_def)
      note f = make_nodes_fail [OF m [unfolded r]]
      have "j \<le> length tab'" using f by simp
      note g = unmake_nodes_spec [OF this]
      have "\<not> cdev (unmake_nodes j tab' ! l)" if "l < length tab'" for l
        using f g that by (cases "l < j") (auto simp: fuse_device_zero_def)
      then have "\<forall>fdev \<in> set (unmake_nodes j tab'). \<not> cdev fdev" using g by (metis in_set_conv_nth)
      then show ?thesis using False nm m r by (simp add: fuse_devices_start_def)
    qed
  qed
qed

definition devices_zero :: devices where
  "devices_zero = \<lparr>fuse_cdev_major = -1, fuse_interface_available = False,
     fuse_device_table = replicate 24 fuse_device_zero, dev_cnt = fuse_counters_init, global_held = False\<rparr>"

lemma devices_start_all_or_nothing_witness:
  "(\<exists>d'. fuse_devices_start 7 (\<lambda>_. True) devices_zero = (0, d') \<and> dev_inv d') \<and>
   (\<exists>d'. fuse_devices_start 7 (\<lambda>i. i < 3) devices_zero = (5, d') \<and> \<not> fuse_interface_available d')"
proof -
  have h: "\<not> global_held devices_zero" and a: "\<not> fuse_interface_available devices_zero"
    by (simp_all add: devices_zero_def)
  have n: "\<not> (\<forall>i < (24 :: nat). i < 3)" by (auto intro: exI [where x = 5])
  show ?thesis
    using devices_start_all_or_nothing [OF h, of 7 "\<lambda>_. True"]
      devices_start_all_or_nothing [OF h, of 7 "\<lambda>i. i < 3"] n a by auto
qed

definition sample_devices :: devices where
  "sample_devices = devices_zero\<lparr>fuse_interface_available := True\<rparr>"

lemma dev_inv_sample: "dev_inv sample_devices" "fuse_interface_available sample_devices"
  by (simp_all add: dev_inv_def sample_devices_def devices_zero_def fuse_device_zero_def MACFUSE_NDEVICES_def)

lemma device_open_exclusive_witness:
  "\<exists>d'. fuse_device_open sample_kenv 3 sample_cred 77 42 sample_devices = Done (0, d') \<and> dev_inv d' \<and>
     (\<exists>g. fuse_device_open sample_kenv 3 sample_cred 78 43 d' = Done (EBUSY, d'\<lparr>dev_cnt := g\<rparr>))"
  using device_open_exclusive [OF dev_inv_sample(1) _ _ dev_inv_sample(2) kenv_ok_sample, of 3 sample_cred 77 42]
  by (auto simp: sample_devices_def devices_zero_def fuse_device_zero_def)

text \<open>
  Opening a unit that is out of range releases the global mutex without having taken it: the
  error path has an unlock and no lock.
\<close>

lemma device_open_out_of_range:
  assumes "dev_inv d" and "fuse_interface_available d" and "u < 0 \<or> 24 \<le> u"
  shows "fuse_device_open k u cred pid rnd d = BadAccess"
  using assms by (auto simp: fuse_device_open_def FUSE_DEVICE_GLOBAL_UNLOCK_def dev_inv_def MACFUSE_NDEVICES_def)

lemma device_open_out_of_range_witness:
  "fuse_device_open sample_kenv 24 sample_cred 77 42 sample_devices = BadAccess"
  by (rule device_open_out_of_range [OF dev_inv_sample]) simp

section \<open>Answers into a caller's buffer\<close>

lemma uiomove_in_prefix:
  assumes "uiomove_in_ok um" "um (int n) bs = (e, c, r)"
  shows "c @ r = bs" "length c \<le> n"
proof -
  have "0 \<le> int n \<longrightarrow> um (int n) bs = (e, c, r) \<longrightarrow>
      c @ r = bs \<and> int (length c) \<le> int n \<and> (e = 0 \<longrightarrow> length c = min (nat (int n)) (length bs))"
    using assms(1) unfolding uiomove_in_ok_def by blast
  then show "c @ r = bs" "length c \<le> n" using assms(2) by auto
qed

text \<open>
  C32: the answer to a read that goes straight into the caller's buffer cannot overrun it. Whatever
  the daemon sends, and however the copy ends, the audit bounds it by the size that was asked for,
  so if the caller's buffer has that size nothing past its end is written and it keeps its size.
\<close>

theorem read_answer_in_bounds:
  assumes "uiomove_in_ok (k_uiomove_in k)" and "heap s t = Some tk" and "tk_aw_type tk = FT_A_BUF"
    and "tk_aw_bufdata tk = Some b" and "fticket_opcode tk \<in> {Some FUSE_READ, Some FUSE_READDIR}"
    and "field_at 56 4 (base (tk_ms_fiov tk)) \<le> length b" and "length body < 2147483648"
  shows "\<exists>e s' tk' b'. fticket_pull k t body s = Done (e, s') \<and> heap s' t = Some tk' \<and>
    tk_aw_bufdata tk' = Some b' \<and> length b' = length b"
proof -
  let ?stay = "Done (0, s)"
  have id: "\<exists>e s' tk' b'. Done (x, s) = Done (e, s') \<and> heap s' t = Some tk' \<and>
    tk_aw_bufdata tk' = Some b' \<and> length b' = length b" for x using assms(2,4) by auto
  have pull: "\<exists>e s' tk' b'. fticket_aw_pull_uio k t body s = Done (e, s') \<and> heap s' t = Some tk' \<and>
    tk_aw_bufdata tk' = Some b' \<and> length b' = length b" if fits: "length body \<le> length b"
  proof (cases "body = []")
    case True
    then show ?thesis using assms(2) id [of 0] by (simp add: fticket_aw_pull_uio_def ticketI)
  next
    case False
    obtain e c r where u: "k_uiomove_in k (int (length body)) body = (e, c, r)"
      by (cases "k_uiomove_in k (int (length body)) body") auto
    then have "length c \<le> length b" using uiomove_in_prefix [OF assms(1) u] fits by simp
    then show ?thesis
      using False assms(2-4,7) u by (simp add: fticket_aw_pull_uio_def ticketI)
  qed
  show ?thesis
  proof (cases "oh_error (tk_aw_ohead tk) \<noteq> 0")
    case True
    then show ?thesis using assms(2) id [of 0] by (simp add: fticket_pull_def ticketI)
  next
    case False
    show ?thesis
    proof (cases "fdata_dead_get s")
      case True
      then have "fuse_body_audit s tk (length body) = Done ENOTCONN" by (simp add: fuse_body_audit_def)
      then show ?thesis using assms(2) False id [of ENOTCONN] by (simp add: fticket_pull_def ticketI)
    next
      case live: False
      obtain op where op: "fticket_opcode tk = Some op" "op \<in> {FUSE_READ, FUSE_READDIR}"
        using assms(5) by auto
      then have "fuse_body_audit s tk (length body) =
          Done (if length body \<le> field_at 56 4 (base (tk_ms_fiov tk)) then 0 else EINVAL)"
        using fuse_body_audit_eq [OF live op(1)] by (auto simp: never_answered_def body_fits_def)
      then show ?thesis
        using assms(2,6) False pull id [of EINVAL] by (auto simp: fticket_pull_def ticketI)
    qed
  qed
qed

definition sample_read_ticket :: fuse_ticket where
  "sample_read_ticket = sample_ticket\<lparr>tk_ms_fiov :=
     \<lparr>base = encode_in_header (request_header sample_kenv 0 1 FUSE_READ 24 None 0) @
             le_bytes 8 0 @ le_bytes 8 0 @ le_bytes 4 4 @ replicate 100 0,
      len = 64, allocated_size = 160, credit = 16\<rparr>,
     tk_aw_type := FT_A_BUF, tk_aw_bufdata := Some [0, 0, 0, 0]\<rparr>"

theorem read_answer_in_bounds_witness:
  "\<exists>e s' tk' b'. fticket_pull sample_kenv 0 [1, 2, 3, 4, 5]
      (put_ticket 0 sample_read_ticket sample_busy) = Done (e, s') \<and> heap s' 0 = Some tk' \<and>
    tk_aw_bufdata tk' = Some b' \<and> length b' = 4"
proof -
  let ?b = "base (tk_ms_fiov sample_read_ticket)"
  have b: "?b = encode_in_header (request_header sample_kenv 0 1 FUSE_READ 24 None 0) @
      le_bytes 8 0 @ le_bytes 8 0 @ le_bytes 4 4 @ replicate 100 0"
    by (simp only: sample_read_ticket_def) simp
  have f: "field_at 56 4 ?b = 4" unfolding b by (simp add: field_at_def del: le_bytes.simps)
      (simp add: le_value_bytes)
  have "decode_in_header ?b = request_header sample_kenv 0 1 FUSE_READ 24 None 0"
    unfolding b by (rule decode_encode_in_header)
  then have op: "fticket_opcode sample_read_ticket = Some FUSE_READ"
    by (intro fticket_opcode_header) (simp_all add: request_header_def Let_def b)
  have um: "uiomove_in_ok (k_uiomove_in sample_kenv)" using kenv_ok_sample by (simp add: kenv_ok_def)
  have ft: "tk_aw_type sample_read_ticket = FT_A_BUF" "tk_aw_bufdata sample_read_ticket = Some [0, 0, 0, 0]"
    by (simp_all add: sample_read_ticket_def)
  obtain e s' tk' b' where "fticket_pull sample_kenv 0 [1, 2, 3, 4, 5]
      (put_ticket 0 sample_read_ticket sample_busy) = Done (e, s')" "heap s' 0 = Some tk'"
    "tk_aw_bufdata tk' = Some b'" "length b' = length [0 :: u8, 0, 0, 0]"
    using read_answer_in_bounds [OF um, of "put_ticket 0 sample_read_ticket sample_busy" 0 sample_read_ticket
      "[0, 0, 0, 0]" "[1, 2, 3, 4, 5]"] f op ft by auto
  then show ?thesis by auto
qed

section \<open>What goes wrong\<close>

text \<open>
  C36: a request that times out leaves a dangling pointer. When the wait for an answer times out and
  the alert panel cannot be shown (it is compiled out), the requester declares the session dead and
  drops its ticket, but the ticket stays on the answer queue and on the message queue. The queue
  invariant is broken: the queues now hold a ticket that is on the free list or freed.
\<close>

theorem timeout_leaves_ticket_queued:
  assumes "kenv_ok k" and "pool_inv s" and "queues_ok s" and "in_use s t" and "heap s t = Some tk"
    and "tk_flag tk = 0" and "\<not> fdata_dead_get s" and "fd_tick fd = Some t"
    and "timeout_status s = FUSE_DAEMON_TIMEOUT_NONE"
    and "w_gap w = id" and "w_sleeps w = [(\<lambda>s. (EAGAIN, s), None)]"
  shows "\<exists>fd' s'. fdisp_wait_answ k w fd s = Done (Some ENOTCONN, fd', s') \<and> \<not> in_use s' t \<and>
    t \<in> set (aw_head s') \<and> t \<in> set (ms_head s') \<and> \<not> queues_ok s'"
proof -
  let ?tk2 = "tk\<lparr>tk_aw_handler := Some fuse_standard_handler_fn, tk_flag := FT_DIRTY\<rparr>"
  let ?s2 = "event Wakeup_one_data (fuse_ms_push t (put_ticket t ?tk2 (fuse_aw_push t s)))"
  obtain s1 where i: "fuse_insert_callback t (Some fuse_standard_handler_fn) s = Done s1"
    "fuse_insert_message t s1 = Done ?s2" using insert_both [OF assms(5-7)] by blast
  let ?s3 = "fdata_set_dead (?s2\<lparr>timeout_status := FUSE_DAEMON_TIMEOUT_DEAD\<rparr>)"
  let ?s4 = "put_ticket t (fticket_set_answered ?tk2) ?s3"
  have wf: "ticket_wf tk" using assms(2,5) by (auto simp: pool_inv_def)
  have t2: "ticket ?s2 t = Done ?tk2" "ticket ?s3 t = Done ?tk2" by (simp_all add: ticket_def fuse_ms_push_def)
  have na: "\<not> fticket_answered ?tk2" "fticket_answered (fticket_set_answered ?tk2)"
    by (simp_all add: fticket_answered_def fticket_set_answered_def flag_simps)
  have nd: "\<not> fdata_dead_get ?s2" "\<not> fdata_dead_get (?s2\<lparr>timeout_status := x\<rparr>)" for x
    using assms(7) by (simp_all add: fdata_dead_get_def fuse_ms_push_def fuse_aw_push_def)
  have ts: "timeout_status ?s2 = FUSE_DAEMON_TIMEOUT_NONE"
    using assms(9) by (simp add: fuse_ms_push_def fuse_aw_push_def)
  have wa: "fticket_wait_answer k (w_sleeps w) t ?s2 = Done (Some ENOTCONN, ?s4)"
    using assms(11) t2 na nd ts
    by (simp add: fticket_wait_answer_def wait_alreadydead_def upd_ticket_def Let_def)
  have "pool_inv (put_ticket t ?tk2 (fuse_aw_push t s))"
    by (rule pool_inv_put_ticket [where tk = tk])
      (use assms(2,4,5) wf in \<open>simp_all add: fuse_aw_push_def ticket_wf_def\<close>)
  then have "pool_inv ?s3" by (simp add: fuse_ms_push_def)
  moreover have u3: "in_use ?s3 t" using assms(4) by (simp add: fuse_ms_push_def fuse_aw_push_def)
  ultimately have inv4: "pool_inv ?s4"
    by (rule pool_inv_put_ticket [where tk = ?tk2])
      (use wf in \<open>simp_all add: fuse_ms_push_def fticket_set_answered_def ticket_wf_def\<close>)
  have osm: "osm_ok (k_osm k)" "osm_total (k_osm k)" using assms(1) by (simp_all add: kenv_ok_def)
  have u4: "in_use ?s4 t" using u3 by simp
  obtain s' where d: "fuse_ticket_drop (k_tun k) (k_osm k) t ?s4 = Done s'" "\<not> in_use s' t" "pool_frame t ?s4 s'"
    using fuse_ticket_drop_inv [OF inv4 u4 osm] by blast
  have "fdisp_wait_answ k w fd s = Done (Some ENOTCONN, fd\<lparr>fd_answ_stat := 0\<rparr>, s')"
    using assms(8,10) i wa na d(1) by (simp add: fdisp_wait_answ_def ticketI)
  moreover have "t \<in> set (aw_head s')" "t \<in> set (ms_head s')"
    using pool_frame_fields(1,2) [OF d(3)] by (simp_all add: fuse_ms_push_def fuse_aw_push_def)
  ultimately show ?thesis using d(2) by (auto simp: queues_ok_def)
qed


theorem timeout_leaves_ticket_queued_witness:
  "\<exists>s fd fd' s' t. queues_ok s \<and>
     fdisp_wait_answ sample_kenv \<lparr>w_gap = id, w_sleeps = [(\<lambda>s. (EAGAIN, s), None)], w_race = id\<rparr> fd s =
       Done (Some ENOTCONN, fd', s') \<and> t \<in> set (aw_head s') \<and> \<not> queues_ok s'"
proof -
  let ?w = "\<lparr>w_gap = id, w_sleeps = [(\<lambda>s. (EAGAIN, s), None)], w_race = id\<rparr>"
  let ?tk = "sample_ticket\<lparr>tk_flag := 0\<rparr>"
  let ?s = "(put_ticket 0 ?tk sample_busy)\<lparr>aw_head := []\<rparr>"
  let ?fd = "fdisp_uninit\<lparr>fd_tick := Some 0\<rparr>"
  have "ticket_wf ?tk" by (simp add: ticket_wf_def fiov_wf_def sample_ticket_def new_ticket_def)
  then have "pool_inv (put_ticket 0 ?tk sample_busy)"
    by (intro pool_inv_put_ticket [OF sample_busy_inv(1) _ sample_busy_fields(1)]) simp_all
  then have i: "pool_inv ?s" "queues_ok ?s" "in_use ?s 0" by (simp_all add: queues_ok_def)
  have "\<not> fdata_dead_get ?s" "timeout_status ?s = FUSE_DAEMON_TIMEOUT_NONE"
    by (simp_all add: fdata_dead_get_def has_flag_def FSESS_DEAD_def FSESS_INITED_def)
      (simp add: sample_busy_def sample_session_def fdata_fresh_def)
  then have "\<exists>fd' s'. fdisp_wait_answ sample_kenv ?w ?fd ?s = Done (Some ENOTCONN, fd', s') \<and>
      \<not> in_use s' 0 \<and> 0 \<in> set (aw_head s') \<and> 0 \<in> set (ms_head s') \<and> \<not> queues_ok s'"
    by (intro timeout_leaves_ticket_queued [OF kenv_ok_sample i, of ?tk]) simp_all
  then show ?thesis using i(2) by blast
qed

lemma sizeof_small_requests [simp]:
  "sizeof 8 fuse_forget_in = 8" "sizeof 8 fuse_interrupt_in = 8"
  by (simp_all add: layout_eval)

lemma read_message:
  assumes um: "uiomove_out_ok (k_uiomove_out k)" "uiomove_out_total (k_uiomove_out k)"
    and ty: "tk_ms_type tk = FT_M_FIOV" and wf: "fiov_wf (tk_ms_fiov tk)"
    and sz: "len (tk_ms_fiov tk) < 2147483648" "len (tk_ms_fiov tk) \<le> uio_resid u"
  shows "copy_out k (message_bufs tk) u s =
    Done (0, u\<lparr>uio_resid := uio_resid u - len (tk_ms_fiov tk),
               uio_out := uio_out u @ take (len (tk_ms_fiov tk)) (base (tk_ms_fiov tk))\<rparr>, s)"
proof -
  let ?n = "len (tk_ms_fiov tk)" and ?b = "base (tk_ms_fiov tk)"
  have b: "?n \<le> length ?b" using wf by (simp add: fiov_wf_def)
  obtain u' where u: "k_uiomove_out k (int ?n) ?b u = (0, u')"
    using um(2) unfolding uiomove_out_total_def by (metis prod.collapse)
  then have "u' = u\<lparr>uio_resid := uio_resid u - ?n, uio_out := uio_out u @ take ?n ?b\<rparr>"
    using um(1) b sz(2) unfolding uiomove_out_ok_def by (metis nat_int of_nat_0_le_iff)
  then show ?thesis using ty b u sz by (simp add: message_bufs_def)
qed

text \<open>A message that wants no answer, as it stands on the queue.\<close>

lemma forget_send_ok:
  assumes k: "kenv_ok k" and s: "session_ready s"
  shows "\<exists>t fd s' tk pad. fuse_internal_forget_send k context nodeid nlookup fd0 s = Done (fd, s') \<and>
    \<not> in_use s t \<and> in_use s' t \<and> ms_head s' = ms_head s @ [t] \<and> aw_head s' = aw_head s \<and>
    pool_inv s' \<and> queues_ok s' \<and> dataflags s' = dataflags s \<and> heap s' t = Some tk \<and>
    has_flag (tk_flag tk) FT_INVAL \<and> \<not> fticket_answered tk \<and> tk_ms_type tk = FT_M_FIOV \<and>
    len (tk_ms_fiov tk) = 48 \<and>
    decode_in_header (base (tk_ms_fiov tk)) = request_header k (tk_unique tk) nodeid FUSE_FORGET 8 context pad \<and>
    field_at 40 8 (base (tk_ms_fiov tk)) = unat nlookup \<and>
    (\<forall>v. v \<noteq> t \<longrightarrow> in_use s' v = in_use s v \<and> heap s' v = heap s v)"
proof -
  have osm: "osm_ok (k_osm k)" "osm_total (k_osm k)" and lim: "fuse_max_tickets (k_tun k) = 0"
    using k by (auto simp: kenv_ok_def)
  have inv: "pool_inv s" "queues_ok s" "\<not> fdata_dead_get s" "has_flag (dataflags s) FSESS_INITED"
    "unat (ticketer s) < 18446744073709551615" using s by (auto simp: session_ready_def)
  let ?fd = "fdisp_init fd0 8"
  have fd: "fd_tick ?fd = None" "fd_iosize ?fd = 8" by (simp_all add: fdisp_init_def)
  obtain t s1 tk pad where mk: "fdisp_make k ?fd FUSE_FORGET nodeid context s =
      Done (?fd\<lparr>fd_tick := Some t, fd_finh := Some (t, 0), fd_indata := Some (t, 40)\<rparr>, s1)"
    and i: "pool_inv s1" "in_use s1 t" "\<not> in_use s t" "pool_frame t s s1"
      "\<forall>v. v \<noteq> t \<longrightarrow> in_use s1 v = in_use s v" "heap s1 t = Some tk" "ticket_clean tk"
      "len (tk_ms_fiov tk) = 48"
      "decode_in_header (base (tk_ms_fiov tk)) = request_header k (tk_unique tk) nodeid FUSE_FORGET 8 context pad"
    using fdisp_make_ok [OF inv(1) osm inv(5,4) lim fd(1), of FUSE_FORGET nodeid "context"] fd(2) by auto
  let ?b = "base (tk_ms_fiov tk)"
  let ?b' = "write_at 40 (le_bytes 8 (unat nlookup)) ?b"
  let ?f = "(tk_ms_fiov tk)\<lparr>base := ?b'\<rparr>"
  let ?tk1 = "tk\<lparr>tk_ms_fiov := ?f\<rparr>"
  let ?tk2 = "tk\<lparr>tk_ms_fiov := ?f, tk_flag := set_flag FT_INVAL FT_DIRTY\<rparr>"
  let ?s' = "event Wakeup_one_data (fuse_ms_push t (put_ticket t ?tk2 s1))"
  have wf: "ticket_wf tk" using i by (auto simp: pool_inv_def)
  then have lb: "48 \<le> length ?b" using i(8) by (auto simp: ticket_wf_def fiov_wf_def)
  have fl: "tk_flag tk = 0" "tk_ms_type tk = FT_M_FIOV"
    using i(7) by (simp_all add: ticket_clean_def)
  have nd: "\<not> fdata_dead_get s1" using inv(3) pool_frame_fields(3) [OF i(4)] by (simp add: fdata_dead_get_def)
  have r: "fuse_internal_forget_send k context nodeid nlookup fd0 s =
      Done (?fd\<lparr>fd_tick := Some t, fd_finh := Some (t, 0), fd_indata := Some (t, 40)\<rparr>, ?s')"
    using mk i(6) lb fl nd
    by (simp add: fuse_internal_forget_send_def write_indata_def ticket_def upd_ticket_def
        fticket_invalidate_def fuse_insert_message_def fdata_dead_get_def put_ticket_def set_flag_def
        has_flag_def FT_INVAL_def FT_DIRTY_def)
  have "pool_inv (put_ticket t ?tk2 s1)"
    by (rule pool_inv_put_ticket [where tk = tk])
      (use i wf lb in \<open>simp_all add: ticket_wf_def fiov_wf_def\<close>)
  then have p: "pool_inv ?s'" by (simp add: fuse_ms_push_def)
  have q: "ms_head ?s' = ms_head s @ [t]" "aw_head ?s' = aw_head s" "in_use ?s' = in_use s1"
    using pool_frame_fields(1,2) [OF i(4)] by (simp_all add: fuse_ms_push_def)
  have "queues_ok ?s'"
    using inv(2) q i(2,3,5) by (auto simp: queues_ok_def)
  moreover have "decode_in_header ?b' = decode_in_header ?b"
    using lb decode_in_header_take [of 40 ?b'] decode_in_header_take [of 40 ?b]
    by (simp add: write_at_def)
  moreover have "field_at 40 8 ?b' = unat nlookup"
    using lb le_value_word64 [of nlookup] by (simp add: field_at_def write_at_def del: le_bytes.simps)
  ultimately show ?thesis
    using r p q i pool_frame_fields(3,10) [OF i(4)]
    by (intro exI [where x = t] exI [where x = "?fd\<lparr>fd_tick := Some t, fd_finh := Some (t, 0), fd_indata := Some (t, 40)\<rparr>"]
        exI [where x = ?s'] exI [where x = ?tk2] exI [where x = pad])
      (simp add: fuse_ms_push_def fticket_answered_def fl(2) flag_simps)
qed

text \<open>
  A forget is sent and cleaned up without an answer. It appends one message to the queue, with
  the node and the lookup count, in a fresh ticket that nobody waits for; when a daemon with an
  empty queue ahead of it reads that message, the ticket goes straight back to the pool, and no
  other ticket has changed.
\<close>

lemma forget_is_dropped_when_read:
  assumes "kenv_ok k" and "session_ready s" and "ms_head s = []" and "48 \<le> uio_resid u"
  shows "\<exists>t fd s1 s2 tk u2. fuse_internal_forget_send k context nodeid nlookup fd0 s = Done (fd, s1) \<and>
    ms_head s1 = [t] \<and> heap s1 t = Some tk \<and>
    fuse_device_read k nb sleeps id u s1 = Done ((Some 0, u2), s2) \<and>
    uio_out u2 = uio_out u @ take 48 (base (tk_ms_fiov tk)) \<and>
    field_at 40 8 (base (tk_ms_fiov tk)) = unat nlookup \<and>
    pool_inv s2 \<and> queues_ok s2 \<and> ms_head s2 = [] \<and> aw_head s2 = aw_head s \<and> in_use s2 = in_use s \<and>
    (\<forall>v. in_use s v \<longrightarrow> heap s2 v = heap s v)"
proof -
  obtain t fd s1 tk where f: "fuse_internal_forget_send k context nodeid nlookup fd0 s = Done (fd, s1)"
    "\<not> in_use s t" "in_use s1 t" "ms_head s1 = ms_head s @ [t]" "aw_head s1 = aw_head s" "pool_inv s1"
    "queues_ok s1" "dataflags s1 = dataflags s" "heap s1 t = Some tk" "has_flag (tk_flag tk) FT_INVAL"
    "len (tk_ms_fiov tk) = 48" "field_at 40 8 (base (tk_ms_fiov tk)) = unat nlookup"
    "\<forall>v. v \<noteq> t \<longrightarrow> in_use s1 v = in_use s v \<and> heap s1 v = heap s v"
    "tk_ms_type tk = FT_M_FIOV" "\<not> fticket_answered tk"
    using forget_send_ok [OF assms(1,2), of "context" nodeid nlookup fd0] by blast
  have um: "uiomove_out_ok (k_uiomove_out k)" "uiomove_out_total (k_uiomove_out k)"
    using assms(1) by (simp_all add: kenv_ok_def)
  let ?b = "base (tk_ms_fiov tk)"
  let ?u = "u\<lparr>uio_resid := uio_resid u - 48, uio_out := uio_out u @ take 48 ?b\<rparr>"
  let ?s1 = "s1\<lparr>ms_head := []\<rparr>"
  have wf: "fiov_wf (tk_ms_fiov tk)" using f(6,9) by (auto simp: pool_inv_def ticket_wf_def)
  have nd: "\<not> fdata_dead_get ?s1" "\<not> fdata_dead_get s1"
    using assms(2) f(8) by (simp_all add: session_ready_def fdata_dead_get_def)
  have q: "ms_head s1 = [t]" using f(4) assms(3) by simp
  have "t \<notin> set (aw_head s)" using assms(2) f(2) by (auto simp: session_ready_def queues_ok_def)
  then have "pool_inv ?s1" "queues_ok ?s1" "in_use ?s1 t" "t \<notin> set (ms_head ?s1)" "t \<notin> set (aw_head ?s1)"
    using f(3,5,6,7) by (auto simp: queues_ok_def)
  then obtain s2 where d: "fuse_ticket_drop (k_tun k) (k_osm k) t ?s1 = Done s2" "pool_inv s2"
    "queues_ok s2" "\<not> in_use s2 t" "pool_frame t ?s1 s2" "\<forall>v. v \<noteq> t \<longrightarrow> in_use s2 v = in_use ?s1 v"
    using drop_unqueued [OF assms(1)] by blast
  have "fuse_device_read k nb sleeps id u s1 = Done ((Some 0, ?u), s2)"
    using nd q f(9,10,11,14,15) wf um assms(4) d(1) read_message [of k tk u ?s1]
    by (simp add: fuse_device_read_def read_wait.simps fuse_ms_pop_def ticket_def
        fuse_ticket_drop_invalid_def uiomove_out_total_def)
  moreover have "in_use s2 = in_use s"
  proof
    fix v show "in_use s2 v = in_use s v" using d(4,6) f(2,13) by (cases "v = t") auto
  qed
  moreover have "heap s2 v = heap s v" if "in_use s v" for v
  proof -
    have "v \<noteq> t" using that f(2) by auto
    then show ?thesis using pool_frame_fields(10) [OF d(5), of v] f(13) by simp
  qed
  ultimately show ?thesis
    using f q d pool_frame_fields(1,2) [OF d(5)]
    by (intro exI [where x = t] exI [where x = fd] exI [where x = s1] exI [where x = s2]
        exI [where x = tk] exI [where x = ?u]) simp
qed


lemma forget_is_dropped_when_read_witness:
  "\<exists>fd s1 s2 u2. fuse_internal_forget_send sample_kenv None 9 3 fdisp_uninit sample_session = Done (fd, s1) \<and>
     fuse_device_read sample_kenv True [] id \<lparr>uio_resid = 100, uio_out = []\<rparr> s1 = Done ((Some 0, u2), s2) \<and>
     in_use s2 = in_use sample_session"
  using forget_is_dropped_when_read [OF kenv_ok_sample session_ready_sample,
      of "\<lparr>uio_resid = 100, uio_out = []\<rparr>" None 9 3 fdisp_uninit True "[]"] by auto

text \<open>
  the callback that forgets a node after a release loses its own ticket. It means to reuse
  the ticket whose answer just came, but \<^verbatim>\<open>fdisp_init\<close> clears the dispatcher's ticket
  and a fresh one is fetched: the old ticket stays in use for ever, on no queue, with nobody left
  who could drop it.
\<close>

lemma forget_callback_leaks_ticket:
  assumes "kenv_ok k" and "session_ready s" and "in_use s t"
    and "t \<notin> set (ms_head s)" and "t \<notin> set (aw_head s)"
  shows "\<exists>s'. fuse_internal_forget_callback k t body s = Done (0, s') \<and> in_use s' t \<and>
    t \<notin> set (ms_head s') \<and> t \<notin> set (aw_head s')"
proof -
  obtain tk where tk: "ticket s t = Done tk"
    using in_use_ticket assms(2,3) by (auto simp: session_ready_def)
  obtain t' fd s' where f: "fuse_internal_forget_send k None
      (word_of_nat (field_at 16 8 (base (tk_ms_fiov tk)))) 1 (fdisp_uninit\<lparr>fd_tick := Some t\<rparr>) s = Done (fd, s')"
    "\<not> in_use s t'" "ms_head s' = ms_head s @ [t']" "aw_head s' = aw_head s"
    "\<forall>v. v \<noteq> t' \<longrightarrow> in_use s' v = in_use s v \<and> heap s' v = heap s v"
    using forget_send_ok [OF assms(1,2)] by blast
  then have "t \<noteq> t'" using assms(3) by auto
  then show ?thesis using f tk assms(3-5) by (auto simp: fuse_internal_forget_callback_def)
qed

lemma forget_callback_leaks_ticket_witness:
  "\<exists>s'. fuse_internal_forget_callback sample_kenv 0 [] (sample_busy\<lparr>aw_head := []\<rparr>) = Done (0, s') \<and>
     in_use s' 0 \<and> 0 \<notin> set (ms_head s') \<and> 0 \<notin> set (aw_head s')"
proof (rule forget_callback_leaks_ticket [OF kenv_ok_sample])
  have "ticketer sample_busy = 1" by (simp add: sample_busy_def)
  then show "session_ready (sample_busy\<lparr>aw_head := []\<rparr>)"
    using sample_busy_inv
    by (simp add: session_ready_def queues_ok_def fdata_dead_get_def has_flag_def FSESS_DEAD_def
        FSESS_INITED_def)
qed simp_all

end
