(* ===== verification/Fuse_Nodehash.thy ===== *)
theory Fuse_Nodehash
  imports Fuse_Iov
begin

text \<open>
  The table of nodes (\<^verbatim>\<open>fuse_nodehash.c\<close>): every object of a mounted volume has one
  \<^verbatim>\<open>HNode\<close>, found by device and inode number, which holds the vnodes of its forks and is
  reference-counted by them.

  A node is an address into \<open>hheap\<close>; a hash chain is the list of the addresses linked on it, and
  the array \<^verbatim>\<open>forkVNodes\<close> is a list, whether it lives inside the node or in a buffer of
  its own. Code under the hash mutex is one step; where the code drops the mutex, other threads
  run, which an element of the list of gaps describes: what they do to the table, and what
  \<^verbatim>\<open>vnode_getwithvid\<close> answers afterwards. The kernel's vnodes are numbers; what the
  kernel records for a vnode on behalf of the table is kept in \<open>vn_fsnode\<close> and \<open>vn_fsref\<close>.
  The assertions of the source are compiled out of the release build and are not modelled. A
  counter that the code would let wrap below zero is negative here, and is as different from zero.
\<close>

section \<open>Data\<close>

type_synonym hid = nat

record hnode =
  h_magic :: u32
  h_dev :: u64
  h_ino :: u64
  attachOutstanding :: bool
  waiting :: bool
  forkVNodes :: "vnode option list"
  forkVNodesCount :: int

abbreviation forkVNodesSize :: "hnode \<Rightarrow> nat" where
  "forkVNodesSize h \<equiv> length (forkVNodes h)"

record hstate =
  gMagic :: u32
  gFSNodeSize :: nat
  gHashMutex :: bool
  gHashTable :: "hid list list option"
  gHashNodeCount :: int
  hheap :: "hid \<Rightarrow> hnode option"
  hbrk :: hid
  hcnt :: fuse_counters
  hwakeups :: "hid list"
  vn_fsnode :: "vnode \<Rightarrow> hid option"
  vn_fsref :: "vnode \<Rightarrow> bool"

definition sizeof_HNode :: nat where "sizeof_HNode = 88"
definition sizeof_vnode_t :: nat where "sizeof_vnode_t = 8"

definition hnode_at :: "hstate \<Rightarrow> hid \<Rightarrow> hnode outcome" where
  "hnode_at T n = of_option (hheap T n)"

definition put_hnode :: "hid \<Rightarrow> hnode \<Rightarrow> hstate \<Rightarrow> hstate" where
  "put_hnode n h T = T\<lparr>hheap := (hheap T)(n := Some h)\<rparr>"

section \<open>The hash table\<close>

text \<open>\<^verbatim>\<open>hashinit\<close> makes a power of two of chains; the mask is their number less one.\<close>

definition bucket_of :: "nat \<Rightarrow> u64 \<Rightarrow> u64 \<Rightarrow> nat" where
  "bucket_of buckets dev ino = unat ((dev + ino) AND word_of_nat (buckets - 1))"

definition HNodeGetFirstFromHashTable :: "hid list list \<Rightarrow> u64 \<Rightarrow> u64 \<Rightarrow> nat" where
  "HNodeGetFirstFromHashTable tab dev ino = bucket_of (length tab) dev ino"

fun chain_find :: "(hid \<Rightarrow> hnode option) \<Rightarrow> u64 \<Rightarrow> u64 \<Rightarrow> hid list \<Rightarrow> hid option outcome" where
  "chain_find hp dev ino [] = Done None"
| "chain_find hp dev ino (n # ns) =
     bind_outcome (of_option (hp n)) (\<lambda>h.
       if h_dev h = dev \<and> h_ino h = ino then Done (Some n) else chain_find hp dev ino ns)"

definition HNodeFind :: "hstate \<Rightarrow> u64 \<Rightarrow> u64 \<Rightarrow> hid option outcome" where
  "HNodeFind T dev ino =
     bind_outcome (of_option (gHashTable T)) (\<lambda>tab.
       chain_find (hheap T) dev ino (tab ! HNodeGetFirstFromHashTable tab dev ino))"

definition chain_insert :: "u64 \<Rightarrow> u64 \<Rightarrow> hid \<Rightarrow> hstate \<Rightarrow> hstate outcome" where
  "chain_insert dev ino n T =
     bind_outcome (of_option (gHashTable T)) (\<lambda>tab.
       let i = HNodeGetFirstFromHashTable tab dev ino
       in Done (T\<lparr>gHashTable := Some (tab[i := n # tab ! i])\<rparr>))"

text \<open>Unlinking a node from the chain it is on.\<close>

definition chain_remove :: "hid \<Rightarrow> hstate \<Rightarrow> hstate outcome" where
  "chain_remove n T =
     bind_outcome (of_option (gHashTable T)) (\<lambda>tab.
       Done (T\<lparr>gHashTable := Some (map (remove1 n) tab)\<rparr>))"

definition HNodeTerm :: "hstate \<Rightarrow> hstate" where
  "HNodeTerm T = T\<lparr>gHashTable := None, gHashMutex := False, gFSNodeSize := 0, gMagic := 0\<rparr>"

text \<open>\<open>mtx\<close> says whether the mutex could be allocated, \<open>buckets\<close> what \<^verbatim>\<open>hashinit\<close> made.\<close>

definition HNodeInit :: "bool \<Rightarrow> nat option \<Rightarrow> u32 \<Rightarrow> nat \<Rightarrow> hstate \<Rightarrow> errno \<times> hstate" where
  "HNodeInit mtx buckets magic fsNodeSize T =
     (let T1 = T\<lparr>gMagic := magic, gFSNodeSize := fsNodeSize, gHashMutex := mtx,
                 gHashTable := map_option (\<lambda>n. replicate n []) buckets\<rparr>
      in if \<not> mtx \<or> buckets = None then (ENOMEM, HNodeTerm T1) else (0, T1))"

section \<open>Access\<close>

definition HNodeFromVNode :: "hstate \<Rightarrow> vnode \<Rightarrow> hid option" where
  "HNodeFromVNode T vn = vn_fsnode T vn"

definition HNodeGetDevice :: "hstate \<Rightarrow> hid \<Rightarrow> u64 outcome" where
  "HNodeGetDevice T n = bind_outcome (hnode_at T n) (\<lambda>h. Done (h_dev h))"

definition HNodeGetInodeNumber :: "hstate \<Rightarrow> hid \<Rightarrow> u64 outcome" where
  "HNodeGetInodeNumber T n = bind_outcome (hnode_at T n) (\<lambda>h. Done (h_ino h))"

definition HNodeGetVNodeForForkAtIndex :: "hstate \<Rightarrow> hid \<Rightarrow> nat \<Rightarrow> vnode option outcome" where
  "HNodeGetVNodeForForkAtIndex T n forkIndex =
     bind_outcome (hnode_at T n) (\<lambda>h.
       if forkIndex < forkVNodesSize h then Done (forkVNodes h ! forkIndex) else BadAccess)"

text \<open>The index of the first fork with this vnode, or the size of the array if there is none.\<close>

fun fork_index :: "vnode \<Rightarrow> vnode option list \<Rightarrow> nat" where
  "fork_index vn [] = 0"
| "fork_index vn (x # xs) = (if x = Some vn then 0 else Suc (fork_index vn xs))"

definition HNodeGetForkIndexForVNode :: "hstate \<Rightarrow> vnode \<Rightarrow> nat outcome" where
  "HNodeGetForkIndexForVNode T vn =
     bind_outcome (of_option (HNodeFromVNode T vn)) (\<lambda>n.
     bind_outcome (hnode_at T n) (\<lambda>h. Done (fork_index vn (forkVNodes h))))"

section \<open>Lookup\<close>

record hgap =
  g_run :: "hstate \<Rightarrow> hstate"
  g_getwithvid :: "vnode \<Rightarrow> errno"

text \<open>The zeroed node for a new object, with room for its fork, and its allocation.\<close>

definition new_hnode :: "u32 \<Rightarrow> u64 \<Rightarrow> u64 \<Rightarrow> nat \<Rightarrow> hnode" where
  "new_hnode magic dev ino forkIndex =
     \<lparr>h_magic = magic, h_dev = dev, h_ino = ino, attachOutstanding = False, waiting = False,
      forkVNodes = replicate (forkIndex + 1) None, forkVNodesCount = 0\<rparr>"

definition alloc_hnode ::
    "osmalloc \<Rightarrow> u64 \<Rightarrow> u64 \<Rightarrow> nat \<Rightarrow> hstate \<Rightarrow> (hnode \<times> hstate) outcome" where
  "alloc_hnode osm dev ino forkIndex T =
     bind_outcome (FUSE_OSMalloc osm (sizeof_HNode + gFSNodeSize T) (hcnt T)) (\<lambda>(_, g1).
     bind_outcome
       (if forkIndex = 0 then Done g1
        else bind_outcome (FUSE_OSMalloc osm (sizeof_vnode_t * (forkIndex + 1)) g1) (\<lambda>(_, g). Done g))
       (\<lambda>g2. Done (new_hnode (gMagic T) dev ino forkIndex, T\<lparr>hcnt := g2\<rparr>)))"

text \<open>Installing a larger array of forks in a node; only an array of its own is freed.\<close>

definition grow_forks :: "hid \<Rightarrow> hnode \<Rightarrow> nat \<Rightarrow> hstate \<Rightarrow> hstate" where
  "grow_forks n h forkIndex T =
     (let T1 = put_hnode n
                 (h\<lparr>forkVNodes := forkVNodes h @ replicate (forkIndex + 1 - forkVNodesSize h) None\<rparr>) T
      in if forkVNodesSize h > 1
         then T1\<lparr>hcnt := FUSE_OSFree (sizeof_vnode_t * forkVNodesSize h) (hcnt T1)\<rparr> else T1)"

text \<open>
  What the end of the lookup frees: a buffer and a node that were allocated and not used. The
  node's own buffer of forks is not freed with it.
\<close>

definition lookup_cleanup :: "nat \<Rightarrow> hnode option \<Rightarrow> bool \<Rightarrow> hstate \<Rightarrow> hstate" where
  "lookup_cleanup forkIndex newNode newForkBuffer T =
     (let T1 = (if newForkBuffer
                then T\<lparr>hcnt := FUSE_OSFree (sizeof_vnode_t * (forkIndex + 1)) (hcnt T)\<rparr> else T)
      in case newNode of
           None \<Rightarrow> T1
         | Some _ \<Rightarrow> T1\<lparr>hcnt := FUSE_OSFree (sizeof_HNode + gFSNodeSize T1) (hcnt T1)\<rparr>)"

datatype lookup_step =
    Found hid "vnode option" "hnode option"
  | Again "hnode option" bool

text \<open>
  One round of the lookup. \<open>newNode\<close> and \<open>newForkBuffer\<close> are the node and the buffer allocated in
  earlier rounds; a buffer has the size that the fork index asks for. A node that is not linked yet
  is a value that no other thread can see; it gets its address when it is linked.
\<close>

definition lookup_check ::
    "osmalloc \<Rightarrow> nat \<Rightarrow> hgap \<Rightarrow> hnode option \<Rightarrow> bool \<Rightarrow> hid \<Rightarrow> hstate \<Rightarrow> (lookup_step \<times> hstate) outcome"
  where
  "lookup_check osm forkIndex g newNode newForkBuffer n T =
     bind_outcome (hnode_at T n) (\<lambda>h.
       if attachOutstanding h then
         Done (Again newNode newForkBuffer, g_run g (put_hnode n (h\<lparr>waiting := True\<rparr>) T))
       else if forkIndex \<ge> forkVNodesSize h then
         (if \<not> newForkBuffer then
            let T1 = g_run g T
            in bind_outcome (FUSE_OSMalloc osm (sizeof_vnode_t * (forkIndex + 1)) (hcnt T1)) (\<lambda>(_, c).
                 Done (Again newNode True, T1\<lparr>hcnt := c\<rparr>))
          else Done (Again newNode False, g_run g (grow_forks n h forkIndex T)))
       else (case forkVNodes h ! forkIndex of
           None \<Rightarrow>
             Done (Found n None newNode,
               put_hnode n (h\<lparr>attachOutstanding := True, forkVNodesCount := forkVNodesCount h + 1\<rparr>) T)
         | Some vn \<Rightarrow>
             let T1 = g_run g T
             in if g_getwithvid g vn = 0 then Done (Found n (Some vn) newNode, T1)
                else Done (Again newNode newForkBuffer, T1)))"

definition lookup_round ::
    "osmalloc \<Rightarrow> u64 \<Rightarrow> u64 \<Rightarrow> nat \<Rightarrow> hgap \<Rightarrow> hnode option \<Rightarrow> bool \<Rightarrow> hstate \<Rightarrow>
     (lookup_step \<times> hstate) outcome" where
  "lookup_round osm dev ino forkIndex g newNode newForkBuffer T =
     bind_outcome (HNodeFind T dev ino) (\<lambda>thisNode.
       case thisNode of
         Some n \<Rightarrow> lookup_check osm forkIndex g newNode newForkBuffer n T
       | None \<Rightarrow>
           (case newNode of
              None \<Rightarrow>
                bind_outcome (alloc_hnode osm dev ino forkIndex (g_run g T)) (\<lambda>(h, T1).
                  Done (Again (Some h) newForkBuffer, T1))
            | Some h \<Rightarrow>
                let n = hbrk T
                in bind_outcome (chain_insert dev ino n ((put_hnode n h T)\<lparr>hbrk := Suc n\<rparr>)) (\<lambda>T1.
                     lookup_check osm forkIndex g None newForkBuffer n
                       (T1\<lparr>gHashNodeCount := gHashNodeCount T1 + 1\<rparr>))))"

text \<open>
  The loop, one round for every gap of the list; \<open>None\<close> says that the lookup is still going on
  when the list is used up.
\<close>

fun lookup_loop ::
    "osmalloc \<Rightarrow> u64 \<Rightarrow> u64 \<Rightarrow> nat \<Rightarrow> hgap list \<Rightarrow> hnode option \<Rightarrow> bool \<Rightarrow> hstate \<Rightarrow>
     ((hid \<times> vnode option) option \<times> hstate) outcome" where
  "lookup_loop osm dev ino forkIndex [] newNode newForkBuffer T = Done (None, T)"
| "lookup_loop osm dev ino forkIndex (g # gs) newNode newForkBuffer T =
     bind_outcome (lookup_round osm dev ino forkIndex g newNode newForkBuffer T) (\<lambda>(st, T1).
       case st of
         Found n vn newNode1 \<Rightarrow>
           Done (Some (n, vn), lookup_cleanup forkIndex newNode1 newForkBuffer T1)
       | Again newNode1 newForkBuffer1 \<Rightarrow>
           lookup_loop osm dev ino forkIndex gs newNode1 newForkBuffer1 T1)"

definition HNodeLookupCreatingIfNecessary ::
    "osmalloc \<Rightarrow> hgap list \<Rightarrow> u64 \<Rightarrow> u64 \<Rightarrow> nat \<Rightarrow> hstate \<Rightarrow>
     ((hid \<times> vnode option) option \<times> hstate) outcome" where
  "HNodeLookupCreatingIfNecessary osm gaps dev ino forkIndex T =
     lookup_loop osm dev ino forkIndex gaps None False T"

definition HNodeLookupRealQuickIfExists ::
    "hgap \<Rightarrow> u64 \<Rightarrow> u64 \<Rightarrow> nat \<Rightarrow> hstate \<Rightarrow> (errno \<times> (hid \<times> vnode) option \<times> hstate) outcome" where
  "HNodeLookupRealQuickIfExists g dev ino forkIndex T =
     bind_outcome (HNodeFind T dev ino) (\<lambda>thisNode.
       case thisNode of
         None \<Rightarrow> Done (ENOENT, None, T)
       | Some n \<Rightarrow>
           bind_outcome (hnode_at T n) (\<lambda>h.
             if attachOutstanding h then Done (EAGAIN, None, T)
             else if forkIndex \<ge> forkVNodesSize h then Done (ENOENT, None, T)
             else (case forkVNodes h ! forkIndex of
                 None \<Rightarrow> Done (ENOENT, None, T)
               | Some vn \<Rightarrow>
                   let T1 = g_run g T
                   in if g_getwithvid g vn = 0 then Done (0, Some (n, vn), T1)
                      else Done (EAGAIN, None, T1))))"

section \<open>Attaching and detaching vnodes\<close>

definition HNodeAttachComplete :: "hid \<Rightarrow> hnode \<Rightarrow> hstate \<Rightarrow> hnode \<times> hstate" where
  "HNodeAttachComplete n h T =
     (let h1 = h\<lparr>attachOutstanding := False\<rparr>
      in if waiting h then (h1\<lparr>waiting := False\<rparr>, T\<lparr>hwakeups := hwakeups T @ [n]\<rparr>) else (h1, T))"

definition HNodeForkVNodeDecrement :: "hid \<Rightarrow> hnode \<Rightarrow> hstate \<Rightarrow> (bool \<times> hstate) outcome" where
  "HNodeForkVNodeDecrement n h T =
     (let h1 = h\<lparr>forkVNodesCount := forkVNodesCount h - 1\<rparr>; T1 = put_hnode n h1 T
      in if forkVNodesCount h1 = 0 then
           bind_outcome (chain_remove n T1) (\<lambda>T2.
             Done (True, T2\<lparr>gHashNodeCount := gHashNodeCount T2 - 1\<rparr>))
         else Done (False, T1))"

definition HNodeAttachVNodeSucceeded :: "hid \<Rightarrow> nat \<Rightarrow> vnode \<Rightarrow> hstate \<Rightarrow> hstate outcome" where
  "HNodeAttachVNodeSucceeded n forkIndex vn T =
     bind_outcome (hnode_at T n) (\<lambda>h.
       case HNodeAttachComplete n h T of (h1, T1) \<Rightarrow>
         if forkIndex < forkVNodesSize h1
         then Done ((put_hnode n (h1\<lparr>forkVNodes := (forkVNodes h1)[forkIndex := Some vn]\<rparr>) T1)
                     \<lparr>vn_fsref := (vn_fsref T1)(vn := True)\<rparr>)
         else BadAccess)"

definition HNodeAttachVNodeFailed :: "hid \<Rightarrow> hstate \<Rightarrow> (bool \<times> hstate) outcome" where
  "HNodeAttachVNodeFailed n T =
     bind_outcome (hnode_at T n) (\<lambda>h.
       case HNodeAttachComplete n h T of (h1, T1) \<Rightarrow> HNodeForkVNodeDecrement n h1 T1)"

definition HNodeDetachVNode :: "hid \<Rightarrow> vnode \<Rightarrow> hstate \<Rightarrow> (bool \<times> hstate) outcome" where
  "HNodeDetachVNode n vn T =
     bind_outcome (hnode_at T n) (\<lambda>h.
       let forkIndex = fork_index vn (forkVNodes h)
       in if forkIndex < forkVNodesSize h
          then HNodeForkVNodeDecrement n (h\<lparr>forkVNodes := (forkVNodes h)[forkIndex := None]\<rparr>)
                 (T\<lparr>vn_fsref := (vn_fsref T)(vn := False), vn_fsnode := (vn_fsnode T)(vn := None)\<rparr>)
          else BadAccess)"

definition HNodeScrubDone :: "hid \<Rightarrow> hstate \<Rightarrow> hstate outcome" where
  "HNodeScrubDone n T =
     bind_outcome (hnode_at T n) (\<lambda>h.
       let g1 = (if forkVNodesSize h > 1
                 then FUSE_OSFree (sizeof_vnode_t * forkVNodesSize h) (hcnt T) else hcnt T)
       in Done (T\<lparr>hheap := (hheap T)(n := None),
                 hcnt := FUSE_OSFree (sizeof_HNode + gFSNodeSize T) g1\<rparr>))"

text \<open>The nodes that the debugging aid copies, chain by chain: it stops before the last chain.\<close>

definition HNodePrintState_snapshot :: "hstate \<Rightarrow> hid list outcome" where
  "HNodePrintState_snapshot T =
     bind_outcome (of_option (gHashTable T)) (\<lambda>tab. Done (concat (take (length tab - 1) tab)))"

section \<open>The invariant of the table\<close>

definition tabled :: "hstate \<Rightarrow> hid list" where
  "tabled T = (case gHashTable T of None \<Rightarrow> [] | Some tab \<Rightarrow> concat tab)"

text \<open>What refers to a node: its vnodes, and an attach that has not completed.\<close>

definition fork_refs :: "hnode \<Rightarrow> int" where
  "fork_refs h = int (length (filter (\<lambda>x. x \<noteq> None) (forkVNodes h))) + (if attachOutstanding h then 1 else 0)"

definition hnode_ok :: "hnode \<Rightarrow> bool" where
  "hnode_ok h \<longleftrightarrow> forkVNodes h \<noteq> [] \<and> forkVNodesCount h = fork_refs h \<and> fork_refs h > 0"

abbreviation hkey :: "hnode \<Rightarrow> u64 \<times> u64" where
  "hkey h \<equiv> (h_dev h, h_ino h)"

text \<open>
  The table has a power of two of chains; every linked node is allocated, is on the chain of its
  key and once only, has the reference count its forks say, and no other linked node has its key;
  the counter counts the linked nodes.
\<close>

definition chains_ok :: "hid list list \<Rightarrow> (hid \<Rightarrow> hnode option) \<Rightarrow> bool" where
  "chains_ok tab hp \<longleftrightarrow>
     (\<forall>i < length tab. \<forall>n \<in> set (tab ! i).
        \<exists>h. hp n = Some h \<and> hnode_ok h \<and> bucket_of (length tab) (h_dev h) (h_ino h) = i) \<and>
     distinct (concat tab) \<and>
     (\<forall>n m hn hm. n \<in> set (concat tab) \<longrightarrow> m \<in> set (concat tab) \<longrightarrow> hp n = Some hn \<longrightarrow> hp m = Some hm \<longrightarrow>
        hkey hn = hkey hm \<longrightarrow> n = m)"

definition hn_inv :: "hstate \<Rightarrow> bool" where
  "hn_inv T \<longleftrightarrow>
     (\<exists>tab k. gHashTable T = Some tab \<and> length tab = 2 ^ k \<and> k < 64 \<and> chains_ok tab (hheap T) \<and>
        gHashNodeCount T = int (length (concat tab))) \<and>
     (\<forall>n. hheap T n \<noteq> None \<longrightarrow> n < hbrk T)"

lemma bucket_of_less: "k < 64 \<Longrightarrow> bucket_of (2 ^ k) dev ino < 2 ^ k"
proof -
  assume "k < 64"
  have "(word_of_nat (2 ^ k - 1) :: u64) = mask k"
    by (simp add: mask_eq_exp_minus_1 of_nat_diff)
  then have "(dev + ino) AND word_of_nat (2 ^ k - 1) = take_bit k (dev + ino)"
    by (simp add: take_bit_eq_mask)
  then have "bucket_of (2 ^ k) dev ino = take_bit k (unat (dev + ino))"
    by (simp add: bucket_of_def unsigned_take_bit_eq)
  then show ?thesis by (simp add: take_bit_nat_less_exp)
qed

lemma chain_find_spec:
  assumes "\<forall>n \<in> set ns. hp n \<noteq> None"
  shows "chain_find hp dev ino ns = Done (find (\<lambda>n. map_option hkey (hp n) = Some (dev, ino)) ns)"
  using assms
proof (induction ns)
  case (Cons n ns)
  then obtain h where "hp n = Some h" by auto
  then show ?case using Cons by simp
qed simp

lemma hn_invE:
  assumes "hn_inv T"
  obtains tab k where "gHashTable T = Some tab" "length tab = 2 ^ k" "k < 64" "chains_ok tab (hheap T)"
    "gHashNodeCount T = int (length (concat tab))" "tabled T = concat tab"
    "\<forall>dev ino. HNodeGetFirstFromHashTable tab dev ino < length tab"
  using assms bucket_of_less
  by (auto simp: hn_inv_def tabled_def HNodeGetFirstFromHashTable_def)

lemma concat_set_nth: "n \<in> set (concat tab) \<longleftrightarrow> (\<exists>i < length tab. n \<in> set (tab ! i))"
  by (simp, metis in_set_conv_nth)

lemma chains_ok_inj:
  "chains_ok tab hp \<Longrightarrow> n \<in> set (concat tab) \<Longrightarrow> m \<in> set (concat tab) \<Longrightarrow> hp n = Some hn \<Longrightarrow>
     hp m = Some hm \<Longrightarrow> hkey hn = hkey hm \<Longrightarrow> n = m"
  unfolding chains_ok_def by blast

lemma tabled_node:
  assumes "hn_inv T" "n \<in> set (tabled T)"
  shows "\<exists>h. hheap T n = Some h \<and> hnode_ok h"
proof -
  obtain tab where t: "chains_ok tab (hheap T)" "tabled T = concat tab" using assms(1) by (rule hn_invE)
  then obtain i where "i < length tab" "n \<in> set (tab ! i)" using assms(2) concat_set_nth by metis
  then show ?thesis using t(1) unfolding chains_ok_def by blast
qed

text \<open>The lookup in the chain of a key finds the linked node with that key, and no other.\<close>

lemma HNodeFind_spec:
  assumes inv: "hn_inv T"
  shows "\<exists>r. HNodeFind T dev ino = Done r \<and>
    (\<forall>n. r = Some n \<longleftrightarrow> n \<in> set (tabled T) \<and> map_option hkey (hheap T n) = Some (dev, ino))"
proof -
  obtain tab k where t: "gHashTable T = Some tab" "length tab = 2 ^ k" "k < 64" "chains_ok tab (hheap T)"
    "tabled T = concat tab" "\<forall>dev ino. HNodeGetFirstFromHashTable tab dev ino < length tab"
    using inv by (rule hn_invE)
  let ?i = "HNodeGetFirstFromHashTable tab dev ino"
  let ?P = "\<lambda>n. map_option hkey (hheap T n) = Some (dev, ino)"
  have live: "\<forall>n \<in> set (tab ! ?i). hheap T n \<noteq> None"
    using t(4,6) unfolding chains_ok_def by blast
  have f: "HNodeFind T dev ino = Done (find ?P (tab ! ?i))"
    using t(1) chain_find_spec [OF live] by (simp add: HNodeFind_def)
  have sound: "n \<in> set (tabled T) \<and> ?P n" if "find ?P (tab ! ?i) = Some n" for n
    using find_Some_in [OF that] t(5,6) concat_set_nth by metis
  have complete: "find ?P (tab ! ?i) = Some n" if n: "n \<in> set (tabled T)" "?P n" for n
  proof -
    obtain j where j: "j < length tab" "n \<in> set (tab ! j)" using n(1) t(5) concat_set_nth by metis
    obtain h where h: "hheap T n = Some h" "bucket_of (length tab) (h_dev h) (h_ino h) = j"
      using t(4) j unfolding chains_ok_def by blast
    then have "j = ?i" using n(2) by (auto simp: HNodeGetFirstFromHashTable_def)
    then have "find ?P (tab ! ?i) \<noteq> None" using j n(2) by (auto simp: find_None_iff)
    then obtain m where m: "find ?P (tab ! ?i) = Some m" by blast
    note s = sound [OF m]
    then obtain hm where hm: "hheap T m = Some hm" "hkey hm = hkey h" using n(2) h(1) by auto
    then have "m = n"
      using chains_ok_inj [OF t(4) _ _ hm(1) h(1) hm(2)] s n(1) t(5) by simp
    then show ?thesis using m by simp
  qed
  show ?thesis using f sound complete by blast
qed

lemma hn_inv_put:
  assumes inv: "hn_inv T" and n: "n \<in> set (tabled T)" "hheap T n = Some h"
    and h': "hkey h' = hkey h" "hnode_ok h'"
  shows "hn_inv (put_hnode n h' T)"
proof -
  obtain tab k where t: "gHashTable T = Some tab" "length tab = 2 ^ k" "k < 64" "chains_ok tab (hheap T)"
    "gHashNodeCount T = int (length (concat tab))" using inv by (rule hn_invE)
  have "chains_ok tab ((hheap T)(n := Some h'))"
    unfolding chains_ok_def
  proof (intro conjI allI impI ballI)
    fix i m assume i: "i < length tab" "m \<in> set (tab ! i)"
    then obtain hm where "hheap T m = Some hm" "hnode_ok hm" "bucket_of (length tab) (h_dev hm) (h_ino hm) = i"
      using t(4) unfolding chains_ok_def by blast
    then show "\<exists>x. ((hheap T)(n := Some h')) m = Some x \<and> hnode_ok x \<and>
        bucket_of (length tab) (h_dev x) (h_ino x) = i"
      using n(2) h' by (cases "m = n") auto
  next
    show "distinct (concat tab)" using t(4) by (simp add: chains_ok_def)
  next
    fix a b ha hb
    assume ab: "a \<in> set (concat tab)" "b \<in> set (concat tab)" "((hheap T)(n := Some h')) a = Some ha"
      "((hheap T)(n := Some h')) b = Some hb" "hkey ha = hkey hb"
    obtain xa where xa: "hheap T a = Some xa" "hkey xa = hkey ha"
      using ab(3) n(2) h'(1) by (cases "a = n") auto
    obtain xb where xb: "hheap T b = Some xb" "hkey xb = hkey hb"
      using ab(4) n(2) h'(1) by (cases "b = n") auto
    show "a = b" using chains_ok_inj [OF t(4) ab(1,2) xa(1) xb(1)] ab(5) xa(2) xb(2) by simp
  qed
  then show ?thesis using inv t n(2) by (auto simp: hn_inv_def put_hnode_def)
qed

lemma hn_inv_cnt [simp]:
  "hn_inv (T\<lparr>hcnt := c\<rparr>) = hn_inv T" "hn_inv (T\<lparr>hwakeups := w\<rparr>) = hn_inv T"
  "hn_inv (T\<lparr>vn_fsref := x\<rparr>) = hn_inv T" "hn_inv (T\<lparr>vn_fsnode := y\<rparr>) = hn_inv T"
  by (simp_all add: hn_inv_def)

lemma tabled_simps [simp]:
  "tabled (T\<lparr>hcnt := c\<rparr>) = tabled T" "tabled (T\<lparr>hwakeups := w\<rparr>) = tabled T"
  "tabled (T\<lparr>vn_fsref := x\<rparr>) = tabled T" "tabled (T\<lparr>vn_fsnode := y\<rparr>) = tabled T"
  "tabled (put_hnode n h T) = tabled T" "tabled (T\<lparr>hheap := hp\<rparr>) = tabled T"
  by (simp_all add: tabled_def put_hnode_def)

lemma put_hnode_simps [simp]:
  "hheap (put_hnode n h T) = (hheap T)(n := Some h)" "gHashTable (put_hnode n h T) = gHashTable T"
  "hbrk (put_hnode n h T) = hbrk T" "gHashNodeCount (put_hnode n h T) = gHashNodeCount T"
  "hcnt (put_hnode n h T) = hcnt T" "vn_fsref (put_hnode n h T) = vn_fsref T"
  by (simp_all add: put_hnode_def)

section \<open>Linking and unlinking\<close>

text \<open>The whole effect of linking a new node, and of unlinking one.\<close>

definition link_node :: "hnode \<Rightarrow> hstate \<Rightarrow> hstate" where
  "link_node h T =
     (case gHashTable T of
        None \<Rightarrow> T
      | Some tab \<Rightarrow>
          let i = HNodeGetFirstFromHashTable tab (h_dev h) (h_ino h)
          in T\<lparr>hheap := (hheap T)(hbrk T := Some h), hbrk := Suc (hbrk T),
              gHashTable := Some (tab[i := hbrk T # tab ! i]), gHashNodeCount := gHashNodeCount T + 1\<rparr>)"

definition unlink_node :: "hid \<Rightarrow> hstate \<Rightarrow> hstate" where
  "unlink_node n T =
     T\<lparr>gHashTable := map_option (map (remove1 n)) (gHashTable T), gHashNodeCount := gHashNodeCount T - 1\<rparr>"

definition key_free :: "u64 \<times> u64 \<Rightarrow> hstate \<Rightarrow> bool" where
  "key_free k T \<longleftrightarrow> (\<forall>m \<in> set (tabled T). map_option hkey (hheap T m) \<noteq> Some k)"

lemma concat_insert:
  assumes "i < length tab"
  shows "set (concat (tab[i := n # tab ! i])) = insert n (set (concat tab))"
    "length (concat (tab[i := n # tab ! i])) = Suc (length (concat tab))"
    "distinct (concat tab) \<Longrightarrow> n \<notin> set (concat tab) \<Longrightarrow> distinct (concat (tab[i := n # tab ! i]))"
proof -
  let ?a = "take i tab" and ?b = "drop (Suc i) tab"
  have u: "tab[i := n # tab ! i] = ?a @ (n # tab ! i) # ?b"
    using assms by (simp add: upd_conv_take_nth_drop)
  have t: "concat tab = concat ?a @ tab ! i @ concat ?b"
    using arg_cong [OF id_take_nth_drop [OF assms], of concat] by simp
  have c: "concat (tab[i := n # tab ! i]) = concat ?a @ n # tab ! i @ concat ?b" by (simp add: u)
  show "set (concat (tab[i := n # tab ! i])) = insert n (set (concat tab))" unfolding c t by auto
  show "length (concat (tab[i := n # tab ! i])) = Suc (length (concat tab))" unfolding c t by simp
  show "distinct (concat (tab[i := n # tab ! i]))" if "distinct (concat tab)" "n \<notin> set (concat tab)"
    using that unfolding c t by auto
qed

lemma concat_map_remove1:
  "distinct (concat tab) \<Longrightarrow> concat (map (remove1 n) tab) = remove1 n (concat tab)"
proof (induction tab)
  case (Cons xs tab)
  then have d: "distinct (concat tab)" "set xs \<inter> set (concat tab) = {}" by auto
  show ?case
  proof (cases "n \<in> set xs")
    case True
    then have "n \<notin> set (concat tab)" using d by blast
    then have "map (remove1 n) tab = tab" by (intro map_idI) (auto simp: remove1_idem)
    then show ?thesis using True by (simp add: remove1_append)
  next
    case False
    then show ?thesis using Cons.IH [OF d(1)] by (simp add: remove1_append remove1_idem)
  qed
qed simp

lemma link_node_ok:
  assumes inv: "hn_inv T" and free: "key_free (hkey h) T" and ok: "hnode_ok h"
  shows "hn_inv (link_node h T)" "set (tabled (link_node h T)) = insert (hbrk T) (set (tabled T))"
    "hheap (link_node h T) = (hheap T)(hbrk T := Some h)" "hheap T (hbrk T) = None"
proof -
  obtain tab k where t: "gHashTable T = Some tab" "length tab = 2 ^ k" "k < 64" "chains_ok tab (hheap T)"
    "gHashNodeCount T = int (length (concat tab))" "tabled T = concat tab"
    "\<forall>dev ino. HNodeGetFirstFromHashTable tab dev ino < length tab" using inv by (rule hn_invE)
  let ?i = "HNodeGetFirstFromHashTable tab (h_dev h) (h_ino h)" and ?n = "hbrk T"
  let ?tab = "tab[?i := ?n # tab ! ?i]" and ?hp = "(hheap T)(?n := Some h)"
  have i: "?i < length tab" using t(7) by blast
  have fresh: "hheap T ?n = None" using inv unfolding hn_inv_def by (meson less_irrefl)
  then have new: "?n \<notin> set (concat tab)" using tabled_node [OF inv, of ?n] t(6) by auto
  note c = concat_insert [OF i, of ?n]
  have "chains_ok ?tab ?hp"
    unfolding chains_ok_def
  proof (intro conjI allI impI ballI)
    fix j m assume j: "j < length ?tab" "m \<in> set (?tab ! j)"
    show "\<exists>x. ?hp m = Some x \<and> hnode_ok x \<and> bucket_of (length ?tab) (h_dev x) (h_ino x) = j"
    proof (cases "m = ?n")
      case True
      have "j = ?i"
      proof (rule ccontr)
        assume "j \<noteq> ?i"
        then have "?n \<in> set (tab ! j)" using j True by (simp add: nth_list_update)
        then show False using new j(1) concat_set_nth [of ?n tab] by auto
      qed
      then show ?thesis using True ok by (simp add: HNodeGetFirstFromHashTable_def)
    next
      case False
      then have "m \<in> set (tab ! j)" using j i by (auto simp: nth_list_update split: if_splits)
      then show ?thesis using t(4) j False unfolding chains_ok_def by auto
    qed
  next
    show "distinct (concat ?tab)" using c(3) new t(4) by (simp add: chains_ok_def)
  next
    fix a b ha hb
    assume ab: "a \<in> set (concat ?tab)" "b \<in> set (concat ?tab)" "?hp a = Some ha" "?hp b = Some hb"
      "hkey ha = hkey hb"
    have free': "hkey x \<noteq> hkey h" if "m \<in> set (concat tab)" "hheap T m = Some x" for m x
    proof -
      have "m \<in> set (tabled T)" using that(1) t(6) by simp
      then have "map_option hkey (hheap T m) \<noteq> Some (hkey h)" using free unfolding key_free_def by blast
      then show ?thesis using that(2) by simp
    qed
    have ab': "a \<noteq> ?n \<Longrightarrow> a \<in> set (concat tab)" "b \<noteq> ?n \<Longrightarrow> b \<in> set (concat tab)"
      using ab(1,2) c(1) by auto
    show "a = b"
    proof (cases "a = ?n \<or> b = ?n")
      case True
      then show ?thesis using ab(3-5) ab' free' by (cases "a = ?n"; cases "b = ?n") force+
    next
      case False
      then show ?thesis using chains_ok_inj [OF t(4)] ab(3-5) ab' by (metis fun_upd_apply)
    qed
  qed
  moreover have "\<forall>n. ?hp n \<noteq> None \<longrightarrow> n < Suc ?n"
    using inv unfolding hn_inv_def by (auto simp: less_Suc_eq)
  ultimately show "hn_inv (link_node h T)"
    using t c(2) by (auto simp: hn_inv_def link_node_def Let_def)
  show "set (tabled (link_node h T)) = insert ?n (set (tabled T))"
    using t(1,6) c(1) by (simp add: link_node_def Let_def tabled_def)
  show "hheap (link_node h T) = ?hp" using t(1) by (simp add: link_node_def Let_def)
  show "hheap T ?n = None" by (rule fresh)
qed

lemma unlink_node_ok:
  assumes inv: "hn_inv T" and n: "n \<in> set (tabled T)"
  shows "hn_inv (unlink_node n T)" "set (tabled (unlink_node n T)) = set (tabled T) - {n}"
    "hheap (unlink_node n T) = hheap T"
    "hn_inv ((unlink_node n T)\<lparr>hheap := (hheap T)(n := x)\<rparr>) \<or> x \<noteq> None \<and> hheap T n = None"
proof -
  obtain tab k where t: "gHashTable T = Some tab" "length tab = 2 ^ k" "k < 64" "chains_ok tab (hheap T)"
    "gHashNodeCount T = int (length (concat tab))" "tabled T = concat tab" using inv by (rule hn_invE)
  let ?tab = "map (remove1 n) tab"
  have d: "distinct (concat tab)" using t(4) by (simp add: chains_ok_def)
  have c: "concat ?tab = remove1 n (concat tab)" by (rule concat_map_remove1 [OF d])
  have s: "set (concat ?tab) = set (concat tab) - {n}" unfolding c using d by (simp add: set_remove1_eq)
  have sub: "set (?tab ! i) \<subseteq> set (tab ! i) - {n}" if "i < length tab" for i
  proof -
    have "distinct (tab ! i)" using d that by (simp add: distinct_concat_iff)
    then show ?thesis using that by (simp add: set_remove1_eq)
  qed
  have ch: "chains_ok ?tab hp" if hp: "\<forall>m. m \<noteq> n \<longrightarrow> hp m = hheap T m" for hp
    unfolding chains_ok_def
  proof (intro conjI allI impI ballI)
    fix i m assume i: "i < length ?tab" "m \<in> set (?tab ! i)"
    then have "m \<in> set (tab ! i)" "m \<noteq> n" "i < length tab" using sub [of i] by auto
    then show "\<exists>h. hp m = Some h \<and> hnode_ok h \<and> bucket_of (length ?tab) (h_dev h) (h_ino h) = i"
      using t(4) hp unfolding chains_ok_def by simp
  next
    show "distinct (concat ?tab)" unfolding c using d by (simp add: distinct_remove1)
  next
    fix a b ha hb
    assume ab: "a \<in> set (concat ?tab)" "b \<in> set (concat ?tab)" "hp a = Some ha" "hp b = Some hb" "hkey ha = hkey hb"
    then have "a \<noteq> n" "b \<noteq> n" "a \<in> set (concat tab)" "b \<in> set (concat tab)" using s by auto
    then show "a = b" using chains_ok_inj [OF t(4)] ab(3-5) hp by metis
  qed
  have l: "gHashNodeCount T - 1 = int (length (concat ?tab))"
  proof -
    have n': "n \<in> set (concat tab)" using n t(6) by simp
    have "0 < length (concat tab)" by (rule length_pos_if_in_set [OF n'])
    moreover have "length (remove1 n (concat tab)) = length (concat tab) - 1"
      using n' by (simp only: length_remove1 if_True)
    ultimately show ?thesis unfolding c t(5) by linarith
  qed
  show "hn_inv (unlink_node n T)"
    using inv t ch [of "hheap T"] l unfolding hn_inv_def unlink_node_def by auto
  show "set (tabled (unlink_node n T)) = set (tabled T) - {n}"
    using s t(1,6) by (simp add: unlink_node_def tabled_def)
  show "hheap (unlink_node n T) = hheap T" by (simp add: unlink_node_def)
  show "hn_inv ((unlink_node n T)\<lparr>hheap := (hheap T)(n := x)\<rparr>) \<or> x \<noteq> None \<and> hheap T n = None"
    using inv t ch [of "(hheap T)(n := x)"] l unfolding hn_inv_def unlink_node_def by auto
qed

section \<open>The table as a map\<close>

text \<open>
  What the users of the table rely on: a value that is linked is found under its key at the
  address it was given, one that is unlinked is not found any more, and nothing else changes.
\<close>

locale keyed_table =
  fixes lookup :: "'s \<Rightarrow> 'k \<Rightarrow> 'n option"
    and link :: "'v \<Rightarrow> 's \<Rightarrow> 's"
    and unlink :: "'n \<Rightarrow> 's \<Rightarrow> 's"
    and addr :: "'s \<Rightarrow> 'n"
    and key :: "'v \<Rightarrow> 'k"
    and ok :: "'s \<Rightarrow> bool"
    and good :: "'v \<Rightarrow> bool"
  assumes ok_link: "ok s \<Longrightarrow> good v \<Longrightarrow> lookup s (key v) = None \<Longrightarrow> ok (link v s)"
    and lookup_link: "ok s \<Longrightarrow> good v \<Longrightarrow> lookup s (key v) = None \<Longrightarrow>
      lookup (link v s) k = (if k = key v then Some (addr s) else lookup s k)"
    and ok_unlink: "ok s \<Longrightarrow> lookup s k = Some n \<Longrightarrow> ok (unlink n s)"
    and lookup_unlink: "ok s \<Longrightarrow> lookup s k = Some n \<Longrightarrow>
      lookup (unlink n s) k' = (if k' = k then None else lookup s k')"
begin

lemma link_unlink:
  assumes "ok s" "good v" "lookup s (key v) = None"
  shows "lookup (unlink (addr s) (link v s)) k = lookup s k"
proof -
  have f: "lookup (link v s) (key v) = Some (addr s)" using lookup_link [OF assms] by simp
  show ?thesis using lookup_unlink [OF ok_link [OF assms] f, of k] lookup_link [OF assms, of k] assms(3) by simp
qed

lemma one_key:
  assumes "ok s" "lookup s k = Some n" "lookup s k' = Some n"
  shows "k = k'"
  using lookup_unlink [OF assms(1,2), of k] lookup_unlink [OF assms(1,3), of k] assms(2) by (auto split: if_splits)

lemma relink:
  assumes "ok s" "lookup s (key v) = Some n" "good v"
  shows "lookup (link v (unlink n s)) (key v) = Some (addr (unlink n s))"
  using lookup_link [OF ok_unlink [OF assms(1,2)] assms(3)] lookup_unlink [OF assms(1,2)] by simp

end

definition hfind :: "hstate \<Rightarrow> u64 \<times> u64 \<Rightarrow> hid option" where
  "hfind T k = (case HNodeFind T (fst k) (snd k) of Done r \<Rightarrow> r | _ \<Rightarrow> None)"

lemma hfind_iff:
  assumes "hn_inv T"
  shows "HNodeFind T dev ino = Done (hfind T (dev, ino))"
    "hfind T k = Some n \<longleftrightarrow> n \<in> set (tabled T) \<and> map_option hkey (hheap T n) = Some k"
proof -
  show "HNodeFind T dev ino = Done (hfind T (dev, ino))"
    using HNodeFind_spec [OF assms, of dev ino] by (auto simp: hfind_def)
  show "hfind T k = Some n \<longleftrightarrow> n \<in> set (tabled T) \<and> map_option hkey (hheap T n) = Some k"
    using HNodeFind_spec [OF assms, of "fst k" "snd k"] by (auto simp: hfind_def)
qed

lemma hfind_None_iff: "hn_inv T \<Longrightarrow> hfind T k = None \<longleftrightarrow> key_free k T"
proof -
  assume i: "hn_inv T"
  have "hfind T k \<noteq> None \<longleftrightarrow> (\<exists>n. hfind T k = Some n)" by auto
  also have "\<dots> \<longleftrightarrow> \<not> key_free k T" unfolding hfind_iff(2) [OF i] key_free_def by blast
  finally show ?thesis by blast
qed

lemma hfind_eqI:
  assumes "hn_inv T" "\<And>n. n \<in> set (tabled T) \<and> map_option hkey (hheap T n) = Some k \<longleftrightarrow> r = Some n"
  shows "hfind T k = r"
proof (cases r)
  case None
  then have "hfind T k \<noteq> Some n" for n using hfind_iff(2) [OF assms(1)] assms(2) by auto
  then show ?thesis using None by (metis option.exhaust)
next
  case (Some n)
  then show ?thesis using hfind_iff(2) [OF assms(1)] assms(2) by simp
qed

interpretation hmap: keyed_table hfind link_node unlink_node hbrk "\<lambda>h. hkey h" hn_inv hnode_ok
proof (unfold_locales, goal_cases)
  case (1 s v)
  then show ?case using link_node_ok(1) hfind_None_iff by blast
next
  case (2 s v k)
  then have free: "key_free (hkey v) s" using hfind_None_iff by blast
  note l = link_node_ok [OF 2(1) free 2(2)]
  have new: "hbrk s \<notin> set (tabled s)" using l(4) tabled_node [OF 2(1), of "hbrk s"] by auto
  show ?case
  proof (rule hfind_eqI [OF l(1)])
    fix n
    have "n = hbrk s \<or> n \<in> set (tabled s) \<and> n \<noteq> hbrk s \<or> n \<notin> set (tabled (link_node v s))"
      using l(2) new by auto
    then show "n \<in> set (tabled (link_node v s)) \<and> map_option hkey (hheap (link_node v s) n) = Some k \<longleftrightarrow>
        (if k = hkey v then Some (hbrk s) else hfind s k) = Some n"
      using l(2,3) new free hfind_iff(2) [OF 2(1), of k n] unfolding key_free_def by auto
  qed
next
  case (3 s k n)
  then show ?case using unlink_node_ok(1) hfind_iff(2) by blast
next
  case (4 s k n k')
  then have n: "n \<in> set (tabled s)" "map_option hkey (hheap s n) = Some k" using hfind_iff(2) by blast+
  note u = unlink_node_ok [OF 4(1) n(1)]
  show ?case
  proof (rule hfind_eqI [OF u(1)])
    fix m
    have eq: "(m \<in> set (tabled (unlink_node n s)) \<and> map_option hkey (hheap (unlink_node n s) m) = Some k') =
        (m \<noteq> n \<and> hfind s k' = Some m)"
      unfolding u(2,3) hfind_iff(2) [OF 4(1)] by blast
    show "m \<in> set (tabled (unlink_node n s)) \<and> map_option hkey (hheap (unlink_node n s) m) = Some k' \<longleftrightarrow>
        (if k' = k then None else hfind s k') = Some m"
    proof (cases "k' = k")
      case True
      then show ?thesis unfolding eq using 4(2) by auto
    next
      case False
      then have "hfind s k' \<noteq> Some n" using n(2) hfind_iff(2) [OF 4(1), of k' n] by auto
      then show ?thesis unfolding eq using False by auto
    qed
  qed
qed

section \<open>Lookup\<close>

text \<open>
  What other threads may do while the mutex is dropped: they keep the invariant, and a vnode that
  can still be got with its identity has not been reclaimed, so its node is where it was.
\<close>

definition gap_ok :: "hgap \<Rightarrow> bool" where
  "gap_ok g \<longleftrightarrow> (\<forall>T. hn_inv T \<longrightarrow> hn_inv (g_run g T) \<and>
     (\<forall>n h i vn k. hfind T k = Some n \<longrightarrow> hheap T n = Some h \<longrightarrow> i < forkVNodesSize h \<longrightarrow>
        forkVNodes h ! i = Some vn \<longrightarrow> g_getwithvid g vn = 0 \<longrightarrow>
        hfind (g_run g T) k = Some n \<and>
        (\<exists>h'. hheap (g_run g T) n = Some h' \<and> i < forkVNodesSize h' \<and> forkVNodes h' ! i = Some vn)))"

text \<open>What a lookup promises of the node it returns.\<close>

definition lookup_result :: "u64 \<times> u64 \<Rightarrow> nat \<Rightarrow> hid \<Rightarrow> vnode option \<Rightarrow> hstate \<Rightarrow> bool" where
  "lookup_result k i n vn T \<longleftrightarrow> hfind T k = Some n \<and>
     (\<exists>h. hheap T n = Some h \<and> i < forkVNodesSize h \<and> forkVNodes h ! i = vn \<and>
        (vn = None \<longrightarrow> attachOutstanding h))"

definition private_ok :: "u64 \<times> u64 \<Rightarrow> nat \<Rightarrow> hnode option \<Rightarrow> bool" where
  "private_ok k i newNode \<longleftrightarrow> (\<forall>h. newNode = Some h \<longrightarrow> (\<exists>m. h = new_hnode m (fst k) (snd k) i))"

definition osm_always :: "osmalloc \<Rightarrow> bool" where
  "osm_always osm \<longleftrightarrow> (\<forall>n. osm n \<noteq> None)"

lemma OSMalloc_always: "osm_always osm \<Longrightarrow> \<exists>b g'. FUSE_OSMalloc osm n g = Done (b, g')"
  by (auto simp: osm_always_def FUSE_OSMalloc_def split: option.splits)


lemma hnode_ok_upd [simp]:
  "hnode_ok (h\<lparr>waiting := w\<rparr>) = hnode_ok h"
  "hnode_ok h \<Longrightarrow> hnode_ok (h\<lparr>forkVNodes := forkVNodes h @ replicate c None\<rparr>)"
  "hnode_ok h \<Longrightarrow> \<not> attachOutstanding h \<Longrightarrow>
     hnode_ok (h\<lparr>attachOutstanding := True, forkVNodesCount := forkVNodesCount h + 1\<rparr>)"
  by (auto simp: hnode_ok_def fork_refs_def)

lemma hfind_put:
  assumes "hn_inv T" "hfind T k = Some n" "hheap T n = Some h" "hkey h' = hkey h" "hnode_ok h'"
  shows "hn_inv (put_hnode n h' T)" "hfind (put_hnode n h' T) k' = hfind T k'"
proof -
  have n: "n \<in> set (tabled T)" using assms(1,2) hfind_iff(2) by blast
  show i: "hn_inv (put_hnode n h' T)" by (rule hn_inv_put [OF assms(1) n assms(3-5)])
  show "hfind (put_hnode n h' T) k' = hfind T k'"
  proof (rule hfind_eqI [OF i])
    fix m
    have "map_option hkey (hheap (put_hnode n h' T) m) = map_option hkey (hheap T m)"
      using assms(3,4) by simp
    then show "m \<in> set (tabled (put_hnode n h' T)) \<and> map_option hkey (hheap (put_hnode n h' T) m) = Some k' \<longleftrightarrow>
        hfind T k' = Some m" using hfind_iff(2) [OF assms(1)] by simp
  qed
qed

lemma hfind_cnt [simp]: "hfind (T\<lparr>hcnt := c\<rparr>) k = hfind T k"
  by (simp add: hfind_def HNodeFind_def)

lemma gap_inv: "gap_ok g \<Longrightarrow> hn_inv T \<Longrightarrow> hn_inv (g_run g T)"
  by (simp add: gap_ok_def)

definition step_ok :: "u64 \<times> u64 \<Rightarrow> nat \<Rightarrow> hnode option \<Rightarrow> lookup_step \<Rightarrow> hstate \<Rightarrow> bool" where
  "step_ok k i newNode st T \<longleftrightarrow>
     (case st of Found m vn nn \<Rightarrow> lookup_result k i m vn T | Again nn b \<Rightarrow> private_ok k i nn)"

lemma lookup_check_ok:
  assumes inv: "hn_inv T" and g: "gap_ok g" and osm: "osm_always osm" and n: "hfind T k = Some n"
    and p: "private_ok k i newNode"
  shows "\<exists>st T'. lookup_check osm i g newNode buf n T = Done (st, T') \<and> hn_inv T' \<and> step_ok k i newNode st T'"
proof -
  have "n \<in> set (tabled T)" using inv n hfind_iff(2) by blast
  then obtain h where h: "hheap T n = Some h" "hnode_ok h" using tabled_node [OF inv] by blast
  have at: "hnode_at T n = Done h" using h(1) by (simp add: hnode_at_def)
  consider "attachOutstanding h" | "\<not> attachOutstanding h" "forkVNodesSize h \<le> i" "\<not> buf"
    | "\<not> attachOutstanding h" "forkVNodesSize h \<le> i" "buf"
    | "\<not> attachOutstanding h" "i < forkVNodesSize h" "forkVNodes h ! i = None"
    | vn where "\<not> attachOutstanding h" "i < forkVNodesSize h" "forkVNodes h ! i = Some vn"
    by (metis not_le option.exhaust)
  then show ?thesis
  proof cases
    case 1
    have "hn_inv (put_hnode n (h\<lparr>waiting := True\<rparr>) T)" by (rule hfind_put [OF inv n h(1)]) (use h in simp_all)
    then show ?thesis using at 1 gap_inv [OF g] p by (simp add: lookup_check_def step_ok_def)
  next
    case 2
    obtain b c where "FUSE_OSMalloc osm (sizeof_vnode_t * (i + 1)) (hcnt (g_run g T)) = Done (b, c)"
      using OSMalloc_always [OF osm] by blast
    then show ?thesis using at 2 gap_inv [OF g inv] p by (simp add: lookup_check_def step_ok_def Let_def)
  next
    case 3
    have "hn_inv (put_hnode n (h\<lparr>forkVNodes := forkVNodes h @ replicate (i + 1 - forkVNodesSize h) None\<rparr>) T)"
      by (rule hfind_put [OF inv n h(1)]) (use h in simp_all)
    then have "hn_inv (grow_forks n h i T)" by (simp add: grow_forks_def Let_def)
    then show ?thesis using at 3 gap_inv [OF g] p by (simp add: lookup_check_def step_ok_def)
  next
    case 4
    let ?h = "h\<lparr>attachOutstanding := True, forkVNodesCount := forkVNodesCount h + 1\<rparr>"
    have "hnode_ok ?h" using h 4 by simp
    then have "hn_inv (put_hnode n ?h T)" "hfind (put_hnode n ?h T) k = Some n"
      using hfind_put [OF inv n h(1), of ?h] n by simp_all
    then show ?thesis using at 4 by (simp add: lookup_check_def step_ok_def lookup_result_def)
  next
    case 5
    show ?thesis
    proof (cases "g_getwithvid g vn = 0")
      case True
      have "hfind (g_run g T) k = Some n \<and>
          (\<exists>h'. hheap (g_run g T) n = Some h' \<and> i < forkVNodesSize h' \<and> forkVNodes h' ! i = Some vn)"
        using g inv n h(1) 5 True unfolding gap_ok_def by blast
      then show ?thesis using at 5 True gap_inv [OF g inv]
        by (auto simp: lookup_check_def step_ok_def lookup_result_def Let_def)
    next
      case False
      then show ?thesis using at 5 gap_inv [OF g inv] p by (simp add: lookup_check_def step_ok_def Let_def)
    qed
  qed
qed

lemma lookup_link_ok:
  assumes inv: "hn_inv T" and free: "hfind T (dev, ino) = None"
  shows "\<exists>T1. chain_insert dev ino (hbrk T) ((put_hnode (hbrk T) (new_hnode m dev ino i) T)\<lparr>hbrk := Suc (hbrk T)\<rparr>)
      = Done T1 \<and>
    (\<exists>T'. lookup_check osm i g None buf (hbrk T) (T1\<lparr>gHashNodeCount := gHashNodeCount T1 + 1\<rparr>) =
      Done (Found (hbrk T) None None, T') \<and> hn_inv T' \<and> lookup_result (dev, ino) i (hbrk T) None T' \<and>
      T' = link_node ((new_hnode m dev ino i)\<lparr>attachOutstanding := True, forkVNodesCount := 1\<rparr>) T)"
proof -
  obtain tab where t: "gHashTable T = Some tab" using inv by (rule hn_invE)
  let ?h = "new_hnode m dev ino i" and ?n = "hbrk T"
  let ?h' = "?h\<lparr>attachOutstanding := True, forkVNodesCount := 1\<rparr>"
  let ?b = "HNodeGetFirstFromHashTable tab dev ino"
  let ?T1 = "((put_hnode ?n ?h T)\<lparr>hbrk := Suc ?n\<rparr>)\<lparr>gHashTable := Some (tab[?b := ?n # tab ! ?b])\<rparr>"
  let ?T2 = "?T1\<lparr>gHashNodeCount := gHashNodeCount ?T1 + 1\<rparr>"
  have ci: "chain_insert dev ino ?n ((put_hnode ?n ?h T)\<lparr>hbrk := Suc ?n\<rparr>) = Done ?T1"
    using t by (simp add: chain_insert_def Let_def)
  have hk: "hkey ?h' = (dev, ino)" by (simp add: new_hnode_def)
  have lk: "put_hnode ?n ?h' ?T2 = link_node ?h' T"
    using t hk by (simp add: link_node_def put_hnode_def Let_def)
  have "hnode_at ?T2 ?n = Done ?h" by (simp add: hnode_at_def)
  moreover have "\<not> attachOutstanding ?h" "i < forkVNodesSize ?h" "forkVNodes ?h ! i = None" "forkVNodesCount ?h = 0"
    by (simp_all add: new_hnode_def nth_append del: replicate_Suc)
  ultimately have lc: "lookup_check osm i g None buf ?n ?T2 = Done (Found ?n None None, link_node ?h' T)"
    unfolding lk [symmetric] by (simp add: lookup_check_def)
  have ok: "hnode_ok ?h'" by (simp add: hnode_ok_def fork_refs_def new_hnode_def filter_replicate)
  have free': "hfind T (hkey ?h') = None" using free hk by simp
  have "hfind (link_node ?h' T) (dev, ino) = Some ?n"
    using hmap.lookup_link [OF inv ok free', of "(dev, ino)"] hk by simp
  moreover have "hheap (link_node ?h' T) ?n = Some ?h'"
    using t by (simp add: link_node_def Let_def)
  ultimately have "lookup_result (dev, ino) i ?n None (link_node ?h' T)"
    by (simp add: lookup_result_def new_hnode_def nth_append del: replicate_Suc)
  then show ?thesis using ci lc hmap.ok_link [OF inv ok free'] by blast
qed

lemma lookup_loop_ok:
  assumes "hn_inv T" "\<forall>g \<in> set gaps. gap_ok g" "osm_always osm" "private_ok (dev, ino) i newNode"
  shows "\<exists>r T'. lookup_loop osm dev ino i gaps newNode buf T = Done (r, T') \<and> hn_inv T' \<and>
    (\<forall>n vn. r = Some (n, vn) \<longrightarrow> lookup_result (dev, ino) i n vn T')"
  using assms
proof (induction gaps arbitrary: newNode buf T)
  case (Cons g gaps)
  have g: "gap_ok g" using Cons.prems by simp
  have fin: "hn_inv (lookup_cleanup i nn b T') = hn_inv T'"
    "lookup_result k i n vn (lookup_cleanup i nn b T') = lookup_result k i n vn T'" for nn b T' k n vn
    by (simp_all add: lookup_cleanup_def lookup_result_def Let_def split: option.split)
  have "\<exists>st T'. lookup_round osm dev ino i g newNode buf T = Done (st, T') \<and> hn_inv T' \<and>
      step_ok (dev, ino) i newNode st T'"
  proof (cases "hfind T (dev, ino)")
    case (Some n)
    then show ?thesis
      using lookup_check_ok [OF Cons.prems(1) g Cons.prems(3) Some Cons.prems(4)] hfind_iff(1) [OF Cons.prems(1)]
      by (simp add: lookup_round_def)
  next
    case None
    show ?thesis
    proof (cases newNode)
      case nn: None
      let ?T = "g_run g T"
      obtain b1 g1 where m1: "FUSE_OSMalloc osm (sizeof_HNode + gFSNodeSize ?T) (hcnt ?T) = Done (b1, g1)"
        using OSMalloc_always [OF Cons.prems(3)] by blast
      obtain b2 g2 where m2: "FUSE_OSMalloc osm (sizeof_vnode_t * (i + 1)) g1 = Done (b2, g2)"
        using OSMalloc_always [OF Cons.prems(3)] by blast
      obtain c where "alloc_hnode osm dev ino i ?T = Done (new_hnode (gMagic ?T) dev ino i, ?T\<lparr>hcnt := c\<rparr>)"
        using m1 m2 by (cases "i = 0") (simp_all add: alloc_hnode_def)
      then show ?thesis
        using None nn hfind_iff(1) [OF Cons.prems(1)] gap_inv [OF g Cons.prems(1)]
        by (auto simp: lookup_round_def step_ok_def private_ok_def)
    next
      case (Some h)
      then obtain m where "h = new_hnode m dev ino i" using Cons.prems(4) by (auto simp: private_ok_def)
      then show ?thesis
        using Some None lookup_link_ok [OF Cons.prems(1) None, of m i osm g buf] hfind_iff(1) [OF Cons.prems(1)]
        by (auto simp: lookup_round_def step_ok_def Let_def)
    qed
  qed
  then obtain st T' where st: "lookup_round osm dev ino i g newNode buf T = Done (st, T')" "hn_inv T'"
    "step_ok (dev, ino) i newNode st T'" by blast
  show ?case
  proof (cases st)
    case (Found n vn nn)
    then show ?thesis using st fin by (simp add: step_ok_def)
  next
    case (Again nn b)
    then have "private_ok (dev, ino) i nn" using st(3) by (simp add: step_ok_def)
    then show ?thesis using Cons.IH [OF st(2) _ Cons.prems(3), of nn b] Cons.prems(2) st(1) Again by simp
  qed
qed simp

section \<open>Reference counts\<close>

lemma attach_complete_node:
  "fst (HNodeAttachComplete n h T) = h\<lparr>attachOutstanding := False, waiting := False\<rparr>"
  "hheap (snd (HNodeAttachComplete n h T)) = hheap T" "hn_inv (snd (HNodeAttachComplete n h T)) = hn_inv T"
  "tabled (snd (HNodeAttachComplete n h T)) = tabled T"
  "hfind (snd (HNodeAttachComplete n h T)) k = hfind T k"
  "gHashTable (snd (HNodeAttachComplete n h T)) = gHashTable T"
  by (simp_all add: HNodeAttachComplete_def Let_def hfind_def HNodeFind_def)

text \<open>
  A node from which one reference is taken: \<open>h\<close> is the node with its forks and flags as they are
  after, and its counter as it was before.
\<close>

lemma decrement_ok:
  assumes inv: "hn_inv T" and k: "hfind T k = Some n" and h0: "hheap T n = Some h0" "hkey h = hkey h0"
    and fk: "forkVNodes h \<noteq> []" and c: "forkVNodesCount h = fork_refs h + 1"
  shows "\<exists>T'. HNodeForkVNodeDecrement n h T = Done (fork_refs h = 0, T') \<and> hn_inv T' \<and>
    (\<forall>k'. hfind T' k' = (if k' = k \<and> fork_refs h = 0 then None else hfind T k')) \<and>
    hheap T' n = Some (h\<lparr>forkVNodesCount := fork_refs h\<rparr>) \<and> (\<forall>m. m \<noteq> n \<longrightarrow> hheap T' m = hheap T m)"
proof -
  let ?h = "h\<lparr>forkVNodesCount := fork_refs h\<rparr>"
  have n: "n \<in> set (tabled T)" "map_option hkey (hheap T n) = Some k" using inv k hfind_iff(2) by blast+
  show ?thesis
  proof (cases "fork_refs h = 0")
    case False
    have "fork_refs ?h = fork_refs h" by (simp add: fork_refs_def)
    moreover have "fork_refs h > 0" using False by (simp add: fork_refs_def split: if_splits)
    ultimately have "hnode_ok ?h" using fk by (simp add: hnode_ok_def)
    then have "hn_inv (put_hnode n ?h T)" "hfind (put_hnode n ?h T) k' = hfind T k'" for k'
      using hfind_put [OF inv k h0(1), of ?h] h0(2) by simp_all
    then show ?thesis using False c by (simp add: HNodeForkVNodeDecrement_def Let_def)
  next
    case True
    let ?U = "unlink_node n T"
    obtain tab where t: "gHashTable T = Some tab" using inv by (rule hn_invE)
    let ?T' = "?U\<lparr>hheap := (hheap T)(n := Some ?h)\<rparr>"
    have r: "HNodeForkVNodeDecrement n h T = Done (True, ?T')"
      using True c t by (simp add: HNodeForkVNodeDecrement_def Let_def chain_remove_def put_hnode_def unlink_node_def)
    note u = unlink_node_ok [OF inv n(1)]
    have i: "hn_inv ?T'" using u(4) [of "Some ?h"] h0(1) by simp
    have "hfind ?T' k' = hfind ?U k'" for k'
    proof (rule hfind_eqI [OF i])
      fix m
      show "m \<in> set (tabled ?T') \<and> map_option hkey (hheap ?T' m) = Some k' \<longleftrightarrow> hfind ?U k' = Some m"
        using hfind_iff(2) [OF u(1), of k' m] u(2,3) h0 by auto
    qed
    then have "hfind ?T' k' = (if k' = k then None else hfind T k')" for k'
      using hmap.lookup_unlink [OF inv k] by simp
    then show ?thesis using r i True by simp
  qed
qed

lemma filter_clear_fork:
  "fork_index vn xs < length xs \<Longrightarrow>
     xs ! fork_index vn xs = Some vn \<and>
     Suc (length (filter (\<lambda>x. x \<noteq> None) (xs[fork_index vn xs := None]))) = length (filter (\<lambda>x. x \<noteq> None) xs)"
  by (induction xs) auto

lemma filter_set_fork:
  "i < length xs \<Longrightarrow> xs ! i = None \<Longrightarrow>
     length (filter (\<lambda>x. x \<noteq> None) (xs[i := Some vn])) = Suc (length (filter (\<lambda>x. x \<noteq> None) xs))"
  by (induction xs arbitrary: i) (auto simp: less_Suc_eq_0_disj)

lemma attach_failed_ok:
  assumes inv: "hn_inv T" and k: "hfind T k = Some n" and h: "hheap T n = Some h" and at: "attachOutstanding h"
  shows "\<exists>s T' h'. HNodeAttachVNodeFailed n T = Done (s, T') \<and> hn_inv T' \<and>
    (s \<longleftrightarrow> (\<forall>x \<in> set (forkVNodes h). x = None)) \<and>
    (\<forall>k'. hfind T' k' = (if k' = k \<and> s then None else hfind T k')) \<and>
    hheap T' n = Some h' \<and> \<not> attachOutstanding h' \<and> \<not> waiting h' \<and> forkVNodes h' = forkVNodes h \<and>
    (waiting h \<longrightarrow> n \<in> set (hwakeups T'))"
proof -
  let ?A = "HNodeAttachComplete n h T"
  let ?h = "h\<lparr>attachOutstanding := False, waiting := False\<rparr>"
  note a = attach_complete_node [of n h T]
  have "hnode_ok h" using tabled_node [OF inv, of n] hfind_iff(2) [OF inv, of k n] k h by auto
  then have "forkVNodes ?h \<noteq> []" "forkVNodesCount ?h = fork_refs ?h + 1"
    using at by (simp_all add: hnode_ok_def fork_refs_def)
  from decrement_ok [of "snd ?A" k n h ?h, OF _ _ _ _ this] inv k h a
  obtain T' where d: "HNodeForkVNodeDecrement n ?h (snd ?A) = Done (fork_refs ?h = 0, T')" "hn_inv T'"
    "\<forall>k'. hfind T' k' = (if k' = k \<and> fork_refs ?h = 0 then None else hfind T k')"
    "hheap T' n = Some (?h\<lparr>forkVNodesCount := fork_refs ?h\<rparr>)" by auto
  have r: "HNodeAttachVNodeFailed n T = Done (fork_refs ?h = 0, T')"
    using h d(1) a(1) by (simp add: HNodeAttachVNodeFailed_def hnode_at_def case_prod_beta)
  have "fork_refs ?h = 0 \<longleftrightarrow> (\<forall>x \<in> set (forkVNodes h). x = None)"
    by (auto simp: fork_refs_def filter_empty_conv)
  moreover have "waiting h \<longrightarrow> n \<in> set (hwakeups T')"
    using d(1) by (auto simp: HNodeForkVNodeDecrement_def HNodeAttachComplete_def Let_def put_hnode_def
        chain_remove_def bind_outcome_Done_iff split: if_splits)
  ultimately show ?thesis using r d by auto
qed

lemma detach_ok:
  assumes inv: "hn_inv T" and k: "hfind T k = Some n" and h: "hheap T n = Some h"
    and vn: "Some vn \<in> set (forkVNodes h)"
  shows "\<exists>s T' i. HNodeDetachVNode n vn T = Done (s, T') \<and> hn_inv T' \<and>
    i < forkVNodesSize h \<and> forkVNodes h ! i = Some vn \<and>
    (s \<longleftrightarrow> (\<forall>x \<in> set ((forkVNodes h)[i := None]). x = None) \<and> \<not> attachOutstanding h) \<and>
    (\<forall>k'. hfind T' k' = (if k' = k \<and> s then None else hfind T k')) \<and>
    \<not> vn_fsref T' vn \<and> vn_fsnode T' vn = None"
proof -
  let ?i = "fork_index vn (forkVNodes h)"
  let ?h = "h\<lparr>forkVNodes := (forkVNodes h)[?i := None]\<rparr>"
  let ?T = "T\<lparr>vn_fsref := (vn_fsref T)(vn := False), vn_fsnode := (vn_fsnode T)(vn := None)\<rparr>"
  have i: "?i < forkVNodesSize h" using vn
  proof (induction "forkVNodes h" arbitrary: h)
    case Nil then show ?case by simp
  next
    case (Cons x xs)
    have "fork_index vn ys < length ys" if "Some vn \<in> set ys" for ys using that by (induction ys) auto
    then show ?case using Cons.prems by simp
  qed
  note fc = filter_clear_fork [OF i]
  have ok: "hnode_ok h" using tabled_node [OF inv, of n] hfind_iff(2) [OF inv, of k n] k h by auto
  have p: "forkVNodes ?h \<noteq> []" "forkVNodesCount ?h = fork_refs ?h + 1"
    using ok fc by (auto simp: hnode_ok_def fork_refs_def)
  have T: "hn_inv ?T" "hfind ?T k' = hfind T k'" "hheap ?T = hheap T" for k'
    using inv by (simp_all add: hfind_def HNodeFind_def)
  from decrement_ok [of ?T k n h ?h, OF _ _ _ _ p] T k h
  obtain T' where d: "HNodeForkVNodeDecrement n ?h ?T = Done (fork_refs ?h = 0, T')" "hn_inv T'"
    "\<forall>k'. hfind T' k' = (if k' = k \<and> fork_refs ?h = 0 then None else hfind T k')"
    "hheap T' n = Some (?h\<lparr>forkVNodesCount := fork_refs ?h\<rparr>)" by auto
  have r: "HNodeDetachVNode n vn T = Done (fork_refs ?h = 0, T')"
    using h d(1) i by (simp add: HNodeDetachVNode_def hnode_at_def Let_def)
  have "fork_refs ?h = 0 \<longleftrightarrow> (\<forall>x \<in> set ((forkVNodes h)[?i := None]). x = None) \<and> \<not> attachOutstanding h"
    by (auto simp: fork_refs_def filter_empty_conv)
  moreover have "\<not> vn_fsref T' vn \<and> vn_fsnode T' vn = None"
    using d(1) by (auto simp: HNodeForkVNodeDecrement_def Let_def put_hnode_def
        chain_remove_def bind_outcome_Done_iff split: if_splits)
  ultimately show ?thesis
    using r d i fc by (intro exI [where x = "fork_refs ?h = 0"] exI [where x = T'] exI [where x = ?i]) simp
qed

lemma attach_succeeded_ok:
  assumes inv: "hn_inv T" and k: "hfind T k = Some n" and h: "hheap T n = Some h"
    and at: "attachOutstanding h" and i: "i < forkVNodesSize h" "forkVNodes h ! i = None"
  shows "\<exists>T' h'. HNodeAttachVNodeSucceeded n i vn T = Done T' \<and> hn_inv T' \<and>
    (\<forall>k'. hfind T' k' = hfind T k') \<and> hheap T' n = Some h' \<and> \<not> attachOutstanding h' \<and>
    forkVNodes h' = (forkVNodes h)[i := Some vn] \<and> vn_fsref T' vn \<and>
    (waiting h \<longrightarrow> n \<in> set (hwakeups T'))"
proof -
  let ?A = "snd (HNodeAttachComplete n h T)"
  let ?h = "h\<lparr>attachOutstanding := False, waiting := False, forkVNodes := (forkVNodes h)[i := Some vn]\<rparr>"
  note a = attach_complete_node [of n h T]
  let ?T' = "(put_hnode n ?h ?A)\<lparr>vn_fsref := (vn_fsref ?A)(vn := True)\<rparr>"
  have r: "HNodeAttachVNodeSucceeded n i vn T = Done ?T'"
    using h i a(1) by (simp add: HNodeAttachVNodeSucceeded_def hnode_at_def case_prod_beta)
  have "hnode_ok h" using tabled_node [OF inv, of n] hfind_iff(2) [OF inv, of k n] k h by auto
  then have ok: "hnode_ok ?h" using at filter_set_fork [OF i, of vn] by (auto simp: hnode_ok_def fork_refs_def)
  have "hn_inv ?A" "hfind ?A k = Some n" "hheap ?A n = Some h" using inv k h a by simp_all
  from hfind_put [OF this, of ?h] ok
  have "hn_inv (put_hnode n ?h ?A)" "hfind (put_hnode n ?h ?A) k' = hfind ?A k'" for k' by simp_all
  then have "hn_inv ?T'" "hfind ?T' k' = hfind T k'" for k'
    using a(5) by (simp_all add: hfind_def HNodeFind_def)
  moreover have "waiting h \<longrightarrow> n \<in> set (hwakeups ?T')"
    by (simp add: HNodeAttachComplete_def Let_def put_hnode_def)
  ultimately show ?thesis using r
    by (intro exI [where x = ?T'] exI [where x = ?h]) simp
qed

section \<open>A concrete table\<close>

definition empty_table :: hstate where
  "empty_table =
     snd (HNodeInit True (Some 4) 0x4d414346 200
       \<lparr>gMagic = 0, gFSNodeSize = 0, gHashMutex = False, gHashTable = None, gHashNodeCount = 0,
        hheap = (\<lambda>_. None), hbrk = 0, hcnt = fuse_counters_init, hwakeups = [],
        vn_fsnode = (\<lambda>_. None), vn_fsref = (\<lambda>_. False)\<rparr>)"

definition quiet_gap :: hgap where
  "quiet_gap = \<lparr>g_run = id, g_getwithvid = (\<lambda>_. 0)\<rparr>"

lemma empty_table_inv: "hn_inv empty_table"
proof -
  have "\<exists>k. length (replicate 4 ([] :: hid list)) = 2 ^ k \<and> k < 64" by (rule exI [where x = 2]) simp
  then show ?thesis
    by (simp add: hn_inv_def empty_table_def HNodeInit_def chains_ok_def)
qed

lemma hfind_empty_table [simp]: "hfind empty_table k = None"
  using hfind_None_iff [OF empty_table_inv]
  by (simp add: key_free_def tabled_def empty_table_def HNodeInit_def)

lemma gap_ok_quiet: "gap_ok quiet_gap"
  by (auto simp: gap_ok_def quiet_gap_def)

lemma osm_always_zero: "osm_always zero_osm"
  by (simp add: osm_always_def zero_osm_def)

section \<open>Properties\<close>

text \<open>
  C4: a lookup keeps the table consistent whatever other threads do. As long as the others keep the
  invariant while the mutex is dropped and memory can be had, the lookup never panics and never
  touches freed memory; the table still has at most one node for each key, with exact reference counts;
  and a node it returns is the one in the table under the key that was asked for: with the vnode of
  the fork, or without one and then reserved for the caller to attach it.
\<close>

theorem node_lookup_sound:
  assumes "hn_inv T" and "\<And>g. g \<in> set gaps \<Longrightarrow> gap_ok g" and "osm_always osm"
  shows "\<exists>r T'. HNodeLookupCreatingIfNecessary osm gaps dev ino i T = Done (r, T') \<and> hn_inv T' \<and>
    (\<forall>n vn. r = Some (n, vn) \<longrightarrow> hfind T' (dev, ino) = Some n \<and>
       (\<exists>h. hheap T' n = Some h \<and> i < forkVNodesSize h \<and> forkVNodes h ! i = vn \<and>
          (vn = None \<longrightarrow> attachOutstanding h)))"
  using lookup_loop_ok [OF assms(1) _ assms(3), of gaps dev ino i None False] assms(2)
  by (simp add: HNodeLookupCreatingIfNecessary_def private_ok_def lookup_result_def)

theorem node_lookup_sound_witness:
  "\<exists>r T'. HNodeLookupCreatingIfNecessary zero_osm [quiet_gap, quiet_gap, quiet_gap] 5 9 0 empty_table =
     Done (r, T') \<and> hn_inv T'"
  using node_lookup_sound [OF empty_table_inv _ osm_always_zero,
      of "[quiet_gap, quiet_gap, quiet_gap]" 5 9 0] gap_ok_quiet by auto

lemma quiet_alloc:
  assumes "osm_always osm"
  shows "\<exists>m c. alloc_hnode osm dev ino i T = Done (new_hnode m dev ino i, T\<lparr>hcnt := c\<rparr>)"
proof -
  obtain b1 g1 where m1: "FUSE_OSMalloc osm (sizeof_HNode + gFSNodeSize T) (hcnt T) = Done (b1, g1)"
    using OSMalloc_always [OF assms] by blast
  obtain b2 g2 where m2: "FUSE_OSMalloc osm (sizeof_vnode_t * (i + 1)) g1 = Done (b2, g2)"
    using OSMalloc_always [OF assms] by blast
  show ?thesis using m1 m2 by (cases "i = 0") (auto simp: alloc_hnode_def)
qed

lemma lookup_creates:
  assumes inv: "hn_inv T" and osm: "osm_always osm" and free: "hfind T (dev, ino) = None"
  shows "\<exists>m c. HNodeLookupCreatingIfNecessary osm (quiet_gap # quiet_gap # gs) dev ino i T =
    Done (Some (hbrk T, None),
      link_node ((new_hnode m dev ino i)\<lparr>attachOutstanding := True, forkVNodesCount := 1\<rparr>) (T\<lparr>hcnt := c\<rparr>))"
proof -
  obtain m c where a: "alloc_hnode osm dev ino i T = Done (new_hnode m dev ino i, T\<lparr>hcnt := c\<rparr>)"
    using quiet_alloc [OF osm] by blast
  let ?T = "T\<lparr>hcnt := c\<rparr>"
  have inv': "hn_inv ?T" "hfind ?T (dev, ino) = None" using inv free by simp_all
  have r1: "lookup_round osm dev ino i quiet_gap None False T =
      Done (Again (Some (new_hnode m dev ino i)) False, ?T)"
    using a hfind_iff(1) [OF inv] free by (simp add: lookup_round_def quiet_gap_def)
  have r2: "lookup_round osm dev ino i quiet_gap (Some (new_hnode m dev ino i)) False ?T =
      Done (Found (hbrk T) None None,
        link_node ((new_hnode m dev ino i)\<lparr>attachOutstanding := True, forkVNodesCount := 1\<rparr>) ?T)"
    using lookup_link_ok [OF inv', of m i osm quiet_gap False] hfind_iff(1) [OF inv'(1)] inv'(2)
    by (auto simp: lookup_round_def Let_def)
  show ?thesis
    unfolding HNodeLookupCreatingIfNecessary_def using r1 r2 by (auto simp: lookup_cleanup_def)
qed

text \<open>
  C34: a lookup comes to an end. When no other thread interferes and no attach of the node is
  outstanding, three rounds are enough, whether the node has to be created, its array of forks has
  to grow, or it is there already.
\<close>

theorem node_lookup_returns:
  assumes "hn_inv T" and "osm_always osm"
    and "\<And>n h. hfind T (dev, ino) = Some n \<Longrightarrow> hheap T n = Some h \<Longrightarrow> \<not> attachOutstanding h"
  shows "\<exists>n vn T'. HNodeLookupCreatingIfNecessary osm [quiet_gap, quiet_gap, quiet_gap] dev ino i T =
    Done (Some (n, vn), T')"
proof (cases "hfind T (dev, ino)")
  case None
  then show ?thesis using lookup_creates [OF assms(1,2) None] by blast
next
  case (Some n)
  have "n \<in> set (tabled T)" using assms(1) Some hfind_iff(2) by blast
  then obtain h where h: "hheap T n = Some h" "hnode_ok h" using tabled_node [OF assms(1)] by blast
  have na: "\<not> attachOutstanding h" using assms(3) Some h by blast
  have fd: "HNodeFind T dev ino = Done (Some n)" using hfind_iff(1) [OF assms(1)] Some by simp
  have hit: "\<exists>vn nn T'. lookup_round osm dev ino i quiet_gap None b T2 = Done (Found n vn nn, T')"
    if "HNodeFind T2 dev ino = Done (Some n)" "hheap T2 n = Some h2" "\<not> attachOutstanding h2"
      "i < forkVNodesSize h2" for T2 h2 b
    using that by (cases "forkVNodes h2 ! i")
      (auto simp: lookup_round_def lookup_check_def hnode_at_def quiet_gap_def Let_def)
  show ?thesis
  proof (cases "i < forkVNodesSize h")
    case True
    then show ?thesis using hit [OF fd h(1) na True, of False] by (auto simp: HNodeLookupCreatingIfNecessary_def)
  next
    case False
    obtain b c where m: "FUSE_OSMalloc osm (sizeof_vnode_t * (i + 1)) (hcnt T) = Done (b, c)"
      using OSMalloc_always [OF assms(2)] by blast
    let ?T1 = "T\<lparr>hcnt := c\<rparr>" and ?T2 = "grow_forks n h i (T\<lparr>hcnt := c\<rparr>)"
    let ?h2 = "h\<lparr>forkVNodes := forkVNodes h @ replicate (i + 1 - forkVNodesSize h) None\<rparr>"
    have r1: "lookup_round osm dev ino i quiet_gap None False T = Done (Again None True, ?T1)"
      using fd h na False m by (simp add: lookup_round_def lookup_check_def hnode_at_def quiet_gap_def)
    have fd1: "HNodeFind ?T1 dev ino = Done (Some n)" using fd by (simp add: HNodeFind_def)
    have r2: "lookup_round osm dev ino i quiet_gap None True ?T1 = Done (Again None False, ?T2)"
      using fd1 h na False by (simp add: lookup_round_def lookup_check_def hnode_at_def quiet_gap_def)
    have i1: "hn_inv ?T1" "hfind ?T1 (dev, ino) = Some n" "hheap ?T1 n = Some h" using assms(1) Some h by simp_all
    have "hn_inv (put_hnode n ?h2 ?T1)" "hfind (put_hnode n ?h2 ?T1) (dev, ino) = Some n"
      using hfind_put [OF i1, of ?h2] h(2) i1(2) by simp_all
    then have "hn_inv ?T2" "hfind ?T2 (dev, ino) = Some n" "hheap ?T2 n = Some ?h2"
      by (simp_all add: grow_forks_def Let_def)
    then have "HNodeFind ?T2 dev ino = Done (Some n)" "hheap ?T2 n = Some ?h2" using hfind_iff(1) by simp_all
    then obtain vn nn T' where "lookup_round osm dev ino i quiet_gap None False ?T2 = Done (Found n vn nn, T')"
      using hit [of ?T2 ?h2 False] na False by auto
    then show ?thesis using r1 r2 by (simp add: HNodeLookupCreatingIfNecessary_def)
  qed
qed

theorem node_lookup_returns_witness:
  "\<exists>n vn T'. HNodeLookupCreatingIfNecessary zero_osm [quiet_gap, quiet_gap, quiet_gap] 5 9 2 empty_table =
    Done (Some (n, vn), T')"
  by (rule node_lookup_returns [OF empty_table_inv osm_always_zero]) simp

text \<open>
  C5: a node lives exactly as long as something refers to it. Detaching a vnode, and giving up an
  attach, unlink the node from the table when no other vnode and no attach refers to it, and tell
  the caller so; otherwise the node stays under its key. No other key is affected and the invariant is
  kept. Giving up an attach wakes the threads that wait for the node; detaching clears what the
  kernel recorded for the vnode.
\<close>

theorem node_lives_while_referenced:
  assumes "hn_inv T" and "hfind T k = Some n" and "hheap T n = Some h"
  shows "(Some vn \<in> set (forkVNodes h) \<longrightarrow>
      (\<exists>s T' i. HNodeDetachVNode n vn T = Done (s, T') \<and> hn_inv T' \<and>
        i < forkVNodesSize h \<and> forkVNodes h ! i = Some vn \<and>
        (s \<longleftrightarrow> (\<forall>x \<in> set ((forkVNodes h)[i := None]). x = None) \<and> \<not> attachOutstanding h) \<and>
        (\<forall>k'. hfind T' k' = (if k' = k \<and> s then None else hfind T k')) \<and>
        \<not> vn_fsref T' vn \<and> vn_fsnode T' vn = None)) \<and>
    (attachOutstanding h \<longrightarrow>
      (\<exists>s T'. HNodeAttachVNodeFailed n T = Done (s, T') \<and> hn_inv T' \<and>
        (s \<longleftrightarrow> (\<forall>x \<in> set (forkVNodes h). x = None)) \<and>
        (\<forall>k'. hfind T' k' = (if k' = k \<and> s then None else hfind T k')) \<and>
        (waiting h \<longrightarrow> n \<in> set (hwakeups T'))))"
proof (intro conjI impI)
  assume v: "Some vn \<in> set (forkVNodes h)"
  show "\<exists>s T' i. HNodeDetachVNode n vn T = Done (s, T') \<and> hn_inv T' \<and>
        i < forkVNodesSize h \<and> forkVNodes h ! i = Some vn \<and>
        (s \<longleftrightarrow> (\<forall>x \<in> set ((forkVNodes h)[i := None]). x = None) \<and> \<not> attachOutstanding h) \<and>
        (\<forall>k'. hfind T' k' = (if k' = k \<and> s then None else hfind T k')) \<and>
        \<not> vn_fsref T' vn \<and> vn_fsnode T' vn = None"
    by (rule detach_ok [OF assms v])
next
  assume "attachOutstanding h"
  then show "\<exists>s T'. HNodeAttachVNodeFailed n T = Done (s, T') \<and> hn_inv T' \<and>
        (s \<longleftrightarrow> (\<forall>x \<in> set (forkVNodes h). x = None)) \<and>
        (\<forall>k'. hfind T' k' = (if k' = k \<and> s then None else hfind T k')) \<and>
        (waiting h \<longrightarrow> n \<in> set (hwakeups T'))"
    using attach_failed_ok [OF assms] by blast
qed

definition sample_hnode :: hnode where
  "sample_hnode = \<lparr>h_magic = 0x4d414346, h_dev = 5, h_ino = 9, attachOutstanding = False, waiting = False,
     forkVNodes = [Some 70, None, Some 71], forkVNodesCount = 2\<rparr>"

lemma sample_table:
  "hn_inv (link_node sample_hnode empty_table)"
  "hfind (link_node sample_hnode empty_table) (5, 9) = Some 0"
  "hheap (link_node sample_hnode empty_table) 0 = Some sample_hnode"
proof -
  have ok: "hnode_ok sample_hnode" by (simp add: hnode_ok_def fork_refs_def sample_hnode_def)
  have b: "hbrk empty_table = 0" by (simp add: empty_table_def HNodeInit_def)
  have k: "hkey sample_hnode = (5, 9)" by (simp add: sample_hnode_def)
  show "hn_inv (link_node sample_hnode empty_table)"
    by (rule hmap.ok_link [OF empty_table_inv ok]) simp
  show "hfind (link_node sample_hnode empty_table) (5, 9) = Some 0"
    using hmap.lookup_link [OF empty_table_inv ok, of "(5, 9)"] k b by simp
  show "hheap (link_node sample_hnode empty_table) 0 = Some sample_hnode"
    using link_node_ok(3) [OF empty_table_inv _ ok] hfind_None_iff [OF empty_table_inv] b by simp
qed

theorem node_lives_while_referenced_witness:
  "\<exists>T'. HNodeDetachVNode 0 71 (link_node sample_hnode empty_table) = Done (False, T') \<and>
     hfind T' (5, 9) = Some 0"
proof -
  let ?T = "link_node sample_hnode empty_table"
  have v: "Some 71 \<in> set (forkVNodes sample_hnode)" by (simp add: sample_hnode_def)
  obtain s T' i where d: "HNodeDetachVNode 0 71 ?T = Done (s, T')" "i < forkVNodesSize sample_hnode"
    "forkVNodes sample_hnode ! i = Some 71"
    "s \<longleftrightarrow> (\<forall>x \<in> set ((forkVNodes sample_hnode)[i := None]). x = None) \<and> \<not> attachOutstanding sample_hnode"
    "\<forall>k'. hfind T' k' = (if k' = (5, 9) \<and> s then None else hfind ?T k')"
    using node_lives_while_referenced [OF sample_table, of 71] v by blast
  have "i = 2" using d(2,3) by (auto simp: sample_hnode_def less_Suc_eq)
  then have "\<not> s" using d(4) by (simp add: sample_hnode_def)
  then show ?thesis using d(1,5) sample_table(2) by simp
qed

text \<open>
  Creating a node and giving it up leaves no trace. When a lookup creates the node of a key and
  the caller's attach fails, the node is reported for scrubbing, every key is found as before the
  lookup, and scrubbing it frees it.
\<close>

lemma node_create_and_give_up:
  assumes "hn_inv T" and "osm_always osm" and "hfind T (dev, ino) = None"
  shows "\<exists>n T1 T2 T3. HNodeLookupCreatingIfNecessary osm (quiet_gap # quiet_gap # gs) dev ino i T =
      Done (Some (n, None), T1) \<and> HNodeAttachVNodeFailed n T1 = Done (True, T2) \<and> hn_inv T2 \<and>
    (\<forall>k. hfind T2 k = hfind T k) \<and> HNodeScrubDone n T2 = Done T3 \<and> hheap T3 n = None"
proof -
  obtain m c where l: "HNodeLookupCreatingIfNecessary osm (quiet_gap # quiet_gap # gs) dev ino i T =
    Done (Some (hbrk T, None),
      link_node ((new_hnode m dev ino i)\<lparr>attachOutstanding := True, forkVNodesCount := 1\<rparr>) (T\<lparr>hcnt := c\<rparr>))"
    using lookup_creates [OF assms] by blast
  let ?h = "(new_hnode m dev ino i)\<lparr>attachOutstanding := True, forkVNodesCount := 1\<rparr>"
  let ?T = "T\<lparr>hcnt := c\<rparr>"
  let ?T1 = "link_node ?h ?T"
  have ok: "hnode_ok ?h" by (simp add: hnode_ok_def fork_refs_def new_hnode_def filter_replicate)
  have k: "hkey ?h = (dev, ino)" by (simp add: new_hnode_def)
  have inv: "hn_inv ?T" "hfind ?T (hkey ?h) = None" using assms k by simp_all
  note lk = hmap.lookup_link [OF inv(1) ok inv(2)]
  have f: "hfind ?T1 (dev, ino) = Some (hbrk T)" using lk [of "(dev, ino)"] k by simp
  have hh: "hheap ?T1 (hbrk T) = Some ?h"
    using link_node_ok(3) [OF inv(1) _ ok] hfind_None_iff [OF inv(1)] inv(2) by simp
  have i1: "hn_inv ?T1" by (rule hmap.ok_link [OF inv(1) ok inv(2)])
  have all: "\<forall>x \<in> set (forkVNodes ?h). x = None" by (simp add: new_hnode_def)
  obtain T2 h' where a: "HNodeAttachVNodeFailed (hbrk T) ?T1 = Done (True, T2)" "hn_inv T2"
    "\<forall>k'. hfind T2 k' = (if k' = (dev, ino) then None else hfind ?T1 k')" "hheap T2 (hbrk T) = Some h'"
    using attach_failed_ok [OF i1 f hh] all by auto
  have "hfind T2 k' = hfind T k'" for k'
    using a(3) [rule_format, of k'] lk [of k'] k assms(3) by (cases "k' = (dev, ino)") auto
  then show ?thesis using l a by (simp add: HNodeScrubDone_def hnode_at_def Let_def)
qed

lemma node_create_and_give_up_witness:
  "\<exists>n T1 T2. HNodeLookupCreatingIfNecessary zero_osm [quiet_gap, quiet_gap] 5 9 0 empty_table =
      Done (Some (n, None), T1) \<and> HNodeAttachVNodeFailed n T1 = Done (True, T2) \<and> hfind T2 (5, 9) = None"
  using node_create_and_give_up [OF empty_table_inv osm_always_zero, of 5 9 "[]" 0] by auto

text \<open>
  a vnode that was attached is found. After a lookup reserved the node and the caller attached
  its vnode, the quick lookup returns that node and that vnode, and other keys are found as before.
\<close>

lemma node_attach_then_find:
  assumes "hn_inv T" and "hfind T (dev, ino) = Some n" and "hheap T n = Some h" and "attachOutstanding h"
    and "i < forkVNodesSize h" and "forkVNodes h ! i = None"
  shows "\<exists>T'. HNodeAttachVNodeSucceeded n i vn T = Done T' \<and> hn_inv T' \<and>
    (\<forall>k. hfind T' k = hfind T k) \<and>
    HNodeLookupRealQuickIfExists quiet_gap dev ino i T' = Done (0, Some (n, vn), T') \<and>
    HNodeGetVNodeForForkAtIndex T' n i = Done (Some vn)"
proof -
  obtain T' h' where a: "HNodeAttachVNodeSucceeded n i vn T = Done T'" "hn_inv T'"
    "\<forall>k'. hfind T' k' = hfind T k'" "hheap T' n = Some h'" "\<not> attachOutstanding h'"
    "forkVNodes h' = (forkVNodes h)[i := Some vn]"
    using attach_succeeded_ok [OF assms] by blast
  have "HNodeFind T' dev ino = Done (Some n)" using hfind_iff(1) [OF a(2)] a(3) assms(2) by simp
  then show ?thesis
    using a assms(5)
    by (simp add: HNodeLookupRealQuickIfExists_def HNodeGetVNodeForForkAtIndex_def hnode_at_def
        quiet_gap_def Let_def)
qed

lemma node_attach_then_find_witness:
  "\<exists>n T1 T'. HNodeLookupCreatingIfNecessary zero_osm [quiet_gap, quiet_gap] 5 9 0 empty_table =
      Done (Some (n, None), T1) \<and> HNodeAttachVNodeSucceeded n 0 70 T1 = Done T' \<and>
     HNodeLookupRealQuickIfExists quiet_gap 5 9 0 T' = Done (0, Some (n, 70), T')"
proof -
  obtain m c where l: "HNodeLookupCreatingIfNecessary zero_osm [quiet_gap, quiet_gap] 5 9 0 empty_table =
    Done (Some (hbrk empty_table, None),
      link_node ((new_hnode m 5 9 0)\<lparr>attachOutstanding := True, forkVNodesCount := 1\<rparr>) (empty_table\<lparr>hcnt := c\<rparr>))"
    using lookup_creates [OF empty_table_inv osm_always_zero, of 5 9 "[]" 0] by auto
  let ?T1 = "link_node ((new_hnode m 5 9 0)\<lparr>attachOutstanding := True, forkVNodesCount := 1\<rparr>)
      (empty_table\<lparr>hcnt := c\<rparr>)"
  have g: "\<And>g. g \<in> set [quiet_gap, quiet_gap] \<Longrightarrow> gap_ok g" using gap_ok_quiet by simp
  have "\<exists>r T'. lookup_loop zero_osm 5 9 0 [quiet_gap, quiet_gap] None False empty_table = Done (r, T') \<and>
      hn_inv T' \<and> (\<forall>n vn. r = Some (n, vn) \<longrightarrow> lookup_result (5, 9) 0 n vn T')"
    by (rule lookup_loop_ok [OF empty_table_inv _ osm_always_zero]) (simp_all add: gap_ok_quiet private_ok_def)
  then have "hn_inv ?T1" "lookup_result (5, 9) 0 (hbrk empty_table) None ?T1"
    using l by (auto simp: HNodeLookupCreatingIfNecessary_def)
  then obtain h where "hfind ?T1 (5, 9) = Some (hbrk empty_table)" "hheap ?T1 (hbrk empty_table) = Some h"
    "attachOutstanding h" "0 < forkVNodesSize h" "forkVNodes h ! 0 = None"
    by (auto simp: lookup_result_def)
  from node_attach_then_find [OF \<open>hn_inv ?T1\<close> this, of 70] l show ?thesis by blast
qed

text \<open>
  The debugging snapshot of the table misses the last chain. Its loop stops before the last
  bucket, so when that chain is not empty it copies fewer nodes than the table has, and the
  assertion that follows it is false.
\<close>

lemma print_state_misses_last_chain:
  assumes "hn_inv T" and "gHashTable T = Some tab" and "last tab \<noteq> []"
  shows "\<exists>ns. HNodePrintState_snapshot T = Done ns \<and> int (length ns) < gHashNodeCount T"
proof -
  obtain tab' k where t: "gHashTable T = Some tab'" "length tab' = 2 ^ k"
    "gHashNodeCount T = int (length (concat tab'))" using assms(1) by (rule hn_invE)
  then have tab: "tab' = tab" "tab \<noteq> []" using assms(2) by auto
  then have "concat tab = concat (butlast tab) @ last tab"
    by (metis append_butlast_last_id concat.simps concat_append append_Nil2)
  then show ?thesis
    using assms(2,3) t(3) tab by (simp add: HNodePrintState_snapshot_def butlast_conv_take)
qed

lemma print_state_misses_last_chain_witness:
  "\<exists>ns. HNodePrintState_snapshot (link_node (sample_hnode\<lparr>h_ino := 10\<rparr>) empty_table) = Done ns \<and>
     int (length ns) < gHashNodeCount (link_node (sample_hnode\<lparr>h_ino := 10\<rparr>) empty_table)"
proof (rule print_state_misses_last_chain)
  have ok: "hnode_ok (sample_hnode\<lparr>h_ino := 10\<rparr>)" by (simp add: hnode_ok_def fork_refs_def sample_hnode_def)
  show "hn_inv (link_node (sample_hnode\<lparr>h_ino := 10\<rparr>) empty_table)"
    by (rule hmap.ok_link [OF empty_table_inv ok]) simp
  have b: "HNodeGetFirstFromHashTable (replicate 4 []) 5 10 = 3"
    by (simp add: HNodeGetFirstFromHashTable_def bucket_of_def)
  show "gHashTable (link_node (sample_hnode\<lparr>h_ino := 10\<rparr>) empty_table) = Some [[], [], [], [0]]"
    using b by (simp add: link_node_def empty_table_def HNodeInit_def sample_hnode_def Let_def numeral_eq_Suc)
  show "last [[], [], [], [0]] \<noteq> ([] :: hid list)" by simp
qed

end
