(* ===== verification/Fuse_Main.thy ===== *)
theory Fuse_Main
  imports Fuse_Exchange Fuse_Nodehash
begin

text \<open>
  Start and stop of the kernel module (\<^verbatim>\<open>fuse_main.c\<close>), which compose the start of the
  table of nodes and of the devices with what the module registers and allocates itself, and the
  handlers of its settings (\<^verbatim>\<open>fuse_sysctl.c\<close>). Messages to the system log are left out, and so
  are the locks that exist only with the huge lock or with lock logging, which the build leaves off.
\<close>

section \<open>The module\<close>

record fuse_kmod =
  km_malloc_tag :: bool
  km_lock_attr :: bool
  km_group_attr :: bool
  km_lock_group :: bool
  km_device_mutex :: bool
  km_table_ref :: bool
  km_registered :: bool
  km_hash :: hstate
  km_devices :: devices
  km_oids :: "string list"

text \<open>
  What the kernel does when it is asked: whether an allocation succeeds, how many chains
  \<^verbatim>\<open>hashinit\<close> makes, the size the compiler gives the data of a file, the results of adding and removing the file system, the major number, and
  for which units a device node can be made.
\<close>

record kmod_env =
  ke_malloc_tag :: bool
  ke_lock_attr :: bool
  ke_group_attr :: bool
  ke_lock_group :: bool
  ke_device_mutex :: bool
  ke_hash_mutex :: bool
  ke_buckets :: "nat option"
  ke_fsnode_size :: nat
  ke_fsadd :: errno
  ke_fsremove :: errno
  ke_major :: int
  ke_mknode :: "nat \<Rightarrow> bool"

definition KERN_FAILURE :: int where "KERN_FAILURE = 5"
definition kHNodeMagic :: u32 where "kHNodeMagic = 0x484E4F44"

text \<open>The mutex needs its group to be freed: a missing group would be a null pointer there.\<close>

definition fini_stuff :: "fuse_kmod \<Rightarrow> fuse_kmod outcome" where
  "fini_stuff m =
     (if km_device_mutex m \<and> \<not> km_lock_group m then BadAccess
      else Done (m\<lparr>km_device_mutex := False, km_lock_group := False, km_malloc_tag := False,
                   km_lock_attr := False, km_group_attr := False\<rparr>))"

text \<open>The attributes of locks are used without a test for a null pointer.\<close>

definition init_stuff :: "kmod_env \<Rightarrow> fuse_kmod \<Rightarrow> (int \<times> fuse_kmod) outcome" where
  "init_stuff e m =
     (let ret1 = (if ke_malloc_tag e then 0 else KERN_FAILURE);
          m1 = m\<lparr>km_malloc_tag := ke_malloc_tag e, km_lock_attr := ke_lock_attr e, km_group_attr := ke_group_attr e\<rparr>
      in if \<not> ke_lock_attr e then BadAccess
         else
           let (ret2, m2) =
                 (if ret1 = 0 then (if ke_lock_group e then 0 else KERN_FAILURE, m1\<lparr>km_lock_group := ke_lock_group e\<rparr>)
                  else (ret1, m1));
               (ret3, m3) =
                 (if ret2 = 0 then (if ke_device_mutex e then 0 else ENOMEM, m2\<lparr>km_device_mutex := ke_device_mutex e\<rparr>)
                  else (ret2, m2))
           in if ret3 \<noteq> 0 then bind_outcome (fini_stuff m3) (\<lambda>m4. Done (ret3, m4)) else Done (0, m3))"

section \<open>Settings\<close>

definition fuse_sysctl_list :: "string list" where
  "fuse_sysctl_list =
     [''control'', ''counters'', ''resourceusage'', ''tunables'', ''version'', ''control_kill'',
      ''control_print_vnodes'', ''counters_filehandle_reuse'', ''counters_filehandle_upcalls'',
      ''counters_lookup_cache_hits'', ''counters_lookup_cache_misses'', ''counters_lookup_cache_overrides'',
      ''counters_memory_reallocs'', ''resourceusage_filehandles'', ''resourceusage_filehandles_zombies'',
      ''resourceusage_ipc_iovs'', ''resourceusage_ipc_tickets'', ''resourceusage_memory_bytes'',
      ''resourceusage_mounts'', ''resourceusage_vnodes'', ''tunables_admin_group'', ''tunables_allow_other'',
      ''tunables_iov_credit'', ''tunables_iov_permanent_bufsize'', ''tunables_max_freetickets'',
      ''tunables_max_tickets'', ''tunables_userkernel_bufsize'', ''version_api_major'', ''version_api_minor'',
      ''version_number'', ''version_string'']"

definition fuse_sysctl_start :: "fuse_kmod \<Rightarrow> fuse_kmod" where
  "fuse_sysctl_start m = m\<lparr>km_oids := km_oids m @ ''macfuse'' # fuse_sysctl_list\<rparr>"

definition fuse_sysctl_stop :: "fuse_kmod \<Rightarrow> fuse_kmod" where
  "fuse_sysctl_stop m =
     (let m1 = fold (\<lambda>oid m. m\<lparr>km_oids := remove1 oid (km_oids m)\<rparr>) fuse_sysctl_list m
      in m1\<lparr>km_oids := remove1 ''macfuse'' (km_oids m1)\<rparr>)"

section \<open>Start and stop\<close>

text \<open>The end of a start that failed, at its label \<^verbatim>\<open>error\<close>.\<close>

definition start_error :: "kmod_env \<Rightarrow> fuse_kmod \<Rightarrow> (int \<times> fuse_kmod) outcome" where
  "start_error e m =
     (let m1 = (if km_table_ref m then m\<lparr>km_registered := (if ke_fsremove e = 0 then False else km_registered m)\<rparr>
                else m)
      in bind_outcome (fini_stuff (m1\<lparr>km_hash := HNodeTerm (km_hash m1)\<rparr>)) (\<lambda>m2. Done (KERN_FAILURE, m2)))"

definition fusefs_start :: "kmod_env \<Rightarrow> fuse_kmod \<Rightarrow> (int \<times> fuse_kmod) outcome" where
  "fusefs_start e m =
     bind_outcome (init_stuff e m) (\<lambda>(ret, m1).
       if ret \<noteq> 0 then Done (KERN_FAILURE, m1)
       else (case HNodeInit (ke_hash_mutex e) (ke_buckets e) kHNodeMagic (ke_fsnode_size e) (km_hash m1) of
         (ret1, T) \<Rightarrow>
           let m2 = m1\<lparr>km_hash := T\<rparr>
           in if ret1 \<noteq> 0 then start_error e m2
              else if ke_fsadd e \<noteq> 0 then start_error e (m2\<lparr>km_table_ref := False\<rparr>)
              else
                let m3 = m2\<lparr>km_table_ref := True, km_registered := True\<rparr>
                in (case fuse_devices_start (ke_major e) (ke_mknode e) (km_devices m3) of
                      (ret2, d) \<Rightarrow>
                        let m4 = m3\<lparr>km_devices := d\<rparr>
                        in if ret2 \<noteq> 0 then start_error e m4 else Done (0, fuse_sysctl_start m4))))"

definition fusefs_stop :: "kmod_env \<Rightarrow> fuse_kmod \<Rightarrow> (int \<times> fuse_kmod) outcome" where
  "fusefs_stop e m =
     bind_outcome (fuse_devices_stop (km_devices m)) (\<lambda>(ret, d).
       let m1 = m\<lparr>km_devices := d\<rparr>
       in if ret \<noteq> 0 then Done (KERN_FAILURE, m1)
          else if ke_fsremove e \<noteq> 0 then Done (KERN_FAILURE, m1)
          else
            bind_outcome (fini_stuff (m1\<lparr>km_registered := False, km_hash := HNodeTerm (km_hash m1)\<rparr>)) (\<lambda>m2.
              Done (0, fuse_sysctl_stop m2)))"

section \<open>Handlers\<close>

text \<open>
  A request to a setting: the result of copying the old value out, the new value if there is one and
  the result of copying it in, and the process.
\<close>

record sysctl_req =
  sq_out :: errno
  sq_new :: "u32 option"
  sq_in :: errno
  sq_cred :: "ucred option"

text \<open>
  The state a handler works on. The first argument of a handler, if it is not null, is the address of the
  variable of its setting, and the new value is copied straight into it.
\<close>

record sysctl_vars =
  sv_fuse_kill :: u32
  sv_fuse_print_vnodes :: u32
  sv_tun :: fuse_tunables
  sv_devices :: devices

definition sysctl_macfuse_control_kill_handler ::
    "bool \<Rightarrow> sysctl_req \<Rightarrow> sysctl_vars \<Rightarrow> (errno \<times> sysctl_vars) outcome" where
  "sysctl_macfuse_control_kill_handler arg1 req S =
     (if sq_out req \<noteq> 0 then Done (sq_out req, S)
      else case sq_new req of
        None \<Rightarrow> Done (0, S)
      | Some x \<Rightarrow>
          if \<not> arg1 then Done (EPERM, S)
          else if sq_in req \<noteq> 0 then Done (sq_in req, S\<lparr>sv_fuse_kill := -1\<rparr>)
          else
            bind_outcome (fuse_device_kill (sint x) (sq_cred req) (sv_devices S)) (\<lambda>(error, d).
              Done (error, S\<lparr>sv_fuse_kill := -1, sv_devices := d\<rparr>)))"

definition sysctl_macfuse_control_print_vnodes_handler ::
    "(int \<Rightarrow> bool) \<Rightarrow> bool \<Rightarrow> sysctl_req \<Rightarrow> sysctl_vars \<Rightarrow> (errno \<times> sysctl_vars) outcome" where
  "sysctl_macfuse_control_print_vnodes_handler busy arg1 req S =
     (if sq_out req \<noteq> 0 then Done (sq_out req, S)
      else case sq_new req of
        None \<Rightarrow> Done (0, S)
      | Some x \<Rightarrow>
          if \<not> arg1 then Done (EPERM, S)
          else if sq_in req \<noteq> 0 then Done (sq_in req, S\<lparr>sv_fuse_print_vnodes := -1\<rparr>)
          else
            bind_outcome (fuse_device_print_vnodes busy (sint x) (sq_cred req) (sv_devices S)) (\<lambda>error.
              Done (error, S\<lparr>sv_fuse_print_vnodes := -1\<rparr>)))"

definition FUSE_MIN_USERKERNEL_BUFSIZE :: u32 where "FUSE_MIN_USERKERNEL_BUFSIZE = 0x20000"
definition FUSE_MAX_USERKERNEL_BUFSIZE :: u32 where "FUSE_MAX_USERKERNEL_BUFSIZE = 0x1000000"

definition fuse_round_page_32 :: "u32 \<Rightarrow> u32" where
  "fuse_round_page_32 x = (x + 0xFFF) AND NOT 0xFFF"

definition sysctl_macfuse_tunables_userkernel_bufsize_handler ::
    "bool \<Rightarrow> sysctl_req \<Rightarrow> sysctl_vars \<Rightarrow> errno \<times> sysctl_vars" where
  "sysctl_macfuse_tunables_userkernel_bufsize_handler arg1 req S =
     (if sq_out req \<noteq> 0 then (sq_out req, S)
      else case sq_new req of
        None \<Rightarrow> (0, S)
      | Some x \<Rightarrow>
          if \<not> arg1 then (EPERM, S)
          else if sq_in req \<noteq> 0 then (sq_in req, S)
          else
            let S1 = S\<lparr>sv_tun := (sv_tun S)\<lparr>fuse_userkernel_bufsize := x\<rparr>\<rparr>; incoming = fuse_round_page_32 x
            in if incoming > FUSE_MAX_USERKERNEL_BUFSIZE then (7, S1)
               else if incoming < FUSE_MIN_USERKERNEL_BUFSIZE then (EINVAL, S1)
               else (0, S1\<lparr>sv_tun := (sv_tun S1)\<lparr>fuse_userkernel_bufsize := incoming\<rparr>\<rparr>))"

section \<open>Starting and stopping\<close>

text \<open>Nothing is allocated or registered.\<close>

definition kmod_clean :: "fuse_kmod \<Rightarrow> bool" where
  "kmod_clean m \<longleftrightarrow> \<not> km_malloc_tag m \<and> \<not> km_lock_attr m \<and> \<not> km_group_attr m \<and> \<not> km_lock_group m \<and>
     \<not> km_device_mutex m \<and> \<not> km_registered m \<and> gHashTable (km_hash m) = None \<and> \<not> gHashMutex (km_hash m) \<and>
     (\<forall>fdev \<in> set (fuse_device_table (km_devices m)). \<not> cdev fdev) \<and> km_oids m = []"

definition kmod_running :: "fuse_kmod \<Rightarrow> bool" where
  "kmod_running m \<longleftrightarrow> km_malloc_tag m \<and> km_lock_attr m \<and> km_lock_group m \<and> km_device_mutex m \<and> km_table_ref m \<and>
     km_registered m \<and> gHashTable (km_hash m) \<noteq> None \<and> gHashMutex (km_hash m) \<and> dev_inv (km_devices m) \<and>
     fuse_cdev_major (km_devices m) \<noteq> -1 \<and> fuse_interface_available (km_devices m) \<and>
     km_oids m = ''macfuse'' # fuse_sysctl_list"

definition kmod_env_ok :: "kmod_env \<Rightarrow> bool" where
  "kmod_env_ok e \<longleftrightarrow> ke_malloc_tag e \<and> ke_lock_group e \<and> ke_device_mutex e \<and> ke_hash_mutex e \<and>
     ke_buckets e \<noteq> None \<and> ke_fsadd e = 0 \<and> ke_major e \<noteq> -1 \<and> (\<forall>i < 24. ke_mknode e i)"

lemma fold_remove1: "x \<notin> set l \<Longrightarrow> fold remove1 l (x # l) = [x]"
  by (induction l) auto

lemma sysctl_stop_oids:
  "km_oids m = ''macfuse'' # fuse_sysctl_list \<Longrightarrow> fuse_sysctl_stop m = m\<lparr>km_oids := []\<rparr>"
proof -
  have f: "fold (\<lambda>oid m. m\<lparr>km_oids := remove1 oid (km_oids m)\<rparr>) l m = m\<lparr>km_oids := fold remove1 l (km_oids m)\<rparr>" for l
    by (induction l arbitrary: m) simp_all
  have "''macfuse'' \<notin> set fuse_sysctl_list" by (simp add: fuse_sysctl_list_def)
  then have "fold remove1 fuse_sysctl_list (''macfuse'' # fuse_sysctl_list) = [''macfuse'']" by (rule fold_remove1)
  then show "km_oids m = ''macfuse'' # fuse_sysctl_list \<Longrightarrow> fuse_sysctl_stop m = m\<lparr>km_oids := []\<rparr>"
    by (simp add: fuse_sysctl_stop_def f)
qed

lemma devices_started:
  assumes "\<not> global_held d" and "major \<noteq> -1" and "\<forall>i < 24. mknode i"
  shows "\<exists>d'. fuse_devices_start major mknode d = (0, d') \<and> dev_inv d' \<and> fuse_interface_available d' \<and>
    fuse_cdev_major d' = major \<and> (\<forall>fdev \<in> set (fuse_device_table d'). usecount fdev = 0 \<and> fdev_data fdev = None)"
  using devices_start_all_or_nothing [OF assms(1), of major mknode] assms(2,3)
  by (auto simp: fuse_devices_start_def Let_def split: prod.splits option.splits)

lemma devices_not_started:
  assumes "\<not> global_held d" and "\<not> (major \<noteq> -1 \<and> (\<forall>i < 24. mknode i))"
  shows "\<exists>d'. fuse_devices_start major mknode d = (5, d') \<and> (\<forall>fdev \<in> set (fuse_device_table d'). \<not> cdev fdev)"
  using devices_start_all_or_nothing [OF assms(1), of major mknode] assms(2) by (auto split: if_splits)

lemma start_error_clean:
  assumes "ke_fsremove e = 0" and "km_device_mutex m \<longrightarrow> km_lock_group m" and "km_registered m \<longrightarrow> km_table_ref m"
    and "\<forall>fdev \<in> set (fuse_device_table (km_devices m)). \<not> cdev fdev" and "km_oids m = []"
  shows "\<exists>m'. start_error e m = Done (KERN_FAILURE, m') \<and> kmod_clean m'"
  using assms by (auto simp: start_error_def fini_stuff_def HNodeTerm_def Let_def kmod_clean_def)

lemma init_stuff_cases:
  assumes "kmod_clean m" and "ke_lock_attr e"
  shows "if ke_malloc_tag e \<and> ke_lock_group e \<and> ke_device_mutex e
    then init_stuff e m = Done (0, m\<lparr>km_malloc_tag := True, km_lock_attr := True, km_group_attr := ke_group_attr e,
      km_lock_group := True, km_device_mutex := True\<rparr>)
    else \<exists>ret m'. init_stuff e m = Done (ret, m') \<and> ret \<noteq> 0 \<and> kmod_clean m'"
  using assms by (auto simp: init_stuff_def fini_stuff_def Let_def kmod_clean_def KERN_FAILURE_def)

definition inited :: "kmod_env \<Rightarrow> fuse_kmod \<Rightarrow> fuse_kmod" where
  "inited e m = m\<lparr>km_malloc_tag := True, km_lock_attr := True, km_group_attr := ke_group_attr e,
      km_lock_group := True, km_device_mutex := True\<rparr>"

lemma start_fails:
  assumes clean: "kmod_clean m" and held: "\<not> global_held (km_devices m)" and attr: "ke_lock_attr e"
    and rem: "ke_fsremove e = 0" and bad: "\<not> kmod_env_ok e"
  shows "\<exists>m1. fusefs_start e m = Done (KERN_FAILURE, m1) \<and> kmod_clean m1"
proof (cases "ke_malloc_tag e \<and> ke_lock_group e \<and> ke_device_mutex e")
  case False
  with init_stuff_cases [OF clean attr] show ?thesis by (auto simp: fusefs_start_def)
next
  case True
  with init_stuff_cases [OF clean attr] have i: "init_stuff e m = Done (0, inited e m)" by (simp add: inited_def)
  have c: "\<forall>fdev \<in> set (fuse_device_table (km_devices m)). \<not> cdev fdev" "km_oids m = []" "\<not> km_registered m"
    "km_devices (inited e m) = km_devices m" "km_registered (inited e m) = km_registered m" "km_lock_group (inited e m)"
    "km_oids (inited e m) = km_oids m"
    using clean by (simp_all add: kmod_clean_def inited_def)
  obtain r T where h: "HNodeInit (ke_hash_mutex e) (ke_buckets e) kHNodeMagic (ke_fsnode_size e) (km_hash (inited e m)) = (r, T)"
    by fastforce
  show ?thesis
  proof (cases "r = 0 \<and> ke_fsadd e = 0")
    case False
    then show ?thesis
      using start_error_clean [OF rem, of "(inited e m)\<lparr>km_hash := T\<rparr>"]
        start_error_clean [OF rem, of "(inited e m)\<lparr>km_hash := T, km_table_ref := False\<rparr>"] c
      by (cases "r = 0") (auto simp: fusefs_start_def i h Let_def)
  next
    case ok: True
    then have "\<not> (ke_major e \<noteq> -1 \<and> (\<forall>i < 24. ke_mknode e i))"
      using bad True h by (auto simp: kmod_env_ok_def HNodeInit_def Let_def split: if_splits)
    from devices_not_started [OF held this] obtain d where
      "fuse_devices_start (ke_major e) (ke_mknode e) (km_devices m) = (5, d)"
      "\<forall>fdev \<in> set (fuse_device_table d). \<not> cdev fdev" by blast
    then show ?thesis
      using start_error_clean [OF rem, of "(inited e m)\<lparr>km_hash := T, km_table_ref := True, km_registered := True,
          km_devices := d\<rparr>"] c ok by (simp add: fusefs_start_def i h Let_def)
  qed
qed

lemma start_runs:
  assumes clean: "kmod_clean m" and held: "\<not> global_held (km_devices m)" and attr: "ke_lock_attr e"
    and ok: "kmod_env_ok e"
  shows "\<exists>m1. fusefs_start e m = Done (0, m1) \<and> kmod_running m1 \<and>
    (\<forall>fdev \<in> set (fuse_device_table (km_devices m1)). usecount fdev = 0 \<and> fdev_data fdev = None)"
proof -
  have i: "init_stuff e m = Done (0, inited e m)"
    using init_stuff_cases [OF clean attr] ok by (simp add: inited_def kmod_env_ok_def)
  obtain n where n: "ke_buckets e = Some n" using ok by (auto simp: kmod_env_ok_def)
  obtain d where d: "fuse_devices_start (ke_major e) (ke_mknode e) (km_devices m) = (0, d)" "dev_inv d"
    "fuse_interface_available d" "fuse_cdev_major d = ke_major e"
    "\<forall>fdev \<in> set (fuse_device_table d). usecount fdev = 0 \<and> fdev_data fdev = None"
    using devices_started [OF held, of "ke_major e" "ke_mknode e"] ok unfolding kmod_env_ok_def by blast
  have "km_oids m = []" using clean by (simp add: kmod_clean_def)
  with d ok i n show ?thesis
    by (simp add: fusefs_start_def HNodeInit_def inited_def kmod_env_ok_def Let_def kmod_running_def fuse_sysctl_start_def)
qed

lemma devices_stopped:
  assumes "dev_inv d" and "fuse_cdev_major d \<noteq> -1"
    and "\<forall>fdev \<in> set (fuse_device_table d). usecount fdev = 0 \<and> fdev_data fdev = None"
  shows "\<exists>d'. fuse_devices_stop d = Done (0, d') \<and> (\<forall>fdev \<in> set (fuse_device_table d'). \<not> cdev fdev)"
  using assms
  by (auto simp: fuse_devices_stop_def FUSE_DEVICE_GLOBAL_LOCK_def FUSE_DEVICE_GLOBAL_UNLOCK_def Let_def)

text \<open>
  C12: Starting the module is all or nothing, and stopping it undoes it. From a clean module, when everything
  the kernel is asked for succeeds, the start returns 0 with the locks, the table of nodes, the file
  system, all devices and all settings in place; a stop then removes every one of them. When anything
  fails, the start fails and leaves nothing behind. But when the kernel refuses to remove the file system,
  a stop fails only after it has removed the devices: the file system stays registered without them.
\<close>

theorem module_start_stop:
  assumes clean: "kmod_clean m" and held: "\<not> global_held (km_devices m)" and attr: "ke_lock_attr e"
    and rem: "ke_fsremove e = 0"
  shows "if kmod_env_ok e
    then \<exists>m1. fusefs_start e m = Done (0, m1) \<and> kmod_running m1 \<and>
      (\<exists>m2. fusefs_stop e m1 = Done (0, m2) \<and> kmod_clean m2) \<and>
      (\<forall>r. r \<noteq> 0 \<longrightarrow> (\<exists>m2. fusefs_stop (e\<lparr>ke_fsremove := r\<rparr>) m1 = Done (KERN_FAILURE, m2) \<and> km_registered m2 \<and>
         (\<forall>fdev \<in> set (fuse_device_table (km_devices m2)). \<not> cdev fdev)))
    else \<exists>m1. fusefs_start e m = Done (KERN_FAILURE, m1) \<and> kmod_clean m1"
proof (cases "kmod_env_ok e")
  case False
  with start_fails [OF assms] show ?thesis by simp
next
  case True
  obtain m1 where m1: "fusefs_start e m = Done (0, m1)" "kmod_running m1"
    "\<forall>fdev \<in> set (fuse_device_table (km_devices m1)). usecount fdev = 0 \<and> fdev_data fdev = None"
    using start_runs [OF clean held attr True] by blast
  have r: "dev_inv (km_devices m1)" "fuse_cdev_major (km_devices m1) \<noteq> -1" "km_lock_group m1" "km_registered m1"
    "km_oids m1 = ''macfuse'' # fuse_sysctl_list"
    using m1(2) by (simp_all add: kmod_running_def)
  obtain d where d: "fuse_devices_stop (km_devices m1) = Done (0, d)" "\<forall>fdev \<in> set (fuse_device_table d). \<not> cdev fdev"
    using devices_stopped [OF r(1,2) m1(3)] by blast
  have "\<exists>m2. fusefs_stop e m1 = Done (0, m2) \<and> kmod_clean m2"
    using d rem r(3,5) by (simp add: fusefs_stop_def fini_stuff_def sysctl_stop_oids kmod_clean_def HNodeTerm_def)
  moreover have "\<exists>m2. fusefs_stop (e\<lparr>ke_fsremove := x\<rparr>) m1 = Done (KERN_FAILURE, m2) \<and> km_registered m2 \<and>
      (\<forall>fdev \<in> set (fuse_device_table (km_devices m2)). \<not> cdev fdev)" if "x \<noteq> 0" for x
    using d r(4) that by (simp add: fusefs_stop_def)
  ultimately show ?thesis using True m1 by auto
qed

definition sample_kmod :: fuse_kmod where
  "sample_kmod =
     \<lparr>km_malloc_tag = False, km_lock_attr = False, km_group_attr = False, km_lock_group = False,
      km_device_mutex = False, km_table_ref = False, km_registered = False, km_hash = HNodeTerm empty_table,
      km_devices = devices_zero, km_oids = []\<rparr>"

definition sample_kmod_env :: kmod_env where
  "sample_kmod_env =
     \<lparr>ke_malloc_tag = True, ke_lock_attr = True, ke_group_attr = True, ke_lock_group = True,
      ke_device_mutex = True, ke_hash_mutex = True, ke_buckets = Some 4, ke_fsnode_size = 512, ke_fsadd = 0,
      ke_fsremove = 0, ke_major = 30, ke_mknode = (\<lambda>_. True)\<rparr>"

lemma module_start_stop_witness:
  "(\<exists>m1. fusefs_start sample_kmod_env sample_kmod = Done (0, m1) \<and> kmod_running m1) \<and>
   (\<exists>m1. fusefs_start (sample_kmod_env\<lparr>ke_fsadd := 17\<rparr>) sample_kmod = Done (KERN_FAILURE, m1) \<and> kmod_clean m1)"
proof -
  let ?e = "sample_kmod_env\<lparr>ke_fsadd := 17\<rparr>"
  have c: "kmod_clean sample_kmod" "\<not> global_held (km_devices sample_kmod)"
    by (simp_all add: sample_kmod_def kmod_clean_def HNodeTerm_def devices_zero_def fuse_device_zero_def)
  have e: "ke_lock_attr sample_kmod_env" "ke_fsremove sample_kmod_env = 0" "kmod_env_ok sample_kmod_env"
    "ke_lock_attr ?e" "ke_fsremove ?e = 0" "\<not> kmod_env_ok ?e"
    by (simp_all add: sample_kmod_env_def kmod_env_ok_def)
  from module_start_stop [OF c e(1,2)] module_start_stop [OF c e(4,5)] e(3,6) show ?thesis by auto
qed

section \<open>The size of transfers\<close>

text \<open>
  A refused size of transfers is set all the same. The handler copies the new value into the setting
  before it looks at it: when the value, rounded up to whole pages, is outside the bounds, the error is
  reported and the setting keeps the value; only an accepted one is rounded.
\<close>

lemma bufsize_set_though_refused:
  assumes "sq_out req = 0" and "sq_in req = 0" and "sq_new req = Some x"
  shows "\<exists>err S'. sysctl_macfuse_tunables_userkernel_bufsize_handler True req S = (err, S') \<and>
    (err = 0 \<longleftrightarrow> fuse_round_page_32 x \<in> {FUSE_MIN_USERKERNEL_BUFSIZE .. FUSE_MAX_USERKERNEL_BUFSIZE}) \<and>
    fuse_userkernel_bufsize (sv_tun S') = (if err = 0 then fuse_round_page_32 x else x) \<and>
    sv_devices S' = sv_devices S"
  using assms by (auto simp: sysctl_macfuse_tunables_userkernel_bufsize_handler_def Let_def not_less)

lemma bufsize_set_though_refused_witness:
  "\<exists>err S'. sysctl_macfuse_tunables_userkernel_bufsize_handler True
       \<lparr>sq_out = 0, sq_new = Some 1, sq_in = 0, sq_cred = None\<rparr>
       \<lparr>sv_fuse_kill = 0, sv_fuse_print_vnodes = 0, sv_tun = fuse_tunables_default, sv_devices = devices_zero\<rparr> =
       (err, S') \<and> err \<noteq> 0 \<and> fuse_userkernel_bufsize (sv_tun S') = 1"
proof -
  have b: "fuse_round_page_32 1 \<notin> {FUSE_MIN_USERKERNEL_BUFSIZE .. FUSE_MAX_USERKERNEL_BUFSIZE}"
    by (simp add: fuse_round_page_32_def FUSE_MIN_USERKERNEL_BUFSIZE_def FUSE_MAX_USERKERNEL_BUFSIZE_def)
  from bufsize_set_though_refused [of "\<lparr>sq_out = 0, sq_new = Some 1, sq_in = 0, sq_cred = None\<rparr>" 1] b
  show ?thesis by (metis sysctl_req.select_convs(1-3))
qed

end
