(* ===== verification/Fuse_Locking.thy ===== *)
theory Fuse_Locking
  imports Fuse_Iov
begin

text \<open>
  Locks (\<^verbatim>\<open>fuse_locking.c\<close>). The first part is the locking of file system nodes: a
  reader-writer lock for each node, the operations that take one, two or four of them in an order
  meant to exclude deadlock, and the lock against truncation. The second part is the recursive lock
  that serialises the vnode operations of a volume.

  A node is known by its address; \<open>0\<close> is the null pointer. An operation of a thread either goes
  through, or waits for a lock in the state it has reached, or panics, or does what C leaves
  undefined. The work that unlocking defers until the lock is dropped (\<^verbatim>\<open>ubc_setsize\<close>,
  \<^verbatim>\<open>vnode_put\<close>) is recorded in order. The recursive lock is a transition system over
  the interleavings of any number of threads.
\<close>

section \<open>Data\<close>

type_synonym thread = nat
type_synonym fnaddr = nat

datatype vtype = VNON | VREG | VDIR | VBLK | VCHR | VLNK | VSOCK | VFIFO | VBAD | VSTR | VCPLX

datatype fusefslocktype = FUSEFS_SHARED_LOCK | FUSEFS_EXCLUSIVE_LOCK | FUSEFS_FORCE_LOCK

datatype lck_rw_type = LCK_RW_TYPE_SHARED | LCK_RW_TYPE_EXCLUSIVE

text \<open>A reader-writer lock of the kernel: free, held by some readers, or held by a writer.\<close>

datatype rwlock = RW_Free | RW_Readers nat | RW_Writer thread

text \<open>The pointer \<^verbatim>\<open>nodelockowner\<close>: null, the value that marks readers, or a thread.\<close>

datatype lock_owner = No_Owner | FUSEFS_SHARED_OWNER | Owner thread

definition C_NEED_DVNODE_PUT :: u32 where "C_NEED_DVNODE_PUT = 0x2"
definition C_NOEXISTS :: u32 where "C_NOEXISTS = 0x20"
definition C_NEED_DATA_SETSIZE :: u32 where "C_NEED_DATA_SETSIZE = 0x1000"

record fusenode =
  fn_nodeid :: u64
  fn_parent_nodeid :: u64
  fn_vtype :: vtype
  c_flag :: u32
  fn_vp :: "vnode option"
  nodelock :: rwlock
  nodelockowner :: lock_owner
  truncatelock :: rwlock

datatype post_work = Ubc_setsize vnode | Vnode_put vnode

record lkstate =
  fnodes :: "fnaddr \<Rightarrow> fusenode option"
  post :: "post_work list"

datatype 'a locking = Goes 'a | Waits fnaddr lkstate | Panics | Faults

fun bind_locking :: "'a locking \<Rightarrow> ('a \<Rightarrow> 'b locking) \<Rightarrow> 'b locking" where
  "bind_locking (Goes x) f = f x"
| "bind_locking (Waits a S) f = Waits a S"
| "bind_locking Panics f = Panics"
| "bind_locking Faults f = Faults"

definition fnode_at :: "(fnaddr \<Rightarrow> fusenode option) \<Rightarrow> fnaddr \<Rightarrow> fusenode locking" where
  "fnode_at M cp = (case M cp of None \<Rightarrow> Faults | Some n \<Rightarrow> Goes n)"

definition put_fnode :: "fnaddr \<Rightarrow> fusenode \<Rightarrow> lkstate \<Rightarrow> lkstate" where
  "put_fnode cp n S = S\<lparr>fnodes := (fnodes S)(cp := Some n)\<rparr>"

section \<open>The reader-writer locks of the kernel\<close>

definition rw_lock_shared :: "rwlock \<Rightarrow> rwlock option" where
  "rw_lock_shared l = (case l of RW_Free \<Rightarrow> Some (RW_Readers 1) | RW_Readers k \<Rightarrow> Some (RW_Readers (k + 1)) |
     RW_Writer _ \<Rightarrow> None)"

definition rw_lock_exclusive :: "thread \<Rightarrow> rwlock \<Rightarrow> rwlock option" where
  "rw_lock_exclusive t l = (case l of RW_Free \<Rightarrow> Some (RW_Writer t) | _ \<Rightarrow> None)"

text \<open>\<^verbatim>\<open>IORWLockUnlock\<close>: drops one reader, or the writer.\<close>

definition fusefs_lck_rw_done :: "rwlock \<Rightarrow> rwlock option" where
  "fusefs_lck_rw_done l = (case l of RW_Free \<Rightarrow> None |
     RW_Readers k \<Rightarrow> Some (if k \<le> 1 then RW_Free else RW_Readers (k - 1)) | RW_Writer _ \<Rightarrow> Some RW_Free)"

section \<open>One node\<close>

definition post_work_of :: "u32 \<Rightarrow> vnode option \<Rightarrow> post_work list" where
  "post_work_of flags vp = (case vp of None \<Rightarrow> [] | Some v \<Rightarrow>
     (if has_flag flags C_NEED_DATA_SETSIZE then [Ubc_setsize v] else []) @
     (if has_flag flags C_NEED_DVNODE_PUT then [Vnode_put v] else []))"

definition fusefs_unlock :: "fnaddr \<Rightarrow> lkstate \<Rightarrow> lkstate locking" where
  "fusefs_unlock cp S = bind_locking (fnode_at (fnodes S) cp) (\<lambda>n.
     let flags = c_flag n;
         vp = (if has_flag flags (C_NEED_DVNODE_PUT OR C_NEED_DATA_SETSIZE) then fn_vp n else None) in
     case fusefs_lck_rw_done (nodelock n) of None \<Rightarrow> Faults
     | Some l \<Rightarrow> Goes ((put_fnode cp
         (n\<lparr>c_flag := clear_flag flags (C_NEED_DVNODE_PUT OR C_NEED_DATA_SETSIZE),
            nodelockowner := No_Owner, nodelock := l\<rparr>) S)\<lparr>post := post S @ post_work_of flags vp\<rparr>))"

definition fusefs_lock :: "thread \<Rightarrow> fnaddr \<Rightarrow> fusefslocktype \<Rightarrow> lkstate \<Rightarrow> (errno \<times> lkstate) locking" where
  "fusefs_lock t cp locktype S = bind_locking (fnode_at (fnodes S) cp) (\<lambda>n.
     let (got, owner) = (if locktype = FUSEFS_SHARED_LOCK
           then (rw_lock_shared (nodelock n), FUSEFS_SHARED_OWNER)
           else (rw_lock_exclusive t (nodelock n), Owner t)) in
     case got of None \<Rightarrow> Waits cp S
     | Some l \<Rightarrow>
       let S = put_fnode cp (n\<lparr>nodelock := l, nodelockowner := owner\<rparr>) S in
       if locktype \<noteq> FUSEFS_FORCE_LOCK \<and> has_flag (c_flag n) C_NOEXISTS
       then bind_locking (fusefs_unlock cp S) (\<lambda>S. Goes (ENOENT, S))
       else Goes (0, S))"

section \<open>Two nodes\<close>

definition lockpair_order :: "(fnaddr \<Rightarrow> fusenode option) \<Rightarrow> fnaddr \<Rightarrow> fnaddr \<Rightarrow> (fnaddr \<times> fnaddr) locking" where
  "lockpair_order M cp1 cp2 = bind_locking (fnode_at M cp1) (\<lambda>n1. bind_locking (fnode_at M cp2) (\<lambda>n2.
     if fn_vtype n1 = VDIR \<and> fn_nodeid n1 = fn_parent_nodeid n2 then Goes (cp1, cp2)
     else if cp1 < cp2 then Goes (cp1, cp2)
     else Goes (cp2, cp1)))"

definition fusefs_lockpair ::
    "thread \<Rightarrow> fnaddr \<Rightarrow> fnaddr \<Rightarrow> fusefslocktype \<Rightarrow> lkstate \<Rightarrow> (errno \<times> lkstate) locking" where
  "fusefs_lockpair t cp1 cp2 locktype S =
     (if cp1 = cp2 then fusefs_lock t cp1 locktype S
      else bind_locking (lockpair_order (fnodes S) cp1 cp2) (\<lambda>(first, last).
        bind_locking (fusefs_lock t first locktype S) (\<lambda>(err, S).
          if err \<noteq> 0 then Goes (err, S)
          else bind_locking (fusefs_lock t last locktype S) (\<lambda>(err, S).
            if err \<noteq> 0 then bind_locking (fusefs_unlock first S) (\<lambda>S. Goes (err, S))
            else Goes (0, S)))))"

definition fusefs_unlockpair :: "fnaddr \<Rightarrow> fnaddr \<Rightarrow> lkstate \<Rightarrow> lkstate locking" where
  "fusefs_unlockpair cp1 cp2 S = bind_locking (fusefs_unlock cp1 S) (\<lambda>S.
     if cp2 \<noteq> cp1 then fusefs_unlock cp2 S else Goes S)"

section \<open>Four nodes\<close>

definition sentinel :: fnaddr where "sentinel = 0xffffffff"

definition fusefs_isordered :: "(fnaddr \<Rightarrow> fusenode option) \<Rightarrow> fnaddr \<Rightarrow> fnaddr \<Rightarrow> bool locking" where
  "fusefs_isordered M cp1 cp2 =
     (if cp1 = cp2 then Goes False
      else if cp1 = 0 \<or> cp2 = sentinel then Goes True
      else if cp2 = 0 \<or> cp1 = sentinel then Goes False
      else bind_locking (fnode_at M cp1) (\<lambda>n1. bind_locking (fnode_at M cp2) (\<lambda>n2.
        if fn_nodeid n1 = fn_parent_nodeid n2 then Goes True
        else if fn_nodeid n2 = fn_parent_nodeid n1 then Goes False
        else Goes (cp1 < cp2))))"

text \<open>
  The loop that builds the lock list from the two ordered pairs: \<open>i\<close> and \<open>j\<close> index the arrays of
  three, and \<open>list\<close> has room for four.
\<close>

definition append_unless_last :: "fnaddr \<Rightarrow> fnaddr list \<Rightarrow> fnaddr list" where
  "append_unless_last tmp list = (if list = [] \<or> tmp \<noteq> last list then list @ [tmp] else list)"

function lockfour_merge ::
    "(fnaddr \<Rightarrow> fusenode option) \<Rightarrow> fnaddr list \<Rightarrow> fnaddr list \<Rightarrow> nat \<Rightarrow> nat \<Rightarrow> fnaddr list \<Rightarrow> fnaddr list locking" where
  "lockfour_merge M a b i j list =
     (if i < 2 \<or> j < 2 then
        if 3 \<le> i \<or> 3 \<le> j \<or> 4 \<le> length list then Faults
        else bind_locking (fusefs_isordered M (a ! i) (b ! j)) (\<lambda>before.
          if before then lockfour_merge M a b (i + 1) j (append_unless_last (a ! i) list)
          else lockfour_merge M a b i (j + 1) (append_unless_last (b ! j) list))
      else Goes list)"
  by pat_completeness auto
termination by (relation "measure (\<lambda>(M, a, b, i, j, list). 6 - (i + j))") auto

definition lockfour_pair :: "(fnaddr \<Rightarrow> fusenode option) \<Rightarrow> fnaddr \<Rightarrow> fnaddr \<Rightarrow> fnaddr list locking" where
  "lockfour_pair M cp1 cp2 = bind_locking (fusefs_isordered M cp1 cp2) (\<lambda>before.
     Goes (if before then [cp1, cp2, sentinel] else [cp2, cp1, sentinel]))"

definition lockfour_list ::
    "(fnaddr \<Rightarrow> fusenode option) \<Rightarrow> fnaddr \<Rightarrow> fnaddr \<Rightarrow> fnaddr \<Rightarrow> fnaddr \<Rightarrow> fnaddr list locking" where
  "lockfour_list M cp1 cp2 cp3 cp4 =
     bind_locking (lockfour_pair M cp1 cp2) (\<lambda>a. bind_locking (lockfour_pair M cp3 cp4) (\<lambda>b.
       lockfour_merge M a b 0 0 []))"

fun unlock_back :: "fnaddr list \<Rightarrow> lkstate \<Rightarrow> lkstate locking" where
  "unlock_back [] S = Goes S"
| "unlock_back (cp # cps) S =
     (if cp \<noteq> 0 then bind_locking (fusefs_unlock cp S) (unlock_back cps) else unlock_back cps S)"

fun lock_list ::
    "thread \<Rightarrow> fusefslocktype \<Rightarrow> fnaddr list \<Rightarrow> fnaddr list \<Rightarrow> lkstate \<Rightarrow> (errno \<times> lkstate) locking" where
  "lock_list t locktype taken [] S = Goes (0, S)"
| "lock_list t locktype taken (cp # cps) S =
     (if cp \<noteq> 0 then bind_locking (fusefs_lock t cp locktype S) (\<lambda>(err, S).
        if err \<noteq> 0 then bind_locking (unlock_back taken S) (\<lambda>S. Goes (err, S))
        else lock_list t locktype (cp # taken) cps S)
      else lock_list t locktype (cp # taken) cps S)"

definition fusefs_lockfour ::
    "thread \<Rightarrow> fnaddr \<Rightarrow> fnaddr \<Rightarrow> fnaddr \<Rightarrow> fnaddr \<Rightarrow> fusefslocktype \<Rightarrow> lkstate \<Rightarrow> (errno \<times> lkstate) locking" where
  "fusefs_lockfour t cp1 cp2 cp3 cp4 locktype S =
     bind_locking (lockfour_list (fnodes S) cp1 cp2 cp3 cp4) (\<lambda>list. lock_list t locktype [] list S)"

text \<open>One of the four steps of unlocking: unlock a pointer that is neither null nor listed already.\<close>

definition unlock_new :: "fnaddr \<Rightarrow> fnaddr list \<times> lkstate \<Rightarrow> (fnaddr list \<times> lkstate) locking" where
  "unlock_new cp = (\<lambda>(list, S).
     if cp \<noteq> 0 \<and> cp \<notin> set list
     then bind_locking (fusefs_unlock cp S) (\<lambda>S. Goes (list @ [cp], S))
     else Goes (list, S))"

definition fusefs_unlockfour :: "fnaddr \<Rightarrow> fnaddr \<Rightarrow> fnaddr \<Rightarrow> fnaddr \<Rightarrow> lkstate \<Rightarrow> lkstate locking" where
  "fusefs_unlockfour cp1 cp2 cp3 cp4 S =
     bind_locking (unlock_new cp1 ([], S)) (\<lambda>r1. bind_locking (unlock_new cp2 r1) (\<lambda>r2.
     bind_locking (unlock_new cp3 r2) (\<lambda>r3. bind_locking (unlock_new cp4 r3) (\<lambda>r4. Goes (snd r4)))))"

section \<open>The lock against truncation\<close>

definition fusefs_lock_truncate :: "thread \<Rightarrow> fnaddr \<Rightarrow> lck_rw_type \<Rightarrow> lkstate \<Rightarrow> lkstate locking" where
  "fusefs_lock_truncate t cp ty S = bind_locking (fnode_at (fnodes S) cp) (\<lambda>n.
     if nodelockowner n = Owner t then Panics
     else case (case ty of LCK_RW_TYPE_SHARED \<Rightarrow> rw_lock_shared (truncatelock n)
                | LCK_RW_TYPE_EXCLUSIVE \<Rightarrow> rw_lock_exclusive t (truncatelock n)) of
       None \<Rightarrow> Waits cp S
     | Some l \<Rightarrow> Goes (put_fnode cp (n\<lparr>truncatelock := l\<rparr>) S))"

definition fusefs_unlock_truncate :: "fnaddr \<Rightarrow> lkstate \<Rightarrow> lkstate locking" where
  "fusefs_unlock_truncate cp S = bind_locking (fnode_at (fnodes S) cp) (\<lambda>n.
     case fusefs_lck_rw_done (truncatelock n) of None \<Rightarrow> Faults
     | Some l \<Rightarrow> Goes (put_fnode cp (n\<lparr>truncatelock := l\<rparr>) S))"

section \<open>The order of the locks\<close>

text \<open>
  What the merge needs of the order of the nodes. The order is not assumed transitive: parents
  come before children and unrelated nodes go by address, which together need not be transitive.
\<close>

fun merge_with :: "('a \<Rightarrow> 'a \<Rightarrow> bool) \<Rightarrow> 'a list \<Rightarrow> 'a list \<Rightarrow> 'a list \<Rightarrow> 'a list" where
  "merge_with r [] [] acc = acc"
| "merge_with r [] (y # ys) acc = merge_with r [] ys (if acc = [] \<or> y \<noteq> last acc then acc @ [y] else acc)"
| "merge_with r (x # xs) [] acc = merge_with r xs [] (if acc = [] \<or> x \<noteq> last acc then acc @ [x] else acc)"
| "merge_with r (x # xs) (y # ys) acc =
     (if r x y then merge_with r xs (y # ys) (if acc = [] \<or> x \<noteq> last acc then acc @ [x] else acc)
      else merge_with r (x # xs) ys (if acc = [] \<or> y \<noteq> last acc then acc @ [y] else acc))"

definition pair_with :: "('a \<Rightarrow> 'a \<Rightarrow> bool) \<Rightarrow> 'a \<Rightarrow> 'a \<Rightarrow> 'a list" where
  "pair_with r x y = (if r x y then [x, y] else [y, x])"

locale lock_order =
  fixes before :: "'s \<Rightarrow> 'a \<Rightarrow> 'a \<Rightarrow> bool" and legal :: "'s \<Rightarrow> 'a set \<Rightarrow> bool"
  assumes irrefl: "\<not> before s x x"
    and total: "legal s A \<Longrightarrow> x \<in> A \<Longrightarrow> y \<in> A \<Longrightarrow> x \<noteq> y \<Longrightarrow> before s x y \<or> before s y x"
    and asym: "legal s A \<Longrightarrow> x \<in> A \<Longrightarrow> y \<in> A \<Longrightarrow> before s x y \<Longrightarrow> \<not> before s y x"
begin

lemma before_iff:
  "legal s A \<Longrightarrow> x \<in> A \<Longrightarrow> y \<in> A \<Longrightarrow> before s x y \<longleftrightarrow> x \<noteq> y \<and> \<not> before s y x"
  using irrefl total asym by metis

lemma merge_pairs:
  assumes "legal s {p, q, u, v}" and "p = q \<or> before s p q" and "u = v \<or> before s u v"
  shows "distinct (merge_with (before s) [p, q] [u, v] []) \<and>
    set (merge_with (before s) [p, q] [u, v] []) = {p, q, u, v}"
proof -
  have c: "x = y \<or> x \<noteq> y \<and> before s x y \<and> \<not> before s y x \<or> x \<noteq> y \<and> \<not> before s x y \<and> before s y x"
    if "x \<in> {p, q, u, v}" "y \<in> {p, q, u, v}" for x y
    using before_iff [OF assms(1) that] that by blast
  have i: "\<not> before s z z" for z by (rule irrefl)
  have "p = q \<or> p \<noteq> q \<and> before s p q \<and> \<not> before s q p" using c [of p q] assms(2) by blast
  moreover have "u = v \<or> u \<noteq> v \<and> before s u v \<and> \<not> before s v u" using c [of u v] assms(3) by blast
  moreover have "p = u \<or> p \<noteq> u \<and> before s p u \<and> \<not> before s u p \<or> p \<noteq> u \<and> \<not> before s p u \<and> before s u p"
    using c [of p u] by blast
  moreover have "p = v \<or> p \<noteq> v \<and> before s p v \<and> \<not> before s v p \<or> p \<noteq> v \<and> \<not> before s p v \<and> before s v p"
    using c [of p v] by blast
  moreover have "q = u \<or> q \<noteq> u \<and> before s q u \<and> \<not> before s u q \<or> q \<noteq> u \<and> \<not> before s q u \<and> before s u q"
    using c [of q u] by blast
  moreover have "q = v \<or> q \<noteq> v \<and> before s q v \<and> \<not> before s v q \<or> q \<noteq> v \<and> \<not> before s q v \<and> before s v q"
    using c [of q v] by blast
  ultimately show ?thesis by (elim disjE conjE; simp add: i; blast?)
qed

lemma merge_four:
  assumes "legal s {x, y, z, w}"
  shows "distinct (merge_with (before s) (pair_with (before s) x y) (pair_with (before s) z w) []) \<and>
    set (merge_with (before s) (pair_with (before s) x y) (pair_with (before s) z w) []) = {x, y, z, w}"
proof -
  obtain p q where pq: "pair_with (before s) x y = [p, q]" "{p, q} = {x, y}" "p = q \<or> before s p q"
    using before_iff [OF assms, of x y] irrefl [of s x] by (cases "before s x y") (auto simp: pair_with_def)
  obtain u v where uv: "pair_with (before s) z w = [u, v]" "{u, v} = {z, w}" "u = v \<or> before s u v"
    using before_iff [OF assms, of z w] irrefl [of s z] by (cases "before s z w") (auto simp: pair_with_def)
  have A: "{p, q, u, v} = {x, y, z, w}" using pq(2) uv(2) by (auto simp: insert_eq_iff)
  show ?thesis using merge_pairs [of s p q u v] assms pq(1,3) uv(1,3) unfolding A by simp
qed

end

text \<open>
  The laws hold of the order in the source when the pointers are null or nodes, and no two nodes
  are each other's parent.
\<close>

definition node_before :: "(fnaddr \<Rightarrow> fusenode option) \<Rightarrow> fnaddr \<Rightarrow> fnaddr \<Rightarrow> bool" where
  "node_before M x y \<longleftrightarrow> fusefs_isordered M x y = Goes True"

definition parent_of :: "(fnaddr \<Rightarrow> fusenode option) \<Rightarrow> fnaddr \<Rightarrow> fnaddr \<Rightarrow> bool" where
  "parent_of M x y \<longleftrightarrow> (\<exists>n m. M x = Some n \<and> M y = Some m \<and> fn_nodeid n = fn_parent_nodeid m)"

definition nodes_legal :: "(fnaddr \<Rightarrow> fusenode option) \<Rightarrow> fnaddr set \<Rightarrow> bool" where
  "nodes_legal M A \<longleftrightarrow> (\<forall>x \<in> A - {0}. x \<noteq> sentinel \<and> M x \<noteq> None) \<and>
     (\<forall>x \<in> A - {0}. \<forall>y \<in> A - {0}. x \<noteq> y \<and> parent_of M x y \<longrightarrow> \<not> parent_of M y x)"

lemma sentinel_nonnull [simp]: "sentinel \<noteq> 0" "0 \<noteq> sentinel"
  by (simp_all add: sentinel_def)

lemma isordered_null [simp]:
  "fusefs_isordered M x x = Goes False"
  "x \<noteq> 0 \<Longrightarrow> fusefs_isordered M 0 x = Goes True"
  "x \<noteq> 0 \<Longrightarrow> x \<noteq> sentinel \<Longrightarrow> fusefs_isordered M x 0 = Goes False"
  "x \<noteq> sentinel \<Longrightarrow> fusefs_isordered M x sentinel = Goes True"
  "x \<noteq> sentinel \<Longrightarrow> fusefs_isordered M sentinel x = Goes False"
  by (simp_all add: fusefs_isordered_def)

lemma isordered_nodes:
  assumes "x \<noteq> y" "x \<noteq> 0" "y \<noteq> 0" "x \<noteq> sentinel" "y \<noteq> sentinel" "M x = Some n" "M y = Some m"
  shows "fusefs_isordered M x y = Goes (parent_of M x y \<or> \<not> parent_of M y x \<and> x < y)"
  using assms by (simp add: fusefs_isordered_def fnode_at_def parent_of_def)

lemma legal_node:
  assumes "nodes_legal M A" "x \<in> A" "x \<noteq> 0"
  obtains n where "M x = Some n" "x \<noteq> sentinel"
proof -
  have "x \<in> A - {0}" using assms by simp
  then have "x \<noteq> sentinel \<and> M x \<noteq> None" using assms(1) unfolding nodes_legal_def by blast
  then show ?thesis using that by blast
qed

lemma isordered_goes:
  assumes "nodes_legal M A" "x \<in> A" "y \<in> A"
  shows "fusefs_isordered M x y = Goes (node_before M x y)"
proof (cases "x = y \<or> x = 0 \<or> y = 0")
  case True
  moreover have "x \<noteq> 0 \<Longrightarrow> x \<noteq> sentinel" using assms by (auto simp: nodes_legal_def)
  ultimately show ?thesis by (cases "x = y"; cases "x = 0") (auto simp: node_before_def)
next
  case False
  then obtain n m where "M x = Some n" "M y = Some m" "x \<noteq> sentinel" "y \<noteq> sentinel"
    using legal_node [OF assms(1,2)] legal_node [OF assms(1,3)] by metis
  then show ?thesis using isordered_nodes [of x y M n m] False by (simp add: node_before_def)
qed

interpretation node_order: lock_order node_before nodes_legal
proof
  fix M x
  show "\<not> node_before M x x" by (simp add: node_before_def)
next
  fix M A x y
  assume a: "nodes_legal M A" "x \<in> A" "y \<in> A"
  have s: "x \<noteq> 0 \<Longrightarrow> x \<noteq> sentinel" "y \<noteq> 0 \<Longrightarrow> y \<noteq> sentinel" using a by (auto simp: nodes_legal_def)
  have nodes: "fusefs_isordered M x y = Goes (parent_of M x y \<or> \<not> parent_of M y x \<and> x < y) \<and>
      fusefs_isordered M y x = Goes (parent_of M y x \<or> \<not> parent_of M x y \<and> y < x) \<and>
      \<not> (parent_of M x y \<and> parent_of M y x)" if "x \<noteq> y" "x \<noteq> 0" "y \<noteq> 0"
  proof -
    note d = that
    obtain n where n: "M x = Some n" using legal_node [OF a(1,2) d(2)] by blast
    obtain m where m: "M y = Some m" using legal_node [OF a(1,3) d(3)] by blast
    note nm = n m
    have "\<not> (parent_of M x y \<and> parent_of M y x)" using a that unfolding nodes_legal_def by blast
    then show ?thesis
      using isordered_nodes [OF that s(1) [OF that(2)] s(2) [OF that(3)] nm]
        isordered_nodes [OF that(1) [symmetric] that(3,2) s(2) [OF that(3)] s(1) [OF that(2)] nm(2,1)] by simp
  qed
  show "node_before M x y \<or> node_before M y x" if "x \<noteq> y"
    using nodes that s by (cases "x = 0"; cases "y = 0") (auto simp: node_before_def)
  show "\<not> node_before M y x" if "node_before M x y"
  proof (cases "x = 0 \<or> y = 0 \<or> x = y")
    case True
    then show ?thesis using that s by (cases "x = 0"; cases "y = 0") (auto simp: node_before_def)
  next
    case False
    then show ?thesis using nodes that by (auto simp: node_before_def)
  qed
qed

text \<open>The loop over the arrays with their sentinels is the merge of the pairs.\<close>

lemma lockfour_merge_eq:
  assumes "nodes_legal M {p, q, u, v}"
  shows "lockfour_merge M [p, q, sentinel] [u, v, sentinel] 0 0 [] =
    Goes (merge_with (node_before M) [p, q] [u, v] [])"
proof -
  have g: "fusefs_isordered M x y = Goes (node_before M x y)" if "x \<in> {p, q, u, v}" "y \<in> {p, q, u, v}" for x y
    by (rule isordered_goes [OF assms that])
  have s: "x \<noteq> sentinel" if "x \<in> {p, q, u, v}" for x
    using assms that by (cases "x = 0") (auto simp: nodes_legal_def)
  show ?thesis by (simp add: g s append_unless_last_def)
qed

lemma lockfour_list_eq:
  assumes "nodes_legal M {cp1, cp2, cp3, cp4}"
  shows "lockfour_list M cp1 cp2 cp3 cp4 =
    Goes (merge_with (node_before M) (pair_with (node_before M) cp1 cp2) (pair_with (node_before M) cp3 cp4) [])"
proof -
  have m: "lockfour_merge M (pair_with (node_before M) cp1 cp2 @ [sentinel])
      (pair_with (node_before M) cp3 cp4 @ [sentinel]) 0 0 [] =
    Goes (merge_with (node_before M) (pair_with (node_before M) cp1 cp2) (pair_with (node_before M) cp3 cp4) [])"
    using assms lockfour_merge_eq [of M cp1 cp2 cp3 cp4] lockfour_merge_eq [of M cp2 cp1 cp3 cp4]
      lockfour_merge_eq [of M cp1 cp2 cp4 cp3] lockfour_merge_eq [of M cp2 cp1 cp4 cp3]
    by (simp add: pair_with_def insert_commute del: lockfour_merge.simps merge_with.simps)
  have p: "lockfour_pair M x y = Goes (pair_with (node_before M) x y @ [sentinel])"
    if "x \<in> {cp1, cp2, cp3, cp4}" "y \<in> {cp1, cp2, cp3, cp4}" for x y
    using isordered_goes [OF assms that] by (simp add: lockfour_pair_def pair_with_def)
  show ?thesis using m by (simp add: lockfour_list_def p del: lockfour_merge.simps)
qed

lemma lockfour_list_ok:
  assumes "nodes_legal M {cp1, cp2, cp3, cp4}"
  obtains l where "lockfour_list M cp1 cp2 cp3 cp4 = Goes l" "distinct l" "set l = {cp1, cp2, cp3, cp4}"
  using lockfour_list_eq [OF assms] node_order.merge_four [OF assms] by blast

section \<open>Locking and unlocking free nodes\<close>

definition taken_node :: "thread \<Rightarrow> fusefslocktype \<Rightarrow> fusenode \<Rightarrow> fusenode" where
  "taken_node t lt n = (if lt = FUSEFS_SHARED_LOCK
     then n\<lparr>nodelock := RW_Readers 1, nodelockowner := FUSEFS_SHARED_OWNER\<rparr>
     else n\<lparr>nodelock := RW_Writer t, nodelockowner := Owner t\<rparr>)"

definition deferred :: u32 where "deferred = C_NEED_DVNODE_PUT OR C_NEED_DATA_SETSIZE"

definition released_node :: "fusenode \<Rightarrow> fusenode" where
  "released_node n = n\<lparr>c_flag := clear_flag (c_flag n) deferred, nodelockowner := No_Owner, nodelock := RW_Free\<rparr>"

definition node_work :: "fusenode \<Rightarrow> post_work list" where
  "node_work n = post_work_of (c_flag n) (fn_vp n)"

definition gone :: "fusefslocktype \<Rightarrow> fusenode \<Rightarrow> bool" where
  "gone lt n \<longleftrightarrow> lt \<noteq> FUSEFS_FORCE_LOCK \<and> has_flag (c_flag n) C_NOEXISTS"

definition free_node :: "lkstate \<Rightarrow> fnaddr \<Rightarrow> bool" where
  "free_node S cp \<longleftrightarrow> (\<exists>n. fnodes S cp = Some n \<and> nodelock n = RW_Free)"

definition map_nodes :: "fnaddr set \<Rightarrow> (fusenode \<Rightarrow> fusenode) \<Rightarrow> lkstate \<Rightarrow> lkstate" where
  "map_nodes A f S = S\<lparr>fnodes := (\<lambda>x. if x \<in> A then map_option f (fnodes S x) else fnodes S x)\<rparr>"

definition works :: "lkstate \<Rightarrow> fnaddr list \<Rightarrow> post_work list" where
  "works S l = concat (map (\<lambda>x. node_work (the (fnodes S x))) l)"

lemma map_nodes_simps [simp]:
  "post (map_nodes A f S) = post S"
  "fnodes (map_nodes A f S) x = (if x \<in> A then map_option f (fnodes S x) else fnodes S x)"
  "map_nodes {} f S = S"
  by (simp_all add: map_nodes_def)

lemma taken_node_simps [simp]:
  "c_flag (taken_node t lt n) = c_flag n" "fn_vp (taken_node t lt n) = fn_vp n"
  "released_node (taken_node t lt n) = released_node n" "node_work (taken_node t lt n) = node_work n"
  by (simp_all add: taken_node_def released_node_def node_work_def)

lemma no_work:
  "\<not> has_flag flags (C_NEED_DVNODE_PUT OR C_NEED_DATA_SETSIZE) \<Longrightarrow> post_work_of flags vp = []"
  by (auto simp: post_work_of_def has_flag_def bit.conj_disj_distrib or_eq_0_iff split: option.splits)

lemma unlock_taken:
  assumes "fnodes S cp = Some (taken_node t lt n)"
  shows "fusefs_unlock cp S = Goes ((put_fnode cp (released_node n) S)\<lparr>post := post S @ node_work n\<rparr>)"
proof -
  have l: "fusefs_lck_rw_done (nodelock (taken_node t lt n)) = Some RW_Free"
    by (simp add: taken_node_def fusefs_lck_rw_done_def)
  have r: "(taken_node t lt n)\<lparr>c_flag := clear_flag (c_flag n) (C_NEED_DVNODE_PUT OR C_NEED_DATA_SETSIZE),
      nodelockowner := No_Owner, nodelock := RW_Free\<rparr> = released_node n"
    by (simp add: taken_node_def released_node_def deferred_def)
  have w: "post_work_of (c_flag n) (if has_flag (c_flag n) (C_NEED_DVNODE_PUT OR C_NEED_DATA_SETSIZE) then fn_vp n else None)
      = node_work n"
    using no_work [of "c_flag n"] by (simp add: node_work_def)
  show ?thesis using assms l r w
    by (cases "has_flag (c_flag n) (C_NEED_DVNODE_PUT OR C_NEED_DATA_SETSIZE)")
      (simp_all add: fusefs_unlock_def fnode_at_def Let_def)
qed

lemma lock_free:
  assumes "fnodes S cp = Some n" "nodelock n = RW_Free"
  shows "fusefs_lock t cp lt S =
    (if gone lt n then Goes (ENOENT, (put_fnode cp (released_node n) S)\<lparr>post := post S @ node_work n\<rparr>)
     else Goes (0, put_fnode cp (taken_node t lt n) S))"
proof -
  let ?S = "put_fnode cp (taken_node t lt n) S"
  have "fusefs_unlock cp ?S = Goes ((put_fnode cp (released_node n) ?S)\<lparr>post := post ?S @ node_work n\<rparr>)"
    by (rule unlock_taken) (simp add: put_fnode_def)
  then show ?thesis
    using assms by (auto simp: fusefs_lock_def fnode_at_def gone_def taken_node_def put_fnode_def
        rw_lock_shared_def rw_lock_exclusive_def split: if_splits)
qed

lemma put_fnode_map:
  "fnodes S cp = Some n \<Longrightarrow> put_fnode cp (f n) S = map_nodes {cp} f S"
  by (auto simp: put_fnode_def map_nodes_def fun_eq_iff)

lemma map_nodes_Un:
  "A \<inter> B = {} \<Longrightarrow> map_nodes A f (map_nodes B f S) = map_nodes (A \<union> B) f S"
  by (rule lkstate.equality) (auto simp: fun_eq_iff map_nodes_def)

lemma lock_list_prefix:
  assumes "distinct l" and "\<And>x. x \<in> set l - {0} \<Longrightarrow> \<exists>n. fnodes S x = Some n \<and> nodelock n = RW_Free \<and> \<not> gone lt n"
  shows "lock_list t lt taken (l @ l2) S = lock_list t lt (rev l @ taken) l2 (map_nodes (set l - {0}) (taken_node t lt) S)"
  using assms
proof (induction l arbitrary: taken S)
  case (Cons cp l)
  show ?case
  proof (cases "cp = 0")
    case True
    then have "set (cp # l) - {0} = set l - {0}" by auto
    then show ?thesis using Cons True by simp
  next
    case False
    then obtain n where n: "fnodes S cp = Some n" "nodelock n = RW_Free" "\<not> gone lt n"
      using Cons.prems(2) [of cp] by auto
    let ?S = "map_nodes {cp} (taken_node t lt) S"
    have "lock_list t lt (cp # taken) (l @ l2) ?S =
        lock_list t lt (rev l @ cp # taken) l2 (map_nodes (set l - {0}) (taken_node t lt) ?S)"
      using Cons.prems by (intro Cons.IH) (auto split: if_splits)
    moreover have "map_nodes (set l - {0}) (taken_node t lt) ?S = map_nodes (set (cp # l) - {0}) (taken_node t lt) S"
      using map_nodes_Un [of "set l - {0}" "{cp}" "taken_node t lt" S] Cons.prems(1) False
      by (simp add: insert_Diff_if)
    ultimately show ?thesis using False n by (simp add: lock_free put_fnode_map)
  qed
qed simp

lemma unlock_back_all:
  assumes "distinct l" and "\<And>x. x \<in> set l - {0} \<Longrightarrow> \<exists>n. fnodes S x = Some (taken_node t lt n)"
  shows "unlock_back l S = Goes ((map_nodes (set l - {0}) released_node S)\<lparr>post := post S @ works S (filter (\<lambda>x. x \<noteq> 0) l)\<rparr>)"
  using assms
proof (induction l arbitrary: S)
  case Nil
  then show ?case by (simp add: works_def)
next
  case (Cons cp l)
  show ?case
  proof (cases "cp = 0")
    case True
    then have "set (cp # l) - {0} = set l - {0}" by auto
    then show ?thesis using Cons True by simp
  next
    case False
    then obtain n where n: "fnodes S cp = Some (taken_node t lt n)" using Cons.prems(2) [of cp] by auto
    let ?S = "(map_nodes {cp} released_node S)\<lparr>post := post S @ node_work n\<rparr>"
    have u: "fusefs_unlock cp S = Goes ?S"
      using unlock_taken [OF n] put_fnode_map [OF n, of released_node] by simp
    have "unlock_back l ?S = Goes ((map_nodes (set l - {0}) released_node ?S)\<lparr>post := post ?S @ works ?S (filter (\<lambda>x. x \<noteq> 0) l)\<rparr>)"
      using Cons.prems by (intro Cons.IH) (auto split: if_splits)
    moreover have "works ?S (filter (\<lambda>x. x \<noteq> 0) l) = works S (filter (\<lambda>x. x \<noteq> 0) l)"
      unfolding works_def using Cons.prems(1) by (intro arg_cong [of _ _ concat] map_cong) auto
    moreover have "map_nodes (set l - {0}) released_node ?S =
        (map_nodes (set (cp # l) - {0}) released_node S)\<lparr>post := post S @ node_work n\<rparr>"
      using Cons.prems(1) False by (intro lkstate.equality) (auto simp: fun_eq_iff map_nodes_def)
    ultimately show ?thesis using False u n by (simp add: works_def)
  qed
qed

text \<open>What is left when a node is found gone: every lock that was taken is free again.\<close>

lemma lock_list_fail:
  assumes "distinct (pre @ [g])" and "g \<noteq> 0" and "fnodes S g = Some m" "nodelock m = RW_Free" "gone lt m"
    and pre: "\<And>x. x \<in> set pre - {0} \<Longrightarrow> \<exists>n. fnodes S x = Some n \<and> nodelock n = RW_Free \<and> \<not> gone lt n"
  shows "\<exists>w. lock_list t lt [] (pre @ g # suf) S =
    Goes (ENOENT, (map_nodes (insert g (set pre - {0})) released_node S)\<lparr>post := post S @ w\<rparr>)"
proof -
  let ?A = "set pre - {0}"
  let ?S1 = "map_nodes ?A (taken_node t lt) S"
  let ?S2 = "(map_nodes {g} released_node ?S1)\<lparr>post := post S @ node_work m\<rparr>"
  have g: "g \<notin> set pre" using assms(1) by simp
  have l: "fusefs_lock t g lt ?S1 = Goes (ENOENT, ?S2)"
    using lock_free [of ?S1 g m t lt] put_fnode_map [of ?S1 g m released_node] assms g by simp
  have "\<exists>n. fnodes ?S2 x = Some (taken_node t lt n)" if "x \<in> set (rev pre) - {0}" for x
    using pre [of x] that g by auto
  moreover have "distinct (rev pre)" using assms(1) by simp
  ultimately have "unlock_back (rev pre) ?S2 = Goes ((map_nodes (set (rev pre) - {0}) released_node ?S2)
      \<lparr>post := post ?S2 @ works ?S2 (filter (\<lambda>x. x \<noteq> 0) (rev pre))\<rparr>)"
    by (rule unlock_back_all [rotated])
  moreover have "(map_nodes (set (rev pre) - {0}) released_node ?S2)\<lparr>post := p\<rparr> =
      (map_nodes (insert g ?A) released_node S)\<lparr>post := p\<rparr>" for p
    using g by (intro lkstate.equality) (auto simp: fun_eq_iff map_nodes_def option.map_comp o_def)
  ultimately show ?thesis
    using lock_list_prefix [of pre S lt t "[]" "g # suf"] assms l by (simp add: append_assoc) blast
qed

lemma split_at_gone:
  assumes "\<exists>x \<in> set l. P x"
  obtains pre g suf where "l = pre @ g # suf" "P g" "\<And>x. x \<in> set pre \<Longrightarrow> \<not> P x"
  using split_list_first_prop [of l P] assms by blast

lemma lockfour_result:
  assumes "nodes_legal (fnodes S) {cp1, cp2, cp3, cp4}"
    and "\<And>x. x \<in> {cp1, cp2, cp3, cp4} - {0} \<Longrightarrow> free_node S x"
  shows "if \<exists>x n. x \<in> {cp1, cp2, cp3, cp4} - {0} \<and> fnodes S x = Some n \<and> gone lt n
    then \<exists>B w. B \<subseteq> {cp1, cp2, cp3, cp4} - {0} \<and>
      fusefs_lockfour t cp1 cp2 cp3 cp4 lt S = Goes (ENOENT, (map_nodes B released_node S)\<lparr>post := post S @ w\<rparr>)
    else fusefs_lockfour t cp1 cp2 cp3 cp4 lt S =
      Goes (0, map_nodes ({cp1, cp2, cp3, cp4} - {0}) (taken_node t lt) S)"
proof -
  let ?A = "{cp1, cp2, cp3, cp4}"
  obtain l where l: "lockfour_list (fnodes S) cp1 cp2 cp3 cp4 = Goes l" "distinct l" "set l = ?A"
    using lockfour_list_ok [OF assms(1)] by blast
  then have e: "fusefs_lockfour t cp1 cp2 cp3 cp4 lt S = lock_list t lt [] l S" by (simp add: fusefs_lockfour_def)
  have free: "\<exists>n. fnodes S x = Some n \<and> nodelock n = RW_Free" if "x \<in> set l - {0}" for x
    using assms(2) [of x] that l(3) by (simp add: free_node_def)
  let ?P = "\<lambda>x. x \<noteq> 0 \<and> (\<exists>n. fnodes S x = Some n \<and> gone lt n)"
  show ?thesis
  proof (cases "\<exists>x \<in> set l. ?P x")
    case True
    then obtain pre g suf where p: "l = pre @ g # suf" "?P g" "\<And>x. x \<in> set pre \<Longrightarrow> \<not> ?P x"
      using split_at_gone [of l ?P] by blast
    then obtain m where m: "fnodes S g = Some m" "gone lt m" "g \<noteq> 0" by blast
    have f: "\<exists>n. fnodes S x = Some n \<and> nodelock n = RW_Free \<and> \<not> gone lt n" if "x \<in> set pre - {0}" for x
      using free [of x] p(1,3) that by auto
    have "nodelock m = RW_Free" using free [of g] m p(1) by simp
    then obtain w where "lock_list t lt [] l S =
        Goes (ENOENT, (map_nodes (insert g (set pre - {0})) released_node S)\<lparr>post := post S @ w\<rparr>)"
      using lock_list_fail [of pre g S m lt t suf] l(2) m f p(1) by auto
    moreover have "insert g (set pre - {0}) \<subseteq> ?A - {0}" using l(3) p(1) m(3) by auto
    moreover have "g \<in> ?A - {0}" using l(3) p(1) m(3) by auto
    then have "\<exists>x n. x \<in> ?A - {0} \<and> fnodes S x = Some n \<and> gone lt n" using m(1,2) by blast
    ultimately show ?thesis unfolding e by (simp only: if_True) blast
  next
    case False
    then have "\<not> (\<exists>x n. x \<in> ?A - {0} \<and> fnodes S x = Some n \<and> gone lt n)" using l(3) by auto
    moreover have "lock_list t lt [] l S = Goes (0, map_nodes (set l - {0}) (taken_node t lt) S)"
    proof -
      have "\<exists>n. fnodes S x = Some n \<and> nodelock n = RW_Free \<and> \<not> gone lt n" if "x \<in> set l - {0}" for x
        using free [OF that] False that by blast
      from lock_list_prefix [OF l(2) this, of t "[]" "[]"] show ?thesis by simp
    qed
    ultimately show ?thesis unfolding e l(3) by (simp only: if_False)
  qed
qed

lemma lockfour_locks:
  assumes "nodes_legal (fnodes S) {cp1, cp2, cp3, cp4}"
    and "\<And>x. x \<in> {cp1, cp2, cp3, cp4} - {0} \<Longrightarrow> free_node S x"
    and "fusefs_lockfour t cp1 cp2 cp3 cp4 lt S = Goes (0, S1)"
  shows "S1 = map_nodes ({cp1, cp2, cp3, cp4} - {0}) (taken_node t lt) S"
proof (cases "\<exists>x n. x \<in> {cp1, cp2, cp3, cp4} - {0} \<and> fnodes S x = Some n \<and> gone lt n")
  case True
  with lockfour_result [OF assms(1,2), of lt t] assms(3) show ?thesis by (simp only: if_True) auto
next
  case False
  with lockfour_result [OF assms(1,2), of lt t] assms(3) show ?thesis by (simp only: if_False) simp
qed

text \<open>
  C6: four node locks are taken all or none. When no two of the nodes are each other's parent and
  their locks are free, the lock list names every node exactly once, so that no thread waits for
  itself: if every node still exists (or the caller forces the lock) each node named is locked once
  and nothing else changes; if one of them was deleted the answer is \<^verbatim>\<open>ENOENT\<close> and every
  lock is as it was before, with at most the deferred work of the nodes done.
\<close>

theorem lockfour_all_or_none:
  assumes "nodes_legal (fnodes S) {cp1, cp2, cp3, cp4}"
    and "\<And>x. x \<in> {cp1, cp2, cp3, cp4} - {0} \<Longrightarrow> free_node S x"
  shows "if \<exists>x n. x \<in> {cp1, cp2, cp3, cp4} - {0} \<and> fnodes S x = Some n \<and> gone lt n
    then \<exists>B w. B \<subseteq> {cp1, cp2, cp3, cp4} - {0} \<and>
      fusefs_lockfour t cp1 cp2 cp3 cp4 lt S = Goes (ENOENT, (map_nodes B released_node S)\<lparr>post := post S @ w\<rparr>)
    else fusefs_lockfour t cp1 cp2 cp3 cp4 lt S =
      Goes (0, map_nodes ({cp1, cp2, cp3, cp4} - {0}) (taken_node t lt) S)"
  by (rule lockfour_result [OF assms])

definition sample_fnode :: "u64 \<Rightarrow> u64 \<Rightarrow> u32 \<Rightarrow> fusenode" where
  "sample_fnode i p f = \<lparr>fn_nodeid = i, fn_parent_nodeid = p, fn_vtype = VDIR, c_flag = f, fn_vp = Some (unat i),
     nodelock = RW_Free, nodelockowner = No_Owner, truncatelock = RW_Free\<rparr>"

definition sample_nodes :: lkstate where
  "sample_nodes = \<lparr>fnodes = [0x1000 \<mapsto> sample_fnode 3 2 0x2, 0x2000 \<mapsto> sample_fnode 2 1 0, 0x3000 \<mapsto> sample_fnode 4 2 0x20],
     post = []\<rparr>"

lemma sample_nodes_legal: "nodes_legal (fnodes sample_nodes) {0x2000, 0x1000, 0x3000, 0}"
  by (auto simp: nodes_legal_def parent_of_def sample_nodes_def sample_fnode_def sentinel_def)

lemma sample_nodes_free: "x \<in> {0x2000, 0x1000, 0x3000, 0} - {0} \<Longrightarrow> free_node sample_nodes x"
  by (auto simp: free_node_def sample_nodes_def sample_fnode_def)

theorem lockfour_all_or_none_witness:
  "\<exists>B w. B \<subseteq> {0x2000, 0x1000, 0x3000, 0} - {0} \<and>
     fusefs_lockfour 7 0x2000 0x1000 0x3000 0 FUSEFS_EXCLUSIVE_LOCK sample_nodes =
     Goes (ENOENT, (map_nodes B released_node sample_nodes)\<lparr>post := post sample_nodes @ w\<rparr>)"
proof -
  have "0x3000 \<in> {0x2000, 0x1000, 0x3000, 0::fnaddr} - {0} \<and>
      fnodes sample_nodes 0x3000 = Some (sample_fnode 4 2 0x20) \<and> gone FUSEFS_EXCLUSIVE_LOCK (sample_fnode 4 2 0x20)"
    by (simp add: sample_nodes_def gone_def sample_fnode_def has_flag_def C_NOEXISTS_def)
  then have "\<exists>x n. x \<in> {0x2000, 0x1000, 0x3000, 0} - {0} \<and> fnodes sample_nodes x = Some n \<and>
      gone FUSEFS_EXCLUSIVE_LOCK n" by blast
  with lockfour_all_or_none [OF sample_nodes_legal sample_nodes_free, of FUSEFS_EXCLUSIVE_LOCK 7]
  show ?thesis by (simp only: if_True)
qed

lemma unlock_new_taken:
  assumes "fnodes S cp = Some (taken_node t lt n) \<or> cp = 0 \<or> cp \<in> set l"
  shows "unlock_new cp (l, S) = Goes (if cp = 0 \<or> cp \<in> set l then (l, S)
    else (l @ [cp], (map_nodes {cp} released_node S)\<lparr>post := post S @ works S [cp]\<rparr>))"
  using assms unlock_taken [of S cp t lt n] put_fnode_map [of S cp "taken_node t lt n" released_node]
  by (auto simp: unlock_new_def works_def)

text \<open>Unlocking in turn is unlocking the list without null pointers and repetitions.\<close>

fun unlock_news :: "fnaddr list \<Rightarrow> fnaddr list \<times> lkstate \<Rightarrow> (fnaddr list \<times> lkstate) locking" where
  "unlock_news [] r = Goes r"
| "unlock_news (cp # cps) r = bind_locking (unlock_new cp r) (unlock_news cps)"

lemma bind_locking_assoc:
  "bind_locking (bind_locking m f) g = bind_locking m (\<lambda>x. bind_locking (f x) g)"
  by (cases m) simp_all

lemma unlockfour_news:
  "fusefs_unlockfour cp1 cp2 cp3 cp4 S =
    bind_locking (unlock_news [cp1, cp2, cp3, cp4] ([], S)) (\<lambda>r. Goes (snd r))"
proof -
  have n: "unlock_news (cp # cps) = (\<lambda>r. bind_locking (unlock_new cp r) (unlock_news cps))" for cp cps
    by (rule ext) simp
  have e: "unlock_news [] = Goes" by (rule ext) simp
  show ?thesis unfolding n e fusefs_unlockfour_def by (simp add: bind_locking_assoc)
qed

lemma unlock_news_all:
  assumes "\<And>x. x \<in> set cps - {0} - set l \<Longrightarrow> \<exists>n. fnodes S x = Some (taken_node t lt n)"
  shows "\<exists>l2. unlock_news cps (l, S) =
      Goes (l @ l2, (map_nodes (set l2) released_node S)\<lparr>post := post S @ works S l2\<rparr>) \<and>
    distinct l2 \<and> set l2 = set cps - {0} - set l"
  using assms
proof (induction cps arbitrary: l S)
  case Nil
  then show ?case by (intro exI [of _ "[]"]) (simp add: works_def)
next
  case (Cons cp cps)
  show ?case
  proof (cases "cp = 0 \<or> cp \<in> set l")
    case True
    then have s: "set (cp # cps) - {0} - set l = set cps - {0} - set l" by auto
    have "unlock_new cp (l, S) = Goes (l, S)" using True by (auto simp: unlock_new_def)
    then show ?thesis using Cons.IH [of l S] Cons.prems unfolding s by simp
  next
    case False
    then obtain n where n: "fnodes S cp = Some (taken_node t lt n)" using Cons.prems [of cp] by auto
    let ?S = "(map_nodes {cp} released_node S)\<lparr>post := post S @ works S [cp]\<rparr>"
    have u: "unlock_new cp (l, S) = Goes (l @ [cp], ?S)" using unlock_new_taken [of S cp t lt n l] n False by simp
    have "\<exists>m. fnodes ?S x = Some (taken_node t lt m)" if "x \<in> set cps - {0} - set (l @ [cp])" for x
      using Cons.prems [of x] that by auto
    from Cons.IH [OF this] obtain l2 where l2: "unlock_news cps (l @ [cp], ?S) =
        Goes ((l @ [cp]) @ l2, (map_nodes (set l2) released_node ?S)\<lparr>post := post ?S @ works ?S l2\<rparr>)"
      "distinct l2" "set l2 = set cps - {0} - set (l @ [cp])" by blast
    have w: "works ?S l2 = works S l2" unfolding works_def using l2(3) by (intro arg_cong [of _ _ concat] map_cong) auto
    have m: "(map_nodes (set l2) released_node ?S)\<lparr>post := q\<rparr> = (map_nodes (set (cp # l2)) released_node S)\<lparr>post := q\<rparr>" for q
      using l2(3) by (intro lkstate.equality) (auto simp: fun_eq_iff map_nodes_def)
    have "set (cp # l2) = set (cp # cps) - {0} - set l" using l2(3) False by auto
    moreover have "distinct (cp # l2)" using l2(2,3) by simp
    moreover have "works S (cp # l2) = works S [cp] @ works S l2" by (simp add: works_def)
    ultimately show ?thesis using u l2(1) w m by (intro exI [of _ "cp # l2"]) simp
  qed
qed

text \<open>
  C31: unlocking undoes locking. After four locks were taken, unlocking the same four pointers frees
  each node once, whatever repetitions and null pointers there are among them: every node is as it
  was before but for the owner and the flags of deferred work, which are cleared, and the deferred
  work of each node is done exactly once, after its lock is dropped.
\<close>

theorem lockfour_unlockfour_roundtrip:
  assumes "nodes_legal (fnodes S) {cp1, cp2, cp3, cp4}"
    and "\<And>x. x \<in> {cp1, cp2, cp3, cp4} - {0} \<Longrightarrow> free_node S x"
    and "fusefs_lockfour t cp1 cp2 cp3 cp4 lt S = Goes (0, S1)"
  shows "\<exists>l. distinct l \<and> set l = {cp1, cp2, cp3, cp4} - {0} \<and>
    fusefs_unlockfour cp1 cp2 cp3 cp4 S1 = Goes ((map_nodes (set l) released_node S)\<lparr>post := post S @ works S l\<rparr>)"
proof -
  define A where "A = {cp1, cp2, cp3, cp4} - {0}"
  have S1: "S1 = map_nodes A (taken_node t lt) S"
    unfolding A_def by (rule lockfour_locks [OF assms])
  have free: "\<exists>n. fnodes S x = Some n" if "x \<in> A" for x
    using assms(2) [of x] that unfolding A_def free_node_def by blast
  have "\<exists>n. fnodes S1 x = Some (taken_node t lt n)" if "x \<in> A" for x
    using free [OF that] that unfolding S1 by auto
  then have "\<exists>n. fnodes S1 x = Some (taken_node t lt n)" if "x \<in> set [cp1, cp2, cp3, cp4] - {0} - set []" for x
    using that by (simp add: A_def)
  from unlock_news_all [OF this] obtain l where "unlock_news [cp1, cp2, cp3, cp4] ([], S1) =
      Goes ([] @ l, (map_nodes (set l) released_node S1)\<lparr>post := post S1 @ works S1 l\<rparr>)"
    "distinct l" "set l = set [cp1, cp2, cp3, cp4] - {0} - set []" by blast
  then have l: "unlock_news [cp1, cp2, cp3, cp4] ([], S1) =
      Goes (l, (map_nodes A released_node S1)\<lparr>post := post S @ works S1 l\<rparr>)" "distinct l" "set l = A"
    by (simp_all add: A_def S1)
  have w: "works S1 l = works S l"
    unfolding works_def
  proof (intro arg_cong [of _ _ concat] map_cong refl)
    fix x
    assume "x \<in> set l"
    then show "node_work (the (fnodes S1 x)) = node_work (the (fnodes S x))"
      using free [of x] l(3) unfolding S1 by auto
  qed
  have "(map_nodes A released_node S1)\<lparr>post := q\<rparr> = (map_nodes A released_node S)\<lparr>post := q\<rparr>" for q
    unfolding S1 by (intro lkstate.equality) (auto simp: fun_eq_iff map_nodes_def option.map_comp o_def)
  then have "fusefs_unlockfour cp1 cp2 cp3 cp4 S1 = Goes ((map_nodes A released_node S)\<lparr>post := post S @ works S l\<rparr>)"
    unfolding unlockfour_news l(1) w by simp
  then show ?thesis unfolding A_def [symmetric] using l(2,3) by (intro exI [of _ l]) (simp only: simp_thms)
qed

theorem lockfour_unlockfour_roundtrip_witness:
  "\<exists>S1 l. fusefs_lockfour 7 0x2000 0x1000 0x3000 0 FUSEFS_FORCE_LOCK sample_nodes = Goes (0, S1) \<and>
    set l = {0x2000, 0x1000, 0x3000, 0} - {0} \<and>
    fusefs_unlockfour 0x2000 0x1000 0x3000 0 S1 =
      Goes ((map_nodes (set l) released_node sample_nodes)\<lparr>post := post sample_nodes @ works sample_nodes l\<rparr>)"
proof -
  have "\<not> (\<exists>x n. x \<in> {0x2000, 0x1000, 0x3000, 0} - {0} \<and> fnodes sample_nodes x = Some n \<and> gone FUSEFS_FORCE_LOCK n)"
    by (simp add: gone_def)
  with lockfour_result [OF sample_nodes_legal sample_nodes_free, of FUSEFS_FORCE_LOCK 7]
  have "fusefs_lockfour 7 0x2000 0x1000 0x3000 0 FUSEFS_FORCE_LOCK sample_nodes =
    Goes (0, map_nodes ({0x2000, 0x1000, 0x3000, 0} - {0}) (taken_node 7 FUSEFS_FORCE_LOCK) sample_nodes)"
    by (simp only: if_False)
  with lockfour_unlockfour_roundtrip [OF sample_nodes_legal sample_nodes_free this] show ?thesis by blast
qed

section \<open>Orders that differ\<close>

text \<open>
  C40: two threads that lock the same pair of nodes can wait for each other for ever. Only the first
  pointer is tested for being the parent of the other, so for a directory whose address is above
  that of its child the order depends on the order of the arguments. From free nodes, let one thread
  lock the directory and its child while the other, which locks the child and the directory, has
  taken its first lock: each thread holds the node that the other waits for, in the same state.
\<close>

theorem lockpair_can_deadlock:
  assumes "fnodes S p = Some d" "fnodes S c = Some n" "c < p" "fn_vtype d = VDIR" "fn_nodeid d = fn_parent_nodeid n"
    and "fn_nodeid n \<noteq> fn_parent_nodeid d" and "t1 \<noteq> t2"
    and "nodelock d = RW_Free" "nodelock n = RW_Free" "\<not> has_flag (c_flag d) C_NOEXISTS" "\<not> has_flag (c_flag n) C_NOEXISTS"
  shows "\<exists>S1 S2 S12. fusefs_lock t1 p FUSEFS_EXCLUSIVE_LOCK S = Goes (0, S1) \<and>
    fusefs_lock t2 c FUSEFS_EXCLUSIVE_LOCK S = Goes (0, S2) \<and>
    fusefs_lockpair t1 p c FUSEFS_EXCLUSIVE_LOCK S2 = Waits c S12 \<and>
    fusefs_lockpair t2 c p FUSEFS_EXCLUSIVE_LOCK S1 = Waits p S12"
proof -
  let ?d = "taken_node t1 FUSEFS_EXCLUSIVE_LOCK d" and ?n = "taken_node t2 FUSEFS_EXCLUSIVE_LOCK n"
  let ?S1 = "put_fnode p ?d S" and ?S2 = "put_fnode c ?n S" and ?S12 = "put_fnode c ?n (put_fnode p ?d S)"
  have comm: "put_fnode p ?d ?S2 = ?S12" using assms(3) by (simp add: put_fnode_def fun_upd_twist)
  have ng: "\<not> gone FUSEFS_EXCLUSIVE_LOCK d" "\<not> gone FUSEFS_EXCLUSIVE_LOCK n" using assms by (simp_all add: gone_def)
  note lk = lock_free [where lt = FUSEFS_EXCLUSIVE_LOCK]
  have l: "fusefs_lock t1 p FUSEFS_EXCLUSIVE_LOCK S = Goes (0, ?S1)"
    "fusefs_lock t2 c FUSEFS_EXCLUSIVE_LOCK S = Goes (0, ?S2)"
    "fusefs_lock t1 p FUSEFS_EXCLUSIVE_LOCK ?S2 = Goes (0, ?S12)"
    "fusefs_lock t2 c FUSEFS_EXCLUSIVE_LOCK ?S1 = Goes (0, ?S12)"
    using lk [of S p d] lk [of S c n] lk [of ?S2 p d] lk [of ?S1 c n] assms ng comm
    by (simp_all add: put_fnode_def)
  have w: "fusefs_lock t1 c FUSEFS_EXCLUSIVE_LOCK ?S12 = Waits c ?S12"
    "fusefs_lock t2 p FUSEFS_EXCLUSIVE_LOCK ?S12 = Waits p ?S12"
    using assms(3) by (simp_all add: fusefs_lock_def fnode_at_def put_fnode_def taken_node_def rw_lock_exclusive_def)
  have o: "lockpair_order (fnodes ?S2) p c = Goes (p, c)" "lockpair_order (fnodes ?S1) c p = Goes (c, p)"
    using assms by (simp_all add: lockpair_order_def fnode_at_def put_fnode_def taken_node_def)
  have "fusefs_lockpair t1 p c FUSEFS_EXCLUSIVE_LOCK ?S2 = Waits c ?S12"
    "fusefs_lockpair t2 c p FUSEFS_EXCLUSIVE_LOCK ?S1 = Waits p ?S12"
    using assms(3) o l(3,4) w by (simp_all add: fusefs_lockpair_def)
  then show ?thesis using l(1,2) by blast
qed

theorem lockpair_can_deadlock_witness:
  "\<exists>S1 S2 S12. fusefs_lock 7 0x2000 FUSEFS_EXCLUSIVE_LOCK sample_nodes = Goes (0, S1) \<and>
    fusefs_lock 8 0x1000 FUSEFS_EXCLUSIVE_LOCK sample_nodes = Goes (0, S2) \<and>
    fusefs_lockpair 7 0x2000 0x1000 FUSEFS_EXCLUSIVE_LOCK S2 = Waits 0x1000 S12 \<and>
    fusefs_lockpair 8 0x1000 0x2000 FUSEFS_EXCLUSIVE_LOCK S1 = Waits 0x2000 S12"
  by (rule lockpair_can_deadlock [of _ _ "sample_fnode 2 1 0" _ "sample_fnode 3 2 0x2"])
    (simp_all add: sample_nodes_def sample_fnode_def has_flag_def C_NOEXISTS_def)

end
