(* ===== verification/Fuse_Biglock.thy ===== *)
theory Fuse_Biglock
  imports Fuse_Locking
begin

text \<open>
  The layer between the kernel and the vnode operations (\<^verbatim>\<open>fuse_biglock_vnops.c\<close> and
  the macros of \<^verbatim>\<open>fuse_biglock_vnops.h\<close>): every operation takes the locks of the nodes
  it works on, then the lock of the whole volume, runs, and releases both.

  The vnode operation that a wrapper calls is its argument \<open>vnop\<close>, as it is an argument of the
  macros. The wrappers are built with the lock of the volume as a mutex
  (\<^verbatim>\<open>M_MACFUSE_ENABLE_HUGE_LOCK\<close> is 0) and without logging.
\<close>

section \<open>State and outcomes\<close>

text \<open>
  \<open>vn_fud\<close> is the macro \<^verbatim>\<open>VTOFUD\<close>: the file system node of a vnode. The vnode \<open>0\<close> is
  the null pointer.
\<close>

record bigstate =
  bl_nodes :: lkstate
  bl_owner :: "thread option"
  vn_fud :: "vnode \<Rightarrow> fnaddr option"

datatype 'a vnop_run =
    Runs 'a | Waits_Node fnaddr bigstate | Waits_Biglock bigstate | Run_Panics | Run_Faults

fun bind_run :: "'a vnop_run \<Rightarrow> ('a \<Rightarrow> 'b vnop_run) \<Rightarrow> 'b vnop_run" where
  "bind_run (Runs x) f = f x"
| "bind_run (Waits_Node a B) f = Waits_Node a B"
| "bind_run (Waits_Biglock B) f = Waits_Biglock B"
| "bind_run Run_Panics f = Run_Panics"
| "bind_run Run_Faults f = Run_Faults"

fun run_locking :: "bigstate \<Rightarrow> 'a locking \<Rightarrow> 'a vnop_run" where
  "run_locking B (Goes x) = Runs x"
| "run_locking B (Waits a S) = Waits_Node a (B\<lparr>bl_nodes := S\<rparr>)"
| "run_locking B Panics = Run_Panics"
| "run_locking B Faults = Run_Faults"

definition run_option :: "'a option \<Rightarrow> 'a vnop_run" where
  "run_option x = (case x of None \<Rightarrow> Run_Faults | Some v \<Rightarrow> Runs v)"

text \<open>\<^verbatim>\<open>vp ? VTOFUD(vp) : NULL\<close>\<close>

definition fud_or_null :: "bigstate \<Rightarrow> vnode \<Rightarrow> fnaddr vnop_run" where
  "fud_or_null B vp = (if vp = 0 then Runs 0 else run_option (vn_fud B vp))"

section \<open>The locks\<close>

definition fuse_biglock_lock :: "thread \<Rightarrow> bigstate \<Rightarrow> bigstate vnop_run" where
  "fuse_biglock_lock t B =
     (case bl_owner B of None \<Rightarrow> Runs (B\<lparr>bl_owner := Some t\<rparr>) | Some _ \<Rightarrow> Waits_Biglock B)"

definition fuse_biglock_unlock :: "bigstate \<Rightarrow> bigstate vnop_run" where
  "fuse_biglock_unlock B =
     (case bl_owner B of None \<Rightarrow> Run_Faults | Some _ \<Rightarrow> Runs (B\<lparr>bl_owner := None\<rparr>))"

text \<open>The macros that lock nodes: an error number other than 0 makes the wrapper return it.\<close>

definition fuse_nodelock_lock :: "thread \<Rightarrow> fnaddr \<Rightarrow> fusefslocktype \<Rightarrow> bigstate \<Rightarrow> (errno \<times> bigstate) vnop_run" where
  "fuse_nodelock_lock t n ty B = bind_run (run_locking B (fusefs_lock t n ty (bl_nodes B)))
     (\<lambda>(err, S). Runs (err, B\<lparr>bl_nodes := S\<rparr>))"

definition fuse_nodelock_unlock :: "fnaddr \<Rightarrow> bigstate \<Rightarrow> bigstate vnop_run" where
  "fuse_nodelock_unlock n B =
     bind_run (run_locking B (fusefs_unlock n (bl_nodes B))) (\<lambda>S. Runs (B\<lparr>bl_nodes := S\<rparr>))"

definition fuse_nodelock_lock_pair ::
    "thread \<Rightarrow> fnaddr \<Rightarrow> fnaddr \<Rightarrow> fusefslocktype \<Rightarrow> bigstate \<Rightarrow> (errno \<times> bigstate) vnop_run" where
  "fuse_nodelock_lock_pair t n1 n2 ty B = bind_run (run_locking B (fusefs_lockpair t n1 n2 ty (bl_nodes B)))
     (\<lambda>(err, S). Runs (err, B\<lparr>bl_nodes := S\<rparr>))"

definition fuse_nodelock_unlock_pair :: "fnaddr \<Rightarrow> fnaddr \<Rightarrow> bigstate \<Rightarrow> bigstate vnop_run" where
  "fuse_nodelock_unlock_pair n1 n2 B =
     bind_run (run_locking B (fusefs_unlockpair n1 n2 (bl_nodes B))) (\<lambda>S. Runs (B\<lparr>bl_nodes := S\<rparr>))"



section \<open>The wrappers\<close>

type_synonym vnop_body = "bigstate \<Rightarrow> (errno \<times> bigstate) vnop_run"

definition locked_vnop :: "thread \<Rightarrow> vnode \<Rightarrow> vnop_body \<Rightarrow> vnop_body" where
  "locked_vnop t vp vnop B =
     bind_run (run_option (vn_fud B vp)) (\<lambda>_.
     bind_run (fuse_biglock_lock t B) (\<lambda>B.
     bind_run (vnop B) (\<lambda>(res, B).
     bind_run (fuse_biglock_unlock B) (\<lambda>B. Runs (res, B)))))"

definition nodelocked_vnop :: "thread \<Rightarrow> vnode \<Rightarrow> vnop_body \<Rightarrow> vnop_body" where
  "nodelocked_vnop t vp vnop B =
     bind_run (run_option (vn_fud B vp)) (\<lambda>node.
     bind_run (fuse_nodelock_lock t node FUSEFS_EXCLUSIVE_LOCK B) (\<lambda>(err, B).
     if err \<noteq> 0 then Runs (err, B)
     else bind_run (fuse_biglock_lock t B) (\<lambda>B.
     bind_run (vnop B) (\<lambda>(res, B).
     bind_run (fuse_biglock_unlock B) (\<lambda>B.
     bind_run (fuse_nodelock_unlock node B) (\<lambda>B. Runs (res, B)))))))"

definition nodelocked_pair_vnop :: "thread \<Rightarrow> vnode \<Rightarrow> vnode \<Rightarrow> vnop_body \<Rightarrow> vnop_body" where
  "nodelocked_pair_vnop t vp1 vp2 vnop B =
     bind_run (run_option (vn_fud B vp1)) (\<lambda>_.
     bind_run (fud_or_null B vp1) (\<lambda>node1.
     bind_run (fud_or_null B vp2) (\<lambda>node2.
     bind_run (fuse_nodelock_lock_pair t node1 node2 FUSEFS_EXCLUSIVE_LOCK B) (\<lambda>(err, B).
     if err \<noteq> 0 then Runs (err, B)
     else bind_run (fuse_biglock_lock t B) (\<lambda>B.
     bind_run (vnop B) (\<lambda>(res, B).
     bind_run (fuse_biglock_unlock B) (\<lambda>B.
     bind_run (fuse_nodelock_unlock_pair node1 node2 B) (\<lambda>B. Runs (res, B)))))))))"


section \<open>The operations\<close>

text \<open>The vnodes among the arguments of the operations; \<open>a_bp_vnode\<close> is \<^verbatim>\<open>buf_vnode(ap->a_bp)\<close>.\<close>

record vnop_args =
  a_vp :: vnode
  a_dvp :: vnode
  a_fvp :: vnode
  a_tvp :: vnode
  a_fdvp :: vnode
  a_tdvp :: vnode
  a_bp_vnode :: vnode

type_synonym biglock_vnop = "vnop_args \<Rightarrow> vnop_body"

definition fuse_biglock_vnop_access ::
    "biglock_vnop \<Rightarrow> thread \<Rightarrow> vnop_args \<Rightarrow> bigstate \<Rightarrow> (errno \<times> bigstate) vnop_run" where
  "fuse_biglock_vnop_access vnop t ap B = nodelocked_vnop t (a_vp ap) (vnop ap) B"

definition fuse_biglock_vnop_blktooff ::
    "biglock_vnop \<Rightarrow> thread \<Rightarrow> vnop_args \<Rightarrow> bigstate \<Rightarrow> (errno \<times> bigstate) vnop_run" where
  "fuse_biglock_vnop_blktooff vnop t ap B = locked_vnop t (a_vp ap) (vnop ap) B"

definition fuse_biglock_vnop_blockmap ::
    "biglock_vnop \<Rightarrow> thread \<Rightarrow> vnop_args \<Rightarrow> bigstate \<Rightarrow> (errno \<times> bigstate) vnop_run" where
  "fuse_biglock_vnop_blockmap vnop t ap B = locked_vnop t (a_vp ap) (vnop ap) B"

definition fuse_biglock_vnop_close ::
    "biglock_vnop \<Rightarrow> thread \<Rightarrow> vnop_args \<Rightarrow> bigstate \<Rightarrow> (errno \<times> bigstate) vnop_run" where
  "fuse_biglock_vnop_close vnop t ap B = nodelocked_vnop t (a_vp ap) (vnop ap) B"

definition fuse_biglock_vnop_create ::
    "biglock_vnop \<Rightarrow> thread \<Rightarrow> vnop_args \<Rightarrow> bigstate \<Rightarrow> (errno \<times> bigstate) vnop_run" where
  "fuse_biglock_vnop_create vnop t ap B = nodelocked_vnop t (a_dvp ap) (vnop ap) B"

definition fuse_biglock_vnop_exchange ::
    "biglock_vnop \<Rightarrow> thread \<Rightarrow> vnop_args \<Rightarrow> bigstate \<Rightarrow> (errno \<times> bigstate) vnop_run" where
  "fuse_biglock_vnop_exchange vnop t ap B = nodelocked_pair_vnop t (a_fvp ap) (a_tvp ap) (vnop ap) B"

definition fuse_biglock_vnop_fsync ::
    "biglock_vnop \<Rightarrow> thread \<Rightarrow> vnop_args \<Rightarrow> bigstate \<Rightarrow> (errno \<times> bigstate) vnop_run" where
  "fuse_biglock_vnop_fsync vnop t ap B = nodelocked_vnop t (a_vp ap) (vnop ap) B"

definition fuse_biglock_vnop_getattr ::
    "biglock_vnop \<Rightarrow> thread \<Rightarrow> vnop_args \<Rightarrow> bigstate \<Rightarrow> (errno \<times> bigstate) vnop_run" where
  "fuse_biglock_vnop_getattr vnop t ap B = nodelocked_vnop t (a_vp ap) (vnop ap) B"

definition fuse_biglock_vnop_getxattr ::
    "biglock_vnop \<Rightarrow> thread \<Rightarrow> vnop_args \<Rightarrow> bigstate \<Rightarrow> (errno \<times> bigstate) vnop_run" where
  "fuse_biglock_vnop_getxattr vnop t ap B = nodelocked_vnop t (a_vp ap) (vnop ap) B"

definition fuse_biglock_vnop_inactive ::
    "biglock_vnop \<Rightarrow> thread \<Rightarrow> vnop_args \<Rightarrow> bigstate \<Rightarrow> (errno \<times> bigstate) vnop_run" where
  "fuse_biglock_vnop_inactive vnop t ap B = nodelocked_vnop t (a_vp ap) (vnop ap) B"

definition fuse_biglock_vnop_ioctl ::
    "biglock_vnop \<Rightarrow> thread \<Rightarrow> vnop_args \<Rightarrow> bigstate \<Rightarrow> (errno \<times> bigstate) vnop_run" where
  "fuse_biglock_vnop_ioctl vnop t ap B = nodelocked_vnop t (a_vp ap) (vnop ap) B"

definition fuse_biglock_vnop_kqfilt_add ::
    "biglock_vnop \<Rightarrow> thread \<Rightarrow> vnop_args \<Rightarrow> bigstate \<Rightarrow> (errno \<times> bigstate) vnop_run" where
  "fuse_biglock_vnop_kqfilt_add vnop t ap B = nodelocked_vnop t (a_vp ap) (vnop ap) B"

definition fuse_biglock_vnop_kqfilt_remove ::
    "biglock_vnop \<Rightarrow> thread \<Rightarrow> vnop_args \<Rightarrow> bigstate \<Rightarrow> (errno \<times> bigstate) vnop_run" where
  "fuse_biglock_vnop_kqfilt_remove vnop t ap B = nodelocked_vnop t (a_vp ap) (vnop ap) B"

definition fuse_biglock_vnop_link ::
    "biglock_vnop \<Rightarrow> thread \<Rightarrow> vnop_args \<Rightarrow> bigstate \<Rightarrow> (errno \<times> bigstate) vnop_run" where
  "fuse_biglock_vnop_link vnop t ap B = nodelocked_vnop t (a_vp ap) (vnop ap) B"

definition fuse_biglock_vnop_listxattr ::
    "biglock_vnop \<Rightarrow> thread \<Rightarrow> vnop_args \<Rightarrow> bigstate \<Rightarrow> (errno \<times> bigstate) vnop_run" where
  "fuse_biglock_vnop_listxattr vnop t ap B = nodelocked_vnop t (a_vp ap) (vnop ap) B"

definition fuse_biglock_vnop_lookup ::
    "biglock_vnop \<Rightarrow> thread \<Rightarrow> vnop_args \<Rightarrow> bigstate \<Rightarrow> (errno \<times> bigstate) vnop_run" where
  "fuse_biglock_vnop_lookup vnop t ap B = nodelocked_vnop t (a_dvp ap) (vnop ap) B"

definition fuse_biglock_vnop_mkdir ::
    "biglock_vnop \<Rightarrow> thread \<Rightarrow> vnop_args \<Rightarrow> bigstate \<Rightarrow> (errno \<times> bigstate) vnop_run" where
  "fuse_biglock_vnop_mkdir vnop t ap B = nodelocked_vnop t (a_dvp ap) (vnop ap) B"

definition fuse_biglock_vnop_mknod ::
    "biglock_vnop \<Rightarrow> thread \<Rightarrow> vnop_args \<Rightarrow> bigstate \<Rightarrow> (errno \<times> bigstate) vnop_run" where
  "fuse_biglock_vnop_mknod vnop t ap B = nodelocked_vnop t (a_dvp ap) (vnop ap) B"

definition fuse_biglock_vnop_mmap ::
    "biglock_vnop \<Rightarrow> thread \<Rightarrow> vnop_args \<Rightarrow> bigstate \<Rightarrow> (errno \<times> bigstate) vnop_run" where
  "fuse_biglock_vnop_mmap vnop t ap B = nodelocked_vnop t (a_vp ap) (vnop ap) B"

definition fuse_biglock_vnop_mnomap ::
    "biglock_vnop \<Rightarrow> thread \<Rightarrow> vnop_args \<Rightarrow> bigstate \<Rightarrow> (errno \<times> bigstate) vnop_run" where
  "fuse_biglock_vnop_mnomap vnop t ap B = nodelocked_vnop t (a_vp ap) (vnop ap) B"

definition fuse_biglock_vnop_offtoblk ::
    "biglock_vnop \<Rightarrow> thread \<Rightarrow> vnop_args \<Rightarrow> bigstate \<Rightarrow> (errno \<times> bigstate) vnop_run" where
  "fuse_biglock_vnop_offtoblk vnop t ap B = locked_vnop t (a_vp ap) (vnop ap) B"

definition fuse_biglock_vnop_open ::
    "biglock_vnop \<Rightarrow> thread \<Rightarrow> vnop_args \<Rightarrow> bigstate \<Rightarrow> (errno \<times> bigstate) vnop_run" where
  "fuse_biglock_vnop_open vnop t ap B = nodelocked_vnop t (a_vp ap) (vnop ap) B"

definition fuse_biglock_vnop_pagein ::
    "biglock_vnop \<Rightarrow> thread \<Rightarrow> vnop_args \<Rightarrow> bigstate \<Rightarrow> (errno \<times> bigstate) vnop_run" where
  "fuse_biglock_vnop_pagein vnop t ap B = locked_vnop t (a_vp ap) (vnop ap) B"

definition fuse_biglock_vnop_pageout ::
    "biglock_vnop \<Rightarrow> thread \<Rightarrow> vnop_args \<Rightarrow> bigstate \<Rightarrow> (errno \<times> bigstate) vnop_run" where
  "fuse_biglock_vnop_pageout vnop t ap B = locked_vnop t (a_vp ap) (vnop ap) B"

definition fuse_biglock_vnop_pathconf ::
    "biglock_vnop \<Rightarrow> thread \<Rightarrow> vnop_args \<Rightarrow> bigstate \<Rightarrow> (errno \<times> bigstate) vnop_run" where
  "fuse_biglock_vnop_pathconf vnop t ap B = nodelocked_vnop t (a_vp ap) (vnop ap) B"

definition fuse_biglock_vnop_read ::
    "biglock_vnop \<Rightarrow> thread \<Rightarrow> vnop_args \<Rightarrow> bigstate \<Rightarrow> (errno \<times> bigstate) vnop_run" where
  "fuse_biglock_vnop_read vnop t ap B = nodelocked_vnop t (a_vp ap) (vnop ap) B"

definition fuse_biglock_vnop_readdir ::
    "biglock_vnop \<Rightarrow> thread \<Rightarrow> vnop_args \<Rightarrow> bigstate \<Rightarrow> (errno \<times> bigstate) vnop_run" where
  "fuse_biglock_vnop_readdir vnop t ap B = nodelocked_vnop t (a_vp ap) (vnop ap) B"

definition fuse_biglock_vnop_readlink ::
    "biglock_vnop \<Rightarrow> thread \<Rightarrow> vnop_args \<Rightarrow> bigstate \<Rightarrow> (errno \<times> bigstate) vnop_run" where
  "fuse_biglock_vnop_readlink vnop t ap B = nodelocked_vnop t (a_vp ap) (vnop ap) B"

definition fuse_biglock_vnop_reclaim ::
    "biglock_vnop \<Rightarrow> thread \<Rightarrow> vnop_args \<Rightarrow> bigstate \<Rightarrow> (errno \<times> bigstate) vnop_run" where
  "fuse_biglock_vnop_reclaim vnop t ap B = locked_vnop t (a_vp ap) (vnop ap) B"

definition fuse_biglock_vnop_remove ::
    "biglock_vnop \<Rightarrow> thread \<Rightarrow> vnop_args \<Rightarrow> bigstate \<Rightarrow> (errno \<times> bigstate) vnop_run" where
  "fuse_biglock_vnop_remove vnop t ap B = nodelocked_vnop t (a_vp ap) (vnop ap) B"

definition fuse_biglock_vnop_removexattr ::
    "biglock_vnop \<Rightarrow> thread \<Rightarrow> vnop_args \<Rightarrow> bigstate \<Rightarrow> (errno \<times> bigstate) vnop_run" where
  "fuse_biglock_vnop_removexattr vnop t ap B = nodelocked_vnop t (a_vp ap) (vnop ap) B"


definition fuse_biglock_vnop_revoke ::
    "biglock_vnop \<Rightarrow> thread \<Rightarrow> vnop_args \<Rightarrow> bigstate \<Rightarrow> (errno \<times> bigstate) vnop_run" where
  "fuse_biglock_vnop_revoke vnop t ap B = locked_vnop t (a_vp ap) (vnop ap) B"

definition fuse_biglock_vnop_rmdir ::
    "biglock_vnop \<Rightarrow> thread \<Rightarrow> vnop_args \<Rightarrow> bigstate \<Rightarrow> (errno \<times> bigstate) vnop_run" where
  "fuse_biglock_vnop_rmdir vnop t ap B = nodelocked_vnop t (a_vp ap) (vnop ap) B"

definition fuse_biglock_vnop_select ::
    "biglock_vnop \<Rightarrow> thread \<Rightarrow> vnop_args \<Rightarrow> bigstate \<Rightarrow> (errno \<times> bigstate) vnop_run" where
  "fuse_biglock_vnop_select vnop t ap B = nodelocked_vnop t (a_vp ap) (vnop ap) B"

definition fuse_biglock_vnop_setattr ::
    "biglock_vnop \<Rightarrow> thread \<Rightarrow> vnop_args \<Rightarrow> bigstate \<Rightarrow> (errno \<times> bigstate) vnop_run" where
  "fuse_biglock_vnop_setattr vnop t ap B = nodelocked_vnop t (a_vp ap) (vnop ap) B"

definition fuse_biglock_vnop_setxattr ::
    "biglock_vnop \<Rightarrow> thread \<Rightarrow> vnop_args \<Rightarrow> bigstate \<Rightarrow> (errno \<times> bigstate) vnop_run" where
  "fuse_biglock_vnop_setxattr vnop t ap B = nodelocked_vnop t (a_vp ap) (vnop ap) B"

definition fuse_biglock_vnop_strategy ::
    "biglock_vnop \<Rightarrow> thread \<Rightarrow> vnop_args \<Rightarrow> bigstate \<Rightarrow> (errno \<times> bigstate) vnop_run" where
  "fuse_biglock_vnop_strategy vnop t ap B = locked_vnop t (a_bp_vnode ap) (vnop ap) B"

definition fuse_biglock_vnop_symlink ::
    "biglock_vnop \<Rightarrow> thread \<Rightarrow> vnop_args \<Rightarrow> bigstate \<Rightarrow> (errno \<times> bigstate) vnop_run" where
  "fuse_biglock_vnop_symlink vnop t ap B = nodelocked_vnop t (a_dvp ap) (vnop ap) B"


section \<open>The wrappers of the operations on the mount\<close>

definition locked_vfsop :: "thread \<Rightarrow> vnop_body \<Rightarrow> vnop_body" where
  "locked_vfsop t vfsop B =
     bind_run (fuse_biglock_lock t B) (\<lambda>B.
     bind_run (vfsop B) (\<lambda>(res, B).
     bind_run (fuse_biglock_unlock B) (\<lambda>B. Runs (res, B))))"

text \<open>Mounting and unmounting take no lock, for the lock belongs to the session they make and end.\<close>

definition fuse_vfsop_biglock_mount :: "vnop_body \<Rightarrow> vnop_body" where
  "fuse_vfsop_biglock_mount vfsop B = vfsop B"

definition fuse_vfsop_biglock_unmount :: "vnop_body \<Rightarrow> vnop_body" where
  "fuse_vfsop_biglock_unmount vfsop B = vfsop B"

definition fuse_vfsop_biglock_root :: "vnop_body \<Rightarrow> thread \<Rightarrow> vnop_body" where
  "fuse_vfsop_biglock_root vfsop t B = locked_vfsop t vfsop B"

definition fuse_vfsop_biglock_getattr :: "vnop_body \<Rightarrow> thread \<Rightarrow> vnop_body" where
  "fuse_vfsop_biglock_getattr vfsop t B = locked_vfsop t vfsop B"

definition fuse_vfsop_biglock_sync :: "vnop_body \<Rightarrow> thread \<Rightarrow> vnop_body" where
  "fuse_vfsop_biglock_sync vfsop t B = locked_vfsop t vfsop B"

definition fuse_vfsop_biglock_setattr :: "vnop_body \<Rightarrow> thread \<Rightarrow> vnop_body" where
  "fuse_vfsop_biglock_setattr vfsop t B = locked_vfsop t vfsop B"

text \<open>They release the lock, unless the operation loses it.\<close>

lemma locked_vfsop_released:
  "bl_owner B = None \<Longrightarrow> vfsop (B\<lparr>bl_owner := Some t\<rparr>) = Runs (r, B1) \<Longrightarrow> bl_owner B1 = Some t \<Longrightarrow>
   locked_vfsop t vfsop B = Runs (r, B1\<lparr>bl_owner := None\<rparr>)"
  by (simp add: locked_vfsop_def fuse_biglock_lock_def fuse_biglock_unlock_def)

section \<open>The wrappers release what they took\<close>



















end
