(* ===== verification/Fuse_Recursive_Lock.thy ===== *)
theory Fuse_Recursive_Lock
  imports Fuse_Iov
begin

text \<open>
  The recursive lock of \<^verbatim>\<open>fuse_locking.c\<close>, which can serialise the operations of all
  volumes. A thread that holds it may take it again; others wait on the mutex inside.

  Every read or write of a shared field that is not protected by the mutex is a step of its own:
  \<open>pc\<close> is where a thread stands inside the two functions, and the state counts for each thread how
  often it holds the lock (\<open>depth\<close>, which the code does not have). Threads are numbers and \<open>0\<close> is
  the null thread. The assertions of the source are compiled out; the invariant shows that they hold.
\<close>

section \<open>The lock\<close>

record recursive_lock =
  rl_mutex :: "nat option"
  rl_thread :: nat
  rl_count :: u32

datatype rl_pc = Outside | Wants_Mutex | Has_Mutex | Leaving

definition sizeof_recursive_lock :: nat where "sizeof_recursive_lock = 32"

text \<open>\<open>mtx\<close> is whether \<^verbatim>\<open>lck_mtx_alloc_init\<close> returned a mutex.\<close>

definition fusefs_recursive_lock_alloc_with_lock_group ::
    "osmalloc \<Rightarrow> bool \<Rightarrow> bool \<Rightarrow> fuse_counters \<Rightarrow> (recursive_lock option \<times> fuse_counters) outcome" where
  "fusefs_recursive_lock_alloc_with_lock_group osm mtx lock_group g =
     (if \<not> lock_group then Done (None, g)
      else bind_outcome (FUSE_OSMalloc osm sizeof_recursive_lock g) (\<lambda>(_, g1).
        if mtx then Done (Some \<lparr>rl_mutex = None, rl_thread = 0, rl_count = 0\<rparr>, g1)
        else Done (None, FUSE_OSFree sizeof_recursive_lock g1)))"

definition fusefs_recursive_lock_free :: "recursive_lock \<Rightarrow> fuse_counters \<Rightarrow> fuse_counters" where
  "fusefs_recursive_lock_free lock g = FUSE_OSFree sizeof_recursive_lock g"

text \<open>One step of locking; \<open>None\<close> is a thread that waits for the mutex.\<close>

fun fusefs_recursive_lock_lock :: "nat \<Rightarrow> rl_pc \<Rightarrow> recursive_lock \<Rightarrow> (rl_pc \<times> recursive_lock) option" where
  "fusefs_recursive_lock_lock t Outside lock =
     (if rl_thread lock = t then Some (Outside, lock\<lparr>rl_count := rl_count lock + 1\<rparr>)
      else Some (Wants_Mutex, lock))"
| "fusefs_recursive_lock_lock t Wants_Mutex lock =
     (case rl_mutex lock of None \<Rightarrow> Some (Has_Mutex, lock\<lparr>rl_mutex := Some t\<rparr>) | Some _ \<Rightarrow> None)"
| "fusefs_recursive_lock_lock t Has_Mutex lock = Some (Outside, lock\<lparr>rl_thread := t, rl_count := 1\<rparr>)"
| "fusefs_recursive_lock_lock t Leaving lock = None"

text \<open>One step of unlocking.\<close>

fun fusefs_recursive_lock_unlock :: "rl_pc \<Rightarrow> recursive_lock \<Rightarrow> (rl_pc \<times> recursive_lock) outcome" where
  "fusefs_recursive_lock_unlock Leaving lock = Done (Outside, lock\<lparr>rl_mutex := None\<rparr>)"
| "fusefs_recursive_lock_unlock pc lock =
     (if rl_count lock = 0 then Panic
      else let c = rl_count lock - 1 in
        if c = 0 then Done (Leaving, lock\<lparr>rl_count := c, rl_thread := 0\<rparr>)
        else Done (pc, lock\<lparr>rl_count := c\<rparr>))"

section \<open>Any number of threads\<close>

record rl_system =
  rl :: recursive_lock
  pc :: "nat \<Rightarrow> rl_pc"
  depth :: "nat \<Rightarrow> nat"

definition rl_init :: rl_system where
  "rl_init = \<lparr>rl = \<lparr>rl_mutex = None, rl_thread = 0, rl_count = 0\<rparr>, pc = (\<lambda>_. Outside), depth = (\<lambda>_. 0)\<rparr>"

text \<open>
  A thread that is not inside the functions may lock, and may unlock when it holds the lock. No
  thread nests the lock \<open>2\<^sup>3\<^sup>2\<close> times: its stack has no room for the calls.
\<close>

inductive rl_step :: "rl_system \<Rightarrow> rl_system \<Rightarrow> bool" where
  lock: "0 < t \<Longrightarrow> depth s t + 1 < 2 ^ 32 \<Longrightarrow>
      fusefs_recursive_lock_lock t (pc s t) (rl s) = Some (p, l) \<Longrightarrow>
      rl_step s (s\<lparr>rl := l, pc := (pc s)(t := p),
        depth := (depth s)(t := depth s t + (if p = Outside then 1 else 0))\<rparr>)"
| unlock: "0 < t \<Longrightarrow> pc s t = Outside \<Longrightarrow> 0 < depth s t \<Longrightarrow>
      fusefs_recursive_lock_unlock Outside (rl s) = Done (p, l) \<Longrightarrow>
      rl_step s (s\<lparr>rl := l, pc := (pc s)(t := p), depth := (depth s)(t := depth s t - 1)\<rparr>)"
| leave: "0 < t \<Longrightarrow> pc s t = Leaving \<Longrightarrow> fusefs_recursive_lock_unlock Leaving (rl s) = Done (p, l) \<Longrightarrow>
      rl_step s (s\<lparr>rl := l, pc := (pc s)(t := p)\<rparr>)"

inductive_cases rl_stepE: "rl_step s s'"

definition rl_inv :: "rl_system \<Rightarrow> bool" where
  "rl_inv s \<longleftrightarrow> depth s 0 = 0 \<and>
     (case rl_mutex (rl s) of
        None \<Rightarrow> rl_thread (rl s) = 0 \<and> rl_count (rl s) = 0 \<and>
          (\<forall>t. depth s t = 0 \<and> pc s t \<in> {Outside, Wants_Mutex})
      | Some h \<Rightarrow> 0 < h \<and> depth s h < 2 ^ 32 \<and>
          (\<forall>t. t \<noteq> h \<longrightarrow> depth s t = 0 \<and> pc s t \<in> {Outside, Wants_Mutex}) \<and>
          (pc s h \<in> {Has_Mutex, Leaving} \<and> rl_thread (rl s) = 0 \<and> rl_count (rl s) = 0 \<and> depth s h = 0 \<or>
           pc s h = Outside \<and> rl_thread (rl s) = h \<and> rl_count (rl s) = of_nat (depth s h) \<and> 0 < depth s h))"

lemma rl_inv_init: "rl_inv rl_init"
  by (simp add: rl_inv_def rl_init_def)

text \<open>The two forms of the invariant: the lock is free, or a thread \<open>h\<close> has its mutex.\<close>

lemma rl_invE:
  assumes "rl_inv s"
  obtains (free) "rl_mutex (rl s) = None" "rl_thread (rl s) = 0" "rl_count (rl s) = 0"
      "\<And>t. depth s t = 0" "\<And>t. pc s t = Outside \<or> pc s t = Wants_Mutex"
    | (busy) h where "rl_mutex (rl s) = Some h" "0 < h" "pc s h = Has_Mutex \<or> pc s h = Leaving"
      "rl_thread (rl s) = 0" "rl_count (rl s) = 0" "\<And>t. depth s t = 0"
      "\<And>t. t \<noteq> h \<Longrightarrow> pc s t = Outside \<or> pc s t = Wants_Mutex"
    | (held) h where "rl_mutex (rl s) = Some h" "0 < h" "pc s h = Outside" "rl_thread (rl s) = h"
      "rl_count (rl s) = of_nat (depth s h)" "0 < depth s h" "depth s h < 2 ^ 32"
      "\<And>t. t \<noteq> h \<Longrightarrow> depth s t = 0" "\<And>t. t \<noteq> h \<Longrightarrow> pc s t = Outside \<or> pc s t = Wants_Mutex"
proof (cases "rl_mutex (rl s)")
  case None
  with assms show ?thesis by (intro free) (auto simp: rl_inv_def)
next
  case (Some h)
  with assms show ?thesis
    by (auto simp: rl_inv_def intro: busy [of h] held [of h]) (metis busy held)+
qed

lemma count_nonzero:
  assumes "0 < d" "d < 2 ^ 32"
  shows "(of_nat d :: u32) \<noteq> 0" and "(of_nat d :: u32) - 1 = of_nat (d - 1)"
    and "(of_nat d :: u32) = 1 \<longleftrightarrow> d = 1"
proof -
  have u: "unat (of_nat d :: u32) = d" using assms by (simp add: unat_of_nat take_bit_eq_mod)
  show "(of_nat d :: u32) \<noteq> 0" using u assms by (metis gr_implies_not_zero unat_0)
  show "(of_nat d :: u32) - 1 = of_nat (d - 1)" using assms by (simp add: of_nat_diff)
  show "(of_nat d :: u32) = 1 \<longleftrightarrow> d = 1" using u by (metis of_nat_1 unat_1)
qed

lemma rl_inv_lock:
  assumes "rl_inv s" "0 < t" "depth s t + 1 < 2 ^ 32" "fusefs_recursive_lock_lock t (pc s t) (rl s) = Some (p, l)"
  shows "rl_inv (s\<lparr>rl := l, pc := (pc s)(t := p), depth := (depth s)(t := depth s t + (if p = Outside then 1 else 0))\<rparr>)"
  using assms(1)
proof (cases rule: rl_invE)
  case free
  with assms free(5) [of t] show ?thesis by (cases "pc s t") (auto simp: rl_inv_def)
next
  case (busy h)
  with assms busy(7) [of t] show ?thesis by (cases "pc s t"; cases "t = h") (auto simp: rl_inv_def)
next
  case (held h)
  show ?thesis
  proof (cases "t = h")
    case True
    with held assms have "p = Outside" "l = (rl s)\<lparr>rl_count := of_nat (depth s h) + 1\<rparr>" by simp_all
    then show ?thesis using held True assms by (simp add: rl_inv_def add.commute)
  next
    case False
    with held assms held(9) [of t] show ?thesis by (cases "pc s t") (auto simp: rl_inv_def)
  qed
qed

lemma rl_inv_unlock:
  assumes "rl_inv s" "0 < t" "pc s t = Outside" "0 < depth s t" "fusefs_recursive_lock_unlock Outside (rl s) = Done (p, l)"
  shows "rl_inv (s\<lparr>rl := l, pc := (pc s)(t := p), depth := (depth s)(t := depth s t - 1)\<rparr>)"
  using assms(1)
proof (cases rule: rl_invE)
  case (held h)
  then have t: "t = h" using assms(4) by (cases "t = h") simp_all
  note c = count_nonzero [OF held(6,7)]
  show ?thesis
  proof (cases "depth s h = 1")
    case True
    then show ?thesis using held assms t by (auto simp: rl_inv_def Let_def)
  next
    case False
    then have n: "(of_nat (depth s h) :: u32) - 1 \<noteq> 0" using c(3) by simp
    then have "p = Outside" "l = (rl s)\<lparr>rl_count := of_nat (depth s h - 1)\<rparr>"
      using held(5) assms(5) c(1,2) by (simp_all add: Let_def)
    then show ?thesis using held t False by (auto simp: rl_inv_def)
  qed
qed (use assms in auto)

lemma rl_inv_leave:
  assumes "rl_inv s" "pc s t = Leaving" "fusefs_recursive_lock_unlock Leaving (rl s) = Done (p, l)"
  shows "rl_inv (s\<lparr>rl := l, pc := (pc s)(t := p)\<rparr>)"
  using assms(1)
proof (cases rule: rl_invE)
  case free
  with free(5) [of t] assms show ?thesis by simp
next
  case (busy h)
  then have "t = h" using busy(7) [of t] assms(2) by auto
  with busy assms show ?thesis by (auto simp: rl_inv_def)
next
  case (held h)
  with held(9) [of t] assms show ?thesis by (cases "t = h") auto
qed

lemma rl_inv_step: "rl_step s s' \<Longrightarrow> rl_inv s \<Longrightarrow> rl_inv s'"
  by (induction rule: rl_step.induct) (simp_all only: rl_inv_lock rl_inv_unlock rl_inv_leave)

lemma rl_reachable_inv: "rl_step\<^sup>*\<^sup>* rl_init s \<Longrightarrow> rl_inv s"
  by (induction rule: rtranclp_induct) (simp_all add: rl_inv_init rl_inv_step)

text \<open>
  C7: the recursive lock excludes all other threads. In every state that threads can reach by
  locking and unlocking in any interleaving, at most one thread holds the lock, the lock names that
  thread and counts how often it holds it, and unlocking by that thread does not panic; the two
  assertions after the mutex was taken hold; and when no thread holds the lock or is inside its
  functions the mutex is free.
\<close>

theorem recursive_lock_excludes:
  assumes "rl_step\<^sup>*\<^sup>* rl_init s"
  shows "(0 < depth s t \<longrightarrow> rl_thread (rl s) = t \<and> unat (rl_count (rl s)) = depth s t \<and>
      (\<forall>u. u \<noteq> t \<longrightarrow> depth s u = 0) \<and> fusefs_recursive_lock_unlock Outside (rl s) \<noteq> Panic) \<and>
    (pc s t = Has_Mutex \<longrightarrow> rl_thread (rl s) = 0 \<and> rl_count (rl s) = 0) \<and>
    ((\<forall>u. depth s u = 0 \<and> pc s u = Outside) \<longrightarrow> rl_mutex (rl s) = None)"
  using rl_reachable_inv [OF assms]
proof (cases rule: rl_invE)
  case free
  then show ?thesis by simp
next
  case (busy h)
  then show ?thesis by fastforce
next
  case (held h)
  have "unat (of_nat (depth s h) :: u32) = depth s h"
    using held(7) by (simp add: unat_of_nat take_bit_eq_mod)
  moreover have "fusefs_recursive_lock_unlock Outside (rl s) \<noteq> Panic"
    using held(5) count_nonzero(1) [OF held(6,7)] by (simp add: Let_def)
  ultimately show ?thesis
  proof (cases "t = h")
    case False
    then show ?thesis using held(6,8) held(9) [of t] by auto
  qed (use held in auto)
qed

definition rl_one :: rl_system where
  "rl_one = \<lparr>rl = \<lparr>rl_mutex = Some 7, rl_thread = 7, rl_count = 1\<rparr>, pc = (\<lambda>_. Outside)(7 := Outside), depth = (\<lambda>_. 0)(7 := 1)\<rparr>"

lemma rl_one_reachable: "rl_step\<^sup>*\<^sup>* rl_init rl_one"
proof -
  let ?s1 = "rl_init\<lparr>rl := rl rl_init, pc := (pc rl_init)(7 := Wants_Mutex), depth := (depth rl_init)(7 := 0)\<rparr>"
  let ?s2 = "?s1\<lparr>rl := (rl ?s1)\<lparr>rl_mutex := Some 7\<rparr>, pc := (pc ?s1)(7 := Has_Mutex), depth := (depth ?s1)(7 := 0)\<rparr>"
  have "rl_step rl_init ?s1"
    using rl_step.lock [of 7 rl_init Wants_Mutex "rl rl_init"] by (simp add: rl_init_def)
  moreover have "rl_step ?s1 ?s2"
    using rl_step.lock [of 7 ?s1 Has_Mutex "(rl ?s1)\<lparr>rl_mutex := Some 7\<rparr>"] by (simp add: rl_init_def)
  moreover have "rl_step ?s2 rl_one"
    using rl_step.lock [of 7 ?s2 Outside "(rl ?s2)\<lparr>rl_thread := 7, rl_count := 1\<rparr>"]
    by (simp add: rl_init_def rl_one_def)
  ultimately show ?thesis by (meson converse_rtranclp_into_rtranclp rtranclp.rtrancl_refl)
qed

theorem recursive_lock_excludes_witness:
  "rl_step\<^sup>*\<^sup>* rl_init rl_one \<and> rl_thread (rl rl_one) = 7 \<and> depth rl_one 8 = 0 \<and>
   fusefs_recursive_lock_unlock Outside (rl rl_one) \<noteq> Panic"
  using recursive_lock_excludes [OF rl_one_reachable, of 7] rl_one_reachable by (simp add: rl_one_def)

lemma leave_frees:
  assumes "rl_inv s" "pc s h = Leaving" "0 < h"
  obtains s' where "rl_step s s'" "rl_mutex (rl s') = None" "\<And>u. u \<noteq> h \<Longrightarrow> pc s' u = pc s u"
  using rl_step.leave [OF assms(3,2), of Outside "(rl s)\<lparr>rl_mutex := None\<rparr>"] that by simp

lemma held_frees:
  assumes "rl_inv s" "rl_mutex (rl s) = Some h" "pc s h = Outside"
  shows "\<exists>s'. rl_step\<^sup>*\<^sup>* s s' \<and> rl_mutex (rl s') = None \<and> (\<forall>u. u \<noteq> h \<longrightarrow> pc s' u = pc s u)"
  using assms
proof (induction "depth s h" arbitrary: s)
  case 0
  then show ?case by (auto simp: rl_inv_def)
next
  case (Suc d)
  have h: "0 < h" "0 < depth s h" "depth s h < 2 ^ 32" "rl_count (rl s) = of_nat (depth s h)"
    using Suc.prems by (auto simp: rl_inv_def)
  note c = count_nonzero [OF h(2,3)]
  have n: "rl_count (rl s) - 1 = 0 \<longleftrightarrow> depth s h = 1" using c(3) h(4) by simp
  obtain p l where u: "fusefs_recursive_lock_unlock Outside (rl s) = Done (p, l)" "rl_mutex l = Some h"
    "p = (if depth s h = 1 then Leaving else Outside)"
    using c(1) n h(4) Suc.prems(2)
    by (cases "depth s h = 1") (simp_all only: fusefs_recursive_lock_unlock.simps Let_def, simp_all)
  let ?s = "s\<lparr>rl := l, pc := (pc s)(h := p), depth := (depth s)(h := depth s h - 1)\<rparr>"
  have st: "rl_step s ?s" by (rule rl_step.unlock [OF h(1) Suc.prems(3) h(2) u(1)])
  then have inv: "rl_inv ?s" using Suc.prems(1) by (rule rl_inv_step)
  show ?case
  proof (cases "depth s h = 1")
    case True
    then have "pc ?s h = Leaving" using u(3) by simp
    then obtain s' where "rl_step ?s s'" "rl_mutex (rl s') = None" "\<And>u. u \<noteq> h \<Longrightarrow> pc s' u = pc ?s u"
      using leave_frees [OF inv _ h(1)] by blast
    then show ?thesis using st by (intro exI [of _ s']) auto
  next
    case False
    have "\<exists>s'. rl_step\<^sup>*\<^sup>* ?s s' \<and> rl_mutex (rl s') = None \<and> (\<forall>u. u \<noteq> h \<longrightarrow> pc s' u = pc ?s u)"
      using Suc.hyps(2) u False inv by (intro Suc.hyps(1)) auto
    then show ?thesis using st by (auto intro: converse_rtranclp_into_rtranclp)
  qed
qed

lemma mutex_frees:
  assumes "rl_inv s" "rl_mutex (rl s) = Some h"
  shows "\<exists>s'. rl_step\<^sup>*\<^sup>* s s' \<and> rl_mutex (rl s') = None \<and> (\<forall>u. u \<noteq> h \<longrightarrow> pc s' u = pc s u)"
  using assms(1)
proof (cases rule: rl_invE)
  case (busy k)
  then have k: "k = h" "0 < h" using assms(2) by auto
  show ?thesis
  proof (cases "pc s h = Leaving")
    case True
    then show ?thesis using leave_frees [OF assms(1) True k(2)] by (metis r_into_rtranclp)
  next
    case False
    then have p: "pc s h = Has_Mutex" using busy(3) k(1) by simp
    let ?s = "s\<lparr>rl := (rl s)\<lparr>rl_thread := h, rl_count := 1\<rparr>, pc := (pc s)(h := Outside), depth := (depth s)(h := depth s h + 1)\<rparr>"
    have st: "rl_step s ?s"
      using rl_step.lock [of h s Outside "(rl s)\<lparr>rl_thread := h, rl_count := 1\<rparr>"] k(2) p busy(6) by simp
    then have "rl_inv ?s" using assms(1) by (rule rl_inv_step)
    then have "\<exists>s'. rl_step\<^sup>*\<^sup>* ?s s' \<and> rl_mutex (rl s') = None \<and> (\<forall>u. u \<noteq> h \<longrightarrow> pc s' u = pc ?s u)"
      using assms(2) by (intro held_frees) simp_all
    then show ?thesis using st by (auto intro: converse_rtranclp_into_rtranclp)
  qed
next
  case (held k)
  then show ?thesis using held_frees [OF assms(1,2)] assms(2) by simp
qed (use assms in simp)

text \<open>
  C30: a thread that waits for the recursive lock is never locked out for good. From every reachable
  state in which a thread waits for the mutex, the other threads can run on so that the waiting
  thread gets it; the lock cannot reach a state in which no thread can go on.
\<close>

theorem recursive_lock_no_deadlock:
  assumes "rl_step\<^sup>*\<^sup>* rl_init s" and "0 < t" and "pc s t = Wants_Mutex"
  shows "\<exists>s' s''. rl_step\<^sup>*\<^sup>* s s' \<and> rl_step s' s'' \<and> pc s'' t = Has_Mutex \<and> rl_mutex (rl s'') = Some t"
proof -
  have inv: "rl_inv s" by (rule rl_reachable_inv [OF assms(1)])
  have "\<exists>s'. rl_step\<^sup>*\<^sup>* s s' \<and> rl_mutex (rl s') = None \<and> pc s' t = Wants_Mutex"
  proof (cases "rl_mutex (rl s)")
    case (Some h)
    then have "h \<noteq> t" using inv assms(3) by (auto simp: rl_inv_def)
    then show ?thesis using mutex_frees [OF inv Some] assms(3) by auto
  qed (use assms(3) in blast)
  then obtain s' where s': "rl_step\<^sup>*\<^sup>* s s'" "rl_mutex (rl s') = None" "pc s' t = Wants_Mutex" by blast
  have "rl_step\<^sup>*\<^sup>* rl_init s'" using assms(1) s'(1) by (rule rtranclp_trans)
  then have "depth s' t = 0" using rl_reachable_inv s'(2) by (fastforce simp: rl_inv_def)
  then have "rl_step s' (s'\<lparr>rl := (rl s')\<lparr>rl_mutex := Some t\<rparr>, pc := (pc s')(t := Has_Mutex), depth := (depth s')(t := 0)\<rparr>)"
    using rl_step.lock [of t s' Has_Mutex "(rl s')\<lparr>rl_mutex := Some t\<rparr>"] assms(2) s'(2,3) by simp
  then show ?thesis using s'(1) by force
qed

theorem recursive_lock_no_deadlock_witness:
  "\<exists>s s' s''. rl_step\<^sup>*\<^sup>* rl_init s \<and> depth s 7 = 1 \<and> pc s 8 = Wants_Mutex \<and> rl_step\<^sup>*\<^sup>* s s' \<and> rl_step s' s'' \<and>
     pc s'' 8 = Has_Mutex \<and> rl_mutex (rl s'') = Some 8"
proof -
  let ?s = "rl_one\<lparr>rl := rl rl_one, pc := (pc rl_one)(8 := Wants_Mutex), depth := (depth rl_one)(8 := 0)\<rparr>"
  have "rl_step rl_one ?s"
    using rl_step.lock [of 8 rl_one Wants_Mutex "rl rl_one"] by (simp add: rl_one_def)
  then have r: "rl_step\<^sup>*\<^sup>* rl_init ?s" using rl_one_reachable by (rule rtranclp.rtrancl_into_rtrancl [rotated])
  have w: "pc ?s 8 = Wants_Mutex" by simp
  have "depth ?s 7 = 1" by (simp add: rl_one_def)
  with recursive_lock_no_deadlock [OF r zero_less_numeral w] r w show ?thesis by blast
qed

end
