(* ===== verification/Fuse_Attr.thy ===== *)
theory Fuse_Attr
  imports Fuse_Device Fuse_Locking
begin

text \<open>
  What the vnode operations compute without talking to the daemon (\<^verbatim>\<open>fuse_internal.h\<close>,
  \<^verbatim>\<open>fuse_file.h\<close>, \<^verbatim>\<open>fuse_node.h\<close> and the side-effect-free parts of
  \<^verbatim>\<open>fuse_internal.c\<close>): times, attributes and their conversions, the data the extension
  keeps for a file, the permission checks, the sizes of blocks, and the names the extension hides.

  The kernel is the 64-bit one: a time, an offset and a size have 64 bits. Signed members are
  integers, cut to their width where the code computes them. Which members of a
  \<^verbatim>\<open>vnode_attr\<close> are asked for and which are returned, two bit sets of the kernel, are sets of
  member names.
\<close>

section \<open>Times\<close>

definition wrap64 :: "int \<Rightarrow> int" where "wrap64 x = sint (word_of_int x :: u64)"

lemma wrap64_small [simp]: "- 9223372036854775808 \<le> x \<Longrightarrow> x < 9223372036854775808 \<Longrightarrow> wrap64 x = x"
  by (simp add: wrap64_def sint_word_ariths signed_of_int signed_take_bit_int_eq_self)

record timespec =
  tv_sec :: int
  tv_nsec :: int

definition kZeroTime :: timespec where "kZeroTime = \<lparr>tv_sec = 0, tv_nsec = 0\<rparr>"

definition fuse_timespec_add :: "timespec \<Rightarrow> timespec \<Rightarrow> timespec" where
  "fuse_timespec_add vvp uvp =
     (let s = wrap64 (tv_sec vvp + tv_sec uvp); n = wrap64 (tv_nsec vvp + tv_nsec uvp)
      in if n \<ge> 1000000000 then \<lparr>tv_sec = wrap64 (s + 1), tv_nsec = n - 1000000000\<rparr>
         else \<lparr>tv_sec = s, tv_nsec = n\<rparr>)"

definition fuse_timespec_cmp :: "timespec \<Rightarrow> timespec \<Rightarrow> (int \<Rightarrow> int \<Rightarrow> bool) \<Rightarrow> bool" where
  "fuse_timespec_cmp tvp uvp cmp =
     (if tv_sec tvp = tv_sec uvp then cmp (tv_nsec tvp) (tv_nsec uvp)
      else cmp (tv_sec tvp) (tv_sec uvp))"

section \<open>Attributes of a vnode\<close>

datatype va_member =
    va_rdev_m | va_nlink_m | va_data_size_m | va_data_alloc_m | va_iosize_m | va_uid_m | va_gid_m
  | va_mode_m | va_flags_m | va_create_time_m | va_access_time_m | va_modify_time_m
  | va_change_time_m | va_backup_time_m | va_fileid_m | va_linkid_m | va_parentid_m | va_fsid_m
  | va_gen_m | va_type_m

record vnode_attr =
  va_supported :: "va_member set"
  va_active :: "va_member set"
  va_rdev :: u32
  va_nlink :: u64
  va_data_size :: u64
  va_data_alloc :: u64
  va_iosize :: u32
  va_uid :: u32
  va_gid :: u32
  va_mode :: u16
  va_flags :: u32
  va_create_time :: timespec
  va_access_time :: timespec
  va_modify_time :: timespec
  va_change_time :: timespec
  va_backup_time :: timespec
  va_fileid :: u64
  va_linkid :: u64
  va_parentid :: u64
  va_fsid :: u32
  va_gen :: u32
  va_type :: vtype

definition vattr_zero :: vnode_attr where
  "vattr_zero =
     \<lparr>va_supported = {}, va_active = {}, va_rdev = 0, va_nlink = 0, va_data_size = 0,
      va_data_alloc = 0, va_iosize = 0, va_uid = 0, va_gid = 0, va_mode = 0, va_flags = 0,
      va_create_time = kZeroTime, va_access_time = kZeroTime, va_modify_time = kZeroTime,
      va_change_time = kZeroTime, va_backup_time = kZeroTime, va_fileid = 0, va_linkid = 0,
      va_parentid = 0, va_fsid = 0, va_gen = 0, va_type = VNON\<rparr>"

definition VATTR_IS_ACTIVE :: "vnode_attr \<Rightarrow> va_member \<Rightarrow> bool" where
  "VATTR_IS_ACTIVE vap m \<longleftrightarrow> m \<in> va_active vap"

definition VATTR_IS_SUPPORTED :: "vnode_attr \<Rightarrow> va_member \<Rightarrow> bool" where
  "VATTR_IS_SUPPORTED vap m \<longleftrightarrow> m \<in> va_supported vap"

definition VATTR_SET_SUPPORTED :: "va_member set \<Rightarrow> vnode_attr \<Rightarrow> vnode_attr" where
  "VATTR_SET_SUPPORTED ms vap = vap\<lparr>va_supported := va_supported vap \<union> ms\<rparr>"

text \<open>The file type and permission bits of a mode; \<^verbatim>\<open>IFTOVT\<close> is a table of 16 entries.\<close>

definition S_IFMT :: u32 where "S_IFMT = 0xF000"
definition ALLPERMS :: u16 where "ALLPERMS = 0xFFF"

definition IFTOVT :: "u32 \<Rightarrow> vtype" where
  "IFTOVT mode =
     [VNON, VFIFO, VCHR, VNON, VDIR, VNON, VBLK, VNON, VREG, VNON, VLNK, VNON, VSOCK, VNON, VNON, VBAD]
       ! unat (drop_bit 12 (mode AND S_IFMT))"

definition VTTOIF :: "vtype \<Rightarrow> u32" where
  "VTTOIF t = (case t of
     VNON \<Rightarrow> 0 | VREG \<Rightarrow> 0x8000 | VDIR \<Rightarrow> 0x4000 | VBLK \<Rightarrow> 0x6000 | VCHR \<Rightarrow> 0x2000 | VLNK \<Rightarrow> 0xA000
   | VSOCK \<Rightarrow> 0xC000 | VFIFO \<Rightarrow> 0x1000 | VBAD \<Rightarrow> 0xF000 | _ \<Rightarrow> 0)"

definition MAKEIMODE :: "vtype \<Rightarrow> u16 \<Rightarrow> u32" where
  "MAKEIMODE t m = VTTOIF t OR ucast m"

section \<open>Attributes in an answer\<close>

record fuse_fattr =
  fa_ino :: u64
  fa_size :: u64
  fa_blocks :: u64
  fa_atime :: u64
  fa_mtime :: u64
  fa_ctime :: u64
  fa_crtime :: u64
  fa_atimensec :: u32
  fa_mtimensec :: u32
  fa_ctimensec :: u32
  fa_crtimensec :: u32
  fa_mode :: u32
  fa_nlink :: u32
  fa_uid :: u32
  fa_gid :: u32
  fa_rdev :: u32
  fa_flags :: u32

definition u32_at :: "nat \<Rightarrow> bytes \<Rightarrow> u32" where "u32_at off bs = word_of_nat (field_at off 4 bs)"
definition u64_at :: "nat \<Rightarrow> bytes \<Rightarrow> u64" where "u64_at off bs = word_of_nat (field_at off 8 bs)"

definition fattr_at :: "nat \<Rightarrow> bytes \<Rightarrow> fuse_fattr" where
  "fattr_at o1 bs =
     \<lparr>fa_ino = u64_at o1 bs, fa_size = u64_at (o1 + 8) bs, fa_blocks = u64_at (o1 + 16) bs,
      fa_atime = u64_at (o1 + 24) bs, fa_mtime = u64_at (o1 + 32) bs, fa_ctime = u64_at (o1 + 40) bs,
      fa_crtime = u64_at (o1 + 48) bs, fa_atimensec = u32_at (o1 + 56) bs,
      fa_mtimensec = u32_at (o1 + 60) bs, fa_ctimensec = u32_at (o1 + 64) bs,
      fa_crtimensec = u32_at (o1 + 68) bs, fa_mode = u32_at (o1 + 72) bs,
      fa_nlink = u32_at (o1 + 76) bs, fa_uid = u32_at (o1 + 80) bs, fa_gid = u32_at (o1 + 84) bs,
      fa_rdev = u32_at (o1 + 88) bs, fa_flags = u32_at (o1 + 92) bs\<rparr>"

text \<open>The answers that carry attributes.\<close>

record entry_out =
  feo_nodeid :: u64
  feo_generation :: u64
  feo_entry_valid :: u64
  feo_attr_valid :: u64
  feo_entry_valid_nsec :: u32
  feo_attr_valid_nsec :: u32
  feo_attr :: fuse_fattr

definition entry_out_at :: "bytes \<Rightarrow> entry_out" where
  "entry_out_at bs =
     \<lparr>feo_nodeid = u64_at 0 bs, feo_generation = u64_at 8 bs, feo_entry_valid = u64_at 16 bs,
      feo_attr_valid = u64_at 24 bs, feo_entry_valid_nsec = u32_at 32 bs,
      feo_attr_valid_nsec = u32_at 36 bs, feo_attr = fattr_at 40 bs\<rparr>"

record attr_out =
  fao_attr_valid :: u64
  fao_attr_valid_nsec :: u32
  fao_attr :: fuse_fattr

definition attr_out_at :: "bytes \<Rightarrow> attr_out" where
  "attr_out_at bs =
     \<lparr>fao_attr_valid = u64_at 0 bs, fao_attr_valid_nsec = u32_at 8 bs, fao_attr = fattr_at 16 bs\<rparr>"

text \<open>The offsets are those that the layout of the structures gives on a 64-bit kernel.\<close>

lemma answer_offsets:
  "map snd (offsets_from 8 0 fuse_attr) =
     [0, 8, 16, 24, 32, 40, 48, 56, 60, 64, 68, 72, 76, 80, 84, 88, 92]"
  "map snd (offsets_from 8 0 fuse_entry_out) = [0, 8, 16, 24, 32, 36, 40]"
  "map snd (offsets_from 8 0 fuse_attr_out) = [0, 8, 12, 16]"
  by (simp_all add: fuse_attr_def fuse_entry_out_def fuse_attr_out_def struct_of_def align_up_def)

section \<open>The data of a file\<close>

datatype fufh_type = FUFH_INVALID | FUFH_RDONLY | FUFH_WRONLY | FUFH_RDWR

record fuse_filehandle =
  fh_id :: u64
  open_count :: int
  open_flags :: u32
  fuse_open_flags :: u32
  aux_count :: int

definition fufh_zero :: fuse_filehandle where
  "fufh_zero = \<lparr>fh_id = 0, open_count = 0, open_flags = 0, fuse_open_flags = 0, aux_count = 0\<rparr>"

definition FUFH_IS_VALID :: "fuse_filehandle \<Rightarrow> bool" where
  "FUFH_IS_VALID f \<longleftrightarrow> open_count f > 0"

definition FUFH_USE_INC :: "fuse_filehandle \<Rightarrow> fuse_filehandle" where
  "FUFH_USE_INC f = f\<lparr>open_count := open_count f + 1\<rparr>"

definition FUFH_USE_DEC :: "fuse_filehandle \<Rightarrow> fuse_filehandle" where
  "FUFH_USE_DEC f = f\<lparr>open_count := open_count f - 1\<rparr>"

definition FUFH_USE_RESET :: "fuse_filehandle \<Rightarrow> fuse_filehandle" where
  "FUFH_USE_RESET f = f\<lparr>open_count := 0\<rparr>"

definition FUFH_AUX_INC :: "fuse_filehandle \<Rightarrow> fuse_filehandle" where
  "FUFH_AUX_INC f = f\<lparr>aux_count := aux_count f + 1\<rparr>"

definition kFSNodeMagic :: u32 where "kFSNodeMagic = 0x46555345"
definition kFSNodeBadMagic :: u32 where "kFSNodeBadMagic = 0x46552A2A"

definition FN_ACCESS_NOOP :: u32 where "FN_ACCESS_NOOP = 0x01"
definition FN_CREATING :: u32 where "FN_CREATING = 0x02"
definition FN_DIRECT_IO :: u32 where "FN_DIRECT_IO = 0x04"
definition FN_HAS_ACL :: u32 where "FN_HAS_ACL = 0x08"
definition FN_IS_ROOT :: u32 where "FN_IS_ROOT = 0x10"
definition FN_REVOKED :: u32 where "FN_REVOKED = 0x20"

definition C_XTIMES_VALID :: u32 where "C_XTIMES_VALID = 0x80000"

text \<open>
  The members of \<^verbatim>\<open>fuse_vnode_data\<close> that the operations use; those of its locks are in
  the record \<open>fusenode\<close> of the locking theory.
\<close>

record fuse_vnode_data =
  fMagic :: u32
  fInitialised :: bool
  fv_vp :: "vnode option"
  nodeid :: u64
  generation :: u64
  parentvp :: "vnode option"
  parent_nodeid :: u64
  fufh :: "fufh_type \<Rightarrow> fuse_filehandle"
  fv_flag :: u32
  fv_c_flag :: u32
  modify_time :: timespec
  entry_valid :: timespec
  attr_valid :: timespec
  cached_attr :: vnode_attr
  filesize :: int
  nlookup :: u64
  fv_vtype :: vtype
  creator :: thread

text \<open>The zeroed memory that a new node of the table brings with it.\<close>

definition fvdat_zero :: fuse_vnode_data where
  "fvdat_zero =
     \<lparr>fMagic = 0, fInitialised = False, fv_vp = None, nodeid = 0, generation = 0, parentvp = None,
      parent_nodeid = 0, fufh = (\<lambda>_. fufh_zero), fv_flag = 0, fv_c_flag = 0,
      modify_time = kZeroTime, entry_valid = kZeroTime, attr_valid = kZeroTime,
      cached_attr = vattr_zero, filesize = 0, nlookup = 0, fv_vtype = VNON, creator = 0\<rparr>"

definition upd_fufh ::
    "fufh_type \<Rightarrow> (fuse_filehandle \<Rightarrow> fuse_filehandle) \<Rightarrow> fuse_vnode_data \<Rightarrow> fuse_vnode_data" where
  "upd_fufh ty f d = d\<lparr>fufh := (fufh d)(ty := f (fufh d ty))\<rparr>"

definition fuse_invalidate_attr :: "fuse_vnode_data \<Rightarrow> fuse_vnode_data" where
  "fuse_invalidate_attr d =
     d\<lparr>attr_valid := kZeroTime, fv_c_flag := clear_flag (fv_c_flag d) C_XTIMES_VALID\<rparr>"

section \<open>Kinds of file handle\<close>

definition PROT_READ :: u32 where "PROT_READ = 1"
definition PROT_WRITE :: u32 where "PROT_WRITE = 2"
definition PROT_EXEC :: u32 where "PROT_EXEC = 4"
definition FREAD :: u32 where "FREAD = 1"
definition FWRITE :: u32 where "FWRITE = 2"

definition fuse_filehandle_xlate_from_mmap :: "u32 \<Rightarrow> fufh_type" where
  "fuse_filehandle_xlate_from_mmap fflags =
     (if has_flag fflags PROT_WRITE then
        (if has_flag fflags (PROT_READ OR PROT_EXEC) then FUFH_RDWR else FUFH_WRONLY)
      else if has_flag fflags (PROT_READ OR PROT_EXEC) then FUFH_RDONLY
      else FUFH_INVALID)"

definition fuse_filehandle_xlate_from_fflags :: "u32 \<Rightarrow> fufh_type outcome" where
  "fuse_filehandle_xlate_from_fflags fflags =
     (if has_flag fflags FREAD \<and> has_flag fflags FWRITE then Done FUFH_RDWR
      else if has_flag fflags FWRITE then Done FUFH_WRONLY
      else if has_flag fflags FREAD then Done FUFH_RDONLY
      else if fflags = 0 then Done FUFH_RDONLY else Panic)"

definition fuse_filehandle_xlate_to_oflags :: "fufh_type \<Rightarrow> u32" where
  "fuse_filehandle_xlate_to_oflags ty =
     (case ty of FUFH_RDONLY \<Rightarrow> 0 | FUFH_WRONLY \<Rightarrow> 1 | FUFH_RDWR \<Rightarrow> 2 | FUFH_INVALID \<Rightarrow> -1)"

definition OFLAGS :: "u32 \<Rightarrow> u32" where "OFLAGS fflags = fflags - 1"

section \<open>What the session allows\<close>

definition FSESS_AUTO_XATTR :: u32 where "FSESS_AUTO_XATTR = 0x40"
definition FSESS_DEFAULT_PERMISSIONS :: u32 where "FSESS_DEFAULT_PERMISSIONS = 0x80"
definition FSESS_EXTENDED_SECURITY :: u32 where "FSESS_EXTENDED_SECURITY = 0x400"
definition FSESS_JAIL_SYMLINKS :: u32 where "FSESS_JAIL_SYMLINKS = 0x800"
definition FSESS_KILL_ON_UNMOUNT :: u32 where "FSESS_KILL_ON_UNMOUNT = 0x1000"
definition FSESS_LOCALVOL :: u32 where "FSESS_LOCALVOL = 0x2000"
definition FSESS_NEGATIVE_VNCACHE :: u32 where "FSESS_NEGATIVE_VNCACHE = 0x4000"
definition FSESS_AUTO_CACHE :: u32 where "FSESS_AUTO_CACHE = 0x8000000"
definition FSESS_NATIVE_XATTR :: u32 where "FSESS_NATIVE_XATTR = 0x10000000"
definition FSESS_SPARSE :: u32 where "FSESS_SPARSE = 0x20000000"

definition fuse_vfs_context_issuser :: "vfs_context \<Rightarrow> bool" where
  "fuse_vfs_context_issuser c \<longleftrightarrow> cr_uid (vc_cred c) = 0"

definition fuse_isdeadfs_mp :: "session \<Rightarrow> bool" where
  "fuse_isdeadfs_mp s \<longleftrightarrow> has_flag (dataflags s) FSESS_DEAD"

definition fuse_isdeadfs :: "session \<Rightarrow> fuse_vnode_data \<Rightarrow> bool" where
  "fuse_isdeadfs s d \<longleftrightarrow> has_flag (fv_flag d) FN_REVOKED \<or> fuse_isdeadfs_mp s"

definition fuse_isdirectio :: "session \<Rightarrow> fuse_vnode_data \<Rightarrow> bool" where
  "fuse_isdirectio s d \<longleftrightarrow>
     has_flag (dataflags s) FSESS_DIRECT_IO \<or> has_flag (fv_flag d) FN_DIRECT_IO"

definition fuse_isdirectio_mp :: "session \<Rightarrow> bool" where
  "fuse_isdirectio_mp s \<longleftrightarrow> has_flag (dataflags s) FSESS_DIRECT_IO"

definition fuse_isnoreadahead :: "session \<Rightarrow> fuse_vnode_data \<Rightarrow> bool" where
  "fuse_isnoreadahead s d \<longleftrightarrow> has_flag (dataflags s) FSESS_NO_READAHEAD \<or> fuse_isdirectio s d"

definition fuse_isnosynconclose :: "session \<Rightarrow> fuse_vnode_data \<Rightarrow> bool" where
  "fuse_isnosynconclose s d \<longleftrightarrow>
     \<not> fuse_isdirectio s d \<and> has_flag (dataflags s) FSESS_NO_SYNCONCLOSE"

definition fuse_isnosyncwrites_mp :: "session \<Rightarrow> bool" where
  "fuse_isnosyncwrites_mp s \<longleftrightarrow>
     \<not> fuse_isdirectio_mp s \<and> has_flag (dataflags s) FSESS_NO_SYNCWRITES"

definition fuse_isnoubc :: "session \<Rightarrow> fuse_vnode_data \<Rightarrow> bool" where
  "fuse_isnoubc s d \<longleftrightarrow> has_flag (dataflags s) FSESS_NO_UBC \<or> fuse_isdirectio s d"

definition fuse_isnovncache :: "session \<Rightarrow> fuse_vnode_data \<Rightarrow> bool" where
  "fuse_isnovncache s d \<longleftrightarrow> has_flag (dataflags s) FSESS_NO_VNCACHE \<or> fuse_isdirectio s d"

definition fuse_isnegativevncache_mp :: "session \<Rightarrow> bool" where
  "fuse_isnegativevncache_mp s \<longleftrightarrow> has_flag (dataflags s) FSESS_NEGATIVE_VNCACHE"

definition fuse_isnovncache_mp :: "session \<Rightarrow> bool" where
  "fuse_isnovncache_mp s \<longleftrightarrow> has_flag (dataflags s) FSESS_NO_VNCACHE"

definition fuse_isautocache_mp :: "session \<Rightarrow> bool" where
  "fuse_isautocache_mp s \<longleftrightarrow> has_flag (dataflags s) FSESS_AUTO_CACHE"

definition fuse_isdeferpermissions_mp :: "session \<Rightarrow> bool" where
  "fuse_isdeferpermissions_mp s \<longleftrightarrow> has_flag (dataflags s) FSESS_DEFER_PERMISSIONS"

definition fuse_isdefaultpermissions_mp :: "session \<Rightarrow> bool" where
  "fuse_isdefaultpermissions_mp s \<longleftrightarrow> has_flag (dataflags s) FSESS_DEFAULT_PERMISSIONS"

definition fuse_isextendedsecurity_mp :: "session \<Rightarrow> bool" where
  "fuse_isextendedsecurity_mp s \<longleftrightarrow> has_flag (dataflags s) FSESS_EXTENDED_SECURITY"

definition fuse_isxtimes_mp :: "session \<Rightarrow> bool" where
  "fuse_isxtimes_mp s \<longleftrightarrow> has_flag (dataflags s) FSESS_XTIMES"

definition fuse_issparse_mp :: "session \<Rightarrow> bool" where
  "fuse_issparse_mp s \<longleftrightarrow> has_flag (dataflags s) FSESS_SPARSE"

definition fuse_blanket_deny ::
    "session \<Rightarrow> fuse_vnode_data \<Rightarrow> bool \<Rightarrow> vfs_context \<Rightarrow> bool" where
  "fuse_blanket_deny s d isvroot c \<longleftrightarrow>
     \<not> has_flag (dataflags s) FSESS_ALLOW_OTHER \<and>
     \<not> (fuse_vfs_context_issuser c \<and> has_flag (dataflags s) FSESS_ALLOW_ROOT) \<and>
     fuse_match_cred (daemoncred s) (vc_cred c) \<noteq> 0 \<and>
     \<not> (\<not> has_flag (dataflags s) FSESS_INITED \<and> isvroot \<and> fuse_vfs_context_issuser c) \<and>
     \<not> (fuse_isdeadfs s d \<and> isvroot) \<and>
     vc_pid c \<noteq> 0"

section \<open>Block sizes\<close>

partial_function (option) round_loop :: "u32 \<Rightarrow> u32 \<Rightarrow> u32 option" where
  "round_loop sz result =
     (if result < sz then round_loop sz (push_bit 1 result) else Some result)"

definition fuse_round_powerof2 :: "u32 \<Rightarrow> u32 option" where
  "fuse_round_powerof2 sz = round_loop (sz AND 0x7FFFFFFF) 512"

definition fuse_round_size :: "u32 \<Rightarrow> u32 \<Rightarrow> u32 \<Rightarrow> u32 option" where
  "fuse_round_size sz b_min b_max =
     (case fuse_round_powerof2 sz of
        None \<Rightarrow> None
      | Some candidate \<Rightarrow>
          let c = (if candidate < b_min then b_min else candidate)
          in Some (if c > b_max then b_max else c))"

section \<open>Hidden names\<close>

text \<open>
  A name is the memory from its first byte on, which may go on after the name. The comparison
  with \<^verbatim>\<open>.DS_Store\<close> includes the terminating zero.
\<close>

definition DS_STORE :: bytes where
  "DS_STORE = [0x2E, 0x44, 0x53, 0x5F, 0x53, 0x74, 0x6F, 0x72, 0x65, 0]"

definition COM_APPLE :: bytes where
  "COM_APPLE = [0x63, 0x6F, 0x6D, 0x2E, 0x61, 0x70, 0x70, 0x6C, 0x65, 0x2E]"

definition fuse_skip_apple_double_mp :: "session \<Rightarrow> bytes option \<Rightarrow> nat \<Rightarrow> bool" where
  "fuse_skip_apple_double_mp s nameptr namelen =
     (case nameptr of
        None \<Rightarrow> False
      | Some name \<Rightarrow>
          has_flag (dataflags s) FSESS_NO_APPLEDOUBLE \<and> namelen > 2 \<and>
          (namelen = length DS_STORE - 1 \<and> take (length DS_STORE) name = DS_STORE \<or>
           take 2 name = [0x2E, 0x5F]))"

definition fuse_skip_apple_xattr_mp :: "session \<Rightarrow> bytes option \<Rightarrow> bool" where
  "fuse_skip_apple_xattr_mp s nameptr =
     (case nameptr of
        None \<Rightarrow> False
      | Some name \<Rightarrow>
          has_flag (dataflags s) FSESS_NO_APPLEXATTR \<and>
          take (length COM_APPLE) name = COM_APPLE)"

section \<open>Attributes from the daemon\<close>

text \<open>
  What the operations read and write of the mount: flags, the private data (only whether it is set),
  and the statistics that \<^verbatim>\<open>vfs_statfs\<close> points at. Of the file system id the first
  word is \<open>mp_fsid\<close>.
\<close>

record vfsstatfs =
  sf_bsize :: u32
  sf_iosize :: u64
  sf_blocks :: u64
  sf_bfree :: u64
  sf_bavail :: u64
  sf_bused :: u64
  sf_files :: u64
  sf_ffree :: u64
  sf_owner :: u32
  sf_fssubtype :: u32
  sf_fstypename :: bytes
  sf_mntfromname :: bytes

record fsmount =
  mp_synchronous :: bool
  mp_async :: bool
  mp_rdonly :: bool
  mp_authopaque :: bool
  mp_unmounting :: bool
  mp_fsid :: u32
  mp_mntonname :: bytes
  mp_authopaqueaccess :: bool
  mp_extendedsecurity :: bool
  mp_dontbrowse :: bool
  mp_noexec :: bool
  mp_local :: bool
  mp_update :: bool
  mp_fsprivate :: bool
  mp_devblocksize :: u32
  mp_statfs :: vfsstatfs

text \<open>
  The conversion also stores into the answer: with asynchronous writes the size the kernel knows
  replaces the daemon's. The first result is the attributes as they are left in the answer.
\<close>

definition fuse_internal_attr_fat2vat ::
    "session \<Rightarrow> fsmount \<Rightarrow> fuse_vnode_data \<Rightarrow> fuse_fattr \<Rightarrow> vnode_attr \<Rightarrow> fuse_fattr \<times> vnode_attr" where
  "fuse_internal_attr_fat2vat s mp d fat0 vap =
     (let fat = (if mp_synchronous mp then fat0 else fat0\<lparr>fa_size := word_of_int (filesize d)\<rparr>);
          v1 = vap\<lparr>va_supported := {va_fsid_m, va_fileid_m, va_linkid_m, va_data_size_m,
                     va_access_time_m, va_change_time_m, va_modify_time_m, va_create_time_m,
                     va_mode_m, va_nlink_m, va_uid_m, va_gid_m, va_rdev_m, va_type_m, va_iosize_m,
                     va_flags_m},
                   va_active := {},
                   va_fsid := mp_fsid mp, va_fileid := fa_ino fat, va_linkid := fa_ino fat,
                   va_data_size := fa_size fat,
                   va_access_time := \<lparr>tv_sec = sint (fa_atime fat), tv_nsec = uint (fa_atimensec fat)\<rparr>,
                   va_change_time := \<lparr>tv_sec = sint (fa_ctime fat), tv_nsec = uint (fa_ctimensec fat)\<rparr>,
                   va_modify_time := \<lparr>tv_sec = sint (fa_mtime fat), tv_nsec = uint (fa_mtimensec fat)\<rparr>,
                   va_create_time := \<lparr>tv_sec = sint (fa_crtime fat), tv_nsec = uint (fa_crtimensec fat)\<rparr>,
                   va_mode := ucast (fa_mode fat AND NOT S_IFMT),
                   va_nlink := ucast (fa_nlink fat), va_uid := fa_uid fat, va_gid := fa_gid fat,
                   va_rdev := fa_rdev fat, va_type := IFTOVT (fa_mode fat), va_iosize := iosize s,
                   va_flags := fa_flags fat\<rparr>
      in (fat, if fuse_issparse_mp s
               then VATTR_SET_SUPPORTED {va_data_alloc_m} (v1\<lparr>va_data_alloc := fa_blocks fat\<rparr>)
               else v1))"

definition FUSE_NULL_ID :: u64 where "FUSE_NULL_ID = 0"
definition FUSE_ROOT_ID :: u64 where "FUSE_ROOT_ID = 1"

definition fuse_internal_checkentry :: "entry_out \<Rightarrow> vtype \<Rightarrow> errno" where
  "fuse_internal_checkentry feo vtyp =
     (if vtyp \<noteq> IFTOVT (fa_mode (feo_attr feo)) then EINVAL
      else if feo_nodeid feo = FUSE_NULL_ID then EINVAL
      else if feo_nodeid feo = FUSE_ROOT_ID then EINVAL
      else 0)"

section \<open>Attributes for the daemon\<close>

definition FATTR_MODE :: u32 where "FATTR_MODE = flagbit 0"
definition FATTR_UID :: u32 where "FATTR_UID = flagbit 1"
definition FATTR_GID :: u32 where "FATTR_GID = flagbit 2"
definition FATTR_SIZE :: u32 where "FATTR_SIZE = flagbit 3"
definition FATTR_ATIME :: u32 where "FATTR_ATIME = flagbit 4"
definition FATTR_MTIME :: u32 where "FATTR_MTIME = flagbit 5"
definition FATTR_FH :: u32 where "FATTR_FH = flagbit 6"
definition FATTR_CRTIME :: u32 where "FATTR_CRTIME = flagbit 28"
definition FATTR_CHGTIME :: u32 where "FATTR_CHGTIME = flagbit 29"
definition FATTR_BKUPTIME :: u32 where "FATTR_BKUPTIME = flagbit 30"
definition FATTR_FLAGS :: u32 where "FATTR_FLAGS = flagbit 31"

text \<open>The request body; a member that the code leaves as it is in the buffer is \<open>None\<close>.\<close>

record setattr_in =
  si_valid :: u32
  si_fh :: "u64 option"
  si_size :: "u64 option"
  si_atime :: "(u64 \<times> u32) option"
  si_mtime :: "(u64 \<times> u32) option"
  si_mode :: "u32 option"
  si_uid :: "u32 option"
  si_gid :: "u32 option"
  si_bkuptime :: "(u64 \<times> u32) option"
  si_chgtime :: "(u64 \<times> u32) option"
  si_crtime :: "(u64 \<times> u32) option"
  si_flags :: "u32 option"

definition setattr_in_none :: setattr_in where
  "setattr_in_none =
     \<lparr>si_valid = 0, si_fh = None, si_size = None, si_atime = None, si_mtime = None, si_mode = None,
      si_uid = None, si_gid = None, si_bkuptime = None, si_chgtime = None, si_crtime = None,
      si_flags = None\<rparr>"

definition VNOVAL :: u32 where "VNOVAL = -1"

definition time_out :: "timespec \<Rightarrow> u64 \<times> u32" where
  "time_out t = (word_of_int (tv_sec t), word_of_int (tv_nsec t))"

text \<open>The handle a truncation names: an open one for writing only, else one for both, else none.\<close>

definition truncate_fufh :: "fuse_vnode_data \<Rightarrow> fuse_filehandle option" where
  "truncate_fufh d =
     (if FUFH_IS_VALID (fufh d FUFH_WRONLY) then Some (fufh d FUFH_WRONLY)
      else if FUFH_IS_VALID (fufh d FUFH_RDWR) then Some (fufh d FUFH_RDWR) else None)"

definition set_if :: "bool \<Rightarrow> u32 \<Rightarrow> (setattr_in \<Rightarrow> setattr_in) \<Rightarrow> setattr_in \<Rightarrow> setattr_in" where
  "set_if c bitmask f si = (if c then (f si)\<lparr>si_valid := set_flag (si_valid (f si)) bitmask\<rparr> else si)"

definition vat2fsai_size ::
    "fuse_vnode_data option \<Rightarrow> vnode_attr \<Rightarrow> setattr_in \<Rightarrow> setattr_in" where
  "vat2fsai_size vp vap si =
     (if VATTR_IS_ACTIVE vap va_data_size_m then
        let si1 = set_if True FATTR_SIZE (\<lambda>x. x\<lparr>si_size := Some (va_data_size vap)\<rparr>) si
        in (case vp of
              None \<Rightarrow> si1
            | Some d \<Rightarrow>
                (case truncate_fufh d of
                   None \<Rightarrow> si1
                 | Some f \<Rightarrow> set_if True FATTR_FH (\<lambda>x. x\<lparr>si_fh := Some (fh_id f)\<rparr>) si1))
      else si)"

text \<open>
  The results are whether the size changes, the new size (0 if it does not), the request and the
  attributes with those marked that were taken over. \<open>vp\<close> is the data of the vnode, if there is one.
\<close>

definition fuse_internal_attr_vat2fsai ::
    "session \<Rightarrow> fuse_vnode_data option \<Rightarrow> vnode_attr \<Rightarrow> bool \<times> u64 \<times> setattr_in \<times> vnode_attr" where
  "fuse_internal_attr_vat2fsai s vp vap =
     (let nuid = (if VATTR_IS_ACTIVE vap va_uid_m then va_uid vap else VNOVAL);
          ngid = (if VATTR_IS_ACTIVE vap va_gid_m then va_gid vap else VNOVAL);
          xt = fuse_isxtimes_mp s;
          sizechanged = VATTR_IS_ACTIVE vap va_data_size_m;
          newsize = (if sizechanged then va_data_size vap else 0);
          s1 = set_if (nuid \<noteq> VNOVAL) FATTR_UID (\<lambda>x. x\<lparr>si_uid := Some nuid\<rparr>) setattr_in_none;
          s2 = set_if (ngid \<noteq> VNOVAL) FATTR_GID (\<lambda>x. x\<lparr>si_gid := Some ngid\<rparr>) s1;
          s3 = vat2fsai_size vp vap s2;
          s4 = set_if (VATTR_IS_ACTIVE vap va_access_time_m) FATTR_ATIME
                 (\<lambda>x. x\<lparr>si_atime := Some (time_out (va_access_time vap))\<rparr>) s3;
          s5 = set_if (VATTR_IS_ACTIVE vap va_modify_time_m) FATTR_MTIME
                 (\<lambda>x. x\<lparr>si_mtime := Some (time_out (va_modify_time vap))\<rparr>) s4;
          s6 = set_if (VATTR_IS_ACTIVE vap va_backup_time_m \<and> xt) FATTR_BKUPTIME
                 (\<lambda>x. x\<lparr>si_bkuptime := Some (time_out (va_backup_time vap))\<rparr>) s5;
          s7 = set_if (VATTR_IS_ACTIVE vap va_change_time_m \<and> xt) FATTR_CHGTIME
                 (\<lambda>x. x\<lparr>si_chgtime := Some (time_out (va_change_time vap))\<rparr>) s6;
          s8 = set_if (VATTR_IS_ACTIVE vap va_create_time_m \<and> xt) FATTR_CRTIME
                 (\<lambda>x. x\<lparr>si_crtime := Some (time_out (va_create_time vap))\<rparr>) s7;
          s9 = set_if (VATTR_IS_ACTIVE vap va_mode_m) FATTR_MODE
                 (\<lambda>x. x\<lparr>si_mode := Some (ucast (va_mode vap AND ALLPERMS))\<rparr>) s8;
          s10 = set_if (VATTR_IS_ACTIVE vap va_flags_m) FATTR_FLAGS
                  (\<lambda>x. x\<lparr>si_flags := Some (va_flags vap)\<rparr>) s9;
          always = {va_uid_m, va_gid_m, va_data_size_m, va_access_time_m, va_modify_time_m, va_mode_m,
                    va_flags_m};
          extra = (if xt then {va_backup_time_m, va_change_time_m, va_create_time_m} \<inter> va_active vap
                   else {})
      in (sizechanged, newsize, s10, VATTR_SET_SUPPORTED (always \<union> extra) vap))"

text \<open>The stores into the request body, at the offsets of the members.\<close>

definition opt_store :: "nat \<Rightarrow> nat \<Rightarrow> nat option \<Rightarrow> (nat \<times> bytes) list" where
  "opt_store off n v = (case v of None \<Rightarrow> [] | Some x \<Rightarrow> [(off, le_bytes n x)])"

definition time_store :: "nat \<Rightarrow> nat \<Rightarrow> (u64 \<times> u32) option \<Rightarrow> (nat \<times> bytes) list" where
  "time_store o1 o2 v =
     opt_store o1 8 (map_option (unat \<circ> fst) v) @ opt_store o2 4 (map_option (unat \<circ> snd) v)"

definition setattr_stores :: "setattr_in \<Rightarrow> (nat \<times> bytes) list" where
  "setattr_stores si =
     [(0, le_bytes 4 (unat (si_valid si)))] @
     opt_store 8 8 (map_option unat (si_fh si)) @ opt_store 16 8 (map_option unat (si_size si)) @
     time_store 32 56 (si_atime si) @ time_store 40 60 (si_mtime si) @
     opt_store 68 4 (map_option unat (si_mode si)) @ opt_store 76 4 (map_option unat (si_uid si)) @
     opt_store 80 4 (map_option unat (si_gid si)) @ time_store 88 112 (si_bkuptime si) @
     time_store 96 116 (si_chgtime si) @ time_store 104 120 (si_crtime si) @
     opt_store 124 4 (map_option unat (si_flags si))"

section \<open>Access rights\<close>

definition FACCESS_VA_VALID :: u32 where "FACCESS_VA_VALID = 1"
definition FACCESS_DO_ACCESS :: u32 where "FACCESS_DO_ACCESS = 2"
definition FACCESS_NOCHECKSPY :: u32 where "FACCESS_NOCHECKSPY = 4"
definition FACCESS_FROM_VNOP :: u32 where "FACCESS_FROM_VNOP = 8"

text \<open>The actions of \<^verbatim>\<open>sys/kauth.h\<close>; some of them share a bit.\<close>

definition KAUTH_VNODE_READ_DATA :: u32 where "KAUTH_VNODE_READ_DATA = flagbit 1"
definition KAUTH_VNODE_LIST_DIRECTORY :: u32 where "KAUTH_VNODE_LIST_DIRECTORY = flagbit 1"
definition KAUTH_VNODE_WRITE_DATA :: u32 where "KAUTH_VNODE_WRITE_DATA = flagbit 2"
definition KAUTH_VNODE_ADD_FILE :: u32 where "KAUTH_VNODE_ADD_FILE = flagbit 2"
definition KAUTH_VNODE_EXECUTE :: u32 where "KAUTH_VNODE_EXECUTE = flagbit 3"
definition KAUTH_VNODE_SEARCH :: u32 where "KAUTH_VNODE_SEARCH = flagbit 3"
definition KAUTH_VNODE_APPEND_DATA :: u32 where "KAUTH_VNODE_APPEND_DATA = flagbit 5"
definition KAUTH_VNODE_ADD_SUBDIRECTORY :: u32 where "KAUTH_VNODE_ADD_SUBDIRECTORY = flagbit 5"
definition KAUTH_VNODE_DELETE_CHILD :: u32 where "KAUTH_VNODE_DELETE_CHILD = flagbit 6"
definition KAUTH_VNODE_WRITE_ATTRIBUTES :: u32 where "KAUTH_VNODE_WRITE_ATTRIBUTES = flagbit 8"
definition KAUTH_VNODE_READ_EXTATTRIBUTES :: u32 where "KAUTH_VNODE_READ_EXTATTRIBUTES = flagbit 9"
definition KAUTH_VNODE_WRITE_EXTATTRIBUTES :: u32 where
  "KAUTH_VNODE_WRITE_EXTATTRIBUTES = flagbit 10"
definition KAUTH_VNODE_WRITE_SECURITY :: u32 where "KAUTH_VNODE_WRITE_SECURITY = flagbit 12"

definition R_OK :: u32 where "R_OK = 4"
definition W_OK :: u32 where "W_OK = 2"
definition X_OK :: u32 where "X_OK = 1"

definition mask_if :: "bool \<Rightarrow> u32 \<Rightarrow> u32 \<Rightarrow> u32" where
  "mask_if c b m = (if c then m OR b else m)"

definition access_mask :: "bool \<Rightarrow> u32 \<Rightarrow> u32" where
  "access_mask isdir action =
     (let m1 = (if isdir then
                  mask_if (has_flag action KAUTH_VNODE_SEARCH) X_OK
                 (mask_if (has_flag action (KAUTH_VNODE_ADD_FILE OR KAUTH_VNODE_ADD_SUBDIRECTORY OR
                                            KAUTH_VNODE_DELETE_CHILD)) W_OK
                 (mask_if (has_flag action (KAUTH_VNODE_LIST_DIRECTORY OR
                                            KAUTH_VNODE_READ_EXTATTRIBUTES)) R_OK 0))
                else
                  mask_if (has_flag action KAUTH_VNODE_EXECUTE) X_OK
                 (mask_if (has_flag action (KAUTH_VNODE_WRITE_DATA OR KAUTH_VNODE_APPEND_DATA)) W_OK
                 (mask_if (has_flag action (KAUTH_VNODE_READ_DATA OR
                                            KAUTH_VNODE_READ_EXTATTRIBUTES)) R_OK 0)))
      in mask_if (has_flag action (KAUTH_VNODE_WRITE_ATTRIBUTES OR KAUTH_VNODE_WRITE_EXTATTRIBUTES OR
                                   KAUTH_VNODE_WRITE_SECURITY)) W_OK m1)"

section \<open>Block sizes are powers of two\<close>

lemma unat_flagbit: "k < 32 \<Longrightarrow> unat (flagbit k :: u32) = 2 ^ k"
proof -
  assume k: "k < 32"
  have "(flagbit k :: u32) = word_of_nat (2 ^ k)" by (simp add: flagbit_def push_bit_eq_mult)
  moreover have "(2 :: nat) ^ k < 2 ^ 32" using k by (intro power_strict_increasing) simp_all
  then have "unat (word_of_nat (2 ^ k) :: u32) = 2 ^ k"
    by (simp only: unat_of_nat) (simp add: take_bit_nat_eq_self)
  ultimately show ?thesis by metis
qed

lemma push_flagbit: "push_bit 1 (flagbit k :: u32) = flagbit (Suc k)"
  by (simp add: flagbit_def push_bit_push_bit)

lemma round_loop_least:
  assumes "unat (sz :: u32) \<le> 2 ^ 31" "k \<le> 31"
  shows "\<exists>j. k \<le> j \<and> j \<le> 31 \<and> round_loop sz (flagbit k) = Some (flagbit j) \<and> unat sz \<le> 2 ^ j \<and>
    (j = k \<or> 2 ^ (j - 1) < unat sz)"
  using assms(2)
proof (induction "31 - k" arbitrary: k)
  case 0
  then have k: "k = 31" by simp
  have "\<not> (flagbit k :: u32) < sz" using assms(1) k unat_flagbit [of 31] by (simp add: word_less_nat_alt)
  then show ?case using assms(1) k by (intro exI [of _ 31]) (simp add: round_loop.simps)
next
  case (Suc n)
  show ?case
  proof (cases "(flagbit k :: u32) < sz")
    case False
    then have "unat sz \<le> 2 ^ k" using Suc.prems unat_flagbit [of k] by (simp add: word_less_nat_alt)
    then show ?thesis using False Suc.prems by (intro exI [of _ k]) (simp add: round_loop.simps)
  next
    case True
    then have lt: "2 ^ k < unat sz" using Suc.prems unat_flagbit [of k] by (simp add: word_less_nat_alt)
    obtain j where j: "Suc k \<le> j" "j \<le> 31" "round_loop sz (flagbit (Suc k)) = Some (flagbit j)"
      "unat sz \<le> 2 ^ j" "j = Suc k \<or> 2 ^ (j - 1) < unat sz"
    proof -
      have n: "n = 31 - Suc k" "Suc k \<le> 31" using Suc.hyps(2) by arith+
      from Suc.hyps(1) [OF n] show thesis using that by (elim exE conjE)
    qed
    have "round_loop sz (flagbit k) = Some (flagbit j)"
      using True j(3) by (simp only: round_loop.simps [of sz "flagbit k"] push_flagbit) simp
    then show ?thesis using j lt by (intro exI [of _ j]) auto
  qed
qed

lemma fuse_round_powerof2_least:
  "\<exists>j. 9 \<le> j \<and> j \<le> 31 \<and> fuse_round_powerof2 sz = Some (flagbit j) \<and>
     unat (sz AND 0x7FFFFFFF) \<le> 2 ^ j \<and> (j = 9 \<or> 2 ^ (j - 1) < unat (sz AND 0x7FFFFFFF))"
proof -
  have "sz AND 0x7FFFFFFF = take_bit 31 sz" by (simp add: take_bit_eq_mask mask_eq_exp_minus_1)
  then have "unat (sz AND 0x7FFFFFFF) < 2 ^ 31" by (simp add: unsigned_take_bit_eq take_bit_nat_less_exp [of 31, simplified])
  moreover have "(512 :: u32) = flagbit 9" by (simp add: flagbit_def)
  ultimately show ?thesis using round_loop_least [of "sz AND 0x7FFFFFFF" 9]
    by (auto simp: fuse_round_powerof2_def)
qed

lemma sizeof_bounds_aux:
  "fuse_round_powerof2 sz = Some c \<Longrightarrow> b_min \<le> b_max \<Longrightarrow>
     \<exists>r. fuse_round_size sz b_min b_max = Some r \<and> b_min \<le> r \<and> r \<le> b_max \<and>
         (c \<in> {b_min..b_max} \<longrightarrow> r = c)"
  by (auto simp: fuse_round_size_def Let_def)

text \<open>
  C28: The block and transfer sizes of a mount are always computed: the loop ends, its result is the
  least power of two that is at least 512 and at least the requested size (of which only the lower
  31 bits count), and the clipped size lies within the limits and is that power of two when the
  limits allow it.
\<close>

theorem round_size_correct:
  assumes "b_min \<le> b_max"
  shows "\<exists>j r. fuse_round_powerof2 sz = Some (flagbit j) \<and> 9 \<le> j \<and> j \<le> 31 \<and>
    unat (sz AND 0x7FFFFFFF) \<le> 2 ^ j \<and> (j = 9 \<or> 2 ^ (j - 1) < unat (sz AND 0x7FFFFFFF)) \<and>
    fuse_round_size sz b_min b_max = Some r \<and> b_min \<le> r \<and> r \<le> b_max \<and>
    (flagbit j \<in> {b_min..b_max} \<longrightarrow> r = flagbit j)"
proof -
  obtain j where j: "9 \<le> j" "j \<le> 31" "fuse_round_powerof2 sz = Some (flagbit j)"
    "unat (sz AND 0x7FFFFFFF) \<le> 2 ^ j" "j = 9 \<or> 2 ^ (j - 1) < unat (sz AND 0x7FFFFFFF)"
    using fuse_round_powerof2_least [of sz] by blast
  show ?thesis using j sizeof_bounds_aux [OF j(3) assms] by blast
qed

theorem round_size_correct_witness:
  "\<exists>j r. fuse_round_powerof2 70000 = Some (flagbit j) \<and> 9 \<le> j \<and> j \<le> 31 \<and>
    fuse_round_size 70000 512 1048576 = Some r \<and> 512 \<le> r \<and> r \<le> 1048576"
proof -
  have le: "(512 :: u32) \<le> 1048576" by simp
  show ?thesis using round_size_correct [OF le, of 70000] by blast
qed

section \<open>The request to change attributes\<close>

lemmas FATTR_defs = FATTR_MODE_def FATTR_UID_def FATTR_GID_def FATTR_SIZE_def FATTR_ATIME_def
  FATTR_MTIME_def FATTR_FH_def FATTR_CRTIME_def FATTR_CHGTIME_def FATTR_BKUPTIME_def FATTR_FLAGS_def

lemmas vat2fsai_defs = fuse_internal_attr_vat2fsai_def Let_def set_if_def vat2fsai_size_def
  setattr_in_none_def

text \<open>The members of a request, by the bit that announces each of them.\<close>

definition si_members :: "setattr_in \<Rightarrow> (nat \<times> bool) list" where
  "si_members si =
     [(0, si_mode si \<noteq> None), (1, si_uid si \<noteq> None), (2, si_gid si \<noteq> None), (3, si_size si \<noteq> None),
      (4, si_atime si \<noteq> None), (5, si_mtime si \<noteq> None), (6, si_fh si \<noteq> None),
      (28, si_crtime si \<noteq> None), (29, si_chgtime si \<noteq> None), (30, si_bkuptime si \<noteq> None),
      (31, si_flags si \<noteq> None)]"

definition si_honest :: "setattr_in \<Rightarrow> bool" where
  "si_honest si \<longleftrightarrow> (\<forall>n. bit (si_valid si) n \<longleftrightarrow> map_of (si_members si) n = Some True)"

lemma si_honest_none: "si_honest setattr_in_none"
  by (simp add: si_honest_def si_members_def setattr_in_none_def)

lemma si_honest_set_if:
  assumes "si_honest si" "si_valid (f si) = si_valid si"
    "map_of (si_members (f si)) b = Some True"
    "\<And>n. n \<noteq> b \<Longrightarrow> map_of (si_members (f si)) n = map_of (si_members si) n" "b < 32"
  shows "si_honest (set_if c (flagbit b) f si)"
proof (cases c)
  case True
  have "si_members (f si\<lparr>si_valid := v\<rparr>) = si_members (f si)" for v by (simp add: si_members_def)
  moreover have "(map_of (si_members (f si)) n = Some True) \<longleftrightarrow> n = b \<or> bit (si_valid si) n" for n
    using assms by (cases "n = b") (auto simp: si_honest_def)
  ultimately show ?thesis using assms True by (auto simp: set_if_def si_honest_def flag_simps)
qed (use assms in \<open>simp add: set_if_def\<close>)

lemma si_honest_setters [wf_intros]:
  assumes "si_honest si"
  shows
    "si_honest (set_if c FATTR_UID (\<lambda>x. x\<lparr>si_uid := Some v0\<rparr>) si)"
    "si_honest (set_if c FATTR_GID (\<lambda>x. x\<lparr>si_gid := Some v1\<rparr>) si)"
    "si_honest (set_if c FATTR_SIZE (\<lambda>x. x\<lparr>si_size := Some v2\<rparr>) si)"
    "si_honest (set_if c FATTR_FH (\<lambda>x. x\<lparr>si_fh := Some v3\<rparr>) si)"
    "si_honest (set_if c FATTR_ATIME (\<lambda>x. x\<lparr>si_atime := Some v4\<rparr>) si)"
    "si_honest (set_if c FATTR_MTIME (\<lambda>x. x\<lparr>si_mtime := Some v5\<rparr>) si)"
    "si_honest (set_if c FATTR_BKUPTIME (\<lambda>x. x\<lparr>si_bkuptime := Some v6\<rparr>) si)"
    "si_honest (set_if c FATTR_CHGTIME (\<lambda>x. x\<lparr>si_chgtime := Some v7\<rparr>) si)"
    "si_honest (set_if c FATTR_CRTIME (\<lambda>x. x\<lparr>si_crtime := Some v8\<rparr>) si)"
    "si_honest (set_if c FATTR_MODE (\<lambda>x. x\<lparr>si_mode := Some v9\<rparr>) si)"
    "si_honest (set_if c FATTR_FLAGS (\<lambda>x. x\<lparr>si_flags := Some v10\<rparr>) si)"
  unfolding FATTR_defs
  by (rule si_honest_set_if [OF assms]; simp add: si_members_def)+

lemma vat2fsai_size_honest [wf_intros]: "si_honest si \<Longrightarrow> si_honest (vat2fsai_size vp vap si)"
  by (auto simp: vat2fsai_size_def Let_def split: option.split intro!: wf_intros)

lemma vat2fsai_honest:
  assumes "fuse_internal_attr_vat2fsai s vp vap = (chg, newsize, si, vap')"
  shows "si_honest si"
proof -
  have "si_honest (fst (snd (snd (fuse_internal_attr_vat2fsai s vp vap))))"
    unfolding fuse_internal_attr_vat2fsai_def Let_def fst_conv snd_conv
    by (intro wf_intros si_honest_none)
  then show ?thesis using assms by simp
qed

lemma set_if_sel:
  "si_fh (set_if c m g si) = (if c then si_fh (g si) else si_fh si)"
  "si_size (set_if c m g si) = (if c then si_size (g si) else si_size si)"
  "si_uid (set_if c m g si) = (if c then si_uid (g si) else si_uid si)"
  "si_gid (set_if c m g si) = (if c then si_gid (g si) else si_gid si)"
  "si_mode (set_if c m g si) = (if c then si_mode (g si) else si_mode si)"
  "si_flags (set_if c m g si) = (if c then si_flags (g si) else si_flags si)"
  "si_atime (set_if c m g si) = (if c then si_atime (g si) else si_atime si)"
  "si_mtime (set_if c m g si) = (if c then si_mtime (g si) else si_mtime si)"
  "si_crtime (set_if c m g si) = (if c then si_crtime (g si) else si_crtime si)"
  "si_chgtime (set_if c m g si) = (if c then si_chgtime (g si) else si_chgtime si)"
  "si_bkuptime (set_if c m g si) = (if c then si_bkuptime (g si) else si_bkuptime si)"
  by (simp_all add: set_if_def)

lemma vat2fsai_size_sel:
  "si_size (vat2fsai_size vp vap si) = (if VATTR_IS_ACTIVE vap va_data_size_m then Some (va_data_size vap) else si_size si)"
  "si_fh (vat2fsai_size vp vap si) = (if VATTR_IS_ACTIVE vap va_data_size_m \<and> Option.bind vp truncate_fufh \<noteq> None
     then map_option fh_id (Option.bind vp truncate_fufh) else si_fh si)"
  "si_uid (vat2fsai_size vp vap si) = si_uid si"
  "si_gid (vat2fsai_size vp vap si) = si_gid si"
  "si_mode (vat2fsai_size vp vap si) = si_mode si"
  "si_flags (vat2fsai_size vp vap si) = si_flags si"
  "si_atime (vat2fsai_size vp vap si) = si_atime si"
  "si_mtime (vat2fsai_size vp vap si) = si_mtime si"
  "si_crtime (vat2fsai_size vp vap si) = si_crtime si"
  "si_chgtime (vat2fsai_size vp vap si) = si_chgtime si"
  "si_bkuptime (vat2fsai_size vp vap si) = si_bkuptime si"
  by (auto simp: vat2fsai_size_def Let_def set_if_sel split: option.split)

text \<open>
  C24: The request that changes the attributes of a file announces exactly the members it carries:
  a bit of its valid word is set if and only if the member was filled in. A member is filled in if
  and only if it was asked for (an owner or group of -1 counts as not asked for, backup, change and
  creation times count only for a daemon with extended times), and with the value asked for; a
  truncation carries the handle the file is open for writing with, if any. The members the daemon
  gets to see are marked as supported.
\<close>

theorem setattr_request_faithful:
  assumes "fuse_internal_attr_vat2fsai s vp vap = (chg, newsize, si, vap')"
  shows "(\<forall>n. bit (si_valid si) n \<longleftrightarrow> map_of (si_members si) n = Some True) \<and>
    (chg \<longleftrightarrow> va_data_size_m \<in> va_active vap) \<and> newsize = (if chg then va_data_size vap else 0) \<and>
    si_size si = (if chg then Some (va_data_size vap) else None) \<and>
    si_fh si = (if chg then map_option fh_id (Option.bind vp truncate_fufh) else None) \<and>
    si_uid si = (if va_uid_m \<in> va_active vap \<and> va_uid vap \<noteq> -1 then Some (va_uid vap) else None) \<and>
    si_gid si = (if va_gid_m \<in> va_active vap \<and> va_gid vap \<noteq> -1 then Some (va_gid vap) else None) \<and>
    si_mode si = (if va_mode_m \<in> va_active vap then Some (ucast (va_mode vap AND 0xFFF)) else None) \<and>
    si_flags si = (if va_flags_m \<in> va_active vap then Some (va_flags vap) else None) \<and>
    si_atime si = (if va_access_time_m \<in> va_active vap then Some (time_out (va_access_time vap)) else None) \<and>
    si_mtime si = (if va_modify_time_m \<in> va_active vap then Some (time_out (va_modify_time vap)) else None) \<and>
    si_crtime si = (if va_create_time_m \<in> va_active vap \<and> fuse_isxtimes_mp s
      then Some (time_out (va_create_time vap)) else None) \<and>
    si_chgtime si = (if va_change_time_m \<in> va_active vap \<and> fuse_isxtimes_mp s
      then Some (time_out (va_change_time vap)) else None) \<and>
    si_bkuptime si = (if va_backup_time_m \<in> va_active vap \<and> fuse_isxtimes_mp s
      then Some (time_out (va_backup_time vap)) else None) \<and>
    (\<forall>n m. map_of (si_members si) n = Some True \<and>
       (n, m) \<in> {(0, va_mode_m), (1, va_uid_m), (2, va_gid_m), (3, va_data_size_m), (4, va_access_time_m),
         (5, va_modify_time_m), (28, va_create_time_m), (29, va_change_time_m), (30, va_backup_time_m),
         (31, va_flags_m)} \<longrightarrow> m \<in> va_supported vap')"
proof -
  have h: "\<forall>n. bit (si_valid si) n \<longleftrightarrow> map_of (si_members si) n = Some True"
    using vat2fsai_honest [OF assms] by (simp add: si_honest_def)
  define r where "r = fuse_internal_attr_vat2fsai s vp vap"
  have r: "chg = fst r" "newsize = fst (snd r)" "si = fst (snd (snd r))" "vap' = snd (snd (snd r))"
    using assms by (simp_all add: r_def)
  have f: "chg \<longleftrightarrow> va_data_size_m \<in> va_active vap" "newsize = (if chg then va_data_size vap else 0)"
    "si_size si = (if chg then Some (va_data_size vap) else None)"
    "si_fh si = (if chg then map_option fh_id (Option.bind vp truncate_fufh) else None)"
    "si_uid si = (if va_uid_m \<in> va_active vap \<and> va_uid vap \<noteq> -1 then Some (va_uid vap) else None)"
    "si_gid si = (if va_gid_m \<in> va_active vap \<and> va_gid vap \<noteq> -1 then Some (va_gid vap) else None)"
    "si_mode si = (if va_mode_m \<in> va_active vap then Some (ucast (va_mode vap AND 0xFFF)) else None)"
    "si_flags si = (if va_flags_m \<in> va_active vap then Some (va_flags vap) else None)"
    "si_atime si = (if va_access_time_m \<in> va_active vap then Some (time_out (va_access_time vap)) else None)"
    "si_mtime si = (if va_modify_time_m \<in> va_active vap then Some (time_out (va_modify_time vap)) else None)"
    "si_crtime si = (if va_create_time_m \<in> va_active vap \<and> fuse_isxtimes_mp s
      then Some (time_out (va_create_time vap)) else None)"
    "si_chgtime si = (if va_change_time_m \<in> va_active vap \<and> fuse_isxtimes_mp s
      then Some (time_out (va_change_time vap)) else None)"
    "si_bkuptime si = (if va_backup_time_m \<in> va_active vap \<and> fuse_isxtimes_mp s
      then Some (time_out (va_backup_time vap)) else None)"
    unfolding r r_def
    by (simp_all add: fuse_internal_attr_vat2fsai_def Let_def set_if_sel vat2fsai_size_sel
      setattr_in_none_def VATTR_IS_ACTIVE_def VNOVAL_def ALLPERMS_def)
  have v: "va_supported vap' = va_supported vap \<union> {va_uid_m, va_gid_m, va_data_size_m, va_access_time_m,
      va_modify_time_m, va_mode_m, va_flags_m} \<union>
      (if fuse_isxtimes_mp s then {va_backup_time_m, va_change_time_m, va_create_time_m} \<inter> va_active vap else {})"
    unfolding r r_def by (auto simp: fuse_internal_attr_vat2fsai_def Let_def VATTR_SET_SUPPORTED_def)
  have m: "m \<in> va_supported vap'" if "map_of (si_members si) n = Some True \<and>
      (n, m) \<in> {(0, va_mode_m), (1, va_uid_m), (2, va_gid_m), (3, va_data_size_m), (4, va_access_time_m),
         (5, va_modify_time_m), (28, va_create_time_m), (29, va_change_time_m), (30, va_backup_time_m),
         (31, va_flags_m)}" for n m
    using that f(11-13) by (auto simp: v si_members_def split: if_splits)
  show ?thesis using h f m by blast
qed

definition blank_session :: session where
  "blank_session =
     fdata_fresh \<lparr>cr_uid = 501, cr_ruid = 501, cr_gid = 20, cr_rgid = 20, cr_svgid = 20\<rparr> 100 0
       fuse_counters_init"

theorem setattr_request_faithful_witness:
  "\<exists>chg newsize si vap'.
     fuse_internal_attr_vat2fsai blank_session None
       (vattr_zero\<lparr>va_active := {va_mode_m, va_uid_m}, va_mode := 0x81A4, va_uid := -1\<rparr>) =
       (chg, newsize, si, vap') \<and>
     si_mode si = Some 0x1A4 \<and> si_uid si = None \<and> bit (si_valid si) 0 \<and> \<not> bit (si_valid si) 1"
proof -
  let ?v = "vattr_zero\<lparr>va_active := {va_mode_m, va_uid_m}, va_mode := 0x81A4, va_uid := -1\<rparr>"
  obtain chg newsize si vap' where
    e: "fuse_internal_attr_vat2fsai blank_session None ?v = (chg, newsize, si, vap')"
    using prod_cases4 by blast
  note t = setattr_request_faithful [OF e]
  have "si_mode si = Some 0x1A4" "si_uid si = None" using t by simp_all
  moreover have "bit (si_valid si) 0" "\<not> bit (si_valid si) 1"
    using t calculation by (simp_all add: si_members_def)
  ultimately show ?thesis using e by blast
qed

section \<open>The bytes of the request\<close>

definition apply_stores :: "(nat \<times> bytes) list \<Rightarrow> bytes \<Rightarrow> bytes" where
  "apply_stores st b = fold (\<lambda>(off, v). write_at off v) st b"

definition apart :: "nat \<times> nat \<Rightarrow> nat \<times> nat \<Rightarrow> bool" where
  "apart p q \<longleftrightarrow> fst p + snd p \<le> fst q \<or> fst q + snd q \<le> fst p"

definition span :: "nat \<times> bytes \<Rightarrow> nat \<times> nat" where
  "span st = (fst st, length (snd st))"

lemma take_drop_write_apart:
  assumes "off + length v \<le> length b" "apart (o1, n) (off, length v)"
  shows "take n (drop o1 (write_at off v b)) = take n (drop o1 b)"
proof (rule nth_equalityI)
  show "length (take n (drop o1 (write_at off v b))) = length (take n (drop o1 b))"
    using assms(1) by simp
next
  fix i assume "i < length (take n (drop o1 (write_at off v b)))"
  then show "take n (drop o1 (write_at off v b)) ! i = take n (drop o1 b) ! i"
    using assms by (auto simp: write_at_def apart_def nth_append)
qed

text \<open>Stores that keep apart from a range leave it; a store is read back if later ones keep apart.\<close>

lemma apply_stores_apart:
  assumes "\<forall>st \<in> set sts. fst st + length (snd st) \<le> length b \<and> apart (o1, n) (span st)"
  shows "take n (drop o1 (apply_stores sts b)) = take n (drop o1 b) \<and>
    length (apply_stores sts b) = length b"
  using assms
proof (induction sts arbitrary: b)
  case (Cons st sts)
  obtain off v where st: "st = (off, v)" by (cases st)
  have "length (write_at off v b) = length b" using Cons.prems st by simp
  then show ?case
    using Cons.IH [of "write_at off v b"] Cons.prems take_drop_write_apart [of off v b o1 n]
    by (simp add: apply_stores_def st span_def)
qed (simp add: apply_stores_def)

lemma apply_stores_read:
  assumes "(off, v) \<in> set sts"
    "sorted_wrt apart (map span sts)" "\<forall>st \<in> set sts. fst st + length (snd st) \<le> length b"
  shows "take (length v) (drop off (apply_stores sts b)) = v"
  using assms
proof (induction sts arbitrary: b)
  case (Cons st sts)
  obtain p w where st: "st = (p, w)" by (cases st)
  let ?b = "write_at p w b"
  have l: "length ?b = length b" using Cons.prems st by simp
  have e: "apply_stores (st # sts) b = apply_stores sts ?b" by (simp add: apply_stores_def st)
  show ?case
  proof (cases "(off, v) \<in> set sts")
    case True
    then show ?thesis using Cons.IH [of ?b] Cons.prems l e by simp
  next
    case False
    then have "st = (off, v)" using Cons.prems by simp
    then show ?thesis
      using apply_stores_apart [of sts ?b off "length v"] Cons.prems l e st
      by (simp add: span_def take_drop_write_at)
  qed
qed simp

definition spans_if :: "(bool \<times> nat \<times> nat) list \<Rightarrow> (nat \<times> nat) list" where
  "spans_if xs = map snd (filter fst xs)"

lemma spans_if_simps [simp]:
  "spans_if [] = []"
  "spans_if ((c, s) # xs) = (if c then s # spans_if xs else spans_if xs)"
  by (simp_all add: spans_if_def)

lemma sorted_wrt_spans_if: "sorted_wrt R (map snd xs) \<Longrightarrow> sorted_wrt R (spans_if xs)"
  unfolding spans_if_def by (induction xs) auto

lemma opt_store_if: "map span (opt_store off n v) = spans_if [(v \<noteq> None, off, n)]"
  by (simp add: opt_store_def span_def split: option.split)

lemma spans_if_append: "spans_if xs @ spans_if ys = spans_if (xs @ ys)"
  by (simp add: spans_if_def)

lemma setattr_stores_apart: "sorted_wrt apart (map span (setattr_stores si))"
proof -
  have "map span (setattr_stores si) = spans_if ([(True, 0, 4)] @
      [(si_fh si \<noteq> None, 8, 8)] @ [(si_size si \<noteq> None, 16, 8)] @
      ([(si_atime si \<noteq> None, 32, 8)] @ [(si_atime si \<noteq> None, 56, 4)]) @
      ([(si_mtime si \<noteq> None, 40, 8)] @ [(si_mtime si \<noteq> None, 60, 4)]) @
      [(si_mode si \<noteq> None, 68, 4)] @ [(si_uid si \<noteq> None, 76, 4)] @ [(si_gid si \<noteq> None, 80, 4)] @
      ([(si_bkuptime si \<noteq> None, 88, 8)] @ [(si_bkuptime si \<noteq> None, 112, 4)]) @
      ([(si_chgtime si \<noteq> None, 96, 8)] @ [(si_chgtime si \<noteq> None, 116, 4)]) @
      ([(si_crtime si \<noteq> None, 104, 8)] @ [(si_crtime si \<noteq> None, 120, 4)]) @
      [(si_flags si \<noteq> None, 124, 4)])"
    unfolding setattr_stores_def time_store_def
    by (simp only: map_append opt_store_if spans_if_append [symmetric]) (simp add: span_def)
  then show ?thesis by (simp only:) (rule sorted_wrt_spans_if, simp add: apart_def)
qed

lemma setattr_stores_fit: "\<forall>st \<in> set (setattr_stores si). fst st + length (snd st) \<le> 128"
  by (auto simp: setattr_stores_def time_store_def opt_store_def split: option.splits)

lemma unat_word_of_le32 [simp]: "word_of_nat (le_value (le_bytes 4 (unat (x :: u32)))) = x"
  by (simp add: le_value_word32)

lemma unat_word_of_le64 [simp]: "word_of_nat (le_value (le_bytes 8 (unat (x :: u64)))) = x"
  by (simp add: le_value_word64)

lemma u32_at_store:
  assumes "length b = 128" "(off, le_bytes 4 (unat (x :: u32))) \<in> set (setattr_stores si)"
  shows "u32_at off (apply_stores (setattr_stores si) b) = x"
  using apply_stores_read [OF assms(2) setattr_stores_apart, of b] setattr_stores_fit assms(1)
  by (simp add: u32_at_def field_at_def)

lemma u64_at_store:
  assumes "length b = 128" "(off, le_bytes 8 (unat (x :: u64))) \<in> set (setattr_stores si)"
  shows "u64_at off (apply_stores (setattr_stores si) b) = x"
  using apply_stores_read [OF assms(2) setattr_stores_apart, of b] setattr_stores_fit assms(1)
  by (simp add: u64_at_def field_at_def)

text \<open>How a daemon reads the request: the members that the valid word announces.\<close>

definition setattr_in_at :: "bytes \<Rightarrow> setattr_in" where
  "setattr_in_at b =
     (let valid = u32_at 0 b; get = (\<lambda>n x. if bit valid n then Some x else None)
      in \<lparr>si_valid = valid, si_fh = (if bit valid 6 then Some (u64_at 8 b) else None),
          si_size = (if bit valid 3 then Some (u64_at 16 b) else None),
          si_atime = (if bit valid 4 then Some (u64_at 32 b, u32_at 56 b) else None),
          si_mtime = (if bit valid 5 then Some (u64_at 40 b, u32_at 60 b) else None),
          si_mode = get 0 (u32_at 68 b), si_uid = get 1 (u32_at 76 b), si_gid = get 2 (u32_at 80 b),
          si_bkuptime = (if bit valid 30 then Some (u64_at 88 b, u32_at 112 b) else None),
          si_chgtime = (if bit valid 29 then Some (u64_at 96 b, u32_at 116 b) else None),
          si_crtime = (if bit valid 28 then Some (u64_at 104 b, u32_at 120 b) else None),
          si_flags = get 31 (u32_at 124 b)\<rparr>)"

lemma setattr_decode:
  assumes h: "si_honest si" and b: "length b = 128"
  shows "setattr_in_at (apply_stores (setattr_stores si) b) = si"
proof -
  define b1 where "b1 = apply_stores (setattr_stores si) b"
  have bits: "bit (si_valid si) n \<longleftrightarrow> map_of (si_members si) n = Some True" for n
    using h by (simp add: si_honest_def)
  note st = u32_at_store [OF b] u64_at_store [OF b]
  note sd = setattr_stores_def time_store_def opt_store_def
  have f: "u32_at 0 b1 = si_valid si"
    "\<And>x. si_fh si = Some x \<Longrightarrow> u64_at 8 b1 = x" "\<And>x. si_size si = Some x \<Longrightarrow> u64_at 16 b1 = x"
    "\<And>x y. si_atime si = Some (x, y) \<Longrightarrow> u64_at 32 b1 = x" "\<And>x y. si_atime si = Some (x, y) \<Longrightarrow> u32_at 56 b1 = y"
    "\<And>x y. si_mtime si = Some (x, y) \<Longrightarrow> u64_at 40 b1 = x" "\<And>x y. si_mtime si = Some (x, y) \<Longrightarrow> u32_at 60 b1 = y"
    "\<And>x. si_mode si = Some x \<Longrightarrow> u32_at 68 b1 = x" "\<And>x. si_uid si = Some x \<Longrightarrow> u32_at 76 b1 = x"
    "\<And>x. si_gid si = Some x \<Longrightarrow> u32_at 80 b1 = x"
    "\<And>x y. si_bkuptime si = Some (x, y) \<Longrightarrow> u64_at 88 b1 = x"
    "\<And>x y. si_bkuptime si = Some (x, y) \<Longrightarrow> u32_at 112 b1 = y"
    "\<And>x y. si_chgtime si = Some (x, y) \<Longrightarrow> u64_at 96 b1 = x"
    "\<And>x y. si_chgtime si = Some (x, y) \<Longrightarrow> u32_at 116 b1 = y"
    "\<And>x y. si_crtime si = Some (x, y) \<Longrightarrow> u64_at 104 b1 = x"
    "\<And>x y. si_crtime si = Some (x, y) \<Longrightarrow> u32_at 120 b1 = y"
    "\<And>x. si_flags si = Some x \<Longrightarrow> u32_at 124 b1 = x"
    unfolding b1_def by (rule st; simp add: sd)+
  have none: "None = x \<longleftrightarrow> (\<forall>a b. x \<noteq> Some (a, b))" for x :: "(u64 \<times> u32) option" by (cases x) auto
  have "setattr_in_at b1 = si"
    by (rule setattr_in.equality)
      (auto simp: setattr_in_at_def Let_def bits si_members_def f none)
  then show ?thesis by (simp add: b1_def)
qed

text \<open>
  C23: A daemon that decodes the request of a change of attributes, reading the members that the
  valid word announces at their offsets, gets exactly the members that were filled in, whatever the
  128 bytes of the request body held before; no store lies outside them.
\<close>

theorem setattr_request_roundtrip:
  assumes "fuse_internal_attr_vat2fsai s vp vap = (chg, newsize, si, vap')"
    and "length b = sizeof 8 fuse_setattr_in"
  shows "setattr_in_at (apply_stores (setattr_stores si) b) = si \<and>
    (\<forall>st \<in> set (setattr_stores si). fst st + length (snd st) \<le> sizeof 8 fuse_setattr_in)"
proof -
  have "sizeof 8 fuse_setattr_in = 128" by (simp add: layout_eval)
  then show ?thesis
    using setattr_decode [OF vat2fsai_honest [OF assms(1)]] setattr_stores_fit assms(2) by simp
qed

theorem setattr_request_roundtrip_witness:
  "\<exists>chg newsize si vap'.
     fuse_internal_attr_vat2fsai blank_session None
       (vattr_zero\<lparr>va_active := {va_mode_m}, va_mode := 0x81A4\<rparr>) = (chg, newsize, si, vap') \<and>
     length (replicate 128 0 :: bytes) = sizeof 8 fuse_setattr_in \<and>
     setattr_in_at (apply_stores (setattr_stores si) (replicate 128 0)) = si"
proof -
  let ?v = "vattr_zero\<lparr>va_active := {va_mode_m}, va_mode := 0x81A4\<rparr>"
  obtain chg newsize si vap' where
    e: "fuse_internal_attr_vat2fsai blank_session None ?v = (chg, newsize, si, vap')"
    using prod_cases4 by blast
  have l: "length (replicate 128 0 :: bytes) = sizeof 8 fuse_setattr_in" by (simp add: layout_eval)
  from setattr_request_roundtrip [OF e l] show ?thesis using e l by blast
qed

end
