(* ===== verification/Fuse_Readdir.thy ===== *)
theory Fuse_Readdir
  imports Fuse_Attr
begin

text \<open>
  Directory listings (\<^verbatim>\<open>fuse_internal_readdir_processdata\<close> of
  \<^verbatim>\<open>fuse_internal.c\<close>): the conversion of the directory entries in an answer of the daemon
  into the kernel's directory entries, one at a time through a scratch buffer, as many as the
  caller has room for. The main theorem compares the loop over the bytes with a reference that
  works on lists of entries.
\<close>

section \<open>User buffers with an offset\<close>

record fs_uio =
  fu_uio :: uio
  fu_offset :: int

text \<open>\<^verbatim>\<open>uiomove\<close> also advances the offset by what it moved.\<close>

definition uiomove_to_user :: "kenv \<Rightarrow> bytes \<Rightarrow> int \<Rightarrow> fs_uio \<Rightarrow> errno \<times> fs_uio" where
  "uiomove_to_user k b n u =
     (case k_uiomove_out k n b (fu_uio u) of (err, v) \<Rightarrow>
        (err, u\<lparr>fu_uio := v,
                fu_offset := fu_offset u + (int (uio_resid (fu_uio u)) - int (uio_resid v))\<rparr>))"

section \<open>The conversion\<close>

definition FUSE_MAXNAMLEN :: nat where "FUSE_MAXNAMLEN = 255"
definition sizeof_dirent :: nat where "sizeof_dirent = 264"
definition DT_WHT :: nat where "DT_WHT = 14"

definition GENERIC_DIRSIZ :: "u32 \<Rightarrow> nat" where
  "GENERIC_DIRSIZ d_namlen =
     (sizeof_dirent - (FUSE_MAXNAMLEN + 1)) + unat ((d_namlen + 1 + 3) AND NOT 3)"

record readdir_state =
  rd_uio :: fs_uio
  rd_iov :: fuse_iov
  rd_cnt :: fuse_counters

text \<open>The members of a \<^verbatim>\<open>struct dirent\<close> before the name, which starts at offset 8.\<close>

definition dirent_head :: "nat \<Rightarrow> nat \<Rightarrow> nat \<Rightarrow> nat \<Rightarrow> bytes" where
  "dirent_head d_fileno d_reclen d_type d_namlen =
     le_bytes 4 d_fileno @ le_bytes 2 d_reclen @ le_bytes 1 d_type @ le_bytes 1 d_namlen"

definition readdir_entry ::
    "kenv \<Rightarrow> session \<Rightarrow> bytes \<Rightarrow> nat \<Rightarrow> readdir_state \<Rightarrow> (errno \<times> readdir_state) outcome" where
  "readdir_entry k s buf bytesavail st =
     bind_outcome (fiov_refresh (k_tun k) (k_osm k) (rd_iov st) (rd_cnt st)) (\<lambda>(f1, g1).
     bind_outcome (fiov_adjust (k_tun k) (k_osm k) f1 bytesavail g1) (\<lambda>(f2, g2).
       let namelen = unat (u32_at 16 buf);
           hidden = fuse_skip_apple_double_mp s (Some (drop FUSE_NAME_OFFSET buf)) namelen;
           head = dirent_head (if hidden then 0 else field_at 0 8 buf) bytesavail
                    (if hidden then DT_WHT else field_at 20 4 buf) namelen
       in bind_outcome (store_at 0 head (base f2)) (\<lambda>b1.
          bind_outcome (store_at (sizeof_dirent - FUSE_MAXNAMLEN - 1)
                          (take namelen (drop FUSE_NAME_OFFSET buf)) b1) (\<lambda>b2.
          bind_outcome (store_at bytesavail [0] b2) (\<lambda>b3.
            case uiomove_to_user k b3 (int_of_size (len f2)) (rd_uio st) of (err, u) \<Rightarrow>
              Done (err, st\<lparr>rd_uio := u, rd_iov := f2\<lparr>base := b3\<rparr>, rd_cnt := g2\<rparr>))))))"

text \<open>
  The loop. \<open>buf\<close> is what is left of the answer, \<open>cou\<close> the number of entries looked at before and
  \<open>n\<close> the number delivered. Every round takes at least a header off the answer.
\<close>

function readdir_loop ::
    "kenv \<Rightarrow> session \<Rightarrow> bytes \<Rightarrow> nat \<Rightarrow> nat \<Rightarrow> readdir_state \<Rightarrow> (errno \<times> nat \<times> readdir_state) outcome"
  where
  "readdir_loop k s buf cou n st =
     (if length buf < FUSE_NAME_OFFSET then Done (- 1, n, st)
      else
        let namelen = u32_at 16 buf; freclen = unat (FUSE_DIRENT_SIZE namelen)
        in if length buf < freclen then Done (if cou + 1 = 1 then - 1 else 0, n, st)
           else if namelen = 0 then Done (EINVAL, n, st)
           else if unat namelen > FUSE_MAXNAMLEN then Done (EIO, n, st)
           else if GENERIC_DIRSIZ namelen > uio_resid (fu_uio (rd_uio st)) then Done (- 1, n, st)
           else
             bind_outcome (readdir_entry k s buf (GENERIC_DIRSIZ namelen) st) (\<lambda>(err, st1).
               if err \<noteq> 0 then Done (err, n, st1)
               else readdir_loop k s (drop freclen buf) (cou + 1) (n + 1)
                      (st1\<lparr>rd_uio := (rd_uio st1)\<lparr>fu_offset := sint (u64_at 8 buf)\<rparr>\<rparr>)))"
  by pat_completeness auto

lemma FUSE_DIRENT_SIZE_pos: "0 < unat (FUSE_DIRENT_SIZE n)"
  by (simp add: unat_FUSE_DIRENT_SIZE align_up_def FUSE_NAME_OFFSET_def)

termination readdir_loop
  by (relation "measure (\<lambda>(k, s, buf, cou, n, st). length buf)")
    (use FUSE_DIRENT_SIZE_pos in \<open>auto simp: FUSE_NAME_OFFSET_def intro!: diff_less\<close>)

declare readdir_loop.simps [simp del]

text \<open>The second result is what is stored through \<^verbatim>\<open>numdirent\<close>, if anything is.\<close>

definition fuse_internal_readdir_processdata ::
    "kenv \<Rightarrow> session \<Rightarrow> bytes \<Rightarrow> readdir_state \<Rightarrow> (errno \<times> nat option \<times> readdir_state) outcome" where
  "fuse_internal_readdir_processdata k s buf st =
     (if length buf < FUSE_NAME_OFFSET then Done (- 1, None, st)
      else bind_outcome (readdir_loop k s buf 0 0 st) (\<lambda>(err, n, st1).
             Done (err, if err = 0 then Some n else None, st1)))"

section \<open>A reference on entries\<close>

record dir_entry =
  de_ino :: nat
  de_off :: u64
  de_type :: nat
  de_namelen :: u32
  de_name :: bytes
  de_pad :: bytes

definition entry_at :: "bytes \<Rightarrow> dir_entry" where
  "entry_at buf =
     \<lparr>de_ino = field_at 0 8 buf, de_off = u64_at 8 buf, de_type = field_at 20 4 buf,
      de_namelen = u32_at 16 buf, de_name = take (unat (u32_at 16 buf)) (drop FUSE_NAME_OFFSET buf),
      de_pad = take (unat (FUSE_DIRENT_SIZE (u32_at 16 buf)) - FUSE_NAME_OFFSET - unat (u32_at 16 buf))
                 (drop (FUSE_NAME_OFFSET + unat (u32_at 16 buf)) buf)\<rparr>"

text \<open>
  The record that user space gets: the header, the name, and zeros up to the length of the record,
  at least one. A hidden entry keeps its name and gets the inode number 0 and the type of a
  whiteout. The name \<^verbatim>\<open>.DS_Store\<close> is recognised only if the daemon padded it with a zero.
\<close>

definition entry_hidden :: "session \<Rightarrow> dir_entry \<Rightarrow> bool" where
  "entry_hidden s e \<longleftrightarrow> has_flag (dataflags s) FSESS_NO_APPLEDOUBLE \<and> length (de_name e) > 2 \<and>
     (de_name e = butlast DS_STORE \<and> take 1 (de_pad e) = [0] \<or> take 2 (de_name e) = [0x2E, 0x5F])"

definition dirent_bytes :: "bool \<Rightarrow> dir_entry \<Rightarrow> bytes" where
  "dirent_bytes hidden e =
     (let n = GENERIC_DIRSIZ (de_namelen e)
      in dirent_head (if hidden then 0 else de_ino e) n (if hidden then DT_WHT else de_type e)
           (length (de_name e)) @
         de_name e @ replicate (n - 8 - length (de_name e)) 0)"

function readdir_spec :: "nat \<Rightarrow> nat \<Rightarrow> bytes \<Rightarrow> dir_entry list \<times> errno" where
  "readdir_spec cou room buf =
     (if length buf < 24 then ([], - 1)
      else
        let e = entry_at buf; freclen = unat (FUSE_DIRENT_SIZE (de_namelen e))
        in if length buf < freclen then ([], if cou = 0 then - 1 else 0)
           else if de_namelen e = 0 then ([], EINVAL)
           else if unat (de_namelen e) > 255 then ([], EIO)
           else if GENERIC_DIRSIZ (de_namelen e) > room then ([], - 1)
           else case readdir_spec (cou + 1) (room - GENERIC_DIRSIZ (de_namelen e)) (drop freclen buf) of
             (es, err) \<Rightarrow> (e # es, err))"
  by pat_completeness auto

termination readdir_spec
  by (relation "measure (\<lambda>(cou, room, buf). length buf)")
    (use FUSE_DIRENT_SIZE_pos in \<open>auto intro!: diff_less\<close>)

declare readdir_spec.simps [simp del]

section \<open>The loop implements the reference\<close>

lemma unat_and_minus_4: "unat ((x :: u32) AND - 4) = unat x div 4 * 4"
proof -
  have m: "(3 :: u32) = mask 2" by (simp add: mask_eq_exp_minus_1)
  have n: "(- 4 :: u32) = NOT 3" by simp
  have "x AND - 4 = push_bit 2 (drop_bit 2 x)"
    unfolding n m by (rule bit_word_eqI)
      (auto simp: bit_and_iff bit_not_iff bit_push_bit_iff bit_drop_bit_eq bit_mask_iff not_less dest!: le_Suc_ex)
  also have "\<dots> = word_of_nat (unat x div 4 * 4)"
    by (simp add: push_bit_eq_mult drop_bit_eq_div word_arith_nat_div)
  finally show ?thesis
    using unat_u32_less [of x] by (simp add: unat_word_ariths unat_of_nat take_bit_eq_mod)
qed

lemma GENERIC_DIRSIZ_eq: "unat n \<le> 255 \<Longrightarrow> GENERIC_DIRSIZ n = 8 + (unat n + 4) div 4 * 4"
proof -
  assume n: "unat n \<le> 255"
  have "unat (n + 1 + 3) = unat n + 4"
    using n by (simp add: unat_word_ariths)
  then show ?thesis by (simp add: GENERIC_DIRSIZ_def unat_and_minus_4 sizeof_dirent_def FUSE_MAXNAMLEN_def)
qed

lemma GENERIC_DIRSIZ_bounds:
  assumes "unat n \<le> 255"
  shows "8 + unat n < GENERIC_DIRSIZ n" "GENERIC_DIRSIZ n \<le> 264"
  using assms by (simp_all add: GENERIC_DIRSIZ_eq)

text \<open>
  The scratch buffer is clean when it is well-formed, large enough for the largest record and the
  byte after it, small enough to be kept, and zero from its length on.
\<close>

definition scratch_ok :: "fuse_tunables \<Rightarrow> fuse_iov \<Rightarrow> bool" where
  "scratch_ok tun f \<longleftrightarrow>
     fiov_wf f \<and> 265 \<le> allocated_size f \<and>
     allocated_size f \<le> unat (fuse_iov_permanent_bufsize tun) \<and>
     drop (len f) (base f) = replicate (allocated_size f - len f) 0"

lemma scratch_fresh:
  assumes "scratch_ok tun f" "sz \<le> 264"
  shows "bind_outcome (fiov_refresh tun osm f g) (\<lambda>(f1, g1). fiov_adjust tun osm f1 sz g1) =
    Done (f\<lparr>base := replicate (allocated_size f) 0, len := sz\<rparr>, g)"
proof -
  have "bzero (len f) (base f) = replicate (allocated_size f) 0"
    using assms(1) by (simp add: scratch_ok_def fiov_wf_def bzero_def write_at_def replicate_add [symmetric])
  moreover have "\<not> allocated_size f < sz" "\<not> unat (fuse_iov_permanent_bufsize tun) < allocated_size f"
    "\<not> unat (fuse_iov_permanent_bufsize tun) < allocated_size f - sz"
    using assms by (auto simp: scratch_ok_def)
  ultimately show ?thesis by (simp add: fiov_refresh_def fiov_adjust_def fiov_must_realloc_def)
qed

lemma write_zero_head:
  assumes "length v \<le> n"
  shows "write_at 0 v (replicate n 0) = v @ replicate (n - length v) 0"
  using assms by (simp add: write_at_def)

lemma write_after:
  assumes "length v \<le> n"
  shows "write_at (length p) v (p @ replicate n 0) = p @ v @ replicate (n - length v) 0"
  using assms by (simp add: write_at_def)

lemma write_zero_idem:
  assumes "length p \<le> i" "i < length p + n"
  shows "write_at i [0] (p @ replicate n 0) = p @ replicate n 0"
proof -
  have "write_at i [0] (p @ replicate n 0) =
      p @ replicate (i - length p) 0 @ [0] @ replicate (n - (Suc i - length p)) 0"
    using assms by (simp add: write_at_def min_def)
  also have "\<dots> = p @ replicate ((i - length p) + Suc (n - (Suc i - length p))) 0"
    by (simp only: replicate_add replicate_Suc append_Cons append_Nil)
  also have "\<dots> = p @ replicate n 0" using assms by simp
  finally show ?thesis .
qed

lemma length_dirent_head [simp]: "length (dirent_head a b c d) = 8"
  by (simp add: dirent_head_def)

text \<open>What the conversion leaves in the scratch buffer.\<close>

lemma scratch_stores:
  assumes "length h = 8" "8 + length nm < m" "m < n"
  shows "bind_outcome (store_at 0 h (replicate n 0)) (\<lambda>b1.
      bind_outcome (store_at 8 nm b1) (store_at m [0])) =
    Done (h @ nm @ replicate (n - 8 - length nm) 0)"
proof -
  have s1: "store_at 0 h (replicate n 0) = Done (h @ replicate (n - 8) 0)"
    using assms by (simp add: write_zero_head)
  have s2: "store_at 8 nm (h @ replicate (n - 8) 0) = Done (h @ nm @ replicate (n - 8 - length nm) 0)"
    using assms write_after [of nm "n - 8" h] by simp
  have s3: "store_at m [0] (h @ nm @ replicate (n - 8 - length nm) 0) =
      Done (h @ nm @ replicate (n - 8 - length nm) 0)"
  proof -
    have "write_at m [0] ((h @ nm) @ replicate (n - 8 - length nm) 0) =
        (h @ nm) @ replicate (n - 8 - length nm) 0"
      by (rule write_zero_idem) (use assms in auto)
    then show ?thesis using assms by (simp add: store_at_def)
  qed
  show ?thesis by (simp only: s1 s2 s3 bind_outcome.simps)
qed

text \<open>A destination that never fails, and the state after some records were delivered.\<close>

definition uiomove_out_works :: "kenv \<Rightarrow> bool" where
  "uiomove_out_works k \<longleftrightarrow>
     uiomove_out_ok (k_uiomove_out k) \<and> (\<forall>n b u. fst (k_uiomove_out k n b u) = 0)"

definition delivered :: "bytes \<Rightarrow> int \<Rightarrow> fs_uio \<Rightarrow> fs_uio" where
  "delivered out off u =
     \<lparr>fu_uio = (fu_uio u)\<lparr>uio_resid := uio_resid (fu_uio u) - length out,
                           uio_out := uio_out (fu_uio u) @ out\<rparr>,
      fu_offset = off\<rparr>"

lemma uiomove_to_user_works:
  assumes "uiomove_out_works k" "n \<le> length b" "n \<le> uio_resid (fu_uio u)" "n < 2147483648"
  shows "uiomove_to_user k b (int_of_size n) u = (0, delivered (take n b) (fu_offset u + int n) u)"
proof -
  obtain v where v: "k_uiomove_out k (int n) b (fu_uio u) = (0, v)"
    using assms(1) by (metis uiomove_out_works_def prod.collapse)
  have "v = (fu_uio u)\<lparr>uio_resid := uio_resid (fu_uio u) - n, uio_out := uio_out (fu_uio u) @ take n b\<rparr>"
  proof -
    have ok: "uiomove_out_ok (k_uiomove_out k)" using assms(1) by (simp add: uiomove_out_works_def)
    show ?thesis
      using ok [unfolded uiomove_out_ok_def, rule_format, of "int n" b "fu_uio u" v] v assms by simp
  qed
  then show ?thesis using v assms by (simp add: uiomove_to_user_def delivered_def)
qed

lemma entry_hidden_eq:
  assumes "24 \<le> length buf" "unat (FUSE_DIRENT_SIZE (u32_at 16 buf)) \<le> length buf"
  shows "fuse_skip_apple_double_mp s (Some (drop FUSE_NAME_OFFSET buf)) (unat (u32_at 16 buf)) =
    entry_hidden s (entry_at buf)"
proof -
  let ?n = "unat (u32_at 16 buf)" and ?r = "drop 24 buf"
  have fit: "24 + ?n \<le> length buf"
    using assms(2) by (simp add: unat_FUSE_DIRENT_SIZE align_up_def FUSE_NAME_OFFSET_def)
  have d: "length DS_STORE = 10" by (simp add: DS_STORE_def)
  have "?n = 9 \<and> take 10 ?r = DS_STORE \<longleftrightarrow>
      take ?n ?r = butlast DS_STORE \<and> take 1 (de_pad (entry_at buf)) = [0]"
  proof (cases "?n = 9")
    case True
    have p: "de_pad (entry_at buf) = take 7 (drop 33 buf)"
      by (simp add: entry_at_def unat_FUSE_DIRENT_SIZE True align_up_def FUSE_NAME_OFFSET_def)
    have "take 10 ?r = take 9 ?r @ take 1 (drop 9 ?r)"
      using take_add [of 9 1 ?r] by simp
    moreover have ds: "DS_STORE = butlast DS_STORE @ [0]" "length (butlast DS_STORE) = 9"
      by (simp_all add: DS_STORE_def)
    moreover have "length (take 9 ?r) = length (butlast DS_STORE)" using True fit ds by simp
    ultimately have "take 10 ?r = DS_STORE \<longleftrightarrow> take 9 ?r = butlast DS_STORE \<and> take 1 (drop 9 ?r) = [0]"
      by (metis append_eq_append_conv)
    then show ?thesis using True by (simp add: p)
  next
    case False
    then have "length (take ?n ?r) \<noteq> length (butlast DS_STORE)" using fit d by simp
    then show ?thesis using False by metis
  qed
  moreover have "take 2 (take ?n ?r) = take 2 ?r" if "?n > 2" using that by simp
  ultimately show ?thesis using fit d
    by (auto simp: fuse_skip_apple_double_mp_def entry_hidden_def entry_at_def FUSE_NAME_OFFSET_def)
qed

lemma readdir_entry_works:
  assumes k: "uiomove_out_works k" and sc: "scratch_ok (k_tun k) (rd_iov st)"
    and l: "24 \<le> length buf" "unat (FUSE_DIRENT_SIZE (u32_at 16 buf)) \<le> length buf"
    and n: "unat (u32_at 16 buf) \<le> 255"
    and room: "GENERIC_DIRSIZ (u32_at 16 buf) \<le> uio_resid (fu_uio (rd_uio st))"
  shows "\<exists>st1. readdir_entry k s buf (GENERIC_DIRSIZ (u32_at 16 buf)) st = Done (0, st1) \<and>
    scratch_ok (k_tun k) (rd_iov st1) \<and>
    rd_uio st1 = delivered (dirent_bytes (entry_hidden s (entry_at buf)) (entry_at buf))
      (fu_offset (rd_uio st) + int (GENERIC_DIRSIZ (u32_at 16 buf))) (rd_uio st)"
proof -
  define e where "e = entry_at buf"
  define m where "m = GENERIC_DIRSIZ (u32_at 16 buf)"
  define A where "A = allocated_size (rd_iov st)"
  define hid where "hid = entry_hidden s e"
  define head where "head = dirent_head (if hid then 0 else field_at 0 8 buf) m
    (if hid then DT_WHT else field_at 20 4 buf) (unat (u32_at 16 buf))"
  define blk where "blk = head @ de_name e @ replicate (A - 8 - length (de_name e)) 0"
  have fit: "24 + unat (u32_at 16 buf) \<le> length buf"
    using l(2) by (simp add: unat_FUSE_DIRENT_SIZE align_up_def FUSE_NAME_OFFSET_def)
  have nm: "de_name e = take (unat (u32_at 16 buf)) (drop 24 buf)" "length (de_name e) = unat (u32_at 16 buf)"
    "de_namelen e = u32_at 16 buf"
    using fit by (simp_all add: e_def entry_at_def FUSE_NAME_OFFSET_def)
  have m: "8 + length (de_name e) < m" "m \<le> 264" "m < A" "265 \<le> A"
    using GENERIC_DIRSIZ_bounds [OF n] sc by (simp_all add: m_def nm scratch_ok_def A_def)
  have stores: "bind_outcome (store_at 0 head (replicate A 0)) (\<lambda>b1.
      bind_outcome (store_at 8 (de_name e) b1) (store_at m [0])) = Done blk"
    unfolding blk_def by (rule scratch_stores) (use m in \<open>auto simp: head_def\<close>)
  have out: "take m blk = dirent_bytes hid e" "m \<le> length blk" "length (dirent_bytes hid e) = m"
    using m by (simp_all add: blk_def head_def dirent_bytes_def Let_def nm(2,3) m_def [symmetric] e_def [symmetric] min_def)
      (auto simp: e_def entry_at_def)
  let ?f2 = "(rd_iov st)\<lparr>base := replicate A 0, len := m\<rparr>"
  obtain f1 g1 where fr: "fiov_refresh (k_tun k) (k_osm k) (rd_iov st) (rd_cnt st) = Done (f1, g1)"
    "fiov_adjust (k_tun k) (k_osm k) f1 m g1 = Done (?f2, rd_cnt st)"
    using scratch_fresh [OF sc m(2), of "k_osm k" "rd_cnt st"] by (auto simp: bind_outcome_Done_iff A_def)
  obtain b1 b2 where st: "store_at 0 head (replicate A 0) = Done b1"
    "store_at 8 (de_name e) b1 = Done b2" "store_at m [0] b2 = Done blk"
    using stores unfolding bind_outcome_Done_iff by blast
  have mv: "uiomove_to_user k blk (int_of_size m) (rd_uio st) =
      (0, delivered (dirent_bytes hid e) (fu_offset (rd_uio st) + int m) (rd_uio st))"
    using uiomove_to_user_works [OF k out(2)] room m(2) unfolding out(1) by (simp add: m_def)
  have hid1: "fuse_skip_apple_double_mp s (Some (drop FUSE_NAME_OFFSET buf)) (unat (u32_at 16 buf)) = hid"
    unfolding hid_def e_def by (rule entry_hidden_eq [OF l])
  have "readdir_entry k s buf m st = Done (0, st\<lparr>rd_uio := delivered (dirent_bytes hid e)
      (fu_offset (rd_uio st) + int m) (rd_uio st), rd_iov := ?f2\<lparr>base := blk\<rparr>, rd_cnt := rd_cnt st\<rparr>)"
  proof -
    have s8: "sizeof_dirent - FUSE_MAXNAMLEN - 1 = 8" by (simp add: sizeof_dirent_def FUSE_MAXNAMLEN_def)
    have nme: "take (unat (u32_at 16 buf)) (drop FUSE_NAME_OFFSET buf) = de_name e"
      by (simp add: nm(1) FUSE_NAME_OFFSET_def)
    show ?thesis unfolding readdir_entry_def fr bind_outcome.simps prod.case Let_def hid1 s8 nme head_def [symmetric]
      by (simp add: fr(2) st mv)
  qed
  moreover have "scratch_ok (k_tun k) (?f2\<lparr>base := blk\<rparr>)"
    using sc m by (simp add: scratch_ok_def fiov_wf_def A_def blk_def head_def)
  ultimately show ?thesis unfolding m_def [symmetric] e_def [symmetric] hid_def [symmetric] by simp
qed

text \<open>The records that user space gets for a list of entries, and the offset they leave.\<close>

definition listing :: "session \<Rightarrow> dir_entry list \<Rightarrow> bytes" where
  "listing s es = concat (map (\<lambda>e. dirent_bytes (entry_hidden s e) e) es)"

definition offset_after :: "dir_entry list \<Rightarrow> int \<Rightarrow> int" where
  "offset_after es off = (if es = [] then off else sint (de_off (last es)))"

lemma delivered_nil: "delivered [] (fu_offset u) u = u"
  by (rule fs_uio.equality) (simp_all add: delivered_def)

lemma delivered_twice: "delivered b o2 (delivered a o1 u) = delivered (a @ b) o2 u"
  by (simp add: delivered_def)

lemma length_dirent_bytes:
  assumes "de_name e = take (unat (de_namelen e)) r" "unat (de_namelen e) \<le> 255"
  shows "length (dirent_bytes h e) = GENERIC_DIRSIZ (de_namelen e)"
proof -
  have "length (de_name e) \<le> unat (de_namelen e)" by (simp add: assms(1))
  then show ?thesis using GENERIC_DIRSIZ_bounds [OF assms(2)] by (simp add: dirent_bytes_def Let_def)
qed

lemma readdir_loop_spec:
  assumes k: "uiomove_out_works k"
  shows "scratch_ok (k_tun k) (rd_iov st) \<Longrightarrow> uio_resid (fu_uio (rd_uio st)) = room \<Longrightarrow>
    readdir_spec cou room buf = (es, err) \<Longrightarrow>
    \<exists>st1. readdir_loop k s buf cou n st = Done (err, n + length es, st1) \<and>
      scratch_ok (k_tun k) (rd_iov st1) \<and>
      rd_uio st1 = delivered (listing s es) (offset_after es (fu_offset (rd_uio st))) (rd_uio st)"
proof (induction cou room buf arbitrary: es err n st rule: readdir_spec.induct)
  case (1 cou room buf)
  let ?nl = "u32_at 16 buf" and ?e = "entry_at buf"
  let ?rl = "unat (FUSE_DIRENT_SIZE ?nl)"
  have e: "de_namelen ?e = ?nl" "de_off ?e = u64_at 8 buf" by (simp_all add: entry_at_def)
  show ?case
  proof (cases "length buf < 24 \<or> length buf < ?rl \<or> ?nl = 0 \<or> unat ?nl > 255 \<or> GENERIC_DIRSIZ ?nl > room")
    case True
    then have "es = [] \<and> readdir_loop k s buf cou n st = Done (err, n, st)"
      using "1.prems" e
      by (auto simp: readdir_spec.simps [of cou room buf] readdir_loop.simps [of k s buf cou n st] Let_def
          FUSE_NAME_OFFSET_def FUSE_MAXNAMLEN_def split: if_splits)
    then show ?thesis
      using "1.prems" by (simp add: listing_def offset_after_def delivered_nil)
  next
    case False
    then have c: "24 \<le> length buf" "?rl \<le> length buf" "?nl \<noteq> 0" "unat ?nl \<le> 255" "GENERIC_DIRSIZ ?nl \<le> room"
      by auto
    obtain es1 where r: "readdir_spec (cou + 1) (room - GENERIC_DIRSIZ ?nl) (drop ?rl buf) = (es1, err)"
      "es = ?e # es1"
      using "1.prems"(3) c by (auto simp: readdir_spec.simps [of cou room buf] Let_def e split: prod.splits)
    let ?d = "dirent_bytes (entry_hidden s ?e) ?e"
    have ld: "length ?d = GENERIC_DIRSIZ ?nl"
      using length_dirent_bytes [of ?e] c(4) by (simp add: e) (simp add: entry_at_def)
    obtain st1 where s1: "readdir_entry k s buf (GENERIC_DIRSIZ ?nl) st = Done (0, st1)"
      "scratch_ok (k_tun k) (rd_iov st1)"
      "rd_uio st1 = delivered ?d (fu_offset (rd_uio st) + int (GENERIC_DIRSIZ ?nl)) (rd_uio st)"
      using readdir_entry_works [OF k "1.prems"(1) c(1,2,4)] c(5) "1.prems"(2) by metis
    let ?st2 = "st1\<lparr>rd_uio := (rd_uio st1)\<lparr>fu_offset := sint (u64_at 8 buf)\<rparr>\<rparr>"
    have u2: "rd_uio ?st2 = delivered ?d (sint (u64_at 8 buf)) (rd_uio st)"
      using s1(3) by (simp add: delivered_def)
    have "uio_resid (fu_uio (rd_uio ?st2)) = room - GENERIC_DIRSIZ ?nl"
      unfolding u2 using "1.prems"(2) ld by (simp add: delivered_def)
    moreover have "scratch_ok (k_tun k) (rd_iov ?st2)" using s1(2) by simp
    ultimately obtain st3 where s3:
      "readdir_loop k s (drop ?rl buf) (cou + 1) (n + 1) ?st2 = Done (err, n + 1 + length es1, st3)"
      "scratch_ok (k_tun k) (rd_iov st3)"
      "rd_uio st3 = delivered (listing s es1) (offset_after es1 (fu_offset (rd_uio ?st2))) (rd_uio ?st2)"
      using "1.IH" [of ?e ?rl ?st2 es1 err "n + 1"] r(1) c e by auto
    have "readdir_loop k s buf cou n st = Done (err, n + length es, st3)"
      using c s1(1) s3(1) "1.prems"(2) r(2)
      by (simp add: readdir_loop.simps [of k s buf cou n st] Let_def FUSE_NAME_OFFSET_def FUSE_MAXNAMLEN_def)
    moreover have "rd_uio st3 = delivered (listing s es) (offset_after es (fu_offset (rd_uio st))) (rd_uio st)"
      unfolding s3(3) u2 delivered_twice
      using r(2) by (simp add: listing_def offset_after_def e delivered_def)
    ultimately show ?thesis using s3(2) by blast
  qed
qed

definition entry_ok :: "dir_entry \<Rightarrow> bool" where
  "entry_ok e \<longleftrightarrow> length (de_name e) = unat (de_namelen e) \<and> 0 < length (de_name e) \<and> length (de_name e) \<le> 255"

lemma readdir_spec_entries:
  "readdir_spec cou room buf = (es, err) \<Longrightarrow>
     (\<forall>e \<in> set es. entry_ok e) \<and> length (listing s es) \<le> room"
proof (induction cou room buf arbitrary: es err rule: readdir_spec.induct)
  case (1 cou room buf)
  let ?nl = "u32_at 16 buf" and ?e = "entry_at buf"
  let ?rl = "unat (FUSE_DIRENT_SIZE ?nl)"
  have e: "de_namelen ?e = ?nl" by (simp add: entry_at_def)
  show ?case
  proof (cases "length buf < 24 \<or> length buf < ?rl \<or> ?nl = 0 \<or> unat ?nl > 255 \<or> GENERIC_DIRSIZ ?nl > room")
    case True
    then have "es = []"
      using "1.prems" e by (auto simp: readdir_spec.simps [of cou room buf] Let_def split: if_splits)
    then show ?thesis by (simp add: listing_def)
  next
    case False
    then have c: "24 \<le> length buf" "?rl \<le> length buf" "?nl \<noteq> 0" "unat ?nl \<le> 255" "GENERIC_DIRSIZ ?nl \<le> room"
      by auto
    obtain es1 where r: "readdir_spec (cou + 1) (room - GENERIC_DIRSIZ ?nl) (drop ?rl buf) = (es1, err)"
      "es = ?e # es1"
      using "1.prems" c by (auto simp: readdir_spec.simps [of cou room buf] Let_def e split: prod.splits)
    have ih: "(\<forall>e \<in> set es1. entry_ok e) \<and> length (listing s es1) \<le> room - GENERIC_DIRSIZ ?nl"
      using "1.IH" [of ?e ?rl] r(1) c e by auto
    have "24 + unat ?nl \<le> length buf"
      using c(2) by (simp add: unat_FUSE_DIRENT_SIZE align_up_def FUSE_NAME_OFFSET_def)
    moreover have "0 < unat ?nl" using c(3) by (simp add: unat_gt_0)
    ultimately have "entry_ok ?e" using c(4) by (simp add: entry_ok_def entry_at_def FUSE_NAME_OFFSET_def)
    moreover have "length (dirent_bytes h ?e) = GENERIC_DIRSIZ ?nl" for h
      using length_dirent_bytes [of ?e] c(4) by (simp add: e) (simp add: entry_at_def)
    ultimately show ?thesis using ih r(2) c(5) by (auto simp: listing_def)
  qed
qed

text \<open>A record can be read: it says its own length, and carries the name with a zero after it.\<close>

lemma field_at_middle: "length p = o1 \<Longrightarrow> length v = n \<Longrightarrow> field_at o1 n (p @ v @ r) = le_value v"
  by (simp add: field_at_def)

lemma dirent_bytes_fields:
  assumes "entry_ok e"
  shows "field_at 4 2 (dirent_bytes h e) = length (dirent_bytes h e)"
    "field_at 7 1 (dirent_bytes h e) = length (de_name e)"
    "take (length (de_name e)) (drop 8 (dirent_bytes h e)) = de_name e"
    "dirent_bytes h e ! (8 + length (de_name e)) = 0"
proof -
  let ?n = "length (de_name e)" and ?m = "GENERIC_DIRSIZ (de_namelen e)"
  have n: "?n = unat (de_namelen e)" "unat (de_namelen e) \<le> 255" using assms by (simp_all add: entry_ok_def)
  have m: "8 + ?n < ?m" "?m \<le> 264" using GENERIC_DIRSIZ_bounds [OF n(2)] n(1) by simp_all
  define i where "i = le_bytes 4 (if h then 0 else de_ino e)"
  define t where "t = le_bytes 1 (if h then DT_WHT else de_type e)"
  define z where "z = replicate (?m - 8 - ?n) (0 :: u8)"
  have d: "dirent_bytes h e = i @ le_bytes 2 ?m @ t @ le_bytes 1 ?n @ de_name e @ z"
    by (simp add: dirent_bytes_def Let_def dirent_head_def i_def t_def z_def)
  have l: "length i = 4" "length t = 1" "length z = ?m - 8 - ?n" by (simp_all add: i_def t_def z_def)
  have ld: "length (dirent_bytes h e) = ?m" using m by (simp add: d l)
  show "field_at 4 2 (dirent_bytes h e) = length (dirent_bytes h e)"
    unfolding ld unfolding d using m by (simp add: field_at_middle l le_value_bytes)
  show "field_at 7 1 (dirent_bytes h e) = ?n"
    using field_at_middle [of "i @ le_bytes 2 ?m @ t" 7 "le_bytes 1 ?n" 1 "de_name e @ z"] m n
    by (simp add: d l le_value_bytes del: le_bytes.simps)
  have "drop 8 (dirent_bytes h e) = de_name e @ z" by (simp add: d l)
  then show "take ?n (drop 8 (dirent_bytes h e)) = de_name e" by simp
  have "(de_name e @ z) ! ?n = 0" using m by (simp add: z_def nth_append)
  then show "dirent_bytes h e ! (8 + ?n) = 0" by (simp add: d l nth_append)
qed

text \<open>
  C22: A directory listing is converted as the reference on entries says. For every answer of the
  daemon, whatever its bytes, the loop over the answer stays within the answer and within its
  scratch buffer and ends; it delivers to user space exactly the records of the well-formed entries
  that fit, in order, leaves the offset of the last one, returns the error the reference returns, and
  the number of entries when that is zero. Together the records are no longer than the room the caller has,
  and each record says its own length and carries its name, followed by a zero. The scratch buffer
  is ready for the next call.
\<close>

theorem readdir_processdata_correct:
  assumes "uiomove_out_works k" "scratch_ok (k_tun k) (rd_iov st)"
    and "readdir_spec 0 (uio_resid (fu_uio (rd_uio st))) buf = (es, err)"
  shows "\<exists>st1. fuse_internal_readdir_processdata k s buf st =
      Done (err, if err = 0 then Some (length es) else None, st1) \<and>
    scratch_ok (k_tun k) (rd_iov st1) \<and>
    rd_uio st1 = delivered (listing s es) (offset_after es (fu_offset (rd_uio st))) (rd_uio st) \<and>
    length (listing s es) \<le> uio_resid (fu_uio (rd_uio st)) \<and>
    (\<forall>e \<in> set es. \<forall>d. d = dirent_bytes (entry_hidden s e) e \<longrightarrow>
       field_at 4 2 d = length d \<and> take (length (de_name e)) (drop 8 d) = de_name e \<and>
       d ! (8 + length (de_name e)) = 0)"
proof -
  obtain st1 where l: "readdir_loop k s buf 0 0 st = Done (err, 0 + length es, st1)"
    "scratch_ok (k_tun k) (rd_iov st1)"
    "rd_uio st1 = delivered (listing s es) (offset_after es (fu_offset (rd_uio st))) (rd_uio st)"
    using readdir_loop_spec [OF assms(1,2) refl assms(3)] by blast
  have "fuse_internal_readdir_processdata k s buf st =
      Done (err, if err = 0 then Some (length es) else None, st1)"
  proof (cases "length buf < FUSE_NAME_OFFSET")
    case True
    then have "readdir_loop k s buf 0 0 st = Done (- 1, 0, st)" by (simp add: readdir_loop.simps)
    then show ?thesis using l(1) True by (auto simp: fuse_internal_readdir_processdata_def)
  qed (use l(1) in \<open>simp add: fuse_internal_readdir_processdata_def\<close>)
  moreover have "(\<forall>e \<in> set es. entry_ok e)" "length (listing s es) \<le> uio_resid (fu_uio (rd_uio st))"
    using readdir_spec_entries [OF assms(3)] by blast+
  ultimately show ?thesis using l dirent_bytes_fields(1,3,4) by blast
qed

definition listing_kenv :: kenv where
  "listing_kenv =
     \<lparr>k_tun = fuse_tunables_default, k_osm = zero_osm,
      k_cur = \<lparr>vc_pid = 1, vc_cred = \<lparr>cr_uid = 0, cr_ruid = 0, cr_gid = 0, cr_rgid = 0, cr_svgid = 0\<rparr>\<rparr>,
      k_sleep = (\<lambda>s. (0, s)), k_uiomove_in = plain_uiomove_in, k_uiomove_out = plain_uiomove_out\<rparr>"

definition listing_answer :: bytes where
  "listing_answer = le_bytes 8 5 @ le_bytes 8 1 @ le_bytes 4 1 @ le_bytes 4 8 @ [0x61] @ replicate 7 0"

definition listing_state :: readdir_state where
  "listing_state =
     \<lparr>rd_uio = \<lparr>fu_uio = \<lparr>uio_resid = 100, uio_out = []\<rparr>, fu_offset = 0\<rparr>,
      rd_iov = \<lparr>base = replicate 280 0, len = 0, allocated_size = 280, credit = 16\<rparr>,
      rd_cnt = fuse_counters_init\<rparr>"

theorem readdir_processdata_correct_witness:
  "\<exists>e st1. readdir_spec 0 100 listing_answer = ([e], - 1) \<and> de_name e = [0x61] \<and>
     fuse_internal_readdir_processdata listing_kenv blank_session listing_answer listing_state =
       Done (- 1, None, st1) \<and>
     uio_out (fu_uio (rd_uio st1)) = dirent_bytes False e \<and> length (dirent_bytes False e) = 12"
proof -
  let ?e = "entry_at listing_answer"
  have f: "u32_at 16 listing_answer = 1" "length listing_answer = 32"
    using field_at_middle [of "le_bytes 8 5 @ le_bytes 8 1" 16 "le_bytes 4 1" 4]
    by (simp_all add: u32_at_def listing_answer_def le_value_bytes)
  have z: "unat (FUSE_DIRENT_SIZE 1) = 32" "GENERIC_DIRSIZ 1 = 12"
    by (simp_all add: unat_FUSE_DIRENT_SIZE align_up_def FUSE_NAME_OFFSET_def GENERIC_DIRSIZ_eq)
  have sp: "readdir_spec 0 100 listing_answer = ([?e], - 1)"
    using f z by (simp add: readdir_spec.simps [of 0 100 listing_answer] entry_at_def Let_def
      readdir_spec.simps [of "Suc 0" 88 "[]"])
  have nm: "de_name ?e = [0x61]"
    by (simp add: entry_at_def f FUSE_NAME_OFFSET_def) (simp add: listing_answer_def)
  have h: "entry_hidden blank_session ?e = False" by (simp add: entry_hidden_def nm)
  have w: "uiomove_out_works listing_kenv"
    by (simp add: uiomove_out_works_def uiomove_out_ok_def listing_kenv_def plain_uiomove_out_def)
  have sc: "scratch_ok (k_tun listing_kenv) (rd_iov listing_state)"
    by (simp add: scratch_ok_def fiov_wf_def listing_kenv_def listing_state_def fuse_tunables_default_def)
  have r: "uio_resid (fu_uio (rd_uio listing_state)) = 100" "uio_out (fu_uio (rd_uio listing_state)) = []"
    by (simp_all add: listing_state_def)
  have ld: "length (dirent_bytes False ?e) = 12"
    using z by (simp add: dirent_bytes_def Let_def nm) (simp add: entry_at_def f z)
  show ?thesis
    using readdir_processdata_correct [OF w sc, unfolded r, OF sp, of blank_session] sp nm ld r(2)
    by (auto simp: h listing_def delivered_def)
qed

end
