(* ===== verification/Fuse_Volume.thy ===== *)
theory Fuse_Volume
  imports Fuse_Readdir Fuse_Nodehash
begin

text \<open>
  The state that the operations on a mounted volume work on, and the language their models are
  written in: a volume has the session, the table of nodes with the data of every node, what the
  kernel knows of the vnodes, and the list of the calls into the kernel that were made.

  The kernel around the extension is the record \<open>venv\<close>: \<open>ve_call\<close> answers every call with its
  result and the state after it, for a call may reenter the extension or let other threads run.
  The vnodes that \<^verbatim>\<open>vnode_iterate\<close> visits are given by \<open>ve_iterate\<close>.
  The member \<open>ve_fdev\<close> is the address of the device of the session, the first half of the key of its nodes.
  A request waits for its answer with the next element of \<open>v_waits\<close>, which says what happens to
  the session meanwhile and what other threads do to the rest of the volume; when the list is used up
  the thread stays asleep. A lookup in the table of nodes takes the next element of \<open>v_gaps\<close>.

  An operation returns a value in a state, stays asleep, panics, or leaves the defined behaviour of
  C. The big lock, which the code drops around some calls, is in the theory of the wrappers. Messages to
  the system log are left out.
\<close>

section \<open>State\<close>

text \<open>A call of a kernel function: its name, the vnodes, the numbers and the bytes it is given.\<close>

datatype kcall = Kcall string "vnode list" "int list" bytes

text \<open>The members of \<^verbatim>\<open>fuse_data\<close> that only the operations on the mount use.\<close>

record fuse_mdata =
  md_rootvp :: "vnode option"
  md_volname :: bytes
  md_fssubtype :: u32
  md_mountaltflags :: u64
  md_init_timeout :: u32
  md_max_read :: u32
  md_mount_count :: u32

record vdata =
  v_sess :: session
  v_md :: fuse_mdata
  v_hash :: hstate
  v_fud :: "hid \<Rightarrow> fuse_vnode_data"
  v_mp :: fsmount
  vn_vtype :: "vnode \<Rightarrow> vtype"
  vn_isvroot :: "vnode \<Rightarrow> bool"
  vn_mount :: "vnode \<Rightarrow> nat"
  vn_name :: "vnode \<Rightarrow> bytes option"
  vn_parent :: "vnode \<Rightarrow> vnode option"
  v_calls :: "kcall list"

record vwait =
  vw_wait :: waiting
  vw_others :: "vdata \<Rightarrow> vdata"

record volume = vdata +
  v_waits :: "vwait list"
  v_gaps :: "hgap list list"

text \<open>What \<^verbatim>\<open>vnode_create\<close> is asked for.\<close>

record vnode_fsparam =
  vnfs_vtype :: vtype
  vnfs_dvp :: "vnode option"
  vnfs_fsnode :: hid
  vnfs_filesize :: u64
  vnfs_markroot :: bool

text \<open>
  A source of \<^verbatim>\<open>uiomove\<close>: the bytes that come next, the length that is left to write, and
  the offset.
\<close>

record ud_uio =
  ud_data :: bytes
  ud_resid :: nat
  ud_offset :: int

record venv =
  ve_k :: kenv
  ve_call :: "kcall \<Rightarrow> vdata \<Rightarrow> int \<times> vdata"
  ve_create :: "vnode_fsparam \<Rightarrow> vdata \<Rightarrow> (errno \<times> vnode) \<times> vdata"
  ve_cache_lookup :: "vnode \<Rightarrow> bytes \<Rightarrow> vdata \<Rightarrow> int \<times> vnode option"
  ve_cluster_read :: "fs_uio \<Rightarrow> fs_uio"
  ve_cluster_write :: "ud_uio \<Rightarrow> ud_uio"
  ve_iterate :: "vdata \<Rightarrow> vnode list"
  ve_uptime :: timespec
  ve_thread :: thread
  ve_fdev :: u64

section \<open>Operations on a volume\<close>

datatype 'a vres = V_Ret 'a volume | V_Asleep | V_Panic | V_Fault

type_synonym 'a vm = "volume \<Rightarrow> 'a vres"

definition retV :: "'a \<Rightarrow> 'a vm" where "retV x v = V_Ret x v"

definition bindV :: "'a vm \<Rightarrow> ('a \<Rightarrow> 'b vm) \<Rightarrow> 'b vm" where
  "bindV m f v =
     (case m v of
        V_Ret x v1 \<Rightarrow> f x v1 | V_Asleep \<Rightarrow> V_Asleep | V_Panic \<Rightarrow> V_Panic | V_Fault \<Rightarrow> V_Fault)"

definition seqV :: "'a vm \<Rightarrow> 'b vm \<Rightarrow> 'b vm" where "seqV m n = bindV m (\<lambda>_. n)"

definition whenV :: "bool \<Rightarrow> 'a vm \<Rightarrow> unit vm" where
  "whenV c m = (if c then seqV m (retV ()) else retV ())"

definition getV :: "(volume \<Rightarrow> 'a) \<Rightarrow> 'a vm" where "getV f v = V_Ret (f v) v"

definition modV :: "(volume \<Rightarrow> volume) \<Rightarrow> unit vm" where "modV f v = V_Ret () (f v)"

definition panicV :: "'a vm" where "panicV v = V_Panic"

definition outV :: "'a outcome \<Rightarrow> 'a vm" where
  "outV x v = (case x of Done a \<Rightarrow> V_Ret a v | Panic \<Rightarrow> V_Panic | BadAccess \<Rightarrow> V_Fault)"

definition sessV :: "(session \<Rightarrow> ('a \<times> session) outcome) \<Rightarrow> 'a vm" where
  "sessV f v =
     (case f (v_sess v) of
        Done (a, s) \<Rightarrow> V_Ret a (v\<lparr>v_sess := s\<rparr>) | Panic \<Rightarrow> V_Panic | BadAccess \<Rightarrow> V_Fault)"

definition runsessV :: "(session \<Rightarrow> session outcome) \<Rightarrow> unit vm" where
  "runsessV f = sessV (\<lambda>s. bind_outcome (f s) (\<lambda>s1. Done ((), s1)))"

definition hashV :: "(hstate \<Rightarrow> ('a \<times> hstate) outcome) \<Rightarrow> 'a vm" where
  "hashV f v =
     (case f (v_hash v) of
        Done (a, T) \<Rightarrow> V_Ret a (v\<lparr>v_hash := T\<rparr>) | Panic \<Rightarrow> V_Panic | BadAccess \<Rightarrow> V_Fault)"

definition with_vdata :: "(vdata \<Rightarrow> 'a \<times> vdata) \<Rightarrow> 'a vm" where
  "with_vdata f v =
     (case f (vdata.truncate v) of
        (a, d) \<Rightarrow> V_Ret a (vdata.extend d (volume.fields (v_waits v) (v_gaps v))))"

text \<open>A call into the kernel is recorded, and then made.\<close>

definition callV :: "venv \<Rightarrow> kcall \<Rightarrow> int vm" where
  "callV E c =
     seqV (modV (\<lambda>v. v\<lparr>v_calls := v_calls v @ [c]\<rparr>)) (with_vdata (ve_call E c))"

definition docallV :: "venv \<Rightarrow> kcall \<Rightarrow> unit vm" where
  "docallV E c = seqV (callV E c) (retV ())"

section \<open>The data of a vnode\<close>

definition fud_of :: "'a vdata_scheme \<Rightarrow> vnode \<Rightarrow> hid option" where
  "fud_of v vp =
     (case HNodeFromVNode (v_hash v) vp of
        None \<Rightarrow> None
      | Some n \<Rightarrow> if hheap (v_hash v) n = None then None else Some n)"

definition VTOFUD :: "vnode \<Rightarrow> fuse_vnode_data vm" where
  "VTOFUD vp v = (case fud_of v vp of None \<Rightarrow> V_Fault | Some n \<Rightarrow> V_Ret (v_fud v n) v)"

definition updfud :: "vnode \<Rightarrow> (fuse_vnode_data \<Rightarrow> fuse_vnode_data) \<Rightarrow> unit vm" where
  "updfud vp f v =
     (case fud_of v vp of
        None \<Rightarrow> V_Fault | Some n \<Rightarrow> V_Ret () (v\<lparr>v_fud := (v_fud v)(n := f (v_fud v n))\<rparr>))"

definition VTOI :: "vnode \<Rightarrow> u64 vm" where
  "VTOI vp = bindV (VTOFUD vp) (\<lambda>d. retV (nodeid d))"

definition sessionV :: "session vm" where "sessionV = getV v_sess"
definition vtypeV :: "vnode \<Rightarrow> vtype vm" where "vtypeV vp = getV (\<lambda>v. vn_vtype v vp)"
definition isvrootV :: "vnode \<Rightarrow> bool vm" where "isvrootV vp = getV (\<lambda>v. vn_isvroot v vp)"

definition isdeadV :: "vnode \<Rightarrow> bool vm" where
  "isdeadV vp = bindV (VTOFUD vp) (\<lambda>d. bindV sessionV (\<lambda>s. retV (fuse_isdeadfs s d)))"

definition deniedV :: "vnode \<Rightarrow> vfs_context \<Rightarrow> bool vm" where
  "deniedV vp c =
     bindV (VTOFUD vp) (\<lambda>d. bindV sessionV (\<lambda>s. bindV (isvrootV vp) (\<lambda>r.
       retV (fuse_blanket_deny s d r c))))"

section \<open>Requests\<close>

definition fdisp_make_vp ::
    "venv \<Rightarrow> fuse_dispatcher \<Rightarrow> fuse_opcode \<Rightarrow> vnode \<Rightarrow> vfs_context option \<Rightarrow> fuse_dispatcher vm" where
  "fdisp_make_vp E fd op vp c =
     bindV (VTOI vp) (\<lambda>nid. sessV (fdisp_make (ve_k E) fd op nid c))"

definition poke :: "fuse_dispatcher \<Rightarrow> nat \<Rightarrow> bytes \<Rightarrow> unit vm" where
  "poke fd off b = runsessV (write_indata fd off b)"

definition poke32 :: "fuse_dispatcher \<Rightarrow> nat \<Rightarrow> u32 \<Rightarrow> unit vm" where
  "poke32 fd off x = poke fd off (le_bytes 4 (unat x))"

definition poke64 :: "fuse_dispatcher \<Rightarrow> nat \<Rightarrow> u64 \<Rightarrow> unit vm" where
  "poke64 fd off x = poke fd off (le_bytes 8 (unat x))"

text \<open>A name in a request, with its terminating zero.\<close>

definition poke_name :: "fuse_dispatcher \<Rightarrow> nat \<Rightarrow> bytes \<Rightarrow> unit vm" where
  "poke_name fd off name = seqV (poke fd off name) (poke fd (off + length name) [0])"

definition wait_answ :: "venv \<Rightarrow> fuse_dispatcher \<Rightarrow> (errno \<times> fuse_dispatcher) vm" where
  "wait_answ E fd v =
     (case v_waits v of
        [] \<Rightarrow> V_Asleep
      | w # ws \<Rightarrow>
          (case fdisp_wait_answ (ve_k E) (vw_wait w) fd (v_sess v) of
             Panic \<Rightarrow> V_Panic
           | BadAccess \<Rightarrow> V_Fault
           | Done (e, fd1, s1) \<Rightarrow>
               (case e of
                  None \<Rightarrow> V_Asleep
                | Some err \<Rightarrow>
                    V_Ret (err, fd1)
                      (vdata.extend ((vw_others w (vdata.truncate v))\<lparr>v_sess := s1\<rparr>)
                         (volume.fields ws (v_gaps v))))))"

definition simple_putget_vp ::
    "venv \<Rightarrow> fuse_opcode \<Rightarrow> vnode \<Rightarrow> vfs_context option \<Rightarrow> (errno \<times> fuse_dispatcher) vm" where
  "simple_putget_vp E op vp c =
     bindV (fdisp_make_vp E (fdisp_init fdisp_uninit 0) op vp c) (wait_answ E)"

definition ticketV :: "fuse_dispatcher \<Rightarrow> tid vm" where
  "ticketV fd = outV (of_option (fd_tick fd))"

definition drop_ticket :: "venv \<Rightarrow> fuse_dispatcher \<Rightarrow> unit vm" where
  "drop_ticket E fd =
     bindV (ticketV fd) (\<lambda>t. runsessV (fuse_ticket_drop (k_tun (ve_k E)) (k_osm (ve_k E)) t))"

text \<open>The memory that \<^verbatim>\<open>answ\<close> points at, of which the code reads \<open>n\<close> bytes.\<close>

definition answer :: "fuse_dispatcher \<Rightarrow> nat \<Rightarrow> bytes vm" where
  "answer fd n =
     bindV (outV (of_option (fd_answ fd))) (\<lambda>t.
     bindV sessionV (\<lambda>s.
     bindV (outV (ticket s t)) (\<lambda>tk.
       if n \<le> length (base (tk_aw_fiov tk)) then retV (base (tk_aw_fiov tk)) else outV BadAccess)))"

definition poke_answer :: "fuse_dispatcher \<Rightarrow> nat \<Rightarrow> bytes \<Rightarrow> unit vm" where
  "poke_answer fd off b =
     bindV (outV (of_option (fd_answ fd))) (\<lambda>t.
       runsessV (\<lambda>s.
         bind_outcome (ticket s t) (\<lambda>tk.
         bind_outcome (store_at off b (base (tk_aw_fiov tk))) (\<lambda>b1.
           Done (put_ticket t (tk\<lparr>tk_aw_fiov := (tk_aw_fiov tk)\<lparr>base := b1\<rparr>\<rparr>) s)))))"

definition clear_implemented :: "fuse_opcode \<Rightarrow> unit vm" where
  "clear_implemented op =
     modV (\<lambda>v. v\<lparr>v_sess := fuse_clear_implemented (FSESS_NOIMPLBIT op) (v_sess v)\<rparr>)"

definition implementedV :: "fuse_opcode \<Rightarrow> bool vm" where
  "implementedV op = bindV sessionV (\<lambda>s. retV (fuse_implemented s (FSESS_NOIMPLBIT op)))"

definition invalidate_attrV :: "vnode \<Rightarrow> unit vm" where
  "invalidate_attrV vp v = (case fud_of v vp of None \<Rightarrow> V_Ret () v | Some _ \<Rightarrow> updfud vp fuse_invalidate_attr v)"

end
