(* ===== verification/Fuse_Internal.thy ===== *)
theory Fuse_Internal
  imports Fuse_Volume
begin

text \<open>
  The routines that the vnode operations share (\<^verbatim>\<open>fuse_internal.c\<close>,
  \<^verbatim>\<open>fuse_internal.h\<close>): the disappearance of a vnode, attributes, access checks, exchange,
  synchronisation, removal and renaming. A pointer to attributes that the code fills in is a value that
  is returned; the attributes cached with the vnode are a member of its data.
\<close>

section \<open>Disappearance of a vnode\<close>

datatype revoke_how = REVOKE_NONE | REVOKE_SOFT | REVOKE_HARD

definition REVOKEALL :: int where "REVOKEALL = 1"

definition fuse_internal_revoke :: "venv \<Rightarrow> vnode \<Rightarrow> int \<Rightarrow> revoke_how \<Rightarrow> int vm" where
  "fuse_internal_revoke E vp flags how =
     seqV (updfud vp (\<lambda>d. d\<lparr>fv_flag := set_flag (fv_flag d) FN_REVOKED\<rparr>))
       (if how = REVOKE_HARD then callV E (Kcall ''vn_revoke'' [vp] [flags] []) else retV 0)"

definition fuse_vncache_purge :: "venv \<Rightarrow> vnode \<Rightarrow> unit vm" where
  "fuse_vncache_purge E vp = docallV E (Kcall ''cache_purge'' [vp] [] [])"

definition fuse_vncache_enter :: "venv \<Rightarrow> vnode \<Rightarrow> vnode option \<Rightarrow> bytes \<Rightarrow> unit vm" where
  "fuse_vncache_enter E dvp vp name =
     docallV E (Kcall ''cache_enter'' (case vp of None \<Rightarrow> [dvp] | Some x \<Rightarrow> [dvp, x]) [] name)"

definition fuse_internal_vnode_disappear :: "venv \<Rightarrow> vnode \<Rightarrow> revoke_how \<Rightarrow> unit vm" where
  "fuse_internal_vnode_disappear E vp how =
     seqV (fuse_vncache_purge E vp)
       (whenV (how \<noteq> REVOKE_NONE)
          (seqV (fuse_internal_revoke E vp REVOKEALL how)
             (bindV (callV E (Kcall ''vnode_isrecycled'' [vp] [] [])) (\<lambda>r.
                whenV (r = 0) (callV E (Kcall ''vnode_recycle'' [vp] [] []))))))"

section \<open>Attributes\<close>

definition NOTE_DELETE :: int where "NOTE_DELETE = 1"
definition NOTE_WRITE :: int where "NOTE_WRITE = 2"
definition NOTE_EXTEND :: int where "NOTE_EXTEND = 4"
definition NOTE_ATTRIB :: int where "NOTE_ATTRIB = 8"
definition NOTE_LINK :: int where "NOTE_LINK = 16"
definition NOTE_RENAME :: int where "NOTE_RENAME = 32"

definition UBC_PUSHDIRTY :: int where "UBC_PUSHDIRTY = 1"
definition UBC_PUSHALL :: int where "UBC_PUSHALL = 2"
definition UBC_INVALIDATE :: int where "UBC_INVALIDATE = 4"
definition UBC_SYNC :: int where "UBC_SYNC = 8"

definition ubc_flush_all :: "venv \<Rightarrow> vnode \<Rightarrow> int \<Rightarrow> unit vm" where
  "ubc_flush_all E vp endoff =
     docallV E (Kcall ''ubc_msync'' [vp] [0, endoff, UBC_PUSHALL OR UBC_INVALIDATE OR UBC_SYNC] [])"

definition ubc_setsizeV :: "venv \<Rightarrow> vnode \<Rightarrow> int \<Rightarrow> unit vm" where
  "ubc_setsizeV E vp sz = docallV E (Kcall ''ubc_setsize'' [vp] [sz] [])"

definition FUSE_KNOTE :: "venv \<Rightarrow> vnode \<Rightarrow> int \<Rightarrow> unit vm" where
  "FUSE_KNOTE E vp hint = docallV E (Kcall ''knote'' [vp] [hint] [])"

text \<open>Backup and creation time, from the cache, from the daemon, or faked as zero.\<close>

definition va_xtimes :: "timespec \<Rightarrow> timespec \<Rightarrow> vnode_attr \<Rightarrow> vnode_attr" where
  "va_xtimes bk cr vap =
     VATTR_SET_SUPPORTED {va_backup_time_m, va_create_time_m}
       (vap\<lparr>va_backup_time := bk, va_create_time := cr\<rparr>)"

definition fuse_internal_loadxtimes ::
    "venv \<Rightarrow> vnode \<Rightarrow> vnode_attr \<Rightarrow> vfs_context option \<Rightarrow> vnode_attr vm" where
  "fuse_internal_loadxtimes E vp out c =
     bindV (VTOFUD vp) (\<lambda>d. bindV sessionV (\<lambda>s. bindV (isvrootV vp) (\<lambda>isvroot.
       let fake = retV (va_xtimes kZeroTime kZeroTime out)
       in if \<not> has_flag (dataflags s) FSESS_XTIMES then retV out
          else if has_flag (fv_c_flag d) C_XTIMES_VALID then
            retV (va_xtimes (va_backup_time (cached_attr d)) (va_create_time (cached_attr d)) out)
          else if \<not> fuse_implemented s (FSESS_NOIMPLBIT FUSE_GETXTIMES) then fake
          else if fuse_isdeadfs s d \<and> isvroot then fake
          else if \<not> has_flag (dataflags s) FSESS_INITED \<and> isvroot then fake
          else
            bindV (simple_putget_vp E FUSE_GETXTIMES vp c) (\<lambda>(err, fdi).
              if err \<noteq> 0 then fake
              else bindV (answer fdi (sizeof 8 fuse_getxtimes_out)) (\<lambda>a.
                     let bk = \<lparr>tv_sec = sint (u64_at 0 a), tv_nsec = uint (u32_at 16 a)\<rparr>;
                         cr = \<lparr>tv_sec = sint (u64_at 8 a), tv_nsec = uint (u32_at 20 a)\<rparr>
                     in seqV (updfud vp (\<lambda>x. x\<lparr>cached_attr := va_xtimes bk cr (cached_attr x)\<rparr>))
                       (seqV (drop_ticket E fdi)
                       (seqV (updfud vp (\<lambda>x. x\<lparr>fv_c_flag := set_flag (fv_c_flag x) C_XTIMES_VALID\<rparr>))
                         (retV (va_xtimes bk cr out)))))))))"

text \<open>
  The size of a file: with asynchronous writes the kernel's size goes into the cached attributes,
  otherwise a size that the daemon changed replaces the kernel's. The results are the hint for
  \<^verbatim>\<open>knote\<close> and whether cached pages were thrown away.
\<close>

definition loadvap_size :: "venv \<Rightarrow> vnode \<Rightarrow> (int \<times> bool) vm" where
  "loadvap_size E vp =
     bindV (getV v_mp) (\<lambda>mp. bindV (VTOFUD vp) (\<lambda>d.
       if \<not> mp_synchronous mp then
         seqV (updfud vp (\<lambda>x. x\<lparr>cached_attr := VATTR_SET_SUPPORTED {va_data_size_m}
                                  ((cached_attr x)\<lparr>va_data_size := word_of_int (filesize x)\<rparr>)\<rparr>))
           (retV (0, False))
       else if filesize d \<noteq> sint (va_data_size (cached_attr d)) then
         seqV (ubc_flush_all E vp (filesize d))
           (bindV (VTOFUD vp) (\<lambda>d1.
              let newsize = sint (va_data_size (cached_attr d1));
                  hint = (if filesize d1 > newsize then NOTE_WRITE OR NOTE_EXTEND else NOTE_WRITE)
              in seqV (updfud vp (\<lambda>x. x\<lparr>filesize := newsize\<rparr>))
                   (seqV (ubc_setsizeV E vp newsize) (retV (hint, True)))))
       else retV (0, False)))"

definition va_copied :: "bool \<Rightarrow> bool \<Rightarrow> fuse_vnode_data \<Rightarrow> vnode_attr \<Rightarrow> vnode_attr" where
  "va_copied isvroot sparse d out =
     (let a = cached_attr d;
          o1 = VATTR_SET_SUPPORTED {va_fsid_m, va_fileid_m, va_linkid_m, va_gen_m, va_data_size_m, va_mode_m,
                 va_nlink_m, va_uid_m, va_gid_m, va_rdev_m, va_type_m, va_iosize_m, va_flags_m,
                 va_access_time_m, va_change_time_m, va_modify_time_m}
               (out\<lparr>va_fsid := va_fsid a, va_fileid := va_fileid a, va_linkid := va_linkid a,
                    va_gen := ucast (generation d), va_data_size := va_data_size a,
                    va_mode := va_mode a, va_nlink := va_nlink a, va_uid := va_uid a, va_gid := va_gid a,
                    va_rdev := va_rdev a, va_type := va_type a, va_iosize := va_iosize a,
                    va_flags := va_flags a, va_access_time := va_access_time a,
                    va_change_time := va_change_time a, va_modify_time := va_modify_time a\<rparr>);
          o2 = (if isvroot then o1
                else VATTR_SET_SUPPORTED {va_parentid_m} (o1\<lparr>va_parentid := parent_nodeid d\<rparr>));
          o3 = (if sparse then VATTR_SET_SUPPORTED {va_data_alloc_m} (o2\<lparr>va_data_alloc := va_data_alloc a\<rparr>)
                else o2)
      in if tv_sec (va_create_time a) \<noteq> - 1
         then VATTR_SET_SUPPORTED {va_create_time_m} (o3\<lparr>va_create_time := va_create_time a\<rparr>) else o3)"

text \<open>\<open>out\<close> is not the cached attributes themselves: for those the function returns at once.\<close>

definition fuse_internal_attr_loadvap ::
    "venv \<Rightarrow> vnode \<Rightarrow> vnode_attr \<Rightarrow> vfs_context option \<Rightarrow> vnode_attr vm" where
  "fuse_internal_attr_loadvap E vp out c =
     bindV (loadvap_size E vp) (\<lambda>(hint, purged).
     bindV (VTOFUD vp) (\<lambda>d. bindV sessionV (\<lambda>s. bindV (isvrootV vp) (\<lambda>isvroot.
     let o1 = va_copied isvroot (fuse_issparse_mp s) d out;
         stale = modify_time d \<noteq> va_modify_time (cached_attr d);
         hint1 = (if stale then hint OR NOTE_ATTRIB else hint)
     in seqV
          (whenV stale
             (seqV (updfud vp (\<lambda>x. x\<lparr>modify_time := va_modify_time (cached_attr x)\<rparr>))
                (whenV (fuse_isautocache_mp s \<and> \<not> purged) (ubc_flush_all E vp (filesize d)))))
          (bindV
             (if VATTR_IS_ACTIVE o1 va_backup_time_m \<or>
                 VATTR_IS_ACTIVE o1 va_create_time_m \<and> \<not> VATTR_IS_SUPPORTED o1 va_create_time_m
              then fuse_internal_loadxtimes E vp o1 c else retV o1)
             (\<lambda>o2. seqV (whenV (hint1 \<noteq> 0) (FUSE_KNOTE E vp hint1)) (retV o2)))))))"

text \<open>
  \<^verbatim>\<open>cache_attrs\<close> on the attributes at offset \<open>off\<close> of an answer, valid for the given time.
\<close>

definition cache_attrs ::
    "venv \<Rightarrow> vnode \<Rightarrow> fuse_dispatcher \<Rightarrow> u64 \<Rightarrow> u32 \<Rightarrow> nat \<Rightarrow> unit vm" where
  "cache_attrs E vp fdi valid_sec valid_nsec off =
     bindV (answer fdi (off + sizeof 8 fuse_attr)) (\<lambda>a.
     bindV sessionV (\<lambda>s. bindV (getV v_mp) (\<lambda>mp. bindV (VTOFUD vp) (\<lambda>d.
       case fuse_internal_attr_fat2vat s mp d (fattr_at off a) (cached_attr d) of (fat, vap) \<Rightarrow>
         seqV (updfud vp (\<lambda>x. x\<lparr>attr_valid := fuse_timespec_add
                  \<lparr>tv_sec = sint valid_sec, tv_nsec = uint valid_nsec\<rparr> (ve_uptime E),
                cached_attr := vap\<rparr>))
           (poke_answer fdi (off + 8) (le_bytes 8 (unat (fa_size fat))))))))"

section \<open>Access checks\<close>

definition fuse_internal_access ::
    "venv \<Rightarrow> vnode \<Rightarrow> u32 \<Rightarrow> vfs_context \<Rightarrow> u32 \<Rightarrow> errno vm" where
  "fuse_internal_access E vp action c facc_flags =
     bindV sessionV (\<lambda>s. bindV (isvrootV vp) (\<lambda>isvroot. bindV (vtypeV vp) (\<lambda>vt.
       let default_error = (if has_flag facc_flags FACCESS_FROM_VNOP then ENOTSUP else 0)
       in if fuse_isdeferpermissions_mp s then retV 0
          else if \<not> fuse_implemented s (FSESS_NOIMPLBIT FUSE_ACCESS) then retV default_error
          else if \<not> isvroot \<and> \<not> has_flag facc_flags FACCESS_NOCHECKSPY \<and>
                  \<not> has_flag (dataflags s) FSESS_ALLOW_OTHER \<and>
                  fuse_match_cred (daemoncred s) (vc_cred c) \<noteq> 0
          then retV EPERM
          else if \<not> has_flag facc_flags FACCESS_DO_ACCESS then retV default_error
          else
            bindV (fdisp_make_vp E (fdisp_init fdisp_uninit (sizeof 8 fuse_access_in)) FUSE_ACCESS vp (Some c))
              (\<lambda>fdi.
            seqV (poke32 fdi 0 (access_mask (vt = VDIR) action))
            (bindV (wait_answ E fdi) (\<lambda>(err, fdi1).
            seqV (whenV (err = 0) (drop_ticket E fdi1))
            (let err1 = (if err = ENOSYS then default_error else err)
             in seqV
                  (whenV (err = ENOSYS)
                     (seqV (modV (\<lambda>v. v\<lparr>v_mp := (v_mp v)\<lparr>mp_authopaque := False\<rparr>\<rparr>))
                        (clear_implemented FUSE_ACCESS)))
                  (seqV (whenV (err1 = ENOENT) (fuse_internal_vnode_disappear E vp REVOKE_SOFT))
                     (retV err1)))))))))"

end
