(* ===== verification/Fuse_File.thy ===== *)
theory Fuse_File
  imports Fuse_Internal
begin

text \<open>
  File handles (\<^verbatim>\<open>fuse_file.c\<close> and \<^verbatim>\<open>fuse_file.h\<close>): every file has up to three
  handles with the daemon, for reading, for writing and for both, each with a count of its users.
  Getting a handle asks the daemon to open the file, putting it asks it to release.
\<close>

section \<open>Getting and putting a handle\<close>

datatype fuse_op_waitfor = FUSE_OP_BACKGROUNDED | FUSE_OP_FOREGROUNDED

definition O_SYMLINK :: u32 where "O_SYMLINK = 0x200000"

definition countV :: "(fuse_counters \<Rightarrow> fuse_counters) \<Rightarrow> unit vm" where
  "countV f = modV (\<lambda>v. v\<lparr>v_sess := (v_sess v)\<lparr>cnt := f (cnt (v_sess v))\<rparr>\<rparr>)"

text \<open>The slot of a handle; the index -1 is outside the array.\<close>

definition fufhV :: "vnode \<Rightarrow> fufh_type \<Rightarrow> fuse_filehandle vm" where
  "fufhV vp ty =
     bindV (VTOFUD vp) (\<lambda>d. if ty = FUFH_INVALID then outV BadAccess else retV (fufh d ty))"

definition fuse_filehandle_get ::
    "venv \<Rightarrow> vnode \<Rightarrow> vfs_context option \<Rightarrow> fufh_type \<Rightarrow> u32 \<Rightarrow> errno vm" where
  "fuse_filehandle_get E vp c ty mode =
     bindV (fufhV vp ty) (\<lambda>f. bindV (vtypeV vp) (\<lambda>vt.
       if FUFH_IS_VALID f then panicV
       else
         let oflags = (if vt = VLNK \<and> has_flag mode O_SYMLINK
                       then fuse_filehandle_xlate_to_oflags ty OR O_SYMLINK
                       else fuse_filehandle_xlate_to_oflags ty);
             op = (if vt = VDIR then FUSE_OPENDIR else FUSE_OPEN)
         in bindV (fdisp_make_vp E (fdisp_init fdisp_uninit (sizeof 8 fuse_open_in)) op vp c) (\<lambda>fdi.
            seqV (poke32 fdi 0 oflags)
           (seqV (countV (\<lambda>g. g\<lparr>fuse_fh_upcall_count := fuse_fh_upcall_count g + 1\<rparr>))
           (bindV (wait_answ E fdi) (\<lambda>(err, fdi1).
              if err \<noteq> 0 then
                seqV (whenV (err = ENOENT)
                        (seqV (docallV E (Kcall ''cache_purge'' [vp] [] []))
                           (fuse_internal_vnode_disappear E vp REVOKE_SOFT)))
                  (retV err)
              else
                seqV (countV (\<lambda>g. g\<lparr>fuse_fh_current := fuse_fh_current g + 1\<rparr>))
               (bindV (answer fdi1 (sizeof 8 fuse_open_out)) (\<lambda>a.
                seqV (updfud vp (upd_fufh ty (\<lambda>_.
                        \<lparr>fh_id = u64_at 0 a, open_count = 1, open_flags = oflags,
                         fuse_open_flags = u32_at 8 a, aux_count = 0\<rparr>)))
               (seqV (drop_ticket E fdi1) (retV 0))))))))))"

definition fuse_filehandle_put ::
    "venv \<Rightarrow> vnode \<Rightarrow> vfs_context option \<Rightarrow> fufh_type \<Rightarrow> fuse_op_waitfor \<Rightarrow> errno vm" where
  "fuse_filehandle_put E vp c ty waitfor =
     bindV (fufhV vp ty) (\<lambda>f. bindV (isdeadV vp) (\<lambda>dead. bindV (vtypeV vp) (\<lambda>vt.
       if FUFH_IS_VALID f then panicV
       else
         bindV
           (if dead then retV 0
            else
              bindV (fdisp_make_vp E (fdisp_init fdisp_uninit (sizeof 8 fuse_release_in))
                       (if vt = VDIR then FUSE_RELEASEDIR else FUSE_RELEASE) vp c) (\<lambda>fdi.
              seqV (poke64 fdi 0 (fh_id f))
             (seqV (poke32 fdi 8 (open_flags f))
                (if waitfor = FUSE_OP_FOREGROUNDED then
                   bindV (wait_answ E fdi) (\<lambda>(err, fdi1).
                     seqV (whenV (err = 0) (drop_ticket E fdi1)) (retV err))
                 else
                   bindV (ticketV fdi) (\<lambda>t.
                     seqV (runsessV (fuse_insert_callback t None))
                       (seqV (runsessV (fuse_insert_message t)) (retV 0)))))))
           (\<lambda>err.
              seqV (countV (\<lambda>g. g\<lparr>fuse_fh_current := fuse_fh_current g - 1\<rparr>))
                (seqV (invalidate_attrV vp) (retV err))))))"

definition fuse_filehandle_preflight_status ::
    "venv \<Rightarrow> vnode \<Rightarrow> vnode option \<Rightarrow> fufh_type \<Rightarrow> errno vm" where
  "fuse_filehandle_preflight_status E vp dvp ty =
     bindV (getV v_mp) (\<lambda>mp. bindV (vtypeV vp) (\<lambda>vt.
       let auth = (\<lambda>action. callV E (Kcall ''vnode_authorize'' (vp # (case dvp of None \<Rightarrow> [] | Some x \<Rightarrow> [x]))
                                       [uint (action :: u32)] []))
       in if mp_authopaque mp \<or> \<not> mp_synchronous mp \<or> vt \<noteq> VREG then retV 0
          else (case ty of
              FUFH_RDONLY \<Rightarrow> auth KAUTH_VNODE_READ_DATA
            | FUFH_WRONLY \<Rightarrow> auth KAUTH_VNODE_WRITE_DATA
            | FUFH_RDWR \<Rightarrow> auth (KAUTH_VNODE_READ_DATA OR KAUTH_VNODE_WRITE_DATA)
            | FUFH_INVALID \<Rightarrow> retV EINVAL)))"

end
