(* ===== verification/Fuse_Vnops_File.thy ===== *)
theory Fuse_Vnops_File
  imports Fuse_File
begin

text \<open>
  The vnode operations on open files (\<^verbatim>\<open>fuse_vnops.c\<close>): open and close with the reference
  counts of the handles, mapping, synchronisation, the end of a vnode's use, and the translation
  between offsets and blocks.
\<close>

section \<open>Open\<close>

definition FOPEN_DIRECT_IO :: u32 where "FOPEN_DIRECT_IO = flagbit 0"
definition FOPEN_KEEP_CACHE :: u32 where "FOPEN_KEEP_CACHE = flagbit 1"
definition FOPEN_PURGE_ATTR :: u32 where "FOPEN_PURGE_ATTR = flagbit 30"
definition FOPEN_PURGE_UBC :: u32 where "FOPEN_PURGE_UBC = flagbit 31"

abbreviation EBADF :: errno where "EBADF \<equiv> 9"
abbreviation EISDIR :: errno where "EISDIR \<equiv> 21"
abbreviation ERANGE :: errno where "ERANGE \<equiv> 34"

definition fuse_clearnosyncwrites_mp :: "unit vm" where
  "fuse_clearnosyncwrites_mp =
     modV (\<lambda>v. if mp_synchronous (v_mp v) then v
               else v\<lparr>v_mp := (v_mp v)\<lparr>mp_async := False, mp_synchronous := True\<rparr>,
                      v_sess := (v_sess v)\<lparr>dataflags :=
                        clear_flag (dataflags (v_sess v)) FSESS_NO_SYNCWRITES\<rparr>\<rparr>)"

text \<open>Throwing away the cached pages of a file, up to the size the kernel has for it.\<close>

definition ubc_purge :: "venv \<Rightarrow> vnode \<Rightarrow> unit vm" where
  "ubc_purge E vp =
     bindV (callV E (Kcall ''ubc_getsize'' [vp] [] [])) (\<lambda>sz.
       docallV E (Kcall ''ubc_msync'' [vp] [0, sz, UBC_PUSHALL OR UBC_INVALIDATE] []))"

text \<open>The creator of a file picks up the handle that creating it left in the slot for both.\<close>

definition open_take_stashed :: "vnode \<Rightarrow> fufh_type \<Rightarrow> unit vm" where
  "open_take_stashed vp ty =
     updfud vp (\<lambda>d.
       let rw = fufh d FUFH_RDWR;
           d1 = upd_fufh ty (\<lambda>f. f\<lparr>open_flags := open_flags rw, fh_id := fh_id rw\<rparr>) d;
           d2 = upd_fufh FUFH_RDWR (\<lambda>f. f\<lparr>open_count := 0\<rparr>) d1;
           d3 = upd_fufh ty (\<lambda>f. f\<lparr>open_count := 1\<rparr>) d2
       in d3\<lparr>fv_flag := clear_flag (fv_flag d3) FN_CREATING\<rparr>)"

text \<open>What \<^verbatim>\<open>FOPEN_PURGE_ATTR\<close> asks for: fresh attributes. The result is the hint.\<close>

definition open_purge_attr :: "venv \<Rightarrow> vnode \<Rightarrow> vfs_context \<Rightarrow> int vm" where
  "open_purge_attr E vp c =
     seqV (invalidate_attrV vp)
       (bindV (simple_putget_vp E FUSE_GETATTR vp (Some c)) (\<lambda>(serr, fdi).
          if serr \<noteq> 0 then retV NOTE_ATTRIB
          else
            bindV (answer fdi (sizeof 8 fuse_attr_out)) (\<lambda>a.
            bindV
              (if u32_at 88 a AND S_IFMT \<noteq> 0 then
                 seqV (cache_attrs E vp fdi (u64_at 0 a) (u32_at 8 a) 16)
                   (bindV (answer fdi (sizeof 8 fuse_attr_out)) (\<lambda>b.
                    bindV (VTOFUD vp) (\<lambda>d.
                      let newsize = sint (u64_at 24 b);
                          hint = (if newsize > filesize d then NOTE_ATTRIB OR NOTE_EXTEND else NOTE_ATTRIB)
                      in seqV (updfud vp (\<lambda>x. x\<lparr>filesize := newsize\<rparr>))
                           (seqV (ubc_setsizeV E vp newsize) (retV hint)))))
               else retV NOTE_ATTRIB)
              (\<lambda>hint. seqV (drop_ticket E fdi) (retV hint)))))"

text \<open>The end of an open, from the label \<^verbatim>\<open>ok\<close>.\<close>

definition open_ok :: "venv \<Rightarrow> vnode \<Rightarrow> fufh_type \<Rightarrow> vfs_context \<Rightarrow> errno vm" where
  "open_ok E vp ty c =
     bindV (VTOFUD vp) (\<lambda>d. bindV sessionV (\<lambda>s.
       if has_flag (fuse_open_flags (fufh d ty)) FOPEN_DIRECT_IO \<or> fuse_isdirectio s d then
         seqV (ubc_purge E vp)
        (seqV (docallV E (Kcall ''vnode_setnocache'' [vp] [] []))
        (seqV (docallV E (Kcall ''vnode_setnoreadahead'' [vp] [] []))
        (seqV fuse_clearnosyncwrites_mp
        (seqV (updfud vp (\<lambda>x. x\<lparr>fv_flag := set_flag (fv_flag x) FN_DIRECT_IO\<rparr>)) (retV 0)))))
       else
         bindV
           (if has_flag (fuse_open_flags (fufh d ty)) FOPEN_PURGE_UBC then
              seqV (ubc_purge E vp)
             (seqV (updfud vp (upd_fufh ty (\<lambda>f. f\<lparr>fuse_open_flags := clear_flag (fuse_open_flags f) FOPEN_PURGE_UBC\<rparr>)))
             (bindV (VTOFUD vp) (\<lambda>d1.
                if has_flag (fuse_open_flags (fufh d1 ty)) FOPEN_PURGE_ATTR then
                  bindV (open_purge_attr E vp c) (\<lambda>hint.
                    seqV (updfud vp (upd_fufh ty (\<lambda>f. f\<lparr>fuse_open_flags := clear_flag (fuse_open_flags f) FOPEN_PURGE_ATTR\<rparr>)))
                      (retV (NOTE_WRITE OR hint)))
                else retV NOTE_WRITE)))
            else retV 0)
           (\<lambda>hint.
              seqV (whenV (hint \<noteq> 0) (FUSE_KNOTE E vp hint))
             (bindV (VTOFUD vp) (\<lambda>d2. bindV sessionV (\<lambda>s2.
                seqV (whenV (fuse_isnoreadahead s2 d2) (docallV E (Kcall ''vnode_setnoreadahead'' [vp] [] [])))
               (seqV (whenV (fuse_isnoubc s2 d2) (docallV E (Kcall ''vnode_setnocache'' [vp] [] [])))
                  (retV 0))))))))"

text \<open>
  Waiting for the creator of the file: the result says whether the creator itself picked up its
  handle, or the error that interrupted the wait.
\<close>

definition open_creating :: "venv \<Rightarrow> vnode \<Rightarrow> fufh_type \<Rightarrow> (bool \<times> errno) vm" where
  "open_creating E vp ty =
     seqV (docallV E (Kcall ''lck_mtx_lock'' [vp] [] []))
       (bindV (VTOFUD vp) (\<lambda>d.
          if has_flag (fv_flag d) FN_CREATING then
            (if creator d = ve_thread E then
               seqV (open_take_stashed vp ty)
                 (seqV (docallV E (Kcall ''wakeup'' [vp] [] [])) (retV (True, 0)))
             else bindV (callV E (Kcall ''msleep'' [vp] [] [])) (\<lambda>error. retV (False, error)))
          else retV (False, 0)))"

definition fuse_vnop_open :: "venv \<Rightarrow> vnode \<Rightarrow> u32 \<Rightarrow> vfs_context \<Rightarrow> errno vm" where
  "fuse_vnop_open E vp mode c =
     bindV (isdeadV vp) (\<lambda>dead. bindV (vtypeV vp) (\<lambda>vt. bindV (deniedV vp c) (\<lambda>denied.
       if dead then retV ENXIO
       else if vt = VFIFO then retV EPERM
       else if denied then retV ENOENT
       else
         bindV (if vt = VDIR then retV FUFH_RDONLY else outV (fuse_filehandle_xlate_from_fflags mode)) (\<lambda>ty.
         bindV (VTOFUD vp) (\<lambda>d.
         bindV (if vt \<noteq> VDIR \<and> has_flag (fv_flag d) FN_CREATING then open_creating E vp ty
                else retV (False, 0)) (\<lambda>(taken, error).
           if error \<noteq> 0 then retV error
           else if taken then open_ok E vp ty c
           else
             bindV (fufhV vp ty) (\<lambda>f.
               if FUFH_IS_VALID f then
                 seqV (updfud vp (upd_fufh ty FUFH_USE_INC))
                (seqV (countV (\<lambda>g. g\<lparr>fuse_fh_reuse_count := fuse_fh_reuse_count g + 1\<rparr>)) (open_ok E vp ty c))
               else
                 bindV (fuse_filehandle_get E vp (Some c) ty mode) (\<lambda>err.
                   if err \<noteq> 0 then
                     seqV (whenV (err = ENOENT) (docallV E (Kcall ''cache_purge'' [vp] [] []))) (retV err)
                   else open_ok E vp ty c))))))))"

section \<open>Close\<close>

definition IO_NDELAY :: u32 where "IO_NDELAY = 0x10"
definition IO_SYNC :: int where "IO_SYNC = 4"
definition IO_CLOSE :: int where "IO_CLOSE = 0x400"

text \<open>The flush request of a close; a daemon that does not implement it is not asked again.\<close>

definition close_flush :: "venv \<Rightarrow> vnode \<Rightarrow> fufh_type \<Rightarrow> vfs_context \<Rightarrow> errno vm" where
  "close_flush E vp ty c =
     bindV (implementedV FUSE_FLUSH) (\<lambda>impl.
       if \<not> impl then retV 0
       else
         bindV (fdisp_make_vp E (fdisp_init fdisp_uninit (sizeof 8 fuse_flush_in)) FUSE_FLUSH vp (Some c)) (\<lambda>fdi.
         bindV (fufhV vp ty) (\<lambda>f.
         seqV (poke64 fdi 0 (fh_id f))
        (seqV (poke32 fdi 8 0) (seqV (poke32 fdi 12 0) (seqV (poke64 fdi 16 0)
        (bindV (wait_answ E fdi) (\<lambda>(err, fdi1).
           if err = 0 then seqV (drop_ticket E fdi1) (retV 0)
           else if err = ENOSYS then seqV (clear_implemented FUSE_FLUSH) (retV 0)
           else retV err))))))))"

definition fuse_vnop_close :: "venv \<Rightarrow> vnode \<Rightarrow> u32 \<Rightarrow> vfs_context \<Rightarrow> errno vm" where
  "fuse_vnop_close E vp fflag c =
     bindV (isdeadV vp) (\<lambda>dead. bindV (vtypeV vp) (\<lambda>vt.
       if dead then retV 0
       else if fflag = IO_NDELAY then retV 0
       else
         bindV (if vt = VDIR then retV FUFH_RDONLY else outV (fuse_filehandle_xlate_from_fflags fflag)) (\<lambda>ty.
         bindV (fufhV vp ty) (\<lambda>f.
           if \<not> FUFH_IS_VALID f then retV 0
           else
             bindV
               (if vt = VDIR then retV 0
                else
                  bindV (callV E (Kcall ''vnode_hasdirtyblks'' [vp] [] [])) (\<lambda>dirty.
                  bindV (VTOFUD vp) (\<lambda>d. bindV sessionV (\<lambda>s.
                  seqV (whenV (dirty \<noteq> 0 \<and> \<not> fuse_isnosynconclose s d)
                          (docallV E (Kcall ''cluster_push'' [vp] [IO_SYNC OR IO_CLOSE] [])))
                    (close_flush E vp ty c)))))
               (\<lambda>err.
                  seqV (updfud vp (upd_fufh ty FUFH_USE_DEC))
                 (bindV (fufhV vp ty) (\<lambda>f1.
                  seqV (whenV (\<not> FUFH_IS_VALID f1)
                          (fuse_filehandle_put E vp (Some c) ty FUSE_OP_FOREGROUNDED))
                    (retV err))))))))"

section \<open>Mapping\<close>

text \<open>
  One attempt to map: the result is the error and whether the parent's authorisation said that the
  file was deleted. The handle is used if there is one.
\<close>

definition mmap_attempt :: "venv \<Rightarrow> vnode \<Rightarrow> fufh_type \<Rightarrow> bool \<Rightarrow> vfs_context \<Rightarrow> (errno \<times> bool) vm" where
  "mmap_attempt E vp ty deleted c =
     bindV (fufhV vp ty) (\<lambda>f.
       if FUFH_IS_VALID f then
         seqV (updfud vp (upd_fufh ty FUFH_USE_INC))
        (seqV (countV (\<lambda>g. g\<lparr>fuse_fh_reuse_count := fuse_fh_reuse_count g + 1\<rparr>)) (retV (0, deleted)))
       else
         bindV (VTOFUD vp) (\<lambda>d.
         bindV (if deleted then retV (0, True)
                else bindV (fuse_filehandle_preflight_status E vp (parentvp d) ty) (\<lambda>err.
                       retV (if err = ENOENT then (0, True) else (err, False)))) (\<lambda>(err, deleted1).
           if err \<noteq> 0 then retV (err, deleted1)
           else bindV (fuse_filehandle_get E vp (Some c) ty 0) (\<lambda>err1. retV (err1, deleted1)))))"

definition fuse_vnop_mmap :: "venv \<Rightarrow> vnode \<Rightarrow> u32 \<Rightarrow> vfs_context \<Rightarrow> errno vm" where
  "fuse_vnop_mmap E vp fflags c =
     bindV (VTOFUD vp) (\<lambda>d. bindV sessionV (\<lambda>s. bindV (deniedV vp c) (\<lambda>denied.
       let ty = fuse_filehandle_xlate_from_mmap fflags
       in if fuse_isdeadfs_mp s then panicV
          else if fuse_isdirectio s d then retV EPERM
          else if denied then retV ENOENT
          else if ty = FUFH_INVALID then retV 0
          else
            bindV (mmap_attempt E vp ty False c) (\<lambda>(err, deleted).
              if err = 0 then retV 0
              else if err = EACCES \<and> (ty = FUFH_RDWR \<or> ty = FUFH_WRONLY) then
                bindV (mmap_attempt E vp FUFH_RDONLY deleted c) (\<lambda>(err1, _).
                  retV (if err1 = 0 then 0 else EPERM))
              else retV EPERM))))"

definition fuse_vnop_mnomap :: "venv \<Rightarrow> vnode \<Rightarrow> errno vm" where
  "fuse_vnop_mnomap E vp =
     bindV (isdeadV vp) (\<lambda>dead. bindV (VTOFUD vp) (\<lambda>d. bindV sessionV (\<lambda>s.
       if dead then retV 0 else if fuse_isdirectio s d then retV ENODEV else retV 0)))"

section \<open>The end of a vnode's use\<close>

definition fufh_types :: "fufh_type list" where
  "fufh_types = [FUFH_RDONLY, FUFH_WRONLY, FUFH_RDWR]"

fun forV :: "'a list \<Rightarrow> ('a \<Rightarrow> 'b vm) \<Rightarrow> unit vm" where
  "forV [] f = retV ()"
| "forV (x # xs) f = seqV (f x) (forV xs f)"

text \<open>
  A handle that is still in use is reset and released, when the vnode becomes inactive and when it is
  reclaimed. (A reclaim with an open handle is also logged and counted, unless the unmount is forced.)
\<close>

definition release_handle :: "venv \<Rightarrow> vnode \<Rightarrow> vfs_context \<Rightarrow> fufh_type \<Rightarrow> unit vm" where
  "release_handle E vp c ty =
     bindV (fufhV vp ty) (\<lambda>f.
       whenV (FUFH_IS_VALID f)
         (seqV (updfud vp (upd_fufh ty FUFH_USE_RESET))
            (fuse_filehandle_put E vp (Some c) ty FUSE_OP_FOREGROUNDED)))"

definition fuse_vnop_inactive :: "venv \<Rightarrow> vnode \<Rightarrow> vfs_context \<Rightarrow> errno vm" where
  "fuse_vnop_inactive E vp c = seqV (forV fufh_types (release_handle E vp c)) (retV 0)"

definition FSNodeScrub :: "hid \<Rightarrow> unit vm" where
  "FSNodeScrub n =
     modV (\<lambda>v. v\<lparr>v_fud := (v_fud v)(n := (v_fud v n)\<lparr>fMagic := kFSNodeBadMagic\<rparr>)\<rparr>)"

definition fuse_vnop_reclaim :: "venv \<Rightarrow> vnode \<Rightarrow> vfs_context \<Rightarrow> errno vm" where
  "fuse_vnop_reclaim E vp c =
     seqV (forV fufh_types (release_handle E vp c))
    (bindV (isdeadV vp) (\<lambda>dead. bindV (VTOFUD vp) (\<lambda>d.
     seqV (whenV (\<not> dead \<and> nlookup d \<noteq> 0)
             (sessV (fuse_internal_forget_send (ve_k E) (Some c) (nodeid d) (nlookup d) fdisp_uninit)))
    (seqV (fuse_vncache_purge E vp)
    (bindV (getV (\<lambda>v. HNodeFromVNode (v_hash v) vp)) (\<lambda>hn.
     bindV (outV (of_option hn)) (\<lambda>n.
     bindV (hashV (HNodeDetachVNode n vp)) (\<lambda>last.
     seqV (whenV last
             (seqV (FSNodeScrub n)
             (seqV (hashV (\<lambda>T. bind_outcome (HNodeScrubDone n T) (\<lambda>T1. Done ((), T1))))
                (countV (\<lambda>g. g\<lparr>fuse_vnodes_current := fuse_vnodes_current g - 1\<rparr>)))))
       (retV 0)))))))))"

section \<open>Synchronisation\<close>

text \<open>
  When the daemon does not implement the request, the code reaches the session through the ticket,
  which the wait has already dropped.
\<close>

definition fuse_internal_fsync ::
    "venv \<Rightarrow> vnode \<Rightarrow> vfs_context \<Rightarrow> fufh_type \<Rightarrow> fuse_op_waitfor \<Rightarrow> errno vm" where
  "fuse_internal_fsync E vp c ty waitfor =
     bindV (vtypeV vp) (\<lambda>vt.
       let op = (if vt = VDIR then FUSE_FSYNCDIR else FUSE_FSYNC)
       in bindV (fdisp_make_vp E (fdisp_init fdisp_uninit (sizeof 8 fuse_fsync_in)) op vp (Some c)) (\<lambda>fdi.
          bindV (fufhV vp ty) (\<lambda>f.
          seqV (poke64 fdi 0 (fh_id f))
         (seqV (poke32 fdi 8 1)
            (if waitfor = FUSE_OP_FOREGROUNDED then
               bindV (wait_answ E fdi) (\<lambda>(err, fdi1).
                 if err = 0 then seqV (drop_ticket E fdi1) (retV 0)
                 else
                   seqV (whenV (err = ENOSYS)
                           (bindV (ticketV fdi1) (\<lambda>t. bindV sessionV (\<lambda>s.
                              seqV (outV (ticket s t)) (clear_implemented op)))))
                     (retV err))
             else
               bindV (ticketV fdi) (\<lambda>t.
                 seqV (runsessV (fuse_insert_callback t (Some fuse_internal_fsync_callback_fn)))
                   (seqV (runsessV (fuse_insert_message t)) (retV 0))))))))"

fun fsync_handles :: "venv \<Rightarrow> vnode \<Rightarrow> vfs_context \<Rightarrow> fufh_type list \<Rightarrow> errno \<Rightarrow> errno vm" where
  "fsync_handles E vp c [] err = retV err"
| "fsync_handles E vp c (ty # tys) err =
     bindV (fufhV vp ty) (\<lambda>f.
       if FUFH_IS_VALID f then
         bindV (fuse_internal_fsync E vp c ty FUSE_OP_FOREGROUNDED) (\<lambda>tmp_err.
           fsync_handles E vp c tys (if tmp_err \<noteq> 0 then tmp_err else err))
       else fsync_handles E vp c tys err)"

definition fuse_vnop_fsync :: "venv \<Rightarrow> vnode \<Rightarrow> vfs_context \<Rightarrow> errno vm" where
  "fuse_vnop_fsync E vp c =
     bindV (isdeadV vp) (\<lambda>dead. bindV (vtypeV vp) (\<lambda>vt.
       if dead then retV 0
       else
         seqV (docallV E (Kcall ''cluster_push'' [vp] [0] []))
        (bindV (implementedV (if vt = VDIR then FUSE_FSYNCDIR else FUSE_FSYNC)) (\<lambda>impl.
         bindV (if impl then fsync_handles E vp c fufh_types 0 else retV ENOSYS) (\<lambda>err.
         bindV sessionV (\<lambda>s.
           retV (if err = ENOSYS \<and> \<not> fuse_isnosyncwrites_mp s then 0 else err)))))))"

section \<open>Blocks\<close>

text \<open>Signed 64-bit division of C, which cuts towards zero; the block size is unsigned.\<close>

definition cdiv :: "int \<Rightarrow> int \<Rightarrow> int" where
  "cdiv a b = (if a < 0 then - (- a div b) else a div b)"

definition fuse_vnop_blktooff :: "venv \<Rightarrow> vnode \<Rightarrow> int \<Rightarrow> (errno \<times> int option) vm" where
  "fuse_vnop_blktooff E vp lblkno =
     bindV (isdeadV vp) (\<lambda>dead. bindV sessionV (\<lambda>s.
       if dead then retV (EIO, None)
       else retV (0, Some (wrap64 (lblkno * uint (blocksize s))))))"

definition fuse_vnop_offtoblk :: "venv \<Rightarrow> vnode \<Rightarrow> int \<Rightarrow> (errno \<times> int option) vm" where
  "fuse_vnop_offtoblk E vp offset =
     bindV (isdeadV vp) (\<lambda>dead. bindV sessionV (\<lambda>s.
       if dead then retV (EIO, None)
       else if blocksize s = 0 then outV BadAccess
       else retV (0, Some (cdiv offset (uint (blocksize s))))))"

text \<open>The results are the block number, the number of contiguous bytes and the offset in the block.\<close>

definition fuse_vnop_blockmap ::
    "venv \<Rightarrow> vnode \<Rightarrow> int \<Rightarrow> nat \<Rightarrow> bool \<Rightarrow> (errno \<times> (int \<times> u64 \<times> int) option) vm" where
  "fuse_vnop_blockmap E vp foffset sz want_bpn =
     bindV (isdeadV vp) (\<lambda>dead. bindV (vtypeV vp) (\<lambda>vt. bindV sessionV (\<lambda>s. bindV (VTOFUD vp) (\<lambda>d.
       if dead then retV (EIO, None)
       else if vt = VDIR then retV (ENOTSUP, None)
       else if \<not> want_bpn then retV (0, None)
       else if blocksize s = 0 then outV BadAccess
       else
         let bpn = cdiv foffset (uint (blocksize s));
             contig = wrap64 (filesize d - wrap64 (bpn * uint (blocksize s)));
             contig1 = (if contig > sint (word_of_nat sz :: u64) then sint (word_of_nat sz :: u64) else contig)
         in retV (0, Some (bpn, word_of_int contig1, 0))))))"

end
