(* ===== verification/Fuse_Node.thy ===== *)
theory Fuse_Node
  imports Fuse_Vnops_File
begin

text \<open>
  The nodes of a volume (\<^verbatim>\<open>fuse_node.c\<close>): from an entry in an answer of the daemon to a
  vnode, which is found in the table of nodes or created. \<^verbatim>\<open>vnode_create\<close> is the kernel's.
  The data of a node that was never allocated is zeroed memory, as the allocation of a node makes it.
\<close>

section \<open>From an entry to a vnode\<close>

definition vtype_bad :: "vtype \<Rightarrow> bool" where
  "vtype_bad t \<longleftrightarrow> t \<in> {VNON, VBAD, VSTR, VCPLX}"

text \<open>The initialisation of the data of a node that has none yet.\<close>

definition fvdat_init ::
    "u32 \<Rightarrow> entry_out \<Rightarrow> vnode option \<Rightarrow> u64 \<Rightarrow> thread \<Rightarrow> fuse_vnode_data \<Rightarrow> fuse_vnode_data" where
  "fvdat_init flags feo dvp parent thr d =
     (if fInitialised d then d
      else
        d\<lparr>fMagic := kFSNodeMagic, fInitialised := True, fv_vp := None, nodeid := feo_nodeid feo,
          generation := feo_generation feo, parentvp := dvp, parent_nodeid := parent,
          fufh := (\<lambda>ty. if ty \<in> set fufh_types then FUFH_USE_RESET (fufh d ty) else fufh d ty),
          fv_flag := flags, fv_c_flag := 0,
          entry_valid := \<lparr>tv_sec = sint (feo_entry_valid feo), tv_nsec = uint (feo_entry_valid_nsec feo)\<rparr>,
          attr_valid := \<lparr>tv_sec = sint (feo_attr_valid feo), tv_nsec = uint (feo_attr_valid_nsec feo)\<rparr>,
          modify_time := \<lparr>tv_sec = sint (fa_mtime (feo_attr feo)), tv_nsec = uint (fa_mtimensec (feo_attr feo))\<rparr>,
          filesize := (if has_flag flags FN_IS_ROOT then 0 else sint (fa_size (feo_attr feo))),
          nlookup := 0, fv_vtype := IFTOVT (fa_mode (feo_attr feo)), creator := thr\<rparr>)"

definition fud_at :: "hid \<Rightarrow> (fuse_vnode_data \<Rightarrow> fuse_vnode_data) \<Rightarrow> unit vm" where
  "fud_at n f = modV (\<lambda>v. v\<lparr>v_fud := (v_fud v)(n := f (v_fud v n))\<rparr>)"

text \<open>The lookup in the table of nodes; it goes on for ever when its list of gaps is used up.\<close>

definition node_lookup :: "venv \<Rightarrow> u64 \<Rightarrow> (hid \<times> vnode option) vm" where
  "node_lookup E ino v =
     (case v_gaps v of
        [] \<Rightarrow> V_Asleep
      | g # gs \<Rightarrow>
          bindV (hashV (HNodeLookupCreatingIfNecessary (k_osm (ve_k E)) g (ve_fdev E) ino 0))
            (\<lambda>r. case r of None \<Rightarrow> (\<lambda>_. V_Asleep) | Some x \<Rightarrow> retV x)
            (v\<lparr>v_gaps := gs\<rparr>))"

text \<open>The creation of a vnode for a node that has none, and what follows its success or failure.\<close>

definition node_create ::
    "venv \<Rightarrow> u32 \<Rightarrow> entry_out \<Rightarrow> vnode option \<Rightarrow> hid \<Rightarrow> (errno \<times> vnode option) vm" where
  "node_create E flags feo dvp n =
     bindV (getV (\<lambda>v. fInitialised (v_fud v n))) (\<lambda>initialised.
     bindV (case dvp of None \<Rightarrow> retV 0 | Some x \<Rightarrow> if initialised then retV 0 else VTOI x) (\<lambda>parent.
     seqV (fud_at n (fvdat_init flags feo dvp parent (ve_thread E)))
    (bindV (with_vdata (ve_create E
        \<lparr>vnfs_vtype = IFTOVT (fa_mode (feo_attr feo)), vnfs_dvp = dvp, vnfs_fsnode = n,
         vnfs_filesize = (if has_flag flags FN_IS_ROOT then 0 else fa_size (feo_attr feo)),
         vnfs_markroot = has_flag flags FN_IS_ROOT\<rparr>)) (\<lambda>(err, vn).
       if err = 0 then
         seqV (fud_at n (\<lambda>d. d\<lparr>parentvp := if has_flag flags FN_IS_ROOT then Some vn else dvp\<rparr>))
        (seqV (hashV (\<lambda>T. bind_outcome (HNodeAttachVNodeSucceeded n 0 vn T) (\<lambda>T1. Done ((), T1))))
        (seqV (countV (\<lambda>g. g\<lparr>fuse_vnodes_current := fuse_vnodes_current g + 1\<rparr>)) (retV (0, Some vn))))
       else
         bindV (hashV (HNodeAttachVNodeFailed n)) (\<lambda>last.
         seqV (whenV last
                 (seqV (FSNodeScrub n)
                    (hashV (\<lambda>T. bind_outcome (HNodeScrubDone n T) (\<lambda>T1. Done ((), T1))))))
           (retV (err, None)))))))"

definition FSNodeGetOrCreateFileVNodeByID ::
    "venv \<Rightarrow> u32 \<Rightarrow> entry_out \<Rightarrow> vnode option \<Rightarrow> (errno \<times> vnode option) vm" where
  "FSNodeGetOrCreateFileVNodeByID E flags feo dvp =
     (let vtyp = IFTOVT (fa_mode (feo_attr feo));
          stale = (\<lambda>vn e. seqV (fuse_internal_vnode_disappear E vn REVOKE_SOFT)
                          (seqV (docallV E (Kcall ''vnode_put'' [vn] [] [])) (retV (e, None))))
      in if vtype_bad vtyp then retV (EINVAL, None)
         else
           bindV (node_lookup E (feo_nodeid feo)) (\<lambda>(n, vno).
           bindV (case vno of None \<Rightarrow> node_create E flags feo dvp n | Some vn \<Rightarrow> retV (0, Some vn)) (\<lambda>(err, vno1).
             if err \<noteq> 0 then retV (err, None)
             else
               bindV (outV (of_option vno1)) (\<lambda>vn.
               bindV (vtypeV vn) (\<lambda>vt.
                 if vt \<noteq> vtyp then stale vn EIO
                 else
                   bindV (VTOFUD vn) (\<lambda>d.
                     if generation d \<noteq> feo_generation feo then stale vn ESTALE
                     else seqV (docallV E (Kcall ''vnode_settag'' [vn] [] [])) (retV (0, Some vn))))))))"

section \<open>From an entry to a cached name\<close>

record componentname =
  cn_nameptr :: bytes
  cn_namelen :: nat
  cn_makeentry :: bool
  cn_islastcn :: bool
  cn_isdotdot :: bool
  cn_wantparent :: bool
  cn_nameiop :: nat

definition cn_name :: "componentname \<Rightarrow> bytes" where
  "cn_name cnp = take (cn_namelen cnp) (cn_nameptr cnp)"

definition fuse_vget_i ::
    "venv \<Rightarrow> u32 \<Rightarrow> entry_out option \<Rightarrow> componentname \<Rightarrow> vnode \<Rightarrow> (errno \<times> vnode option) vm" where
  "fuse_vget_i E flags feo cnp dvp =
     (case feo of
        None \<Rightarrow> retV (EINVAL, None)
      | Some e \<Rightarrow>
          bindV (FSNodeGetOrCreateFileVNodeByID E flags e (Some dvp)) (\<lambda>(err, vno).
            if err \<noteq> 0 then retV (err, None)
            else
              bindV (outV (of_option vno)) (\<lambda>vn. bindV sessionV (\<lambda>s.
              seqV (whenV (\<not> fuse_isnovncache_mp s \<and> cn_makeentry cnp)
                      (fuse_vncache_enter E dvp (Some vn) (cn_name cnp)))
             (seqV (updfud vn (\<lambda>d. d\<lparr>nlookup := nlookup d + 1\<rparr>)) (retV (0, Some vn)))))))"

end
