(* ===== verification/Fuse_Vnops_Dir.thy ===== *)
theory Fuse_Vnops_Dir
  imports Fuse_Node
begin

text \<open>
  The vnode operations on names (\<^verbatim>\<open>fuse_vnops.c\<close>, with the creation, removal, renaming and
  exchange of \<^verbatim>\<open>fuse_internal.c\<close>).
\<close>

section \<open>New entries\<close>

abbreviation EXDEV :: errno where "EXDEV \<equiv> 18"
abbreviation ENOTDIR :: errno where "ENOTDIR \<equiv> 20"
abbreviation EROFS :: errno where "EROFS \<equiv> 30"
abbreviation EMLINK :: errno where "EMLINK \<equiv> 31"
abbreviation ENAMETOOLONG :: errno where "ENAMETOOLONG \<equiv> 63"
abbreviation EJUSTRETURN :: errno where "EJUSTRETURN \<equiv> - 2"

definition skip_double :: "componentname \<Rightarrow> bool vm" where
  "skip_double cnp =
     bindV sessionV (\<lambda>s. retV (fuse_skip_apple_double_mp s (Some (cn_nameptr cnp)) (cn_namelen cnp)))"

definition fuse_internal_newentry_makerequest ::
    "venv \<Rightarrow> u64 \<Rightarrow> componentname \<Rightarrow> fuse_opcode \<Rightarrow> bytes \<Rightarrow> fuse_dispatcher \<Rightarrow> vfs_context \<Rightarrow>
     fuse_dispatcher vm" where
  "fuse_internal_newentry_makerequest E dnid cnp op buf fdip c =
     bindV (sessV (fdisp_make (ve_k E) (fdisp_init fdip (length buf + cn_namelen cnp + 1)) op dnid (Some c)))
       (\<lambda>fdi. seqV (poke fdi 0 buf) (seqV (poke_name fdi (length buf) (cn_name cnp)) (retV fdi)))"

text \<open>The forget message sent for a node that could not be used; the dispatcher is used again.\<close>

definition forget_sendV :: "venv \<Rightarrow> vfs_context \<Rightarrow> u64 \<Rightarrow> fuse_dispatcher \<Rightarrow> unit vm" where
  "forget_sendV E c nid fdi =
     seqV (sessV (fuse_internal_forget_send (ve_k E) (Some c) nid 1 fdi)) (retV ())"

definition fuse_internal_newentry_core ::
    "venv \<Rightarrow> vnode \<Rightarrow> componentname \<Rightarrow> vtype \<Rightarrow> fuse_dispatcher \<Rightarrow> vfs_context \<Rightarrow> (errno \<times> vnode option) vm"
  where
  "fuse_internal_newentry_core E dvp cnp vtyp fdip c =
     bindV (wait_answ E fdip) (\<lambda>(err, fdi).
       if err \<noteq> 0 then retV (err, None)
       else
         bindV (answer fdi (sizeof 8 fuse_entry_out)) (\<lambda>a.
         let feo = entry_out_at a; err1 = fuse_internal_checkentry feo vtyp
         in if err1 \<noteq> 0 then seqV (drop_ticket E fdi) (retV (err1, None))
            else
              bindV (fuse_vget_i E 0 (Some feo) cnp dvp) (\<lambda>(err2, vno).
                if err2 \<noteq> 0 then seqV (forget_sendV E c (feo_nodeid feo) fdi) (retV (err2, None))
                else
                  bindV (outV (of_option vno)) (\<lambda>vn.
                  seqV (cache_attrs E vn fdi (feo_attr_valid feo) (feo_attr_valid_nsec feo) 40)
                 (seqV (drop_ticket E fdi) (retV (0, Some vn)))))))"

definition fuse_internal_newentry ::
    "venv \<Rightarrow> vnode \<Rightarrow> componentname \<Rightarrow> fuse_opcode \<Rightarrow> bytes \<Rightarrow> vtype \<Rightarrow> vfs_context \<Rightarrow>
     (errno \<times> vnode option) vm" where
  "fuse_internal_newentry E dvp cnp op buf vtyp c =
     bindV (skip_double cnp) (\<lambda>skip.
       if skip then retV (EACCES, None)
       else
         bindV (VTOI dvp) (\<lambda>nid.
         bindV (fuse_internal_newentry_makerequest E nid cnp op buf (fdisp_init fdisp_uninit 0) c) (\<lambda>fdi.
         bindV (fuse_internal_newentry_core E dvp cnp vtyp fdi c) (\<lambda>r.
           seqV (invalidate_attrV dvp) (retV r)))))"

definition fuse_vnop_mkdir ::
    "venv \<Rightarrow> vnode \<Rightarrow> componentname \<Rightarrow> vnode_attr \<Rightarrow> vfs_context \<Rightarrow> (errno \<times> vnode option) vm" where
  "fuse_vnop_mkdir E dvp cnp vap c =
     bindV sessionV (\<lambda>s. bindV (deniedV dvp c) (\<lambda>denied.
       if fuse_isdeadfs_mp s then panicV
       else if denied then retV (EPERM, None)
       else
         bindV (fuse_internal_newentry E dvp cnp FUSE_MKDIR
                  (le_bytes 4 (unat (MAKEIMODE (va_type vap) (va_mode vap))) @ le_bytes 4 0) VDIR c) (\<lambda>(err, vno).
         seqV (whenV (err = 0)
                 (seqV (invalidate_attrV dvp) (FUSE_KNOTE E dvp (NOTE_WRITE OR NOTE_LINK))))
           (retV (err, vno)))))"

definition fuse_vnop_mknod ::
    "venv \<Rightarrow> vnode \<Rightarrow> componentname \<Rightarrow> vnode_attr \<Rightarrow> vfs_context \<Rightarrow> (errno \<times> vnode option) vm" where
  "fuse_vnop_mknod E dvp cnp vap c =
     bindV sessionV (\<lambda>s. bindV (deniedV dvp c) (\<lambda>denied.
       if fuse_isdeadfs_mp s then panicV
       else if denied then retV (EPERM, None)
       else
         bindV (fuse_internal_newentry E dvp cnp FUSE_MKNOD
                  (le_bytes 4 (unat (MAKEIMODE (va_type vap) (va_mode vap))) @ le_bytes 4 (unat (va_rdev vap)))
                  (va_type vap) c) (\<lambda>(err, vno).
         seqV (whenV (err = 0) (seqV (invalidate_attrV dvp) (FUSE_KNOTE E dvp NOTE_WRITE)))
           (retV (err, vno)))))"

text \<open>The target is the string without its terminating zero.\<close>

definition fuse_vnop_symlink ::
    "venv \<Rightarrow> vnode \<Rightarrow> componentname \<Rightarrow> bytes \<Rightarrow> vfs_context \<Rightarrow> (errno \<times> vnode option) vm" where
  "fuse_vnop_symlink E dvp cnp target c =
     bindV sessionV (\<lambda>s. bindV (deniedV dvp c) (\<lambda>denied.
       if fuse_isdeadfs_mp s then panicV
       else if denied then retV (EPERM, None)
       else
         bindV (fdisp_make_vp E (fdisp_init fdisp_uninit (length target + 1 + cn_namelen cnp + 1))
                  FUSE_SYMLINK dvp (Some c)) (\<lambda>fdi.
         seqV (poke_name fdi 0 (cn_name cnp))
        (seqV (poke fdi (cn_namelen cnp + 1) (target @ [0]))
        (bindV (fuse_internal_newentry_core E dvp cnp VLNK fdi c) (\<lambda>(err, vno).
         seqV (whenV (err = 0) (seqV (invalidate_attrV dvp) (FUSE_KNOTE E dvp NOTE_WRITE)))
           (retV (err, vno))))))))"

definition FUSE_LINK_MAX :: u64 where "FUSE_LINK_MAX = 32767"

definition fuse_vnop_link ::
    "venv \<Rightarrow> vnode \<Rightarrow> vnode \<Rightarrow> componentname \<Rightarrow> vfs_context \<Rightarrow> errno vm" where
  "fuse_vnop_link E vp tdvp cnp c =
     bindV sessionV (\<lambda>s. bindV (VTOFUD vp) (\<lambda>d. bindV (getV (\<lambda>v. vn_mount v tdvp \<noteq> vn_mount v vp)) (\<lambda>other.
       if fuse_isdeadfs_mp s then panicV
       else if other then retV EXDEV
       else if va_nlink (cached_attr d) \<ge> FUSE_LINK_MAX then retV EMLINK
       else
         bindV (deniedV vp c) (\<lambda>denied.
           if denied then retV EPERM
           else
             bindV (VTOI tdvp) (\<lambda>tnid.
             bindV (fuse_internal_newentry_makerequest E tnid cnp FUSE_LINK (le_bytes 8 (unat (nodeid d)))
                      (fdisp_init fdisp_uninit 0) c) (\<lambda>fdi.
             bindV (wait_answ E fdi) (\<lambda>(err, fdi1).
               if err \<noteq> 0 then retV err
               else
                 bindV (answer fdi1 (sizeof 8 fuse_entry_out)) (\<lambda>a. bindV (vtypeV vp) (\<lambda>vt.
                 let err1 = fuse_internal_checkentry (entry_out_at a) vt
                 in seqV (drop_ticket E fdi1)
                   (seqV (invalidate_attrV tdvp) (seqV (invalidate_attrV vp)
                   (seqV (whenV (err1 = 0)
                            (seqV (FUSE_KNOTE E vp NOTE_LINK)
                            (seqV (FUSE_KNOTE E tdvp NOTE_WRITE)
                               (updfud vp (\<lambda>x. x\<lparr>nlookup := nlookup x + 1\<rparr>)))))
                      (retV err1)))))))))))))"

section \<open>Create\<close>

definition O_CREAT :: u32 where "O_CREAT = 0x200"
definition O_RDWR :: u32 where "O_RDWR = 2"

text \<open>The create request, which carries the open request and the name.\<close>

definition create_request ::
    "venv \<Rightarrow> u64 \<Rightarrow> componentname \<Rightarrow> u32 \<Rightarrow> vfs_context \<Rightarrow> fuse_dispatcher vm" where
  "create_request E dnid cnp mode c =
     bindV (sessV (fdisp_make (ve_k E)
              (fdisp_init fdisp_uninit (sizeof 8 fuse_open_in + cn_namelen cnp + 1)) FUSE_CREATE dnid (Some c)))
       (\<lambda>fdi.
     seqV (poke32 fdi 4 mode)
    (seqV (poke32 fdi 0 (O_CREAT OR O_RDWR))
    (seqV (poke_name fdi (sizeof 8 fuse_open_in) (cn_name cnp)) (retV fdi))))"

text \<open>
  The upcall: a daemon without \<^verbatim>\<open>CREATE\<close> is asked for a node only. The results are the error,
  the dispatcher, and whether the old way was taken.
\<close>

definition create_upcall ::
    "venv \<Rightarrow> u64 \<Rightarrow> componentname \<Rightarrow> vnode_attr \<Rightarrow> vfs_context \<Rightarrow> (errno \<times> fuse_dispatcher \<times> bool) vm" where
  "create_upcall E dnid cnp vap c =
     (let mode = MAKEIMODE (va_type vap) (va_mode vap);
          good_old = (\<lambda>fdip.
            bindV (fuse_internal_newentry_makerequest E dnid cnp FUSE_MKNOD
                     (le_bytes 4 (unat mode) @ le_bytes 4 0) fdip c) (\<lambda>fdi.
            bindV (wait_answ E fdi) (\<lambda>(err, fdi1). retV (err, fdi1, True))))
      in bindV (implementedV FUSE_CREATE) (\<lambda>impl.
           if \<not> impl \<or> va_type vap \<noteq> VREG then good_old fdisp_uninit
           else
             bindV (create_request E dnid cnp mode c) (\<lambda>fdi.
             bindV (wait_answ E fdi) (\<lambda>(err, fdi1).
               if err = ENOSYS then
                 seqV (clear_implemented FUSE_CREATE) (good_old (fdi1\<lparr>fd_tick := None\<rparr>))
               else retV (err, fdi1, False)))))"

text \<open>The release of a file that was created with the daemon and got no vnode.\<close>

definition create_release ::
    "venv \<Rightarrow> u64 \<Rightarrow> u64 \<Rightarrow> u32 \<Rightarrow> fuse_dispatcher \<Rightarrow> vfs_context \<Rightarrow> unit vm" where
  "create_release E nid fh mode fdip c =
     bindV (sessV (fdisp_make (ve_k E) (fdisp_init fdip (sizeof 8 fuse_release_in)) FUSE_RELEASE nid (Some c)))
       (\<lambda>fdi.
     seqV (poke64 fdi 0 fh)
    (seqV (poke32 fdi 8 (OFLAGS mode))
    (bindV (ticketV fdi) (\<lambda>t.
       seqV (runsessV (fuse_insert_callback t (Some fuse_internal_forget_callback_fn)))
         (runsessV (fuse_insert_message t))))))"

definition fuse_vnop_create ::
    "venv \<Rightarrow> vnode \<Rightarrow> componentname \<Rightarrow> vnode_attr \<Rightarrow> vfs_context \<Rightarrow> (errno \<times> vnode option) vm" where
  "fuse_vnop_create E dvp cnp vap c =
     bindV (VTOI dvp) (\<lambda>dnid. bindV sessionV (\<lambda>s. bindV (deniedV dvp c) (\<lambda>denied. bindV (skip_double cnp) (\<lambda>skip.
       if fuse_isdeadfs_mp s then panicV
       else if denied then retV (EPERM, None)
       else if skip then retV (EPERM, None)
       else
         bindV (create_upcall E dnid cnp vap c) (\<lambda>(err, fdi, old).
           if err \<noteq> 0 then retV (err, None)
           else
             bindV (answer fdi (sizeof 8 fuse_entry_out)) (\<lambda>a0.
             let feo = entry_out_at a0; err1 = fuse_internal_checkentry feo VREG
             in if err1 \<noteq> 0 then seqV (drop_ticket E fdi) (retV (err1, None))
                else
                  bindV (FSNodeGetOrCreateFileVNodeByID E (if old then 0 else FN_CREATING) feo (Some dvp))
                    (\<lambda>(err2, vno).
                    if err2 \<noteq> 0 then
                      seqV (if old then forget_sendV E c (feo_nodeid feo) fdi
                            else
                              bindV (answer fdi (sizeof 8 fuse_entry_out + 8)) (\<lambda>a.
                                create_release E (feo_nodeid feo) (u64_at (sizeof 8 fuse_entry_out) a)
                                  (MAKEIMODE (va_type vap) (va_mode vap)) fdi c))
                        (retV (err2, None))
                    else
                      bindV (outV (of_option vno)) (\<lambda>vn.
                      seqV (whenV (\<not> old)
                              (bindV (answer fdi (sizeof 8 fuse_entry_out + 12)) (\<lambda>a.
                               seqV (updfud vn (upd_fufh FUFH_RDWR (\<lambda>f.
                                       f\<lparr>fh_id := u64_at (sizeof 8 fuse_entry_out) a,
                                         open_flags := u32_at (sizeof 8 fuse_entry_out + 8) a,
                                         open_count := 1\<rparr>)))
                                 (countV (\<lambda>g. g\<lparr>fuse_fh_current := fuse_fh_current g + 1\<rparr>)))))
                     (seqV (docallV E (Kcall ''cache_purge_negatives'' [dvp] [] []))
                     (seqV (drop_ticket E fdi)
                     (seqV (FUSE_KNOTE E dvp NOTE_WRITE) (retV (0, Some vn)))))))))))))"

section \<open>Lookup\<close>

text \<open>What the name is looked up for (\<^verbatim>\<open>cn_nameiop\<close>).\<close>

definition OP_LOOKUP :: nat where "OP_LOOKUP = 0"
definition OP_CREATE :: nat where "OP_CREATE = 1"
definition OP_DELETE :: nat where "OP_DELETE = 2"
definition OP_RENAME :: nat where "OP_RENAME = 3"

definition vnode_getV :: "venv \<Rightarrow> vnode \<Rightarrow> (errno \<times> vnode option) vm" where
  "vnode_getV E vp =
     bindV (callV E (Kcall ''vnode_get'' [vp] [] [])) (\<lambda>err. retV (err, if err = 0 then Some vp else None))"

text \<open>The name cache of the kernel: \<open>None\<close> when the daemon has to be asked.\<close>

definition lookup_cache :: "venv \<Rightarrow> vnode \<Rightarrow> componentname \<Rightarrow> (errno \<times> vnode option) option vm" where
  "lookup_cache E dvp cnp =
     bindV (getV (\<lambda>v. ve_cache_lookup E dvp (cn_name cnp) (vdata.truncate v))) (\<lambda>(err, vno).
       if err = - 1 then
         bindV (outV (of_option vno)) (\<lambda>vn. bindV (VTOFUD vn) (\<lambda>d. bindV sessionV (\<lambda>s.
           if fuse_isnovncache s d then
             seqV (fuse_vncache_purge E vn)
            (seqV (docallV E (Kcall ''vnode_put'' [vn] [] []))
            (seqV (countV (\<lambda>g. g\<lparr>fuse_lookup_cache_overrides := fuse_lookup_cache_overrides g + 1\<rparr>))
               (retV None)))
           else
             seqV (countV (\<lambda>g. g\<lparr>fuse_lookup_cache_hits := fuse_lookup_cache_hits g + 1\<rparr>))
               (retV (Some (0, Some vn))))))
       else if err = 0 then
         seqV (countV (\<lambda>g. g\<lparr>fuse_lookup_cache_misses := fuse_lookup_cache_misses g + 1\<rparr>)) (retV None)
       else retV (Some (err, None)))"

text \<open>
  What is done with an answer that is no error. The attributes are at offset \<open>off\<close> of the answer.
  The error of \<^verbatim>\<open>vnode_get\<close> on the parent is not looked at before the attributes are cached,
  so there is no vnode to cache them with. When the answer is that of \<^verbatim>\<open>GETATTR\<close>, the
  test for a volume without a buffer cache is made on a null vnode.
\<close>

definition lookup_found ::
    "venv \<Rightarrow> fuse_opcode \<Rightarrow> vnode option \<Rightarrow> bool \<Rightarrow> fuse_dispatcher \<Rightarrow> vnode \<Rightarrow> componentname \<Rightarrow>
     (errno \<times> vnode option) vm" where
  "lookup_found E op pdp isdot fdi dvp cnp =
     (let off = (if op = FUSE_GETATTR then 16 else 40)
      in bindV (answer fdi (off + sizeof 8 fuse_attr)) (\<lambda>a.
         let fat = fattr_at off a;
             feo = (if op = FUSE_GETATTR then None else Some (entry_out_at a));
             valid = (if op = FUSE_GETATTR then (fao_attr_valid (attr_out_at a), fao_attr_valid_nsec (attr_out_at a))
                      else (feo_attr_valid (entry_out_at a), feo_attr_valid_nsec (entry_out_at a)))
         in if fa_mode fat AND S_IFMT = 0 then retV (EIO, None)
            else if cn_nameiop cnp = OP_DELETE \<and> cn_islastcn cnp then
              (if isdot then vnode_getV E dvp else fuse_vget_i E 0 feo cnp dvp)
            else if cn_nameiop cnp = OP_RENAME \<and> cn_islastcn cnp \<and> cn_wantparent cnp then
              (if isdot then retV (EISDIR, None) else fuse_vget_i E 0 feo cnp dvp)
            else
              bindV (case pdp of
                       Some p \<Rightarrow> vnode_getV E p
                     | None \<Rightarrow> if isdot then vnode_getV E dvp else fuse_vget_i E 0 feo cnp dvp) (\<lambda>(err, vno).
                if op = FUSE_LOOKUP \<and> err \<noteq> 0 then retV (err, None)
                else
                  bindV (outV (of_option vno)) (\<lambda>vn. bindV (vtypeV vn) (\<lambda>vt.
                  seqV (whenV (vt = VREG)
                          (if op = FUSE_GETATTR then outV BadAccess
                           else
                             bindV (VTOFUD vn) (\<lambda>d. bindV sessionV (\<lambda>s.
                               whenV (fuse_isnoubc s d) (updfud vn (\<lambda>x. x\<lparr>filesize := sint (fa_size fat)\<rparr>))))))
                 (seqV (cache_attrs E vn fdi (fst valid) (snd valid) off) (retV (err, Some vn))))))))"

text \<open>
  The upcall for a name. A node id of 0 is an entry that the daemon says does not exist, and the id of
  the root is refused; in both cases the answered ticket is not given back.
\<close>

definition lookup_call ::
    "venv \<Rightarrow> fuse_opcode \<Rightarrow> u64 \<Rightarrow> vnode option \<Rightarrow> bool \<Rightarrow> vnode \<Rightarrow> componentname \<Rightarrow> vfs_context \<Rightarrow>
     (errno \<times> vnode option) vm" where
  "lookup_call E op nid pdp isdot dvp cnp c =
     bindV (sessV (fdisp_make (ve_k E)
              (fdisp_init fdisp_uninit (if op = FUSE_LOOKUP then cn_namelen cnp + 1 else 0)) op nid (Some c)))
       (\<lambda>fdi.
     seqV (whenV (op = FUSE_LOOKUP) (poke_name fdi 0 (cn_name cnp)))
    (bindV (wait_answ E fdi) (\<lambda>(err0, fdi1).
     bindV (if op = FUSE_LOOKUP \<and> err0 = 0 then
              bindV (answer fdi1 (sizeof 8 fuse_entry_out)) (\<lambda>a.
                let n = feo_nodeid (entry_out_at a)
                in retV (if n = 0 then (ENOENT, ENOENT, n)
                         else if n = FUSE_ROOT_ID then (EINVAL, fd_answ_stat fdi1, n)
                         else (0, fd_answ_stat fdi1, n)))
            else retV (err0, fd_answ_stat fdi1, nid)) (\<lambda>(lookup_err, stat, nid1).
       if lookup_err \<noteq> 0 \<and> (stat = 0 \<or> lookup_err \<noteq> ENOENT \<or> op \<noteq> FUSE_LOOKUP) then retV (lookup_err, None)
       else if lookup_err \<noteq> 0 then
         (if (cn_nameiop cnp = OP_CREATE \<or> cn_nameiop cnp = OP_RENAME) \<and> cn_islastcn cnp
          then retV (EJUSTRETURN, None)
          else
            bindV sessionV (\<lambda>s.
            seqV (whenV (fuse_isnegativevncache_mp s \<and> cn_makeentry cnp \<and> cn_nameiop cnp \<noteq> OP_CREATE)
                    (fuse_vncache_enter E dvp None (cn_name cnp)))
              (retV (ENOENT, None))))
       else
         bindV (lookup_found E op pdp isdot fdi1 dvp cnp) (\<lambda>(err, vno).
           if err \<noteq> 0 then
             seqV (whenV (op = FUSE_LOOKUP) (forget_sendV E c nid1 fdi1)) (retV (err, None))
           else
             bindV (outV (of_option vno)) (\<lambda>vn. bindV (vtypeV vn) (\<lambda>vt.
             if \<not> cn_islastcn cnp \<and> vt \<noteq> VDIR \<and> vt \<noteq> VLNK then
               seqV (docallV E (Kcall ''vnode_put'' [vn] [] []))
                 (seqV (drop_ticket E fdi1) (retV (ENOTDIR, None)))
             else seqV (drop_ticket E fdi1) (retV (0, Some vn)))))))))"

definition fuse_vnop_lookup ::
    "venv \<Rightarrow> vnode \<Rightarrow> componentname \<Rightarrow> vfs_context \<Rightarrow> (errno \<times> vnode option) vm" where
  "fuse_vnop_lookup E dvp cnp c =
     bindV (isdeadV dvp) (\<lambda>dead. bindV (skip_double cnp) (\<lambda>skip. bindV (vtypeV dvp) (\<lambda>vt. bindV (getV v_mp) (\<lambda>mp.
       if dead then retV (ENOTDIR, None)
       else if skip then retV (ENOENT, None)
       else if vt \<noteq> VDIR then retV (ENOTDIR, None)
       else if cn_islastcn cnp \<and> mp_rdonly mp \<and> cn_nameiop cnp \<noteq> OP_LOOKUP then retV (EROFS, None)
       else if cn_namelen cnp > FUSE_MAXNAMLEN then retV (ENAMETOOLONG, None)
       else if cn_isdotdot cnp then
         bindV (VTOFUD dvp) (\<lambda>d. bindV (outV (of_option (parentvp d))) (\<lambda>pdp. bindV (VTOI pdp) (\<lambda>nid.
           lookup_call E FUSE_GETATTR nid (Some pdp) False dvp cnp c)))
       else if cn_name cnp = [46] then
         bindV (VTOI dvp) (\<lambda>nid. lookup_call E FUSE_GETATTR nid None True dvp cnp c)
       else
         bindV (lookup_cache E dvp cnp) (\<lambda>r.
           case r of
             Some res \<Rightarrow> retV res
           | None \<Rightarrow> bindV (VTOI dvp) (\<lambda>nid. lookup_call E FUSE_LOOKUP nid None False dvp cnp c))))))"

section \<open>Removal\<close>

definition fuse_internal_remove_callback :: "u64 \<Rightarrow> vnode \<Rightarrow> unit vm" where
  "fuse_internal_remove_callback target_nlink vp =
     bindV (VTOFUD vp) (\<lambda>d. bindV (vtypeV vp) (\<lambda>vt.
       whenV (va_nlink (cached_attr d) = target_nlink \<and> vt = VREG) (invalidate_attrV vp)))"

definition fuse_internal_remove ::
    "venv \<Rightarrow> vnode \<Rightarrow> vnode \<Rightarrow> componentname \<Rightarrow> fuse_opcode \<Rightarrow> vfs_context \<Rightarrow> errno vm" where
  "fuse_internal_remove E dvp vp cnp op c =
     bindV (fdisp_make_vp E (fdisp_init fdisp_uninit (cn_namelen cnp + 1)) op dvp (Some c)) (\<lambda>fdi.
     seqV (poke_name fdi 0 (cn_name cnp))
    (bindV (VTOFUD vp) (\<lambda>d. bindV (vtypeV vp) (\<lambda>vt.
     let target_nlink = va_nlink (cached_attr d); need_invalidate = (target_nlink > 1 \<and> vt = VREG)
     in bindV (wait_answ E fdi) (\<lambda>(err, fdi1).
        seqV (whenV (err = 0) (drop_ticket E fdi1))
       (seqV (invalidate_attrV dvp) (seqV (invalidate_attrV vp)
       (seqV (whenV (need_invalidate \<and> err = 0)
                (bindV (callV E (Kcall ''vfs_busy'' [vp] [] [])) (\<lambda>busy.
                   whenV (busy = 0)
                     (bindV (getV (\<lambda>v. ve_iterate E (vdata.truncate v))) (\<lambda>vps.
                      seqV (forV vps (fuse_internal_remove_callback target_nlink))
                        (docallV E (Kcall ''vfs_unbusy'' [vp] [] [])))))))
          (retV err)))))))))"

definition VNODE_REMOVE_NODELETEBUSY :: u32 where "VNODE_REMOVE_NODELETEBUSY = 1"

definition fuse_vnop_remove ::
    "venv \<Rightarrow> vnode \<Rightarrow> vnode \<Rightarrow> componentname \<Rightarrow> u32 \<Rightarrow> vfs_context \<Rightarrow> errno vm" where
  "fuse_vnop_remove E dvp vp cnp flags c =
     bindV sessionV (\<lambda>s. bindV (deniedV vp c) (\<lambda>denied. bindV (vtypeV vp) (\<lambda>vt.
       if fuse_isdeadfs_mp s then panicV
       else if denied then retV ENOENT
       else if vt = VDIR then retV EPERM
       else
         bindV (if has_flag flags VNODE_REMOVE_NODELETEBUSY then callV E (Kcall ''vnode_isinuse'' [vp] [0] [])
                else retV 0) (\<lambda>inuse.
           if inuse \<noteq> 0 then retV EBUSY
           else
             seqV (fuse_vncache_purge E vp)
            (bindV (fuse_internal_remove E dvp vp cnp FUSE_UNLINK c) (\<lambda>err.
             seqV (whenV (err = 0)
                     (seqV (FUSE_KNOTE E vp NOTE_DELETE)
                     (seqV (FUSE_KNOTE E dvp NOTE_WRITE)
                     (seqV (fuse_vncache_purge E vp) (invalidate_attrV dvp)))))
               (retV err)))))))"

definition fuse_vnop_rmdir ::
    "venv \<Rightarrow> vnode \<Rightarrow> vnode \<Rightarrow> componentname \<Rightarrow> vfs_context \<Rightarrow> errno vm" where
  "fuse_vnop_rmdir E dvp vp cnp c =
     bindV sessionV (\<lambda>s. bindV (deniedV vp c) (\<lambda>denied. bindV (getV (\<lambda>v. fud_of v vp = fud_of v dvp)) (\<lambda>same.
       if fuse_isdeadfs_mp s then panicV
       else if denied then retV ENOENT
       else if same then retV EINVAL
       else
         seqV (fuse_vncache_purge E vp)
        (bindV (fuse_internal_remove E dvp vp cnp FUSE_RMDIR c) (\<lambda>err.
         seqV (whenV (err = 0)
                 (seqV (invalidate_attrV dvp)
                 (seqV (FUSE_KNOTE E dvp (NOTE_WRITE OR NOTE_LINK)) (FUSE_KNOTE E vp NOTE_DELETE))))
           (retV err))))))"

section \<open>Rename\<close>

definition fuse_internal_rename ::
    "venv \<Rightarrow> vnode \<Rightarrow> componentname \<Rightarrow> vnode \<Rightarrow> componentname \<Rightarrow> vfs_context \<Rightarrow> errno vm" where
  "fuse_internal_rename E fdvp fcnp tdvp tcnp c =
     (let n = sizeof 8 fuse_rename_in
      in bindV (fdisp_make_vp E (fdisp_init fdisp_uninit (n + cn_namelen fcnp + cn_namelen tcnp + 2))
                  FUSE_RENAME fdvp (Some c)) (\<lambda>fdi.
         bindV (VTOI tdvp) (\<lambda>newdir.
         seqV (poke64 fdi 0 newdir)
        (seqV (poke_name fdi n (cn_name fcnp))
        (seqV (poke_name fdi (n + cn_namelen fcnp + 1) (cn_name tcnp))
        (bindV (wait_answ E fdi) (\<lambda>(err, fdi1).
         seqV (whenV (err = 0) (drop_ticket E fdi1))
        (seqV (whenV (err = 0)
                 (seqV (invalidate_attrV fdvp) (whenV (tdvp \<noteq> fdvp) (invalidate_attrV tdvp))))
           (retV err)))))))))"

definition fuse_vnop_rename ::
    "venv \<Rightarrow> vnode \<Rightarrow> vnode \<Rightarrow> componentname \<Rightarrow> vnode \<Rightarrow> vnode option \<Rightarrow> componentname \<Rightarrow> vfs_context \<Rightarrow>
     errno vm" where
  "fuse_vnop_rename E fdvp fvp fcnp tdvp tvp tcnp c =
     bindV sessionV (\<lambda>s. bindV (deniedV fdvp c) (\<lambda>denied.
       if fuse_isdeadfs_mp s then panicV
       else if denied then retV ENOENT
       else
         seqV (fuse_vncache_purge E fvp)
        (bindV (fuse_internal_rename E fdvp fcnp tdvp tcnp c) (\<lambda>err.
         seqV (whenV (err = 0)
                 (seqV (FUSE_KNOTE E fdvp NOTE_WRITE)
                 (seqV (invalidate_attrV fdvp)
                    (whenV (tdvp \<noteq> fdvp) (seqV (invalidate_attrV tdvp) (FUSE_KNOTE E tdvp NOTE_WRITE))))))
        (seqV (case tvp of
                 None \<Rightarrow> retV ()
               | Some t \<Rightarrow> whenV (t \<noteq> fvp) (seqV (fuse_vncache_purge E t) (FUSE_KNOTE E t NOTE_DELETE)))
        (bindV (vtypeV fvp) (\<lambda>ft. bindV (case tvp of None \<Rightarrow> retV VNON | Some t \<Rightarrow> vtypeV t) (\<lambda>tt.
         seqV (whenV (ft = VDIR)
                 (seqV (whenV (tt = VDIR) (fuse_vncache_purge E tdvp)) (fuse_vncache_purge E fdvp)))
        (seqV (whenV (err = 0) (FUSE_KNOTE E fvp NOTE_RENAME)) (retV err))))))))))"

section \<open>Exchange\<close>

text \<open>
  The exchange of the names and parents that the kernel has for two vnodes, written straight into its
  structures; the two branches for the versions of the kernel do the same.
\<close>

definition fuse_kludge_exchange :: "vnode \<Rightarrow> vnode \<Rightarrow> unit vm" where
  "fuse_kludge_exchange v1 v2 =
     modV (\<lambda>v. v\<lparr>vn_name := (vn_name v)(v1 := vn_name v v2, v2 := vn_name v v1),
                  vn_parent := (vn_parent v)(v1 := vn_parent v v2, v2 := vn_parent v v1)\<rparr>)"

text \<open>What is done when the daemon has exchanged the files.\<close>

definition exchange_done :: "venv \<Rightarrow> vnode \<Rightarrow> vnode \<Rightarrow> vnode \<Rightarrow> vnode \<Rightarrow> unit vm" where
  "exchange_done E fvp fdvp tvp tdvp =
     seqV (invalidate_attrV fdvp)
    (seqV (whenV (tdvp \<noteq> fdvp) (invalidate_attrV tdvp))
    (seqV (invalidate_attrV fvp) (seqV (invalidate_attrV tvp)
    (seqV (docallV E (Kcall ''cache_purge'' [fvp] [] []))
    (seqV (docallV E (Kcall ''cache_purge'' [tvp] [] []))
    (bindV (VTOFUD fvp) (\<lambda>ffud. bindV (VTOFUD tvp) (\<lambda>tfud.
     seqV (updfud fvp (\<lambda>x. x\<lparr>filesize := filesize tfud\<rparr>))
    (seqV (updfud tvp (\<lambda>x. x\<lparr>filesize := filesize ffud\<rparr>))
    (seqV (ubc_setsizeV E fvp (filesize tfud))
    (seqV (ubc_setsizeV E tvp (filesize ffud)) (fuse_kludge_exchange fvp tvp))))))))))))"

definition fuse_internal_exchange ::
    "venv \<Rightarrow> vnode \<Rightarrow> bytes \<Rightarrow> vnode \<Rightarrow> bytes \<Rightarrow> int \<Rightarrow> vfs_context \<Rightarrow> errno vm" where
  "fuse_internal_exchange E fvp fname tvp tname opts c =
     (let n = sizeof 8 fuse_exchange_in
      in bindV (VTOFUD fvp) (\<lambda>ffud. bindV (VTOFUD tvp) (\<lambda>tfud.
         bindV (fdisp_make_vp E (fdisp_init fdisp_uninit (n + length fname + length tname + 2))
                  FUSE_EXCHANGE fvp (Some c)) (\<lambda>fdi.
         bindV (outV (of_option (parentvp ffud))) (\<lambda>fdvp.
         bindV (outV (of_option (parentvp tfud))) (\<lambda>tdvp.
         bindV (VTOI fdvp) (\<lambda>olddir. bindV (VTOI tdvp) (\<lambda>newdir.
         seqV (poke64 fdi 0 olddir)
        (seqV (poke64 fdi 8 newdir)
        (seqV (poke64 fdi 16 (word_of_int opts))
        (seqV (poke_name fdi n fname)
        (seqV (poke_name fdi (n + length fname + 1) tname)
        (seqV (ubc_flush_all E fvp (filesize ffud))
        (bindV (VTOFUD tvp) (\<lambda>tfud1.
         seqV (ubc_flush_all E tvp (filesize tfud1))
        (bindV (wait_answ E fdi) (\<lambda>(err, fdi1).
         seqV (whenV (err = 0) (drop_ticket E fdi1))
        (seqV (whenV (err = 0) (exchange_done E fvp fdvp tvp tdvp)) (retV err)))))))))))))))))))"

definition apple_double_name :: "bytes \<Rightarrow> bool" where
  "apple_double_name nm \<longleftrightarrow> length nm > 2 \<and> take 2 nm = [46, 95]"

definition fuse_vnop_exchange ::
    "venv \<Rightarrow> vnode \<Rightarrow> vnode \<Rightarrow> int \<Rightarrow> vfs_context \<Rightarrow> errno vm" where
  "fuse_vnop_exchange E fvp tvp opts c =
     bindV sessionV (\<lambda>s. bindV (getV (\<lambda>v. vn_mount v fvp \<noteq> vn_mount v tvp)) (\<lambda>other.
       if other then retV EXDEV
       else if \<not> fuse_implemented s (FSESS_NOIMPLBIT FUSE_EXCHANGE) then retV ENOTSUP
       else
         bindV (VTOFUD fvp) (\<lambda>d. bindV (vtypeV fvp) (\<lambda>ft. bindV (vtypeV tvp) (\<lambda>tt.
           if fuse_isnovncache s d then retV ENOTSUP
           else if fvp = tvp then retV EINVAL
           else if ft \<noteq> VREG \<or> tt \<noteq> VREG then retV EINVAL
           else if fuse_isdeadfs_mp s then panicV
           else
             bindV (getV (\<lambda>v. vn_name v fvp)) (\<lambda>fn. bindV (getV (\<lambda>v. vn_name v tvp)) (\<lambda>tn.
               case fn of
                 None \<Rightarrow> retV EIO
               | Some fname \<Rightarrow>
                   (case tn of
                      None \<Rightarrow> seqV (docallV E (Kcall ''vnode_putname'' [] [] fname)) (retV EIO)
                    | Some tname \<Rightarrow>
                        bindV (if apple_double_name fname \<or> apple_double_name tname then retV EINVAL
                               else
                                 bindV (fuse_internal_exchange E fvp fname tvp tname opts c) (\<lambda>err.
                                   if err = ENOSYS then seqV (clear_implemented FUSE_EXCHANGE) (retV ENOTSUP)
                                   else retV err)) (\<lambda>err.
                        seqV (docallV E (Kcall ''vnode_putname'' [] [] fname))
                       (seqV (docallV E (Kcall ''vnode_putname'' [] [] tname))
                       (seqV (whenV (err = 0)
                                (seqV (FUSE_KNOTE E fvp NOTE_ATTRIB) (FUSE_KNOTE E tvp NOTE_ATTRIB)))
                          (retV err))))))))))))"

end
