(* ===== verification/Fuse_Vnops_IO.thy ===== *)
theory Fuse_Vnops_IO
  imports Fuse_Vnops_File
begin

text \<open>
  The vnode operations that move data (\<^verbatim>\<open>fuse_vnops.c\<close>, with
  \<^verbatim>\<open>fuse_internal_readdir\<close> and \<^verbatim>\<open>fuse_internal_strategy\<close> of
  \<^verbatim>\<open>fuse_internal.c\<close>): reading and writing with and without the kernel's cache, listing
  directories, symbolic links, pages and blocks. What the cluster layer of the kernel does to the buffer
  of the caller is a parameter.
\<close>

section \<open>Reading\<close>

text \<open>The kernel's \<^verbatim>\<open>min\<close> works on 32-bit numbers.\<close>

definition kmin :: "nat \<Rightarrow> nat \<Rightarrow> nat" where
  "kmin a b = min (a mod 2 ^ 32) (b mod 2 ^ 32)"

text \<open>The slot a transfer uses: the one for its direction, else the one for both.\<close>

definition io_fufh :: "fuse_vnode_data \<Rightarrow> fufh_type \<Rightarrow> fufh_type option" where
  "io_fufh d ty =
     (if FUFH_IS_VALID (fufh d ty) then Some ty
      else if FUFH_IS_VALID (fufh d FUFH_RDWR) then Some FUFH_RDWR else None)"

definition poke_read :: "fuse_dispatcher \<Rightarrow> u64 \<Rightarrow> int \<Rightarrow> nat \<Rightarrow> unit vm" where
  "poke_read fdi fh off sz =
     seqV (poke64 fdi 0 fh) (seqV (poke64 fdi 8 (word_of_int off)) (poke32 fdi 16 (word_of_nat sz)))"

text \<open>
  The loops below send one request in every round, so the number of requests that get an answer
  bounds the rounds; the first argument counts them.
\<close>

definition roundsV :: "nat vm" where "roundsV = getV (\<lambda>v. Suc (length (v_waits v)))"

fun read_direct ::
    "nat \<Rightarrow> venv \<Rightarrow> vnode \<Rightarrow> fufh_type \<Rightarrow> vfs_context \<Rightarrow> fuse_dispatcher \<Rightarrow> errno \<Rightarrow> fs_uio \<Rightarrow> (errno \<times> fs_uio) vm"
  where
  "read_direct 0 E vp ty c fdi err u = (\<lambda>_. V_Asleep)"
| "read_direct (Suc n) E vp ty c fdi err u =
     (let finish = (\<lambda>e fd u1. seqV (drop_ticket E fd) (retV (if e = - 1 then 0 else e, u1)))
      in if uio_resid (fu_uio u) = 0 then finish err fdi u
         else
           bindV (fdisp_make_vp E (fdi\<lparr>fd_iosize := sizeof 8 fuse_read_in\<rparr>) FUSE_READ vp (Some c)) (\<lambda>fd1.
           bindV (fufhV vp ty) (\<lambda>f. bindV sessionV (\<lambda>s.
           let sz = kmin (uio_resid (fu_uio u)) (unat (iosize s))
           in seqV (poke_read fd1 (fh_id f) (fu_offset u) sz)
             (bindV (wait_answ E fd1) (\<lambda>(e, fd2).
                if e \<noteq> 0 then retV (e, u)
                else
                  bindV (answer fd2 (kmin sz (fd_iosize fd2))) (\<lambda>a.
                    case uiomove_to_user (ve_k E) a (int_of_size (kmin sz (fd_iosize fd2))) u of (e1, u1) \<Rightarrow>
                      if e1 \<noteq> 0 then finish e1 fd2 u1
                      else if fd_iosize fd2 < sz then finish (- 1) fd2 u1
                      else read_direct n E vp ty c fd2 0 u1)))))))"

definition IO_NOCACHE :: u32 where "IO_NOCACHE = 0x800"

definition fuse_vnop_read :: "venv \<Rightarrow> vnode \<Rightarrow> fs_uio \<Rightarrow> u32 \<Rightarrow> vfs_context \<Rightarrow> (errno \<times> fs_uio) vm" where
  "fuse_vnop_read E vp u ioflag c =
     bindV (isdeadV vp) (\<lambda>dead. bindV (vtypeV vp) (\<lambda>vt. bindV (VTOFUD vp) (\<lambda>d. bindV sessionV (\<lambda>s.
       if dead then retV (if vt \<noteq> VCHR then EIO else 0, u)
       else if vt \<noteq> VREG then retV (if vt = VDIR then EISDIR else EPERM, u)
       else if uio_resid (fu_uio u) = 0 then retV (0, u)
       else if fu_offset u < 0 then retV (EINVAL, u)
       else if \<not> fuse_isdirectio s d then
         let flags = (if fuse_isnoubc s d then ioflag OR IO_NOCACHE else ioflag)
         in bindV (callV E (Kcall ''cluster_read'' [vp] [filesize d, uint flags] [])) (\<lambda>res.
              retV (res, ve_cluster_read E u))
       else (case io_fufh d FUFH_RDONLY of
           None \<Rightarrow> retV (EIO, u)
         | Some ty \<Rightarrow>
             bindV roundsV (\<lambda>n. read_direct n E vp ty c (fdisp_init fdisp_uninit 0) EIO u))))))"

section \<open>Directories\<close>

definition process_listing ::
    "venv \<Rightarrow> bytes \<Rightarrow> fs_uio \<Rightarrow> fuse_iov \<Rightarrow> (errno \<times> nat option \<times> fs_uio \<times> fuse_iov) vm" where
  "process_listing E buf u iov =
     sessV (\<lambda>s.
       bind_outcome
         (fuse_internal_readdir_processdata (ve_k E) s buf \<lparr>rd_uio = u, rd_iov = iov, rd_cnt = cnt s\<rparr>)
         (\<lambda>(err, n, st). Done ((err, n, rd_uio st, rd_iov st), s\<lparr>cnt := rd_cnt st\<rparr>)))"

fun readdir_rounds ::
    "nat \<Rightarrow> venv \<Rightarrow> vnode \<Rightarrow> vfs_context \<Rightarrow> fufh_type \<Rightarrow> fuse_dispatcher \<Rightarrow> errno \<Rightarrow> nat option \<Rightarrow> fs_uio \<Rightarrow>
     fuse_iov \<Rightarrow> (errno \<times> nat option \<times> fs_uio \<times> fuse_iov) vm" where
  "readdir_rounds 0 E vp c ty fdi err nd u iov = (\<lambda>_. V_Asleep)"
| "readdir_rounds (Suc n) E vp c ty fdi err nd u iov =
     (if uio_resid (fu_uio u) = 0 then
        seqV (drop_ticket E fdi) (retV (if err = - 1 then 0 else err, nd, u, iov))
      else
        bindV (fdisp_make_vp E (fdi\<lparr>fd_iosize := sizeof 8 fuse_read_in\<rparr>) FUSE_READDIR vp (Some c)) (\<lambda>fd1.
        bindV (fufhV vp ty) (\<lambda>f. bindV sessionV (\<lambda>s.
        seqV (poke_read fd1 (fh_id f) (fu_offset u) (kmin (uio_resid (fu_uio u)) (unat (iosize s))))
       (bindV (wait_answ E fd1) (\<lambda>(e, fd2).
          if e \<noteq> 0 then retV (if e = - 1 then 0 else e, nd, u, iov)
          else
            bindV (answer fd2 (fd_iosize fd2)) (\<lambda>a.
            bindV (process_listing E (take (fd_iosize fd2) a) u iov) (\<lambda>(e1, nd1, u1, iov1).
              let nd2 = (case nd1 of None \<Rightarrow> nd | Some _ \<Rightarrow> nd1)
              in if e1 \<noteq> 0 then
                   seqV (drop_ticket E fd2) (retV (if e1 = - 1 then 0 else e1, nd2, u1, iov1))
                 else readdir_rounds n E vp c ty fd2 0 nd2 u1 iov1))))))))"

definition fuse_internal_readdir ::
    "venv \<Rightarrow> vnode \<Rightarrow> fs_uio \<Rightarrow> vfs_context \<Rightarrow> fufh_type \<Rightarrow> fuse_iov \<Rightarrow>
     (errno \<times> nat option \<times> fs_uio \<times> fuse_iov) vm" where
  "fuse_internal_readdir E vp u c ty iov =
     (if uio_resid (fu_uio u) = 0 then retV (0, None, u, iov)
      else bindV roundsV (\<lambda>n.
        readdir_rounds n E vp c ty (fdisp_init fdisp_uninit 0) 0 None u iov))"

definition DIRCOOKEDSIZE :: nat where "DIRCOOKEDSIZE = 280"

definition fuse_vnop_readdir ::
    "venv \<Rightarrow> vnode \<Rightarrow> fs_uio \<Rightarrow> nat \<Rightarrow> bool \<Rightarrow> vfs_context \<Rightarrow> (errno \<times> nat option \<times> fs_uio) vm" where
  "fuse_vnop_readdir E vp u iovcnt special c =
     bindV (isdeadV vp) (\<lambda>dead. bindV (deniedV vp c) (\<lambda>denied.
       if dead then retV (EBADF, None, u)
       else if denied then retV (EPERM, None, u)
       else if special then retV (EINVAL, None, u)
       else if iovcnt > 1 \<or> uio_resid (fu_uio u) < sizeof 8 fuse_dirent_layout then retV (EINVAL, None, u)
       else
         bindV (fufhV vp FUFH_RDONLY) (\<lambda>f.
         bindV
           (if FUFH_IS_VALID f then
              seqV (countV (\<lambda>g. g\<lparr>fuse_fh_reuse_count := fuse_fh_reuse_count g + 1\<rparr>)) (retV 0)
            else fuse_filehandle_get E vp (Some c) FUFH_RDONLY 0) (\<lambda>err.
           if err \<noteq> 0 then retV (err, None, u)
           else
             bindV (sessV (\<lambda>s. bind_outcome (fiov_init (k_tun (ve_k E)) (k_osm (ve_k E)) DIRCOOKEDSIZE (cnt s))
                      (\<lambda>(iov, g). Done (iov, s\<lparr>cnt := g\<rparr>)))) (\<lambda>iov.
             bindV (fuse_internal_readdir E vp u c FUFH_RDONLY iov) (\<lambda>(err1, nd, u1, iov1).
             seqV (countV (\<lambda>g. snd (fiov_teardown iov1 g)))
            (seqV (whenV (\<not> FUFH_IS_VALID f)
                     (seqV (updfud vp (upd_fufh FUFH_RDONLY FUFH_USE_DEC))
                        (fuse_filehandle_put E vp (Some c) FUFH_RDONLY FUSE_OP_FOREGROUNDED)))
            (seqV (invalidate_attrV vp) (retV (err1, nd, u1))))))))))"

definition fuse_vnop_readlink :: "venv \<Rightarrow> vnode \<Rightarrow> fs_uio \<Rightarrow> vfs_context \<Rightarrow> (errno \<times> fs_uio) vm" where
  "fuse_vnop_readlink E vp u c =
     bindV (isdeadV vp) (\<lambda>dead. bindV (deniedV vp c) (\<lambda>denied. bindV (vtypeV vp) (\<lambda>vt.
       if dead then retV (EBADF, u)
       else if denied then retV (ENOENT, u)
       else if vt \<noteq> VLNK then retV (EINVAL, u)
       else
         bindV (simple_putget_vp E FUSE_READLINK vp (Some c)) (\<lambda>(err, fdi).
           if err \<noteq> 0 then retV (err, u)
           else
             bindV (answer fdi (max 1 (fd_iosize fdi))) (\<lambda>a. bindV sessionV (\<lambda>s. bindV (getV v_mp) (\<lambda>mp.
             let (err1, u1) =
                   (if a ! 0 = 0x2F \<and> has_flag (dataflags s) FSESS_JAIL_SYMLINKS
                    then uiomove_to_user (ve_k E) (mp_mntonname mp) (int_of_size (length (mp_mntonname mp))) u
                    else (0, u));
                 (err2, u2) =
                   (if err1 = 0 then uiomove_to_user (ve_k E) a (int_of_size (fd_iosize fdi)) u1 else (err1, u1))
             in seqV (drop_ticket E fdi) (seqV (invalidate_attrV vp) (retV (err2, u2))))))))))"

section \<open>Writing\<close>

abbreviation EFBIG :: errno where "EFBIG \<equiv> 27"

definition IO_UNIT :: u32 where "IO_UNIT = 1"
definition IO_APPEND :: u32 where "IO_APPEND = 2"
definition IO_HEADZEROFILL :: u32 where "IO_HEADZEROFILL = 0x80"

text \<open>\<^verbatim>\<open>uiomove\<close> from user space into a request.\<close>

definition uiomove_from_user ::
    "venv \<Rightarrow> fuse_dispatcher \<Rightarrow> nat \<Rightarrow> nat \<Rightarrow> ud_uio \<Rightarrow> (errno \<times> ud_uio) vm" where
  "uiomove_from_user E fdi off n u =
     (case k_uiomove_in (ve_k E) (int_of_size n) (ud_data u) of (err, c, rest) \<Rightarrow>
        seqV (poke fdi off c)
          (retV (err, u\<lparr>ud_data := rest, ud_resid := ud_resid u - length c,
                        ud_offset := ud_offset u + int (length c)\<rparr>)))"

text \<open>
  After a short write the length and the offset go back by the rest of the chunk; the position in
  the caller's memory does not.
\<close>

fun write_direct ::
    "nat \<Rightarrow> venv \<Rightarrow> vnode \<Rightarrow> fufh_type \<Rightarrow> vfs_context \<Rightarrow> fuse_dispatcher \<Rightarrow> ud_uio \<Rightarrow> (errno \<times> ud_uio) vm"
  where
  "write_direct 0 E vp ty c fdi u = (\<lambda>_. V_Asleep)"
| "write_direct (Suc n) E vp ty c fdi u =
     (if ud_resid u = 0 then seqV (invalidate_attrV vp) (seqV (drop_ticket E fdi) (retV (0, u)))
      else
        bindV sessionV (\<lambda>s.
        let chunksize = kmin (ud_resid u) (unat (iosize s))
        in bindV (fdisp_make_vp E (fdi\<lparr>fd_iosize := sizeof 8 fuse_write_in + chunksize\<rparr>) FUSE_WRITE vp (Some c))
             (\<lambda>fd1.
           bindV (fufhV vp ty) (\<lambda>f.
           seqV (poke_read fd1 (fh_id f) (ud_offset u) chunksize)
          (bindV (uiomove_from_user E fd1 (sizeof 8 fuse_write_in) chunksize u) (\<lambda>(error, u1).
             if error \<noteq> 0 then seqV (drop_ticket E fd1) (retV (error, u1))
             else
               bindV (wait_answ E fd1) (\<lambda>(error1, fd2).
                 if error1 \<noteq> 0 then retV (error1, u1)
                 else
                   bindV (answer fd2 (sizeof 8 fuse_write_out)) (\<lambda>a.
                   let written = unat (u32_at 0 a)
                   in if written > chunksize then seqV (drop_ticket E fd2) (retV (EINVAL, u1))
                      else
                        write_direct n E vp ty c fd2
                          (u1\<lparr>ud_resid := ud_resid u1 + (chunksize - written),
                             ud_offset := ud_offset u1 - int (chunksize - written)\<rparr>)))))))))"

definition fuse_vnop_write :: "venv \<Rightarrow> vnode \<Rightarrow> ud_uio \<Rightarrow> u32 \<Rightarrow> vfs_context \<Rightarrow> (errno \<times> ud_uio) vm" where
  "fuse_vnop_write E vp u ioflag c =
     bindV (isdeadV vp) (\<lambda>dead. bindV (vtypeV vp) (\<lambda>vt. bindV (VTOFUD vp) (\<lambda>d. bindV sessionV (\<lambda>s.
     bindV (getV v_mp) (\<lambda>mp.
       if dead then retV (EIO, u)
       else if vt = VDIR then retV (EISDIR, u)
       else if vt \<noteq> VREG then retV (EPERM, u)
       else if ud_resid u = 0 then retV (0, u)
       else if ud_offset u < 0 then retV (EINVAL, u)
       else if fuse_isdirectio s d then
         (case io_fufh d FUFH_WRONLY of
            None \<Rightarrow> retV (EIO, u)
          | Some ty \<Rightarrow> bindV roundsV (\<lambda>n. write_direct n E vp ty c (fdisp_init fdisp_uninit 0) u))
       else
         let original_size = filesize d;
             u1 = (if has_flag ioflag IO_APPEND then u\<lparr>ud_offset := filesize d\<rparr> else u);
             offset = ud_offset u1;
             newend = wrap64 (offset + int (ud_resid u));
             newsize = (if newend > original_size then newend else original_size);
             lflag = (ioflag AND (word_of_int IO_SYNC OR IO_NOCACHE))
                     OR (if fuse_isnoubc s d then word_of_int IO_SYNC OR IO_NOCACHE
                         else if mp_synchronous mp then word_of_int IO_SYNC else 0)
                     OR (if offset > original_size then IO_HEADZEROFILL else 0);
             zero_off = (if offset > original_size then original_size else 0)
         in if offset < 0 then retV (EFBIG, u1)
            else
              seqV (updfud vp (\<lambda>x. x\<lparr>filesize := newsize\<rparr>))
             (bindV (callV E (Kcall ''cluster_write'' [vp] [original_size, newsize, zero_off, uint lflag] [])) (\<lambda>error.
              let u2 = ve_cluster_write E u1
              in if error = 0 then
                   seqV
                     (if ud_offset u2 > original_size then
                        seqV (updfud vp (\<lambda>x. x\<lparr>filesize := ud_offset u2\<rparr>))
                       (seqV (ubc_setsizeV E vp (ud_offset u2)) (FUSE_KNOTE E vp (NOTE_WRITE OR NOTE_EXTEND)))
                      else
                        seqV (updfud vp (\<lambda>x. x\<lparr>filesize := original_size\<rparr>)) (FUSE_KNOTE E vp NOTE_WRITE))
                     (seqV (invalidate_attrV vp) (retV (0, u2)))
                 else if has_flag ioflag IO_UNIT then
                   retV (error, u2\<lparr>ud_offset := ud_offset u, ud_resid := ud_resid u\<rparr>)
                 else retV (if ud_resid u2 \<noteq> ud_resid u then 0 else error, u2))))))))"

section \<open>Pages\<close>

definition page_refused :: "venv \<Rightarrow> vnode \<Rightarrow> bool \<Rightarrow> errno vm" where
  "page_refused E vp nocommit =
     seqV (whenV (\<not> nocommit) (docallV E (Kcall ''ubc_upl_abort_range'' [vp] [] []))) (retV ENOTSUP)"

definition fuse_vnop_pagein :: "venv \<Rightarrow> vnode \<Rightarrow> int \<Rightarrow> nat \<Rightarrow> bool \<Rightarrow> errno vm" where
  "fuse_vnop_pagein E vp f_offset sz nocommit =
     bindV (isdeadV vp) (\<lambda>dead. bindV (VTOFUD vp) (\<lambda>d. bindV sessionV (\<lambda>s.
       if dead \<or> fuse_isdirectio s d then page_refused E vp nocommit
       else callV E (Kcall ''cluster_pagein'' [vp] [f_offset, int_of_size sz, filesize d] []))))"

definition fuse_vnop_pageout :: "venv \<Rightarrow> vnode \<Rightarrow> int \<Rightarrow> nat \<Rightarrow> bool \<Rightarrow> errno vm" where
  "fuse_vnop_pageout E vp f_offset sz nocommit =
     bindV (isdeadV vp) (\<lambda>dead. bindV (VTOFUD vp) (\<lambda>d. bindV sessionV (\<lambda>s.
       if dead \<or> fuse_isdirectio s d then page_refused E vp nocommit
       else callV E (Kcall ''cluster_pageout'' [vp] [f_offset, int_of_size sz, filesize d] []))))"

definition fuse_vnop_select :: "errno vm" where "fuse_vnop_select = retV 1"

section \<open>Blocks\<close>

text \<open>
  A buffer of the kernel: \<open>b_data\<close> is the memory it maps. While a request is out, the part of it that the
  request names belongs to the ticket; it comes back with the answer. (After an error the bytes here are
  those from before; the buffer is marked with the error.)
\<close>

record kbuf =
  b_read :: bool
  b_cluster :: bool
  b_upl :: bool
  b_count :: u32
  b_resid :: u32
  b_blkno :: int
  b_lblkno :: int
  b_data :: bytes

definition buf_fail :: "venv \<Rightarrow> errno \<Rightarrow> unit vm" where
  "buf_fail E err =
     seqV (docallV E (Kcall ''buf_seterror'' [] [err] [])) (docallV E (Kcall ''buf_biodone'' [] [] []))"

text \<open>The handle of a block transfer, which opens the file if it has no handle.\<close>

definition strategy_handle :: "venv \<Rightarrow> vnode \<Rightarrow> bool \<Rightarrow> (errno \<times> fufh_type) vm" where
  "strategy_handle E vp reading =
     bindV (VTOFUD vp) (\<lambda>d.
     seqV (whenV (has_flag (fv_flag d) FN_CREATING)
             (seqV (docallV E (Kcall ''lck_mtx_lock'' [vp] [] []))
                (bindV (VTOFUD vp) (\<lambda>d1.
                   whenV (has_flag (fv_flag d1) FN_CREATING) (callV E (Kcall ''msleep'' [vp] [] []))))))
    (bindV (VTOFUD vp) (\<lambda>d2.
       case io_fufh d2 (if reading then FUFH_RDONLY else FUFH_WRONLY) of
         Some ty \<Rightarrow>
           seqV (countV (\<lambda>g. g\<lparr>fuse_fh_reuse_count := fuse_fh_reuse_count g + 1\<rparr>)) (retV (0, ty))
       | None \<Rightarrow>
           let ty = (if reading then FUFH_RDONLY else FUFH_RDWR)
           in bindV (fuse_filehandle_get E vp None ty 0) (\<lambda>err.
                seqV (whenV (err = 0) (updfud vp (upd_fufh ty FUFH_AUX_INC))) (retV (err, ty))))))"

text \<open>Handing memory to the ticket of a request, and taking it back.\<close>

definition upd_ticketV :: "tid \<Rightarrow> (fuse_ticket \<Rightarrow> fuse_ticket) \<Rightarrow> unit vm" where
  "upd_ticketV t f = runsessV (upd_ticket t f)"

definition getticketV :: "tid \<Rightarrow> fuse_ticket vm" where
  "getticketV t = bindV sessionV (\<lambda>s. outV (ticket s t))"

fun strategy_read ::
    "nat \<Rightarrow> venv \<Rightarrow> vnode \<Rightarrow> fufh_type \<Rightarrow> vtype \<Rightarrow> fuse_dispatcher \<Rightarrow> nat \<Rightarrow> int \<Rightarrow> kbuf \<Rightarrow>
     (errno \<times> fuse_dispatcher option \<times> kbuf) vm" where
  "strategy_read 0 E vp ty vt fdi pos offset b = (\<lambda>_. V_Asleep)"
| "strategy_read (Suc n) E vp ty vt fdi pos offset b =
     (if b_resid b = 0 then retV (0, Some fdi, b)
      else
        bindV sessionV (\<lambda>s.
        let chunksize = kmin (unat (b_resid b)) (unat (iosize s))
        in bindV (fdisp_make_vp E (fdi\<lparr>fd_iosize := sizeof 8 fuse_read_in\<rparr>)
                    (if vt = VDIR then FUSE_READDIR else FUSE_READ) vp None) (\<lambda>fd1.
           bindV (fufhV vp ty) (\<lambda>f.
           seqV (poke_read fd1 (fh_id f) offset chunksize)
          (bindV (ticketV fd1) (\<lambda>t.
           seqV (upd_ticketV t (\<lambda>tk. tk\<lparr>tk_aw_type := FT_A_BUF, tk_aw_bufdata := Some (drop pos (b_data b))\<rparr>))
          (bindV (wait_answ E fd1) (\<lambda>(err, fd2).
             if err \<noteq> 0 then retV (err, None, b)
             else
               bindV (getticketV t) (\<lambda>tk.
               bindV (outV (of_option (tk_aw_bufdata tk))) (\<lambda>mem.
               let respsize = tk_aw_bufsize tk;
                   b1 = b\<lparr>b_data := take pos (b_data b) @ mem, b_resid := b_resid b - word_of_nat respsize\<rparr>;
                   pos1 = pos + respsize
               in if respsize = 0 \<and> b_resid b1 > 0 then
                    bindV (outV (store_at pos1 (replicate (unat (b_resid b1)) 0) (b_data b1))) (\<lambda>m.
                      retV (0, Some fd2, b1\<lparr>b_data := m, b_resid := 0\<rparr>))
                  else strategy_read n E vp ty vt fd2 pos1 (offset + int respsize) b1))))))))))"

fun strategy_write ::
    "nat \<Rightarrow> venv \<Rightarrow> vnode \<Rightarrow> fufh_type \<Rightarrow> fuse_dispatcher \<Rightarrow> nat \<Rightarrow> int \<Rightarrow> int \<Rightarrow> kbuf \<Rightarrow>
     (errno \<times> fuse_dispatcher option \<times> kbuf) vm" where
  "strategy_write 0 E vp ty fdi pos offset left b = (\<lambda>_. V_Asleep)"
| "strategy_write (Suc n) E vp ty fdi pos offset left b =
     (if left = 0 then retV (0, Some fdi, b)
      else
        bindV (fdisp_make_vp E (fdi\<lparr>fd_iosize := sizeof 8 fuse_write_in\<rparr>) FUSE_WRITE vp None) (\<lambda>fd1.
        bindV sessionV (\<lambda>s. bindV (fufhV vp ty) (\<lambda>f.
        let chunksize = kmin (nat left) (unat (iosize s))
        in seqV (poke_read fd1 (fh_id f) offset chunksize)
          (bindV (ticketV fd1) (\<lambda>t.
           seqV (upd_ticketV t (\<lambda>tk. tk\<lparr>tk_ms_type := FT_M_BUF, tk_ms_bufdata := Some (drop pos (b_data b)),
                                       tk_ms_bufsize := chunksize\<rparr>))
          (bindV (wait_answ E fd1) (\<lambda>(err, fd2).
             if err \<noteq> 0 then retV (err, None, b)
             else
               bindV (answer fd2 (sizeof 8 fuse_write_out)) (\<lambda>a.
               let written = unat (u32_at 0 a)
               in if written > chunksize then retV (EINVAL, Some fd2, b)
                  else strategy_write n E vp ty fd2 (pos + written) (offset + int written) (left - int written)
                         (b\<lparr>b_resid := b_resid b - word_of_nat written\<rparr>))))))))))"

text \<open>The end of a transfer; the ticket is dropped unless the wait has dropped it.\<close>

definition strategy_out :: "venv \<Rightarrow> errno \<times> fuse_dispatcher option \<times> kbuf \<Rightarrow> (errno \<times> kbuf) vm" where
  "strategy_out E r =
     (case r of (err, fdi, b) \<Rightarrow>
        seqV (case fdi of None \<Rightarrow> retV ()
              | Some fd \<Rightarrow> (case fd_tick fd of None \<Rightarrow> retV () | Some _ \<Rightarrow> drop_ticket E fd))
       (seqV (whenV (err \<noteq> 0) (docallV E (Kcall ''buf_seterror'' [] [err] [])))
       (seqV (docallV E (Kcall ''buf_unmap'' [] [] []))
       (seqV (docallV E (Kcall ''buf_biodone'' [] [] [])) (retV (err, b))))))"

definition fuse_internal_strategy :: "venv \<Rightarrow> vnode \<Rightarrow> kbuf \<Rightarrow> (errno \<times> kbuf) vm" where
  "fuse_internal_strategy E vp b =
     bindV (vtypeV vp) (\<lambda>vt.
       if vt \<noteq> VREG \<and> vt \<noteq> VDIR then retV (ENOTSUP, b)
       else
         bindV (strategy_handle E vp (b_read b)) (\<lambda>(err, ty).
           if err \<noteq> 0 then seqV (buf_fail E EIO) (retV (EIO, b))
           else if b_count b = 0 then retV (0, b)
           else
             bindV sessionV (\<lambda>s. bindV (VTOFUD vp) (\<lambda>d. bindV roundsV (\<lambda>n.
             let offset = wrap64 (b_blkno b * uint (blocksize s));
                 fdi = fdisp_init fdisp_uninit 0;
                 b1 = b\<lparr>b_resid := b_count b\<rparr>
             in if b_read b then
                  (if offset \<ge> filesize d then
                     seqV (whenV (offset \<noteq> filesize d) (docallV E (Kcall ''buf_seterror'' [] [EINVAL] [])))
                    (seqV (docallV E (Kcall ''buf_biodone'' [] [] [])) (retV (0, b1)))
                   else
                     let b2 = (if wrap64 (offset + uint (b_count b)) > filesize d
                               then b1\<lparr>b_count := word_of_int (filesize d - offset)\<rparr> else b1)
                     in bindV (callV E (Kcall ''buf_map'' [] [] [])) (\<lambda>merr.
                          if merr \<noteq> 0 then retV (EFAULT, b2)
                          else bindV (strategy_read n E vp ty vt fdi 0 offset b2) (strategy_out E)))
                else
                  bindV (callV E (Kcall ''buf_map'' [] [] [])) (\<lambda>merr.
                    if merr \<noteq> 0 then retV (EFAULT, b)
                    else bindV (strategy_write n E vp ty fdi 0 offset (uint (b_count b)) b1) (strategy_out E)))))))"

definition fuse_internal_strategy_buf :: "venv \<Rightarrow> vnode \<Rightarrow> kbuf \<Rightarrow> (errno \<times> kbuf) vm" where
  "fuse_internal_strategy_buf E vp b =
     bindV (vtypeV vp) (\<lambda>vt. bindV sessionV (\<lambda>s.
       if vt = VCHR \<or> vt = VBLK then panicV
       else if b_cluster b then fuse_internal_strategy E vp b
       else if b_upl b then bindV (callV E (Kcall ''cluster_bp'' [vp] [] [])) (\<lambda>r. retV (r, b))
       else if b_blkno b = b_lblkno b \<and> blocksize s = 0 then outV BadAccess
       else
         let blkno = (if b_blkno b = b_lblkno b
                      then cdiv (wrap64 (b_lblkno b * uint (blocksize s))) (uint (blocksize s)) else b_blkno b);
             b1 = (if b_blkno b = b_lblkno b then b\<lparr>b_blkno := blkno\<rparr> else b)
         in seqV (whenV (b_blkno b = b_lblkno b \<and> blkno = - 1) (docallV E (Kcall ''buf_clear'' [] [] [])))
              (if blkno = - 1 then seqV (docallV E (Kcall ''buf_biodone'' [] [] [])) (retV (0, b1))
               else fuse_internal_strategy E vp b1)))"

text \<open>A buffer without a vnode, or of a dead one, fails at once.\<close>

definition fuse_vnop_strategy :: "venv \<Rightarrow> vnode option \<Rightarrow> kbuf \<Rightarrow> (errno \<times> kbuf) vm" where
  "fuse_vnop_strategy E vpo b =
     (case vpo of
        None \<Rightarrow> seqV (buf_fail E EIO) (retV (EIO, b))
      | Some vp \<Rightarrow>
          bindV (isdeadV vp) (\<lambda>dead.
            if dead then seqV (buf_fail E EIO) (retV (EIO, b))
            else fuse_internal_strategy_buf E vp b))"

end
