(* ===== verification/Fuse_Vnops_Attr.thy ===== *)
theory Fuse_Vnops_Attr
  imports Fuse_Vnops_Dir Fuse_Vnops_IO
begin

text \<open>
  The vnode operations on attributes, extended attributes and the control calls
  (\<^verbatim>\<open>fuse_vnops.c\<close>, \<^verbatim>\<open>fuse_internal.c\<close>, \<^verbatim>\<open>fuse_knote.c\<close>).
  Where the code fills in a structure of its caller, the structure is a result.
\<close>

section \<open>Access\<close>

definition fuse_vnop_access :: "venv \<Rightarrow> vnode \<Rightarrow> u32 \<Rightarrow> vfs_context \<Rightarrow> errno vm" where
  "fuse_vnop_access E vp action c =
     bindV (isdeadV vp) (\<lambda>dead. bindV (isvrootV vp) (\<lambda>root. bindV sessionV (\<lambda>s. bindV (vtypeV vp) (\<lambda>vt.
       if dead then retV (if root then 0 else EBADF)
       else if \<not> has_flag (dataflags s) FSESS_INITED then
         retV (if root \<and> (fuse_vfs_context_issuser c \<or> fuse_match_cred (daemoncred s) (vc_cred c) = 0)
               then 0 else EBADF)
       else if vt = VLNK then retV 0
       else
         bindV (VTOFUD vp) (\<lambda>d.
           let noop = has_flag (fv_flag d) FN_ACCESS_NOOP
           in seqV (whenV noop (updfud vp (\<lambda>x. x\<lparr>fv_flag := clear_flag (fv_flag x) FN_ACCESS_NOOP\<rparr>)))
                (fuse_internal_access E vp action c
                   (if noop then FACCESS_FROM_VNOP else FACCESS_DO_ACCESS OR FACCESS_FROM_VNOP)))))))"

section \<open>Attributes\<close>

definition S_IRWXU :: u16 where "S_IRWXU = 0x1C0"

text \<open>The attributes of the root while there is no daemon to ask.\<close>

definition getattr_fake :: "vnode \<Rightarrow> (errno \<times> vnode_attr) vm" where
  "getattr_fake vp =
     bindV (vtypeV vp) (\<lambda>vt. bindV sessionV (\<lambda>s.
       retV (0, VATTR_SET_SUPPORTED {va_type_m, va_uid_m, va_gid_m, va_mode_m}
                  (vattr_zero\<lparr>va_type := vt, va_uid := cr_uid (daemoncred s), va_gid := cr_gid (daemoncred s),
                             va_mode := S_IRWXU\<rparr>))))"

text \<open>
  An answer of the daemon. A mode without a file type is an error that returns with the ticket still
  in use.
\<close>

definition getattr_answered ::
    "venv \<Rightarrow> vnode \<Rightarrow> vnode_attr \<Rightarrow> vfs_context \<Rightarrow> fuse_dispatcher \<Rightarrow> (errno \<times> vnode_attr) vm" where
  "getattr_answered E vp vap c fdi =
     bindV (answer fdi (sizeof 8 fuse_attr_out)) (\<lambda>a.
       let fao = attr_out_at a
       in if fa_mode (fao_attr fao) AND S_IFMT = 0 then retV (EIO, vap)
          else
            seqV (cache_attrs E vp fdi (fao_attr_valid fao) (fao_attr_valid_nsec fao) 16)
           (seqV (updfud vp (\<lambda>x. x\<lparr>fv_c_flag := clear_flag (fv_c_flag x) C_XTIMES_VALID\<rparr>))
           (bindV (fuse_internal_attr_loadvap E vp vap (Some c)) (\<lambda>vap1.
            bindV (vtypeV vp) (\<lambda>vt. bindV (VTOFUD vp) (\<lambda>d. bindV sessionV (\<lambda>s.
            bindV (answer fdi (sizeof 8 fuse_attr_out)) (\<lambda>a1.
            seqV (whenV (vt = VREG \<and> fuse_isnoubc s d)
                    (updfud vp (\<lambda>x. x\<lparr>filesize := sint (fa_size (fattr_at 16 a1))\<rparr>)))
           (seqV (drop_ticket E fdi)
              (if vt \<noteq> va_type vap1 \<and> \<not> (vt = VNON \<and> va_type vap1 \<noteq> VNON) then
                 seqV (fuse_internal_vnode_disappear E vp REVOKE_SOFT) (retV (EIO, vap1))
               else retV (0, vap1)))))))))))"

text \<open>\<open>vap\<close> is not the attributes cached with the vnode.\<close>

definition fuse_vnop_getattr ::
    "venv \<Rightarrow> vnode \<Rightarrow> vnode_attr \<Rightarrow> vfs_context \<Rightarrow> (errno \<times> vnode_attr) vm" where
  "fuse_vnop_getattr E vp vap c =
     bindV (isdeadV vp) (\<lambda>dead. bindV (isvrootV vp) (\<lambda>root. bindV (deniedV vp c) (\<lambda>denied.
     bindV sessionV (\<lambda>s. bindV (VTOFUD vp) (\<lambda>d.
       if dead then (if root then getattr_fake vp else retV (EBADF, vap))
       else if (\<not> root \<or> \<not> fuse_vfs_context_issuser c) \<and> denied then retV (ENOENT, vap)
       else if fuse_timespec_cmp (ve_uptime E) (attr_valid d) (\<le>) then
         bindV (fuse_internal_attr_loadvap E vp vap (Some c)) (\<lambda>vap1. retV (0, vap1))
       else if \<not> has_flag (dataflags s) FSESS_INITED then
         (if root then getattr_fake vp
          else seqV (modV (\<lambda>v. v\<lparr>v_sess := fdata_set_dead (v_sess v)\<rparr>)) (retV (ENOTCONN, vap)))
       else
         bindV (simple_putget_vp E FUSE_GETATTR vp (Some c)) (\<lambda>(err, fdi).
           if err \<noteq> 0 then
             (if err = ENOTCONN \<and> root then getattr_fake vp
              else seqV (whenV (err = ENOENT) (fuse_internal_vnode_disappear E vp REVOKE_SOFT)) (retV (err, vap)))
           else getattr_answered E vp vap c fdi))))))"

text \<open>The end of \<^verbatim>\<open>fuse_vnop_setattr\<close>, at its label \<^verbatim>\<open>out\<close>.\<close>

definition setattr_out ::
    "venv \<Rightarrow> vnode \<Rightarrow> fuse_dispatcher \<Rightarrow> errno \<Rightarrow> bool \<Rightarrow> u64 \<Rightarrow> errno vm" where
  "setattr_out E vp fdi err sizechanged newsize =
     seqV (drop_ticket E fdi)
    (seqV (whenV (err = 0 \<and> sizechanged)
             (seqV (updfud vp (\<lambda>x. x\<lparr>filesize := sint newsize\<rparr>)) (ubc_setsizeV E vp (sint newsize))))
    (seqV (whenV (err = 0) (FUSE_KNOTE E vp NOTE_ATTRIB)) (retV err)))"

definition poke_all :: "fuse_dispatcher \<Rightarrow> (nat \<times> bytes) list \<Rightarrow> unit vm" where
  "poke_all fdi stores = forV stores (\<lambda>(off, b). poke fdi off b)"

text \<open>What is done with the answer: the error to go on with.\<close>

definition setattr_answered ::
    "venv \<Rightarrow> vnode \<Rightarrow> fuse_dispatcher \<Rightarrow> setattr_in \<Rightarrow> bool \<Rightarrow> errno vm" where
  "setattr_answered E vp fdi fsai sizechanged =
     bindV (answer fdi (sizeof 8 fuse_attr_out)) (\<lambda>a. bindV (vtypeV vp) (\<lambda>vt.
       let fao = attr_out_at a; vtyp = IFTOVT (fa_mode (fao_attr fao))
       in if vt \<noteq> vtyp \<and> \<not> (vt = VNON \<and> vtyp \<noteq> VNON) then
            seqV (fuse_internal_vnode_disappear E vp REVOKE_SOFT) (retV EAGAIN)
          else if sizechanged then seqV (invalidate_attrV vp) (retV 0)
          else
            seqV (cache_attrs E vp fdi (fao_attr_valid fao) (fao_attr_valid_nsec fao) 16)
           (seqV (whenV (has_flag (si_valid fsai) FATTR_BKUPTIME \<or> has_flag (si_valid fsai) FATTR_CRTIME)
                    (updfud vp (\<lambda>x. x\<lparr>fv_c_flag := clear_flag (fv_c_flag x) C_XTIMES_VALID\<rparr>)))
              (retV 0))))"

definition fuse_vnop_setattr ::
    "venv \<Rightarrow> vnode \<Rightarrow> vnode_attr \<Rightarrow> vfs_context \<Rightarrow> (errno \<times> vnode_attr) vm" where
  "fuse_vnop_setattr E vp vap c =
     bindV (isdeadV vp) (\<lambda>dead. bindV (deniedV vp c) (\<lambda>denied.
       if dead then retV (EBADF, vap)
       else if denied then retV (ENOENT, vap)
       else
         bindV (fdisp_make_vp E (fdisp_init fdisp_uninit (sizeof 8 fuse_setattr_in)) FUSE_SETATTR vp (Some c)) (\<lambda>fdi.
         bindV (VTOFUD vp) (\<lambda>d. bindV sessionV (\<lambda>s. bindV (vtypeV vp) (\<lambda>vt. bindV (getV v_mp) (\<lambda>mp.
           case fuse_internal_attr_vat2fsai s (Some d) vap of (sizechanged, newsize, fsai, vap1) \<Rightarrow>
             seqV (poke_all fdi (setattr_stores fsai))
            (bindV
               (if si_valid fsai = 0 then setattr_out E vp fdi 0 sizechanged newsize
                else if has_flag (si_valid fsai) FATTR_SIZE \<and> vt = VDIR then
                  setattr_out E vp fdi EISDIR sizechanged newsize
                else if mp_rdonly mp \<and> (si_valid fsai AND NOT FATTR_SIZE \<noteq> 0 \<or> vt = VREG) then
                  setattr_out E vp fdi EROFS sizechanged newsize
                else
                  bindV (wait_answ E fdi) (\<lambda>(err, fdi1).
                    if err \<noteq> 0 then seqV (invalidate_attrV vp) (retV err)
                    else
                      bindV (setattr_answered E vp fdi1 fsai sizechanged) (\<lambda>err1.
                        setattr_out E vp fdi1 err1 sizechanged newsize)))
               (\<lambda>err. retV (err, vap1))))))))))"

section \<open>Extended attributes\<close>

abbreviation E2BIG :: errno where "E2BIG \<equiv> 7"

definition FUSE_REASONABLE_XATTRSIZE :: nat where "FUSE_REASONABLE_XATTRSIZE = 131072"
definition FUSE_DEFAULT_USERKERNEL_BUFSIZE :: nat where "FUSE_DEFAULT_USERKERNEL_BUFSIZE = 16777216"
definition FUSE_UIO_BACKUP_MAX :: nat where "FUSE_UIO_BACKUP_MAX = 8"
definition C_TOUCH_CHGTIME :: u32 where "C_TOUCH_CHGTIME = 0x20000"

text \<open>
  The checks before an operation on extended attributes; the name is missing when all attributes are
  listed. A result of 0 lets the operation go on.
\<close>

definition xattr_refused ::
    "vnode \<Rightarrow> vfs_context \<Rightarrow> bytes option option \<Rightarrow> fuse_opcode \<Rightarrow> errno vm" where
  "xattr_refused vp c name op =
     bindV (isdeadV vp) (\<lambda>dead. bindV (deniedV vp c) (\<lambda>denied. bindV sessionV (\<lambda>s.
       retV
         (if dead then EBADF
          else if denied then ENOENT
          else if name = Some None \<or> name = Some (Some []) then EINVAL
          else if (case name of None \<Rightarrow> False | Some nm \<Rightarrow> fuse_skip_apple_xattr_mp s nm) then EPERM
          else if has_flag (dataflags s) FSESS_AUTO_XATTR then ENOTSUP
          else if \<not> fuse_implemented s (FSESS_NOIMPLBIT op) then ENOTSUP
          else 0))))"

definition set_killlV :: "fuse_dispatcher \<Rightarrow> unit vm" where
  "set_killlV fdi = bindV (ticketV fdi) (\<lambda>t. runsessV (upd_ticket t fticket_set_killl))"

text \<open>
  The answer to a request for the value or the list: it is copied to the caller, or, when the caller
  has no buffer, only its size is taken. The results are the error, the size, and the buffer.
\<close>

definition xattr_answered ::
    "venv \<Rightarrow> fs_uio option \<Rightarrow> fuse_dispatcher \<Rightarrow> (errno \<times> nat option \<times> fs_uio option) vm" where
  "xattr_answered E u fdi =
     (case u of
        Some v \<Rightarrow>
          bindV (if fd_iosize fdi > uio_resid (fu_uio v) then retV (ERANGE, v)
                 else bindV (answer fdi (fd_iosize fdi)) (\<lambda>a.
                        retV (uiomove_to_user (ve_k E) (take (fd_iosize fdi) a) (int_of_size (fd_iosize fdi)) v)))
            (\<lambda>(err, v1). seqV (drop_ticket E fdi) (retV (err, Some (fd_iosize fdi), Some v1)))
      | None \<Rightarrow>
          bindV (answer fdi (sizeof 8 fuse_getxattr_out)) (\<lambda>a.
            seqV (drop_ticket E fdi) (retV (0, Some (unat (u32_at 0 a)), None))))"

definition xattr_failed ::
    "fuse_opcode \<Rightarrow> errno \<Rightarrow> fs_uio option \<Rightarrow> (errno \<times> nat option \<times> fs_uio option) vm" where
  "xattr_failed op err u =
     (if err = ENOSYS then seqV (clear_implemented op) (retV (ENOTSUP, None, u)) else retV (err, None, u))"

text \<open>The position of a missing buffer is 0, as \<^verbatim>\<open>uio_offset\<close> says.\<close>

definition fuse_vnop_getxattr ::
    "venv \<Rightarrow> vnode \<Rightarrow> bytes option \<Rightarrow> fs_uio option \<Rightarrow> vfs_context \<Rightarrow> (errno \<times> nat option \<times> fs_uio option) vm"
  where
  "fuse_vnop_getxattr E vp name u c =
     bindV (xattr_refused vp c (Some name) FUSE_GETXATTR) (\<lambda>refused.
       if refused \<noteq> 0 then retV (refused, None, u)
       else
         bindV (outV (of_option name)) (\<lambda>nm.
         let sz = ((case u of None \<Rightarrow> 0 | Some v \<Rightarrow> word_of_nat (uio_resid (fu_uio v))) :: u32);
             pos = ((case u of None \<Rightarrow> 0 | Some v \<Rightarrow> word_of_int (fu_offset v)) :: u32);
             n = sizeof 8 fuse_getxattr_in
         in bindV (fdisp_make_vp E (fdisp_init fdisp_uninit (n + length nm + 1)) FUSE_GETXATTR vp (Some c)) (\<lambda>fdi.
            seqV (poke32 fdi 0 sz)
           (seqV (poke32 fdi 8 pos)
           (seqV (poke_name fdi n nm)
           (seqV (whenV (unat sz > FUSE_REASONABLE_XATTRSIZE) (set_killlV fdi))
           (bindV (wait_answ E fdi) (\<lambda>(err, fdi1).
              if err \<noteq> 0 then xattr_failed FUSE_GETXATTR err u else xattr_answered E u fdi1))))))))"

definition fuse_vnop_listxattr ::
    "venv \<Rightarrow> vnode \<Rightarrow> fs_uio option \<Rightarrow> vfs_context \<Rightarrow> (errno \<times> nat option \<times> fs_uio option) vm" where
  "fuse_vnop_listxattr E vp u c =
     bindV (xattr_refused vp c None FUSE_LISTXATTR) (\<lambda>refused.
       if refused \<noteq> 0 then retV (refused, None, u)
       else
         bindV (fdisp_make_vp E (fdisp_init fdisp_uninit (sizeof 8 fuse_getxattr_in)) FUSE_LISTXATTR vp (Some c)) (\<lambda>fdi.
         seqV (poke32 fdi 0 (case u of None \<Rightarrow> 0 | Some v \<Rightarrow> word_of_nat (uio_resid (fu_uio v))))
        (bindV (wait_answ E fdi) (\<lambda>(err, fdi1).
           if err \<noteq> 0 then xattr_failed FUSE_LISTXATTR err u else xattr_answered E u fdi1))))"

definition fuse_vnop_removexattr :: "venv \<Rightarrow> vnode \<Rightarrow> bytes option \<Rightarrow> vfs_context \<Rightarrow> errno vm" where
  "fuse_vnop_removexattr E vp name c =
     bindV (xattr_refused vp c (Some name) FUSE_REMOVEXATTR) (\<lambda>refused.
       if refused \<noteq> 0 then retV refused
       else
         bindV (outV (of_option name)) (\<lambda>nm.
         bindV (fdisp_make_vp E (fdisp_init fdisp_uninit (length nm + 1)) FUSE_REMOVEXATTR vp (Some c)) (\<lambda>fdi.
         seqV (poke_name fdi 0 nm)
        (bindV (wait_answ E fdi) (\<lambda>(err, fdi1).
           if err = 0 then
             seqV (drop_ticket E fdi1)
            (seqV (updfud vp (\<lambda>x. x\<lparr>fv_c_flag := set_flag (fv_c_flag x) C_TOUCH_CHGTIME\<rparr>))
            (seqV (invalidate_attrV vp) (seqV (FUSE_KNOTE E vp NOTE_ATTRIB) (retV 0))))
           else if err = ENOSYS then seqV (clear_implemented FUSE_REMOVEXATTR) (retV ENOTSUP)
           else retV err)))))"

text \<open>
  The caller's buffer after a daemon that does not implement the operation: the code has kept the
  addresses and lengths of at most eight pieces, whose lengths are \<open>iovs\<close>, and puts them back.
\<close>

definition uio_restored :: "nat list \<Rightarrow> ud_uio \<Rightarrow> ud_uio" where
  "uio_restored iovs u =
     (let n = sum_list (take FUSE_UIO_BACKUP_MAX iovs)
      in u\<lparr>ud_data := take n (ud_data u), ud_resid := n\<rparr>)"

text \<open>
  The bound on the size is what every mount sets. The error of \<^verbatim>\<open>uiomove\<close> leaves the ticket
  in use.
\<close>

definition fuse_vnop_setxattr ::
    "venv \<Rightarrow> vnode \<Rightarrow> bytes option \<Rightarrow> ud_uio \<Rightarrow> nat list \<Rightarrow> int \<Rightarrow> vfs_context \<Rightarrow> (errno \<times> ud_uio) vm" where
  "fuse_vnop_setxattr E vp name u iovs opts c =
     bindV (xattr_refused vp c (Some name) FUSE_SETXATTR) (\<lambda>refused.
       if refused \<noteq> 0 then retV (refused, u)
       else if ud_resid u > FUSE_DEFAULT_USERKERNEL_BUFSIZE then retV (E2BIG, u)
       else
         bindV (outV (of_option name)) (\<lambda>nm. bindV (VTOI vp) (\<lambda>nid.
         let n = sizeof 8 fuse_setxattr_in; attrsize = ud_resid u
         in bindV (sessV (\<lambda>s. bind_outcome
                     (fdisp_make_canfail (ve_k E) (fdisp_init fdisp_uninit (n + length nm + 1 + attrsize))
                        FUSE_SETXATTR nid (Some c) s) (\<lambda>(e, fd, s1). Done ((e, fd), s1)))) (\<lambda>(failed, fdi).
              if failed \<noteq> 0 then retV (ERANGE, u)
              else
                seqV (poke32 fdi 0 (word_of_nat attrsize))
               (seqV (poke32 fdi 4 (word_of_int opts))
               (seqV (poke32 fdi 8 (word_of_int (ud_offset u)))
               (seqV (whenV (attrsize > FUSE_REASONABLE_XATTRSIZE) (set_killlV fdi))
               (seqV (poke_name fdi n nm)
               (bindV (uiomove_from_user E fdi (n + length nm + 1) attrsize u) (\<lambda>(err0, u1).
                bindV (if err0 \<noteq> 0 then retV (err0, fdi) else wait_answ E fdi) (\<lambda>(err, fdi1).
                  if err = 0 then
                    seqV (drop_ticket E fdi1)
                   (seqV (invalidate_attrV vp)
                   (seqV (FUSE_KNOTE E vp NOTE_ATTRIB)
                   (seqV (updfud vp (\<lambda>x. x\<lparr>fv_c_flag := set_flag (fv_c_flag x) C_TOUCH_CHGTIME\<rparr>)) (retV (0, u1)))))
                  else if err = ENOSYS \<or> err = ENOTSUP then
                    seqV (whenV (err = ENOSYS) (clear_implemented FUSE_SETXATTR))
                      (retV (ENOTSUP, uio_restored iovs u))
                  else retV (err, u1))))))))))))"

section \<open>Control calls\<close>

record avfi_ioctl =
  avfi_inode :: u64
  avfi_cmd :: u64
  avfi_ubc_flags :: u32
  avfi_note :: u32
  avfi_size :: int

definition FUSE_AVFI_MARKGONE :: u64 where "FUSE_AVFI_MARKGONE = 0x01"
definition FUSE_AVFI_PURGEATTRCACHE :: u64 where "FUSE_AVFI_PURGEATTRCACHE = 0x02"
definition FUSE_AVFI_PURGEVNCACHE :: u64 where "FUSE_AVFI_PURGEVNCACHE = 0x04"
definition FUSE_AVFI_UBC :: u64 where "FUSE_AVFI_UBC = 0x08"
definition FUSE_AVFI_UBC_SETSIZE :: u64 where "FUSE_AVFI_UBC_SETSIZE = 0x10"
definition FUSE_AVFI_KNOTE :: u64 where "FUSE_AVFI_KNOTE = 0x20"

definition avfi_has :: "avfi_ioctl \<Rightarrow> u64 \<Rightarrow> bool" where
  "avfi_has avfi b \<longleftrightarrow> avfi_cmd avfi AND b \<noteq> 0"

definition fuse_internal_ioctl_avfi :: "venv \<Rightarrow> vnode \<Rightarrow> avfi_ioctl option \<Rightarrow> errno vm" where
  "fuse_internal_ioctl_avfi E vp arg =
     (case arg of
        None \<Rightarrow> retV EINVAL
      | Some avfi \<Rightarrow>
          if avfi_has avfi FUSE_AVFI_MARKGONE then retV EINVAL
          else
            bindV
              (if avfi_has avfi FUSE_AVFI_UBC then
                 bindV (callV E (Kcall ''ubc_getsize'' [vp] [] [])) (\<lambda>sz.
                 bindV (callV E (Kcall ''ubc_msync'' [vp]
                          [0, sz, uint (avfi_ubc_flags avfi) AND
                                  (UBC_PUSHDIRTY OR UBC_PUSHALL OR UBC_INVALIDATE OR UBC_SYNC)] [])) (\<lambda>r.
                   retV (if r = 0 then EINVAL else 0)))
               else retV 0) (\<lambda>ret.
            bindV
              (if avfi_has avfi FUSE_AVFI_UBC_SETSIZE then
                 bindV (VTOFUD vp) (\<lambda>d.
                 seqV (whenV (filesize d \<noteq> avfi_size avfi)
                         (seqV (updfud vp (\<lambda>x. x\<lparr>filesize := avfi_size avfi\<rparr>))
                            (ubc_setsizeV E vp (avfi_size avfi))))
                (seqV (invalidate_attrV vp)
                   (retV (if filesize d = avfi_size avfi then 0
                          else if avfi_size avfi > filesize d then NOTE_WRITE OR NOTE_EXTEND else NOTE_WRITE))))
               else retV 0) (\<lambda>hint.
            seqV (whenV (avfi_has avfi FUSE_AVFI_PURGEATTRCACHE) (invalidate_attrV vp))
           (seqV (whenV (avfi_has avfi FUSE_AVFI_PURGEVNCACHE) (fuse_vncache_purge E vp))
              (let hint1 = (if avfi_has avfi FUSE_AVFI_PURGEATTRCACHE then hint OR NOTE_ATTRIB else hint);
                   hint2 = (if avfi_has avfi FUSE_AVFI_KNOTE then hint1 OR uint (avfi_note avfi) else hint1)
               in seqV (whenV (hint2 \<noteq> 0) (FUSE_KNOTE E vp hint2)) (retV ret))))))"

text \<open>The control call of the device that works on a vnode found in the table of nodes.\<close>

definition device_ioctl_avfi :: "venv \<Rightarrow> hgap \<Rightarrow> avfi_ioctl \<Rightarrow> errno vm" where
  "device_ioctl_avfi E g avfi =
     bindV (hashV (\<lambda>T. bind_outcome (HNodeLookupRealQuickIfExists g (ve_fdev E) (avfi_inode avfi) 0 T)
                      (\<lambda>(e, r, T1). Done ((e, r), T1)))) (\<lambda>(ret, r).
       if ret \<noteq> 0 then retV ret
       else
         bindV (outV (of_option r)) (\<lambda>(_, vn).
         bindV (fuse_internal_ioctl_avfi E vn (Some avfi)) (\<lambda>ret1.
           seqV (docallV E (Kcall ''vnode_put'' [vn] [] [])) (retV ret1))))"

definition fuse_setextendedsecurity :: "int \<Rightarrow> errno vm" where
  "fuse_setextendedsecurity state =
     bindV sessionV (\<lambda>s.
       if state = 1 then
         (if has_flag (dataflags s) FSESS_NO_VNCACHE \<or> has_flag (dataflags s) FSESS_DEFER_PERMISSIONS
          then retV EINVAL
          else
            seqV (modV (\<lambda>v. v\<lparr>v_sess := (v_sess v)\<lparr>dataflags :=
                    set_flag (set_flag (dataflags (v_sess v)) FSESS_EXTENDED_SECURITY) FSESS_DEFAULT_PERMISSIONS\<rparr>,
                  v_mp := (v_mp v)\<lparr>mp_authopaque := False, mp_authopaqueaccess := False,
                                   mp_extendedsecurity := True\<rparr>\<rparr>))
              (retV 0))
       else if state = 0 then
         seqV (modV (\<lambda>v. v\<lparr>v_sess := (v_sess v)\<lparr>dataflags :=
                 clear_flag (dataflags (v_sess v)) FSESS_EXTENDED_SECURITY\<rparr>,
               v_mp := (v_mp v)\<lparr>mp_extendedsecurity := False\<rparr>\<rparr>))
           (retV 0)
       else retV EINVAL)"

datatype fsctl =
    FSCTLSETACLSTATE "int option"
  | FSCTLALTERVNODEFORINODE "avfi_ioctl option"
  | FSCTL_other

definition fuse_vnop_ioctl :: "venv \<Rightarrow> vnode \<Rightarrow> fsctl \<Rightarrow> vfs_context \<Rightarrow> errno vm" where
  "fuse_vnop_ioctl E vp cmd c =
     bindV (isdeadV vp) (\<lambda>dead. bindV sessionV (\<lambda>s. bindV (isvrootV vp) (\<lambda>root.
       if dead then retV EBADF
       else case cmd of
         FSCTLSETACLSTATE arg \<Rightarrow>
           (case arg of
              None \<Rightarrow> retV EINVAL
            | Some state \<Rightarrow>
                if \<not> fuse_vfs_context_issuser c \<and> \<not> (fuse_match_cred (daemoncred s) (vc_cred c) \<noteq> 0)
                then retV EPERM
                else fuse_setextendedsecurity state)
       | FSCTLALTERVNODEFORINODE arg \<Rightarrow>
           if \<not> root then retV EINVAL else fuse_internal_ioctl_avfi E vp arg
       | FSCTL_other \<Rightarrow> retV EINVAL)))"

text \<open>The last argument is 1, which is \<^verbatim>\<open>REVOKE_SOFT\<close>.\<close>

definition fuse_vnop_revoke :: "venv \<Rightarrow> vnode \<Rightarrow> int \<Rightarrow> vfs_context \<Rightarrow> errno vm" where
  "fuse_vnop_revoke E vp flags c =
     bindV (deniedV vp c) (\<lambda>denied.
       if denied then retV ENOENT else fuse_internal_revoke E vp flags REVOKE_SOFT)"

datatype pathconf_name =
    PC_LINK_MAX | PC_MAX_CANON | PC_MAX_INPUT | PC_NAME_MAX | PC_PATH_MAX | PC_PIPE_BUF
  | PC_CHOWN_RESTRICTED | PC_NO_TRUNC | PC_VDISABLE | PC_NAME_CHARS_MAX | PC_CASE_SENSITIVE
  | PC_CASE_PRESERVING | PC_other

definition MAXPATHLEN :: nat where "MAXPATHLEN = 1024"
definition PIPE_BUF :: nat where "PIPE_BUF = 512"

fun pathconf_value :: "pathconf_name \<Rightarrow> nat option" where
  "pathconf_value PC_LINK_MAX = Some (unat FUSE_LINK_MAX)"
| "pathconf_value PC_NAME_MAX = Some FUSE_MAXNAMLEN"
| "pathconf_value PC_PATH_MAX = Some MAXPATHLEN"
| "pathconf_value PC_PIPE_BUF = Some PIPE_BUF"
| "pathconf_value PC_CHOWN_RESTRICTED = Some 1"
| "pathconf_value PC_NO_TRUNC = Some 0"
| "pathconf_value PC_NAME_CHARS_MAX = Some 255"
| "pathconf_value PC_CASE_SENSITIVE = Some 1"
| "pathconf_value PC_CASE_PRESERVING = Some 1"
| "pathconf_value _ = None"

definition fuse_vnop_pathconf ::
    "venv \<Rightarrow> vnode \<Rightarrow> pathconf_name \<Rightarrow> vfs_context \<Rightarrow> (errno \<times> nat option) vm" where
  "fuse_vnop_pathconf E vp name c =
     bindV (isdeadV vp) (\<lambda>dead. bindV (deniedV vp c) (\<lambda>denied.
       if dead then retV (EBADF, None)
       else if denied then retV (ENOENT, None)
       else case pathconf_value name of None \<Rightarrow> retV (EINVAL, None) | Some x \<Rightarrow> retV (0, Some x)))"

section \<open>Kernel event filters\<close>

datatype evfilt = EVFILT_READ | EVFILT_WRITE | EVFILT_VNODE | EVFILT_other

datatype filtops = no_filtops | fuseread_filtops | fusewrite_filtops | fusevnode_filtops

record knote =
  kn_filter :: evfilt
  kn_fop :: filtops
  kn_hook :: "vnode option"
  kn_hookid :: int
  kn_flags :: u32
  kn_fflags :: u32
  kn_sfflags :: u32
  kn_data :: int

definition EV_ONESHOT :: u32 where "EV_ONESHOT = 0x10"
definition EV_EOF :: u32 where "EV_EOF = 0x8000"
definition NOTE_REVOKE :: u32 where "NOTE_REVOKE = 0x40"

definition fuse_vnop_kqfilt_add :: "venv \<Rightarrow> vnode \<Rightarrow> knote \<Rightarrow> (errno \<times> knote) vm" where
  "fuse_vnop_kqfilt_add E vp kn =
     bindV (isdeadV vp) (\<lambda>dead. bindV (vtypeV vp) (\<lambda>vt.
       if dead then retV (EBADF, kn)
       else
         let attach = (\<lambda>fop.
               bindV (callV E (Kcall ''vnode_vid'' [vp] [] [])) (\<lambda>vid.
               seqV (docallV E (Kcall ''KNOTE_ATTACH'' [vp] [] []))
                 (retV (0, kn\<lparr>kn_fop := fop, kn_hook := Some vp, kn_hookid := vid\<rparr>))))
         in case kn_filter kn of
              EVFILT_READ \<Rightarrow> if vt = VREG then attach fuseread_filtops else retV (EINVAL, kn)
            | EVFILT_WRITE \<Rightarrow> if vt = VREG then attach fusewrite_filtops else retV (EINVAL, kn)
            | EVFILT_VNODE \<Rightarrow> attach fusevnode_filtops
            | EVFILT_other \<Rightarrow> retV (1, kn)))"

definition fuse_vnop_kqfilt_remove :: "errno vm" where
  "fuse_vnop_kqfilt_remove = retV ENOTSUP"

text \<open>Whether the vnode of a note is still the one it was attached to; if so it is referenced.\<close>

definition knote_vget :: "venv \<Rightarrow> knote \<Rightarrow> int vm" where
  "knote_vget E kn =
     bindV (outV (of_option (kn_hook kn))) (\<lambda>vp. callV E (Kcall ''vnode_getwithvid'' [vp] [kn_hookid kn] []))"

definition knote_vput :: "venv \<Rightarrow> knote \<Rightarrow> unit vm" where
  "knote_vput E kn =
     bindV (outV (of_option (kn_hook kn))) (\<lambda>vp. docallV E (Kcall ''vnode_put'' [vp] [] []))"

definition filt_fusedetach :: "venv \<Rightarrow> knote \<Rightarrow> unit vm" where
  "filt_fusedetach E kn =
     bindV (outV (of_option (kn_hook kn))) (\<lambda>vp.
     bindV (knote_vget E kn) (\<lambda>gone.
       whenV (gone = 0)
         (seqV (VTOFUD vp)
         (seqV (docallV E (Kcall ''KNOTE_DETACH'' [vp] [] [])) (knote_vput E kn)))))"

definition knote_eof :: "knote \<Rightarrow> knote" where
  "knote_eof kn = kn\<lparr>kn_flags := set_flag (set_flag (kn_flags kn) EV_EOF) EV_ONESHOT\<rparr>"

definition filt_fuseread :: "venv \<Rightarrow> knote \<Rightarrow> u32 \<Rightarrow> (int \<times> knote) vm" where
  "filt_fuseread E kn hint =
     bindV (if hint = 0 then knote_vget E kn else retV 0) (\<lambda>gone.
       if hint = 0 \<and> gone \<noteq> 0 \<or> hint = NOTE_REVOKE then retV (1, knote_eof kn)
       else seqV (whenV (hint = 0) (knote_vput E kn)) (retV (1, kn\<lparr>kn_data := 1\<rparr>)))"

definition filt_fusewrite :: "venv \<Rightarrow> knote \<Rightarrow> u32 \<Rightarrow> (int \<times> knote) vm" where
  "filt_fusewrite E kn hint =
     bindV (if hint = 0 then knote_vget E kn else retV 0) (\<lambda>gone.
     seqV (whenV (hint = 0 \<and> gone = 0) (knote_vput E kn))
       (retV (if hint = 0 \<and> gone \<noteq> 0 \<or> hint = NOTE_REVOKE then (1, knote_eof (kn\<lparr>kn_data := 0\<rparr>))
              else (1, kn\<lparr>kn_data := 0\<rparr>))))"

definition filt_fusevnode :: "venv \<Rightarrow> knote \<Rightarrow> u32 \<Rightarrow> (int \<times> knote) vm" where
  "filt_fusevnode E kn hint0 =
     bindV (if hint0 = 0 then knote_vget E kn else retV 0) (\<lambda>gone.
     seqV (whenV (hint0 = 0 \<and> gone = 0) (knote_vput E kn))
       (let hint = (if hint0 = 0 \<and> gone \<noteq> 0 then NOTE_REVOKE else hint0);
            kn1 = (if kn_sfflags kn AND hint \<noteq> 0 then kn\<lparr>kn_fflags := kn_fflags kn OR hint\<rparr> else kn)
        in retV (if hint = NOTE_REVOKE then (1, knote_eof kn1)
                 else (if kn_fflags kn1 \<noteq> 0 then 1 else 0, kn1))))"

end
