(* ===== verification/Fuse_Vfsops.thy ===== *)
theory Fuse_Vfsops
  imports Fuse_Vnops_Attr
begin

text \<open>
  The operations on a whole volume (\<^verbatim>\<open>fuse_vfsops.c\<close>) and the handshake with the daemon
  (\<^verbatim>\<open>fuse_internal.c\<close>). The structure that the mount is given, and those that it fills in, are
  records; the bit sets of capabilities and attributes are sets of the names of their bits.

  The device that the mount names is an argument, looked up by \<^verbatim>\<open>fuse_device_get\<close>; its
  session is the session of the volume. The second result of the mount and of the unmount is whether
  they gave the device its final close, after which the session is gone. The private data of the mount is
  the volume itself, so the panics for a mount without private data have no counterpart. Calls for
  which the kernel's answer is more than a number are given their meaning in the comment to the call.
\<close>

section \<open>Handshake\<close>

abbreviation EPROTONOSUPPORT :: errno where "EPROTONOSUPPORT \<equiv> 43"
abbreviation EALREADY :: errno where "EALREADY \<equiv> 37"

definition MACFUSE_MIN_USER_VERSION_MAJOR :: u32 where "MACFUSE_MIN_USER_VERSION_MAJOR = 7"
definition MACFUSE_MIN_USER_VERSION_MINOR :: u32 where "MACFUSE_MIN_USER_VERSION_MINOR = 5"
definition FUSE_KERNEL_VERSION :: u32 where "FUSE_KERNEL_VERSION = 7"
definition FUSE_KERNEL_MINOR_VERSION :: u32 where "FUSE_KERNEL_MINOR_VERSION = 8"
definition FUSE_CASE_INSENSITIVE :: u32 where "FUSE_CASE_INSENSITIVE = flagbit 29"
definition FUSE_VOL_RENAME :: u32 where "FUSE_VOL_RENAME = flagbit 30"
definition FUSE_XTIMES :: u32 where "FUSE_XTIMES = flagbit 31"

text \<open>What the answer to the handshake puts into the session; the error makes the session dead.\<close>

definition init_accept :: "bytes \<Rightarrow> nat \<Rightarrow> session \<Rightarrow> errno \<times> session" where
  "init_accept b n s =
     (let major = u32_at 0 b; minor = u32_at 4 b; flags = u32_at 12 b
      in if major < MACFUSE_MIN_USER_VERSION_MAJOR \<or> minor < MACFUSE_MIN_USER_VERSION_MINOR
         then (EPROTONOSUPPORT, s)
         else
           let s1 = s\<lparr>fuse_libabi_major := major, fuse_libabi_minor := minor\<rparr>;
               geq = fuse_libabi_geq s1 MACFUSE_MIN_USER_VERSION_MAJOR MACFUSE_MIN_USER_VERSION_MINOR;
               err = (if geq \<and> n \<noteq> sizeof 8 fuse_init_out then EINVAL else 0);
               s2 = (if \<not> geq then s1\<lparr>max_write := 4096\<rparr>
                     else if err = 0 then s1\<lparr>max_write := u32_at 20 b\<rparr> else s1)
           in (err, s2\<lparr>dataflags :=
                 mask_if (has_flag flags FUSE_XTIMES) FSESS_XTIMES
                   (mask_if (has_flag flags FUSE_VOL_RENAME) FSESS_VOL_RENAME
                      (mask_if (has_flag flags FUSE_CASE_INSENSITIVE) FSESS_CASE_INSENSITIVE
                         (dataflags s2)))\<rparr>))"

definition fuse_internal_init_synchronous :: "venv \<Rightarrow> tid \<Rightarrow> errno vm" where
  "fuse_internal_init_synchronous E t =
     bindV sessionV (\<lambda>s. bindV (outV (ticket s t)) (\<lambda>tk.
     bindV
       (if oh_error (tk_aw_ohead tk) \<noteq> 0 then retV (sint (oh_error (tk_aw_ohead tk)))
        else if length (base (tk_aw_fiov tk)) < sizeof 8 fuse_init_out then outV BadAccess
        else sessV (\<lambda>s. Done (init_accept (base (tk_aw_fiov tk)) (len (tk_aw_fiov tk)) s))) (\<lambda>err.
     seqV (runsessV (fuse_ticket_drop (k_tun (ve_k E)) (k_osm (ve_k E)) t))
    (seqV (whenV (err \<noteq> 0) (modV (\<lambda>v. v\<lparr>v_sess := fdata_set_dead (v_sess v)\<rparr>)))
    (seqV (modV (\<lambda>v. v\<lparr>v_sess := event Wakeup_ticketer
                    ((v_sess v)\<lparr>dataflags := set_flag (dataflags (v_sess v)) FSESS_INITED\<rparr>)\<rparr>))
       (retV 0))))))"

definition fuse_internal_send_init :: "venv \<Rightarrow> vfs_context \<Rightarrow> errno vm" where
  "fuse_internal_send_init E c =
     bindV (sessV (fdisp_make (ve_k E) (fdisp_init fdisp_uninit (sizeof 8 fuse_init_in)) FUSE_INIT 0 (Some c))) (\<lambda>fdi.
     bindV sessionV (\<lambda>s.
     seqV (poke32 fdi 0 FUSE_KERNEL_VERSION)
    (seqV (poke32 fdi 4 FUSE_KERNEL_MINOR_VERSION)
    (seqV (poke32 fdi 8 (iosize s * 16))
    (seqV (poke32 fdi 12 0)
    (bindV (wait_answ E fdi) (\<lambda>(err, fdi1).
       if err \<noteq> 0 then retV err
       else bindV (ticketV fdi1) (fuse_internal_init_synchronous E))))))))"

section \<open>The root\<close>

definition FUSE_ROOT_SIZE :: u64 where "FUSE_ROOT_SIZE = 0xFFFFFFFFFFFFFFFF"

definition feo_root :: entry_out where
  "feo_root =
     (entry_out_at (replicate (sizeof 8 fuse_entry_out) 0))
       \<lparr>feo_nodeid := FUSE_ROOT_ID, feo_generation := 0,
        feo_attr := (fattr_at 0 (replicate (sizeof 8 fuse_attr) 0))
          \<lparr>fa_ino := FUSE_ROOT_ID, fa_size := FUSE_ROOT_SIZE, fa_mode := VTTOIF VDIR\<rparr>\<rparr>"

definition set_rootvp :: "vnode option \<Rightarrow> unit vm" where
  "set_rootvp r = modV (\<lambda>v. v\<lparr>v_md := (v_md v)\<lparr>md_rootvp := r\<rparr>\<rparr>)"

definition fuse_vfsop_root :: "venv \<Rightarrow> (errno \<times> vnode option) vm" where
  "fuse_vfsop_root E =
     bindV (getV (\<lambda>v. md_rootvp (v_md v))) (\<lambda>r.
       case r of
         Some vp \<Rightarrow> bindV (callV E (Kcall ''vnode_get'' [vp] [] [])) (\<lambda>err. retV (err, Some vp))
       | None \<Rightarrow>
           bindV (FSNodeGetOrCreateFileVNodeByID E FN_IS_ROOT feo_root None) (\<lambda>(err, vno).
             seqV (whenV (err = 0) (set_rootvp vno)) (retV (err, vno))))"

section \<open>Attributes of the volume\<close>

definition PAGE_SIZE :: u32 where "PAGE_SIZE = 4096"
definition FUSE_DEFAULT_BLOCKSIZE :: u32 where "FUSE_DEFAULT_BLOCKSIZE = 4096"
definition FUSE_MIN_BLOCKSIZE :: u32 where "FUSE_MIN_BLOCKSIZE = 512"
definition FUSE_MAX_BLOCKSIZE :: u32 where "FUSE_MAX_BLOCKSIZE = 131072"
definition FUSE_DEFAULT_IOSIZE :: u32 where "FUSE_DEFAULT_IOSIZE = 16 * PAGE_SIZE"
definition FUSE_MIN_IOSIZE :: u32 where "FUSE_MIN_IOSIZE = 512"
definition FUSE_MAX_IOSIZE :: u32 where "FUSE_MAX_IOSIZE = 256 * PAGE_SIZE"

datatype vol_cap_fmt =
    FMT_PERSISTENTOBJECTIDS | FMT_SYMBOLICLINKS | FMT_HARDLINKS | FMT_JOURNAL | FMT_JOURNAL_ACTIVE
  | FMT_NO_ROOT_TIMES | FMT_SPARSE_FILES | FMT_ZERO_RUNS | FMT_CASE_SENSITIVE | FMT_CASE_PRESERVING
  | FMT_FAST_STATFS | FMT_2TB_FILESIZE | FMT_OPENDENYMODES | FMT_HIDDEN_FILES | FMT_PATH_FROM_ID

datatype vol_cap_int =
    INT_SEARCHFS | INT_ATTRLIST | INT_NFSEXPORT | INT_READDIRATTR | INT_EXCHANGEDATA | INT_COPYFILE
  | INT_ALLOCATE | INT_VOL_RENAME | INT_ADVLOCK | INT_FLOCK | INT_EXTENDED_SECURITY | INT_USERACCESS
  | INT_MANLOCK | INT_EXTENDED_ATTR | INT_NAMEDSTREAMS

datatype attr_cmn =
    CMN_NAME | CMN_DEVID | CMN_FSID | CMN_OBJTYPE | CMN_OBJID | CMN_PAROBJID | CMN_CRTIME | CMN_MODTIME
  | CMN_CHGTIME | CMN_BKUPTIME | CMN_OWNERID | CMN_GRPID | CMN_ACCESSMASK | CMN_FLAGS
  | CMN_EXTENDED_SECURITY

datatype attr_vol =
    VOL_FSTYPE | VOL_SIGNATURE | VOL_SIZE | VOL_SPACEFREE | VOL_SPACEAVAIL | VOL_IOBLOCKSIZE
  | VOL_FILECOUNT | VOL_MOUNTPOINT | VOL_NAME | VOL_MOUNTFLAGS | VOL_MOUNTEDDEVICE | VOL_CAPABILITIES
  | VOL_ATTRIBUTES

datatype attr_file =
    FILE_LINKCOUNT | FILE_TOTALSIZE | FILE_ALLOCSIZE | FILE_IOBLOCKSIZE | FILE_DEVTYPE
  | FILE_DATALENGTH | FILE_DATAALLOCSIZE

record vol_attributes =
  vt_commonattr :: "attr_cmn set"
  vt_volattr :: "attr_vol set"
  vt_dirattr_linkcount :: bool
  vt_fileattr :: "attr_file set"

record vol_capabilities =
  cap_format :: "vol_cap_fmt set"
  cap_format_valid :: "vol_cap_fmt set"
  cap_interfaces :: "vol_cap_int set"
  cap_interfaces_valid :: "vol_cap_int set"
  validattr :: vol_attributes
  nativeattr :: vol_attributes

definition handle_capabilities_and_attributes :: "session \<Rightarrow> vol_capabilities \<times> session" where
  "handle_capabilities_and_attributes s =
     (let attrs =
        \<lparr>vt_commonattr = {CMN_NAME, CMN_DEVID, CMN_FSID, CMN_OBJTYPE, CMN_OBJID, CMN_PAROBJID, CMN_MODTIME,
                         CMN_OWNERID, CMN_GRPID, CMN_ACCESSMASK, CMN_FLAGS, CMN_EXTENDED_SECURITY} \<union>
                        (if has_flag (dataflags s) FSESS_XTIMES then {CMN_BKUPTIME, CMN_CHGTIME, CMN_CRTIME} else {}),
         vt_volattr = {VOL_FSTYPE, VOL_SIGNATURE, VOL_SIZE, VOL_SPACEFREE, VOL_SPACEAVAIL, VOL_IOBLOCKSIZE,
                       VOL_FILECOUNT, VOL_MOUNTPOINT, VOL_NAME, VOL_MOUNTFLAGS, VOL_MOUNTEDDEVICE,
                       VOL_CAPABILITIES, VOL_ATTRIBUTES},
         vt_dirattr_linkcount = True,
         vt_fileattr = {FILE_LINKCOUNT, FILE_TOTALSIZE, FILE_ALLOCSIZE, FILE_IOBLOCKSIZE, FILE_DEVTYPE,
                        FILE_DATALENGTH, FILE_DATAALLOCSIZE}\<rparr>;
          s1 = fuse_clear_implemented (FSESS_NOIMPLBIT FUSE_SETVOLNAME) s
      in (\<lparr>cap_format = {FMT_SYMBOLICLINKS, FMT_HARDLINKS, FMT_NO_ROOT_TIMES, FMT_CASE_PRESERVING,
                        FMT_2TB_FILESIZE} \<union>
                       (if has_flag (dataflags s) FSESS_CASE_INSENSITIVE then {} else {FMT_CASE_SENSITIVE}),
           cap_format_valid = {FMT_PERSISTENTOBJECTIDS, FMT_SYMBOLICLINKS, FMT_HARDLINKS, FMT_JOURNAL,
                        FMT_JOURNAL_ACTIVE, FMT_NO_ROOT_TIMES, FMT_SPARSE_FILES, FMT_ZERO_RUNS,
                        FMT_CASE_SENSITIVE, FMT_CASE_PRESERVING, FMT_FAST_STATFS, FMT_2TB_FILESIZE,
                        FMT_OPENDENYMODES, FMT_HIDDEN_FILES, FMT_PATH_FROM_ID},
           cap_interfaces = {INT_ATTRLIST, INT_ADVLOCK, INT_FLOCK, INT_EXTENDED_SECURITY} \<union>
                       (if has_flag (dataflags s) FSESS_NATIVE_XATTR then {INT_EXTENDED_ATTR} else {}) \<union>
                       (if fuse_implemented s (FSESS_NOIMPLBIT FUSE_EXCHANGE) then {INT_EXCHANGEDATA} else {}),
           cap_interfaces_valid = {INT_SEARCHFS, INT_ATTRLIST, INT_NFSEXPORT, INT_READDIRATTR,
                        INT_EXCHANGEDATA, INT_COPYFILE, INT_ALLOCATE, INT_VOL_RENAME, INT_ADVLOCK, INT_FLOCK,
                        INT_EXTENDED_SECURITY, INT_USERACCESS, INT_MANLOCK, INT_EXTENDED_ATTR,
                        INT_NAMEDSTREAMS},
           validattr = attrs, nativeattr = attrs\<rparr>,
          if has_flag (dataflags s) FSESS_XTIMES then s1
          else fuse_clear_implemented (FSESS_NOIMPLBIT FUSE_GETXTIMES) s1))"

text \<open>The attributes that the operation returns; the name is \<open>None\<close> when it is not returned.\<close>

record vfs_attr =
  f_filecount :: u64
  f_bsize :: u32
  f_iosize :: u32
  f_blocks :: u64
  f_bfree :: u64
  f_bavail :: u64
  f_bused :: u64
  f_files :: u64
  f_ffree :: u64
  f_caps :: vol_capabilities
  f_times :: timespec
  f_fssubtype :: u32
  f_vol_name :: "bytes option"
  f_signature :: u16
  f_carbon_fsid :: u16

definition FUSE_FSSUBTYPE_INVALID :: u32 where "FUSE_FSSUBTYPE_INVALID = - 1"
definition FUSEFS_SIGNATURE :: u32 where "FUSEFS_SIGNATURE = 0x55464553"

definition swap16 :: "u16 \<Rightarrow> u16" where
  "swap16 x = push_bit 8 x OR drop_bit 8 x"

definition roundV :: "u32 \<Rightarrow> u32 \<Rightarrow> u32 \<Rightarrow> u32 vm" where
  "roundV sz lo hi = (case fuse_round_size sz lo hi of None \<Rightarrow> (\<lambda>_. V_Asleep) | Some r \<Rightarrow> retV r)"

text \<open>The block sizes that an answer (or a faked one) leads to: the preferred and the fundamental.\<close>

definition statfs_sizes :: "bytes \<Rightarrow> (u32 \<times> u32) vm" where
  "statfs_sizes a =
     (let bsize = (if u32_at 40 a = 0 then FUSE_DEFAULT_IOSIZE else u32_at 40 a);
          frsize = (if u32_at 48 a = 0 then FUSE_DEFAULT_BLOCKSIZE else u32_at 48 a)
      in bindV (roundV bsize FUSE_MIN_IOSIZE FUSE_MAX_IOSIZE) (\<lambda>bsize1.
         bindV (roundV frsize FUSE_MIN_BLOCKSIZE FUSE_MAX_BLOCKSIZE) (\<lambda>frsize1.
           retV (if bsize1 < frsize1 then frsize1 else bsize1, frsize1))))"

definition vfs_statfs_attr :: "bytes \<Rightarrow> bool \<Rightarrow> bool \<Rightarrow> vfs_attr vm" where
  "vfs_statfs_attr a deading want_name =
     bindV (statfs_sizes a) (\<lambda>(bsize, frsize).
     bindV (sessV (\<lambda>s. Done (handle_capabilities_and_attributes s))) (\<lambda>caps.
     bindV (getV v_md) (\<lambda>md.
       retV
         \<lparr>f_filecount = u64_at 24 a, f_bsize = frsize, f_iosize = bsize, f_blocks = u64_at 0 a,
          f_bfree = u64_at 8 a, f_bavail = u64_at 16 a, f_bused = u64_at 0 a - u64_at 8 a,
          f_files = u64_at 24 a, f_ffree = u64_at 32 a, f_caps = caps, f_times = kZeroTime,
          f_fssubtype = (if deading then FUSE_FSSUBTYPE_INVALID else md_fssubtype md),
          f_vol_name = (if want_name \<and> md_volname md \<noteq> [] then Some (take (MAXPATHLEN - 1) (md_volname md))
                        else None),
          f_signature = swap16 (ucast FUSEFS_SIGNATURE), f_carbon_fsid = 0\<rparr>)))"

definition fuse_vfsop_getattr :: "venv \<Rightarrow> bool \<Rightarrow> vfs_context \<Rightarrow> (errno \<times> vfs_attr option) vm" where
  "fuse_vfsop_getattr E want_name c =
     (let zeros = replicate (sizeof 8 fuse_statfs_out) 0
      in bindV sessionV (\<lambda>s.
         if \<not> has_flag (dataflags s) FSESS_INITED then
           bindV (vfs_statfs_attr zeros False want_name) (\<lambda>r. retV (0, Some r))
         else
           bindV (sessV (fdisp_make (ve_k E) (fdisp_init fdisp_uninit 0) FUSE_STATFS FUSE_ROOT_ID (Some c))) (\<lambda>fdi.
           bindV (wait_answ E fdi) (\<lambda>(err, fdi1).
             if err = ENOTCONN then
               bindV (vfs_statfs_attr zeros True want_name) (\<lambda>r. retV (0, Some r))
             else if err \<noteq> 0 then retV (err, None)
             else
               bindV (answer fdi1 (sizeof 8 fuse_statfs_out)) (\<lambda>a.
               bindV (vfs_statfs_attr a False want_name) (\<lambda>r.
                 seqV (drop_ticket E fdi1) (retV (0, Some r))))))))"

section \<open>Mount options\<close>

record fuse_mount_args =
  ma_fsname :: bytes
  ma_fstypename :: bytes
  ma_volname :: bytes
  ma_altflags :: u64
  ma_blocksize :: u32
  ma_daemon_timeout :: u32
  ma_fsid :: u32
  ma_fssubtype :: u32
  ma_init_timeout :: u32
  ma_iosize :: u32
  ma_random :: u32

definition mopt :: "fuse_mount_args \<Rightarrow> nat \<Rightarrow> bool" where
  "mopt a n \<longleftrightarrow> bit (ma_altflags a) n"

text \<open>The numbers of the bits of \<^verbatim>\<open>altflags\<close>.\<close>

definition FUSE_MOPT_ALLOW_OTHER :: nat where "FUSE_MOPT_ALLOW_OTHER = 0"
definition FUSE_MOPT_ALLOW_ROOT :: nat where "FUSE_MOPT_ALLOW_ROOT = 2"
definition FUSE_MOPT_AUTO_XATTR :: nat where "FUSE_MOPT_AUTO_XATTR = 3"
definition FUSE_MOPT_BLOCKSIZE :: nat where "FUSE_MOPT_BLOCKSIZE = 4"
definition FUSE_MOPT_DEFAULT_PERMISSIONS :: nat where "FUSE_MOPT_DEFAULT_PERMISSIONS = 7"
definition FUSE_MOPT_DEFER_PERMISSIONS :: nat where "FUSE_MOPT_DEFER_PERMISSIONS = 8"
definition FUSE_MOPT_DIRECT_IO :: nat where "FUSE_MOPT_DIRECT_IO = 9"
definition FUSE_MOPT_EXTENDED_SECURITY :: nat where "FUSE_MOPT_EXTENDED_SECURITY = 10"
definition FUSE_MOPT_FSID :: nat where "FUSE_MOPT_FSID = 11"
definition FUSE_MOPT_FSTYPENAME :: nat where "FUSE_MOPT_FSTYPENAME = 14"
definition FUSE_MOPT_IOSIZE :: nat where "FUSE_MOPT_IOSIZE = 16"
definition FUSE_MOPT_JAIL_SYMLINKS :: nat where "FUSE_MOPT_JAIL_SYMLINKS = 17"
definition FUSE_MOPT_KILL_ON_UNMOUNT :: nat where "FUSE_MOPT_KILL_ON_UNMOUNT = 18"
definition FUSE_MOPT_LOCALVOL :: nat where "FUSE_MOPT_LOCALVOL = 19"
definition FUSE_MOPT_NEGATIVE_VNCACHE :: nat where "FUSE_MOPT_NEGATIVE_VNCACHE = 20"
definition FUSE_MOPT_NO_ALERTS :: nat where "FUSE_MOPT_NO_ALERTS = 21"
definition FUSE_MOPT_NO_APPLEDOUBLE :: nat where "FUSE_MOPT_NO_APPLEDOUBLE = 22"
definition FUSE_MOPT_NO_APPLEXATTR :: nat where "FUSE_MOPT_NO_APPLEXATTR = 23"
definition FUSE_MOPT_NO_ATTRCACHE :: nat where "FUSE_MOPT_NO_ATTRCACHE = 24"
definition FUSE_MOPT_NO_BROWSE :: nat where "FUSE_MOPT_NO_BROWSE = 25"
definition FUSE_MOPT_NO_LOCALCACHES :: nat where "FUSE_MOPT_NO_LOCALCACHES = 26"
definition FUSE_MOPT_NO_READAHEAD :: nat where "FUSE_MOPT_NO_READAHEAD = 27"
definition FUSE_MOPT_NO_SYNCONCLOSE :: nat where "FUSE_MOPT_NO_SYNCONCLOSE = 28"
definition FUSE_MOPT_NO_SYNCWRITES :: nat where "FUSE_MOPT_NO_SYNCWRITES = 29"
definition FUSE_MOPT_NO_UBC :: nat where "FUSE_MOPT_NO_UBC = 30"
definition FUSE_MOPT_NO_VNCACHE :: nat where "FUSE_MOPT_NO_VNCACHE = 31"
definition FUSE_MOPT_AUTO_CACHE :: nat where "FUSE_MOPT_AUTO_CACHE = 35"
definition FUSE_MOPT_NATIVE_XATTR :: nat where "FUSE_MOPT_NATIVE_XATTR = 36"
definition FUSE_MOPT_SPARSE :: nat where "FUSE_MOPT_SPARSE = 37"

definition MFSTYPENAMELEN :: nat where "MFSTYPENAMELEN = 16"
definition MNAMELEN :: nat where "MNAMELEN = 1024"

text \<open>The bytes of \<^verbatim>\<open>"fusefs_"\<close>; the size of the type's name has its terminating zero.\<close>

definition FUSE_FSTYPENAME_PREFIX :: bytes where
  "FUSE_FSTYPENAME_PREFIX = [102, 117, 115, 101, 102, 115, 95]"

definition FUSE_FSTYPENAME_MAXLEN :: nat where "FUSE_FSTYPENAME_MAXLEN = MFSTYPENAMELEN - 7 - 2"
definition FUSE_MAX_DAEMON_TIMEOUT :: u32 where "FUSE_MAX_DAEMON_TIMEOUT = 600"
definition FUSE_MIN_DAEMON_TIMEOUT :: u32 where "FUSE_MIN_DAEMON_TIMEOUT = 0"
definition FUSE_MAX_INIT_TIMEOUT :: u32 where "FUSE_MAX_INIT_TIMEOUT = 300"
definition FUSE_MIN_INIT_TIMEOUT :: u32 where "FUSE_MIN_INIT_TIMEOUT = 1"
definition FUSE_CUSTOM_FSID_DEVICE_MAJOR :: u32 where "FUSE_CUSTOM_FSID_DEVICE_MAJOR = 255"

definition FUSE_MAKEDEV :: "u32 \<Rightarrow> u32 \<Rightarrow> u32" where "FUSE_MAKEDEV x y = push_bit 24 x OR y"

definition modmp :: "(fsmount \<Rightarrow> fsmount) \<Rightarrow> unit vm" where
  "modmp f = modV (\<lambda>v. v\<lparr>v_mp := f (v_mp v)\<rparr>)"

definition modstatfs :: "(vfsstatfs \<Rightarrow> vfsstatfs) \<Rightarrow> unit vm" where
  "modstatfs f = modmp (\<lambda>m. m\<lparr>mp_statfs := f (mp_statfs m)\<rparr>)"

text \<open>
  The options, in the parts of the code between which it asks the kernel. Each part gives an error or
  the session flags collected so far; what it has done to the mount stays done when a later part fails.
\<close>

definition mount_opts_first :: "fuse_mount_args \<Rightarrow> (errno \<times> u32) vm" where
  "mount_opts_first a =
     (let n = length (ma_fstypename a)
      in if mopt a FUSE_MOPT_FSTYPENAME \<and> (n = 0 \<or> n > FUSE_FSTYPENAME_MAXLEN) then retV (EINVAL, 0)
         else
           seqV (whenV (mopt a FUSE_MOPT_FSTYPENAME)
                   (modstatfs (\<lambda>f. f\<lparr>sf_fstypename :=
                      take (MFSTYPENAMELEN - 1) (FUSE_FSTYPENAME_PREFIX @ ma_fstypename a)\<rparr>)))
             (if ma_daemon_timeout a > FUSE_MAX_DAEMON_TIMEOUT \<or> ma_daemon_timeout a < FUSE_MIN_DAEMON_TIMEOUT
              then retV (EINVAL, 0)
              else if ma_init_timeout a > FUSE_MAX_INIT_TIMEOUT \<or> ma_init_timeout a < FUSE_MIN_INIT_TIMEOUT
              then retV (EINVAL, 0)
              else if mopt a FUSE_MOPT_AUTO_XATTR \<and> mopt a FUSE_MOPT_NATIVE_XATTR then retV (EINVAL, 0)
              else
                seqV (whenV (mopt a FUSE_MOPT_NO_BROWSE) (modmp (\<lambda>m. m\<lparr>mp_dontbrowse := True\<rparr>)))
                  (retV (0,
                     mask_if (mopt a FUSE_MOPT_JAIL_SYMLINKS) FSESS_JAIL_SYMLINKS
                       (mask_if (mopt a FUSE_MOPT_NATIVE_XATTR) FSESS_NATIVE_XATTR
                         (mask_if (mopt a FUSE_MOPT_AUTO_XATTR) FSESS_AUTO_XATTR
                           (mask_if (mopt a FUSE_MOPT_AUTO_CACHE) FSESS_AUTO_CACHE
                             (mask_if (mopt a FUSE_MOPT_SPARSE) FSESS_SPARSE
                               (mask_if (mopt a FUSE_MOPT_NO_ALERTS) FSESS_NO_ALERTS 0)))))))))"

text \<open>
  Who may use the volume. The call asks whether the caller is known to be a member of the group of
  MacFUSE administrators.
\<close>

definition mount_opts_allow ::
    "venv \<Rightarrow> bool \<Rightarrow> fuse_mount_args \<Rightarrow> vfs_context \<Rightarrow> u32 \<Rightarrow> (errno \<times> u32) vm" where
  "mount_opts_allow E allow_other a c opts =
     (let is_member = callV E (Kcall ''kauth_cred_ismember_gid'' [] [] [])
      in if mopt a FUSE_MOPT_ALLOW_ROOT then
           bindV is_member (\<lambda>r. if r \<noteq> 0 then retV (0, opts OR FSESS_ALLOW_ROOT) else retV (EPERM, opts))
         else if mopt a FUSE_MOPT_ALLOW_OTHER then
           bindV (if allow_other \<or> fuse_vfs_context_issuser c then retV 1 else is_member) (\<lambda>r.
             if r \<noteq> 0 then retV (0, opts OR FSESS_ALLOW_OTHER) else retV (EPERM, opts))
         else retV (0, opts))"

text \<open>The id of the file system; \<^verbatim>\<open>vfs_getvfs\<close> says whether another mount has it.\<close>

definition mount_opts_fsid :: "venv \<Rightarrow> fuse_mount_args \<Rightarrow> u32 \<Rightarrow> (errno \<times> u32) vm" where
  "mount_opts_fsid E a opts =
     (let opts1 = mask_if (mopt a FUSE_MOPT_NO_APPLEXATTR) FSESS_NO_APPLEXATTR
                    (mask_if (mopt a FUSE_MOPT_NO_APPLEDOUBLE) FSESS_NO_APPLEDOUBLE opts);
          dev = FUSE_MAKEDEV FUSE_CUSTOM_FSID_DEVICE_MAJOR (ma_fsid a)
      in if mopt a FUSE_MOPT_FSID \<and> ma_fsid a \<noteq> 0 then
           bindV (callV E (Kcall ''vfs_getvfs'' [] [uint dev] [])) (\<lambda>other.
             if other \<noteq> 0 then retV (EPERM, opts1)
             else seqV (modmp (\<lambda>m. m\<lparr>mp_fsid := dev\<rparr>)) (retV (0, opts1)))
         else seqV (docallV E (Kcall ''vfs_getnewfsid'' [] [] [])) (retV (0, opts1)))"

definition cache_opts :: "fuse_mount_args \<Rightarrow> u32 \<Rightarrow> u32" where
  "cache_opts a opts =
     (let all = mopt a FUSE_MOPT_NO_LOCALCACHES
      in mask_if (all \<or> mopt a FUSE_MOPT_NO_VNCACHE) FSESS_NO_VNCACHE
          (mask_if (all \<or> mopt a FUSE_MOPT_NO_UBC \<or> mopt a FUSE_MOPT_DIRECT_IO) FSESS_NO_UBC
            (mask_if (all \<or> mopt a FUSE_MOPT_NO_READAHEAD) FSESS_NO_READAHEAD
              (mask_if (all \<or> mopt a FUSE_MOPT_NO_ATTRCACHE) FSESS_NO_ATTRCACHE
                (mask_if (mopt a FUSE_MOPT_KILL_ON_UNMOUNT) FSESS_KILL_ON_UNMOUNT opts)))))"

definition mount_opts_cache :: "fuse_mount_args \<Rightarrow> u32 \<Rightarrow> (errno \<times> u32) vm" where
  "mount_opts_cache a opts0 =
     (let opts = cache_opts a opts0;
          opts1 = mask_if (mopt a FUSE_MOPT_NEGATIVE_VNCACHE) FSESS_NEGATIVE_VNCACHE opts
      in if mopt a FUSE_MOPT_NEGATIVE_VNCACHE \<and> has_flag opts FSESS_NO_VNCACHE then retV (EINVAL, opts)
         else if mopt a FUSE_MOPT_NO_SYNCWRITES then
           (if has_flag opts1 FSESS_NO_READAHEAD \<or> has_flag opts1 FSESS_NO_UBC then retV (EINVAL, opts1)
            else
              seqV (modmp (\<lambda>m. m\<lparr>mp_synchronous := False, mp_async := True\<rparr>))
                (retV (0, mask_if (mopt a FUSE_MOPT_NO_SYNCONCLOSE) FSESS_NO_SYNCONCLOSE
                            (opts1 OR FSESS_NO_SYNCWRITES))))
         else seqV (modmp (\<lambda>m. m\<lparr>mp_async := False, mp_synchronous := True\<rparr>)) (retV (0, opts1)))"

definition mount_opts_perm :: "fuse_mount_args \<Rightarrow> u32 \<Rightarrow> (errno \<times> u32) vm" where
  "mount_opts_perm a opts =
     seqV (whenV (has_flag opts FSESS_NO_UBC) (modmp (\<lambda>m. m\<lparr>mp_noexec := True\<rparr>)))
    (seqV (modmp (\<lambda>m. m\<lparr>mp_authopaque := True, mp_authopaqueaccess := True\<rparr>))
       (if mopt a FUSE_MOPT_DEFAULT_PERMISSIONS \<and> mopt a FUSE_MOPT_DEFER_PERMISSIONS then retV (EINVAL, opts)
        else
          seqV (whenV (mopt a FUSE_MOPT_DEFAULT_PERMISSIONS) (modmp (\<lambda>m. m\<lparr>mp_authopaque := False\<rparr>)))
         (seqV (whenV (mopt a FUSE_MOPT_EXTENDED_SECURITY) (modmp (\<lambda>m. m\<lparr>mp_extendedsecurity := True\<rparr>)))
         (seqV (whenV (mopt a FUSE_MOPT_LOCALVOL) (modmp (\<lambda>m. m\<lparr>mp_local := True\<rparr>)))
            (retV (0,
               mask_if (mopt a FUSE_MOPT_LOCALVOL) FSESS_LOCALVOL
                 (mask_if (mopt a FUSE_MOPT_EXTENDED_SECURITY) FSESS_EXTENDED_SECURITY
                   (mask_if (mopt a FUSE_MOPT_DEFER_PERMISSIONS) FSESS_DEFER_PERMISSIONS
                     (mask_if (mopt a FUSE_MOPT_DEFAULT_PERMISSIONS) FSESS_DEFAULT_PERMISSIONS opts)))))))))"

definition opt_then :: "(errno \<times> u32) vm \<Rightarrow> (u32 \<Rightarrow> (errno \<times> u32) vm) \<Rightarrow> (errno \<times> u32) vm" where
  "opt_then m f = bindV m (\<lambda>(err, opts). if err \<noteq> 0 then retV (err, opts) else f opts)"

definition mount_options ::
    "venv \<Rightarrow> bool \<Rightarrow> fuse_mount_args \<Rightarrow> vfs_context \<Rightarrow> (errno \<times> u32) vm" where
  "mount_options E allow_other a c =
     opt_then (opt_then (opt_then (opt_then (mount_opts_first a)
       (mount_opts_allow E allow_other a c)) (mount_opts_fsid E a)) (mount_opts_cache a)) (mount_opts_perm a)"

section \<open>Mount\<close>

definition modsess :: "(session \<Rightarrow> session) \<Rightarrow> unit vm" where
  "modsess f = modV (\<lambda>v. v\<lparr>v_sess := f (v_sess v)\<rparr>)"

definition modmd :: "(fuse_mdata \<Rightarrow> fuse_mdata) \<Rightarrow> unit vm" where
  "modmd f = modV (\<lambda>v. v\<lparr>v_md := f (v_md v)\<rparr>)"

text \<open>
  The failing path: the device gets its final close when the daemon has closed it meanwhile. The
  result is the error with whether that happened.
\<close>

definition mount_fail :: "bool \<Rightarrow> errno \<Rightarrow> (errno \<times> bool) vm" where
  "mount_fail mounted err =
     seqV (modmp (\<lambda>m. m\<lparr>mp_fsprivate := False\<rparr>))
    (seqV (whenV mounted (modmd (\<lambda>d. d\<lparr>md_mount_count := md_mount_count d - 1\<rparr>)))
    (seqV (modsess (\<lambda>s. s\<lparr>mount_st := FM_NOTMOUNTED\<rparr>))
    (bindV sessionV (\<lambda>s. retV (err, \<not> has_flag (dataflags s) FSESS_OPENED)))))"

definition mount_configure :: "fuse_mount_args \<Rightarrow> u32 \<Rightarrow> unit vm" where
  "mount_configure a opts =
     bindV (roundV (ma_blocksize a) FUSE_MIN_BLOCKSIZE FUSE_MAX_BLOCKSIZE) (\<lambda>bs.
     bindV (roundV (ma_iosize a) FUSE_MIN_IOSIZE FUSE_MAX_IOSIZE) (\<lambda>io.
     seqV (modsess (\<lambda>s. s\<lparr>dataflags := dataflags s OR opts,
             daemon_timeout_p := (if ma_daemon_timeout a = 0 then None else Some (unat (ma_daemon_timeout a))),
             noimplflags := 0, blocksize := bs, iosize := (if io < bs then bs else io)\<rparr>))
    (seqV (modmd (\<lambda>d. d\<lparr>md_init_timeout := ma_init_timeout a, md_max_read := - 1,
             md_fssubtype := ma_fssubtype a, md_mountaltflags := ma_altflags a,
             md_volname := take (MAXPATHLEN - 1) (ma_volname a)\<rparr>))
    (seqV (modstatfs (\<lambda>f. f\<lparr>sf_mntfromname := take (MNAMELEN - 1) (ma_fsname a)\<rparr>))
       (modmp (\<lambda>m. m\<lparr>mp_fsprivate := True\<rparr>))))))"

text \<open>
  The statistics of the mount after the handshake, which is not checked before the last two members
  are set (the flags in the statistics are those of the mount itself).
\<close>

definition mount_statfs :: "venv \<Rightarrow> fuse_mount_args \<Rightarrow> vfs_context \<Rightarrow> errno vm" where
  "mount_statfs E a c =
     bindV (fuse_vfsop_getattr E False c) (\<lambda>(err, r). bindV sessionV (\<lambda>s. bindV (getV v_md) (\<lambda>md.
     seqV (case r of
             Some x \<Rightarrow>
               whenV (err = 0)
                 (modstatfs (\<lambda>f. f\<lparr>sf_bsize := f_bsize x, sf_iosize := ucast (f_iosize x), sf_blocks := f_blocks x,
                     sf_bfree := f_bfree x, sf_bavail := f_bavail x, sf_bused := f_bused x, sf_files := f_files x,
                     sf_ffree := f_ffree x, sf_owner := cr_uid (daemoncred s), sf_fssubtype := md_fssubtype md\<rparr>))
           | None \<Rightarrow> retV ())
    (seqV (whenV (mopt a FUSE_MOPT_BLOCKSIZE) (modstatfs (\<lambda>f. f\<lparr>sf_bsize := blocksize s\<rparr>)))
    (seqV (modstatfs (\<lambda>f. f\<lparr>sf_iosize := ucast (iosize s)\<rparr>)) (retV err))))))"

definition mount_root :: "venv \<Rightarrow> (errno \<times> bool) vm" where
  "mount_root E =
     bindV (fuse_vfsop_root E) (\<lambda>(err, r).
       if err \<noteq> 0 then mount_fail True err
       else
         bindV (outV (of_option r)) (\<lambda>root.
         bindV (callV E (Kcall ''vnode_ref'' [root] [] [])) (\<lambda>err1.
         seqV (docallV E (Kcall ''vnode_put'' [root] [] []))
           (if err1 \<noteq> 0 then mount_fail True err1
            else
              bindV sessionV (\<lambda>s.
              seqV (modmp (\<lambda>m. m\<lparr>mp_devblocksize := blocksize s\<rparr>)) (retV (0, False)))))))"

text \<open>The mount once the device has been found to be the right one.\<close>

definition mount_session :: "venv \<Rightarrow> fuse_mount_args \<Rightarrow> u32 \<Rightarrow> vfs_context \<Rightarrow> (errno \<times> bool) vm" where
  "mount_session E a opts c =
     bindV sessionV (\<lambda>s.
       if mount_st s \<noteq> FM_NOTMOUNTED then retV (EALREADY, False)
       else if \<not> has_flag (dataflags s) FSESS_OPENED then mount_fail False ENXIO
       else
         seqV (modsess (\<lambda>s. s\<lparr>mount_st := FM_MOUNTED\<rparr>))
        (seqV (modmd (\<lambda>d. d\<lparr>md_mount_count := md_mount_count d + 1\<rparr>))
           (if fdata_dead_get s then mount_fail True ENOTCONN
            else if fuse_vfs_context_issuser c \<and> cr_uid (vc_cred c) \<noteq> cr_uid (daemoncred s) then
              mount_fail True EPERM
            else
              seqV (mount_configure a opts)
             (bindV (fuse_internal_send_init E c) (\<lambda>err.
              bindV (if err = 0 then mount_statfs E a c else retV err) (\<lambda>err1.
                if err1 \<noteq> 0 then mount_fail True err1 else mount_root E))))))"

definition fuse_vfsop_mount ::
    "venv \<Rightarrow> bool \<Rightarrow> errno \<Rightarrow> fuse_device option \<Rightarrow> fuse_mount_args \<Rightarrow> vfs_context \<Rightarrow> (errno \<times> bool) vm" where
  "fuse_vfsop_mount E allow_other copyin_err fdev a c =
     bindV (getV v_mp) (\<lambda>mp.
       if mp_update mp then retV (ENOTSUP, False)
       else if copyin_err \<noteq> 0 then retV (EINVAL, False)
       else
         seqV (docallV E (Kcall ''vfs_setlocklocal'' [] [] []))
        (bindV (mount_options E allow_other a c) (\<lambda>(err, opts).
           if err \<noteq> 0 then retV (err, False)
           else
             seqV (modmp (\<lambda>m. m\<lparr>mp_fsprivate := False\<rparr>))
               (case fdev of
                  None \<Rightarrow> retV (EINVAL, False)
                | Some d \<Rightarrow>
                    if ma_random a \<noteq> fdev_random d then retV (EINVAL, False)
                    else if fdev_data d = None then retV (ENXIO, False)
                    else mount_session E a opts c))))"

section \<open>Unmount\<close>

definition FORCECLOSE :: int where "FORCECLOSE = 2"
definition SIGKILL :: int where "SIGKILL = 9"

text \<open>The goodbye to a daemon that is alive.\<close>

definition unmount_destroy :: "venv \<Rightarrow> vfs_context \<Rightarrow> unit vm" where
  "unmount_destroy E c =
     bindV (sessV (fdisp_make (ve_k E) (fdisp_init fdisp_uninit 0) FUSE_DESTROY FUSE_ROOT_ID (Some c))) (\<lambda>fdi.
     bindV (wait_answ E fdi) (\<lambda>(err, fdi1).
     seqV (whenV (err = 0) (drop_ticket E fdi1)) (modsess fdata_set_dead)))"

definition opt_vnode :: "vnode option \<Rightarrow> vnode list" where
  "opt_vnode r = (case r of None \<Rightarrow> [] | Some vp \<Rightarrow> [vp])"

text \<open>The end of an unmount, from the label \<^verbatim>\<open>alreadydead\<close>: the result says whether the session is freed.\<close>

definition unmount_end :: "venv \<Rightarrow> vnode option \<Rightarrow> (errno \<times> bool) vm" where
  "unmount_end E root =
     bindV sessionV (\<lambda>s.
     seqV (docallV E (Kcall ''vnode_rele'' (opt_vnode root) [] []))
    (seqV (set_rootvp None)
    (seqV (docallV E (Kcall ''vflush'' [] [FORCECLOSE] []))
    (seqV (modmp (\<lambda>m. m\<lparr>mp_fsprivate := False\<rparr>))
    (seqV (modsess (\<lambda>s. s\<lparr>mount_st := FM_NOTMOUNTED\<rparr>))
    (seqV (modmd (\<lambda>d. d\<lparr>md_mount_count := md_mount_count d - 1\<rparr>))
    (bindV sessionV (\<lambda>s1.
     seqV (whenV (daemonpid s \<noteq> 0 \<and> has_flag (dataflags s) FSESS_KILL_ON_UNMOUNT)
             (docallV E (Kcall ''proc_signal'' [] [daemonpid s, SIGKILL] [])))
       (retV (0, \<not> has_flag (dataflags s1) FSESS_OPENED))))))))))"

definition fuse_vfsop_unmount :: "venv \<Rightarrow> bool \<Rightarrow> vfs_context \<Rightarrow> (errno \<times> bool) vm" where
  "fuse_vfsop_unmount E force c =
     bindV sessionV (\<lambda>s.
     let early = (\<not> fdata_dead_get s \<and> \<not> has_flag (dataflags s) FSESS_INITED);
         flags = (if force \<or> early then FORCECLOSE else 0)
     in seqV (whenV early (modsess fdata_set_dead))
       (bindV (getV (\<lambda>v. md_rootvp (v_md v))) (\<lambda>root.
        bindV (callV E (Kcall ''vflush'' (opt_vnode root) [flags] [])) (\<lambda>err.
          if err \<noteq> 0 then retV (err, False)
          else
            bindV (callV E (Kcall ''vnode_isinuse'' (opt_vnode root) [1] [])) (\<lambda>inuse.
              if inuse \<noteq> 0 \<and> flags = 0 then retV (EBUSY, False)
              else
                bindV sessionV (\<lambda>s1.
                seqV (whenV (\<not> fdata_dead_get s1) (unmount_destroy E c)) (unmount_end E root)))))))"

section \<open>Synchronisation\<close>

text \<open>The visit of one vnode: whether the iteration is to stop.\<close>

definition fuse_sync_callback :: "venv \<Rightarrow> vfs_context \<Rightarrow> vnode \<Rightarrow> bool vm" where
  "fuse_sync_callback E c vp =
     bindV (callV E (Kcall ''vnode_hasdirtyblks'' [vp] [] [])) (\<lambda>dirty. bindV sessionV (\<lambda>s. bindV (vtypeV vp) (\<lambda>vt.
       if dirty = 0 then retV False
       else if fuse_isdeadfs_mp s then retV True
       else if \<not> fuse_implemented s (FSESS_NOIMPLBIT (if vt = VDIR then FUSE_FSYNCDIR else FUSE_FSYNC))
       then retV False
       else
         seqV (docallV E (Kcall ''cluster_push'' [vp] [0] []))
        (seqV (forV fufh_types (\<lambda>ty.
                 bindV (fufhV vp ty) (\<lambda>f.
                   whenV (FUFH_IS_VALID f) (fuse_internal_fsync E vp c ty FUSE_OP_FOREGROUNDED))))
           (retV False)))))"

fun sync_iterate :: "venv \<Rightarrow> vfs_context \<Rightarrow> vnode list \<Rightarrow> unit vm" where
  "sync_iterate E c [] = retV ()"
| "sync_iterate E c (vp # vps) =
     bindV (fuse_sync_callback E c vp) (\<lambda>stop. if stop then retV () else sync_iterate E c vps)"

definition fuse_vfsop_sync :: "venv \<Rightarrow> vfs_context \<Rightarrow> errno vm" where
  "fuse_vfsop_sync E c =
     bindV sessionV (\<lambda>s. bindV (getV v_mp) (\<lambda>mp.
       if fuse_isdeadfs_mp s then retV 0
       else if mp_update mp then retV 0
       else if mp_rdonly mp then retV EROFS
       else
         bindV (getV (\<lambda>v. ve_iterate E (vdata.truncate v))) (\<lambda>vps.
           seqV (sync_iterate E c vps) (retV 0))))"

section \<open>The name of the volume\<close>

text \<open>The name is \<open>None\<close> when it is not among the attributes to be set.\<close>

definition fuse_vfsop_setattr :: "venv \<Rightarrow> bytes option \<Rightarrow> vfs_context \<Rightarrow> errno vm" where
  "fuse_vfsop_setattr E name c =
     bindV sessionV (\<lambda>s. bindV (getV v_mp) (\<lambda>mp.
       if \<not> fuse_vfs_context_issuser c \<and> cr_uid (vc_cred c) \<noteq> sf_owner (mp_statfs mp) then retV EACCES
       else case name of
         None \<Rightarrow> retV 0
       | Some nm \<Rightarrow>
           if \<not> fuse_implemented s (FSESS_NOIMPLBIT FUSE_SETVOLNAME) then retV ENOTSUP
           else if nm = [] then retV EINVAL
           else if length nm \<ge> MAXPATHLEN then retV ENAMETOOLONG
           else
             bindV (fuse_vfsop_root E) (\<lambda>(err, r).
               if err \<noteq> 0 then retV err
               else
                 bindV (outV (of_option r)) (\<lambda>root.
                 bindV (fdisp_make_vp E (fdisp_init fdisp_uninit (length nm + 1)) FUSE_SETVOLNAME root (Some c)) (\<lambda>fdi.
                 seqV (poke_name fdi 0 nm)
                (bindV (wait_answ E fdi) (\<lambda>(err1, fdi1).
                 seqV (whenV (err1 = 0) (drop_ticket E fdi1))
                (seqV (docallV E (Kcall ''vnode_put'' [root] [] []))
                   (if err1 = ENOSYS then seqV (clear_implemented FUSE_SETVOLNAME) (retV ENOTSUP)
                    else if err1 \<noteq> 0 then retV err1
                    else
                      seqV (modmd (\<lambda>d. d\<lparr>md_volname := take (MAXPATHLEN - 1) nm\<rparr>)) (retV 0))))))))))"

end
