(* ===== verification/Fuse_Volume_Laws.thy ===== *)
theory Fuse_Volume_Laws
  imports Fuse_Vfsops
begin

text \<open>
  How the operations on a volume are run: rules that evaluate the combinators step by step (the
  collection \<open>run_simps\<close>), rules that take a run that returned apart, and the accesses to the
  state that every operation begins with.
\<close>

named_theorems run_simps

section \<open>Evaluation\<close>

lemma run_return [run_simps]:
  "retV x v = V_Ret x v" "getV f v = V_Ret (f v) v" "modV g v = V_Ret () (g v)" "panicV v = V_Panic"
  "sessionV v = V_Ret (v_sess v) v" "vtypeV vp v = V_Ret (vn_vtype v vp) v"
  "isvrootV vp v = V_Ret (vn_isvroot v vp) v"
  by (simp_all add: retV_def getV_def modV_def panicV_def sessionV_def vtypeV_def isvrootV_def)

lemma run_bind [run_simps]:
  "bindV m f v =
     (case m v of V_Ret x w \<Rightarrow> f x w | V_Asleep \<Rightarrow> V_Asleep | V_Panic \<Rightarrow> V_Panic | V_Fault \<Rightarrow> V_Fault)"
  by (simp add: bindV_def)

lemma run_seq [run_simps]:
  "seqV m n v =
     (case m v of V_Ret x w \<Rightarrow> n w | V_Asleep \<Rightarrow> V_Asleep | V_Panic \<Rightarrow> V_Panic | V_Fault \<Rightarrow> V_Fault)"
  by (simp add: seqV_def bindV_def)

lemma run_when [run_simps]:
  "whenV c m v =
     (if c then case m v of V_Ret x w \<Rightarrow> V_Ret () w | V_Asleep \<Rightarrow> V_Asleep | V_Panic \<Rightarrow> V_Panic
                | V_Fault \<Rightarrow> V_Fault
      else V_Ret () v)"
  by (simp add: whenV_def seqV_def bindV_def retV_def split: vres.split)

lemma run_out [run_simps]:
  "outV (Done a) v = V_Ret a v" "outV Panic v = V_Panic" "outV BadAccess v = V_Fault"
  by (simp_all add: outV_def)

lemma bindV_eq_Ret:
  "bindV m f v = V_Ret y w \<longleftrightarrow> (\<exists>x u. m v = V_Ret x u \<and> f x u = V_Ret y w)"
  by (simp add: bindV_def split: vres.splits)

lemma seqV_eq_Ret:
  "seqV m n v = V_Ret y w \<longleftrightarrow> (\<exists>x u. m v = V_Ret x u \<and> n u = V_Ret y w)"
  by (simp add: seqV_def bindV_eq_Ret)

lemma whenV_eq_Ret:
  "whenV c m v = V_Ret y w \<longleftrightarrow> (if c then \<exists>x. m v = V_Ret x w else w = v)"
  by (auto simp: whenV_def seqV_eq_Ret retV_def)

lemmas took_apart = bindV_eq_Ret seqV_eq_Ret whenV_eq_Ret

section \<open>The data of a vnode\<close>

lemma run_fud:
  assumes "fud_of v vp = Some n"
  shows "VTOFUD vp v = V_Ret (v_fud v n) v"
    and "updfud vp f v = V_Ret () (v\<lparr>v_fud := (v_fud v)(n := f (v_fud v n))\<rparr>)"
    and "VTOI vp v = V_Ret (nodeid (v_fud v n)) v"
    and "isdeadV vp v = V_Ret (fuse_isdeadfs (v_sess v) (v_fud v n)) v"
    and "deniedV vp c v = V_Ret (fuse_blanket_deny (v_sess v) (v_fud v n) (vn_isvroot v vp) c) v"
    and "invalidate_attrV vp v = V_Ret () (v\<lparr>v_fud := (v_fud v)(n := fuse_invalidate_attr (v_fud v n))\<rparr>)"
  using assms
  by (simp_all add: VTOFUD_def updfud_def VTOI_def isdeadV_def deniedV_def invalidate_attrV_def run_simps)

lemma fud_of_frame [simp]:
  "fud_of (v\<lparr>v_fud := f\<rparr>) = fud_of v" "fud_of (v\<lparr>v_sess := s\<rparr>) = fud_of v"
  "fud_of (v\<lparr>v_calls := c\<rparr>) = fud_of v" "fud_of (v\<lparr>v_mp := m\<rparr>) = fud_of v"
  "fud_of (v\<lparr>v_md := md\<rparr>) = fud_of v" "fud_of (v\<lparr>v_waits := ws\<rparr>) = fud_of v"
  by (simp_all add: fun_eq_iff fud_of_def split: option.split)

section \<open>Calls into the kernel\<close>

text \<open>No other thread gets at the volume while the kernel serves a call.\<close>

definition calls_quiet :: "venv \<Rightarrow> bool" where
  "calls_quiet E \<longleftrightarrow> (\<forall>c d. snd (ve_call E c d) = d)"

definition call_result :: "venv \<Rightarrow> kcall \<Rightarrow> volume \<Rightarrow> int" where
  "call_result E c v = fst (ve_call E c (vdata.truncate (v\<lparr>v_calls := v_calls v @ [c]\<rparr>)))"

definition noted :: "kcall list \<Rightarrow> volume \<Rightarrow> volume" where
  "noted cs v = v\<lparr>v_calls := v_calls v @ cs\<rparr>"

lemma noted_frame [simp]:
  "v_sess (noted cs v) = v_sess v" "v_hash (noted cs v) = v_hash v" "v_fud (noted cs v) = v_fud v"
  "v_mp (noted cs v) = v_mp v" "v_md (noted cs v) = v_md v" "vn_vtype (noted cs v) = vn_vtype v"
  "vn_isvroot (noted cs v) = vn_isvroot v" "vn_mount (noted cs v) = vn_mount v"
  "v_calls (noted cs v) = v_calls v @ cs" "v_waits (noted cs v) = v_waits v" "v_gaps (noted cs v) = v_gaps v"
  "fud_of (noted cs v) = fud_of v"
  by (simp_all add: noted_def)

lemma run_with_vdata:
  "f (vdata.truncate v) = (a, vdata.truncate v) \<Longrightarrow> with_vdata f v = V_Ret a v"
  by (cases v) (simp add: with_vdata_def vdata.defs volume.defs)

lemma run_call:
  assumes "calls_quiet E"
  shows "callV E c v = V_Ret (call_result E c v) (noted [c] v)"
    and "docallV E c v = V_Ret () (noted [c] v)"
proof -
  have "ve_call E c (vdata.truncate (noted [c] v)) = (call_result E c v, vdata.truncate (noted [c] v))"
    using assms by (simp add: calls_quiet_def call_result_def noted_def prod_eq_iff)
  from run_with_vdata [of "ve_call E c", OF this]
  show r: "callV E c v = V_Ret (call_result E c v) (noted [c] v)"
    by (simp add: callV_def run_simps noted_def)
  show "docallV E c v = V_Ret () (noted [c] v)"
    by (simp add: docallV_def run_simps r)
qed

end
