(* ===== verification/Fuse_Volume_Props.thy ===== *)
theory Fuse_Volume_Props
  imports Fuse_Volume_Laws Fuse_Exchange
begin

text \<open>
  Properties of the operations on a volume.
\<close>

section \<open>A small volume\<close>

definition sample_venv :: venv where
  "sample_venv =
     \<lparr>ve_k = sample_kenv, ve_call = (\<lambda>_ d. (0, d)), ve_create = (\<lambda>_ d. ((ENOENT, 0), d)),
      ve_cache_lookup = (\<lambda>_ _ _. (0, None)), ve_cluster_read = id, ve_cluster_write = id,
      ve_iterate = (\<lambda>_. []), ve_uptime = \<lparr>tv_sec = 100, tv_nsec = 0\<rparr>, ve_thread = 1, ve_fdev = 5\<rparr>"

definition sample_statfs :: vfsstatfs where
  "sample_statfs =
     \<lparr>sf_bsize = 0, sf_iosize = 0, sf_blocks = 0, sf_bfree = 0, sf_bavail = 0, sf_bused = 0, sf_files = 0,
      sf_ffree = 0, sf_owner = 501, sf_fssubtype = 0, sf_fstypename = [], sf_mntfromname = []\<rparr>"

definition sample_mount :: fsmount where
  "sample_mount =
     \<lparr>mp_synchronous = True, mp_async = False, mp_rdonly = False, mp_authopaque = True, mp_unmounting = False,
      mp_fsid = 3, mp_mntonname = [47], mp_authopaqueaccess = True, mp_extendedsecurity = False,
      mp_dontbrowse = False, mp_noexec = False, mp_local = False, mp_update = False, mp_fsprivate = True,
      mp_devblocksize = 4096, mp_statfs = sample_statfs\<rparr>"

definition sample_mdata :: fuse_mdata where
  "sample_mdata =
     \<lparr>md_rootvp = Some 7, md_volname = [], md_fssubtype = 0, md_mountaltflags = 0, md_init_timeout = 10,
      md_max_read = - 1, md_mount_count = 1\<rparr>"

text \<open>A file, vnode 7 on node 0, and its directory, vnode 8 on node 1.\<close>

definition sample_volume :: volume where
  "sample_volume =
     \<lparr>v_sess = sample_session\<lparr>blocksize := 4096, iosize := 4096\<rparr>, v_md = sample_mdata,
      v_hash = empty_table\<lparr>hheap := (\<lambda>n. if n < 2 then Some sample_hnode else None),
                           vn_fsnode := (\<lambda>vp. if vp = 7 then Some 0 else if vp = 8 then Some 1 else None)\<rparr>,
      v_fud = (\<lambda>n. fvdat_zero\<lparr>nodeid := of_nat n + 20, filesize := 1000\<rparr>), v_mp = sample_mount,
      vn_vtype = (\<lambda>vp. if vp = 7 then VREG else VDIR), vn_isvroot = (\<lambda>_. False), vn_mount = (\<lambda>_. 0),
      vn_name = (\<lambda>_. Some [97]), vn_parent = (\<lambda>_. Some 8), v_calls = [], v_waits = [], v_gaps = []\<rparr>"

definition sample_context :: vfs_context where
  "sample_context = \<lparr>vc_pid = 300, vc_cred = sample_cred\<rparr>"

lemma sample_fields [simp]:
  "v_sess sample_volume = sample_session\<lparr>blocksize := 4096, iosize := 4096\<rparr>"
  "v_md sample_volume = sample_mdata" "v_mp sample_volume = sample_mount"
  "v_fud sample_volume n = fvdat_zero\<lparr>nodeid := of_nat n + 20, filesize := 1000\<rparr>"
  "vn_vtype sample_volume vp = (if vp = 7 then VREG else VDIR)" "\<not> vn_isvroot sample_volume vp"
  "v_calls sample_volume = []" "v_waits sample_volume = []" "v_gaps sample_volume = []"
  by (simp_all add: sample_volume_def)

lemma sample_nodes [simp]: "fud_of sample_volume 7 = Some 0" "fud_of sample_volume 8 = Some 1"
  by (simp_all add: sample_volume_def fud_of_def HNodeFromVNode_def)

lemma calls_quiet_sample [simp]: "calls_quiet sample_venv"
  by (simp add: calls_quiet_def sample_venv_def)

lemma sample_alive: "\<not> fuse_isdeadfs (v_sess sample_volume) (v_fud sample_volume n)"
  by (simp add: fuse_isdeadfs_def fuse_isdeadfs_mp_def sample_session_def fvdat_zero_def has_flag_def
      FSESS_DEAD_def FSESS_INITED_def)

section \<open>A dead volume\<close>

text \<open>
  C26: When the daemon has died, the operations that look at a file or close it return at once
  without touching anything: lookup says ENOTDIR, open ENXIO, attributes, directories and extended
  attributes EBADF, close and fsync 0. Every operation that changes a name panics the kernel instead:
  create, mkdir, mknod, symlink, link, remove, rmdir, rename, and also mmap.
\<close>

theorem dead_volume:
  assumes dead: "has_flag (dataflags (v_sess v)) FSESS_DEAD"
    and n: "fud_of v vp = Some n" "fud_of v dvp = Some m"
    and noroot: "\<not> vn_isvroot v vp"
  shows "fuse_vnop_lookup E dvp cnp c v = V_Ret (ENOTDIR, None) v \<and>
    fuse_vnop_open E vp mode c v = V_Ret ENXIO v \<and>
    fuse_vnop_close E vp mode c v = V_Ret 0 v \<and>
    fuse_vnop_fsync E vp c v = V_Ret 0 v \<and>
    fuse_vnop_getattr E vp vap c v = V_Ret (EBADF, vap) v \<and>
    fuse_vnop_setattr E vp vap c v = V_Ret (EBADF, vap) v \<and>
    fuse_vnop_readdir E vp u k special c v = V_Ret (EBADF, None, u) v \<and>
    fuse_vnop_getxattr E vp nm fu c v = V_Ret (EBADF, None, fu) v \<and>
    fuse_vnop_create E dvp cnp vap c v = V_Panic \<and>
    fuse_vnop_mkdir E dvp cnp vap c v = V_Panic \<and>
    fuse_vnop_mknod E dvp cnp vap c v = V_Panic \<and>
    fuse_vnop_symlink E dvp cnp target c v = V_Panic \<and>
    fuse_vnop_link E vp dvp cnp c v = V_Panic \<and>
    fuse_vnop_remove E dvp vp cnp flags c v = V_Panic \<and>
    fuse_vnop_rmdir E dvp vp cnp c v = V_Panic \<and>
    fuse_vnop_rename E dvp vp cnp dvp2 tvp cnp2 c v = V_Panic \<and>
    fuse_vnop_mmap E vp flags c v = V_Panic"
proof -
  note run = run_simps run_fud [OF n(1)] run_fud [OF n(2)] dead noroot fuse_isdeadfs_def
    fuse_isdeadfs_mp_def skip_double_def
  show ?thesis
  proof (intro conjI)
    show "fuse_vnop_lookup E dvp cnp c v = V_Ret (ENOTDIR, None) v" by (simp add: fuse_vnop_lookup_def run)
    show "fuse_vnop_open E vp mode c v = V_Ret ENXIO v" by (simp add: fuse_vnop_open_def run)
    show "fuse_vnop_close E vp mode c v = V_Ret 0 v" by (simp add: fuse_vnop_close_def run)
    show "fuse_vnop_fsync E vp c v = V_Ret 0 v" by (simp add: fuse_vnop_fsync_def run)
    show "fuse_vnop_getattr E vp vap c v = V_Ret (EBADF, vap) v" by (simp add: fuse_vnop_getattr_def run)
    show "fuse_vnop_setattr E vp vap c v = V_Ret (EBADF, vap) v" by (simp add: fuse_vnop_setattr_def run)
    show "fuse_vnop_readdir E vp u k special c v = V_Ret (EBADF, None, u) v"
      by (simp add: fuse_vnop_readdir_def run)
    show "fuse_vnop_getxattr E vp nm fu c v = V_Ret (EBADF, None, fu) v"
      by (simp add: fuse_vnop_getxattr_def xattr_refused_def run)
    show "fuse_vnop_create E dvp cnp vap c v = V_Panic" by (simp add: fuse_vnop_create_def run)
    show "fuse_vnop_mkdir E dvp cnp vap c v = V_Panic" by (simp add: fuse_vnop_mkdir_def run)
    show "fuse_vnop_mknod E dvp cnp vap c v = V_Panic" by (simp add: fuse_vnop_mknod_def run)
    show "fuse_vnop_symlink E dvp cnp target c v = V_Panic" by (simp add: fuse_vnop_symlink_def run)
    show "fuse_vnop_link E vp dvp cnp c v = V_Panic" by (simp add: fuse_vnop_link_def run)
    show "fuse_vnop_remove E dvp vp cnp flags c v = V_Panic" by (simp add: fuse_vnop_remove_def run)
    show "fuse_vnop_rmdir E dvp vp cnp c v = V_Panic" by (simp add: fuse_vnop_rmdir_def run)
    show "fuse_vnop_rename E dvp vp cnp dvp2 tvp cnp2 c v = V_Panic" by (simp add: fuse_vnop_rename_def run)
    show "fuse_vnop_mmap E vp flags c v = V_Panic" by (simp add: fuse_vnop_mmap_def run)
  qed
qed

lemma dead_volume_witness:
  "let v = sample_volume\<lparr>v_sess := (v_sess sample_volume)\<lparr>dataflags := FSESS_DEAD\<rparr>\<rparr>;
       cnp = \<lparr>cn_nameptr = [97], cn_namelen = 1, cn_makeentry = True, cn_islastcn = True, cn_isdotdot = False,
              cn_wantparent = False, cn_nameiop = 0\<rparr>
   in fuse_vnop_open sample_venv 7 1 sample_context v = V_Ret ENXIO v \<and>
      fuse_vnop_rename sample_venv 8 7 cnp 8 None cnp sample_context v = V_Panic"
proof -
  let ?v = "sample_volume\<lparr>v_sess := (v_sess sample_volume)\<lparr>dataflags := FSESS_DEAD\<rparr>\<rparr>"
  have "has_flag (dataflags (v_sess ?v)) FSESS_DEAD" "fud_of ?v 7 = Some 0" "fud_of ?v 8 = Some 1"
    "\<not> vn_isvroot ?v 7"
    by (simp_all add: has_flag_def FSESS_DEAD_def)
  note d = dead_volume [OF this]
  show ?thesis by (simp only: Let_def d simp_thms)
qed

section \<open>Access control lists\<close>

text \<open>
  The control call that turns access control lists on or off is refused to the user who runs the
  file system and granted to every other user who can open a file on it: the test has its sense the
  wrong way round. Root is always allowed.
\<close>

lemma acl_call_refuses_owner:
  assumes n: "fud_of v vp = Some n" and alive: "\<not> fuse_isdeadfs (v_sess v) (v_fud v n)"
  shows "fuse_vnop_ioctl E vp (FSCTLSETACLSTATE (Some state)) c v =
    (if fuse_match_cred (daemoncred (v_sess v)) (vc_cred c) = 0 \<and> cr_uid (vc_cred c) \<noteq> 0
     then V_Ret EPERM v else fuse_setextendedsecurity state v)"
  by (simp add: fuse_vnop_ioctl_def run_simps run_fud [OF n] alive fuse_vfs_context_issuser_def)

lemma acl_call_refuses_owner_witness:
  "fuse_vnop_ioctl sample_venv 7 (FSCTLSETACLSTATE (Some 0)) sample_context sample_volume =
     V_Ret EPERM sample_volume \<and>
   (\<exists>w. fuse_vnop_ioctl sample_venv 7 (FSCTLSETACLSTATE (Some 0))
          (sample_context\<lparr>vc_cred := sample_cred\<lparr>cr_uid := 502\<rparr>\<rparr>) sample_volume = V_Ret 0 w)"
proof -
  note r = acl_call_refuses_owner [OF sample_nodes(1) sample_alive]
  have d: "daemoncred sample_session = sample_cred"
    by (simp add: sample_session_def fdata_fresh_def)
  show ?thesis
    by (simp add: r d sample_context_def fuse_match_cred_def sample_cred_def fuse_setextendedsecurity_def run_simps)
qed

section \<open>Blocks and offsets\<close>

lemma cdiv_nonneg: "0 \<le> a \<Longrightarrow> cdiv a b = a div b"
  by (simp add: cdiv_def)

text \<open>
  The block of an offset and the offset of a block are inverse to each other: for every offset of
  a file the block it lies in begins at or before it and ends after it, the offset of the block is a
  multiple of the block size, and turning it back into a block gives the block again. Neither
  operation touches the volume.
\<close>

lemma block_offset_roundtrip:
  assumes n: "fud_of v vp = Some n" and alive: "\<not> fuse_isdeadfs (v_sess v) (v_fud v n)"
    and bs: "blocksize (v_sess v) \<noteq> 0" and off: "0 \<le> off" "off < 2 ^ 63"
  shows "\<exists>blk start. fuse_vnop_offtoblk E vp off v = V_Ret (0, Some blk) v \<and>
    fuse_vnop_blktooff E vp blk v = V_Ret (0, Some start) v \<and>
    fuse_vnop_offtoblk E vp start v = V_Ret (0, Some blk) v \<and>
    start \<le> off \<and> off < start + uint (blocksize (v_sess v)) \<and> uint (blocksize (v_sess v)) dvd start"
proof -
  let ?b = "uint (blocksize (v_sess v))"
  have b: "0 < ?b" using bs uint_0_iff [of "blocksize (v_sess v)"] by (simp add: order_less_le)
  have e: "off div ?b * ?b + off mod ?b = off" "off mod ?b < ?b" "0 \<le> off mod ?b"
    using b by simp_all
  have m: "off div ?b * ?b \<le> off" "off < off div ?b * ?b + ?b" "0 \<le> off div ?b * ?b"
    using e b off(1) by (linarith, linarith, simp add: pos_imp_zdiv_nonneg_iff)
  have w: "wrap64 (off div ?b * ?b) = off div ?b * ?b"
    using m(1,3) off(2) by simp
  have "fuse_vnop_offtoblk E vp off v = V_Ret (0, Some (off div ?b)) v"
    by (simp add: fuse_vnop_offtoblk_def run_simps run_fud [OF n] alive bs cdiv_nonneg off(1))
  moreover have "fuse_vnop_blktooff E vp (off div ?b) v = V_Ret (0, Some (off div ?b * ?b)) v"
    by (simp add: fuse_vnop_blktooff_def run_simps run_fud [OF n] alive w)
  moreover have "fuse_vnop_offtoblk E vp (off div ?b * ?b) v = V_Ret (0, Some (off div ?b)) v"
    using m(3) b by (simp add: fuse_vnop_offtoblk_def run_simps run_fud [OF n] alive bs cdiv_nonneg)
  ultimately show ?thesis using m by auto
qed

lemma block_offset_roundtrip_witness:
  "\<exists>blk start. fuse_vnop_offtoblk sample_venv 7 9000 sample_volume = V_Ret (0, Some blk) sample_volume \<and>
    fuse_vnop_blktooff sample_venv 7 blk sample_volume = V_Ret (0, Some start) sample_volume \<and>
    start \<le> 9000 \<and> 9000 < start + 4096"
  using block_offset_roundtrip [OF sample_nodes(1) sample_alive, of 9000 sample_venv] by auto

section \<open>The size of a file\<close>

lemmas call_defs = ubc_setsizeV_def FUSE_KNOTE_def ubc_flush_all_def fuse_vncache_purge_def
  fuse_vncache_enter_def

text \<open>The volumes differ in the data of one node and in the calls made since.\<close>

definition same_but :: "hid \<Rightarrow> volume \<Rightarrow> volume \<Rightarrow> bool" where
  "same_but n v w \<longleftrightarrow> (\<exists>f cs. w = noted cs (v\<lparr>v_fud := f\<rparr>) \<and> (\<forall>m. m \<noteq> n \<longrightarrow> f m = v_fud v m))"

lemma same_but_intros [simp]:
  "same_but n v v"
  "same_but n v w \<Longrightarrow> same_but n v (noted cs w)"
  "same_but n v w \<Longrightarrow> (\<And>m. m \<noteq> n \<Longrightarrow> g m = v_fud v m) \<Longrightarrow> same_but n v (w\<lparr>v_fud := g\<rparr>)"
proof -
  have "v = noted [] (v\<lparr>v_fud := v_fud v\<rparr>)" by (simp add: noted_def)
  then show "same_but n v v" unfolding same_but_def by blast
next
  assume "same_but n v w"
  then obtain f cs' where w: "w = noted cs' (v\<lparr>v_fud := f\<rparr>)" "\<forall>m. m \<noteq> n \<longrightarrow> f m = v_fud v m"
    by (auto simp: same_but_def)
  have "noted cs w = noted (cs' @ cs) (v\<lparr>v_fud := f\<rparr>)" by (simp add: w(1) noted_def)
  with w(2) show "same_but n v (noted cs w)" unfolding same_but_def by blast
  assume "\<And>m. m \<noteq> n \<Longrightarrow> g m = v_fud v m"
  moreover have "w\<lparr>v_fud := g\<rparr> = noted cs' (v\<lparr>v_fud := g\<rparr>)" by (simp add: w(1) noted_def)
  ultimately show "same_but n v (w\<lparr>v_fud := g\<rparr>)" unfolding same_but_def by blast
qed

text \<open>
  C27: A write through the buffer cache that succeeds leaves the file with the greater of its old size
  and the offset that was reached. When the cluster layer fails, the size stays what it was raised to
  beforehand, the end of the range that was to be written, although nothing may have been: the file
  has grown by a write that failed. In both cases the volume is changed in nothing but the data of this
  file and the list of calls.
\<close>

theorem write_size:
  assumes n: "fud_of v vp = Some n" and alive: "\<not> fuse_isdeadfs (v_sess v) (v_fud v n)"
    and quiet: "calls_quiet E" and r: "\<And>args d. fst (ve_call E (Kcall ''cluster_write'' [vp] args []) d) = r"
    and reg: "vn_vtype v vp = VREG" and cached: "\<not> fuse_isdirectio (v_sess v) (v_fud v n)"
    and u: "0 < ud_resid u" "0 \<le> ud_offset u" "ud_offset u + int (ud_resid u) < 2 ^ 63"
    and app: "\<not> has_flag ioflag IO_APPEND"
  shows "\<exists>err u' w. fuse_vnop_write E vp u ioflag c v = V_Ret (err, u') w \<and> same_but n v w \<and>
    (r = 0 \<longrightarrow> err = 0 \<and> u' = ve_cluster_write E u \<and>
       filesize (v_fud w n) = max (filesize (v_fud v n)) (ud_offset u')) \<and>
    (r \<noteq> 0 \<longrightarrow> filesize (v_fud w n) = max (filesize (v_fud v n)) (ud_offset u + int (ud_resid u)))"
proof -
  have w: "wrap64 (ud_offset u + int (ud_resid u)) = ud_offset u + int (ud_resid u)" using u by simp
  have res: "call_result E (Kcall ''cluster_write'' [vp] args []) x = r" for args x
    by (simp add: call_result_def r)
  note run = fuse_vnop_write_def run_simps run_fud [OF n] run_fud n alive reg cached w res app Let_def
    run_call [OF quiet] call_defs
  show ?thesis
  proof (cases "r = 0")
    case True
    with u show ?thesis
      by (cases "filesize (v_fud v n) < ud_offset (ve_cluster_write E u)")
        (simp_all add: run not_less max_def fuse_invalidate_attr_def)
  next
    case False
    with u show ?thesis by (simp add: run not_less max_def)
  qed
qed

lemma sample_cached: "\<not> fuse_isdirectio (v_sess sample_volume) (v_fud sample_volume n)"
  by (simp add: fuse_isdirectio_def sample_session_def fvdat_zero_def has_flag_def FSESS_DIRECT_IO_def
      FSESS_INITED_def)

lemma write_size_witness:
  "\<exists>err u' w. fuse_vnop_write (sample_venv\<lparr>ve_call := (\<lambda>_ d. (5, d))\<rparr>) 7
       \<lparr>ud_data = replicate 300 0, ud_resid = 300, ud_offset = 900\<rparr> 0 sample_context sample_volume =
       V_Ret (err, u') w \<and> filesize (v_fud sample_volume 0) = 1000 \<and> filesize (v_fud w 0) = 1200"
proof -
  let ?E = "sample_venv\<lparr>ve_call := (\<lambda>_ d. (5, d))\<rparr>"
  let ?u = "\<lparr>ud_data = replicate 300 0, ud_resid = 300, ud_offset = 900\<rparr> :: ud_uio"
  have q: "calls_quiet ?E" by (simp add: calls_quiet_def)
  have c: "fst (ve_call ?E (Kcall ''cluster_write'' [7] args []) d) = 5" for args d by simp
  have "vn_vtype sample_volume 7 = VREG" "0 < ud_resid ?u" "0 \<le> ud_offset ?u"
    "ud_offset ?u + int (ud_resid ?u) < 2 ^ 63" "\<not> has_flag (0 :: u32) IO_APPEND"
    by simp_all
  from write_size [OF sample_nodes(1) sample_alive q c this(1) sample_cached this(2-5), of sample_context]
  show ?thesis by auto
qed

section \<open>Mount options\<close>

lemma fsess_bits:
  "FSESS_DEAD = flagbit 0" "FSESS_OPENED = flagbit 1" "FSESS_INITED = flagbit 2"
  "FSESS_ALLOW_OTHER = flagbit 4" "FSESS_ALLOW_ROOT = flagbit 5" "FSESS_AUTO_XATTR = flagbit 6"
  "FSESS_DEFAULT_PERMISSIONS = flagbit 7" "FSESS_DEFER_PERMISSIONS = flagbit 8"
  "FSESS_DIRECT_IO = flagbit 9" "FSESS_EXTENDED_SECURITY = flagbit 10" "FSESS_JAIL_SYMLINKS = flagbit 11"
  "FSESS_KILL_ON_UNMOUNT = flagbit 12" "FSESS_LOCALVOL = flagbit 13" "FSESS_NEGATIVE_VNCACHE = flagbit 14"
  "FSESS_NO_ALERTS = flagbit 15" "FSESS_NO_APPLEDOUBLE = flagbit 16" "FSESS_NO_APPLEXATTR = flagbit 17"
  "FSESS_NO_ATTRCACHE = flagbit 18" "FSESS_NO_READAHEAD = flagbit 19" "FSESS_NO_SYNCONCLOSE = flagbit 20"
  "FSESS_NO_SYNCWRITES = flagbit 21" "FSESS_NO_UBC = flagbit 22" "FSESS_NO_VNCACHE = flagbit 23"
  "FSESS_AUTO_CACHE = flagbit 27" "FSESS_NATIVE_XATTR = flagbit 28" "FSESS_SPARSE = flagbit 29"
  by (simp_all add: FSESS_DEAD_def FSESS_OPENED_def FSESS_INITED_def FSESS_ALLOW_OTHER_def FSESS_ALLOW_ROOT_def
      FSESS_AUTO_XATTR_def FSESS_DEFAULT_PERMISSIONS_def FSESS_DEFER_PERMISSIONS_def FSESS_DIRECT_IO_def
      FSESS_EXTENDED_SECURITY_def FSESS_JAIL_SYMLINKS_def FSESS_KILL_ON_UNMOUNT_def FSESS_LOCALVOL_def
      FSESS_NEGATIVE_VNCACHE_def FSESS_NO_ALERTS_def FSESS_NO_APPLEDOUBLE_def FSESS_NO_APPLEXATTR_def
      FSESS_NO_ATTRCACHE_def FSESS_NO_READAHEAD_def FSESS_NO_SYNCONCLOSE_def FSESS_NO_SYNCWRITES_def
      FSESS_NO_UBC_def FSESS_NO_VNCACHE_def FSESS_AUTO_CACHE_def FSESS_NATIVE_XATTR_def FSESS_SPARSE_def
      flagbit_def push_bit_eq_mult)

lemma bit_mask_if [flag_simps]: "bit (mask_if c b m) n \<longleftrightarrow> bit m n \<or> c \<and> bit b n"
  by (auto simp: mask_if_def bit_or_iff)

lemma opt_then_done:
  "opt_then m f v = V_Ret (0, opts) w \<longleftrightarrow> (\<exists>o1 u. m v = V_Ret (0, o1) u \<and> f o1 u = V_Ret (0, opts) w)"
  by (auto simp: opt_then_def bindV_eq_Ret retV_def split: if_splits)

text \<open>What each part of the options adds to the flags.\<close>

lemma opts_first_bits:
  assumes "mount_opts_first a v = V_Ret (0, opts) w"
  shows "\<not> (mopt a FUSE_MOPT_AUTO_XATTR \<and> mopt a FUSE_MOPT_NATIVE_XATTR)"
    and "bit opts n \<Longrightarrow> n \<in> {6, 11, 15, 27, 28, 29}"
    and "bit opts 6 \<longleftrightarrow> mopt a FUSE_MOPT_AUTO_XATTR" and "bit opts 28 \<longleftrightarrow> mopt a FUSE_MOPT_NATIVE_XATTR"
  using assms
  by (auto simp: mount_opts_first_def Let_def run_simps fsess_bits flag_simps modstatfs_def modmp_def
      split: if_splits vres.splits)

lemma opts_allow_bits:
  assumes "mount_opts_allow E ao a c o1 v = V_Ret (0, opts) w" and "n \<noteq> 4" "n \<noteq> 5"
  shows "bit opts n \<longleftrightarrow> bit o1 n"
  using assms
  by (auto simp: mount_opts_allow_def Let_def took_apart run_return fsess_bits flag_simps bit_or_iff
      split: if_splits)

lemma opts_fsid_bits:
  assumes "mount_opts_fsid E a o1 v = V_Ret (0, opts) w" and "n \<noteq> 16" "n \<noteq> 17"
  shows "bit opts n \<longleftrightarrow> bit o1 n"
  using assms
  by (auto simp: mount_opts_fsid_def Let_def took_apart run_return fsess_bits flag_simps bit_or_iff modmp_def
      split: if_splits)

lemma cache_opts_bits:
  assumes "n \<notin> {12, 18, 19, 22, 23}"
  shows "bit (cache_opts a o1) n \<longleftrightarrow> bit o1 n"
  using assms by (simp add: cache_opts_def Let_def fsess_bits flag_simps)

lemma opts_cache_shape:
  assumes "mount_opts_cache a o1 v = V_Ret (0, opts) w"
  shows "\<exists>neg late close. opts = mask_if (late \<and> close) (flagbit 20) (mask_if late (flagbit 21)
        (mask_if neg (flagbit 14) (cache_opts a o1))) \<and>
    \<not> (neg \<and> bit (cache_opts a o1) 23) \<and>
    \<not> (late \<and> (bit (cache_opts a o1) 19 \<or> bit (cache_opts a o1) 22)) \<and>
    mp_async (v_mp w) = late \<and> mp_synchronous (v_mp w) = (\<not> late)"
  using assms
  by (intro exI [of _ "mopt a FUSE_MOPT_NEGATIVE_VNCACHE"] exI [of _ "mopt a FUSE_MOPT_NO_SYNCWRITES"]
      exI [of _ "mopt a FUSE_MOPT_NO_SYNCONCLOSE"])
    (simp add: mount_opts_cache_def Let_def run_simps fsess_bits flag_simps modmp_def mask_if_def
      bit_or_iff or.commute split: if_splits, auto)

lemma opts_cache_bits:
  assumes st: "mount_opts_cache a o1 v = V_Ret (0, opts) w"
    and o1: "\<not> bit o1 14" "\<not> bit o1 20" "\<not> bit o1 21"
  shows "n \<notin> {12, 14, 18, 19, 20, 21, 22, 23} \<Longrightarrow> bit opts n \<longleftrightarrow> bit o1 n"
    and "\<not> (bit opts 14 \<and> bit opts 23)" and "bit opts 21 \<Longrightarrow> \<not> bit opts 22 \<and> \<not> bit opts 19"
    and "bit opts 20 \<Longrightarrow> bit opts 21"
    and "mp_async (v_mp w) \<longleftrightarrow> bit opts 21" and "mp_synchronous (v_mp w) \<longleftrightarrow> \<not> bit opts 21"
proof -
  obtain neg late close where opts: "opts = mask_if (late \<and> close) (flagbit 20) (mask_if late (flagbit 21)
      (mask_if neg (flagbit 14) (cache_opts a o1)))" and
    r: "\<not> (neg \<and> bit (cache_opts a o1) 23)" "\<not> (late \<and> (bit (cache_opts a o1) 19 \<or> bit (cache_opts a o1) 22))"
      "mp_async (v_mp w) = late" "mp_synchronous (v_mp w) = (\<not> late)"
    using opts_cache_shape [OF st] by blast
  have old: "\<not> bit (cache_opts a o1) 14" "\<not> bit (cache_opts a o1) 20" "\<not> bit (cache_opts a o1) 21"
    using o1 by (simp_all add: cache_opts_bits)
  show "n \<notin> {12, 14, 18, 19, 20, 21, 22, 23} \<Longrightarrow> bit opts n \<longleftrightarrow> bit o1 n"
    by (simp add: opts flag_simps cache_opts_bits)
  show "\<not> (bit opts 14 \<and> bit opts 23)" "bit opts 21 \<Longrightarrow> \<not> bit opts 22 \<and> \<not> bit opts 19"
    "bit opts 20 \<Longrightarrow> bit opts 21" "mp_async (v_mp w) \<longleftrightarrow> bit opts 21"
    "mp_synchronous (v_mp w) \<longleftrightarrow> \<not> bit opts 21"
    using r old by (auto simp: opts flag_simps)
qed

lemma opts_perm_shape:
  assumes "mount_opts_perm a o1 v = V_Ret (0, opts) w"
  shows "\<exists>x y z def. opts = mask_if x (flagbit 13) (mask_if y (flagbit 10) (mask_if z (flagbit 8)
        (mask_if def (flagbit 7) o1))) \<and> \<not> (z \<and> def) \<and>
    mp_authopaque (v_mp w) = (\<not> def) \<and> (bit o1 22 \<longrightarrow> mp_noexec (v_mp w)) \<and>
    mp_async (v_mp w) = mp_async (v_mp v) \<and> mp_synchronous (v_mp w) = mp_synchronous (v_mp v)"
  using assms
  by (intro exI [of _ "mopt a FUSE_MOPT_LOCALVOL"] exI [of _ "mopt a FUSE_MOPT_EXTENDED_SECURITY"]
      exI [of _ "mopt a FUSE_MOPT_DEFER_PERMISSIONS"] exI [of _ "mopt a FUSE_MOPT_DEFAULT_PERMISSIONS"])
    (cases "mopt a FUSE_MOPT_LOCALVOL"; cases "mopt a FUSE_MOPT_EXTENDED_SECURITY";
     cases "mopt a FUSE_MOPT_DEFER_PERMISSIONS"; cases "mopt a FUSE_MOPT_DEFAULT_PERMISSIONS"; cases "bit o1 22";
     force simp add: mount_opts_perm_def run_simps fsess_bits has_flag_flagbit modmp_def)

lemma opts_perm_bits:
  assumes st: "mount_opts_perm a o1 v = V_Ret (0, opts) w" and o1: "\<not> bit o1 7" "\<not> bit o1 8"
  shows "n \<notin> {7, 8, 10, 13} \<Longrightarrow> bit opts n \<longleftrightarrow> bit o1 n" and "\<not> (bit opts 7 \<and> bit opts 8)"
    and "mp_authopaque (v_mp w) \<longleftrightarrow> \<not> bit opts 7" and "bit opts 22 \<Longrightarrow> mp_noexec (v_mp w)"
    and "mp_async (v_mp w) = mp_async (v_mp v)" and "mp_synchronous (v_mp w) = mp_synchronous (v_mp v)"
proof -
  obtain x y z def where opts: "opts = mask_if x (flagbit 13) (mask_if y (flagbit 10) (mask_if z (flagbit 8)
        (mask_if def (flagbit 7) o1)))" and r: "\<not> (z \<and> def)" "mp_authopaque (v_mp w) = (\<not> def)"
      "bit o1 22 \<longrightarrow> mp_noexec (v_mp w)"
    and s: "mp_async (v_mp w) = mp_async (v_mp v)" "mp_synchronous (v_mp w) = mp_synchronous (v_mp v)"
    using opts_perm_shape [OF st] by blast
  show "n \<notin> {7, 8, 10, 13} \<Longrightarrow> bit opts n \<longleftrightarrow> bit o1 n"
    "\<not> (bit opts 7 \<and> bit opts 8)" "mp_authopaque (v_mp w) \<longleftrightarrow> \<not> bit opts 7" "bit opts 22 \<Longrightarrow> mp_noexec (v_mp w)"
    using r o1 by (auto simp: opts flag_simps)
qed (use opts_perm_shape [OF st] in blast)+

text \<open>
  C20: The options that a mount accepts are consistent: never both kinds of extended attribute handling,
  no negative name cache without a name cache, no delayed writes without buffer cache or read-ahead,
  delayed writes at close only with delayed writes, and never both kinds of permission check. The mount
  is asynchronous exactly with delayed writes and synchronous otherwise, without a buffer cache nothing
  can be executed from it, and the kernel leaves authorisation to the daemon exactly when default
  permissions were not asked for. No option can forge the flags of the state of the session.
\<close>

theorem mount_options_consistent:
  assumes m: "mount_options E allow_other a c v = V_Ret (0, opts) w"
  shows "\<not> (has_flag opts FSESS_AUTO_XATTR \<and> has_flag opts FSESS_NATIVE_XATTR) \<and>
    \<not> (has_flag opts FSESS_NEGATIVE_VNCACHE \<and> has_flag opts FSESS_NO_VNCACHE) \<and>
    \<not> (has_flag opts FSESS_NO_SYNCWRITES \<and> (has_flag opts FSESS_NO_UBC \<or> has_flag opts FSESS_NO_READAHEAD)) \<and>
    \<not> (has_flag opts FSESS_NO_SYNCONCLOSE \<and> \<not> has_flag opts FSESS_NO_SYNCWRITES) \<and>
    \<not> (has_flag opts FSESS_DEFAULT_PERMISSIONS \<and> has_flag opts FSESS_DEFER_PERMISSIONS) \<and>
    mp_async (v_mp w) = has_flag opts FSESS_NO_SYNCWRITES \<and>
    mp_synchronous (v_mp w) = (\<not> has_flag opts FSESS_NO_SYNCWRITES) \<and>
    \<not> (has_flag opts FSESS_NO_UBC \<and> \<not> mp_noexec (v_mp w)) \<and>
    mp_authopaque (v_mp w) = (\<not> has_flag opts FSESS_DEFAULT_PERMISSIONS) \<and>
    \<not> has_flag opts FSESS_DEAD \<and> \<not> has_flag opts FSESS_OPENED \<and> \<not> has_flag opts FSESS_INITED"
proof -
  from m obtain o1 o2 o3 o4 v1 v2 v3 v4 where st:
    "mount_opts_first a v = V_Ret (0, o1) v1" "mount_opts_allow E allow_other a c o1 v1 = V_Ret (0, o2) v2"
    "mount_opts_fsid E a o2 v2 = V_Ret (0, o3) v3" "mount_opts_cache a o3 v3 = V_Ret (0, o4) v4"
    "mount_opts_perm a o4 v4 = V_Ret (0, opts) w"
    by (auto simp: mount_options_def opt_then_done)
  note b1 = opts_first_bits [OF st(1)] and b2 = opts_allow_bits [OF st(2)] and b3 = opts_fsid_bits [OF st(3)]
  have o3: "bit o3 n \<Longrightarrow> n \<in> {4, 5, 6, 11, 15, 16, 17, 27, 28, 29}" for n
    using b1(2) b2 [of n] b3 [of n] by auto
  have "\<not> bit o3 14" "\<not> bit o3 20" "\<not> bit o3 21" using o3 [of 14] o3 [of 20] o3 [of 21] by auto
  note b4 = opts_cache_bits [OF st(4) this]
  have "\<not> bit o4 7" "\<not> bit o4 8" using o3 [of 7] o3 [of 8] b4(1) [of 7] b4(1) [of 8] by auto
  note b5 = opts_perm_bits [OF st(5) this]
  have keep: "bit opts n \<longleftrightarrow> bit o1 n" if "n \<in> {0, 1, 2, 6, 28}" for n
    using that b2 [of n] b3 [of n] b4(1) [of n] b5(1) [of n] by auto
  have k: "bit opts 6 \<longleftrightarrow> bit o1 6" "bit opts 28 \<longleftrightarrow> bit o1 28" "\<not> bit opts 0" "\<not> bit opts 1" "\<not> bit opts 2"
    using keep [of 6] keep [of 28] keep [of 0] keep [of 1] keep [of 2] b1(2) [of 0] b1(2) [of 1] b1(2) [of 2]
    by auto
  have cache: "bit opts 14 \<longleftrightarrow> bit o4 14" "bit opts 19 \<longleftrightarrow> bit o4 19" "bit opts 20 \<longleftrightarrow> bit o4 20"
    "bit opts 21 \<longleftrightarrow> bit o4 21" "bit opts 22 \<longleftrightarrow> bit o4 22" "bit opts 23 \<longleftrightarrow> bit o4 23"
    by (simp_all add: b5(1))
  show ?thesis
    unfolding fsess_bits has_flag_flagbit k(1,2) b1(3,4) cache b5(3,5,6) b4(5,6)
    using b1(1) b4(2-4) b5(2-4) k(3-5) cache by blast
qed

definition sample_args :: fuse_mount_args where
  "sample_args =
     \<lparr>ma_fsname = [97], ma_fstypename = [], ma_volname = [98], ma_altflags = flagbit FUSE_MOPT_NO_SYNCWRITES,
      ma_blocksize = 4096, ma_daemon_timeout = 60, ma_fsid = 0, ma_fssubtype = 0, ma_init_timeout = 10,
      ma_iosize = 65536, ma_random = 3\<rparr>"

lemma sample_mopt: "mopt sample_args n \<longleftrightarrow> n = 29"
  by (simp add: mopt_def sample_args_def flag_simps FUSE_MOPT_NO_SYNCWRITES_def)

lemmas mopt_numbers = FUSE_MOPT_FSTYPENAME_def FUSE_MOPT_AUTO_XATTR_def FUSE_MOPT_NATIVE_XATTR_def
  FUSE_MOPT_NO_BROWSE_def FUSE_MOPT_JAIL_SYMLINKS_def FUSE_MOPT_AUTO_CACHE_def FUSE_MOPT_SPARSE_def
  FUSE_MOPT_NO_ALERTS_def FUSE_MOPT_ALLOW_ROOT_def FUSE_MOPT_ALLOW_OTHER_def FUSE_MOPT_NO_APPLEXATTR_def
  FUSE_MOPT_NO_APPLEDOUBLE_def FUSE_MOPT_FSID_def FUSE_MOPT_NO_LOCALCACHES_def FUSE_MOPT_NO_VNCACHE_def
  FUSE_MOPT_NO_UBC_def FUSE_MOPT_DIRECT_IO_def FUSE_MOPT_NO_READAHEAD_def FUSE_MOPT_NO_ATTRCACHE_def
  FUSE_MOPT_KILL_ON_UNMOUNT_def FUSE_MOPT_NEGATIVE_VNCACHE_def FUSE_MOPT_NO_SYNCWRITES_def
  FUSE_MOPT_NO_SYNCONCLOSE_def FUSE_MOPT_DEFAULT_PERMISSIONS_def FUSE_MOPT_DEFER_PERMISSIONS_def
  FUSE_MOPT_EXTENDED_SECURITY_def FUSE_MOPT_LOCALVOL_def FUSE_MOPT_BLOCKSIZE_def FUSE_MOPT_IOSIZE_def

lemma sample_options:
  "mount_opts_first sample_args v = V_Ret (0, 0) v"
  "mount_opts_allow sample_venv False sample_args sample_context 0 v = V_Ret (0, 0) v"
  "mount_opts_fsid sample_venv sample_args 0 v = V_Ret (0, 0) (noted [Kcall ''vfs_getnewfsid'' [] [] []] v)"
  "mount_opts_cache sample_args 0 v =
     V_Ret (0, FSESS_NO_SYNCWRITES) (v\<lparr>v_mp := (v_mp v)\<lparr>mp_synchronous := False, mp_async := True\<rparr>\<rparr>)"
  "mount_opts_perm sample_args FSESS_NO_SYNCWRITES v =
     V_Ret (0, FSESS_NO_SYNCWRITES) (v\<lparr>v_mp := (v_mp v)\<lparr>mp_authopaque := True, mp_authopaqueaccess := True\<rparr>\<rparr>)"
proof -
  have t: "ma_daemon_timeout sample_args = 60" "ma_init_timeout sample_args = 10"
    by (simp_all add: sample_args_def)
  show "mount_opts_first sample_args v = V_Ret (0, 0) v"
    by (simp add: mount_opts_first_def run_simps sample_mopt mopt_numbers mask_if_def t FUSE_MAX_DAEMON_TIMEOUT_def
        FUSE_MIN_DAEMON_TIMEOUT_def FUSE_MAX_INIT_TIMEOUT_def FUSE_MIN_INIT_TIMEOUT_def)
  show "mount_opts_allow sample_venv False sample_args sample_context 0 v = V_Ret (0, 0) v"
    by (simp add: mount_opts_allow_def run_simps sample_mopt mopt_numbers)
  show "mount_opts_fsid sample_venv sample_args 0 v = V_Ret (0, 0) (noted [Kcall ''vfs_getnewfsid'' [] [] []] v)"
    by (simp add: mount_opts_fsid_def run_simps sample_mopt mopt_numbers mask_if_def run_call)
  show "mount_opts_cache sample_args 0 v =
     V_Ret (0, FSESS_NO_SYNCWRITES) (v\<lparr>v_mp := (v_mp v)\<lparr>mp_synchronous := False, mp_async := True\<rparr>\<rparr>)"
    by (simp add: mount_opts_cache_def cache_opts_def run_simps sample_mopt mopt_numbers mask_if_def modmp_def)
  show "mount_opts_perm sample_args FSESS_NO_SYNCWRITES v =
     V_Ret (0, FSESS_NO_SYNCWRITES) (v\<lparr>v_mp := (v_mp v)\<lparr>mp_authopaque := True, mp_authopaqueaccess := True\<rparr>\<rparr>)"
    by (simp add: mount_opts_perm_def run_simps sample_mopt mopt_numbers mask_if_def modmp_def fsess_bits flag_simps)
qed

lemma mount_options_consistent_witness:
  "\<exists>w. mount_options sample_venv False sample_args sample_context sample_volume =
     V_Ret (0, FSESS_NO_SYNCWRITES) w \<and> mp_async (v_mp w)"
proof -
  obtain w where m: "mount_options sample_venv False sample_args sample_context sample_volume =
      V_Ret (0, FSESS_NO_SYNCWRITES) w"
    by (simp add: mount_options_def opt_then_def run_simps sample_options)
  have "has_flag FSESS_NO_SYNCWRITES FSESS_NO_SYNCWRITES" by (simp add: fsess_bits flag_simps)
  with mount_options_consistent [OF m] m show ?thesis by blast
qed

section \<open>The handshake\<close>


lemma pool_inv_abi [simp]:
  "pool_inv (s\<lparr>fuse_libabi_major := x\<rparr>) = pool_inv s" "pool_inv (s\<lparr>fuse_libabi_minor := y\<rparr>) = pool_inv s"
  "pool_inv (s\<lparr>max_write := z\<rparr>) = pool_inv s"
  by (simp_all add: pool_inv_def uniques_ok_def free_count_ok_def)

lemma in_use_abi [simp]:
  "in_use (s\<lparr>fuse_libabi_major := x\<rparr>) = in_use s" "in_use (s\<lparr>fuse_libabi_minor := y\<rparr>) = in_use s"
  "in_use (s\<lparr>max_write := z\<rparr>) = in_use s"
  by (simp_all add: in_use_def fun_eq_iff)






end
