(* ===== verification/Fuse_Handles.thy ===== *)
theory Fuse_Handles
  imports Fuse_Volume_Props
begin

text \<open>
  What an operation on a volume leaves alone, as a relation between the volume before and after it,
  and the first use of it: the handles of a file refine three counters of users.
\<close>

section \<open>Frames\<close>

definition frames :: "(volume \<Rightarrow> volume \<Rightarrow> bool) \<Rightarrow> 'a vm \<Rightarrow> bool" where
  "frames R m \<longleftrightarrow> (\<forall>v x w. m v = V_Ret x w \<longrightarrow> R v w)"

lemma framesI: "(\<And>v x w. m v = V_Ret x w \<Longrightarrow> R v w) \<Longrightarrow> frames R m"
  by (simp add: frames_def)

lemma framesD: "frames R m \<Longrightarrow> m v = V_Ret x w \<Longrightarrow> R v w"
  by (simp add: frames_def)

text \<open>
  A relation that every single step keeps is kept by every operation built from such steps, when it
  is reflexive and transitive.
\<close>

locale vol_frame =
  fixes R :: "volume \<Rightarrow> volume \<Rightarrow> bool"
  assumes R_refl: "R v v" and R_trans: "R u v \<Longrightarrow> R v w \<Longrightarrow> R u w"
begin

lemma pure: "frames R (retV x)" "frames R (getV g)" "frames R panicV" "frames R (outV y)" "frames R (VTOFUD vp)"
  "frames R (VTOI vp)" "frames R sessionV" "frames R (vtypeV vp)" "frames R (isvrootV vp)" "frames R (isdeadV vp)"
  "frames R (deniedV vp c)" "frames R (fufhV vp ty)" "frames R (ticketV fd)" "frames R (answer fd n)"
  "frames R (implementedV op)"
  by (auto intro!: framesI R_refl
      simp: took_apart retV_def getV_def panicV_def outV_def VTOFUD_def VTOI_def sessionV_def vtypeV_def
        isvrootV_def isdeadV_def deniedV_def fufhV_def ticketV_def answer_def implementedV_def
      split: outcome.splits option.splits if_splits)

lemma bind: "frames R m \<Longrightarrow> (\<And>x. frames R (f x)) \<Longrightarrow> frames R (bindV m f)"
  by (rule framesI) (auto simp: took_apart dest: framesD intro: R_trans)

lemma seq: "frames R m \<Longrightarrow> frames R n \<Longrightarrow> frames R (seqV m n)"
  by (simp add: seqV_def bind)

lemma cond:
  "(b \<Longrightarrow> frames R m) \<Longrightarrow> frames R (whenV b m)"
  "(b \<Longrightarrow> frames R m) \<Longrightarrow> (\<not> b \<Longrightarrow> frames R n) \<Longrightarrow> frames R (if b then m else n)"
  by (auto simp: whenV_def seq pure)

lemma steps: "(\<And>v. R v (f v)) \<Longrightarrow> frames R (modV f)"
  by (rule framesI) (auto simp: modV_def)

lemma cases:
  "(\<And>a b. frames R (h a b)) \<Longrightarrow> frames R (case p of (a, b) \<Rightarrow> h a b)"
  "frames R m \<Longrightarrow> (\<And>a. frames R (f a)) \<Longrightarrow> frames R (case z of None \<Rightarrow> m | Some a \<Rightarrow> f a)"
  by (auto split: prod.split option.split)

lemma session_steps:
  assumes "\<And>v s. R v (v\<lparr>v_sess := s\<rparr>)"
  shows "frames R (sessV f)" and "frames R (runsessV g)"
proof -
  show s: "frames R (sessV f)" for f :: "session \<Rightarrow> ('z \<times> session) outcome"
    by (rule framesI) (auto simp: sessV_def assms split: outcome.splits)
  show "frames R (runsessV g)" unfolding runsessV_def by (rule s)
qed

lemmas intros = pure bind seq cond cases

end

section \<open>The counters of a file\<close>

definition open_counts :: "hid \<Rightarrow> volume \<Rightarrow> fufh_type \<Rightarrow> nat" where
  "open_counts n v ty = nat (open_count (fufh (v_fud v n) ty))"

text \<open>
  What the refinement needs of the volume: calls into the kernel and other threads leave the volume
  alone, no count is negative, and nobody is in the middle of creating the file.
\<close>

definition handles_ok :: "venv \<Rightarrow> vnode \<Rightarrow> hid \<Rightarrow> volume \<Rightarrow> bool" where
  "handles_ok E vp n v \<longleftrightarrow> calls_quiet E \<and> (\<forall>w \<in> set (v_waits v). vw_others w = id) \<and> fud_of v vp = Some n \<and>
     \<not> has_flag (fv_flag (v_fud v n)) FN_CREATING \<and> (\<forall>ty. 0 \<le> open_count (fufh (v_fud v n) ty))"

definition same_handles :: "venv \<Rightarrow> vnode \<Rightarrow> hid \<Rightarrow> volume \<Rightarrow> volume \<Rightarrow> bool" where
  "same_handles E vp n v w \<longleftrightarrow> (handles_ok E vp n v \<longrightarrow>
     handles_ok E vp n w \<and> open_counts n w = open_counts n v \<and> vn_vtype w = vn_vtype v)"

interpretation handles: vol_frame "same_handles E vp n" for E vp n
  by unfold_locales (auto simp: same_handles_def)

text \<open>An update of the data of a file that leaves the counts and the creator's flag alone.\<close>

definition keeps_handles :: "(fuse_vnode_data \<Rightarrow> fuse_vnode_data) \<Rightarrow> bool" where
  "keeps_handles f \<longleftrightarrow> (\<forall>d ty. open_count (fufh (f d) ty) = open_count (fufh d ty) \<and>
     has_flag (fv_flag (f d)) FN_CREATING = has_flag (fv_flag d) FN_CREATING)"

lemma frames_updfud [intro]: "keeps_handles f \<Longrightarrow> frames (same_handles E vp n) (updfud vp' f)"
  by (rule framesI)
    (auto simp: updfud_def same_handles_def handles_ok_def keeps_handles_def open_counts_def fun_eq_iff
      split: option.splits if_splits)

lemma set_tl: "x \<in> set (tl xs) \<Longrightarrow> x \<in> set xs"
  by (cases xs) auto

lemma same_handles_frame:
  "same_handles E vp n v (v\<lparr>v_sess := s\<rparr>)" "same_handles E vp n v (v\<lparr>v_mp := mp\<rparr>)"
  "same_handles E vp n v (v\<lparr>v_sess := s, v_mp := mp\<rparr>)" "same_handles E vp n v (v\<lparr>v_mp := mp, v_sess := s\<rparr>)"
  "same_handles E vp n v (v\<lparr>v_sess := s, v_waits := tl (v_waits v)\<rparr>)"
  "same_handles E vp n v (noted cs v)"
  by (auto simp: same_handles_def handles_ok_def open_counts_def fun_eq_iff dest: set_tl)

lemma wait_answ_quiet:
  assumes "\<forall>w \<in> set (v_waits v). vw_others w = id" and "wait_answ E fd v = V_Ret (err, fd1) w"
  shows "\<exists>s. w = v\<lparr>v_sess := s, v_waits := tl (v_waits v)\<rparr>"
proof -
  from assms obtain u us s where v: "v_waits v = u # us" "vw_others u = id"
    "w = vdata.extend ((vw_others u (vdata.truncate v))\<lparr>v_sess := s\<rparr>) (volume.fields us (v_gaps v))"
    by (auto simp: wait_answ_def split: list.splits outcome.splits option.splits)
  then have "w = v\<lparr>v_sess := s, v_waits := tl (v_waits v)\<rparr>"
    by (cases v) (simp add: vdata.defs volume.defs)
  then show ?thesis by blast
qed

named_theorems handle_frames

lemma frames_primitive [handle_frames]:
  "frames (same_handles E vp n) (sessV f)" "frames (same_handles E vp n) (runsessV g)"
  "frames (same_handles E vp n) (wait_answ E fd)" "frames (same_handles E vp n) (callV E c)"
  "frames (same_handles E vp n) (docallV E c)" "frames (same_handles E vp n) (clear_implemented op)"
  "frames (same_handles E vp n) (countV k)" "frames (same_handles E vp n) fuse_clearnosyncwrites_mp"
proof -
  show "frames (same_handles E vp n) (sessV f)" "frames (same_handles E vp n) (runsessV g)"
    by (rule handles.session_steps, rule same_handles_frame)+
  have guard: "(handles_ok E vp n v \<Longrightarrow> same_handles E vp n v w) \<Longrightarrow> same_handles E vp n v w" for v w
    by (simp add: same_handles_def)
  show "frames (same_handles E vp n) (wait_answ E fd)"
  proof (rule framesI, rule guard)
    fix v x w assume m: "wait_answ E fd v = V_Ret x w" and ok: "handles_ok E vp n v"
    obtain err fd1 where "x = (err, fd1)" by fastforce
    moreover have "\<forall>u \<in> set (v_waits v). vw_others u = id" using ok by (simp add: handles_ok_def)
    ultimately obtain s where "w = v\<lparr>v_sess := s, v_waits := tl (v_waits v)\<rparr>"
      using wait_answ_quiet m by blast
    then show "same_handles E vp n v w" using same_handles_frame(5) by simp
  qed
  have call: "same_handles E vp n v w" if "callV E c v = V_Ret x w \<or> docallV E c v = V_Ret y w" for v w x y
  proof (rule guard)
    assume "handles_ok E vp n v"
    then have "calls_quiet E" by (simp add: handles_ok_def)
    with that have "w = noted [c] v" by (auto simp: run_call)
    then show "same_handles E vp n v w" using same_handles_frame(6) by simp
  qed
  show "frames (same_handles E vp n) (callV E c)" "frames (same_handles E vp n) (docallV E c)"
    using call by (blast intro: framesI)+
  show "frames (same_handles E vp n) (clear_implemented op)" "frames (same_handles E vp n) (countV k)"
    unfolding clear_implemented_def countV_def by (rule handles.steps, rule same_handles_frame)+
  show "frames (same_handles E vp n) fuse_clearnosyncwrites_mp"
    unfolding fuse_clearnosyncwrites_mp_def
    by (rule handles.steps) (simp add: same_handles_frame handles.R_refl)
qed

lemma FN_bits: "FN_CREATING = flagbit 1" "FN_DIRECT_IO = flagbit 2" "FN_REVOKED = flagbit 5"
  by (simp_all add: FN_CREATING_def FN_DIRECT_IO_def FN_REVOKED_def flagbit_def)

lemma frames_requests [handle_frames]:
  "frames (same_handles E vp n) (poke fd off b)" "frames (same_handles E vp n) (poke32 fd off x32)"
  "frames (same_handles E vp n) (poke64 fd off x64)" "frames (same_handles E vp n) (poke_answer fd off b)"
  "frames (same_handles E vp n) (drop_ticket E fd)" "frames (same_handles E vp n) (fdisp_make_vp E fd op vp' c)"
  "frames (same_handles E vp n) (simple_putget_vp E op vp' c)"
  unfolding poke_def poke32_def poke64_def poke_answer_def drop_ticket_def fdisp_make_vp_def simple_putget_vp_def
  by (intro handles.intros handle_frames)+

lemma frames_invalidate [handle_frames]: "frames (same_handles E vp n) (invalidate_attrV vp')"
proof -
  have "frames (same_handles E vp n) (updfud vp' fuse_invalidate_attr)"
    by (rule frames_updfud) (simp add: keeps_handles_def fuse_invalidate_attr_def)
  then show ?thesis
    by (auto simp: invalidate_attrV_def frames_def handles.R_refl split: option.split)
qed

lemma frames_internal [handle_frames]:
  "frames (same_handles E vp n) (ubc_flush_all E vp' sz)" "frames (same_handles E vp n) (ubc_setsizeV E vp' sz)"
  "frames (same_handles E vp n) (FUSE_KNOTE E vp' hint)" "frames (same_handles E vp n) (ubc_purge E vp')"
  "frames (same_handles E vp n) (fuse_internal_revoke E vp' flags how)"
  unfolding ubc_flush_all_def ubc_setsizeV_def FUSE_KNOTE_def ubc_purge_def fuse_internal_revoke_def
  by (intro handles.intros handle_frames frames_updfud; simp add: keeps_handles_def FN_bits flag_simps)+

lemma frames_disappear [handle_frames]:
  "frames (same_handles E vp n) (fuse_internal_vnode_disappear E vp' how)"
  unfolding fuse_internal_vnode_disappear_def fuse_vncache_purge_def
  by (intro handles.intros handle_frames)

lemma frames_cache_attrs [handle_frames]:
  "frames (same_handles E vp n) (cache_attrs E vp' fdi sec nsec off)"
  unfolding cache_attrs_def
  by (intro handles.intros handle_frames frames_updfud) (simp add: keeps_handles_def)

lemma frames_open_purge_attr [handle_frames]: "frames (same_handles E vp n) (open_purge_attr E vp' c)"
  unfolding open_purge_attr_def Let_def
  by (intro handles.intros handle_frames frames_updfud) (simp_all add: keeps_handles_def)

lemma frames_open_ok [handle_frames]: "frames (same_handles E vp n) (open_ok E vp' ty c)"
  unfolding open_ok_def
  by (intro handles.intros handle_frames frames_updfud) (simp_all add: keeps_handles_def upd_fufh_def FN_bits flag_simps)

lemma frames_close_flush [handle_frames]: "frames (same_handles E vp n) (close_flush E vp' ty c)"
  unfolding close_flush_def
  by (intro handles.intros handle_frames)

lemma frames_put [handle_frames]: "frames (same_handles E vp n) (fuse_filehandle_put E vp' c ty how)"
  unfolding fuse_filehandle_put_def
  by (intro handles.intros handle_frames)

lemma frames_preflight [handle_frames]:
  "frames (same_handles E vp n) (fuse_filehandle_preflight_status E vp' dvp ty)"
  unfolding fuse_filehandle_preflight_status_def Let_def
  by (cases ty) (auto intro!: handles.intros handle_frames)

section \<open>Moving the counters\<close>

text \<open>
  \<open>moves E vp n P T m\<close>: run where the counters satisfy \<open>P\<close>, the operation \<open>m\<close> on the file takes
  them to counters that \<open>T\<close> allows for its result.
\<close>

type_synonym counts = "fufh_type \<Rightarrow> nat"

definition moves ::
    "venv \<Rightarrow> vnode \<Rightarrow> hid \<Rightarrow> (counts \<Rightarrow> bool) \<Rightarrow> (counts \<Rightarrow> 'a \<Rightarrow> counts \<Rightarrow> bool) \<Rightarrow> 'a vm \<Rightarrow> bool" where
  "moves E vp n P T m \<longleftrightarrow> (\<forall>v x w. m v = V_Ret x w \<longrightarrow> handles_ok E vp n v \<longrightarrow> P (open_counts n v) \<longrightarrow>
     handles_ok E vp n w \<and> vn_vtype w = vn_vtype v \<and> T (open_counts n v) x (open_counts n w))"


lemma moves_frame:
  "frames (same_handles E vp n) m \<Longrightarrow> (\<And>c x. P c \<Longrightarrow> T c x c) \<Longrightarrow> moves E vp n P T m"
  unfolding moves_def by (metis framesD same_handles_def)










section \<open>The operations on handles\<close>




text \<open>Something that moves the counters, and then something that leaves them alone.\<close>

definition stays :: "venv \<Rightarrow> vnode \<Rightarrow> hid \<Rightarrow> ('a \<Rightarrow> bool) \<Rightarrow> 'a vm \<Rightarrow> bool" where
  "stays E vp n Q m \<longleftrightarrow> moves E vp n (\<lambda>_. True) (\<lambda>c x c'. c' = c \<and> Q x) m"

lemma staysI:
  "frames (same_handles E vp n) m \<Longrightarrow> (\<And>v x w. m v = V_Ret x w \<Longrightarrow> Q x) \<Longrightarrow> stays E vp n Q m"
  unfolding stays_def moves_def by (metis framesD same_handles_def)




lemma open_ok_returns: "open_ok E vp ty c v = V_Ret x w \<Longrightarrow> x = 0"
  by (auto simp: open_ok_def took_apart retV_def split: if_splits)

lemma stays_open_ok: "stays E vp n (\<lambda>x. x = 0) (open_ok E vp ty c)"
  by (rule staysI [OF frames_open_ok open_ok_returns])


section \<open>The abstract file\<close>


definition op_handle :: "vtype \<Rightarrow> u32 \<Rightarrow> fufh_type outcome" where
  "op_handle vt mode = (if vt = VDIR then Done FUFH_RDONLY else fuse_filehandle_xlate_from_fflags mode)"












section \<open>Sequences of operations\<close>





text \<open>The sample file, opened once for reading; its daemon does not implement flush.\<close>

definition sample_open :: volume where
  "sample_open = sample_volume
     \<lparr>v_fud := (\<lambda>n. upd_fufh FUFH_RDONLY (\<lambda>f. f\<lparr>fh_id := 9, open_count := 1\<rparr>) (v_fud sample_volume n)),
      v_sess := fuse_clear_implemented (FSESS_NOIMPLBIT FUSE_FLUSH) (v_sess sample_volume)\<rparr>"

lemma noted_noted: "noted b (noted a v) = noted (a @ b) v" "noted [] v = v"
  by (simp_all add: noted_def)

lemma close_silently:
  assumes n: "fud_of y vp = Some n" and quiet: "calls_quiet E" and alive: "\<not> fuse_isdeadfs (v_sess y) (v_fud y n)"
    and mode: "op_handle (vn_vtype y vp) mode = Done ty" "mode \<noteq> IO_NDELAY" "ty \<noteq> FUFH_INVALID"
    and valid: "1 < open_count (fufh (v_fud y n) ty)"
    and noflush: "\<not> fuse_implemented (v_sess y) (FSESS_NOIMPLBIT FUSE_FLUSH)"
  shows "\<exists>ds. fuse_vnop_close E vp mode c y =
    V_Ret 0 (noted ds (y\<lparr>v_fud := (v_fud y)(n := upd_fufh ty FUFH_USE_DEC (v_fud y n))\<rparr>))"
proof -
  have v: "FUFH_IS_VALID (fufh (v_fud y n) ty)" "FUFH_IS_VALID (FUFH_USE_DEC (fufh (v_fud y n) ty))"
    using valid by (simp_all add: FUFH_IS_VALID_def FUFH_USE_DEC_def)
  have upd: "(noted cs y)\<lparr>v_fud := f\<rparr> = noted cs (y\<lparr>v_fud := f\<rparr>)" "y\<lparr>v_fud := f\<rparr> = noted [] (y\<lparr>v_fud := f\<rparr>)" for cs f
    by (simp_all add: noted_def)
  let ?w = "y\<lparr>v_fud := (v_fud y)(n := upd_fufh ty FUFH_USE_DEC (v_fud y n))\<rparr>"
  show ?thesis
  proof (cases "vn_vtype y vp = VDIR")
    case True
    then have "fuse_vnop_close E vp mode c y = V_Ret 0 (noted [] ?w)"
      using mode alive v
      by (simp add: fuse_vnop_close_def run_simps run_fud run_fud [OF n] n fufhV_def op_handle_def upd_fufh_def noted_noted)
    then show ?thesis by blast
  next
    case False
    define k where "k = Kcall ''vnode_hasdirtyblks'' [vp] [] []"
    define p where "p = Kcall ''cluster_push'' [vp] [IO_SYNC OR IO_CLOSE] []"
    let ?push = "call_result E k y \<noteq> 0 \<and> \<not> fuse_isnosynconclose (v_sess y) (v_fud y n)"
    have "fuse_vnop_close E vp mode c y = V_Ret 0 (noted (if ?push then [k, p] else [k]) ?w)"
      using mode alive v noflush False
      by (simp add: fuse_vnop_close_def close_flush_def implementedV_def run_simps run_fud run_fud [OF n] n fufhV_def
          op_handle_def upd_fufh_def run_call [OF quiet] noted_noted upd(1) k_def [symmetric] p_def [symmetric])
    then show ?thesis by blast
  qed
qed

lemma open_silently:
  assumes n: "fud_of v vp = Some n" and quiet: "calls_quiet E" and alive: "\<not> fuse_isdeadfs (v_sess v) (v_fud v n)"
    and vt: "vn_vtype v vp \<noteq> VFIFO" and allow: "\<not> fuse_blanket_deny (v_sess v) (v_fud v n) (vn_isvroot v vp) c"
    and mode: "op_handle (vn_vtype v vp) mode = Done ty" "ty \<noteq> FUFH_INVALID"
    and valid: "FUFH_IS_VALID (fufh (v_fud v n) ty)" and nc: "\<not> has_flag (fv_flag (v_fud v n)) FN_CREATING"
    and cached: "\<not> fuse_isdirectio (v_sess v) (v_fud v n)"
      "\<not> has_flag (fuse_open_flags (fufh (v_fud v n) ty)) FOPEN_DIRECT_IO"
      "\<not> has_flag (fuse_open_flags (fufh (v_fud v n) ty)) FOPEN_PURGE_UBC"
  shows "\<exists>cs. fuse_vnop_open E vp mode c v = V_Ret 0 (noted cs
    (v\<lparr>v_fud := (v_fud v)(n := upd_fufh ty FUFH_USE_INC (v_fud v n)),
       v_sess := (v_sess v)\<lparr>cnt := (cnt (v_sess v))
         \<lparr>fuse_fh_reuse_count := fuse_fh_reuse_count (cnt (v_sess v)) + 1\<rparr>\<rparr>\<rparr>))"
proof -
  define g where "g = (cnt (v_sess v))\<lparr>fuse_fh_reuse_count := fuse_fh_reuse_count (cnt (v_sess v)) + 1\<rparr>"
  define u where "u = v\<lparr>v_fud := (v_fud v)(n := upd_fufh ty FUFH_USE_INC (v_fud v n)),
      v_sess := (v_sess v)\<lparr>cnt := g\<rparr>\<rparr>"
  have ud: "v_fud u = (v_fud v)(n := upd_fufh ty FUFH_USE_INC (v_fud v n))" "v_sess u = (v_sess v)\<lparr>cnt := g\<rparr>"
    "fud_of u vp = Some n" "v_waits u = v_waits v" "vn_vtype u = vn_vtype v"
    using n by (simp_all add: u_def)
  have f: "fufh (upd_fufh ty FUFH_USE_INC (v_fud v n)) ty = FUFH_USE_INC (fufh (v_fud v n) ty)"
    "fv_flag (upd_fufh ty FUFH_USE_INC (v_fud v n)) = fv_flag (v_fud v n)"
    "fuse_open_flags (FUFH_USE_INC h) = fuse_open_flags h" for h
    by (simp_all add: upd_fufh_def FUFH_USE_INC_def)
  have dio: "\<not> fuse_isdirectio (v_sess u) (v_fud u n)"
    using cached(1) by (simp add: ud f fuse_isdirectio_def)
  have ok: "\<exists>cs. open_ok E vp ty c u = V_Ret 0 (noted cs u)"
    using cached(2,3) dio
    by (auto simp: open_ok_def run_simps run_fud [OF ud(3)] ud(1) f run_call [OF quiet] noted_noted
        intro: exI [of _ "[]"])
  from ok obtain cs where "open_ok E vp ty c u = V_Ret 0 (noted cs u)" by blast
  then have "fuse_vnop_open E vp mode c v = V_Ret 0 (noted cs u)"
    using mode valid vt alive allow nc
    by (simp add: fuse_vnop_open_def run_simps run_fud [OF n] op_handle_def fufhV_def countV_def u_def g_def
        split: if_splits)
  then show ?thesis unfolding u_def g_def by blast
qed

lemma sample_open_fields:
  "fud_of sample_open 7 = Some 0" "\<not> fuse_isdeadfs (v_sess sample_open) (v_fud sample_open 0)"
  "vn_vtype sample_open 7 = VREG"
  "\<not> fuse_blanket_deny (v_sess sample_open) (v_fud sample_open 0) (vn_isvroot sample_open 7) sample_context"
  "op_handle (vn_vtype sample_open 7) 1 = Done FUFH_RDONLY" "open_count (fufh (v_fud sample_open 0) FUFH_RDONLY) = 1"
  "fuse_open_flags (fufh (v_fud sample_open 0) FUFH_RDONLY) = 0" "fv_flag (v_fud sample_open 0) = 0"
  "\<not> fuse_isdirectio (v_sess sample_open) (v_fud sample_open 0)"
  "\<not> fuse_implemented (v_sess sample_open) (FSESS_NOIMPLBIT FUSE_FLUSH)" "handles_ok sample_venv 7 0 sample_open"
proof -
  have d: "daemoncred sample_session = sample_cred" by (simp add: sample_session_def fdata_fresh_def)
  have c: "fv_flag (v_fud sample_open n) = 0" "v_sess sample_open = fuse_clear_implemented (FSESS_NOIMPLBIT FUSE_FLUSH)
      (v_sess sample_volume)" for n
    by (simp_all add: sample_open_def upd_fufh_def fvdat_zero_def)
  show "fud_of sample_open 7 = Some 0" by (simp add: sample_open_def)
  show "\<not> fuse_isdeadfs (v_sess sample_open) (v_fud sample_open 0)" "\<not> fuse_isdirectio (v_sess sample_open) (v_fud sample_open 0)"
    by (simp_all add: c fuse_isdeadfs_def fuse_isdeadfs_mp_def fuse_isdirectio_def fuse_clear_implemented_def
        has_flag_def FSESS_DEAD_def FSESS_INITED_def FSESS_DIRECT_IO_def)
  show "vn_vtype sample_open 7 = VREG" "open_count (fufh (v_fud sample_open 0) FUFH_RDONLY) = 1"
    "fuse_open_flags (fufh (v_fud sample_open 0) FUFH_RDONLY) = 0" "fv_flag (v_fud sample_open 0) = 0"
    by (simp_all add: sample_open_def upd_fufh_def fvdat_zero_def fufh_zero_def)
  show "\<not> fuse_blanket_deny (v_sess sample_open) (v_fud sample_open 0) (vn_isvroot sample_open 7) sample_context"
    by (simp add: fuse_blanket_deny_def c fuse_clear_implemented_def d sample_context_def fuse_match_cred_def sample_cred_def)
  show "op_handle (vn_vtype sample_open 7) 1 = Done FUFH_RDONLY"
    by (simp add: sample_open_def op_handle_def fuse_filehandle_xlate_from_fflags_def has_flag_def FREAD_def FWRITE_def)
  show "\<not> fuse_implemented (v_sess sample_open) (FSESS_NOIMPLBIT FUSE_FLUSH)"
    by (simp add: c fuse_implemented_def fuse_clear_implemented_def has_flag_def set_flag_def FSESS_NOIMPLBIT_def
        sample_session_def fdata_fresh_def)
  show "handles_ok sample_venv 7 0 sample_open"
    by (simp add: handles_ok_def has_flag_def sample_open_def upd_fufh_def fvdat_zero_def fufh_zero_def)
qed

lemma sample_open_mode:
  "vn_vtype sample_open 7 \<noteq> VFIFO" "(1 :: u32) \<noteq> IO_NDELAY" "FUFH_RDONLY \<noteq> FUFH_INVALID"
  "FUFH_IS_VALID (fufh (v_fud sample_open 0) FUFH_RDONLY)" "\<not> has_flag (fv_flag (v_fud sample_open 0)) FN_CREATING"
  "\<not> has_flag (fuse_open_flags (fufh (v_fud sample_open 0) FUFH_RDONLY)) FOPEN_DIRECT_IO"
  "\<not> has_flag (fuse_open_flags (fufh (v_fud sample_open 0) FUFH_RDONLY)) FOPEN_PURGE_UBC"
  by (simp_all add: sample_open_fields IO_NDELAY_def FUFH_IS_VALID_def has_flag_def)

text \<open>
  Opening a file that is open for the same access asks the daemon nothing, and neither does
  closing it again: the open returns 0 and adds a user, no request is queued and nobody waits; the
  close takes the user away, and when the daemon implements no flush the session is as it was, but for
  the counter of reused handles.
\<close>

lemma open_shares_handle:
  assumes n: "fud_of v vp = Some n" and quiet: "calls_quiet E" and alive: "\<not> fuse_isdeadfs (v_sess v) (v_fud v n)"
    and vt: "vn_vtype v vp \<noteq> VFIFO" and allow: "\<not> fuse_blanket_deny (v_sess v) (v_fud v n) (vn_isvroot v vp) c"
    and mode: "op_handle (vn_vtype v vp) mode = Done ty" "mode \<noteq> IO_NDELAY" "ty \<noteq> FUFH_INVALID"
    and valid: "FUFH_IS_VALID (fufh (v_fud v n) ty)" and nc: "\<not> has_flag (fv_flag (v_fud v n)) FN_CREATING"
    and cached: "\<not> fuse_isdirectio (v_sess v) (v_fud v n)"
      "\<not> has_flag (fuse_open_flags (fufh (v_fud v n) ty)) FOPEN_DIRECT_IO"
      "\<not> has_flag (fuse_open_flags (fufh (v_fud v n) ty)) FOPEN_PURGE_UBC"
    and noflush: "\<not> fuse_implemented (v_sess v) (FSESS_NOIMPLBIT FUSE_FLUSH)"
  shows "\<exists>u w. fuse_vnop_open E vp mode c v = V_Ret 0 u \<and> fuse_vnop_close E vp mode c u = V_Ret 0 w \<and>
    open_count (fufh (v_fud u n) ty) = open_count (fufh (v_fud v n) ty) + 1 \<and> v_fud w = v_fud v \<and>
    v_sess w = v_sess u \<and> v_waits w = v_waits v \<and> v_sess u = (v_sess v)\<lparr>cnt := (cnt (v_sess v))
      \<lparr>fuse_fh_reuse_count := fuse_fh_reuse_count (cnt (v_sess v)) + 1\<rparr>\<rparr>"
proof -
  define g where "g = (cnt (v_sess v))\<lparr>fuse_fh_reuse_count := fuse_fh_reuse_count (cnt (v_sess v)) + 1\<rparr>"
  define u where "u = v\<lparr>v_fud := (v_fud v)(n := upd_fufh ty FUFH_USE_INC (v_fud v n)),
      v_sess := (v_sess v)\<lparr>cnt := g\<rparr>\<rparr>"
  obtain cs where open': "fuse_vnop_open E vp mode c v = V_Ret 0 (noted cs u)"
    using open_silently [OF n quiet alive vt allow mode(1,3) valid nc cached] unfolding u_def g_def by blast
  have ud: "v_fud u = (v_fud v)(n := upd_fufh ty FUFH_USE_INC (v_fud v n))" "v_sess u = (v_sess v)\<lparr>cnt := g\<rparr>"
    "fud_of u vp = Some n" "v_waits u = v_waits v" "vn_vtype u = vn_vtype v"
    using n by (simp_all add: u_def)
  have f: "fufh (upd_fufh ty FUFH_USE_INC (v_fud v n)) ty = FUFH_USE_INC (fufh (v_fud v n) ty)"
    "fv_flag (upd_fufh ty FUFH_USE_INC (v_fud v n)) = fv_flag (v_fud v n)"
    by (simp_all add: upd_fufh_def)
  let ?y = "noted cs u"
  have ny: "fud_of ?y vp = Some n" using ud(3) by simp
  have undo: "upd_fufh ty FUFH_USE_DEC (upd_fufh ty FUFH_USE_INC d) = d" for d
    by (simp add: upd_fufh_def FUFH_USE_INC_def FUFH_USE_DEC_def)
  have "1 < open_count (fufh (v_fud ?y n) ty)"
    using valid by (simp add: ud f FUFH_IS_VALID_def FUFH_USE_INC_def)
  moreover have "\<not> fuse_isdeadfs (v_sess ?y) (v_fud ?y n)" "\<not> fuse_implemented (v_sess ?y) (FSESS_NOIMPLBIT FUSE_FLUSH)"
    using alive noflush by (simp_all add: ud f fuse_isdeadfs_def fuse_isdeadfs_mp_def fuse_implemented_def)
  moreover have "op_handle (vn_vtype ?y vp) mode = Done ty" using mode(1) ud(5) by simp
  ultimately obtain ds where
    "fuse_vnop_close E vp mode c ?y =
      V_Ret 0 (noted ds (?y\<lparr>v_fud := (v_fud ?y)(n := upd_fufh ty FUFH_USE_DEC (v_fud ?y n))\<rparr>))"
    using close_silently [OF ny quiet _ _ mode(2,3)] by blast
  moreover have "(v_fud ?y)(n := upd_fufh ty FUFH_USE_DEC (v_fud ?y n)) = v_fud v"
    by (simp add: ud undo)
  ultimately have "\<exists>ds w. fuse_vnop_close E vp mode c ?y = V_Ret 0 w \<and> w = noted ds (?y\<lparr>v_fud := v_fud v\<rparr>)"
    by auto
  then obtain ds w where "fuse_vnop_close E vp mode c ?y = V_Ret 0 w" "w = noted ds (?y\<lparr>v_fud := v_fud v\<rparr>)"
    by blast
  with open' show ?thesis
    by (intro exI [of _ ?y] exI [of _ w]) (simp add: ud f FUFH_USE_INC_def upd_fufh_def g_def)
qed

lemma open_shares_handle_witness:
  "\<exists>u w. fuse_vnop_open sample_venv 7 1 sample_context sample_open = V_Ret 0 u \<and>
     open_count (fufh (v_fud u 0) FUFH_RDONLY) = 2 \<and>
     fuse_vnop_close sample_venv 7 1 sample_context u = V_Ret 0 w \<and> v_fud w = v_fud sample_open"
proof -
  note f = sample_open_fields
  note s = sample_open_mode
  from open_shares_handle [OF f(1) calls_quiet_sample f(2) s(1) f(4,5) s(2-5) f(9) s(6,7) f(10)] f(6)
  show ?thesis by auto
qed


end
