(* ===== verification/Fuse_Isolation.thy ===== *)
theory Fuse_Isolation
  imports Fuse_Handles Fuse_Vnops_Attr
begin


section \<open>Nothing but the file\<close>














end
