(* ===== verification/Fuse_Unmount.thy ===== *)
theory Fuse_Unmount
  imports Fuse_Handles
begin









end
