(* ===== verification/Fuse_Mount.thy ===== *)
theory Fuse_Mount
  imports Fuse_Vfsops
begin

text \<open>
  The utility \<^verbatim>\<open>mount_fusefs\<close> that the library runs to mount a volume
  (\<^verbatim>\<open>mount/mount_fusefs.c\<close>, \<^verbatim>\<open>mount/getmntopts.c\<close>) and the one that loads the
  kernel extension (\<^verbatim>\<open>load/load_fusefs.c\<close>). Strings are lists of characters without the
  terminating zero. The functions of the C library that the code uses on strings are written out for
  the locale C and 32-bit \<^verbatim>\<open>long\<close>s, the i386 and ppc builds; allocation in user space
  succeeds. A run ends with an exit code and the message that is printed; the calls into the kernel
  that change something are recorded in order.
\<close>

section \<open>The C library\<close>

definition tolower :: "char \<Rightarrow> char" where
  "tolower c =
     (case map_of (zip ''ABCDEFGHIJKLMNOPQRSTUVWXYZ'' ''abcdefghijklmnopqrstuvwxyz'') c of
        None \<Rightarrow> c | Some l \<Rightarrow> l)"

text \<open>Whether \<^verbatim>\<open>strncasecmp(s, t, strlen(t))\<close> is zero.\<close>

definition strcase_prefix :: "string \<Rightarrow> string \<Rightarrow> bool" where
  "strcase_prefix t s \<longleftrightarrow> map tolower (take (length t) s) = map tolower t"

text \<open>Whether \<^verbatim>\<open>strncmp(s, t, strlen(t))\<close> is zero.\<close>

definition str_prefix :: "string \<Rightarrow> string \<Rightarrow> bool" where
  "str_prefix t s \<longleftrightarrow> take (length t) s = t"

text \<open>The rest of the string from the first occurrence of the pattern.\<close>

fun strstr :: "string \<Rightarrow> string \<Rightarrow> string option" where
  "strstr [] t = (if t = [] then Some [] else None)"
| "strstr (c # s) t = (if str_prefix t (c # s) then Some (c # s) else strstr s t)"

text \<open>The next token and the rest of the string after the delimiter that ended it.\<close>

definition strtok :: "char \<Rightarrow> string \<Rightarrow> (string \<times> string) option" where
  "strtok d s =
     (let s1 = dropWhile (\<lambda>c. c = d) s
      in if s1 = [] then None
         else Some (takeWhile (\<lambda>c. c \<noteq> d) s1, drop 1 (dropWhile (\<lambda>c. c \<noteq> d) s1)))"

definition digit_value :: "char \<Rightarrow> int option" where
  "digit_value c = map_of (zip ''0123456789'' [0, 1, 2, 3, 4, 5, 6, 7, 8, 9]) c"

fun digits_value :: "int \<Rightarrow> string \<Rightarrow> int" where
  "digits_value acc [] = acc"
| "digits_value acc (c # s) =
     (case digit_value c of None \<Rightarrow> acc | Some k \<Rightarrow> digits_value (10 * acc + k) s)"

definition isspace :: "char \<Rightarrow> bool" where
  "isspace c \<longleftrightarrow> c \<in> {CHR 0x09, CHR 0x0A, CHR 0x0B, CHR 0x0C, CHR 0x0D, CHR '' ''}"

text \<open>
  The sign and the digits of a number in base 10 after white space: negative or not, whether there are
  digits, and their value.
\<close>

definition scan_number :: "string \<Rightarrow> bool \<times> bool \<times> int" where
  "scan_number s =
     (let s1 = dropWhile isspace s;
          neg = (s1 \<noteq> [] \<and> hd s1 = CHR ''-'');
          s2 = (if s1 \<noteq> [] \<and> hd s1 \<in> {CHR ''-'', CHR ''+''} then tl s1 else s1)
      in (neg, s2 \<noteq> [] \<and> digit_value (hd s2) \<noteq> None, digits_value 0 s2))"

text \<open>The value of \<^verbatim>\<open>strtoul\<close> and of \<^verbatim>\<open>errno\<close>, which was zero before.\<close>

definition strtoul :: "string \<Rightarrow> u32 \<times> errno" where
  "strtoul s =
     (case scan_number s of (neg, some, n) \<Rightarrow>
        if \<not> some then (0, EINVAL)
        else if n > 2 ^ 32 - 1 then (- 1, ERANGE)
        else (if neg then - of_int n else of_int n, 0))"

definition strtol :: "string \<Rightarrow> int \<times> errno" where
  "strtol s =
     (case scan_number s of (neg, some, n) \<Rightarrow>
        if \<not> some then (0, EINVAL)
        else if neg then (if n > 2 ^ 31 then (- (2 ^ 31), ERANGE) else (- n, 0))
        else if n > 2 ^ 31 - 1 then (2 ^ 31 - 1, ERANGE) else (n, 0))"

text \<open>The number as \<^verbatim>\<open>%d\<close> prints it.\<close>

fun dec :: "nat \<Rightarrow> string" where
  "dec n = (if n < 10 then [''0123456789'' ! n] else dec (n div 10) @ [''0123456789'' ! (n mod 10)])"

definition fmt_d :: "int \<Rightarrow> string" where
  "fmt_d i = (if i < 0 then CHR ''-'' # dec (nat (- i)) else dec (nat i))"

text \<open>What \<^verbatim>\<open>snprintf\<close> leaves in a buffer of the size.\<close>

definition snprintf :: "nat \<Rightarrow> string \<Rightarrow> string" where
  "snprintf n s = take (n - 1) s"

definition c_basename :: "string \<Rightarrow> string option" where
  "c_basename p =
     (let q = rev (dropWhile (\<lambda>c. c = CHR ''/'') (rev p));
          b = rev (takeWhile (\<lambda>c. c \<noteq> CHR ''/'') (rev q))
      in if p = [] then Some ''.''
         else if q = [] then Some ''/''
         else if length b + 1 > MAXPATHLEN then None else Some b)"

datatype opt_char = O_start | O_end | O_arg string | O_v | O_help

text \<open>
  \<^verbatim>\<open>getopt(argc, argv, "ho:v")\<close> on the arguments that are left. What follows an option that
  ends the program does not matter.
\<close>

fun getopt :: "string list \<Rightarrow> opt_char \<times> string list" where
  "getopt [] = (O_end, [])"
| "getopt (a # args) =
     (case a of
        CHR ''-'' # c # r \<Rightarrow>
          if c = CHR ''-'' \<and> r = [] then (O_end, args)
          else if c = CHR ''o'' then
            (if r \<noteq> [] then (O_arg r, args)
             else (case args of [] \<Rightarrow> (O_help, []) | x # xs \<Rightarrow> (O_arg x, xs)))
          else if c = CHR ''v'' then (O_v, args)
          else (O_help, args)
      | _ \<Rightarrow> (O_end, a # args))"

section \<open>The table of options (\<^verbatim>\<open>mntopts.h\<close>, \<^verbatim>\<open>mount_fusefs.c\<close>)\<close>

record mntopt =
  m_option :: string
  m_inverse :: bool
  m_flag :: u64
  m_altloc :: bool

definition MNT_RDONLY :: u64 where "MNT_RDONLY = flagbit 0"
definition MNT_NOEXEC :: u64 where "MNT_NOEXEC = flagbit 2"
definition MNT_NOSUID :: u64 where "MNT_NOSUID = flagbit 3"
definition MNT_NODEV :: u64 where "MNT_NODEV = flagbit 4"
definition MNT_UNION :: u64 where "MNT_UNION = flagbit 5"
definition MNT_UPDATE :: u64 where "MNT_UPDATE = flagbit 16"
definition MNT_DONTBROWSE :: u64 where "MNT_DONTBROWSE = flagbit 20"
definition MNT_AUTOMOUNTED :: u64 where "MNT_AUTOMOUNTED = flagbit 22"
definition MNT_DEFWRITE :: u64 where "MNT_DEFWRITE = flagbit 25"
definition MNT_NOATIME :: u64 where "MNT_NOATIME = flagbit 28"

definition FUSE_MOPT_ALLOW_RECURSION :: nat where "FUSE_MOPT_ALLOW_RECURSION = 1"
definition FUSE_MOPT_DAEMON_TIMEOUT :: nat where "FUSE_MOPT_DAEMON_TIMEOUT = 5"
definition FUSE_MOPT_DEBUG :: nat where "FUSE_MOPT_DEBUG = 6"
definition FUSE_MOPT_FSNAME :: nat where "FUSE_MOPT_FSNAME = 12"
definition FUSE_MOPT_FSSUBTYPE :: nat where "FUSE_MOPT_FSSUBTYPE = 13"
definition FUSE_MOPT_INIT_TIMEOUT :: nat where "FUSE_MOPT_INIT_TIMEOUT = 15"
definition FUSE_MOPT_USE_INO :: nat where "FUSE_MOPT_USE_INO = 32"
definition FUSE_MOPT_VOLNAME :: nat where "FUSE_MOPT_VOLNAME = 33"

definition MOPT_STDOPTS :: "mntopt list" where
  "MOPT_STDOPTS =
     [\<lparr>m_option = ''userquota'', m_inverse = False, m_flag = 0, m_altloc = False\<rparr>,
      \<lparr>m_option = ''groupquota'', m_inverse = False, m_flag = 0, m_altloc = False\<rparr>,
      \<lparr>m_option = ''ro'', m_inverse = False, m_flag = MNT_RDONLY, m_altloc = False\<rparr>,
      \<lparr>m_option = ''rw'', m_inverse = True, m_flag = MNT_RDONLY, m_altloc = False\<rparr>,
      \<lparr>m_option = ''auto'', m_inverse = False, m_flag = 0, m_altloc = False\<rparr>,
      \<lparr>m_option = ''dev'', m_inverse = True, m_flag = MNT_NODEV, m_altloc = False\<rparr>,
      \<lparr>m_option = ''exec'', m_inverse = True, m_flag = MNT_NOEXEC, m_altloc = False\<rparr>,
      \<lparr>m_option = ''suid'', m_inverse = True, m_flag = MNT_NOSUID, m_altloc = False\<rparr>,
      \<lparr>m_option = ''rdonly'', m_inverse = False, m_flag = MNT_RDONLY, m_altloc = False\<rparr>,
      \<lparr>m_option = ''union'', m_inverse = False, m_flag = MNT_UNION, m_altloc = False\<rparr>,
      \<lparr>m_option = ''browse'', m_inverse = True, m_flag = MNT_DONTBROWSE, m_altloc = False\<rparr>,
      \<lparr>m_option = ''automounted'', m_inverse = False, m_flag = MNT_AUTOMOUNTED, m_altloc = False\<rparr>,
      \<lparr>m_option = ''defwrite'', m_inverse = False, m_flag = MNT_DEFWRITE, m_altloc = False\<rparr>,
      \<lparr>m_option = ''atime'', m_inverse = True, m_flag = MNT_NOATIME, m_altloc = False\<rparr>]"

definition fuse_mopt :: "string \<Rightarrow> nat \<Rightarrow> mntopt" where
  "fuse_mopt s n = \<lparr>m_option = s, m_inverse = False, m_flag = flagbit n, m_altloc = True\<rparr>"

definition fuse_nomopt :: "string \<Rightarrow> nat \<Rightarrow> mntopt" where
  "fuse_nomopt s n = \<lparr>m_option = s, m_inverse = True, m_flag = flagbit n, m_altloc = True\<rparr>"

definition mopts :: "mntopt list" where
  "mopts =
     MOPT_STDOPTS @
     [\<lparr>m_option = ''update'', m_inverse = False, m_flag = MNT_UPDATE, m_altloc = False\<rparr>,
      fuse_mopt ''allow_other'' FUSE_MOPT_ALLOW_OTHER,
      fuse_mopt ''allow_recursion'' FUSE_MOPT_ALLOW_RECURSION,
      fuse_mopt ''allow_root'' FUSE_MOPT_ALLOW_ROOT,
      fuse_mopt ''auto_cache'' FUSE_MOPT_AUTO_CACHE,
      fuse_mopt ''auto_xattr'' FUSE_MOPT_AUTO_XATTR,
      fuse_mopt ''blocksize='' FUSE_MOPT_BLOCKSIZE,
      fuse_mopt ''daemon_timeout='' FUSE_MOPT_DAEMON_TIMEOUT,
      fuse_mopt ''debug'' FUSE_MOPT_DEBUG,
      fuse_mopt ''default_permissions'' FUSE_MOPT_DEFAULT_PERMISSIONS,
      fuse_mopt ''defer_permissions'' FUSE_MOPT_DEFER_PERMISSIONS,
      fuse_mopt ''direct_io'' FUSE_MOPT_DIRECT_IO,
      fuse_mopt ''extended_security'' FUSE_MOPT_EXTENDED_SECURITY,
      fuse_mopt ''fsid='' FUSE_MOPT_FSID,
      fuse_mopt ''fsname='' FUSE_MOPT_FSNAME,
      fuse_mopt ''fssubtype='' FUSE_MOPT_FSSUBTYPE,
      fuse_mopt ''fstypename='' FUSE_MOPT_FSTYPENAME,
      fuse_mopt ''init_timeout='' FUSE_MOPT_INIT_TIMEOUT,
      fuse_mopt ''iosize='' FUSE_MOPT_IOSIZE,
      fuse_mopt ''jail_symlinks'' FUSE_MOPT_JAIL_SYMLINKS,
      fuse_mopt ''kill_on_unmount'' FUSE_MOPT_KILL_ON_UNMOUNT,
      fuse_mopt ''local'' FUSE_MOPT_LOCALVOL,
      fuse_mopt ''native_xattr'' FUSE_MOPT_NATIVE_XATTR,
      fuse_mopt ''negative_vncache'' FUSE_MOPT_NEGATIVE_VNCACHE,
      fuse_mopt ''sparse'' FUSE_MOPT_SPARSE,
      fuse_mopt ''use_ino'' FUSE_MOPT_USE_INO,
      fuse_mopt ''volname='' FUSE_MOPT_VOLNAME,
      fuse_nomopt ''alerts'' FUSE_MOPT_NO_ALERTS,
      fuse_nomopt ''appledouble'' FUSE_MOPT_NO_APPLEDOUBLE,
      fuse_nomopt ''applexattr'' FUSE_MOPT_NO_APPLEXATTR,
      fuse_nomopt ''attrcache'' FUSE_MOPT_NO_ATTRCACHE,
      fuse_nomopt ''browse'' FUSE_MOPT_NO_BROWSE,
      fuse_nomopt ''localcaches'' FUSE_MOPT_NO_LOCALCACHES,
      fuse_nomopt ''readahead'' FUSE_MOPT_NO_READAHEAD,
      fuse_nomopt ''synconclose'' FUSE_MOPT_NO_SYNCONCLOSE,
      fuse_nomopt ''syncwrites'' FUSE_MOPT_NO_SYNCWRITES,
      fuse_nomopt ''ubc'' FUSE_MOPT_NO_UBC,
      fuse_nomopt ''vncache'' FUSE_MOPT_NO_VNCACHE]"

section \<open>Reading the options (\<^verbatim>\<open>getmntopts.c\<close>)\<close>

text \<open>The name of an option without its value, which is kept up to its equals sign.\<close>

definition opt_name :: "string \<Rightarrow> string" where
  "opt_name opt =
     (if CHR ''='' \<in> set opt then takeWhile (\<lambda>c. c \<noteq> CHR ''='') opt @ ''='' else opt)"

definition opt_matches :: "string \<Rightarrow> mntopt \<Rightarrow> bool" where
  "opt_matches opt m \<longleftrightarrow>
     strcase_prefix (m_option m) opt \<and>
     (drop (length (m_option m)) opt = [] \<or> hd (drop (length (m_option m)) opt) = CHR ''='')"

text \<open>One option: what it sets or clears in the flags of the mount and in those of MacFUSE.\<close>

definition getmntopt1 :: "mntopt list \<Rightarrow> string \<Rightarrow> u32 \<times> u64 \<Rightarrow> u32 \<times> u64" where
  "getmntopt1 m0 tok flags =
     (let negative = str_prefix ''no'' tok;
          opt = opt_name (if negative then drop 2 tok else tok)
      in case List.find (opt_matches opt) m0 of
           None \<Rightarrow> flags
         | Some m \<Rightarrow>
             (case flags of (fl, alt) \<Rightarrow>
                if m_altloc m then
                  (fl, if negative = m_inverse m then alt OR m_flag m else alt AND NOT (m_flag m))
                else
                  (if negative = m_inverse m then fl OR ucast (m_flag m)
                   else fl AND NOT (ucast (m_flag m)), alt)))"

lemma strtok_shorter: "strtok d s = Some (t, r) \<Longrightarrow> length r < length s"
proof -
  assume "strtok d s = Some (t, r)"
  then have ne: "dropWhile (\<lambda>c. c = d) s \<noteq> []" and r: "r = drop 1 (dropWhile (\<lambda>c. c \<noteq> d) (dropWhile (\<lambda>c. c = d) s))"
    by (auto simp: strtok_def Let_def split: if_splits)
  let ?s = "dropWhile (\<lambda>c. c = d) s"
  have "length r \<le> length ?s - 1"
    using length_dropWhile_le [of "\<lambda>c. c \<noteq> d" ?s] by (simp add: r)
  moreover have "length ?s \<le> length s" by (rule length_dropWhile_le)
  ultimately show ?thesis using ne by (cases ?s) auto
qed

function getmntopts :: "string \<Rightarrow> mntopt list \<Rightarrow> u32 \<times> u64 \<Rightarrow> u32 \<times> u64" where
  "getmntopts options m0 flags =
     (case strtok (CHR '','') options of
        None \<Rightarrow> flags
      | Some (tok, rest) \<Rightarrow> getmntopts rest m0 (getmntopt1 m0 tok flags))"
  by pat_completeness auto
termination by (relation "measure (length \<circ> fst)") (auto dest: strtok_shorter)

declare getmntopts.simps [simp del]

text \<open>The path with double slashes made single and the last slash dropped.\<close>

fun squeeze_slashes :: "string \<Rightarrow> string" where
  "squeeze_slashes (c # d # s) =
     (if c = CHR ''/'' \<and> d = CHR ''/'' then squeeze_slashes (d # s) else c # squeeze_slashes (d # s))"
| "squeeze_slashes s = s"

definition rmslashes :: "string \<Rightarrow> string" where
  "rmslashes s =
     (let out = squeeze_slashes s
      in if length out > 1 \<and> last out = CHR ''/'' then butlast out else out)"

section \<open>Values of options (\<^verbatim>\<open>mount_fusefs.c\<close>)\<close>

text \<open>The static variables that the values are stored in: numbers and strings.\<close>

datatype mount_var =
    V_blocksize | V_daemon_timeout | V_fsid | V_fsname | V_fssubtype | V_fstypename
  | V_init_timeout | V_iosize | V_volname

record mount_vars =
  num_of :: "mount_var \<Rightarrow> u32"
  str_of :: "mount_var \<Rightarrow> string option"

datatype converter = Fuse_to_string | Fuse_to_uint32 | Fuse_to_fsid | Fuse_to_fssubtype

record mntval =
  mv_mntflag :: u64
  mv_value :: "string option"
  mv_converter :: converter
  mv_fallback :: u32
  mv_target :: mount_var
  mv_errstr :: string

definition FUSE_DEFAULT_DAEMON_TIMEOUT :: u32 where "FUSE_DEFAULT_DAEMON_TIMEOUT = 60"
definition FUSE_DEFAULT_INIT_TIMEOUT :: u32 where "FUSE_DEFAULT_INIT_TIMEOUT = 10"
definition FUSE_MINOR_MASK :: u32 where "FUSE_MINOR_MASK = 0x00FFFFFF"
definition FUSE_FSSUBTYPE_UNKNOWN :: u32 where "FUSE_FSSUBTYPE_UNKNOWN = 0"
definition FUSE_FSSUBTYPE_INVALID :: u32 where "FUSE_FSSUBTYPE_INVALID = - 1"

definition fuse_mval :: "nat \<Rightarrow> converter \<Rightarrow> u32 \<Rightarrow> mount_var \<Rightarrow> string \<Rightarrow> mntval" where
  "fuse_mval n c fb x e =
     \<lparr>mv_mntflag = flagbit n, mv_value = None, mv_converter = c, mv_fallback = fb, mv_target = x, mv_errstr = e\<rparr>"

definition mvals :: "mntval list" where
  "mvals =
     [fuse_mval FUSE_MOPT_BLOCKSIZE Fuse_to_uint32 FUSE_DEFAULT_BLOCKSIZE V_blocksize
        ''invalid value for argument blocksize'',
      fuse_mval FUSE_MOPT_DAEMON_TIMEOUT Fuse_to_uint32 FUSE_DEFAULT_DAEMON_TIMEOUT V_daemon_timeout
        ''invalid value for argument daemon_timeout'',
      fuse_mval FUSE_MOPT_FSID Fuse_to_fsid 0 V_fsid
        ''invalid value for argument fsid (must be 0 < fsid < 0xFFFFFF)'',
      fuse_mval FUSE_MOPT_FSNAME Fuse_to_string 0 V_fsname ''invalid value for argument fsname'',
      fuse_mval FUSE_MOPT_INIT_TIMEOUT Fuse_to_uint32 FUSE_DEFAULT_INIT_TIMEOUT V_init_timeout
        ''invalid value for argument init_timeout'',
      fuse_mval FUSE_MOPT_IOSIZE Fuse_to_uint32 FUSE_DEFAULT_IOSIZE V_iosize
        ''invalid value for argument iosize'',
      fuse_mval FUSE_MOPT_FSSUBTYPE Fuse_to_fssubtype 0 V_fssubtype ''invalid value for argument fssubtype'',
      fuse_mval FUSE_MOPT_FSTYPENAME Fuse_to_string 0 V_fstypename ''invalid value for argument fstypename'',
      fuse_mval FUSE_MOPT_VOLNAME Fuse_to_string 0 V_volname ''invalid value for argument volname'']"

definition mount_statics :: mount_vars where
  "mount_statics =
     \<lparr>num_of = (\<lambda>x. case x of V_blocksize \<Rightarrow> FUSE_DEFAULT_BLOCKSIZE | V_daemon_timeout \<Rightarrow> FUSE_DEFAULT_DAEMON_TIMEOUT
                | V_init_timeout \<Rightarrow> FUSE_DEFAULT_INIT_TIMEOUT | V_iosize \<Rightarrow> FUSE_DEFAULT_IOSIZE | _ \<Rightarrow> 0),
      str_of = (\<lambda>_. None)\<rparr>"

text \<open>
  The value of an option in the argument: the loop takes the first entry of the table with the flag of
  the value whose name occurs anywhere in the argument, whichever flag word the entry belongs to.
\<close>

definition option_value :: "string \<Rightarrow> u64 \<Rightarrow> string option" where
  "option_value optarg flag =
     (case List.find (\<lambda>mo. m_flag mo = flag \<and> strstr optarg (m_option mo) \<noteq> None) mopts of
        None \<Rightarrow> None
      | Some mo \<Rightarrow>
          map_option (\<lambda>p. takeWhile (\<lambda>c. c \<noteq> CHR '','') (drop (length (m_option mo)) p))
            (strstr optarg (m_option mo)))"

definition take_values :: "string \<Rightarrow> u64 \<Rightarrow> mntval list \<Rightarrow> mntval list" where
  "take_values optarg altflags mvs =
     map (\<lambda>mv. if has_flag altflags (mv_mntflag mv)
               then (case option_value optarg (mv_mntflag mv) of
                       None \<Rightarrow> mv | Some x \<Rightarrow> mv\<lparr>mv_value := Some x\<rparr>)
               else mv) mvs"

section \<open>The system, as the utilities see it\<close>

text \<open>
  The arguments of the mount: those that the model of the kernel uses, the path and the device. The
  names in them are the bytes of the characters.
\<close>

record user_mount_args = fuse_mount_args +
  ua_mntpath :: string
  ua_rdev :: u32

text \<open>
  The environment. The information of the bundle at a path is the list of its personalities with the
  subtype in each, if it has one that is a number; \<open>None\<close> stands for a bundle that cannot be read.
  \<open>cf_string\<close> is the creation of a string, and \<open>cf_find\<close> whether the second is found in the first,
  regardless of case.
\<close>

record mount_env =
  getenv :: "string \<Rightarrow> string option"
  fstat_rdev :: "int \<Rightarrow> u32 option"
  devname_of :: "u32 \<Rightarrow> string"
  getvfsbyname :: "string \<Rightarrow> int"
  sysctl_version :: "int \<times> string \<times> nat"
  realpath :: "string \<Rightarrow> string option"
  stat_isdir :: "string \<Rightarrow> bool option"
  statfs_type :: "string \<Rightarrow> string option"
  ioctl_random :: "int \<Rightarrow> int \<times> u32"
  mount_call :: "string \<Rightarrow> u32 \<Rightarrow> user_mount_args \<Rightarrow> int"
  bundle_info :: "string \<Rightarrow> (string \<times> u32 option) list option"
  cf_string :: "string option \<Rightarrow> string option"
  cf_find :: "string \<Rightarrow> string \<Rightarrow> bool"

text \<open>Exit codes of \<^verbatim>\<open>sysexits.h\<close>, and how a run ends: with a code and a message.\<close>

type_synonym exit = "int \<times> string"

definition EX_USAGE :: int where "EX_USAGE = 64"
definition EX_UNAVAILABLE :: int where "EX_UNAVAILABLE = 69"
definition EX_OSERR :: int where "EX_OSERR = 71"
definition EX_OSFILE :: int where "EX_OSFILE = 72"

definition MACFUSE_FS_TYPE :: string where "MACFUSE_FS_TYPE = ''fusefs''"
definition MACFUSE_VERSION :: string where "MACFUSE_VERSION = ''2.1.7''"
definition MACFUSE_DEVICE_BASENAME :: string where "MACFUSE_DEVICE_BASENAME = ''fuse''"
definition MACFUSE_BUNDLE_PATH :: string where "MACFUSE_BUNDLE_PATH = ''/Library/Filesystems/fusefs.fs''"

text \<open>Bind of computations that may exit.\<close>

fun bindE :: "exit + 'a \<Rightarrow> ('a \<Rightarrow> exit + 'b) \<Rightarrow> exit + 'b" where
  "bindE (Inl e) f = Inl e"
| "bindE (Inr x) f = f x"

definition errx :: "int \<Rightarrow> string \<Rightarrow> exit + 'a" where
  "errx code msg = Inl (code, msg)"

definition unlessE :: "bool \<Rightarrow> int \<Rightarrow> string \<Rightarrow> exit + unit" where
  "unlessE ok code msg = (if ok then Inr () else errx code msg)"

section \<open>Converting the values\<close>

definition fuse_to_uint32 :: "string option \<Rightarrow> u32 \<Rightarrow> errno \<times> u32" where
  "fuse_to_uint32 val fallback =
     (case val of
        None \<Rightarrow> (0, fallback)
      | Some s \<Rightarrow>
          (case strtoul s of (u, e) \<Rightarrow> if e = ERANGE \<or> e = EINVAL then (e, fallback) else (0, u)))"

definition fuse_to_string :: "string option \<Rightarrow> errno \<times> string option" where
  "fuse_to_string val = (0, val)"

definition fuse_to_fsid :: "string option \<Rightarrow> u32 \<Rightarrow> errno \<times> u32" where
  "fuse_to_fsid val fallback =
     (case val of
        None \<Rightarrow> (0, fallback)
      | Some s \<Rightarrow>
          (case fuse_to_uint32 val fallback of (ret, u) \<Rightarrow>
             if ret \<noteq> 0 then (ret, u)
             else if u AND NOT FUSE_MINOR_MASK \<noteq> 0 \<or> u = 0 then (EINVAL, u) else (0, u)))"

text \<open>
  The subtype is looked up among the personalities of the bundle, by number first and then by the name
  of the daemon; the first personality whose name is found there ends the search.
\<close>

definition fsbundle_find_fssubtype :: "mount_env \<Rightarrow> string \<Rightarrow> string option \<Rightarrow> u32 \<Rightarrow> u32" where
  "fsbundle_find_fssubtype e path nam claimed =
     (case bundle_info e path of
        None \<Rightarrow> FUSE_FSSUBTYPE_UNKNOWN
      | Some [] \<Rightarrow> FUSE_FSSUBTYPE_UNKNOWN
      | Some ps \<Rightarrow>
          if claimed \<noteq> FUSE_FSSUBTYPE_INVALID \<and> (\<exists>p \<in> set ps. snd p = Some claimed) then claimed
          else
            (case cf_string e nam of
               None \<Rightarrow> FUSE_FSSUBTYPE_UNKNOWN
             | Some s \<Rightarrow>
                 (case List.find (\<lambda>p. cf_find e s (fst p)) ps of
                    Some (_, Some n) \<Rightarrow> n
                  | _ \<Rightarrow> FUSE_FSSUBTYPE_UNKNOWN)))"

definition fuse_to_fssubtype :: "mount_env \<Rightarrow> string option \<Rightarrow> u32 \<Rightarrow> errno \<times> u32" where
  "fuse_to_fssubtype e val fallback =
     (let claimed =
            (case val of
               None \<Rightarrow> FUSE_FSSUBTYPE_INVALID
             | Some _ \<Rightarrow>
                 (case fuse_to_uint32 val fallback of (ret, u) \<Rightarrow> if ret \<noteq> 0 then FUSE_FSSUBTYPE_INVALID else u))
      in (0, fsbundle_find_fssubtype e MACFUSE_BUNDLE_PATH (getenv e ''MOUNT_FUSEFS_DAEMON_PATH'') claimed))"

definition set_num :: "mount_var \<Rightarrow> u32 \<Rightarrow> mount_vars \<Rightarrow> mount_vars" where
  "set_num x n g = g\<lparr>num_of := (num_of g)(x := n)\<rparr>"

definition set_str :: "mount_var \<Rightarrow> string option \<Rightarrow> mount_vars \<Rightarrow> mount_vars" where
  "set_str x s g = g\<lparr>str_of := (str_of g)(x := s)\<rparr>"

definition run_converter :: "mount_env \<Rightarrow> mntval \<Rightarrow> mount_vars \<Rightarrow> errno \<times> mount_vars" where
  "run_converter e mv g =
     (case mv_converter mv of
        Fuse_to_string \<Rightarrow> (case fuse_to_string (mv_value mv) of (r, s) \<Rightarrow> (r, set_str (mv_target mv) s g))
      | Fuse_to_uint32 \<Rightarrow> (case fuse_to_uint32 (mv_value mv) (mv_fallback mv) of (r, n) \<Rightarrow> (r, set_num (mv_target mv) n g))
      | Fuse_to_fsid \<Rightarrow> (case fuse_to_fsid (mv_value mv) (mv_fallback mv) of (r, n) \<Rightarrow> (r, set_num (mv_target mv) n g))
      | Fuse_to_fssubtype \<Rightarrow>
          (case fuse_to_fssubtype e (mv_value mv) (mv_fallback mv) of (r, n) \<Rightarrow> (r, set_num (mv_target mv) n g)))"

fun fuse_process_mvals :: "mount_env \<Rightarrow> mntval list \<Rightarrow> mount_vars \<Rightarrow> exit + mount_vars" where
  "fuse_process_mvals e [] g = Inr g"
| "fuse_process_mvals e (mv # mvs) g =
     (case run_converter e mv g of (ret, g1) \<Rightarrow>
        if ret \<noteq> 0 then errx EX_USAGE (mv_errstr mv) else fuse_process_mvals e mvs g1)"

section \<open>The command line\<close>

text \<open>The arguments that are left, what was found in those before, and the values of the options.\<close>

record cmdline =
  cl_args :: "string list"
  cl_fdnam :: "string option"
  cl_mntpath :: "string option"
  cl_mntflags :: u32
  cl_altflags :: u64
  cl_mvals :: "mntval list"

text \<open>
  Up to three arguments that are not options are taken as the device and the mount point; a third of
  that kind ends the reading, after the option at hand.
\<close>

fun pick_args :: "nat \<Rightarrow> cmdline \<Rightarrow> bool \<times> cmdline" where
  "pick_args 0 cl = (False, cl)"
| "pick_args (Suc i) cl =
     (case cl_args cl of
        [] \<Rightarrow> pick_args i cl
      | a # args \<Rightarrow>
          if str_prefix ''-'' a then pick_args i cl
          else if cl_mntpath cl \<noteq> None then (True, cl)
          else pick_args i
                 (if cl_fdnam cl \<noteq> None then cl\<lparr>cl_mntpath := Some a, cl_args := args\<rparr>
                  else cl\<lparr>cl_fdnam := Some a, cl_args := args\<rparr>))"

definition take_option :: "string \<Rightarrow> cmdline \<Rightarrow> cmdline" where
  "take_option optarg cl =
     (case getmntopts optarg mopts (cl_mntflags cl, cl_altflags cl) of (fl, alt) \<Rightarrow>
        cl\<lparr>cl_mntflags := fl, cl_altflags := alt, cl_mvals := take_values optarg alt (cl_mvals cl)\<rparr>)"

definition showhelp :: exit where
  "showhelp = (EX_USAGE, ''Available mount options:'')"

definition showversion :: exit where
  "showversion = (EX_USAGE, ''MacFUSE mount version '' @ MACFUSE_VERSION)"

lemma pick_args_shorter: "pick_args i cl = (dn, cl') \<Longrightarrow> length (cl_args cl') \<le> length (cl_args cl)"
proof (induction i arbitrary: cl)
  case (Suc i)
  show ?case
  proof (cases "cl_args cl")
    case Nil
    with Suc show ?thesis by fastforce
  next
    case (Cons a args)
    with Suc.prems Suc.IH [of cl] Suc.IH [of "cl\<lparr>cl_mntpath := Some a, cl_args := args\<rparr>"]
      Suc.IH [of "cl\<lparr>cl_fdnam := Some a, cl_args := args\<rparr>"]
    show ?thesis by (auto split: if_splits)
  qed
qed simp

lemma getopt_shorter: "getopt args = (ch, args') \<Longrightarrow> ch \<noteq> O_end \<Longrightarrow> length args' < length args"
  by (induction args rule: getopt.induct) (auto split: list.splits char.splits if_splits bool.splits)

lemma take_option_args [simp]: "cl_args (take_option s cl) = cl_args cl"
  by (simp add: take_option_def split: prod.split)

text \<open>The loop of \<^verbatim>\<open>main\<close>: the first round has no option yet.\<close>

function read_cmdline :: "opt_char \<Rightarrow> cmdline \<Rightarrow> exit + cmdline" where
  "read_cmdline ch cl =
     (case pick_args 3 cl of (dn, cl1) \<Rightarrow>
        if ch = O_v then Inl showversion
        else if ch = O_help then Inl showhelp
        else
          let cl2 = (case ch of O_arg s \<Rightarrow> take_option s cl1 | _ \<Rightarrow> cl1)
          in if dn then Inr cl2
             else (case getopt (cl_args cl2) of (ch', args) \<Rightarrow>
                     if ch' = O_end then Inr (cl2\<lparr>cl_args := args\<rparr>)
                     else read_cmdline ch' (cl2\<lparr>cl_args := args\<rparr>)))"
  by pat_completeness auto
termination
  by (relation "measure (\<lambda>(ch, cl). length (cl_args cl))")
    (auto dest!: getopt_shorter [OF sym] pick_args_shorter [OF sym] split: opt_char.splits)

declare read_cmdline.simps [simp del]

section \<open>The run of the utility\<close>

abbreviation ESRCH :: errno where "ESRCH \<equiv> 3"

definition check_kext_status :: "mount_env \<Rightarrow> int" where
  "check_kext_status e =
     (if getvfsbyname e MACFUSE_FS_TYPE \<noteq> 0 then ESRCH
      else
        (case sysctl_version e of (result, version, vlen) \<Rightarrow>
           if result \<noteq> 0 then result
           else if vlen \<noteq> length MACFUSE_VERSION + 1 \<or> take vlen MACFUSE_VERSION \<noteq> take vlen version then EINVAL
           else 0))"

text \<open>The device: its descriptor, its number in the system, and its unit.\<close>

definition mount_device :: "mount_env \<Rightarrow> string option \<Rightarrow> exit + (int \<times> u32 \<times> int)" where
  "mount_device e fdnam =
     (case fdnam of
        None \<Rightarrow> errx EX_USAGE ''missing MacFUSE device file descriptor''
      | Some s \<Rightarrow>
          (case strtol s of (fd, er) \<Rightarrow>
             if er = EINVAL \<or> er = ERANGE then
               errx EX_USAGE ''invalid name (%s) for MacFUSE device file descriptor''
             else
               (case fstat_rdev e fd of
                  None \<Rightarrow> errx EX_OSERR ''fstat failed for MacFUSE device file descriptor''
                | Some rdev \<Rightarrow>
                    let ndevbas = devname_of e rdev
                    in if \<not> str_prefix MACFUSE_DEVICE_BASENAME ndevbas then
                         errx EX_USAGE ''mounting inappropriate device''
                       else
                         (case strtol (drop (length MACFUSE_DEVICE_BASENAME) ndevbas) of (dindex, er2) \<Rightarrow>
                            if er2 = EINVAL \<or> er2 = ERANGE \<or> dindex < 0 \<or> dindex > int MACFUSE_NDEVICES then
                              errx EX_USAGE ''invalid MacFUSE device unit (#%d)''
                            else Inr (fd, rdev, dindex)))))"

definition checkpath :: "mount_env \<Rightarrow> string \<Rightarrow> exit + string" where
  "checkpath e path =
     (case realpath e path of
        None \<Rightarrow> errx EX_USAGE ''%s: %s''
      | Some resolved \<Rightarrow>
          (case stat_isdir e resolved of
             None \<Rightarrow> errx EX_USAGE ''%s: %s''
           | Some d \<Rightarrow> if d then Inr resolved else errx EX_USAGE ''%s: not a directory''))"

definition altbit :: "u64 \<Rightarrow> nat \<Rightarrow> bool" where
  "altbit alt n \<longleftrightarrow> has_flag alt (flagbit n)"

definition add_nolocalcaches :: "u64 \<Rightarrow> u64" where
  "add_nolocalcaches alt =
     (if altbit alt FUSE_MOPT_NO_LOCALCACHES
      then alt OR flagbit FUSE_MOPT_NO_ATTRCACHE OR flagbit FUSE_MOPT_NO_READAHEAD
             OR flagbit FUSE_MOPT_NO_UBC OR flagbit FUSE_MOPT_NO_VNCACHE
      else alt)"

text \<open>The conflicts between options that the utility looks for; the names in its messages are not quoted here.\<close>

definition check_conflicts :: "u64 \<Rightarrow> exit + unit" where
  "check_conflicts alt =
     bindE (unlessE (\<not> (altbit alt FUSE_MOPT_NEGATIVE_VNCACHE \<and> altbit alt FUSE_MOPT_NO_VNCACHE)) EX_USAGE
              ''negative_vncache can't be used with novncache'') (\<lambda>_.
     bindE (unlessE (\<not> (altbit alt FUSE_MOPT_NO_SYNCWRITES \<and>
                        (altbit alt FUSE_MOPT_NO_UBC \<or> altbit alt FUSE_MOPT_NO_READAHEAD))) EX_USAGE
              ''disabling local caching can't be used with nosyncwrites'') (\<lambda>_.
     bindE (unlessE (\<not> (altbit alt FUSE_MOPT_NO_SYNCONCLOSE \<and> \<not> altbit alt FUSE_MOPT_NO_SYNCWRITES)) EX_USAGE
              ''the nosynconclose option requires nosyncwrites'') (\<lambda>_.
     bindE (unlessE (\<not> (altbit alt FUSE_MOPT_DEFAULT_PERMISSIONS \<and> altbit alt FUSE_MOPT_DEFER_PERMISSIONS)) EX_USAGE
              ''default_permissions can't be used with defer_permissions'') (\<lambda>_.
     unlessE (\<not> (altbit alt FUSE_MOPT_AUTO_XATTR \<and> altbit alt FUSE_MOPT_NATIVE_XATTR)) EX_USAGE
       ''auto_xattr can't be used with native_xattr''))))"

definition clamp :: "u32 \<Rightarrow> u32 \<Rightarrow> u32 \<Rightarrow> u32" where
  "clamp lo hi n =
     (let n1 = (if n < lo then lo else n)
      in if n1 > hi then hi else n1)"

definition c_bytes :: "string \<Rightarrow> bytes" where "c_bytes s = map of_char s"

definition kext_usable :: "mount_env \<Rightarrow> exit + unit" where
  "kext_usable e =
     (let result = check_kext_status e
      in if result = 0 then Inr ()
         else if result = ESRCH then errx EX_UNAVAILABLE ''the MacFUSE kernel extension is not loaded''
         else if result = EINVAL then
           errx EX_UNAVAILABLE ''the loaded MacFUSE kernel extension has a mismatched version''
         else errx EX_UNAVAILABLE ''failed to query the loaded MacFUSE kernel extension (%d)'')"

text \<open>Whether the mount point is on a volume of MacFUSE already, which an option allows.\<close>

definition check_recursion :: "mount_env \<Rightarrow> u64 \<Rightarrow> string \<Rightarrow> exit + unit" where
  "check_recursion e alt mntpath =
     (case statfs_type e mntpath of
        None \<Rightarrow> errx EX_OSFILE ''cannot stat the mount point %s''
      | Some t \<Rightarrow>
          unlessE (\<not> ((t = MACFUSE_FS_TYPE \<or> str_prefix (MACFUSE_FS_TYPE @ ''_'') t) \<and>
                     \<not> altbit alt FUSE_MOPT_ALLOW_RECURSION)) EX_USAGE
            ''mount point %s is itself on a MacFUSE volume'')"

text \<open>The structure for the kernel, from the variables, the flags, and what is known of the device.\<close>

definition fill_args ::
    "mount_env \<Rightarrow> mount_vars \<Rightarrow> u64 \<Rightarrow> string \<Rightarrow> u32 \<Rightarrow> int \<Rightarrow> u32 \<Rightarrow> exit + user_mount_args" where
  "fill_args e g alt mntpath rdev dindex drandom =
     (let daemon_name = Option.bind (getenv e ''MOUNT_FUSEFS_DAEMON_PATH'') c_basename;
          fsname = (case str_of g V_fsname of
                      Some s \<Rightarrow> s
                    | None \<Rightarrow> (case daemon_name of Some d \<Rightarrow> d | None \<Rightarrow> ''instance'') @ ''@fuse'' @ fmt_d dindex);
          volname = (case str_of g V_volname of
                       Some s \<Rightarrow> s
                     | None \<Rightarrow> ''MacFUSE Volume '' @ fmt_d dindex @
                         (case daemon_name of Some d \<Rightarrow> '' ('' @ d @ '')'' | None \<Rightarrow> []));
          fstypename = (case str_of g V_fstypename of Some s \<Rightarrow> s | None \<Rightarrow> [])
      in if length fstypename > FUSE_FSTYPENAME_MAXLEN then
           errx EX_USAGE ''fstypename can be at most %d characters''
         else
           Inr \<lparr>ma_fsname = c_bytes (snprintf MAXPATHLEN fsname),
                ma_fstypename = c_bytes (snprintf MFSTYPENAMELEN fstypename),
                ma_volname = c_bytes (snprintf MAXPATHLEN volname),
                ma_altflags = alt,
                ma_blocksize = num_of g V_blocksize,
                ma_daemon_timeout = clamp FUSE_MIN_DAEMON_TIMEOUT FUSE_MAX_DAEMON_TIMEOUT (num_of g V_daemon_timeout),
                ma_fsid = num_of g V_fsid,
                ma_fssubtype = num_of g V_fssubtype,
                ma_init_timeout = clamp FUSE_MIN_INIT_TIMEOUT FUSE_MAX_INIT_TIMEOUT (num_of g V_init_timeout),
                ma_iosize = num_of g V_iosize,
                ma_random = drandom,
                ua_mntpath = mntpath,
                ua_rdev = rdev\<rparr>)"

text \<open>
  Everything between the registration of the exit handler and the mount: the path, the flags of the
  mount and its arguments.
\<close>

definition mount_arguments ::
    "mount_env \<Rightarrow> cmdline \<Rightarrow> int \<Rightarrow> u32 \<Rightarrow> int \<Rightarrow> exit + (string \<times> u32 \<times> user_mount_args)" where
  "mount_arguments e cl fd rdev dindex =
     bindE (kext_usable e) (\<lambda>_.
     bindE (case cl_mntpath cl of Some p \<Rightarrow> Inr p | None \<Rightarrow> errx EX_USAGE ''missing mount point'') (\<lambda>path.
     bindE (checkpath e path) (\<lambda>mntpath.
     bindE (fuse_process_mvals e (cl_mvals cl) mount_statics) (\<lambda>g.
     bindE (check_recursion e (cl_altflags cl) mntpath) (\<lambda>_.
       let alt = add_nolocalcaches (cl_altflags cl);
           alt2 = (if getenv e ''MOUNT_FUSEFS_NO_ALERTS'' \<noteq> None then alt OR flagbit FUSE_MOPT_NO_ALERTS else alt);
           (result, drandom) = ioctl_random e fd
       in
     bindE (check_conflicts alt) (\<lambda>_.
     bindE (unlessE (result = 0) EX_UNAVAILABLE ''failed to negotiate with /dev/fuse%d'') (\<lambda>_.
     bindE (fill_args e g alt2 mntpath rdev dindex drandom) (\<lambda>args.
       Inr (mntpath, cl_mntflags cl, args)))))))))"

text \<open>What the run does to the kernel: it marks the daemon of the device dead, mounts, and notifies.\<close>

datatype mount_effect =
    Set_daemon_dead int
  | Do_mount string u32 user_mount_args
  | Post_mounted string

text \<open>
  The handler that runs at every exit: it marks the daemon dead unless the index of the device is
  -1, as it is before the device is known and again after the mount.
\<close>

definition signal_idx_atexit_handler :: "int \<Rightarrow> int \<Rightarrow> mount_effect list" where
  "signal_idx_atexit_handler signal_idx signal_fd =
     (if signal_idx \<noteq> - 1 then [Set_daemon_dead signal_fd] else [])"

text \<open>The end of \<^verbatim>\<open>main\<close>, once the arguments are known or could not be made.\<close>

definition do_mount ::
    "mount_env \<Rightarrow> int \<Rightarrow> int \<Rightarrow> exit + (string \<times> u32 \<times> user_mount_args) \<Rightarrow> exit \<times> mount_effect list" where
  "do_mount e fd dindex r =
     (case r of
        Inl ex \<Rightarrow> (ex, signal_idx_atexit_handler dindex fd)
      | Inr (mntpath, mntflags, args) \<Rightarrow>
          if mount_call e mntpath mntflags args < 0 then
            ((EX_OSERR, ''failed to mount %s@/dev/fuse%d''),
             Do_mount mntpath mntflags args # signal_idx_atexit_handler dindex fd)
          else
            ((0, []), [Do_mount mntpath mntflags args, Post_mounted mntpath] @ signal_idx_atexit_handler (- 1) fd))"

text \<open>The device and the mount point may also follow all options.\<close>

definition late_fdnam :: "cmdline \<Rightarrow> cmdline" where
  "late_fdnam cl =
     (if cl_fdnam cl = None \<and> cl_args cl \<noteq> []
      then cl\<lparr>cl_fdnam := Some (hd (cl_args cl)), cl_args := tl (cl_args cl)\<rparr> else cl)"

definition late_mntpath :: "cmdline \<Rightarrow> cmdline" where
  "late_mntpath cl =
     (if cl_mntpath cl = None \<and> cl_args cl \<noteq> []
      then cl\<lparr>cl_mntpath := Some (hd (cl_args cl)), cl_args := tl (cl_args cl)\<rparr> else cl)"

definition mount_main :: "mount_env \<Rightarrow> string list \<Rightarrow> exit \<times> mount_effect list" where
  "mount_main e argv =
     (if getenv e ''MOUNT_FUSEFS_CALL_BY_LIB'' = None then (showhelp, [])
      else if length argv = 2 \<and> (str_prefix ''--version'' (argv ! 1) \<or> str_prefix ''-v'' (argv ! 1)) then (showversion, [])
      else if length argv = 2 \<and> (str_prefix ''--help'' (argv ! 1) \<or> str_prefix ''-h'' (argv ! 1)) then (showhelp, [])
      else
        (case read_cmdline O_start
                \<lparr>cl_args = tl argv, cl_fdnam = None, cl_mntpath = None, cl_mntflags = 0, cl_altflags = 0,
                 cl_mvals = mvals\<rparr> of
           Inl ex \<Rightarrow> (ex, [])
         | Inr cl \<Rightarrow>
             let cl1 = late_fdnam cl
             in (case mount_device e (cl_fdnam cl1) of
                   Inl ex \<Rightarrow> (ex, [])
                 | Inr (fd, rdev, dindex) \<Rightarrow>
                     do_mount e fd dindex (mount_arguments e (late_mntpath cl1) fd rdev dindex))))"

section \<open>Loading the extension (\<^verbatim>\<open>load_fusefs.c\<close>)\<close>

text \<open>
  What became of a program that was run: it could not be forked, it exited with a code, or it ended
  otherwise. A program that cannot be executed is a child that exits with -1.
\<close>

datatype child = Fork_failed errno | Exited int | Ended_otherwise

record load_env =
  le_getvfsbyname :: "string \<Rightarrow> int"
  le_sysctl_version :: "int \<times> errno \<times> string \<times> nat"
  le_run :: "string \<Rightarrow> child"
  le_getgrnam :: "string \<Rightarrow> int option"

datatype load_effect = Ran string | Set_admin_group int

definition SYSTEM_KEXTLOAD :: string where "SYSTEM_KEXTLOAD = ''/sbin/kextload''"
definition SYSTEM_KEXTUNLOAD :: string where "SYSTEM_KEXTUNLOAD = ''/sbin/kextunload''"
definition MACOSX_ADMIN_GROUP_NAME :: string where "MACOSX_ADMIN_GROUP_NAME = ''admin''"

datatype load_step = Need_loading | Need_unloading | Load_out int

text \<open>What is to be done, from what is loaded already.\<close>

definition load_decide :: "load_env \<Rightarrow> load_step" where
  "load_decide e =
     (if le_getvfsbyname e MACFUSE_FS_TYPE \<noteq> 0 then Need_loading
      else
        (case le_sysctl_version e of (result, er, version, vlen) \<Rightarrow>
           if result \<noteq> 0 then (if er = ENOENT then Need_unloading else Load_out (- 1))
           else if vlen = length MACFUSE_VERSION + 1 \<and> take vlen MACFUSE_VERSION = take vlen version then Load_out 0
           else Need_unloading))"

definition load_run :: "load_env \<Rightarrow> string \<Rightarrow> int + int" where
  "load_run e prog =
     (case le_run e prog of Fork_failed er \<Rightarrow> Inl er | Exited code \<Rightarrow> Inr code | Ended_otherwise \<Rightarrow> Inr (- 1))"

definition need_loading :: "load_env \<Rightarrow> int \<times> load_effect list" where
  "need_loading e =
     (case load_run e SYSTEM_KEXTLOAD of
        Inl er \<Rightarrow> (er, [])
      | Inr result \<Rightarrow>
          (result, Ran SYSTEM_KEXTLOAD #
             (if result = 0
              then (case le_getgrnam e MACOSX_ADMIN_GROUP_NAME of None \<Rightarrow> [] | Some gid \<Rightarrow> [Set_admin_group gid])
              else [])))"

definition need_unloading :: "load_env \<Rightarrow> int \<times> load_effect list" where
  "need_unloading e =
     (case load_run e SYSTEM_KEXTUNLOAD of
        Inl er \<Rightarrow> (er, [])
      | Inr result \<Rightarrow>
          if result \<noteq> 0 then (EBUSY, [Ran SYSTEM_KEXTUNLOAD])
          else (case need_loading e of (r, es) \<Rightarrow> (r, Ran SYSTEM_KEXTUNLOAD # es)))"

definition load_main :: "load_env \<Rightarrow> int \<times> load_effect list" where
  "load_main e =
     (case load_decide e of
        Load_out r \<Rightarrow> (r, []) | Need_loading \<Rightarrow> need_loading e | Need_unloading \<Rightarrow> need_unloading e)"

end
