(* ===== verification/Fuse_Mount_Props.thy ===== *)
theory Fuse_Mount_Props
  imports Fuse_Mount Fuse_Volume_Props
begin

text \<open>
  Properties of the mount utility: how the options on its command line are read, what becomes of the
  session when a mount fails, and that the kernel finds no fault with the options that it passes on.
\<close>

section \<open>Strings\<close>








section \<open>Assignments\<close>









section \<open>The options with values\<close>


lemmas mopt_bits =
  FUSE_MOPT_ALLOW_OTHER_def FUSE_MOPT_ALLOW_RECURSION_def FUSE_MOPT_ALLOW_ROOT_def FUSE_MOPT_AUTO_CACHE_def
  FUSE_MOPT_AUTO_XATTR_def FUSE_MOPT_BLOCKSIZE_def FUSE_MOPT_DAEMON_TIMEOUT_def FUSE_MOPT_DEBUG_def
  FUSE_MOPT_DEFAULT_PERMISSIONS_def FUSE_MOPT_DEFER_PERMISSIONS_def FUSE_MOPT_DIRECT_IO_def
  FUSE_MOPT_EXTENDED_SECURITY_def FUSE_MOPT_FSID_def FUSE_MOPT_FSNAME_def FUSE_MOPT_FSSUBTYPE_def
  FUSE_MOPT_FSTYPENAME_def FUSE_MOPT_INIT_TIMEOUT_def FUSE_MOPT_IOSIZE_def FUSE_MOPT_JAIL_SYMLINKS_def
  FUSE_MOPT_KILL_ON_UNMOUNT_def FUSE_MOPT_LOCALVOL_def FUSE_MOPT_NATIVE_XATTR_def FUSE_MOPT_NEGATIVE_VNCACHE_def
  FUSE_MOPT_SPARSE_def FUSE_MOPT_USE_INO_def FUSE_MOPT_VOLNAME_def FUSE_MOPT_NO_ALERTS_def
  FUSE_MOPT_NO_APPLEDOUBLE_def FUSE_MOPT_NO_APPLEXATTR_def FUSE_MOPT_NO_ATTRCACHE_def FUSE_MOPT_NO_BROWSE_def
  FUSE_MOPT_NO_LOCALCACHES_def FUSE_MOPT_NO_READAHEAD_def FUSE_MOPT_NO_SYNCONCLOSE_def
  FUSE_MOPT_NO_SYNCWRITES_def FUSE_MOPT_NO_UBC_def FUSE_MOPT_NO_VNCACHE_def

lemmas mnt_bits =
  MNT_RDONLY_def MNT_NOEXEC_def MNT_NOSUID_def MNT_NODEV_def MNT_UNION_def MNT_UPDATE_def MNT_DONTBROWSE_def
  MNT_AUTOMOUNTED_def MNT_DEFWRITE_def MNT_NOATIME_def

lemmas mopts_table = mopts_def MOPT_STDOPTS_def fuse_mopt_def fuse_nomopt_def mopt_bits mnt_bits

lemma flagbit_eq: "(flagbit m :: u64) = flagbit n \<longleftrightarrow> m = n" if "m < 64" "n < 64"
  using that by (auto simp: bit_eq_iff bit_flagbit)

lemma flagbit_nonzero: "n < 64 \<Longrightarrow> (0 :: u64) \<noteq> flagbit n"
  by (auto simp: bit_eq_iff bit_flagbit)

















section \<open>The flags of options with values\<close>





section \<open>Numbers\<close>










section \<open>The variables after the conversion\<close>




section \<open>Options arrive\<close>







definition sample_mount_env :: mount_env where
  "sample_mount_env =
     \<lparr>getenv = (\<lambda>s. if s = ''MOUNT_FUSEFS_CALL_BY_LIB'' then Some [] else None), fstat_rdev = (\<lambda>_. Some 5),
      devname_of = (\<lambda>_. ''fuse3''), getvfsbyname = (\<lambda>_. 0), sysctl_version = (0, ''2.1.7'', 6),
      realpath = Some, stat_isdir = (\<lambda>_. Some True), statfs_type = (\<lambda>_. Some ''hfs''),
      ioctl_random = (\<lambda>_. (0, 99)), mount_call = (\<lambda>_ _ _. 0), bundle_info = (\<lambda>_. None),
      cf_string = (\<lambda>x. x), cf_find = (\<lambda>_ _. False)\<rparr>"


definition sample_cmdline :: cmdline where
  "sample_cmdline =
     \<lparr>cl_args = [], cl_fdnam = None, cl_mntpath = None, cl_mntflags = 0, cl_altflags = 0, cl_mvals = mvals\<rparr>"


section \<open>How a run ends\<close>

text \<open>A step that can only leave the program with one of these codes.\<close>

definition exits_in :: "int set \<Rightarrow> exit + 'a \<Rightarrow> bool" where
  "exits_in C r \<longleftrightarrow> (\<forall>ex. r = Inl ex \<longrightarrow> fst ex \<in> C)"

named_theorems exits

lemma exits_basic [exits]:
  "exits_in C (Inr x)" "exits_in C (errx code msg) \<longleftrightarrow> code \<in> C" "exits_in C (unlessE ok code msg) \<longleftrightarrow> ok \<or> code \<in> C"
  by (auto simp: exits_in_def errx_def unlessE_def)


lemma bindE_Inr: "bindE m f = Inr y \<longleftrightarrow> (\<exists>x. m = Inr x \<and> f x = Inr y)"
  by (cases m) auto

lemma unlessE_Inr: "unlessE ok code msg = Inr u \<longleftrightarrow> ok"
  by (simp add: unlessE_def errx_def)






lemma mount_device_exits: "exits_in {EX_USAGE, EX_OSERR} (mount_device e fdnam)"
  unfolding mount_device_def Let_def by (auto simp: exits_basic split: option.split prod.split)

lemma mount_device_known:
  "mount_device e fdnam = Inr (fd, rdev, dindex) \<Longrightarrow>
   fstat_rdev e fd = Some rdev \<and> str_prefix ''fuse'' (devname_of e rdev) \<and> 0 \<le> dindex"
  by (auto simp: mount_device_def errx_def Let_def MACFUSE_DEVICE_BASENAME_def split: option.splits prod.splits if_splits)

lemma read_cmdline_exits: "exits_in {EX_USAGE} (read_cmdline ch cl)"
proof (induction ch cl rule: read_cmdline.induct)
  case (1 ch cl)
  show ?case
    unfolding read_cmdline.simps [of ch cl]
    by (auto simp: Let_def exits_in_def showversion_def showhelp_def split: prod.split)
      (use 1 in \<open>auto simp: exits_in_def\<close>)
qed

lemma mount_main_cases:
  obtains (early) code msg where "mount_main e argv = ((code, msg), [])" "code \<in> {EX_USAGE, EX_OSERR}"
    | (run) cl fd rdev dindex where "mount_main e argv = do_mount e fd dindex (mount_arguments e cl fd rdev dindex)"
        "fstat_rdev e fd = Some rdev" "str_prefix ''fuse'' (devname_of e rdev)" "0 \<le> dindex"
proof -
  let ?cl = "\<lparr>cl_args = tl argv, cl_fdnam = None, cl_mntpath = None, cl_mntflags = 0, cl_altflags = 0, cl_mvals = mvals\<rparr>"
  let ?usage = "getenv e ''MOUNT_FUSEFS_CALL_BY_LIB'' = None \<or>
    length argv = 2 \<and> (str_prefix ''--version'' (argv ! 1) \<or> str_prefix ''-v'' (argv ! 1) \<or>
      str_prefix ''--help'' (argv ! 1) \<or> str_prefix ''-h'' (argv ! 1))"
  show thesis
  proof (cases ?usage)
    case True
    then have "mount_main e argv \<in> {(showhelp, []), (showversion, [])}" by (auto simp: mount_main_def)
    then show ?thesis unfolding showhelp_def showversion_def using early by blast
  next
    case False
    show ?thesis
    proof (cases "read_cmdline O_start ?cl")
      case (Inl ex)
      with read_cmdline_exits [of O_start ?cl] False show ?thesis
        by (cases ex, intro early [of "fst ex" "snd ex"]) (auto simp: mount_main_def exits_in_def)
    next
      case (Inr cl)
      show ?thesis
      proof (cases "mount_device e (cl_fdnam (late_fdnam cl))")
        case (Inl ex)
        with mount_device_exits [of e "cl_fdnam (late_fdnam cl)"] Inr False show ?thesis
          by (cases ex, intro early [of "fst ex" "snd ex"]) (auto simp: mount_main_def exits_in_def)
      next
        case d: (Inr b)
        obtain fd rdev dindex where b: "b = (fd, rdev, dindex)" by (cases b) auto
        with mount_device_known d Inr False show ?thesis
          by (intro run [of fd dindex "late_mntpath (late_fdnam cl)" rdev]) (auto simp: mount_main_def)
      qed
    qed
  qed
qed


section \<open>The kernel accepts what the utility lets through\<close>

lemma mount_main_args:
  assumes "Do_mount p f a \<in> set (snd (mount_main e argv))"
  obtains cl fd rdev dindex where "mount_arguments e cl fd rdev dindex = Inr (p, f, a)"
proof (cases e argv rule: mount_main_cases)
  case early
  with assms show ?thesis by simp
next
  case (run cl fd rdev dindex)
  with assms show ?thesis
    by (intro that [of cl fd rdev dindex])
      (auto simp: do_mount_def signal_idx_atexit_handler_def split: sum.splits if_splits prod.splits)
qed

lemma clamp_within: "lo \<le> hi \<Longrightarrow> \<not> hi < clamp lo hi n \<and> \<not> clamp lo hi n < lo"
  by (auto simp: clamp_def Let_def)

definition nolocal_bit :: "u64 \<Rightarrow> nat \<Rightarrow> bool" where
  "nolocal_bit alt n \<longleftrightarrow> bit alt n \<or> bit alt FUSE_MOPT_NO_LOCALCACHES"

lemma bit_add_nolocalcaches:
  "bit (add_nolocalcaches alt) n \<longleftrightarrow> bit alt n \<or>
     bit alt FUSE_MOPT_NO_LOCALCACHES \<and> n \<in> {FUSE_MOPT_NO_ATTRCACHE, FUSE_MOPT_NO_READAHEAD, FUSE_MOPT_NO_UBC, FUSE_MOPT_NO_VNCACHE}"
  by (auto simp: add_nolocalcaches_def altbit_def flag_simps bit_or_iff mopt_bits)

text \<open>What the utility guarantees of the structure that it hands to the kernel.\<close>

definition args_consistent :: "('a) fuse_mount_args_scheme \<Rightarrow> bool" where
  "args_consistent a \<longleftrightarrow>
     length (ma_fstypename a) \<le> FUSE_FSTYPENAME_MAXLEN \<and>
     FUSE_MIN_DAEMON_TIMEOUT \<le> ma_daemon_timeout a \<and> ma_daemon_timeout a \<le> FUSE_MAX_DAEMON_TIMEOUT \<and>
     FUSE_MIN_INIT_TIMEOUT \<le> ma_init_timeout a \<and> ma_init_timeout a \<le> FUSE_MAX_INIT_TIMEOUT \<and>
     (let b = bit (ma_altflags a)
      in \<not> (b FUSE_MOPT_NEGATIVE_VNCACHE \<and> (b FUSE_MOPT_NO_VNCACHE \<or> b FUSE_MOPT_NO_LOCALCACHES)) \<and>
         \<not> (b FUSE_MOPT_NO_SYNCWRITES \<and> (b FUSE_MOPT_NO_UBC \<or> b FUSE_MOPT_NO_READAHEAD \<or> b FUSE_MOPT_NO_LOCALCACHES)) \<and>
         \<not> (b FUSE_MOPT_DEFAULT_PERMISSIONS \<and> b FUSE_MOPT_DEFER_PERMISSIONS) \<and>
         \<not> (b FUSE_MOPT_AUTO_XATTR \<and> b FUSE_MOPT_NATIVE_XATTR))"

lemma fill_args_Inr:
  "fill_args e g alt path rdev dindex r = Inr a \<Longrightarrow>
   ma_altflags a = alt \<and> length (ma_fstypename a) \<le> FUSE_FSTYPENAME_MAXLEN \<and>
   FUSE_MIN_DAEMON_TIMEOUT \<le> ma_daemon_timeout a \<and> ma_daemon_timeout a \<le> FUSE_MAX_DAEMON_TIMEOUT \<and>
   FUSE_MIN_INIT_TIMEOUT \<le> ma_init_timeout a \<and> ma_init_timeout a \<le> FUSE_MAX_INIT_TIMEOUT"
proof -
  have "FUSE_MIN_DAEMON_TIMEOUT \<le> FUSE_MAX_DAEMON_TIMEOUT" "FUSE_MIN_INIT_TIMEOUT \<le> FUSE_MAX_INIT_TIMEOUT"
    by (simp_all add: FUSE_MIN_DAEMON_TIMEOUT_def FUSE_MAX_DAEMON_TIMEOUT_def FUSE_MIN_INIT_TIMEOUT_def FUSE_MAX_INIT_TIMEOUT_def)
  note c = this [THEN clamp_within]
  assume "fill_args e g alt path rdev dindex r = Inr a"
  with c show ?thesis
    by (auto simp: fill_args_def Let_def errx_def c_bytes_def snprintf_def not_less split: if_splits)
qed

lemma mount_arguments_consistent:
  assumes "mount_arguments e cl fd rdev dindex = Inr (p, f, a)"
  shows "args_consistent a"
proof -
  let ?alt = "add_nolocalcaches (cl_altflags cl)"
  from assms obtain g alt r where c: "check_conflicts ?alt = Inr ()" and
    alt: "alt = ?alt \<or> alt = ?alt OR flagbit FUSE_MOPT_NO_ALERTS" and
    fill: "fill_args e g alt p rdev dindex r = Inr a"
    by (auto simp: mount_arguments_def bindE_Inr Let_def split_beta split: if_splits)
  have "bit alt n \<longleftrightarrow> bit ?alt n" if "n \<noteq> 21" for n
    using alt that by (auto simp: bit_or_iff bit_flagbit FUSE_MOPT_NO_ALERTS_def)
  with c fill_args_Inr [OF fill] show ?thesis
    by (auto simp: args_consistent_def Let_def check_conflicts_def bindE_Inr unlessE_Inr altbit_def flag_simps
        bit_add_nolocalcaches mopt_bits)
qed

text \<open>The errors of each part of the options in the kernel.\<close>

lemma opt_then_einval:
  assumes "opt_then m f v = V_Ret (EINVAL, opts) w"
  obtains "m v = V_Ret (EINVAL, opts) w" | o1 u where "m v = V_Ret (0, o1) u" "f o1 u = V_Ret (EINVAL, opts) w"
  using assms by (auto simp: opt_then_def bindV_eq_Ret retV_def split: if_splits)

lemma opts_first_einval:
  "mount_opts_first b v = V_Ret (EINVAL, opts) w \<Longrightarrow> args_consistent b \<Longrightarrow>
   mopt b FUSE_MOPT_FSTYPENAME \<and> ma_fstypename b = []"
  by (auto simp: mount_opts_first_def Let_def run_simps modstatfs_def modmp_def args_consistent_def mopt_def not_less
      split: if_splits)

lemma opts_allow_errors:
  "mount_opts_allow E ao b c o1 v = V_Ret (err, opts) w \<Longrightarrow> err \<in> {0, EPERM}"
  by (auto simp: mount_opts_allow_def Let_def took_apart run_return split: if_splits)

lemma opts_fsid_errors:
  "mount_opts_fsid E b o1 v = V_Ret (err, opts) w \<Longrightarrow> err \<in> {0, EPERM}"
  by (auto simp: mount_opts_fsid_def Let_def took_apart run_return modmp_def split: if_splits)

lemma opts_cache_einval:
  assumes "mount_opts_cache b o1 v = V_Ret (EINVAL, opts) w" and "args_consistent b"
    and "\<not> bit o1 19" "\<not> bit o1 22" "\<not> bit o1 23"
  shows "mopt b FUSE_MOPT_DIRECT_IO \<and> mopt b FUSE_MOPT_NO_SYNCWRITES"
proof -
  have bits: "bit (cache_opts b o1) 23 \<longleftrightarrow> mopt b FUSE_MOPT_NO_LOCALCACHES \<or> mopt b FUSE_MOPT_NO_VNCACHE"
    "bit (cache_opts b o1) 19 \<longleftrightarrow> mopt b FUSE_MOPT_NO_LOCALCACHES \<or> mopt b FUSE_MOPT_NO_READAHEAD"
    "bit (cache_opts b o1) 22 \<longleftrightarrow>
       mopt b FUSE_MOPT_NO_LOCALCACHES \<or> mopt b FUSE_MOPT_NO_UBC \<or> mopt b FUSE_MOPT_DIRECT_IO"
    using assms(3-5) by (simp_all add: cache_opts_def Let_def fsess_bits flag_simps)
  show ?thesis
    using assms(1,2)
    by (auto simp: mount_opts_cache_def Let_def run_simps fsess_bits flag_simps bits modmp_def args_consistent_def
        mopt_def split: if_splits)
qed

lemma opts_perm_einval:
  "mount_opts_perm b o1 v = V_Ret (EINVAL, opts) w \<Longrightarrow> args_consistent b \<Longrightarrow> False"
  by (auto simp: mount_opts_perm_def run_simps modmp_def args_consistent_def mopt_def Let_def split: if_splits)

lemma consistent_truncate: "args_consistent a \<Longrightarrow> args_consistent (fuse_mount_args.truncate a)"
  by (simp add: args_consistent_def fuse_mount_args.defs)

lemma kernel_einval:
  assumes b: "args_consistent b" and m: "mount_options E ao b c v = V_Ret (EINVAL, opts) w"
  shows "mopt b FUSE_MOPT_FSTYPENAME \<and> ma_fstypename b = [] \<or> mopt b FUSE_MOPT_DIRECT_IO \<and> mopt b FUSE_MOPT_NO_SYNCWRITES"
proof -
  consider "mount_opts_first b v = V_Ret (EINVAL, opts) w"
    | o1 u where "mount_opts_allow E ao b c o1 u = V_Ret (EINVAL, opts) w"
    | o1 u where "mount_opts_fsid E b o1 u = V_Ret (EINVAL, opts) w"
    | o3 u where "opt_then (opt_then (mount_opts_first b) (mount_opts_allow E ao b c)) (mount_opts_fsid E b) v = V_Ret (0, o3) u"
        "mount_opts_cache b o3 u = V_Ret (EINVAL, opts) w"
    | o1 u where "mount_opts_perm b o1 u = V_Ret (EINVAL, opts) w"
    using m unfolding mount_options_def by (elim opt_then_einval) (erule (1) that | erule that)+
  then show ?thesis
  proof cases
    case 1
    then show ?thesis using opts_first_einval b by blast
  next
    case 2
    then show ?thesis using opts_allow_errors by fastforce
  next
    case 3
    then show ?thesis using opts_fsid_errors by fastforce
  next
    case (4 o3 u)
    then obtain o1 o2 v1 v2 where st: "mount_opts_first b v = V_Ret (0, o1) v1"
      "mount_opts_allow E ao b c o1 v1 = V_Ret (0, o2) v2" "mount_opts_fsid E b o2 v2 = V_Ret (0, o3) u"
      by (auto simp: opt_then_done)
    have "\<not> bit o3 n" if "n \<in> {19, 22, 23}" for n
      using that opts_first_bits(2) [OF st(1), of n] opts_allow_bits [OF st(2), of n] opts_fsid_bits [OF st(3), of n]
      by auto
    then show ?thesis using opts_cache_einval [OF 4(2) b] by simp
  next
    case 5
    then show ?thesis using opts_perm_einval b by blast
  qed
qed

text \<open>
  C21: The checks of the utility and those of the kernel agree. When the utility mounts with some
  arguments, the kernel refuses their options as invalid only in two cases that the utility does not look
  for: a type name that was announced but is empty, and direct input and output together with delayed
  writes.
\<close>

theorem kernel_accepts_utility_args:
  assumes u: "Do_mount p f a \<in> set (snd (mount_main e argv))"
    and m: "mount_options E ao (fuse_mount_args.truncate a) c v = V_Ret (EINVAL, opts) w"
  shows "altbit (ma_altflags a) FUSE_MOPT_FSTYPENAME \<and> ma_fstypename a = [] \<or>
    altbit (ma_altflags a) FUSE_MOPT_DIRECT_IO \<and> altbit (ma_altflags a) FUSE_MOPT_NO_SYNCWRITES"
proof -
  obtain cl fd rdev dindex where "mount_arguments e cl fd rdev dindex = Inr (p, f, a)" using mount_main_args [OF u] .
  then have "args_consistent (fuse_mount_args.truncate a)" using mount_arguments_consistent consistent_truncate by blast
  from kernel_einval [OF this m] show ?thesis
    by (simp add: mopt_def altbit_def flag_simps fuse_mount_args.defs)
qed

lemma effects_shape:
  "(case es of [Do_mount p f a, Post_mounted q] \<Rightarrow> Q p a q | _ \<Rightarrow> False) \<Longrightarrow>
   \<exists>p f a q. es = [Do_mount p f a, Post_mounted q] \<and> Q p a q"
proof -
  assume q: "case es of [Do_mount p f a, Post_mounted q] \<Rightarrow> Q p a q | _ \<Rightarrow> False"
  consider "es = []" | x where "es = [x]" | x y where "es = [x, y]" | x y z zs where "es = x # y # z # zs"
    by (metis list.exhaust)
  then show ?thesis
  proof cases
    case (2 x)
    with q show ?thesis by (cases x) auto
  next
    case (3 x y)
    with q show ?thesis by (cases x; cases y) auto
  next
    case (4 x y z zs)
    with q show ?thesis by (cases x; cases y) auto
  qed (use q in simp)
qed

definition sample_argv :: "string list" where
  "sample_argv = [''m'', ''-ofstypename='', ''4'', ''/m'']"

lemma sample_run:
  "\<exists>p f a. snd (mount_main sample_mount_env sample_argv) = [Do_mount p f a, Post_mounted p] \<and>
     ma_altflags a = 0x4000 \<and> ma_fstypename a = []"
proof -
  have "case snd (mount_main sample_mount_env sample_argv) of
     [Do_mount p f a, Post_mounted q] \<Rightarrow> ma_altflags a = 0x4000 \<and> ma_fstypename a = [] \<and> p = q
   | _ \<Rightarrow> False"
    by code_simp
  from effects_shape [OF this] show ?thesis by blast
qed

lemma kernel_accepts_utility_args_witness:
  "\<exists>p f a. Do_mount p f a \<in> set (snd (mount_main sample_mount_env sample_argv)) \<and>
     altbit (ma_altflags a) FUSE_MOPT_FSTYPENAME \<and> ma_fstypename a = []"
proof -
  let ?r = "snd (mount_main sample_mount_env sample_argv)"
  obtain p f a where r: "?r = [Do_mount p f a, Post_mounted p]" "ma_altflags a = 0x4000" "ma_fstypename a = []"
    using sample_run by blast
  have i: "Do_mount p f a \<in> set ?r" by (simp add: r)
  have f: "(0x4000 :: u64) = flagbit 14" by (simp add: flagbit_def)
  then have "mount_options sample_venv False (fuse_mount_args.truncate a) sample_context sample_volume =
      V_Ret (EINVAL, 0) sample_volume"
    using r by (simp add: mount_options_def opt_then_def run_simps mount_opts_first_def mopt_def flag_simps
        FUSE_MOPT_FSTYPENAME_def fuse_mount_args.defs)
  from kernel_accepts_utility_args [OF i this] have
    "altbit (ma_altflags a) FUSE_MOPT_FSTYPENAME \<and> ma_fstypename a = []"
    by (simp add: r f altbit_def flag_simps FUSE_MOPT_DIRECT_IO_def)
  with i show ?thesis by blast
qed


text \<open>
  C29: A block size cannot be set where the string of options mentions \<^verbatim>\<open>dev\<close> anywhere, as in the
  path of a disk: the flag of the block size has the number of the standard option \<^verbatim>\<open>nodev\<close>, whose
  name is looked for first, and what follows it is taken for the block size. Unless that happens to start
  with a number the utility refuses the options.
\<close>

theorem blocksize_with_dev_refused:
  assumes "altbit (cl_altflags (take_option s cl)) FUSE_MOPT_BLOCKSIZE" and "cl_mvals cl = mvals"
    and "strstr s ''dev'' = Some (''dev'' @ r)"
    and "fst (snd (scan_number (takeWhile (\<lambda>c. c \<noteq> CHR '','') r))) = False"
  shows "fuse_process_mvals e (cl_mvals (take_option s cl)) mount_statics =
    Inl (EX_USAGE, ''invalid value for argument blocksize'')"
proof -
  obtain fl alt where f: "getmntopts s mopts (cl_mntflags cl, cl_altflags cl) = (fl, alt)" by fastforce
  have alt: "has_flag alt (flagbit FUSE_MOPT_BLOCKSIZE)" using assms(1) f by (simp add: take_option_def altbit_def)
  have "option_value s (flagbit FUSE_MOPT_BLOCKSIZE) = Some (takeWhile (\<lambda>c. c \<noteq> CHR '','') r)"
    using assms(3) by (simp add: option_value_def mopts_table flagbit_eq flagbit_nonzero)
  moreover have "fuse_to_uint32 (Some (takeWhile (\<lambda>c. c \<noteq> CHR '','') r)) n = (EINVAL, n)" for n
    using assms(4) by (auto simp: fuse_to_uint32_def strtoul_def split: prod.split)
  ultimately show ?thesis
    using alt assms(2)
    by (simp add: take_option_def f take_values_def mvals_def fuse_mval_def run_converter_def errx_def)
qed

lemma blocksize_with_dev_refused_witness:
  "fuse_process_mvals sample_mount_env
     (cl_mvals (take_option ''fsname=/dev/disk2,blocksize=512'' sample_cmdline)) mount_statics =
   Inl (EX_USAGE, ''invalid value for argument blocksize'')"
proof (rule blocksize_with_dev_refused [where r = "''/disk2,blocksize=512''"])
  obtain fl alt where f: "getmntopts ''fsname=/dev/disk2,blocksize=512'' mopts (0, 0) = (fl, alt)" by fastforce
  have "snd (getmntopts ''fsname=/dev/disk2,blocksize=512'' mopts (0, 0)) = 0x1010" by code_simp
  with f have "alt = 0x1010" by simp
  then show "altbit (cl_altflags (take_option ''fsname=/dev/disk2,blocksize=512'' sample_cmdline)) FUSE_MOPT_BLOCKSIZE"
    by (simp add: take_option_def sample_cmdline_def altbit_def flag_simps FUSE_MOPT_BLOCKSIZE_def f)
  show "strstr ''fsname=/dev/disk2,blocksize=512'' ''dev'' = Some (''dev'' @ ''/disk2,blocksize=512'')"
    by (simp add: str_prefix_def)
  show "fst (snd (scan_number (takeWhile (\<lambda>c. c \<noteq> CHR '','') ''/disk2,blocksize=512''))) = False" by code_simp
qed (simp add: sample_cmdline_def)

section \<open>The loader\<close>

text \<open>
  The loader succeeds exactly when the right version of the extension was loaded already, or none was and
  it could load one, or another one was and it could unload that and load this.
\<close>

lemma load_main_succeeds:
  "fst (load_main e) = 0 \<longleftrightarrow>
     load_decide e = Load_out 0 \<or>
     load_decide e = Need_loading \<and> load_run e SYSTEM_KEXTLOAD \<in> {Inl 0, Inr 0} \<or>
     load_decide e = Need_unloading \<and>
       (load_run e SYSTEM_KEXTUNLOAD = Inl 0 \<or>
        load_run e SYSTEM_KEXTUNLOAD = Inr 0 \<and> load_run e SYSTEM_KEXTLOAD \<in> {Inl 0, Inr 0})"
  by (auto simp: load_main_def need_loading_def need_unloading_def split: load_step.split sum.split prod.split)

end
