(* ===== verification/Unixfs_Inode.thy ===== *)
theory Unixfs_Inode
  imports Fuse_Prelude
begin

text \<open>
  The inode layer of the Unix file systems (\<^verbatim>\<open>src/filesystems/unixfs/common/unixfs/unixfs_internal.c\<close>):
  a hash table of inodes in memory with counts of references, shared by the threads of the daemon. The
  inode that a thread reads from the disk is marked, and other threads that want it wait.

  Inodes live in a heap, so that a pointer to freed memory is visible as \<open>BadAccess\<close>. Code under the mutex
  of the table is one step. What a file system keeps in an inode (its status and its block addresses) is
  the type parameter. The layer is modelled as it is built, with the table enabled.
\<close>

section \<open>Inodes and the table\<close>

record 'a inode =
  I_number :: u64
  I_initialized :: bool
  I_attachoutstanding :: bool
  I_waiting :: bool
  I_count :: u32
  I_data :: 'a

record 'a ilayer =
  il_heap :: "nat \<Rightarrow> 'a inode option"
  il_next :: nat
  ihash_table :: "u64 \<Rightarrow> nat list"
  ihash_mask :: u64
  ihash_count :: nat

definition desirednodes :: nat where "desirednodes = 65536"

text \<open>The loop that finds the size of the table: the first power of two above the wanted number.\<close>

function hashsize_loop :: "nat \<Rightarrow> nat \<Rightarrow> nat" where
  "hashsize_loop want n = (if n = 0 then 0 else if n \<le> want then hashsize_loop want (2 * n) else n)"
  by pat_completeness auto
termination by (relation "measure (\<lambda>(want, n). Suc want - n)") auto

declare hashsize_loop.simps [simp del]

definition unixfs_inodelayer_init :: "'a ilayer \<Rightarrow> 'a ilayer" where
  "unixfs_inodelayer_init L =
     L\<lparr>ihash_table := (\<lambda>_. []), ihash_mask := of_nat (hashsize_loop desirednodes 1 div 2 - 1)\<rparr>"

definition unixfs_inodelayer_firstfromhash :: "u64 \<Rightarrow> 'a ilayer \<Rightarrow> nat list" where
  "unixfs_inodelayer_firstfromhash ino L = ihash_table L (ino AND ihash_mask L)"

definition put_inode :: "nat \<Rightarrow> 'a inode \<Rightarrow> 'a ilayer \<Rightarrow> 'a ilayer" where
  "put_inode a n L = L\<lparr>il_heap := (il_heap L)(a \<mapsto> n)\<rparr>"

definition free_inode :: "nat \<Rightarrow> 'a ilayer \<Rightarrow> 'a ilayer" where
  "free_inode a L = L\<lparr>il_heap := (il_heap L)(a := None)\<rparr>"

text \<open>A new inode, all zero but for its number.\<close>

definition calloc_inode :: "'a \<Rightarrow> u64 \<Rightarrow> 'a ilayer \<Rightarrow> nat \<times> 'a ilayer" where
  "calloc_inode zero ino L =
     (il_next L,
      (put_inode (il_next L)
        \<lparr>I_number = ino, I_initialized = False, I_attachoutstanding = False, I_waiting = False, I_count = 0,
         I_data = zero\<rparr> L)\<lparr>il_next := il_next L + 1\<rparr>)"

definition upd_inode :: "nat \<Rightarrow> ('a inode \<Rightarrow> 'a inode) \<Rightarrow> 'a ilayer \<Rightarrow> 'a ilayer outcome" where
  "upd_inode a f L =
     (case il_heap L a of None \<Rightarrow> BadAccess | Some n \<Rightarrow> Done (put_inode a (f n) L))"

definition insert_inode :: "nat \<Rightarrow> 'a inode \<Rightarrow> 'a ilayer \<Rightarrow> 'a ilayer" where
  "insert_inode a n L =
     L\<lparr>ihash_table := (ihash_table L)(I_number n AND ihash_mask L :=
          a # unixfs_inodelayer_firstfromhash (I_number n) L),
       ihash_count := ihash_count L + 1\<rparr>"

definition remove_inode :: "nat \<Rightarrow> 'a inode \<Rightarrow> 'a ilayer \<Rightarrow> 'a ilayer" where
  "remove_inode a n L =
     L\<lparr>ihash_table := (ihash_table L)(I_number n AND ihash_mask L :=
          remove1 a (unixfs_inodelayer_firstfromhash (I_number n) L)),
       ihash_count := ihash_count L - 1\<rparr>"

fun inode_find :: "(nat \<Rightarrow> 'a inode option) \<Rightarrow> u64 \<Rightarrow> nat list \<Rightarrow> nat option outcome" where
  "inode_find h ino [] = Done None"
| "inode_find h ino (a # as) =
     (case h a of
        None \<Rightarrow> BadAccess
      | Some n \<Rightarrow> if I_number n = ino then Done (Some a) else inode_find h ino as)"

section \<open>The operations\<close>

text \<open>
  One round of the loop of \<^verbatim>\<open>unixfs_inodelayer_iget\<close> under the mutex: the inode has to be allocated
  first, it is being read by another thread and has to be waited for, or it is there. A node that was
  allocated before is linked when none is found; \<open>new\<close> says whether it still has to be freed at the end.
\<close>

datatype iget_round = Must_alloc | Must_wait nat "nat option" | Got nat "nat option"

definition iget_found :: "nat \<Rightarrow> nat option \<Rightarrow> 'a ilayer \<Rightarrow> (iget_round \<times> 'a ilayer) outcome" where
  "iget_found a new L =
     (case il_heap L a of
        None \<Rightarrow> BadAccess
      | Some n \<Rightarrow>
          if I_attachoutstanding n then
            Done (Must_wait a new, put_inode a (n\<lparr>I_waiting := True, I_count := I_count n + 1\<rparr>) L)
          else if \<not> I_initialized n then
            Done (Got a new, put_inode a (n\<lparr>I_count := I_count n + 1, I_attachoutstanding := True\<rparr>) L)
          else Done (Got a new, put_inode a (n\<lparr>I_count := I_count n + 1\<rparr>) L))"

definition iget_round :: "u64 \<Rightarrow> nat option \<Rightarrow> 'a ilayer \<Rightarrow> (iget_round \<times> 'a ilayer) outcome" where
  "iget_round ino new L =
     bind_outcome (inode_find (il_heap L) ino (unixfs_inodelayer_firstfromhash ino L)) (\<lambda>r.
       case r of
         Some a \<Rightarrow> iget_found a new L
       | None \<Rightarrow>
           (case new of
              None \<Rightarrow> Done (Must_alloc, L)
            | Some a \<Rightarrow>
                (case il_heap L a of
                   None \<Rightarrow> BadAccess
                 | Some n \<Rightarrow> iget_found a None (insert_inode a n L))))"

definition iget_end :: "nat option \<Rightarrow> 'a ilayer \<Rightarrow> 'a ilayer" where
  "iget_end new L = (case new of None \<Rightarrow> L | Some b \<Rightarrow> free_inode b L)"

definition unixfs_inodelayer_isucceeded :: "nat \<Rightarrow> 'a ilayer \<Rightarrow> 'a ilayer outcome" where
  "unixfs_inodelayer_isucceeded a L =
     upd_inode a (\<lambda>n. n\<lparr>I_initialized := True, I_attachoutstanding := False, I_waiting := False\<rparr>) L"

definition unixfs_inodelayer_ifailed :: "nat \<Rightarrow> 'a ilayer \<Rightarrow> 'a ilayer outcome" where
  "unixfs_inodelayer_ifailed a L =
     (case il_heap L a of
        None \<Rightarrow> BadAccess
      | Some n \<Rightarrow> Done (free_inode a (remove_inode a n L)))"

definition unixfs_inodelayer_iput :: "nat \<Rightarrow> 'a ilayer \<Rightarrow> 'a ilayer outcome" where
  "unixfs_inodelayer_iput a L =
     (case il_heap L a of
        None \<Rightarrow> BadAccess
      | Some n \<Rightarrow>
          if I_count n - 1 = 0 then Done (free_inode a (remove_inode a n L))
          else Done (put_inode a (n\<lparr>I_count := I_count n - 1\<rparr>) L))"

text \<open>The end gives the table back, after warnings about inodes that are still there; these are not freed.\<close>

definition unixfs_inodelayer_fini :: "'a ilayer \<Rightarrow> 'a ilayer" where
  "unixfs_inodelayer_fini L = L\<lparr>ihash_table := (\<lambda>_. [])\<rparr>"

text \<open>The inodes that the dump visits: the chains before the one with the number of the mask.\<close>

definition unixfs_inodelayer_dump :: "'a ilayer \<Rightarrow> nat list" where
  "unixfs_inodelayer_dump L =
     concat (map (\<lambda>i. ihash_table L (of_nat i)) [0..<unat (ihash_mask L)])"

text \<open>A thread that has the daemon to itself never waits; the loop ends in its second round.\<close>

definition unixfs_inodelayer_iget ::
    "'a \<Rightarrow> bool \<Rightarrow> u64 \<Rightarrow> 'a ilayer \<Rightarrow> (nat option \<times> 'a ilayer) option outcome" where
  "unixfs_inodelayer_iget zero memory ino L =
     bind_outcome (iget_round ino None L) (\<lambda>(r, L1).
       case r of
         Got a new \<Rightarrow> Done (Some (Some a, iget_end new L1))
       | Must_wait a new \<Rightarrow> Done None
       | Must_alloc \<Rightarrow>
           if \<not> memory then Done (Some (None, L1))
           else
             (case calloc_inode zero ino L1 of (b, L2) \<Rightarrow>
                bind_outcome (iget_round ino (Some b) L2) (\<lambda>(r2, L3).
                  case r2 of
                    Got a new \<Rightarrow> Done (Some (Some a, iget_end new L3))
                  | _ \<Rightarrow> Done None)))"

section \<open>Threads\<close>

text \<open>
  What one use of an inode is doing: it looks the number up, with or without a node it has allocated; it
  allocates one; it waits for another thread to read the inode; it reads it itself; or it holds it.
\<close>

datatype act = A_idle | A_look u64 "nat option" | A_alloc u64 | A_wait nat "nat option" | A_fill nat | A_hold nat

datatype 'a isys = Run "'a ilayer" "act list" | Crash

text \<open>What a caller does with an inode it was given: it reads it in if that was not done yet.\<close>

definition got_act :: "nat \<Rightarrow> 'a ilayer \<Rightarrow> act" where
  "got_act a L =
     (case il_heap L a of Some n \<Rightarrow> if I_initialized n then A_hold a else A_fill a | None \<Rightarrow> A_fill a)"

text \<open>The steps; the failure of a read is told apart from all others.\<close>

datatype step_kind = Ordinary | Failure nat

inductive istep :: "step_kind \<Rightarrow> 'a isys \<Rightarrow> 'a isys \<Rightarrow> bool" where
  start: "i < length ts \<Longrightarrow> ts ! i = A_idle \<Longrightarrow>
    istep Ordinary (Run L ts) (Run L (ts[i := A_look ino None]))"
| look_alloc: "i < length ts \<Longrightarrow> ts ! i = A_look ino new \<Longrightarrow> iget_round ino new L = Done (Must_alloc, L') \<Longrightarrow>
    istep Ordinary (Run L ts) (Run L' (ts[i := A_alloc ino]))"
| look_wait: "i < length ts \<Longrightarrow> ts ! i = A_look ino new \<Longrightarrow> iget_round ino new L = Done (Must_wait a b, L') \<Longrightarrow>
    istep Ordinary (Run L ts) (Run L' (ts[i := A_wait a b]))"
| look_got: "i < length ts \<Longrightarrow> ts ! i = A_look ino new \<Longrightarrow> iget_round ino new L = Done (Got a b, L') \<Longrightarrow>
    istep Ordinary (Run L ts) (Run (iget_end b L') (ts[i := got_act a L']))"
| look_bad: "i < length ts \<Longrightarrow> ts ! i = A_look ino new \<Longrightarrow> iget_round ino new L = BadAccess \<Longrightarrow>
    istep Ordinary (Run L ts) Crash"
| alloc: "i < length ts \<Longrightarrow> ts ! i = A_alloc ino \<Longrightarrow> calloc_inode zero ino L = (a, L') \<Longrightarrow>
    istep Ordinary (Run L ts) (Run L' (ts[i := A_look ino (Some a)]))"
| no_memory: "i < length ts \<Longrightarrow> ts ! i = A_alloc ino \<Longrightarrow> istep Ordinary (Run L ts) (Run L (ts[i := A_idle]))"
| wake: "i < length ts \<Longrightarrow> ts ! i = A_wait a b \<Longrightarrow> il_heap L a = Some n \<Longrightarrow> \<not> I_attachoutstanding n \<Longrightarrow>
    istep Ordinary (Run L ts) (Run (iget_end b L) (ts[i := got_act a L]))"
| wake_bad: "i < length ts \<Longrightarrow> ts ! i = A_wait a b \<Longrightarrow> il_heap L a = None \<Longrightarrow>
    istep Ordinary (Run L ts) Crash"
| succeed: "i < length ts \<Longrightarrow> ts ! i = A_fill a \<Longrightarrow>
    bind_outcome (upd_inode a (\<lambda>n. n\<lparr>I_data := d\<rparr>) L) (unixfs_inodelayer_isucceeded a) = Done L' \<Longrightarrow>
    istep Ordinary (Run L ts) (Run L' (ts[i := A_hold a]))"
| fail: "i < length ts \<Longrightarrow> ts ! i = A_fill a \<Longrightarrow> unixfs_inodelayer_ifailed a L = Done L' \<Longrightarrow>
    istep (Failure a) (Run L ts) (Run L' (ts[i := A_idle]))"
| fill_bad: "i < length ts \<Longrightarrow> ts ! i = A_fill a \<Longrightarrow> il_heap L a = None \<Longrightarrow> istep Ordinary (Run L ts) Crash"
| put: "i < length ts \<Longrightarrow> ts ! i = A_hold a \<Longrightarrow> unixfs_inodelayer_iput a L = Done L' \<Longrightarrow>
    istep Ordinary (Run L ts) (Run L' (ts[i := A_idle]))"
| put_bad: "i < length ts \<Longrightarrow> ts ! i = A_hold a \<Longrightarrow> il_heap L a = None \<Longrightarrow> istep Ordinary (Run L ts) Crash"

text \<open>What an activity refers to: an inode in the table, and a node of its own that is not there.\<close>

fun uses :: "act \<Rightarrow> nat option" where
  "uses (A_wait a b) = Some a"
| "uses (A_fill a) = Some a"
| "uses (A_hold a) = Some a"
| "uses _ = None"

fun waits :: "act \<Rightarrow> nat option" where
  "waits (A_wait a b) = Some a"
| "waits _ = None"

fun fills :: "act \<Rightarrow> nat option" where
  "fills (A_fill a) = Some a"
| "fills _ = None"

fun owns :: "act \<Rightarrow> nat option" where
  "owns (A_look ino new) = new"
| "owns (A_wait a b) = b"
| "owns _ = None"

definition how_many :: "(act \<Rightarrow> nat option) \<Rightarrow> nat \<Rightarrow> act list \<Rightarrow> nat" where
  "how_many f a ts = length (filter (\<lambda>t. f t = Some a) ts)"

definition empty_layer :: "'a ilayer" where
  "empty_layer =
     unixfs_inodelayer_init \<lparr>il_heap = Map.empty, il_next = 1, ihash_table = (\<lambda>_. []), ihash_mask = 0, ihash_count = 0\<rparr>"

text \<open>
  The states that \<open>N\<close> threads can reach, when \<open>allowed\<close> restricts the failures: whether the inode may fail
  with these activities.
\<close>

inductive ireach :: "(nat \<Rightarrow> act list \<Rightarrow> bool) \<Rightarrow> nat \<Rightarrow> 'a isys \<Rightarrow> bool"
  for allowed :: "nat \<Rightarrow> act list \<Rightarrow> bool" and N :: nat where
  init: "ireach allowed N (Run empty_layer (replicate N A_idle))"
| step: "ireach allowed N (Run L ts) \<Longrightarrow> istep k (Run L ts) s \<Longrightarrow> (\<And>a. k = Failure a \<Longrightarrow> allowed a ts) \<Longrightarrow>
    ireach allowed N s"

definition alone :: "nat \<Rightarrow> act list \<Rightarrow> bool" where
  "alone a ts \<longleftrightarrow> how_many waits a ts = 0"

end
