(* ===== verification/Unixfs_Ops.thy ===== *)
theory Unixfs_Ops
  imports Fuse_Prelude
begin

text \<open>
  The interface between the daemon of the Unix file systems and the file system it serves
  (\<^verbatim>\<open>src/filesystems/unixfs/common/unixfs/unixfs.h\<close>): the table of operations, over a type of states, and the
  contract that the daemon relies on, as a locale.
\<close>

abbreviation ENOTDIR :: errno where "ENOTDIR \<equiv> 20"

datatype fs_endian = UNIXFS_FS_PDP | UNIXFS_FS_LITTLE | UNIXFS_FS_BIG | UNIXFS_FS_INVALID

record unix_stat =
  st_mode :: u16
  st_nlink :: u16
  st_uid :: u16
  st_gid :: u16
  st_size :: int
  st_atime :: u32
  st_mtime :: u32
  st_ctime :: u32
  st_rdev :: "(u32 \<times> u32) option"

definition zero_stat :: unix_stat where
  "zero_stat =
     \<lparr>st_mode = 0, st_nlink = 0, st_uid = 0, st_gid = 0, st_size = 0, st_atime = 0, st_mtime = 0, st_ctime = 0,
      st_rdev = None\<rparr>"

definition S_ISDIR :: "u16 \<Rightarrow> bool" where "S_ISDIR m \<longleftrightarrow> m AND 0xF000 = 0x4000"
definition S_ISREG :: "u16 \<Rightarrow> bool" where "S_ISREG m \<longleftrightarrow> m AND 0xF000 = 0x8000"
definition S_ISCHR :: "u16 \<Rightarrow> bool" where "S_ISCHR m \<longleftrightarrow> m AND 0xF000 = 0x2000"
definition S_ISBLK :: "u16 \<Rightarrow> bool" where "S_ISBLK m \<longleftrightarrow> m AND 0xF000 = 0x6000"

record statvfs =
  f_bsize :: nat
  f_frsize :: nat
  f_files :: nat
  f_ffree :: nat
  f_blocks :: int
  f_bfree :: nat
  f_bavail :: nat
  f_namemax :: nat

text \<open>A run of an operation that changes the state; \<open>U_Stuck\<close> waits for ever.\<close>

datatype ('r, 's) urun = U_Ret 'r 's | U_Abort | U_Fault | U_Stuck

fun bindU :: "('r, 's) urun \<Rightarrow> ('r \<Rightarrow> 's \<Rightarrow> ('q, 's) urun) \<Rightarrow> ('q, 's) urun" where
  "bindU (U_Ret r s) f = f r s"
| "bindU U_Abort f = U_Abort"
| "bindU U_Fault f = U_Fault"
| "bindU U_Stuck f = U_Stuck"

lemma bindU_cong [fundef_cong]:
  "m = m' \<Longrightarrow> (\<And>r s. m' = U_Ret r s \<Longrightarrow> f r s = f' r s) \<Longrightarrow> bindU m f = bindU m' f'"
  by (cases m') auto

fun lookU :: "'r outcome \<Rightarrow> 's \<Rightarrow> ('r, 's) urun" where
  "lookU (Done r) s = U_Ret r s"
| "lookU Panic s = U_Abort"
| "lookU BadAccess s = U_Fault"

section \<open>The operations\<close>

text \<open>
  An inode is known by its address. The status comes with the number of the inode. The next entry of a
  directory is an error, or the block that is loaded, the offset after the entry, its inode number and its
  name; no block is loaded before the first one.
\<close>

record 's unixfs_ops =
  op_fini :: "'s \<Rightarrow> 's"
  op_iget :: "u64 \<Rightarrow> 's \<Rightarrow> (nat option, 's) urun"
  op_iput :: "nat \<Rightarrow> 's \<Rightarrow> (unit, 's) urun"
  op_igetattr :: "u64 \<Rightarrow> 's \<Rightarrow> (errno \<times> u64 \<times> unix_stat, 's) urun"
  op_istat :: "nat \<Rightarrow> 's \<Rightarrow> (u64 \<times> unix_stat, 's) urun"
  op_namei :: "u64 \<Rightarrow> bytes \<Rightarrow> 's \<Rightarrow> (errno \<times> u64 \<times> unix_stat, 's) urun"
  op_nextdirentry :: "nat \<Rightarrow> bytes option \<Rightarrow> int \<Rightarrow> 's \<Rightarrow> (errno + bytes \<times> int \<times> u64 \<times> bytes, 's) urun"
  op_pbread :: "nat \<Rightarrow> nat \<Rightarrow> int \<Rightarrow> errno \<Rightarrow> 's \<Rightarrow> (int \<times> bytes \<times> errno, 's) urun"
  op_readlink :: "u64 \<Rightarrow> errno"
  op_statvfs :: "'s \<Rightarrow> statvfs"

section \<open>The contract\<close>

text \<open>A run that ends well, or calls \<^verbatim>\<open>abort\<close>, but touches no freed memory and does not wait for ever.\<close>

fun good :: "('r \<Rightarrow> 's \<Rightarrow> bool) \<Rightarrow> ('r, 's) urun \<Rightarrow> bool" where
  "good P (U_Ret r s) \<longleftrightarrow> P r s"
| "good P U_Abort \<longleftrightarrow> True"
| "good P U_Fault \<longleftrightarrow> False"
| "good P U_Stuck \<longleftrightarrow> False"

lemma good_bind: "good (\<lambda>r s. good P (f r s)) m \<Longrightarrow> good P (bindU m f)"
  by (cases m) auto

lemma good_mono: "good P m \<Longrightarrow> (\<And>r s. P r s \<Longrightarrow> Q r s) \<Longrightarrow> good Q m"
  by (cases m) auto

text \<open>
  \<open>holds s hs\<close>: the inodes \<open>hs\<close> are in use in the state \<open>s\<close>, with repetitions, and no others; \<open>stat_of\<close> is
  the status of an inode in use, which does not change; at most \<open>most\<close> inodes can be in use.
\<close>

locale unix_file_system =
  fixes ops :: "'s unixfs_ops" and holds :: "'s \<Rightarrow> nat list \<Rightarrow> bool" and stat_of :: "nat \<Rightarrow> 's \<Rightarrow> u64 \<times> unix_stat"
    and most :: nat and readable :: "u64 \<Rightarrow> bool"
  assumes nonnull_law: "holds s hs \<Longrightarrow> 0 \<notin> set hs"
    and iget_law: "holds s hs \<Longrightarrow> length hs < most \<Longrightarrow>
      good (\<lambda>r s'. (\<forall>a \<in> set hs. stat_of a s' = stat_of a s) \<and>
        (case r of None \<Rightarrow> \<not> readable ino \<and> holds s' hs | Some a \<Rightarrow> holds s' (a # hs))) (op_iget ops ino s)"
    and iput_law: "holds s hs \<Longrightarrow> a \<in> set hs \<Longrightarrow>
      good (\<lambda>_ s'. (\<forall>b \<in> set (remove1 a hs). stat_of b s' = stat_of b s) \<and> holds s' (remove1 a hs)) (op_iput ops a s)"
    and igetattr_law: "holds s hs \<Longrightarrow> length hs < most \<Longrightarrow>
      good (\<lambda>_ s'. (\<forall>a \<in> set hs. stat_of a s' = stat_of a s) \<and> holds s' hs) (op_igetattr ops ino s)"
    and istat_law: "holds s hs \<Longrightarrow> a \<in> set hs \<Longrightarrow> op_istat ops a s = U_Ret (stat_of a s) s"
    and namei_law: "holds s hs \<Longrightarrow> length hs + 1 < most \<Longrightarrow>
      good (\<lambda>_ s'. (\<forall>a \<in> set hs. stat_of a s' = stat_of a s) \<and> holds s' hs) (op_namei ops ino name s)"
    and nextdirentry_law: "holds s hs \<Longrightarrow> a \<in> set hs \<Longrightarrow> 0 \<le> off \<Longrightarrow>
      good (\<lambda>r s'. s' = s \<and> (case r of Inl e \<Rightarrow> e \<noteq> 0
        | Inr (b, off', ino, name) \<Rightarrow> off < off' \<and> off' \<le> st_size (snd (stat_of a s))))
        (op_nextdirentry ops a d off s)"
    and pbread_law: "holds s hs \<Longrightarrow> a \<in> set hs \<Longrightarrow>
      good (\<lambda>(ret, b, err) s'. s' = s \<and> length b \<le> n \<and> (ret = int (length b) \<or> ret = - 1 \<and> err \<noteq> 0 \<and> b = []) \<and>
        (err = 0 \<longrightarrow> length b = n)) (op_pbread ops a n off 0 s)"

end
