(* ===== verification/Unixfs_V7.thy ===== *)
theory Unixfs_V7
  imports Unixfs_Inode Unixfs_Ops "HOL-Library.Signed_Division"
begin

text \<open>
  The reader of Seventh Edition disks (\<^verbatim>\<open>src/filesystems/unixfs/ancientfs/ancientfs_v7.c\<close>, with the
  byte swappers of \<^verbatim>\<open>unixfs_internal.h\<close>), as it is built for 32-bit little-endian Intel: the super block
  and its free list, the map from blocks of a file to blocks of the disk, inodes, directories and reading.

  The disk image is what \<^verbatim>\<open>pread\<close> returns. A function that only reads gives an \<open>outcome\<close>; \<open>Panic\<close> is the
  call of \<^verbatim>\<open>abort\<close>. Signed C integers are \<open>int\<close>, cut to their width where the code stores them. A thread
  that has the daemon to itself is modelled; what several threads do to the inodes is in \<open>Unixfs_Inode\<close>.
\<close>

section \<open>Constants and byte orders\<close>

abbreviation EFBIG :: errno where "EFBIG \<equiv> 27"
abbreviation EROFS :: errno where "EROFS \<equiv> 30"

abbreviation BSIZE :: nat where "BSIZE \<equiv> 512"
abbreviation BMASK :: int where "BMASK \<equiv> 511"
abbreviation NSHIFT :: nat where "NSHIFT \<equiv> 7"
abbreviation NMASK :: nat where "NMASK \<equiv> 127"
abbreviation NADDR :: nat where "NADDR \<equiv> 13"
abbreviation NICFREE :: nat where "NICFREE \<equiv> 50"
abbreviation NICINOD :: nat where "NICINOD \<equiv> 100"
abbreviation INOPB :: nat where "INOPB \<equiv> 8"
abbreviation DIRSIZ :: nat where "DIRSIZ \<equiv> 14"
abbreviation dentsize :: nat where "dentsize \<equiv> 16"
abbreviation ROOTINO :: u64 where "ROOTINO \<equiv> 2"
abbreviation MACFUSE_ROOTINO :: u64 where "MACFUSE_ROOTINO \<equiv> 1"

definition s16 :: "int \<Rightarrow> int" where "s16 n = sint (word_of_int n :: u16)"
definition s32 :: "int \<Rightarrow> int" where "s32 n = sint (word_of_int n :: u32)"

definition swap16 :: "u16 \<Rightarrow> u16" where
  "swap16 x = push_bit 8 x OR drop_bit 8 x"

definition swap32 :: "u32 \<Rightarrow> u32" where
  "swap32 x = push_bit 24 x OR (push_bit 8 x AND 0xFF0000) OR (drop_bit 8 x AND 0xFF00) OR drop_bit 24 x"

definition pdp11_to_host :: "u32 \<Rightarrow> u32" where
  "pdp11_to_host x = push_bit 16 (x AND 0xFFFF) OR drop_bit 16 (x AND 0xFFFF0000)"

definition fs32_to_host :: "fs_endian \<Rightarrow> u32 \<Rightarrow> u32" where
  "fs32_to_host e x =
     (if e = UNIXFS_FS_PDP then pdp11_to_host x else if e = UNIXFS_FS_LITTLE then x else swap32 x)"

definition fs16_to_host :: "fs_endian \<Rightarrow> u16 \<Rightarrow> u16" where
  "fs16_to_host e x = (if e \<noteq> UNIXFS_FS_BIG then x else swap16 x)"

text \<open>The members of a structure in a buffer.\<close>

definition mem16 :: "fs_endian \<Rightarrow> nat \<Rightarrow> bytes \<Rightarrow> u16" where
  "mem16 e off buf = fs16_to_host e (of_nat (field_at off 2 buf))"

definition mem32 :: "fs_endian \<Rightarrow> nat \<Rightarrow> bytes \<Rightarrow> u32" where
  "mem32 e off buf = fs32_to_host e (of_nat (field_at off 4 buf))"

definition int16 :: "fs_endian \<Rightarrow> nat \<Rightarrow> bytes \<Rightarrow> int" where "int16 e off buf = sint (mem16 e off buf)"
definition int32 :: "fs_endian \<Rightarrow> nat \<Rightarrow> bytes \<Rightarrow> int" where "int32 e off buf = sint (mem32 e off buf)"

section \<open>The state\<close>

record filsys =
  s_isize :: u16
  s_fsize :: int
  s_nfree :: int
  s_free :: "int list"
  s_ninode :: int
  s_inode :: "u16 list"
  s_time :: u32
  s_fname :: bytes
  s_fpack :: bytes

record v7_inode =
  I_stat :: unix_stat
  I_daddr :: "u32 list"

record super_block =
  s_endian :: fs_endian
  s_fs_info :: filsys
  s_layer :: "v7_inode ilayer"
  s_statvfs :: statvfs

text \<open>The environment: the bytes that a read of the image returns, and whether memory can be had.\<close>

record v7_env =
  e_pread :: "int \<Rightarrow> nat \<Rightarrow> bytes"
  e_calloc :: "u64 \<Rightarrow> bool"

section \<open>Blocks\<close>

definition bread :: "v7_env \<Rightarrow> super_block \<Rightarrow> int \<Rightarrow> (errno \<times> bytes) outcome" where
  "bread E s blkno =
     (if s_fsize (s_fs_info s) \<le> blkno then Panic
      else if blkno = 0 then Done (0, replicate BSIZE 0)
      else
        (let b = e_pread E (blkno * int BSIZE) BSIZE
         in if length b \<noteq> BSIZE then Done (EIO, []) else Done (0, b)))"

text \<open>How many levels of indirection a block of a file needs, the shift they start with, and the rest.\<close>

fun bmap_levels :: "nat \<Rightarrow> nat \<Rightarrow> nat \<Rightarrow> nat \<Rightarrow> nat \<times> nat \<times> nat" where
  "bmap_levels 0 sh nb bn = (0, sh, bn)"
| "bmap_levels (Suc j) sh nb bn =
     (let sh' = sh + NSHIFT; nb' = push_bit NSHIFT nb
      in if bn < nb' then (Suc j, sh', bn) else bmap_levels j sh' nb' (bn - nb'))"

text \<open>The loop through the indirect blocks; \<open>n\<close> blocks are still to be read.\<close>

fun bmap_walk :: "v7_env \<Rightarrow> super_block \<Rightarrow> nat \<Rightarrow> nat \<Rightarrow> nat \<Rightarrow> int \<Rightarrow> (int \<times> errno) outcome" where
  "bmap_walk E s 0 sh bn nb = Done (nb, 0)"
| "bmap_walk E s (Suc n) sh bn nb =
     bind_outcome (bread E s nb) (\<lambda>(ret, ubuf).
       if ret \<noteq> 0 then Done (0, ret)
       else
         (let sh' = sh - NSHIFT; i = drop_bit sh' bn AND NMASK; nb' = int32 (s_endian s) (4 * i) ubuf
          in if nb' = 0 then Done (0, EROFS) else bmap_walk E s n sh' bn nb'))"

definition bmap :: "v7_env \<Rightarrow> super_block \<Rightarrow> v7_inode \<Rightarrow> int \<Rightarrow> (int \<times> errno) outcome" where
  "bmap E s ip lblkno =
     (let bn = s32 lblkno
      in if bn < 0 then Done (0, EFBIG)
         else if bn < int (NADDR - 3) then
           (let nb = sint (I_daddr ip ! nat bn) in if nb = 0 then Done (0, EROFS) else Done (nb, 0))
         else
           (case bmap_levels 3 0 1 (nat bn - (NADDR - 3)) of
              (j, sh, rest) \<Rightarrow>
                if j = 0 then Done (0, EFBIG)
                else
                  (let nb = sint (I_daddr ip ! (NADDR - j))
                   in if nb = 0 then Done (0, EROFS) else bmap_walk E s (4 - j) sh rest nb)))"

section \<open>The free list\<close>

text \<open>The word after the list of free blocks, which the index \<open>NICFREE\<close> reads: the count and the first of the
  free inodes.\<close>

definition after_free :: "filsys \<Rightarrow> int" where
  "after_free fs =
     sint (push_bit 16 (ucast (s_inode fs ! 0)) OR ucast (word_of_int (s_ninode fs) :: u16) :: u32)"

definition read_fblk :: "fs_endian \<Rightarrow> bytes \<Rightarrow> int \<times> int list" where
  "read_fblk e buf = (int16 e 0 buf, map (\<lambda>i. int32 e (2 + 4 * i) buf) [0..<NICFREE])"

definition upd_fs :: "(filsys \<Rightarrow> filsys) \<Rightarrow> super_block \<Rightarrow> super_block" where
  "upd_fs f s = s\<lparr>s_fs_info := f (s_fs_info s)\<rparr>"

definition unixfs_internal_alloc :: "v7_env \<Rightarrow> super_block \<Rightarrow> (int \<times> super_block) outcome" where
  "unixfs_internal_alloc E s0 =
     (let i = s16 (s_nfree (s_fs_info s0) - 1);
          s = upd_fs (\<lambda>fs. fs\<lparr>s_nfree := i\<rparr>) s0;
          fs = s_fs_info s
      in if i < 0 then Done (0, upd_fs (\<lambda>fs. fs\<lparr>s_nfree := 0\<rparr>) s)
         else if int NICFREE < i then Done (0, s)
         else
           (let bno = (if i = int NICFREE then after_free fs else s_free fs ! nat i)
            in if bno = 0 then Done (0, s)
               else if bno < int (unat (s_isize fs)) \<or> s_fsize fs \<le> bno then Done (0, s)
               else if i \<le> 0 then
                 bind_outcome (bread E s bno) (\<lambda>(ret, ubuf).
                   if ret \<noteq> 0 then Done (0, s)
                   else
                     (case read_fblk (s_endian s) ubuf of
                        (n, free) \<Rightarrow> Done (bno, upd_fs (\<lambda>fs. fs\<lparr>s_nfree := n, s_free := free\<rparr>) s)))
               else Done (bno, s)))"

text \<open>The loop that counts the free blocks; \<open>None\<close> when it does not end.\<close>

partial_function (option) count_free ::
    "v7_env \<Rightarrow> super_block \<Rightarrow> nat \<Rightarrow> (nat \<times> super_block) outcome option" where
  "count_free E s n =
     (case unixfs_internal_alloc E s of
        Done (b, s1) \<Rightarrow> if b = 0 then Some (Done (n, s1)) else count_free E s1 (n + 1)
      | Panic \<Rightarrow> Some Panic
      | BadAccess \<Rightarrow> Some BadAccess)"

section \<open>Inodes\<close>

definition zero_inode :: v7_inode where
  "zero_inode = \<lparr>I_stat = zero_stat, I_daddr = replicate NADDR 0\<rparr>"

definition itod :: "u64 \<Rightarrow> int" where "itod ino = int ((unat (ucast ino :: u16) + 15) div 8)"
definition itoo :: "u64 \<Rightarrow> nat" where "itoo ino = (unat (ucast ino :: u16) + 15) AND 7"

text \<open>An address of three bytes is spread over the four bytes of a word and then swapped.\<close>

definition dinode_daddr :: "fs_endian \<Rightarrow> bytes \<Rightarrow> nat \<Rightarrow> u32" where
  "dinode_daddr e dip i =
     fs32_to_host e (of_nat (le_value
       [dip ! (12 + 3 * i), 0, dip ! (12 + 3 * i + 1), dip ! (12 + 3 * i + 2)]))"

definition read_dinode :: "fs_endian \<Rightarrow> bytes \<Rightarrow> v7_inode" where
  "read_dinode e dip =
     (let mode = mem16 e 0 dip; daddr = map (dinode_daddr e dip) [0..<NADDR]
      in \<lparr>I_stat =
            \<lparr>st_mode = mode, st_nlink = mem16 e 2 dip, st_uid = mem16 e 4 dip, st_gid = mem16 e 6 dip,
             st_size = int (unat (mem32 e 8 dip)),
             st_atime = mem32 e 52 dip, st_mtime = mem32 e 56 dip, st_ctime = mem32 e 60 dip,
             st_rdev =
               (if S_ISCHR mode \<or> S_ISBLK mode
                then Some (drop_bit 8 (daddr ! 0) AND 255, daddr ! 0 AND 255) else None)\<rparr>,
          I_daddr = daddr\<rparr>)"

definition upd_layer :: "v7_inode ilayer \<Rightarrow> super_block \<Rightarrow> super_block" where
  "upd_layer L s = s\<lparr>s_layer := L\<rparr>"

fun layerU :: "v7_inode ilayer outcome \<Rightarrow> super_block \<Rightarrow> (unit, super_block) urun" where
  "layerU (Done L) s = U_Ret () (upd_layer L s)"
| "layerU Panic s = U_Abort"
| "layerU BadAccess s = U_Fault"

definition node_at :: "nat \<Rightarrow> super_block \<Rightarrow> (v7_inode inode, super_block) urun" where
  "node_at a s = (case il_heap (s_layer s) a of None \<Rightarrow> U_Fault | Some n \<Rightarrow> U_Ret n s)"

definition root_ino :: "u64 \<Rightarrow> u64" where
  "root_ino ino = (if ino = MACFUSE_ROOTINO then ROOTINO else ino)"

text \<open>The inode that the layer gives out is read in from the disk if that was not done before.\<close>

definition iget_read :: "v7_env \<Rightarrow> u64 \<Rightarrow> nat \<Rightarrow> super_block \<Rightarrow> (nat option, super_block) urun" where
  "iget_read E ino a s =
     bindU (lookU (bread E s (itod ino)) s) (\<lambda>(ret, ubuf) s.
       if ret \<noteq> 0 then
         bindU (layerU (unixfs_inodelayer_ifailed a (s_layer s)) s) (\<lambda>_ s. U_Ret None s)
       else
         (let ip = read_dinode (s_endian s) (drop (64 * itoo ino) ubuf)
          in bindU (layerU (bind_outcome (upd_inode a (\<lambda>n. n\<lparr>I_number := ino, I_data := ip\<rparr>) (s_layer s))
                      (unixfs_inodelayer_isucceeded a)) s)
               (\<lambda>_ s. U_Ret (Some a) s)))"

definition unixfs_internal_iget :: "v7_env \<Rightarrow> u64 \<Rightarrow> super_block \<Rightarrow> (nat option, super_block) urun" where
  "unixfs_internal_iget E ino0 s =
     (let ino = root_ino ino0
      in case unixfs_inodelayer_iget zero_inode (e_calloc E ino) ino (s_layer s) of
           Done None \<Rightarrow> U_Stuck
         | Panic \<Rightarrow> U_Abort
         | BadAccess \<Rightarrow> U_Fault
         | Done (Some (None, L)) \<Rightarrow> U_Abort
         | Done (Some (Some a, L)) \<Rightarrow>
             bindU (node_at a (upd_layer L s)) (\<lambda>n s.
               if I_initialized n then U_Ret (Some a) s else iget_read E ino a s))"

definition unixfs_internal_iput :: "nat \<Rightarrow> super_block \<Rightarrow> (unit, super_block) urun" where
  "unixfs_internal_iput a s = layerU (unixfs_inodelayer_iput a (s_layer s)) s"

text \<open>The status of an inode with its number, as \<^verbatim>\<open>struct stat\<close> has it.\<close>

definition istat :: "v7_inode inode \<Rightarrow> u64 \<times> unix_stat" where
  "istat n = (I_number n, I_stat (I_data n))"

definition unixfs_internal_istat :: "nat \<Rightarrow> super_block \<Rightarrow> (u64 \<times> unix_stat, super_block) urun" where
  "unixfs_internal_istat a s = bindU (node_at a s) (\<lambda>n s. U_Ret (istat n) s)"

definition unixfs_internal_igetattr :: "v7_env \<Rightarrow> u64 \<Rightarrow> super_block \<Rightarrow> (errno \<times> u64 \<times> unix_stat, super_block) urun" where
  "unixfs_internal_igetattr E ino s =
     bindU (unixfs_internal_iget E (root_ino ino) s) (\<lambda>ip s.
       case ip of
         None \<Rightarrow> U_Ret (ENOENT, 0, zero_stat) s
       | Some a \<Rightarrow>
           bindU (unixfs_internal_istat a s) (\<lambda>st s.
             bindU (unixfs_internal_iput a s) (\<lambda>_ s. U_Ret (0, st) s)))"

section \<open>Directories\<close>

definition cstring :: "bytes \<Rightarrow> bytes" where "cstring b = takeWhile (\<lambda>c. c \<noteq> 0) b"

text \<open>Two C strings agree up to the length \<open>n\<close>.\<close>

definition strncmp_eq :: "nat \<Rightarrow> bytes \<Rightarrow> bytes \<Rightarrow> bool" where
  "strncmp_eq n a b \<longleftrightarrow> takeWhile (\<lambda>c. c \<noteq> 0) (take n a) = takeWhile (\<lambda>c. c \<noteq> 0) (take n b)"

definition u_ino :: "fs_endian \<Rightarrow> bytes \<Rightarrow> u16" where "u_ino e dent = mem16 e 0 dent"
definition u_name :: "bytes \<Rightarrow> bytes" where "u_name dent = take DIRSIZ (drop 2 dent)"

text \<open>The block for an offset of a directory: an error to leave with, or the bytes.\<close>

definition dir_block :: "v7_env \<Rightarrow> super_block \<Rightarrow> v7_inode \<Rightarrow> int \<Rightarrow> (errno + errno \<times> bytes) outcome" where
  "dir_block E s ip offset =
     bind_outcome (bmap E s ip (offset sdiv int BSIZE)) (\<lambda>(blkno, ret).
       if ret \<noteq> 0 then Done (Inl ret)
       else bind_outcome (bread E s blkno) (\<lambda>r. Done (Inr r)))"

text \<open>
  The search of \<^verbatim>\<open>unixfs_internal_namei\<close> from the entry at \<open>offset\<close>, which is a 16-bit integer: the number of
  the inode of the entry, or the value that is returned without one.
\<close>

fun namei_loop ::
    "v7_env \<Rightarrow> super_block \<Rightarrow> v7_inode \<Rightarrow> bytes \<Rightarrow> nat \<Rightarrow> int \<Rightarrow> bytes \<Rightarrow> (errno + u64) outcome" where
  "namei_loop E s ip name 0 offset ubuf = Done (Inl ENOENT)"
| "namei_loop E s ip name (Suc count) offset ubuf =
     bind_outcome
       (if offset AND BMASK = 0 then
          bind_outcome (dir_block E s ip offset) (\<lambda>r.
            case r of
              Inl ret \<Rightarrow> Done (Inl ret)
            | Inr (err, b) \<Rightarrow> if err \<noteq> 0 then Done (Inl 0) else Done (Inr b))
        else Done (Inr ubuf))
       (\<lambda>r.
         case r of
           Inl ret \<Rightarrow> Done (Inl ret)
         | Inr b \<Rightarrow>
             (let dent = take dentsize (drop (nat (offset AND BMASK)) b);
                  ino = u_ino (s_endian s) dent;
                  offset' = s16 (offset + int dentsize)
              in if ino = 0 \<or> \<not> strncmp_eq DIRSIZ name (u_name dent)
                 then namei_loop E s ip name count offset' b
                 else Done (Inr (ucast ino))))"

definition unixfs_internal_namei ::
    "v7_env \<Rightarrow> u64 \<Rightarrow> bytes \<Rightarrow> super_block \<Rightarrow> (errno \<times> u64 \<times> unix_stat, super_block) urun" where
  "unixfs_internal_namei E parentino name s =
     bindU (unixfs_internal_iget E (root_ino parentino) s) (\<lambda>dp s.
       case dp of
         None \<Rightarrow> U_Ret (ENOENT, 0, zero_stat) s
       | Some a \<Rightarrow>
           bindU (node_at a s) (\<lambda>n s.
             if \<not> S_ISDIR (st_mode (I_stat (I_data n))) then
               bindU (unixfs_internal_iput a s) (\<lambda>_ s. U_Ret (ENOTDIR, 0, zero_stat) s)
             else
               bindU (lookU (namei_loop E s (I_data n) name
                        (nat (st_size (I_stat (I_data n)) div int dentsize)) 0 []) s) (\<lambda>r s.
                 bindU
                   (case r of
                      Inl ret \<Rightarrow> U_Ret (ret, 0, zero_stat) s
                    | Inr ino \<Rightarrow> unixfs_internal_igetattr E ino s)
                   (\<lambda>res s. bindU (unixfs_internal_iput a s) (\<lambda>_ s. U_Ret res s)))))"

text \<open>The next entry of a directory, if there is room for one before its end.\<close>

definition dir_next ::
    "v7_env \<Rightarrow> super_block \<Rightarrow> v7_inode \<Rightarrow> bytes option \<Rightarrow> int \<Rightarrow>
     (errno + bytes \<times> int \<times> u64 \<times> bytes) outcome" where
  "dir_next E s ip dirbuf offset =
     (if st_size (I_stat ip) < offset + int dentsize then Done (Inl (- 1))
      else
        bind_outcome
          (case dirbuf of
             Some b \<Rightarrow>
               if offset AND BMASK = 0 then dir_block E s ip offset else Done (Inr (0, b))
           | None \<Rightarrow> dir_block E s ip offset)
          (\<lambda>r.
            case r of
              Inl ret \<Rightarrow> Done (Inl ret)
            | Inr (ret, b) \<Rightarrow>
                if ret \<noteq> 0 then Done (Inl ret)
                else
                  (let dent = take dentsize (drop (nat (offset AND BMASK)) b)
                   in Done (Inr (b, offset + int dentsize, ucast (u_ino (s_endian s) dent),
                        cstring (u_name dent))))))"

definition unixfs_internal_nextdirentry ::
    "v7_env \<Rightarrow> nat \<Rightarrow> bytes option \<Rightarrow> int \<Rightarrow> super_block \<Rightarrow>
     (errno + bytes \<times> int \<times> u64 \<times> bytes, super_block) urun" where
  "unixfs_internal_nextdirentry E a dirbuf offset s =
     bindU (node_at a s) (\<lambda>n s. lookU (dir_next E s (I_data n) dirbuf offset) s)"

section \<open>Reading\<close>

text \<open>The bytes that were moved and the last error.\<close>

function pbread_loop ::
    "v7_env \<Rightarrow> super_block \<Rightarrow> v7_inode \<Rightarrow> nat \<Rightarrow> int \<Rightarrow> bytes \<Rightarrow> errno \<Rightarrow> (bytes \<times> errno) outcome" where
  "pbread_loop E s ip remaining offset done_bytes error =
     (if remaining = 0 then Done (done_bytes, error)
      else
        bind_outcome (bmap E s ip (offset sdiv int BSIZE)) (\<lambda>(bn, e1).
          if e1 \<noteq> 0 then Done (done_bytes, e1)
          else
            bind_outcome (bread E s bn) (\<lambda>(e2, blkbuf).
              if e2 \<noteq> 0 then Done (done_bytes, e2)
              else
                (let tomove = (if BSIZE < remaining then BSIZE else remaining)
                 in pbread_loop E s ip (remaining - tomove) (offset + int tomove)
                      (done_bytes @ take tomove blkbuf) 0))))"
  by pat_completeness auto
termination by (relation "measure (\<lambda>(E, s, ip, r, off, d, e). r)") auto

declare pbread_loop.simps [simp del]

text \<open>The count is \<open>- 1\<close> when nothing was moved and there was an error.\<close>

definition unixfs_internal_pbread ::
    "v7_env \<Rightarrow> nat \<Rightarrow> nat \<Rightarrow> int \<Rightarrow> errno \<Rightarrow> super_block \<Rightarrow> (int \<times> bytes \<times> errno, super_block) urun" where
  "unixfs_internal_pbread E a nbyte offset error s =
     bindU (node_at a s) (\<lambda>n s.
       bindU (lookU (pbread_loop E s (I_data n) nbyte offset [] error) s) (\<lambda>(b, e) s.
         U_Ret (if b = [] \<and> e \<noteq> 0 then - 1 else int (length b), b, e) s))"

definition unixfs_internal_readlink :: "u64 \<Rightarrow> errno" where "unixfs_internal_readlink ino = ENOSYS"

definition unixfs_internal_statvfs :: "super_block \<Rightarrow> statvfs" where
  "unixfs_internal_statvfs s = s_statvfs s"

section \<open>Opening and checking an image\<close>

text \<open>The super block of the image in the byte order of the host. The two names are not always ended by a zero
  byte: the first one then runs into the second one.\<close>

definition read_filsys :: "fs_endian \<Rightarrow> bytes \<Rightarrow> filsys" where
  "read_filsys e b =
     \<lparr>s_isize = mem16 e 0 b, s_fsize = int32 e 2 b, s_nfree = int16 e 6 b,
      s_free = map (\<lambda>i. int32 e (8 + 4 * i) b) [0..<NICFREE],
      s_ninode = int16 e 208 b, s_inode = map (\<lambda>i. mem16 e (210 + 2 * i) b) [0..<NICINOD],
      s_time = mem32 e 414 b, s_fname = cstring (drop 428 b), s_fpack = cstring (drop 434 b)\<rparr>"

definition unixfs_internal_sanitycheck :: "v7_env \<Rightarrow> int \<Rightarrow> super_block \<Rightarrow> (int, super_block) urun" where
  "unixfs_internal_sanitycheck E disksize s =
     (let fs = s_fs_info s
      in if disksize < s32 (s_fsize fs * int BSIZE) then U_Ret (- 1) s
         else if int NICFREE < s_nfree fs then U_Ret (- 1) s
         else if int NICINOD < s_ninode fs then U_Ret (- 1) s
         else if s_time fs = 0 then U_Ret (- 1) s
         else
           bindU (unixfs_internal_igetattr E ROOTINO s) (\<lambda>(ret, _, st) s.
             if ret \<noteq> 0 then U_Ret (- 1) s
             else if \<not> S_ISDIR (st_mode st) then U_Ret (- 1) s
             else if st_size st = 0 then U_Ret (- 1) s
             else if st_size st mod int dentsize \<noteq> 0 then U_Ret (- 1) s
             else U_Ret 0 s))"

text \<open>The inodes in use and the free ones in the blocks of the list; a block that cannot be read is skipped.\<close>

definition count_block :: "bytes \<Rightarrow> nat \<times> nat \<Rightarrow> nat \<times> nat" where
  "count_block b c =
     foldl (\<lambda>(files, ffree) i. if field_at (64 * i + 2) 2 b = 0 then (files, ffree + 1) else (files + 1, ffree))
       c [0..<INOPB]"

fun count_inodes :: "v7_env \<Rightarrow> super_block \<Rightarrow> nat list \<Rightarrow> nat \<times> nat \<Rightarrow> (nat \<times> nat) outcome" where
  "count_inodes E s [] c = Done c"
| "count_inodes E s (iblock # rest) c =
     bind_outcome (bread E s (int iblock)) (\<lambda>(ret, b).
       count_inodes E s rest (if ret \<noteq> 0 then c else count_block b c))"

text \<open>What the start needs of the system: opening the image, its status, memory and the table of inodes.\<close>

record v7_start =
  i_open :: bool
  i_fstat :: errno
  i_mode :: u16
  i_size :: int
  i_mem_sb :: bool
  i_mem_fs :: bool
  i_layer :: bool
  i_mem_ubuf :: bool

definition fresh_layer :: "v7_inode ilayer" where "fresh_layer = empty_layer"

definition start_block :: "v7_env \<Rightarrow> fs_endian \<Rightarrow> bytes \<Rightarrow> super_block" where
  "start_block E fse b =
     (let e = (if fse = UNIXFS_FS_INVALID then UNIXFS_FS_PDP else fse)
      in \<lparr>s_endian = e, s_fs_info = read_filsys e b, s_layer = fresh_layer,
          s_statvfs = \<lparr>f_bsize = BSIZE, f_frsize = BSIZE, f_files = 0, f_ffree = 0, f_blocks = 0, f_bfree = 0,
            f_bavail = 0, f_namemax = 0\<rparr>\<rparr>)"

definition start_counts :: "v7_env \<Rightarrow> super_block \<Rightarrow> super_block option outcome option" where
  "start_counts E s =
     (case count_inodes E s [2..<unat (s_isize (s_fs_info s))] (0, 0) of
        Panic \<Rightarrow> Some Panic
      | BadAccess \<Rightarrow> Some BadAccess
      | Done (files, ffree) \<Rightarrow>
          (case count_free E s 0 of
             None \<Rightarrow> None
           | Some Panic \<Rightarrow> Some Panic
           | Some BadAccess \<Rightarrow> Some BadAccess
           | Some (Done (n, s1)) \<Rightarrow>
               Some (Done (Some (s1\<lparr>s_statvfs := (s_statvfs s1)\<lparr>f_files := files, f_ffree := ffree,
                 f_blocks := s_fsize (s_fs_info s1), f_bfree := n, f_bavail := n, f_namemax := DIRSIZ\<rparr>\<rparr>)))))"

text \<open>
  The start: \<open>None\<close> if it never ends, \<open>Done None\<close> if it fails. When the memory for the super block of the
  disk is missing, the other one is freed there and again at the end.
\<close>

definition unixfs_internal_init ::
    "v7_env \<Rightarrow> v7_start \<Rightarrow> bool \<Rightarrow> fs_endian \<Rightarrow> super_block option outcome option" where
  "unixfs_internal_init E I force fse =
     (if \<not> i_open I then Some (Done None)
      else if i_fstat I \<noteq> 0 then Some (Done None)
      else if \<not> S_ISREG (i_mode I) \<and> \<not> force then Some (Done None)
      else if \<not> i_mem_sb I then Some (Done None)
      else if \<not> i_mem_fs I then Some BadAccess
      else
        (let b = e_pread E (int BSIZE) BSIZE
         in if length b \<noteq> BSIZE then Some (Done None)
            else if \<not> i_layer I then Some (Done None)
            else
              (case unixfs_internal_sanitycheck E (i_size I) (start_block E fse b) of
                 U_Abort \<Rightarrow> Some Panic
               | U_Fault \<Rightarrow> Some BadAccess
               | U_Stuck \<Rightarrow> None
               | U_Ret ret s \<Rightarrow>
                   if ret \<noteq> 0 \<and> \<not> force then Some (Done None)
                   else if \<not> i_mem_ubuf I then Some (Done None)
                   else start_counts E s)))"

text \<open>The end gives the table of inodes back.\<close>

definition unixfs_internal_fini :: "super_block \<Rightarrow> super_block" where
  "unixfs_internal_fini s = upd_layer (unixfs_inodelayer_fini (s_layer s)) s"

section \<open>The table of operations\<close>

definition ops_v7 :: "v7_env \<Rightarrow> super_block unixfs_ops" where
  "ops_v7 E =
     \<lparr>op_fini = unixfs_internal_fini, op_iget = unixfs_internal_iget E, op_iput = unixfs_internal_iput,
      op_igetattr = unixfs_internal_igetattr E, op_istat = unixfs_internal_istat,
      op_namei = unixfs_internal_namei E, op_nextdirentry = unixfs_internal_nextdirentry E,
      op_pbread = unixfs_internal_pbread E, op_readlink = unixfs_internal_readlink,
      op_statvfs = unixfs_internal_statvfs\<rparr>"

end
