(* ===== verification/Unixfs_LL.thy ===== *)
theory Unixfs_LL
  imports Unixfs_Ops
begin

text \<open>
  The handlers of the daemon of the Unix file systems (\<^verbatim>\<open>src/filesystems/unixfs/common/unixfs/unixfs.c\<close>),
  over the table of operations of the file system. A handler returns the replies it makes, in order.
\<close>

abbreviation EBADF :: errno where "EBADF \<equiv> 9"
abbreviation EISDIR :: errno where "EISDIR \<equiv> 21"

datatype ll_reply =
    Reply_err errno
  | Reply_entry u64 "u64 \<times> unix_stat"
  | Reply_attr "u64 \<times> unix_stat"
  | Reply_readlink
  | Reply_buf bytes
  | Reply_open nat
  | Reply_statfs statvfs

text \<open>What the library of the daemon and the allocator add: the form of a directory entry, and memory.\<close>

record ll_env =
  e_dirsize :: "bytes \<Rightarrow> nat"
  e_direntry :: "bytes \<Rightarrow> u64 \<times> unix_stat \<Rightarrow> nat \<Rightarrow> bytes"
  e_buffer :: "nat \<Rightarrow> bool"

section \<open>Handlers\<close>

definition unixfs_ll_statfs :: "'s unixfs_ops \<Rightarrow> 's \<Rightarrow> (ll_reply list, 's) urun" where
  "unixfs_ll_statfs ops s = U_Ret [Reply_statfs (op_statvfs ops s)] s"

definition unixfs_ll_destroy :: "'s unixfs_ops \<Rightarrow> 's \<Rightarrow> 's" where
  "unixfs_ll_destroy ops s = op_fini ops s"

definition unixfs_ll_lookup :: "'s unixfs_ops \<Rightarrow> u64 \<Rightarrow> bytes \<Rightarrow> 's \<Rightarrow> (ll_reply list, 's) urun" where
  "unixfs_ll_lookup ops parent name s =
     bindU (op_namei ops parent name s) (\<lambda>(error, attr) s.
       if error \<noteq> 0 then U_Ret [Reply_err error] s else U_Ret [Reply_entry (fst attr) attr] s)"

definition unixfs_ll_getattr :: "'s unixfs_ops \<Rightarrow> u64 \<Rightarrow> 's \<Rightarrow> (ll_reply list, 's) urun" where
  "unixfs_ll_getattr ops ino s =
     bindU (op_igetattr ops ino s) (\<lambda>(error, attr) s.
       if error = 0 then U_Ret [Reply_attr attr] s else U_Ret [Reply_err error] s)"

definition unixfs_ll_readlink :: "'s unixfs_ops \<Rightarrow> u64 \<Rightarrow> 's \<Rightarrow> (ll_reply list, 's) urun" where
  "unixfs_ll_readlink ops ino s =
     (let ret = op_readlink ops ino
      in U_Ret ((if ret \<noteq> 0 then [Reply_err ret] else []) @ [Reply_readlink]) s)"

text \<open>
  The loop over the entries of a directory; \<open>buf\<close> are the entries so far. Every entry moves the offset on
  and stays below the size, so that one round more than there are bytes is enough.
\<close>

fun listing_loop ::
    "'s unixfs_ops \<Rightarrow> ll_env \<Rightarrow> nat \<Rightarrow> nat \<Rightarrow> bytes option \<Rightarrow> int \<Rightarrow> bytes \<Rightarrow> 's \<Rightarrow> (bytes, 's) urun" where
  "listing_loop ops E 0 dp dirbuf offset buf s = U_Stuck"
| "listing_loop ops E (Suc rounds) dp dirbuf offset buf s =
     bindU (op_nextdirentry ops dp dirbuf offset s) (\<lambda>r s.
       case r of
         Inl err \<Rightarrow> U_Ret buf s
       | Inr (b, offset, ino, name) \<Rightarrow>
           if ino = 0 then listing_loop ops E rounds dp (Some b) offset buf s
           else
             bindU (op_igetattr ops ino s) (\<lambda>(err, st) s.
               if err \<noteq> 0 then listing_loop ops E rounds dp (Some b) offset buf s
               else
                 listing_loop ops E rounds dp (Some b) offset
                   (buf @ e_direntry E name st (length buf + e_dirsize E name)) s))"

definition unixfs_ll_readdir ::
    "'s unixfs_ops \<Rightarrow> ll_env \<Rightarrow> u64 \<Rightarrow> nat \<Rightarrow> nat \<Rightarrow> 's \<Rightarrow> (ll_reply list, 's) urun" where
  "unixfs_ll_readdir ops E ino count off s =
     bindU (op_iget ops ino s) (\<lambda>dp s.
       case dp of
         None \<Rightarrow> U_Ret [Reply_err ENOENT] s
       | Some a \<Rightarrow>
           bindU (op_istat ops a s) (\<lambda>(_, st) s.
             if \<not> S_ISDIR (st_mode st) then
               bindU (op_iput ops a s) (\<lambda>_ s. U_Ret [Reply_err ENOTDIR] s)
             else
               bindU (listing_loop ops E (Suc (nat (st_size st))) a None 0 [] s) (\<lambda>b s.
                 bindU (op_iput ops a s) (\<lambda>_ s.
                   U_Ret [Reply_buf (if off < length b then take (min (length b - off) count) (drop off b)
                     else [])] s))))"

text \<open>Opening an inode that is missing goes on after the reply, with the null pointer.\<close>

definition unixfs_ll_open :: "'s unixfs_ops \<Rightarrow> u64 \<Rightarrow> 's \<Rightarrow> (ll_reply list, 's) urun" where
  "unixfs_ll_open ops ino s =
     bindU (op_iget ops ino s) (\<lambda>ip s.
       (case (case ip of None \<Rightarrow> ([Reply_err ENOENT], 0) | Some a \<Rightarrow> ([], a)) of
          (replies, a) \<Rightarrow>
            bindU (op_istat ops a s) (\<lambda>(_, st) s.
              (let mode = st_mode st
               in if \<not> S_ISREG mode then
                    (let reply = Reply_err (if S_ISDIR mode then EISDIR
                       else if S_ISBLK mode \<or> S_ISCHR mode then ENXIO else EACCES)
                     in bindU (op_iput ops a s) (\<lambda>_ s. U_Ret (replies @ [reply]) s))
                  else U_Ret (replies @ [Reply_open a]) s))))"

definition unixfs_ll_release :: "'s unixfs_ops \<Rightarrow> nat \<Rightarrow> 's \<Rightarrow> (ll_reply list, 's) urun" where
  "unixfs_ll_release ops fh s =
     bindU (if fh \<noteq> 0 then op_iput ops fh s else U_Ret () s) (\<lambda>_ s. U_Ret [Reply_err 0] s)"

text \<open>The loop of a read: a round without an error moves everything that is left, so two are enough.\<close>

fun read_loop ::
    "'s unixfs_ops \<Rightarrow> nat \<Rightarrow> nat \<Rightarrow> nat \<Rightarrow> int \<Rightarrow> bytes \<Rightarrow> errno \<Rightarrow> 's \<Rightarrow> (bytes, 's) urun" where
  "read_loop ops 0 ip count offset buf error s = U_Stuck"
| "read_loop ops (Suc rounds) ip count offset buf error s =
     bindU (op_pbread ops ip count offset error s) (\<lambda>(ret, b, error) s.
       if ret < 0 then U_Ret buf s
       else if error = 0 \<and> count - nat ret \<noteq> 0 then
         read_loop ops rounds ip (count - nat ret) (offset + ret) (buf @ b) error s
       else U_Ret (buf @ b) s)"

definition unixfs_ll_read ::
    "'s unixfs_ops \<Rightarrow> ll_env \<Rightarrow> nat \<Rightarrow> nat \<Rightarrow> int \<Rightarrow> 's \<Rightarrow> (ll_reply list, 's) urun" where
  "unixfs_ll_read ops E fh count0 offset s =
     (if fh = 0 then U_Ret [Reply_err EBADF] s
      else
        bindU (op_istat ops fh s) (\<lambda>(_, st) s.
          (let fsize = st_size st
           in if count0 = 0 \<or> fsize < offset then U_Ret [Reply_buf []] s
              else
                (let count = (if fsize < offset + int count0 then nat (fsize - offset) else count0)
                 in if \<not> e_buffer E count then U_Ret [Reply_err ENOMEM] s
                    else
                      bindU (read_loop ops 2 fh count offset [] 0 s) (\<lambda>b s. U_Ret [Reply_buf b] s)))))"

section \<open>Sessions\<close>

text \<open>The requests of the kernel, the table of handlers, and the files that are open after a request.\<close>

datatype ll_request =
    Ll_statfs
  | Ll_lookup u64 bytes
  | Ll_getattr u64
  | Ll_readlink u64
  | Ll_readdir u64 nat nat
  | Ll_open u64
  | Ll_release nat
  | Ll_read nat nat int

fun unixfs_ll_oper :: "'s unixfs_ops \<Rightarrow> ll_env \<Rightarrow> ll_request \<Rightarrow> 's \<Rightarrow> (ll_reply list, 's) urun" where
  "unixfs_ll_oper ops E Ll_statfs s = unixfs_ll_statfs ops s"
| "unixfs_ll_oper ops E (Ll_lookup parent name) s = unixfs_ll_lookup ops parent name s"
| "unixfs_ll_oper ops E (Ll_getattr ino) s = unixfs_ll_getattr ops ino s"
| "unixfs_ll_oper ops E (Ll_readlink ino) s = unixfs_ll_readlink ops ino s"
| "unixfs_ll_oper ops E (Ll_readdir ino count off) s = unixfs_ll_readdir ops E ino count off s"
| "unixfs_ll_oper ops E (Ll_open ino) s = unixfs_ll_open ops ino s"
| "unixfs_ll_oper ops E (Ll_release fh) s = unixfs_ll_release ops fh s"
| "unixfs_ll_oper ops E (Ll_read fh count off) s = unixfs_ll_read ops E fh count off s"

fun open_after :: "ll_request \<Rightarrow> ll_reply list \<Rightarrow> nat list \<Rightarrow> nat list" where
  "open_after (Ll_open ino) [Reply_open a] hs = a # hs"
| "open_after (Ll_release fh) rs hs = remove1 fh hs"
| "open_after q rs hs = hs"

text \<open>The kernel reads from and releases open files only.\<close>

fun sendable :: "ll_request \<Rightarrow> nat list \<Rightarrow> bool" where
  "sendable (Ll_release fh) hs \<longleftrightarrow> fh \<in> set hs"
| "sendable (Ll_read fh count off) hs \<longleftrightarrow> fh \<in> set hs"
| "sendable q hs \<longleftrightarrow> True"

fun serve ::
    "'s unixfs_ops \<Rightarrow> ll_env \<Rightarrow> ll_request list \<Rightarrow> nat list \<Rightarrow> 's \<Rightarrow> (nat list \<times> ll_reply list list, 's) urun" where
  "serve ops E [] hs s = U_Ret (hs, []) s"
| "serve ops E (q # qs) hs s =
     (if sendable q hs then
        bindU (unixfs_ll_oper ops E q s) (\<lambda>rs s.
          bindU (serve ops E qs (open_after q rs hs) s) (\<lambda>(hs, rss) s. U_Ret (hs, rs # rss) s))
      else serve ops E qs hs s)"

section \<open>What the handlers keep\<close>

text \<open>A handler keeps the inodes that are in use, but for the one that it opens or releases.\<close>

context unix_file_system
begin

lemma lookup_keeps:
  "holds s hs \<Longrightarrow> length hs + 1 < most \<Longrightarrow>
   good (\<lambda>r s'. length r = 1 \<and> holds s' hs) (unixfs_ll_lookup ops parent name s)"
  unfolding unixfs_ll_lookup_def by (rule good_bind, rule good_mono [OF namei_law]) auto

lemma getattr_keeps:
  "holds s hs \<Longrightarrow> length hs < most \<Longrightarrow>
   good (\<lambda>r s'. length r = 1 \<and> holds s' hs) (unixfs_ll_getattr ops ino s)"
  unfolding unixfs_ll_getattr_def by (rule good_bind, rule good_mono [OF igetattr_law]) auto

lemma release_keeps:
  "holds s hs \<Longrightarrow> fh \<in> set hs \<Longrightarrow>
   good (\<lambda>r s'. length r = 1 \<and> holds s' (remove1 fh hs)) (unixfs_ll_release ops fh s)"
  unfolding unixfs_ll_release_def by (rule good_bind) (use nonnull_law in \<open>auto intro: good_mono [OF iput_law]\<close>)

lemma read_loop_ends:
  assumes "holds s hs" "a \<in> set hs"
  shows "good (\<lambda>b s'. s' = s) (read_loop ops 2 a count off buf 0 s)"
proof -
  have "good (\<lambda>b s'. s' = s) (read_loop ops (Suc rounds) a count off buf 0 s)" if "count = 0 \<or> rounds \<noteq> 0"
    for rounds count off buf
    using that
  proof (induction rounds arbitrary: count off buf)
    case (Suc r)
    show ?case
      by (simp only: read_loop.simps(2)) (rule good_bind, rule good_mono [OF pbread_law [OF assms]],
        use Suc.IH [of 0] in \<open>auto simp: split_def\<close>)
  next
    case 0
    show ?case
      by (simp only: read_loop.simps(2)) (rule good_bind, rule good_mono [OF pbread_law [OF assms]],
        use 0 in \<open>auto simp: split_def\<close>)
  qed
  from this [of count 1] show ?thesis by (simp add: numeral_2_eq_2)
qed

lemma read_keeps:
  assumes "holds s hs" "fh \<in> set hs"
  shows "good (\<lambda>r s'. length r = 1 \<and> s' = s) (unixfs_ll_read ops E fh count off s)"
  using nonnull_law [OF assms(1)] assms(2)
  unfolding unixfs_ll_read_def Let_def split_def
  by (auto simp: istat_law [OF assms] intro!: good_bind good_mono [OF read_loop_ends [OF assms]])

lemma listing_loop_keeps:
  "holds s hs \<Longrightarrow> a \<in> set hs \<Longrightarrow> length hs < most \<Longrightarrow> 0 \<le> off \<Longrightarrow>
   st_size (snd (stat_of a s)) - off < int rounds \<Longrightarrow> 0 < rounds \<Longrightarrow>
   good (\<lambda>_ s'. holds s' hs) (listing_loop ops E rounds a d off buf s)"
proof (induction rounds arbitrary: d off buf s)
  case (Suc rounds)
  have onward: "good (\<lambda>_ s'. holds s' hs) (listing_loop ops E rounds a d' off' buf' s')"
    if "holds s' hs" "stat_of a s' = stat_of a s" "off < off'" "off' \<le> st_size (snd (stat_of a s))" for s' off' d' buf'
    using that Suc.prems by (intro Suc.IH) auto
  show ?case
    by (simp only: listing_loop.simps(2))
      (rule good_bind, rule good_mono [OF nextdirentry_law [OF Suc.prems(1,2,4)]],
        use Suc.prems(1-3) in \<open>auto intro!: onward good_bind good_mono [OF igetattr_law] split: sum.split\<close>)
qed auto

lemma readdir_keeps:
  assumes "holds s hs" "length hs + 1 < most"
  shows "good (\<lambda>r s'. length r = 1 \<and> holds s' hs) (unixfs_ll_readdir ops E ino count off s)"
proof -
  have put: "good (\<lambda>_ s'. holds s' hs) (op_iput ops a s')" if "holds s' (a # hs)" for a s'
    by (rule good_mono [OF iput_law [OF that, of a]]) auto
  have loop: "good (\<lambda>b s'. holds s' (a # hs)) (listing_loop ops E (Suc (nat (st_size (snd (stat_of a s'))))) a None 0 [] s')"
    if "holds s' (a # hs)" for a s'
    using that assms(2) by (intro listing_loop_keeps) auto
  show ?thesis
    unfolding unixfs_ll_readdir_def
    by (rule good_bind, rule good_mono [OF iget_law [OF assms(1)]])
      (use assms in \<open>auto simp: istat_law split_def simp del: listing_loop.simps
        intro!: good_bind good_mono [OF put] good_mono [OF loop] split: option.split\<close>)
qed

lemma open_keeps:
  assumes "holds s hs" "length hs < most" "readable ino"
  shows "good (\<lambda>r s'. holds s' (open_after (Ll_open ino) r hs)) (unixfs_ll_open ops ino s)"
  unfolding unixfs_ll_open_def
  by (rule good_bind, rule good_mono [OF iget_law [OF assms(1,2)]])
    (use assms in \<open>auto simp: istat_law split_def Let_def intro!: good_bind good_mono [OF iput_law] split: option.split\<close>)

text \<open>Every request that may be sent keeps exactly the open files in use.\<close>

lemma oper_keeps:
  assumes "holds s hs" "length hs + 1 < most" "sendable q hs" "\<And>ino. q = Ll_open ino \<Longrightarrow> readable ino"
  shows "good (\<lambda>r s'. holds s' (open_after q r hs)) (unixfs_ll_oper ops E q s)"
proof (cases q)
  case Ll_statfs
  with assms show ?thesis by (simp add: unixfs_ll_statfs_def)
next
  case (Ll_lookup parent name)
  with assms show ?thesis by (auto intro: good_mono [OF lookup_keeps])
next
  case (Ll_getattr ino)
  with assms show ?thesis by (auto intro: good_mono [OF getattr_keeps])
next
  case (Ll_readlink ino)
  with assms show ?thesis by (simp add: unixfs_ll_readlink_def Let_def)
next
  case (Ll_readdir ino count off)
  with assms show ?thesis by (auto intro: good_mono [OF readdir_keeps])
next
  case (Ll_open ino)
  with assms open_keeps [of s hs ino] show ?thesis by simp
next
  case (Ll_release fh)
  with assms show ?thesis by (auto intro: good_mono [OF release_keeps])
next
  case (Ll_read fh count off)
  with assms show ?thesis by (auto intro: good_mono [OF read_keeps])
qed

lemma open_after_length: "length (open_after q r hs) \<le> length hs + 1"
  by (cases "(q, r, hs)" rule: open_after.cases) (auto simp: length_remove1)

lemma serve_keeps:
  "holds s hs \<Longrightarrow> length hs + length qs + 1 < most \<Longrightarrow> (\<And>ino. Ll_open ino \<in> set qs \<Longrightarrow> readable ino) \<Longrightarrow>
   good (\<lambda>(hs', rss) s'. holds s' hs') (serve ops E qs hs s)"
proof (induction qs arbitrary: hs s)
  case (Cons q qs)
  show ?case
  proof (cases "sendable q hs")
    case True
    have "good (\<lambda>(hs', rss) s'. holds s' hs') (bindU (serve ops E qs (open_after q r hs) s') (\<lambda>(hs, rss) s. U_Ret (hs, r # rss) s))"
      if "holds s' (open_after q r hs)" for r s'
      using Cons.prems(2,3) open_after_length [of q r hs]
      by (intro good_bind good_mono [OF Cons.IH [OF that]]) auto
    moreover have "good (\<lambda>r s'. holds s' (open_after q r hs)) (unixfs_ll_oper ops E q s)"
      using True Cons.prems by (intro oper_keeps) auto
    ultimately show ?thesis
      using True by (simp only: serve.simps if_True) (rule good_bind, erule good_mono)
  next
    case False
    with Cons.IH [OF Cons.prems(1)] Cons.prems(2,3) show ?thesis by auto
  qed
qed simp

end

end
