(* ===== verification/Unixfs_Inode_Props.thy ===== *)
theory Unixfs_Inode_Props
  imports Unixfs_Inode
begin

text \<open>
  What the inode layer promises to any number of threads: one inode in memory for each number, with an
  exact count of its uses, no use of freed memory and nothing lost; and the one way to break this.
\<close>

section \<open>The invariant\<close>

definition tabled :: "'a ilayer \<Rightarrow> nat set" where
  "tabled L = {a. \<exists>b. a \<in> set (ihash_table L b)}"

definition table_ok :: "'a ilayer \<Rightarrow> bool" where
  "table_ok L \<longleftrightarrow>
     (\<forall>b. distinct (ihash_table L b)) \<and>
     (\<forall>b. \<forall>a \<in> set (ihash_table L b). \<exists>n. il_heap L a = Some n \<and> I_number n AND ihash_mask L = b) \<and>
     (\<forall>a \<in> tabled L. \<forall>a' \<in> tabled L. \<forall>n n'. il_heap L a = Some n \<longrightarrow> il_heap L a' = Some n' \<longrightarrow>
        I_number n = I_number n' \<longrightarrow> a = a') \<and>
     finite (tabled L) \<and> ihash_count L = card (tabled L)"

definition inode_ok :: "act list \<Rightarrow> nat \<Rightarrow> 'a inode \<Rightarrow> bool" where
  "inode_ok ts a n \<longleftrightarrow>
     unat (I_count n) = how_many uses a ts \<and> 0 < how_many uses a ts \<and>
     how_many fills a ts = (if I_attachoutstanding n then 1 else 0) \<and>
     (I_initialized n \<longleftrightarrow> \<not> I_attachoutstanding n) \<and>
     (I_attachoutstanding n \<longrightarrow> how_many uses a ts = 1 + how_many waits a ts) \<and>
     (I_attachoutstanding n \<longrightarrow> 0 < how_many waits a ts \<longrightarrow> I_waiting n)"

text \<open>A node that is not linked yet belongs to one thread, which allocated it for the number it looks up.\<close>

definition private_ok :: "act list \<Rightarrow> nat \<Rightarrow> 'a inode \<Rightarrow> bool" where
  "private_ok ts a n \<longleftrightarrow>
     how_many uses a ts = 0 \<and> how_many owns a ts = 1 \<and>
     \<not> I_initialized n \<and> \<not> I_attachoutstanding n \<and> I_count n = 0 \<and>
     (\<forall>ino. A_look ino (Some a) \<in> set ts \<longrightarrow> I_number n = ino)"

definition address_ok :: "'a ilayer \<Rightarrow> act list \<Rightarrow> nat \<Rightarrow> bool" where
  "address_ok L ts a \<longleftrightarrow>
     (case il_heap L a of
        None \<Rightarrow> a \<notin> tabled L \<and> how_many uses a ts = 0 \<and> how_many owns a ts = 0
      | Some n \<Rightarrow>
          0 < a \<and> a < il_next L \<and>
          (if a \<in> tabled L then inode_ok ts a n \<and> how_many owns a ts = 0 else private_ok ts a n))"

definition isys_inv :: "'a ilayer \<Rightarrow> act list \<Rightarrow> bool" where
  "isys_inv L ts \<longleftrightarrow> table_ok L \<and> 0 < il_next L \<and> (\<forall>a. address_ok L ts a) \<and> length ts < 2 ^ 32"

section \<open>Counting\<close>

lemma how_many_update:
  "i < length ts \<Longrightarrow>
   how_many f a (ts[i := t]) + (if f (ts ! i) = Some a then 1 else 0) =
   how_many f a ts + (if f t = Some a then 1 else 0)"
proof -
  assume i: "i < length ts"
  then obtain xs x ys where "ts = xs @ x # ys" "length xs = i" by (metis id_take_nth_drop length_take min.absorb4)
  then show ?thesis by (auto simp: how_many_def)
qed

lemma how_many_pos: "i < length ts \<Longrightarrow> f (ts ! i) = Some a \<Longrightarrow> 0 < how_many f a ts"
  unfolding how_many_def by (auto simp: filter_empty_conv intro!: bexI [of _ "ts ! i"])

lemma how_many_posE:
  assumes "0 < how_many f a ts"
  obtains j where "j < length ts" "f (ts ! j) = Some a"
  using assms unfolding how_many_def by (auto simp: filter_empty_conv in_set_conv_nth)

lemma how_many_other:
  "i < length ts \<Longrightarrow> f (ts ! i) \<noteq> Some a \<Longrightarrow> f t \<noteq> Some a \<Longrightarrow> how_many f a (ts[i := t]) = how_many f a ts"
  using how_many_update [of i ts f a t] by simp

lemma how_many_same:
  "i < length ts \<Longrightarrow> f t = f (ts ! i) \<Longrightarrow> how_many f a (ts[i := t]) = how_many f a ts"
  using how_many_update [of i ts f a t] by (cases "f t = Some a") simp_all

lemma how_many_le: "how_many f a ts \<le> length ts"
  by (simp add: how_many_def)

section \<open>The table\<close>

lemma table_node:
  assumes "table_ok L" and "a \<in> set (ihash_table L b)"
  obtains n where "il_heap L a = Some n" "I_number n AND ihash_mask L = b"
  using assms unfolding table_ok_def by blast

lemma tabledI: "a \<in> set (ihash_table L b) \<Longrightarrow> a \<in> tabled L"
  unfolding tabled_def by blast

lemma tabledE:
  assumes "a \<in> tabled L"
  obtains b where "a \<in> set (ihash_table L b)"
  using assms unfolding tabled_def by blast

lemma table_unique:
  "table_ok L \<Longrightarrow> a \<in> tabled L \<Longrightarrow> a' \<in> tabled L \<Longrightarrow> il_heap L a = Some n \<Longrightarrow> il_heap L a' = Some n' \<Longrightarrow>
   I_number n = I_number n' \<Longrightarrow> a = a'"
  unfolding table_ok_def by blast

lemma table_okI:
  assumes "\<And>b. distinct (ihash_table L b)"
    and "\<And>b a. a \<in> set (ihash_table L b) \<Longrightarrow> \<exists>n. il_heap L a = Some n \<and> I_number n AND ihash_mask L = b"
    and "\<And>a a' n n'. a \<in> tabled L \<Longrightarrow> a' \<in> tabled L \<Longrightarrow> il_heap L a = Some n \<Longrightarrow> il_heap L a' = Some n' \<Longrightarrow>
      I_number n = I_number n' \<Longrightarrow> a = a'"
    and "finite (tabled L)" and "ihash_count L = card (tabled L)"
  shows "table_ok L"
  using assms unfolding table_ok_def by blast

lemma table_counts: "table_ok L \<Longrightarrow> finite (tabled L) \<and> ihash_count L = card (tabled L) \<and> distinct (ihash_table L b)"
  unfolding table_ok_def by blast

lemma tabled_bucket:
  "table_ok L \<Longrightarrow> a \<in> tabled L \<Longrightarrow> il_heap L a = Some n \<Longrightarrow> a \<in> set (ihash_table L (I_number n AND ihash_mask L))"
  unfolding table_ok_def tabled_def by fastforce

lemma inode_find_done:
  "(\<And>a. a \<in> set as \<Longrightarrow> h a \<noteq> None) \<Longrightarrow>
   \<exists>r. inode_find h ino as = Done r \<and>
     (case r of None \<Rightarrow> \<forall>a \<in> set as. \<forall>n. h a = Some n \<longrightarrow> I_number n \<noteq> ino
      | Some a \<Rightarrow> a \<in> set as \<and> (\<exists>n. h a = Some n \<and> I_number n = ino))"
proof (induction as)
  case (Cons b as)
  then obtain n where n: "h b = Some n" by fastforce
  show ?case
  proof (cases "I_number n = ino")
    case True
    with n show ?thesis by auto
  next
    case False
    obtain r where "inode_find h ino as = Done r" "case r of None \<Rightarrow> \<forall>a \<in> set as. \<forall>n. h a = Some n \<longrightarrow> I_number n \<noteq> ino
      | Some a \<Rightarrow> a \<in> set as \<and> (\<exists>n. h a = Some n \<and> I_number n = ino)"
      using Cons by auto
    with n False show ?thesis by (cases r) auto
  qed
qed simp

text \<open>The search finds the inode of the number, if the table has one.\<close>

lemma search_table:
  assumes "table_ok L"
  obtains (found) a n where "inode_find (il_heap L) ino (unixfs_inodelayer_firstfromhash ino L) = Done (Some a)"
      "a \<in> tabled L" "il_heap L a = Some n" "I_number n = ino"
    | (missing) "inode_find (il_heap L) ino (unixfs_inodelayer_firstfromhash ino L) = Done None"
      "\<And>a n. a \<in> tabled L \<Longrightarrow> il_heap L a = Some n \<Longrightarrow> I_number n \<noteq> ino"
proof -
  let ?as = "unixfs_inodelayer_firstfromhash ino L"
  have "\<exists>n. il_heap L a = Some n" if "a \<in> set ?as" for a
    using assms that unfolding table_ok_def unixfs_inodelayer_firstfromhash_def by blast
  then have "\<And>a. a \<in> set ?as \<Longrightarrow> il_heap L a \<noteq> None" by blast
  from inode_find_done [of ?as "il_heap L" ino, OF this] obtain r where r: "inode_find (il_heap L) ino ?as = Done r"
    "case r of None \<Rightarrow> \<forall>a \<in> set ?as. \<forall>n. il_heap L a = Some n \<longrightarrow> I_number n \<noteq> ino
      | Some a \<Rightarrow> a \<in> set ?as \<and> (\<exists>n. il_heap L a = Some n \<and> I_number n = ino)"
    by blast
  show thesis
  proof (cases r)
    case None
    have "I_number n \<noteq> ino" if "a \<in> tabled L" "il_heap L a = Some n" for a n
      using tabled_bucket [OF assms that] r(2) that(2) None unfolding unixfs_inodelayer_firstfromhash_def by auto
    with r None show thesis by (intro missing) auto
  next
    case (Some a)
    with r obtain n where "a \<in> set ?as" "il_heap L a = Some n" "I_number n = ino" by auto
    with r Some show thesis
      by (intro found [of a n]) (auto simp: tabled_def unixfs_inodelayer_firstfromhash_def)
  qed
qed

lemma table_ok_put:
  assumes t: "table_ok L" and a: "il_heap L a = Some n" and num: "I_number n' = I_number n"
  shows "table_ok (put_inode a n' L)" and "tabled (put_inode a n' L) = tabled L"
proof -
  show tb: "tabled (put_inode a n' L) = tabled L" by (simp add: tabled_def put_inode_def)
  have old: "\<exists>m'. il_heap L x = Some m' \<and> I_number m' = I_number m" if "il_heap (put_inode a n' L) x = Some m" for x m
    using that a num by (auto simp: put_inode_def split: if_splits)
  show "table_ok (put_inode a n' L)"
  proof (rule table_okI)
    fix b x assume "x \<in> set (ihash_table (put_inode a n' L) b)"
    then have "x \<in> set (ihash_table L b)" by (simp add: put_inode_def)
    then obtain m where "il_heap L x = Some m" "I_number m AND ihash_mask L = b" by (rule table_node [OF t])
    with a num show "\<exists>m. il_heap (put_inode a n' L) x = Some m \<and> I_number m AND ihash_mask (put_inode a n' L) = b"
      by (auto simp: put_inode_def)
  next
    fix x y m m'
    assume "x \<in> tabled (put_inode a n' L)" "y \<in> tabled (put_inode a n' L)"
      and h: "il_heap (put_inode a n' L) x = Some m" "il_heap (put_inode a n' L) y = Some m'" "I_number m = I_number m'"
    with tb old [OF h(1)] old [OF h(2)] table_unique [OF t] show "x = y" by metis
  qed (use table_counts [OF t] tb in \<open>simp_all add: put_inode_def\<close>)
qed

lemma table_ok_heap:
  assumes t: "table_ok L" and h: "\<And>a. a \<in> tabled L \<Longrightarrow> h a = il_heap L a"
  shows "table_ok (L\<lparr>il_heap := h, il_next := k\<rparr>)" and "tabled (L\<lparr>il_heap := h, il_next := k\<rparr>) = tabled L"
proof -
  let ?L = "L\<lparr>il_heap := h, il_next := k\<rparr>"
  show tb: "tabled ?L = tabled L" by (simp add: tabled_def)
  show "table_ok ?L"
  proof (rule table_okI)
    fix b x assume x: "x \<in> set (ihash_table ?L b)"
    then have "x \<in> set (ihash_table L b)" by simp
    then obtain m where "il_heap L x = Some m" "I_number m AND ihash_mask L = b" by (rule table_node [OF t])
    with h [of x] tabledI [OF x] tb show "\<exists>m. il_heap ?L x = Some m \<and> I_number m AND ihash_mask ?L = b" by auto
  next
    fix x y m m' assume "x \<in> tabled ?L" "y \<in> tabled ?L" "il_heap ?L x = Some m" "il_heap ?L y = Some m'"
      "I_number m = I_number m'"
    then show "x = y" using table_unique [OF t, of x y m m'] h tb by auto
  qed (use table_counts [OF t] tb in simp_all)
qed

lemma tabled_insert: "tabled (insert_inode a n L) = insert a (tabled L)"
proof
  show "tabled (insert_inode a n L) \<subseteq> insert a (tabled L)"
    by (auto simp: insert_inode_def unixfs_inodelayer_firstfromhash_def tabled_def split: if_splits)
  have "ihash_table (insert_inode a n L) b = (if b = I_number n AND ihash_mask L then a # ihash_table L b else ihash_table L b)" for b
    by (simp add: insert_inode_def unixfs_inodelayer_firstfromhash_def)
  then have "a \<in> set (ihash_table (insert_inode a n L) (I_number n AND ihash_mask L))"
    "set (ihash_table L b) \<subseteq> set (ihash_table (insert_inode a n L) b)" for b
    by auto
  then show "insert a (tabled L) \<subseteq> tabled (insert_inode a n L)"
    unfolding tabled_def by blast
qed

lemma table_ok_insert:
  assumes t: "table_ok L" and a: "a \<notin> tabled L" "il_heap L a = Some n"
    and new: "\<And>x m. x \<in> tabled L \<Longrightarrow> il_heap L x = Some m \<Longrightarrow> I_number m \<noteq> I_number n"
  shows "table_ok (insert_inode a n L)"
proof (rule table_okI)
  have bucket: "ihash_table (insert_inode a n L) b =
      (if b = I_number n AND ihash_mask L then a # ihash_table L b else ihash_table L b)" for b
    by (simp add: insert_inode_def unixfs_inodelayer_firstfromhash_def)
  have heap: "il_heap (insert_inode a n L) = il_heap L" "ihash_mask (insert_inode a n L) = ihash_mask L"
    by (simp_all add: insert_inode_def)
  show "distinct (ihash_table (insert_inode a n L) b)" for b
    using a(1) table_counts [OF t, of b] tabledI by (auto simp: bucket)
  fix b x assume "x \<in> set (ihash_table (insert_inode a n L) b)"
  then consider "x = a" "b = I_number n AND ihash_mask L" | "x \<in> set (ihash_table L b)"
    by (auto simp: bucket split: if_splits)
  then show "\<exists>m. il_heap (insert_inode a n L) x = Some m \<and> I_number m AND ihash_mask (insert_inode a n L) = b"
  proof cases
    case 2
    then show ?thesis using table_node [OF t] heap by metis
  qed (use a heap in simp)
next
  fix x y m m'
  assume h: "x \<in> tabled (insert_inode a n L)" "y \<in> tabled (insert_inode a n L)"
    "il_heap (insert_inode a n L) x = Some m" "il_heap (insert_inode a n L) y = Some m'" "I_number m = I_number m'"
  then have "il_heap L x = Some m" "il_heap L y = Some m'" by (simp_all add: insert_inode_def)
  with h(1,2,5) a(2) new [of x m] new [of y m'] table_unique [OF t, of x y m m'] show "x = y"
    unfolding tabled_insert by (metis insert_iff option.inject)
next
  show "finite (tabled (insert_inode a n L))" using table_counts [OF t] by (simp add: tabled_insert)
  show "ihash_count (insert_inode a n L) = card (tabled (insert_inode a n L))"
    using table_counts [OF t] a(1) unfolding tabled_insert by (simp add: insert_inode_def)
qed

lemma table_ok_remove:
  assumes t: "table_ok L" and a: "a \<in> tabled L" "il_heap L a = Some n"
  shows "table_ok (free_inode a (remove_inode a n L))"
    and "tabled (free_inode a (remove_inode a n L)) = tabled L - {a}"
proof -
  let ?L = "free_inode a (remove_inode a n L)"
  have where_a: "b = I_number n AND ihash_mask L" if "a \<in> set (ihash_table L b)" for b
    using table_node [OF t that] a(2) by force
  have bucket: "set (ihash_table ?L b) = set (ihash_table L b) - {a}" "distinct (ihash_table ?L b)" for b
    using where_a [of b] table_counts [OF t, of b] table_counts [OF t, of "I_number n AND ihash_mask L"]
    by (auto simp: free_inode_def remove_inode_def unixfs_inodelayer_firstfromhash_def)
  show s: "tabled ?L = tabled L - {a}" unfolding tabled_def bucket by blast
  have heap: "il_heap ?L x = (if x = a then None else il_heap L x)" "ihash_mask ?L = ihash_mask L" for x
    by (simp_all add: free_inode_def remove_inode_def)
  show "table_ok ?L"
  proof (rule table_okI)
    fix b x assume "x \<in> set (ihash_table ?L b)"
    then have x: "x \<in> set (ihash_table L b)" "x \<noteq> a" by (simp_all add: bucket)
    from table_node [OF t x(1)] x(2) show "\<exists>m. il_heap ?L x = Some m \<and> I_number m AND ihash_mask ?L = b"
      unfolding heap by metis
  next
    fix x y m m' assume "x \<in> tabled ?L" "y \<in> tabled ?L" "il_heap ?L x = Some m" "il_heap ?L y = Some m'"
      "I_number m = I_number m'"
    then show "x = y" using table_unique [OF t] unfolding s heap by auto
  next
    show "finite (tabled ?L)" using table_counts [OF t] s by simp
    show "ihash_count ?L = card (tabled ?L)"
      using table_counts [OF t] a unfolding s by (simp add: free_inode_def remove_inode_def)
  qed (rule bucket)
qed

section \<open>Steps keep the invariant\<close>

fun touches :: "act \<Rightarrow> nat \<Rightarrow> bool" where
  "touches t a \<longleftrightarrow> uses t = Some a \<or> owns t = Some a"

lemma fills_waits_use: "fills t = Some a \<Longrightarrow> uses t = Some a" "waits t = Some a \<Longrightarrow> uses t = Some a"
  by (cases t; simp)+

lemma counts_le_uses: "how_many fills a ts \<le> how_many uses a ts" "how_many waits a ts \<le> how_many uses a ts"
  unfolding how_many_def using fills_waits_use by (induction ts) auto

lemma counts_untouched:
  assumes "i < length ts" "\<not> touches (ts ! i) a" "\<not> touches t a"
  shows "how_many uses a (ts[i := t]) = how_many uses a ts" "how_many owns a (ts[i := t]) = how_many owns a ts"
    "how_many fills a (ts[i := t]) = how_many fills a ts" "how_many waits a (ts[i := t]) = how_many waits a ts"
  using assms fills_waits_use [of t a] fills_waits_use [of "ts ! i" a] by (auto intro!: how_many_other)

lemma address_untouched:
  assumes ok: "address_ok L ts a" and i: "i < length ts" and un: "\<not> touches (ts ! i) a" "\<not> touches t a"
    and same: "il_heap L' a = il_heap L a" "a \<in> tabled L' \<longleftrightarrow> a \<in> tabled L" "il_next L \<le> il_next L'"
  shows "address_ok L' (ts[i := t]) a"
proof -
  have "A_look ino (Some a) \<in> set ts" if "A_look ino (Some a) \<in> set (ts[i := t])" for ino
    using that un(2) set_update_subset_insert [of ts i t] by auto
  with ok same show ?thesis
    unfolding address_ok_def inode_ok_def private_ok_def counts_untouched [OF i un]
    by (auto split: option.splits if_splits)
qed

lemma isys_inv_step:
  assumes inv: "isys_inv L ts" and i: "i < length ts" and t: "table_ok L'" and nx: "il_next L \<le> il_next L'"
    and un: "\<And>a. a \<notin> T \<Longrightarrow> \<not> touches (ts ! i) a \<and> \<not> touches t a \<and> il_heap L' a = il_heap L a \<and>
      (a \<in> tabled L' \<longleftrightarrow> a \<in> tabled L)"
    and touched: "\<And>a. a \<in> T \<Longrightarrow> address_ok L' (ts[i := t]) a"
  shows "isys_inv L' (ts[i := t])"
proof -
  have "address_ok L' (ts[i := t]) a" for a
  proof (cases "a \<in> T")
    case False
    with un [OF False] inv i nx show ?thesis
      by (intro address_untouched) (auto simp: isys_inv_def)
  qed (rule touched)
  with inv t nx show ?thesis by (simp add: isys_inv_def)
qed

lemma inv_quiet:
  assumes "isys_inv L ts" "i < length ts" "uses (ts ! i) = None" "owns (ts ! i) = None" "uses t = None" "owns t = None"
  shows "isys_inv L (ts[i := t])"
  by (rule isys_inv_step [OF assms(1,2), where T = "{}"]) (use assms in \<open>auto simp: isys_inv_def\<close>)

lemma inv_address: "isys_inv L ts \<Longrightarrow> address_ok L ts a"
  by (simp add: isys_inv_def)

lemma inv_used:
  "isys_inv L ts \<Longrightarrow> i < length ts \<Longrightarrow> uses (ts ! i) = Some a \<Longrightarrow>
   \<exists>n. il_heap L a = Some n \<and> a \<in> tabled L \<and> inode_ok ts a n \<and> how_many owns a ts = 0"
  using inv_address [of L ts a] how_many_pos [of i ts uses a]
  unfolding address_ok_def private_ok_def by (auto split: option.splits if_splits)

lemma inv_tabled:
  "isys_inv L ts \<Longrightarrow> a \<in> tabled L \<Longrightarrow>
   \<exists>n. il_heap L a = Some n \<and> inode_ok ts a n \<and> how_many owns a ts = 0 \<and> 0 < a \<and> a < il_next L"
  using inv_address [of L ts a]
  unfolding address_ok_def by (auto split: option.splits if_splits)

lemma inv_owned:
  "isys_inv L ts \<Longrightarrow> i < length ts \<Longrightarrow> owns (ts ! i) = Some a \<Longrightarrow>
   \<exists>n. il_heap L a = Some n \<and> a \<notin> tabled L \<and> private_ok ts a n \<and> 0 < a \<and> a < il_next L"
  using inv_address [of L ts a] how_many_pos [of i ts owns a]
  unfolding address_ok_def by (auto split: option.splits if_splits)

text \<open>A thread that finds an inode counts itself in; it starts to wait if another one is reading it.\<close>

lemma unat_count: "unat (c :: u32) + 1 < 2 ^ 32 \<Longrightarrow> unat (c + 1) = unat c + 1"
  by (simp add: unat_word_ariths)

lemma inv_enter:
  assumes inv: "isys_inv L ts" and i: "i < length ts" and t: "ts ! i = A_look ino new"
    and a: "a \<in> tabled L" "il_heap L a = Some n"
    and w: "I_attachoutstanding n \<Longrightarrow> w"
  shows "isys_inv (put_inode a (n\<lparr>I_waiting := w, I_count := I_count n + 1\<rparr>) L) (ts[i := A_wait a new])"
    (is "isys_inv (put_inode a ?n L) ?ts")
proof (rule isys_inv_step [OF inv i, where T = "{a} \<union> set_option new"])
  have tb: "table_ok L" using inv by (simp add: isys_inv_def)
  show "table_ok (put_inode a ?n L)" by (rule table_ok_put [OF tb a(2)]) simp
  have tbd: "tabled (put_inode a ?n L) = tabled L" by (rule table_ok_put [OF tb a(2)]) simp
  note upd = how_many_update [OF i, of _ _ "A_wait a new", unfolded t]
  have n: "inode_ok ts a n" "how_many owns a ts = 0" "0 < a" "a < il_next L" using inv_tabled [OF inv a(1)] a(2) by auto
  show "address_ok (put_inode a ?n L) ?ts x" if "x \<in> {a} \<union> set_option new" for x
  proof (cases "x = a")
    case True
    have new: "new \<noteq> Some a" using inv_owned [OF inv i, of a] t a(1) by auto
    have c: "how_many uses a ?ts = how_many uses a ts + 1" "how_many waits a ?ts = how_many waits a ts + 1"
      "how_many fills a ?ts = how_many fills a ts" "how_many owns a ?ts = how_many owns a ts"
      using upd [of uses a] upd [of waits a] upd [of fills a] upd [of owns a] new by simp_all
    have "how_many uses a ts + 1 < 2 ^ 32"
      using how_many_le [of uses a ?ts] c(1) inv by (simp add: isys_inv_def)
    then have "unat (I_count n + 1) = unat (I_count n) + 1" using n(1) by (intro unat_count) (simp add: inode_ok_def)
    with n w a True c show ?thesis unfolding address_ok_def tbd inode_ok_def by (auto simp: put_inode_def)
  next
    case False
    with that have x: "new = Some x" by (cases new) auto
    then obtain m where m: "il_heap L x = Some m" "x \<notin> tabled L" "private_ok ts x m" "0 < x" "x < il_next L"
      using inv_owned [OF inv i, of x] t by auto
    have c: "how_many uses x ?ts = how_many uses x ts" "how_many owns x ?ts = how_many owns x ts"
      using upd [of uses x] upd [of owns x] x False by simp_all
    have "A_look no (Some x) \<in> set ts" if "A_look no (Some x) \<in> set ?ts" for no
      using that set_update_subset_insert [of ts i "A_wait a new"] by auto
    with m c False show ?thesis unfolding address_ok_def tbd private_ok_def by (simp add: put_inode_def)
  qed
qed (use t in \<open>auto simp: put_inode_def tabled_def\<close>)

text \<open>It goes on with the inode once that is read in, and frees the node it may have allocated.\<close>

lemma tabled_end: "tabled (iget_end b L) = tabled L" "il_next (iget_end b L) = il_next L"
  by (cases b; simp add: iget_end_def free_inode_def tabled_def)+

lemma inv_leave:
  assumes inv: "isys_inv L ts" and i: "i < length ts" and t: "ts ! i = A_wait a b"
    and n: "il_heap L a = Some n" "\<not> I_attachoutstanding n"
  shows "I_initialized n" and "isys_inv (iget_end b L) (ts[i := A_hold a])" (is "isys_inv ?L ?ts")
proof -
  have tb: "table_ok L" using inv by (simp add: isys_inv_def)
  note upd = how_many_update [OF i, of _ _ "A_hold a", unfolded t]
  have a: "a \<in> tabled L" "inode_ok ts a n" "how_many owns a ts = 0" using inv_used [OF inv i, of a] t n(1) by auto
  then show "I_initialized n" using n(2) by (simp add: inode_ok_def)
  have b: "x \<noteq> a \<and> x \<notin> tabled L \<and> private_ok ts x m" if "b = Some x" "il_heap L x = Some m" for x m
    using inv_owned [OF inv i, of x] t that a(1) by auto
  have b': "x \<noteq> a \<and> x \<notin> tabled L \<and> how_many uses x ts = 0 \<and> how_many owns x ts = 1" if "b = Some x" for x
    using inv_owned [OF inv i, of x] t that a(1) by (auto simp: private_ok_def)
  show "isys_inv ?L ?ts"
  proof (rule isys_inv_step [OF inv i, where T = "{a} \<union> set_option b"])
    show "table_ok ?L"
    proof (cases b)
      case (Some x)
      have "(if a = x then None else il_heap L a) = il_heap L a" if "a \<in> tabled L" for a
        using b' [OF Some] that by auto
      with table_ok_heap [OF tb, of "il_heap ?L" "il_next L"] Some show ?thesis
        by (simp add: iget_end_def free_inode_def)
    qed (use tb in \<open>simp add: iget_end_def\<close>)
    show "address_ok ?L ?ts x" if "x \<in> {a} \<union> set_option b" for x
    proof (cases "x = a")
      case True
      have "b \<noteq> Some a" using b' [of a] by blast
      then have "how_many uses a ?ts = how_many uses a ts" "how_many fills a ?ts = how_many fills a ts"
        "how_many owns a ?ts = how_many owns a ts"
        using upd [of uses a] upd [of fills a] upd [of owns a] by simp_all
      moreover have "il_heap ?L a = Some n" using b' [of a] n(1) by (cases b) (auto simp: iget_end_def free_inode_def)
      ultimately show ?thesis
        using a n inv_address [OF inv, of a] True unfolding address_ok_def tabled_end inode_ok_def by auto
    next
      case False
      with that have x: "b = Some x" by (cases b) auto
      then show ?thesis
        using upd [of uses x] upd [of owns x] b' [OF x] unfolding address_ok_def tabled_end
        by (simp add: iget_end_def free_inode_def)
    qed
  qed (use t in \<open>auto simp: iget_end_def free_inode_def tabled_def split: option.splits\<close>)
qed

text \<open>A thread links the node it has allocated and reads it in; the node is then no longer its own.\<close>

lemma inv_link:
  assumes inv: "isys_inv L ts" and i: "i < length ts" and t: "ts ! i = A_look (I_number n) (Some a)"
    and n: "il_heap L a = Some n"
    and new: "\<And>x m. x \<in> tabled L \<Longrightarrow> il_heap L x = Some m \<Longrightarrow> I_number m \<noteq> I_number n"
  shows "isys_inv (put_inode a (n\<lparr>I_count := I_count n + 1, I_attachoutstanding := True\<rparr>) (insert_inode a n L))
    (ts[i := A_fill a])" (is "isys_inv (put_inode a ?n ?I) ?ts")
proof -
  have tb: "table_ok L" using inv by (simp add: isys_inv_def)
  note upd = how_many_update [OF i, of _ _ "A_fill a", unfolded t]
  have a: "a \<notin> tabled L" "private_ok ts a n" "0 < a" "a < il_next L" using inv_owned [OF inv i, of a] t n by auto
  have tbI: "table_ok ?I" "il_heap ?I a = Some n"
    using table_ok_insert [OF tb a(1) n new] n by (simp_all add: insert_inode_def)
  have put: "table_ok (put_inode a ?n ?I)" "tabled (put_inode a ?n ?I) = insert a (tabled L)"
    using table_ok_put [OF tbI, of ?n] by (simp_all add: tabled_insert)
  have c: "how_many uses a ?ts = 1" "how_many fills a ?ts = 1" "how_many waits a ?ts = 0" "how_many owns a ?ts = 0"
    using upd [of uses a] upd [of fills a] upd [of waits a] upd [of owns a] a(2) counts_le_uses [of a ts]
    by (simp_all add: private_ok_def)
  show ?thesis
  proof (rule isys_inv_step [OF inv i put(1), where T = "{a}"])
    show "address_ok (put_inode a ?n ?I) ?ts x" if "x \<in> {a}" for x
      using that c a unfolding address_ok_def put inode_ok_def
      by (auto simp: put_inode_def private_ok_def insert_inode_def)
    show "\<not> touches (ts ! i) x \<and> \<not> touches (A_fill a) x \<and> il_heap (put_inode a ?n ?I) x = il_heap L x \<and>
        (x \<in> tabled (put_inode a ?n ?I)) = (x \<in> tabled L)" if "x \<notin> {a}" for x
      using that t unfolding put by (auto simp: put_inode_def insert_inode_def)
  qed (simp add: put_inode_def insert_inode_def)
qed

text \<open>A new node belongs to the thread that allocates it.\<close>

lemma inv_alloc:
  assumes inv: "isys_inv L ts" and i: "i < length ts" and t: "ts ! i = A_alloc ino"
    and new: "calloc_inode zero ino L = (a, L')"
  shows "isys_inv L' (ts[i := A_look ino (Some a)])" (is "isys_inv L' ?ts")
proof -
  have tb: "table_ok L" using inv by (simp add: isys_inv_def)
  note upd = how_many_update [OF i, of _ _ "A_look ino (Some a)", unfolded t]
  have a: "a = il_next L" "0 < a" using new inv by (simp_all add: calloc_inode_def isys_inv_def)
  have none: "il_heap L a = None" "a \<notin> tabled L" "how_many uses a ts = 0" "how_many owns a ts = 0"
    using inv_address [OF inv, of a] unfolding address_ok_def a(1) by (auto split: option.splits)
  have L': "L' = L\<lparr>il_heap := il_heap L', il_next := il_next L + 1\<rparr>" and
    heap: "il_heap L' x = (if x = a then Some \<lparr>I_number = ino, I_initialized = False, I_attachoutstanding = False,
      I_waiting = False, I_count = 0, I_data = zero\<rparr> else il_heap L x)" for x
    using new by (auto simp: calloc_inode_def put_inode_def)
  have "il_heap L' x = il_heap L x" if "x \<in> tabled L" for x using that none(2) by (auto simp: heap)
  from table_ok_heap [OF tb, of "il_heap L'" "il_next L + 1", OF this]
  have tb': "table_ok L'" "tabled L' = tabled L" by (subst L'; simp)+
  have only: "no = ino" if "A_look no (Some a) \<in> set ?ts" for no
  proof -
    from that obtain j where j: "j < length ts" "?ts ! j = A_look no (Some a)" by (metis in_set_conv_nth length_list_update)
    show "no = ino"
      using j i how_many_pos [OF j(1), of owns a] none(4) by (cases "j = i") auto
  qed
  show ?thesis
  proof (rule isys_inv_step [OF inv i tb'(1), where T = "{a}"])
    show "il_next L \<le> il_next L'" by (subst L') simp
    have "il_next L' = a + 1" by (subst L') (simp add: a(1))
    then show "address_ok L' ?ts x" if "x \<in> {a}" for x
      using that upd [of uses a] upd [of owns a] none only a(2)
      unfolding address_ok_def tb'(2) heap by (auto simp: private_ok_def)
  qed (use t heap tb' in auto)
qed

text \<open>An inode that was read in is held by the thread that read it, and those that wait may go on.\<close>

lemma inv_filled:
  assumes inv: "isys_inv L ts" and i: "i < length ts" and t: "ts ! i = A_fill a" and n: "il_heap L a = Some n"
  shows "isys_inv (put_inode a (n\<lparr>I_data := d, I_initialized := True, I_attachoutstanding := False,
    I_waiting := False\<rparr>) L) (ts[i := A_hold a])" (is "isys_inv (put_inode a ?n L) ?ts")
proof -
  have tb: "table_ok L" using inv by (simp add: isys_inv_def)
  note upd = how_many_update [OF i, of _ _ "A_hold a", unfolded t]
  have a: "a \<in> tabled L" "inode_ok ts a n" "how_many owns a ts = 0" using inv_used [OF inv i, of a] t n by auto
  have att: "I_attachoutstanding n" using a(2) how_many_pos [OF i, of fills a] t by (auto simp: inode_ok_def split: if_splits)
  note put = table_ok_put [OF tb n, of ?n, simplified]
  have c: "how_many uses a ?ts = how_many uses a ts" "how_many fills a ?ts = 0" "how_many owns a ?ts = 0"
    using upd [of uses a] upd [of fills a] upd [of owns a] a(2,3) att by (simp_all add: inode_ok_def)
  show ?thesis
  proof (rule isys_inv_step [OF inv i put(1), where T = "{a}"])
    show "address_ok (put_inode a ?n L) ?ts x" if "x \<in> {a}" for x
      using that c a inv_address [OF inv, of a] n unfolding address_ok_def put inode_ok_def
      by (auto simp: put_inode_def)
  qed (use t put(2) in \<open>auto simp: put_inode_def\<close>)
qed

text \<open>The last use of an inode takes it off the table and frees it; another use only leaves.\<close>

lemma inv_last:
  assumes inv: "isys_inv L ts" and i: "i < length ts" and t: "uses (ts ! i) = Some a" "owns (ts ! i) = None"
    and n: "il_heap L a = Some n" and one: "how_many uses a ts = 1"
  shows "isys_inv (free_inode a (remove_inode a n L)) (ts[i := A_idle])" (is "isys_inv ?L ?ts")
proof -
  have tb: "table_ok L" using inv by (simp add: isys_inv_def)
  have a: "a \<in> tabled L" "how_many owns a ts = 0" using inv_used [OF inv i t(1)] by auto
  note rm = table_ok_remove [OF tb a(1) n]
  show ?thesis
  proof (rule isys_inv_step [OF inv i rm(1), where T = "{a}"])
    show "address_ok ?L ?ts x" if "x \<in> {a}" for x
      using that how_many_update [OF i, of uses a A_idle] how_many_update [OF i, of owns a A_idle] t one a(2)
      unfolding address_ok_def rm by (simp add: free_inode_def)
    show "\<not> touches (ts ! i) x \<and> \<not> touches A_idle x \<and> il_heap ?L x = il_heap L x \<and> (x \<in> tabled ?L) = (x \<in> tabled L)"
      if "x \<notin> {a}" for x
      using that t unfolding rm(2) by (auto simp: free_inode_def remove_inode_def)
  qed (simp add: free_inode_def remove_inode_def)
qed

lemma inv_leaves:
  assumes inv: "isys_inv L ts" and i: "i < length ts" and t: "ts ! i = A_hold a"
    and n: "il_heap L a = Some n" and more: "I_count n - 1 \<noteq> 0"
  shows "isys_inv (put_inode a (n\<lparr>I_count := I_count n - 1\<rparr>) L) (ts[i := A_idle])" (is "isys_inv (put_inode a ?n L) ?ts")
proof -
  have tb: "table_ok L" using inv by (simp add: isys_inv_def)
  note upd = how_many_update [OF i, of _ _ A_idle, unfolded t]
  have a: "a \<in> tabled L" "inode_ok ts a n" "how_many owns a ts = 0" using inv_used [OF inv i, of a] t n by auto
  note put = table_ok_put [OF tb n, of ?n, simplified]
  have u: "how_many uses a ?ts + 1 = how_many uses a ts" "how_many waits a ?ts = how_many waits a ts"
    "how_many fills a ?ts = how_many fills a ts" "how_many owns a ?ts = 0"
    using upd [of uses a] upd [of fills a] upd [of waits a] upd [of owns a] a by simp_all
  have count: "unat (I_count n) = how_many uses a ts" using a(2) by (simp add: inode_ok_def)
  have less: "unat (I_count n - 1) = how_many uses a ?ts"
    using count u(1) by (metis add_diff_cancel_right' less_nat_zero_code not_add_less2 unat_eq_zero unat_minus_one zero_less_one)
  have pos: "0 < how_many uses a ?ts" using less more by (metis gr0I unat_eq_zero)
  have att: "\<not> I_attachoutstanding n"
  proof
    assume att: "I_attachoutstanding n"
    then obtain j where j: "j < length ts" "fills (ts ! j) = Some a"
      using a(2) how_many_posE [of fills a ts] by (auto simp: inode_ok_def)
    have "how_many uses a (ts[j := A_idle]) = how_many waits a (ts[j := A_idle])"
      using j how_many_update [OF j(1), of uses a A_idle] how_many_update [OF j(1), of waits a A_idle] a(2) att
        fills_waits_use [of "ts ! j" a]
      by (cases "ts ! j") (auto simp: inode_ok_def)
    moreover have "how_many waits a (ts[j := A_idle]) \<le> how_many uses a ((ts[j := A_idle])[i := A_idle])"
      using j t i counts_le_uses(2) [of a "(ts[j := A_idle])[i := A_idle]"]
        how_many_same [of i "ts[j := A_idle]" waits A_idle a] by (cases "j = i") auto
    ultimately show False
      using how_many_update [of i "ts[j := A_idle]" uses a A_idle] j t i by (cases "j = i") auto
  qed
  show ?thesis
  proof (rule isys_inv_step [OF inv i put(1), where T = "{a}"])
    show "address_ok (put_inode a ?n L) ?ts x" if "x \<in> {a}" for x
      using that u a less pos att inv_address [OF inv, of a] n unfolding address_ok_def put inode_ok_def
      by (auto simp: put_inode_def)
  qed (use t put(2) in \<open>auto simp: put_inode_def\<close>)
qed

text \<open>The reads that fail with nobody waiting were the only use of the inode.\<close>

lemma fill_alone:
  assumes "isys_inv L ts" "i < length ts" "ts ! i = A_fill a" "alone a ts"
  shows "how_many uses a ts = 1"
  using inv_used [OF assms(1,2), of a] how_many_pos [OF assms(2), of fills a] assms(3,4)
  by (auto simp: inode_ok_def alone_def split: if_splits)

section \<open>Every step\<close>

text \<open>One round of the search, in a good state.\<close>

lemma round_cases:
  assumes inv: "isys_inv L ts" and i: "i < length ts" and t: "ts ! i = A_look ino new"
  obtains
    (wait) a n where "iget_round ino new L = Done (Must_wait a new, put_inode a (n\<lparr>I_waiting := True, I_count := I_count n + 1\<rparr>) L)"
      "a \<in> tabled L" "il_heap L a = Some n" "I_attachoutstanding n" "I_number n = ino"
  | (there) a n where "iget_round ino new L = Done (Got a new, put_inode a (n\<lparr>I_waiting := I_waiting n, I_count := I_count n + 1\<rparr>) L)"
      "a \<in> tabled L" "il_heap L a = Some n" "\<not> I_attachoutstanding n" "I_initialized n"
      "I_number n = ino"
  | (alloc) "iget_round ino new L = Done (Must_alloc, L)" "new = None"
  | (link) a n where "new = Some a" "il_heap L a = Some n" "I_number n = ino" "\<not> I_initialized n"
      "iget_round ino new L =
         Done (Got a None, put_inode a (n\<lparr>I_count := I_count n + 1, I_attachoutstanding := True\<rparr>) (insert_inode a n L))"
      "\<And>x m. x \<in> tabled L \<Longrightarrow> il_heap L x = Some m \<Longrightarrow> I_number m \<noteq> I_number n"
proof -
  have tb: "table_ok L" using inv by (simp add: isys_inv_def)
  from tb show thesis
  proof (cases rule: search_table [where ino = ino])
    case (found a n)
    have "I_initialized n \<longleftrightarrow> \<not> I_attachoutstanding n"
      using inv_tabled [OF inv found(2)] found(3) by (auto simp: inode_ok_def)
    with found wait [of a n] there [of a n] show thesis
      by (cases "I_attachoutstanding n") (simp_all add: iget_round_def iget_found_def)
  next
    case missing
    show thesis
    proof (cases new)
      case None
      with missing alloc show thesis by (simp add: iget_round_def)
    next
      case (Some a)
      with t i have "A_look ino (Some a) \<in> set ts" by (metis nth_mem)
      then obtain n where n: "il_heap L a = Some n" "I_number n = ino" "\<not> I_initialized n" "\<not> I_attachoutstanding n"
        using inv_owned [OF inv i, of a] t Some by (auto simp: private_ok_def)
      then have "il_heap (insert_inode a n L) a = Some n" by (simp add: insert_inode_def)
      with missing Some n show thesis by (intro link [of a n]) (simp_all add: iget_round_def iget_found_def)
    qed
  qed
qed

lemma step_keeps:
  assumes inv: "isys_inv L ts" and step: "istep k (Run L ts) s" and ok: "\<And>a. k = Failure a \<Longrightarrow> alone a ts"
  shows "\<exists>L' ts'. s = Run L' ts' \<and> isys_inv L' ts' \<and> length ts' = length ts"
  using step
proof cases
  case (look_alloc i ino new L')
  with inv show ?thesis by (cases rule: round_cases [OF inv look_alloc(3,4)]) (auto intro!: inv_quiet)
next
  case (look_wait i ino new a b L')
  show ?thesis
    by (cases rule: round_cases [OF inv look_wait(3,4)])
      (use look_wait inv_enter [OF inv look_wait(3,4)] in auto)
next
  case (look_got i ino new a b L')
  from inv look_got(3,4) show ?thesis
  proof (cases rule: round_cases)
    case (there c n)
    note e = inv_enter [OF inv look_got(3,4) there(2,3), of "I_waiting n"]
    from there look_got(5) have "a = c" "b = new"
      and L': "L' = put_inode c (n\<lparr>I_waiting := I_waiting n, I_count := I_count n + 1\<rparr>) L" by auto
    with inv_leave [OF e, of i c new] there look_got show ?thesis by (auto simp: got_act_def put_inode_def)
  next
    case (link c n)
    with look_got inv_link [OF inv look_got(3), of n c] show ?thesis
      by (auto simp: got_act_def put_inode_def insert_inode_def iget_end_def)
  qed (use look_got(5) in auto)
next
  case (look_bad i ino new)
  then show ?thesis by (cases rule: round_cases [OF inv look_bad(3,4)]) auto
next
  case (wake i a b n)
  then show ?thesis using inv_leave [OF inv wake(3,4,5)] by (auto simp: got_act_def)
next
  case (succeed i a d L')
  then obtain n where n: "il_heap L a = Some n" by (auto simp: upd_inode_def split: option.splits)
  with succeed have "L' = put_inode a (n\<lparr>I_data := d, I_initialized := True, I_attachoutstanding := False, I_waiting := False\<rparr>) L"
    by (auto simp: upd_inode_def put_inode_def unixfs_inodelayer_isucceeded_def)
  with inv_filled [OF inv succeed(3,4) n] succeed show ?thesis by auto
next
  case (fail i a L')
  then obtain n where "il_heap L a = Some n" "L' = free_inode a (remove_inode a n L)"
    by (auto simp: unixfs_inodelayer_ifailed_def split: option.splits)
  with inv_last [OF inv fail(3), of a n] fill_alone [OF inv fail(3,4)] fail ok show ?thesis by auto
next
  case (put i a L')
  obtain n where n: "il_heap L a = Some n" "inode_ok ts a n" using inv_used [OF inv put(3), of a] put(4) by auto
  show ?thesis
  proof (cases "I_count n - 1 = 0")
    case True
    then have "I_count n = 1" by simp
    with n(2) have "how_many uses a ts = 1" by (simp add: inode_ok_def)
    with inv_last [OF inv put(3), of a n] n True put show ?thesis by (auto simp: unixfs_inodelayer_iput_def)
  next
    case False
    with inv_leaves [OF inv put(3,4) n(1)] n put show ?thesis by (auto simp: unixfs_inodelayer_iput_def)
  qed
qed (use inv inv_alloc [OF inv] inv_used [OF inv] in \<open>force intro!: inv_quiet\<close>)+

text \<open>A step that ends in a state of threads keeps the invariant.\<close>

lemma step_run: "isys_inv L ts \<Longrightarrow> istep Ordinary (Run L ts) (Run L' ts') \<Longrightarrow> isys_inv L' ts'"
  using step_keeps [of L ts Ordinary "Run L' ts'"] by auto

lemma fail_run: "isys_inv L ts \<Longrightarrow> istep (Failure a) (Run L ts) (Run L' ts') \<Longrightarrow> alone a ts \<Longrightarrow> isys_inv L' ts'"
  using step_keeps [of L ts "Failure a" "Run L' ts'"] by auto

text \<open>Idle threads make no difference.\<close>

lemma how_many_idle: "f A_idle = None \<Longrightarrow> how_many f a (xs @ A_idle # ys) = how_many f a (xs @ ys)"
  by (simp add: how_many_def)

lemma inv_idle:
  fixes L :: "'a ilayer"
  shows "isys_inv L (xs @ A_idle # ys) \<longleftrightarrow> isys_inv L (xs @ ys) \<and> length (xs @ ys) + 1 < 2 ^ 32"
proof -
  have "inode_ok (xs @ A_idle # ys) = (inode_ok (xs @ ys) :: nat \<Rightarrow> 'a inode \<Rightarrow> bool)"
    "private_ok (xs @ A_idle # ys) = (private_ok (xs @ ys) :: nat \<Rightarrow> 'a inode \<Rightarrow> bool)"
    by (simp_all add: fun_eq_iff inode_ok_def private_ok_def how_many_idle)
  then have "address_ok L (xs @ A_idle # ys) a \<longleftrightarrow> address_ok L (xs @ ys) a" for a
    by (simp add: address_ok_def how_many_idle split: option.splits)
  then show ?thesis by (auto simp: isys_inv_def)
qed

lemma start_ok: "N < 2 ^ 32 \<Longrightarrow> isys_inv empty_layer (replicate N A_idle)"
  by (auto simp: isys_inv_def table_ok_def tabled_def address_ok_def empty_layer_def unixfs_inodelayer_init_def
      how_many_def)

lemma reach_ok:
  assumes "ireach alone N s" and "N < 2 ^ 32"
  shows "\<exists>L ts. s = Run L ts \<and> isys_inv L ts \<and> length ts = N"
  using assms(1)
proof induction
  case (step L ts k s)
  then show ?case using step_keeps [of L ts k s] by auto
qed (use start_ok [OF assms(2)] in auto)

lemma all_idle_empty:
  assumes "isys_inv L ts" and "\<forall>t \<in> set ts. t = A_idle"
  shows "il_heap L = Map.empty" and "ihash_count L = 0"
proof -
  have none: "how_many uses a ts = 0" "how_many owns a ts = 0" for a
    using assms(2) by (auto simp: how_many_def filter_empty_conv)
  show heap: "il_heap L = Map.empty"
  proof
    fix a show "il_heap L a = None"
      using inv_address [OF assms(1), of a] none [of a]
      unfolding address_ok_def by (auto simp: inode_ok_def private_ok_def split: option.splits if_splits)
  qed
  have "tabled L = {}" using inv_tabled [OF assms(1)] heap by fastforce
  with table_counts [of L] assms(1) show "ihash_count L = 0" by (simp add: isys_inv_def)
qed

lemma waiter_has_reader:
  assumes "isys_inv L ts" and "j < length ts" and "ts ! j = A_wait a b" and "il_heap L a = Some n"
    and "I_attachoutstanding n"
  shows "\<exists>i < length ts. ts ! i = A_fill a"
proof -
  have "0 < how_many fills a ts" using inv_used [OF assms(1,2), of a] assms(3,4,5) by (auto simp: inode_ok_def)
  then obtain i where "i < length ts" "fills (ts ! i) = Some a" by (rule how_many_posE)
  then show ?thesis by (cases "ts ! i") auto
qed

text \<open>Two threads that want the same inode: the first one reads it while the second one waits.\<close>

definition both_want :: "'a \<Rightarrow> u64 \<Rightarrow> 'a ilayer" where
  "both_want zero ino =
     put_inode 1 \<lparr>I_number = ino, I_initialized = False, I_attachoutstanding = True, I_waiting = True, I_count = 2,
         I_data = zero\<rparr>
       (empty_layer\<lparr>il_next := 2, ihash_table := (\<lambda>_. [])(ino AND ihash_mask (empty_layer :: 'a ilayer) := [1]), ihash_count := 1\<rparr>)"

lemma both_want_reached: "ireach allowed 2 (Run (both_want zero ino) [A_fill 1, A_wait 1 None])"
proof -
  let ?n = "\<lparr>I_number = ino, I_initialized = False, I_attachoutstanding = False, I_waiting = False, I_count = 0,
    I_data = zero\<rparr>"
  let ?L1 = "put_inode 1 ?n (empty_layer\<lparr>il_next := 2\<rparr>)"
  let ?L2 = "put_inode 1 (?n\<lparr>I_count := 1, I_attachoutstanding := True\<rparr>) (insert_inode 1 ?n ?L1)"
  note defs = iget_round_def iget_found_def empty_layer_def unixfs_inodelayer_init_def put_inode_def calloc_inode_def
    unixfs_inodelayer_firstfromhash_def insert_inode_def
  have alloc: "calloc_inode zero ino empty_layer = (1, ?L1)" by (simp add: defs)
  have r1: "iget_round ino None empty_layer = Done (Must_alloc, empty_layer)" by (simp add: defs)
  have r2: "iget_round ino (Some 1) ?L1 = Done (Got 1 None, ?L2)" by (simp add: defs)
  have r3: "iget_round ino None ?L2 = Done (Must_wait 1 None, both_want zero ino)"
    by (simp add: defs both_want_def)
  have "ireach allowed 2 (Run (empty_layer :: 'a ilayer) [A_idle, A_idle])"
    using ireach.init [of allowed 2] by (simp add: numeral_2_eq_2)
  then have "ireach allowed 2 (Run (empty_layer :: 'a ilayer) ([A_idle, A_idle][0 := A_look ino None]))"
    by (rule ireach.step [OF _ istep.start]) auto
  then have "ireach allowed 2 (Run (empty_layer :: 'a ilayer) ([A_look ino None, A_idle][0 := A_alloc ino]))"
    by (intro ireach.step [OF _ istep.look_alloc [OF _ _ r1]]) auto
  then have "ireach allowed 2 (Run ?L1 ([A_alloc ino, A_idle][0 := A_look ino (Some 1)]))"
    by (intro ireach.step [OF _ istep.alloc [OF _ _ alloc]]) auto
  then have "ireach allowed 2 (Run (iget_end None ?L2) ([A_look ino (Some 1), A_idle][0 := got_act 1 ?L2]))"
    by (intro ireach.step [OF _ istep.look_got [OF _ _ r2]]) auto
  then have "ireach allowed 2 (Run ?L2 [A_fill 1, A_idle])"
    by (simp add: iget_end_def got_act_def put_inode_def)
  then have "ireach allowed 2 (Run ?L2 ([A_fill 1, A_idle][1 := A_look ino None]))"
    by (rule ireach.step [OF _ istep.start]) auto
  then have "ireach allowed 2 (Run (both_want zero ino) ([A_fill 1, A_look ino None][1 := A_wait 1 None]))"
    by (intro ireach.step [OF _ istep.look_wait [OF _ _ r3]]) auto
  then show ?thesis by simp
qed

section \<open>Properties\<close>

text \<open>
  C17: As long as no read fails while other threads wait for the inode, any number of threads below the
  width of the counts can look inodes up, wait, read them in, hold them and put them back without an
  access to freed memory: each number has one inode in the table, its count is the number of its uses, a
  thread that waits waits for one that is reading the inode, and when every thread is done nothing is left
  in memory or in the table.
\<close>

theorem inode_layer_sound:
  assumes "ireach alone N s" and "N < 2 ^ 32"
  shows "\<exists>L ts. s = Run L ts \<and>
    (\<forall>a a' n n'. a \<in> tabled L \<longrightarrow> a' \<in> tabled L \<longrightarrow> il_heap L a = Some n \<longrightarrow> il_heap L a' = Some n' \<longrightarrow>
       I_number n = I_number n' \<longrightarrow> a = a') \<and>
    (\<forall>a \<in> tabled L. \<exists>n. il_heap L a = Some n \<and> unat (I_count n) = how_many uses a ts \<and> 0 < how_many uses a ts) \<and>
    (\<forall>j a b n. j < length ts \<longrightarrow> ts ! j = A_wait a b \<longrightarrow> il_heap L a = Some n \<longrightarrow> I_attachoutstanding n \<longrightarrow>
       (\<exists>i < length ts. ts ! i = A_fill a)) \<and>
    ((\<forall>t \<in> set ts. t = A_idle) \<longrightarrow> il_heap L = Map.empty \<and> ihash_count L = 0)"
proof -
  obtain L ts where s: "s = Run L ts" and inv: "isys_inv L ts" using reach_ok [OF assms] by blast
  have tb: "table_ok L" using inv by (simp add: isys_inv_def)
  have "\<exists>n. il_heap L a = Some n \<and> unat (I_count n) = how_many uses a ts \<and> 0 < how_many uses a ts" if "a \<in> tabled L" for a
    using inv_tabled [OF inv that] by (auto simp: inode_ok_def)
  then show ?thesis
    using s table_unique [OF tb] waiter_has_reader [OF inv] all_idle_empty [OF inv] by blast
qed

theorem inode_layer_sound_witness:
  "\<exists>n. il_heap (both_want () 5) 1 = Some n \<and> unat (I_count n) = how_many uses 1 [A_fill 1, A_wait 1 None] \<and>
     tabled (both_want () 5) = {1}"
proof -
  have "tabled (both_want () 5) = {1}" by (auto simp: tabled_def both_want_def put_inode_def)
  with inode_layer_sound [OF both_want_reached [of alone "()" 5]] show ?thesis by auto
qed

text \<open>
  C39: When the read of an inode fails while another thread waits for it, the inode is freed under that
  thread: in any state that can be reached the failure may happen, and the step of the thread that waits
  is then an access to freed memory.
\<close>

theorem failed_read_crashes_waiter:
  assumes "ireach alone N (Run L ts)" and "N < 2 ^ 32"
    and "i < length ts" and "ts ! i = A_fill a" and "j < length ts" and "ts ! j = A_wait a b"
  shows "\<exists>L'. istep (Failure a) (Run L ts) (Run L' (ts[i := A_idle])) \<and> istep Ordinary (Run L' (ts[i := A_idle])) Crash"
proof -
  have "isys_inv L ts" using reach_ok [OF assms(1,2)] by auto
  with inv_used [of L ts i a] assms(3,4) obtain n where "il_heap L a = Some n" by auto
  then have f: "unixfs_inodelayer_ifailed a L = Done (free_inode a (remove_inode a n L))"
    by (simp add: unixfs_inodelayer_ifailed_def)
  have other: "j \<noteq> i" using assms(4,6) by auto
  have "istep Ordinary (Run (free_inode a (remove_inode a n L)) (ts[i := A_idle])) Crash"
    by (rule istep.wake_bad [of j _ a b]) (use other assms(4-6) in \<open>auto simp: free_inode_def\<close>)
  with istep.fail [OF assms(3,4) f] show ?thesis by blast
qed

theorem failed_read_crashes_waiter_witness: "ireach (\<lambda>_ _. True) 2 (Crash :: unit isys)"
proof -
  let ?s = "Run (both_want () 5) [A_fill 1, A_wait 1 None]"
  from failed_read_crashes_waiter [OF both_want_reached [of alone "()" 5], of 0 1 1 None]
  obtain L' where s: "istep (Failure 1) ?s (Run L' [A_idle, A_wait 1 None])"
    "istep Ordinary (Run L' [A_idle, A_wait 1 None]) (Crash :: unit isys)" by auto
  have "ireach (\<lambda>_ _. True) 2 (Run L' [A_idle, A_wait 1 None])"
    by (rule ireach.step [OF both_want_reached s(1)]) simp
  then show ?thesis by (rule ireach.step [OF _ s(2)]) simp
qed

end
