(* ===== verification/Unixfs_V7_Session.thy ===== *)
theory Unixfs_V7_Session
  imports Unixfs_V7 Unixfs_LL Unixfs_Inode_Props
begin

text \<open>
  The reader of Seventh Edition disks keeps the contract of a file system, so that the handlers of the
  daemon can serve any sequence of requests with it.
\<close>

section \<open>The inode layer without other threads\<close>

text \<open>The same inodes have the same numbers and contents.\<close>

definition same_inodes :: "nat set \<Rightarrow> 'a ilayer \<Rightarrow> 'a ilayer \<Rightarrow> bool" where
  "same_inodes X L L' \<longleftrightarrow>
     (\<forall>a \<in> X. \<exists>n n'. il_heap L a = Some n \<and> il_heap L' a = Some n' \<and> I_number n' = I_number n \<and>
        I_data n' = I_data n)"

lemma same_inodes_trans: "same_inodes X L L' \<Longrightarrow> same_inodes X L' L'' \<Longrightarrow> same_inodes X L L''"
  unfolding same_inodes_def by fastforce

lemma same_inodesI:
  "X \<subseteq> tabled L \<Longrightarrow> table_ok L \<Longrightarrow>
   (\<And>a n. a \<in> X \<Longrightarrow> il_heap L a = Some n \<Longrightarrow>
      \<exists>n'. il_heap L' a = Some n' \<and> I_number n' = I_number n \<and> I_data n' = I_data n) \<Longrightarrow> same_inodes X L L'"
  unfolding same_inodes_def using table_node [of L] by (metis subsetD tabledE)

abbreviation calm :: "'a ilayer \<Rightarrow> nat list \<Rightarrow> bool" where
  "calm L hs \<equiv> isys_inv L (map A_hold hs)"

text \<open>With one more thread, which does \<open>t\<close>.\<close>

abbreviation busy :: "act \<Rightarrow> 'a ilayer \<Rightarrow> nat list \<Rightarrow> bool" where
  "busy t L hs \<equiv> isys_inv L (t # map A_hold hs)"

lemma busy_idle: "busy A_idle L hs \<longleftrightarrow> calm L hs \<and> length hs + 1 < 2 ^ 32"
  using inv_idle [of L "[]" "map A_hold hs"] by simp

lemma holds_used: "a \<in> set hs \<Longrightarrow> uses t = None \<or> uses t \<noteq> None \<Longrightarrow> 0 < how_many uses a (t # map A_hold hs)"
  by (auto simp: how_many_def filter_empty_conv)

lemma busy_tabled: "busy t L hs \<Longrightarrow> set hs \<subseteq> tabled L"
proof
  fix a assume inv: "busy t L hs" and "a \<in> set hs"
  then obtain i where "i < length (t # map A_hold hs)" "(t # map A_hold hs) ! i = A_hold a"
    by (metis (no_types, lifting) in_set_conv_nth length_map list.set_intros(2) nth_map image_eqI set_map)
  with inv_used [OF inv, of i a] show "a \<in> tabled L" by auto
qed

text \<open>Nobody else is reading an inode in.\<close>

lemma none_outstanding:
  assumes "busy (A_look ino new) L hs" "a \<in> tabled L" "il_heap L a = Some n"
  shows "\<not> I_attachoutstanding n"
proof -
  have "how_many fills a (A_look ino new # map A_hold hs) = 0" by (auto simp: how_many_def filter_empty_conv)
  with inv_tabled [OF assms(1,2)] assms(3) show ?thesis by (auto simp: inode_ok_def)
qed

text \<open>One round that does not have to wait or to allocate.\<close>

lemma round_alone:
  assumes inv: "busy (A_look ino new) L hs"
  obtains
    (alloc) "iget_round ino new L = Done (Must_alloc, L)" "new = None"
  | (got) a b L' n where "iget_round ino new L = Done (Got a b, L')"
      "a \<in> set hs \<and> busy (A_hold a) (iget_end b L') hs \<or> busy (A_fill a) (iget_end b L') hs"
      "same_inodes (set hs) L (iget_end b L')" "il_heap (iget_end b L') a = Some n" "I_number n = ino"
proof -
  have tb: "table_ok L" using inv by (simp add: isys_inv_def)
  let ?ts = "A_look ino new # map A_hold hs"
  have i: "0 < length ?ts" "?ts ! 0 = A_look ino new" by simp_all
  have step: "busy (got_act a L') (iget_end b L') hs" if "iget_round ino new L = Done (Got a b, L')" for a b L'
    using step_run [OF inv istep.look_got [OF i that]] by simp
  from inv i show thesis
  proof (cases rule: round_cases)
    case (wait a n)
    with none_outstanding [OF inv] show thesis by blast
  next
    case (there a n)
    let ?L = "put_inode a (n\<lparr>I_waiting := I_waiting n, I_count := I_count n + 1\<rparr>) L"
    have new: "x \<notin> tabled L" if "new = Some x" for x using inv_owned [OF inv i(1), of x] that by auto
    have heap: "il_heap (iget_end new ?L) x = il_heap ?L x" if "x \<in> tabled L" for x
      using new that by (cases new) (auto simp: iget_end_def free_inode_def)
    have "il_heap (iget_end new ?L) x = il_heap ?L x" if "x \<in> set hs" for x
      using heap busy_tabled [OF inv] that by blast
    then have same: "same_inodes (set hs) L (iget_end new ?L)"
      using busy_tabled [OF inv] there(3)
      by (intro same_inodesI [OF _ tb]) (auto simp: put_inode_def)
    have "0 < how_many uses a ?ts" using inv_tabled [OF inv there(2)] by (auto simp: inode_ok_def)
    then have "a \<in> set hs" by (auto simp: how_many_def filter_empty_conv)
    moreover have "got_act a ?L = A_hold a" using there(5) by (simp add: got_act_def put_inode_def)
    ultimately show thesis
      using got [OF there(1) _ same] step [OF there(1)] heap [OF there(2)] there(3,6) by (simp add: put_inode_def)
  next
    case alloc
    then show thesis by (rule that(1))
  next
    case (link a n)
    let ?L = "put_inode a (n\<lparr>I_count := I_count n + 1, I_attachoutstanding := True\<rparr>) (insert_inode a n L)"
    have "same_inodes (set hs) L (iget_end None ?L)"
      using busy_tabled [OF inv] link(2)
      by (intro same_inodesI [OF _ tb]) (auto simp: put_inode_def insert_inode_def iget_end_def)
    moreover have "got_act a ?L = A_fill a" using link(4) by (simp add: got_act_def put_inode_def)
    ultimately show thesis
      using step [OF link(5)] link(3)
      by (intro got [OF link(5), of "n\<lparr>I_count := I_count n + 1, I_attachoutstanding := True\<rparr>"])
        (simp_all add: put_inode_def iget_end_def)
  qed
qed

text \<open>The layer gives an inode out; a new one has to be read in first.\<close>

lemma iget_alone:
  assumes "calm L hs" "length hs + 1 < 2 ^ 32"
  obtains
    (none) L' where "unixfs_inodelayer_iget zero mem ino L = Done (Some (None, L'))" "calm L' hs" "\<not> mem"
      "same_inodes (set hs) L L'"
  | (some) a L' n where "unixfs_inodelayer_iget zero mem ino L = Done (Some (Some a, L'))"
      "a \<in> set hs \<and> busy (A_hold a) L' hs \<or> busy (A_fill a) L' hs" "same_inodes (set hs) L L'"
      "il_heap L' a = Some n" "I_number n = ino"
proof -
  let ?ts = "map A_hold hs"
  have idle: "busy A_idle L hs" using assms by (simp add: busy_idle)
  have look: "busy (A_look ino None) L hs" using step_run [OF idle istep.start [of 0]] by simp
  show thesis
  proof (rule round_alone [OF look])
    fix a b L' n
    assume "iget_round ino None L = Done (Got a b, L')"
      "a \<in> set hs \<and> busy (A_hold a) (iget_end b L') hs \<or> busy (A_fill a) (iget_end b L') hs"
      "same_inodes (set hs) L (iget_end b L')" "il_heap (iget_end b L') a = Some n" "I_number n = ino"
    then show thesis by (intro some) (simp_all add: unixfs_inodelayer_iget_def)
  next
    assume r1: "iget_round ino None L = Done (Must_alloc, L)"
    have "istep Ordinary (Run L (A_look ino None # ?ts)) (Run L ((A_look ino None # ?ts)[0 := A_alloc ino]))"
      by (rule istep.look_alloc [OF _ _ r1]) simp_all
    then have alloc: "busy (A_alloc ino) L hs" using step_run [OF look] by simp
    show thesis
    proof (cases mem)
      case False
      have "same_inodes (set hs) L L"
        using busy_tabled [OF idle] inv_tabled [OF idle] unfolding same_inodes_def by blast
      with False r1 assms(1) show thesis by (intro none) (simp_all add: unixfs_inodelayer_iget_def)
    next
      case True
      obtain b L2 where c: "calloc_inode zero ino L = (b, L2)" by fastforce
      have b: "busy (A_look ino (Some b)) L2 hs" using step_run [OF alloc istep.alloc [OF _ _ c, of 0]] by simp
      have same: "same_inodes (set hs) L L2"
      proof (rule same_inodesI)
        show "set hs \<subseteq> tabled L" by (rule busy_tabled [OF idle])
        show "table_ok L" using idle by (simp add: isys_inv_def)
        fix a n assume "a \<in> set hs" "il_heap L a = Some n"
        moreover from this(1) have "a < il_next L" using inv_tabled [OF idle] busy_tabled [OF idle] by blast
        ultimately show "\<exists>n'. il_heap L2 a = Some n' \<and> I_number n' = I_number n \<and> I_data n' = I_data n"
          using c by (auto simp: calloc_inode_def put_inode_def)
      qed
      show thesis
      proof (rule round_alone [OF b])
        fix a d L' n
        assume "iget_round ino (Some b) L2 = Done (Got a d, L')"
          "a \<in> set hs \<and> busy (A_hold a) (iget_end d L') hs \<or> busy (A_fill a) (iget_end d L') hs"
          "same_inodes (set hs) L2 (iget_end d L')" "il_heap (iget_end d L') a = Some n" "I_number n = ino"
        with same_inodes_trans [OF same] True r1 c show thesis
          by (intro some) (auto simp: unixfs_inodelayer_iget_def)
      qed simp
    qed
  qed
qed

text \<open>An inode in use is one that is being read in, or its content is there.\<close>

lemma busy_initialized:
  assumes "busy t L hs" "t = A_hold a \<or> t = A_fill a" "il_heap L a = Some n"
  shows "I_initialized n \<longleftrightarrow> t = A_hold a"
proof -
  let ?ts = "t # map A_hold hs"
  have "uses (?ts ! 0) = Some a" using assms(2) by auto
  with inv_used [OF assms(1), of 0 a] assms(3) have "inode_ok ?ts a n" by auto
  then have u: "how_many fills a ?ts = (if I_attachoutstanding n then 1 else 0)"
    "I_initialized n \<longleftrightarrow> \<not> I_attachoutstanding n"
    unfolding inode_ok_def by blast+
  have "how_many fills a ?ts = (if t = A_fill a then 1 else 0)"
    using assms(2) by (auto simp: how_many_def filter_empty_conv)
  with u(1) have "(if I_attachoutstanding n then 1 else 0) = (if t = A_fill a then 1 else 0 :: nat)" by (rule subst)
  then have "I_attachoutstanding n \<longleftrightarrow> t = A_fill a" by (metis zero_neq_one)
  with u(2) assms(2) show ?thesis by blast
qed

lemma calm_initialized: "calm L hs \<Longrightarrow> il_heap L a = Some n \<Longrightarrow> I_initialized n \<and> a \<in> tabled L"
proof -
  assume inv: "calm L hs" and n: "il_heap L a = Some n"
  have "how_many fills a (map A_hold hs) = 0" "how_many owns a (map A_hold hs) = 0"
    by (auto simp: how_many_def filter_empty_conv)
  with inv_address [OF inv, of a] n show ?thesis
    by (auto simp: address_ok_def inode_ok_def private_ok_def split: if_splits)
qed

text \<open>Putting an inode back.\<close>

lemma iput_alone:
  assumes inv: "calm L hs" and a: "a \<in> set hs"
  shows "\<exists>L'. unixfs_inodelayer_iput a L = Done L' \<and> calm L' (remove1 a hs) \<and>
    same_inodes (set (remove1 a hs)) L L'"
proof -
  obtain xs ys where hs: "hs = xs @ a # ys" "a \<notin> set xs" using a split_list_first by fast
  let ?i = "length xs"
  have i: "?i < length (map A_hold hs)" "map A_hold hs ! ?i = A_hold a" by (simp_all add: hs nth_append)
  obtain n where n: "il_heap L a = Some n" "a \<in> tabled L" using inv_used [OF inv i(1), of a] i(2) by auto
  then have "\<exists>L'. unixfs_inodelayer_iput a L = Done L'" by (auto simp: unixfs_inodelayer_iput_def)
  then obtain L' where L': "unixfs_inodelayer_iput a L = Done L'" ..
  have "isys_inv L' ((map A_hold hs)[?i := A_idle])" by (rule step_run [OF inv istep.put [OF i L']])
  then have "isys_inv L' (map A_hold xs @ A_idle # map A_hold ys)" by (simp add: hs list_update_append)
  then have calm: "calm L' (remove1 a hs)" unfolding inv_idle by (simp add: hs(1) remove1_append hs(2))
  have tb: "table_ok L" "table_ok L'" using inv calm by (simp_all add: isys_inv_def)
  have sub: "set (remove1 a hs) \<subseteq> tabled L'"
  proof
    fix x assume "x \<in> set (remove1 a hs)"
    then obtain j where "j < length (map A_hold (remove1 a hs))" "map A_hold (remove1 a hs) ! j = A_hold x"
      by (metis in_set_conv_nth length_map nth_map)
    with inv_used [OF calm, of j x] show "x \<in> tabled L'" by auto
  qed
  have "same_inodes (set (remove1 a hs)) L L'"
    unfolding same_inodes_def
  proof
    fix x assume "x \<in> set (remove1 a hs)"
    with sub inv_tabled [OF calm, of x] obtain n' where n': "il_heap L' x = Some n'" by blast
    with L' n show "\<exists>n n'. il_heap L x = Some n \<and> il_heap L' x = Some n' \<and> I_number n' = I_number n \<and> I_data n' = I_data n"
      by (auto simp: unixfs_inodelayer_iput_def put_inode_def free_inode_def remove_inode_def split: if_splits)
  qed
  with L' calm show ?thesis by blast
qed

section \<open>Inodes of the disk\<close>

text \<open>The inode of a number, as the disk has it.\<close>

definition disk_inode :: "v7_env \<Rightarrow> super_block \<Rightarrow> u64 \<Rightarrow> v7_inode option" where
  "disk_inode E s ino =
     (case bread E s (itod ino) of
        Done (ret, ubuf) \<Rightarrow>
          if ret = 0 then Some (read_dinode (s_endian s) (drop (64 * itoo ino) ubuf)) else None
      | _ \<Rightarrow> None)"

text \<open>The mounted disk: what an operation finds out depends only on these.\<close>

definition same_disk :: "super_block \<Rightarrow> super_block \<Rightarrow> bool" where
  "same_disk s s' \<longleftrightarrow> s_fs_info s' = s_fs_info s \<and> s_endian s' = s_endian s \<and> s_statvfs s' = s_statvfs s"

lemma same_disk_upd [simp]: "same_disk s (upd_layer L s')  = same_disk s s'"
  by (simp add: same_disk_def upd_layer_def)

lemma same_disk_refl [simp]: "same_disk s s"
  by (simp add: same_disk_def)

lemma same_disk_trans: "same_disk s s' \<Longrightarrow> same_disk s' s'' \<Longrightarrow> same_disk s s''"
  by (simp add: same_disk_def)

lemma upd_layer_simps [simp]:
  "s_layer (upd_layer L s) = L" "s_endian (upd_layer L s) = s_endian s" "s_fs_info (upd_layer L s) = s_fs_info s"
  by (simp_all add: upd_layer_def)

lemma bread_no_fault [simp]: "bread E s b \<noteq> BadAccess"
  by (simp add: bread_def Let_def)

lemma bread_same: "same_disk s s' \<Longrightarrow> bread E s' = bread E s"
  by (simp add: same_disk_def bread_def fun_eq_iff)

lemma disk_inode_same: "same_disk s s' \<Longrightarrow> disk_inode E s' = disk_inode E s"
proof -
  assume d: "same_disk s s'"
  then have e: "s_endian s' = s_endian s" by (simp add: same_disk_def)
  show "disk_inode E s' = disk_inode E s" unfolding disk_inode_def bread_same [OF d] e by (rule refl)
qed

definition v7_holds :: "v7_env \<Rightarrow> super_block \<Rightarrow> super_block \<Rightarrow> nat list \<Rightarrow> bool" where
  "v7_holds E s0 s hs \<longleftrightarrow>
     same_disk s0 s \<and> calm (s_layer s) hs \<and>
     (\<forall>a \<in> set hs. \<exists>n. il_heap (s_layer s) a = Some n \<and> disk_inode E s0 (I_number n) = Some (I_data n))"

definition v7_stat :: "nat \<Rightarrow> super_block \<Rightarrow> u64 \<times> unix_stat" where
  "v7_stat a s = (case il_heap (s_layer s) a of Some n \<Rightarrow> istat n | None \<Rightarrow> (0, zero_stat))"

text \<open>The inodes in use are the same before and after.\<close>

abbreviation same_used :: "nat list \<Rightarrow> super_block \<Rightarrow> super_block \<Rightarrow> bool" where
  "same_used hs s s' \<equiv> same_inodes (set hs) (s_layer s) (s_layer s')"

lemma same_used_stat: "same_used hs s s' \<Longrightarrow> a \<in> set hs \<Longrightarrow> v7_stat a s' = v7_stat a s"
  unfolding same_inodes_def v7_stat_def istat_def by fastforce

lemma v7_holdsI:
  "v7_holds E s0 s hs \<Longrightarrow> set hs' \<subseteq> set hs \<Longrightarrow> same_disk s s' \<Longrightarrow> calm (s_layer s') hs' \<Longrightarrow> same_used hs' s s' \<Longrightarrow>
   v7_holds E s0 s' hs'"
  unfolding v7_holds_def same_inodes_def using same_disk_trans by fastforce

lemma v7_holds_more:
  "v7_holds E s0 s hs \<Longrightarrow> same_disk s s' \<Longrightarrow> calm (s_layer s') (a # hs) \<Longrightarrow> same_used hs s s' \<Longrightarrow>
   il_heap (s_layer s') a = Some n \<Longrightarrow> disk_inode E s0 (I_number n) = Some (I_data n) \<Longrightarrow> v7_holds E s0 s' (a # hs)"
  unfolding v7_holds_def same_inodes_def using same_disk_trans by fastforce

text \<open>Getting an inode: it is the one of the disk, or the disk has none that can be read.\<close>

lemma iget_read_ok:
  assumes h: "v7_holds E s0 s0' hs" and s: "same_disk s0' s" "same_used hs s0' s"
    and b: "busy (A_fill a) (s_layer s) hs" and n: "il_heap (s_layer s) a = Some n" "I_number n = ino"
  shows "good (\<lambda>r s'. same_used hs s0' s' \<and>
    (case r of None \<Rightarrow> disk_inode E s0 ino = None \<and> v7_holds E s0 s' hs
     | Some c \<Rightarrow> v7_holds E s0 s' (c # hs) \<and> (\<exists>n. il_heap (s_layer s') c = Some n \<and> I_number n = ino)))
    (iget_read E ino a s)"
proof (cases "bread E s (itod ino)")
  case (Done r)
  then obtain ret ubuf where r: "bread E s (itod ino) = Done (ret, ubuf)" by (cases r) auto
  let ?ts = "A_fill a # map A_hold hs"
  have disk: "disk_inode E s0 ino = disk_inode E s ino"
    using h s(1) disk_inode_same same_disk_trans unfolding v7_holds_def by metis
  have one: "how_many waits a ?ts = 0" by (auto simp: how_many_def filter_empty_conv)
  have "how_many uses a ?ts = 1"
    by (rule fill_alone [OF b, of 0]) (simp_all add: alone_def one)
  then have out: "a \<notin> set hs" by (auto simp: how_many_def filter_empty_conv)
  show ?thesis
  proof (cases "ret = 0")
    case False
    let ?L = "free_inode a (remove_inode a n (s_layer s))"
    have f: "unixfs_inodelayer_ifailed a (s_layer s) = Done ?L" by (simp add: unixfs_inodelayer_ifailed_def n)
    have "busy A_idle ?L hs"
      using fail_run [OF b istep.fail [of 0, OF _ _ f]] one by (simp add: alone_def)
    then have "calm ?L hs" by (simp add: busy_idle)
    moreover have "same_used hs s0' (upd_layer ?L s)"
      using s(2) out unfolding same_inodes_def by (auto simp: free_inode_def remove_inode_def)
    ultimately show ?thesis
      using r f False disk s(1) v7_holdsI [OF h, of hs "upd_layer ?L s"]
      by (simp add: iget_read_def disk_inode_def)
  next
    case True
    let ?ip = "read_dinode (s_endian s) (drop (64 * itoo ino) ubuf)"
    let ?n = "n\<lparr>I_data := ?ip, I_initialized := True, I_attachoutstanding := False, I_waiting := False\<rparr>"
    have same: "n\<lparr>I_number := ino, I_data := ?ip, I_initialized := True, I_attachoutstanding := False,
        I_waiting := False\<rparr> = ?n" using n(2) by (cases n) simp
    have f: "bind_outcome (upd_inode a (\<lambda>n. n\<lparr>I_data := ?ip\<rparr>) (s_layer s)) (unixfs_inodelayer_isucceeded a) =
        Done (put_inode a ?n (s_layer s))"
      "bind_outcome (upd_inode a (\<lambda>n. n\<lparr>I_number := ino, I_data := ?ip\<rparr>) (s_layer s)) (unixfs_inodelayer_isucceeded a) =
        Done (put_inode a ?n (s_layer s))"
      by (simp_all add: n(1) upd_inode_def unixfs_inodelayer_isucceeded_def put_inode_def same)
    have calm: "calm (put_inode a ?n (s_layer s)) (a # hs)"
      using step_run [OF b istep.succeed [of 0, OF _ _ f(1)]] by simp
    have used: "same_used hs s0' (upd_layer (put_inode a ?n (s_layer s)) s)"
      using s(2) out unfolding same_inodes_def by (auto simp: put_inode_def)
    have "disk_inode E s0 ino = Some ?ip" unfolding disk using r True by (simp add: disk_inode_def)
    then have "v7_holds E s0 (upd_layer (put_inode a ?n (s_layer s)) s) (a # hs)"
      using s(1) calm n by (intro v7_holds_more [OF h _ _ used, where n = ?n]) (simp_all add: put_inode_def)
    then show ?thesis
      using r True f(2) used n by (simp add: iget_read_def put_inode_def Let_def)
  qed
qed (simp_all add: iget_read_def)

lemma v7_iget:
  assumes h: "v7_holds E s0 s hs" and len: "length hs < 2 ^ 32 - 2"
  shows "good (\<lambda>r s'. same_used hs s s' \<and>
    (case r of None \<Rightarrow> disk_inode E s0 (root_ino ino) = None \<and> v7_holds E s0 s' hs
     | Some c \<Rightarrow> v7_holds E s0 s' (c # hs) \<and>
         (\<exists>n. il_heap (s_layer s') c = Some n \<and> I_number n = root_ino ino)))
    (unixfs_internal_iget E ino s)"
proof -
  have calm: "calm (s_layer s) hs" "length hs + 1 < 2 ^ 32" using h len by (simp_all add: v7_holds_def)
  show ?thesis
  proof (rule iget_alone [OF calm, of zero_inode "e_calloc E (root_ino ino)" "root_ino ino"])
    fix L' assume "unixfs_inodelayer_iget zero_inode (e_calloc E (root_ino ino)) (root_ino ino) (s_layer s) =
      Done (Some (None, L'))"
    then show ?thesis by (simp add: unixfs_internal_iget_def)
  next
    fix a L' n
    assume get: "unixfs_inodelayer_iget zero_inode (e_calloc E (root_ino ino)) (root_ino ino) (s_layer s) =
        Done (Some (Some a, L'))"
      and b: "a \<in> set hs \<and> busy (A_hold a) L' hs \<or> busy (A_fill a) L' hs"
      and same: "same_inodes (set hs) (s_layer s) L'" and n: "il_heap L' a = Some n" "I_number n = root_ino ino"
    show ?thesis
    proof (cases "a \<in> set hs \<and> busy (A_hold a) L' hs")
      case True
      then have "I_initialized n" using busy_initialized [where t = "A_hold a" and L = L' and hs = hs, OF _ _ n(1)] by simp
      moreover have "v7_holds E s0 (upd_layer L' s) (a # hs)"
      proof (rule v7_holds_more [OF h])
        show "disk_inode E s0 (I_number n) = Some (I_data n)"
          using True h n(1) same unfolding v7_holds_def same_inodes_def by fastforce
      qed (use True same n in auto)
      ultimately show ?thesis using get n same by (simp add: unixfs_internal_iget_def node_at_def)
    next
      case False
      with b have f: "busy (A_fill a) L' hs" by blast
      then have "\<not> I_initialized n" using busy_initialized [where t = "A_fill a" and L = L' and hs = hs, OF _ _ n(1)] by simp
      with get n iget_read_ok [OF h, of "upd_layer L' s" a n "root_ino ino"] f same show ?thesis
        by (simp add: unixfs_internal_iget_def node_at_def)
    qed
  qed
qed

lemma v7_iput:
  assumes h: "v7_holds E s0 s hs" and a: "a \<in> set hs"
  shows "good (\<lambda>_ s'. same_used (remove1 a hs) s s' \<and> v7_holds E s0 s' (remove1 a hs)) (unixfs_internal_iput a s)"
proof -
  have "calm (s_layer s) hs" using h by (simp add: v7_holds_def)
  from iput_alone [OF this a] obtain L' where "unixfs_inodelayer_iput a (s_layer s) = Done L'"
    "calm L' (remove1 a hs)" "same_inodes (set (remove1 a hs)) (s_layer s) L'" by blast
  then show ?thesis
    using v7_holdsI [OF h set_remove1_subset, of "upd_layer L' s"]
    by (simp add: unixfs_internal_iput_def)
qed

lemma v7_node:
  assumes "v7_holds E s0 s hs" "a \<in> set hs"
  obtains n where "il_heap (s_layer s) a = Some n" "disk_inode E s0 (I_number n) = Some (I_data n)"
  using assms unfolding v7_holds_def by blast

lemma v7_istat: "v7_holds E s0 s hs \<Longrightarrow> a \<in> set hs \<Longrightarrow> unixfs_internal_istat a s = U_Ret (v7_stat a s) s"
  by (rule v7_node, assumption+) (simp add: unixfs_internal_istat_def node_at_def v7_stat_def)

text \<open>The attributes of an inode number are those of the disk.\<close>

lemma v7_igetattr:
  assumes h: "v7_holds E s0 s hs" and len: "length hs < 2 ^ 32 - 2"
  shows "good (\<lambda>(err, st) s'. same_used hs s s' \<and> v7_holds E s0 s' hs \<and>
    (case disk_inode E s0 (root_ino ino) of
       None \<Rightarrow> err = ENOENT | Some ip \<Rightarrow> err = 0 \<and> st = (root_ino ino, I_stat ip)))
    (unixfs_internal_igetattr E ino s)"
proof -
  have root: "root_ino (root_ino ino) = root_ino ino" by (simp add: root_ino_def)
  have got: "good (\<lambda>(err, st) s'. same_used hs s s' \<and> v7_holds E s0 s' hs \<and>
      (case disk_inode E s0 (root_ino ino) of
         None \<Rightarrow> err = ENOENT | Some ip \<Rightarrow> err = 0 \<and> st = (root_ino ino, I_stat ip)))
      (bindU (unixfs_internal_istat c s1) (\<lambda>st s. bindU (unixfs_internal_iput c s) (\<lambda>_ s. U_Ret (0, st) s)))"
    if s1: "same_used hs s s1" "v7_holds E s0 s1 (c # hs)" "il_heap (s_layer s1) c = Some n" "I_number n = root_ino ino"
    for c s1 n
  proof -
    have "disk_inode E s0 (root_ino ino) = Some (I_data n)" using s1(2,3,4) by (auto simp: v7_holds_def)
    moreover have "v7_stat c s1 = (root_ino ino, I_stat (I_data n))" using s1(3,4) by (simp add: v7_stat_def istat_def)
    ultimately show ?thesis
      using same_inodes_trans [OF s1(1)] v7_istat [OF s1(2), of c]
      by (auto intro!: good_bind good_mono [OF v7_iput [OF s1(2), of c]])
  qed
  show ?thesis
    unfolding unixfs_internal_igetattr_def
    by (rule good_bind, rule good_mono [OF v7_iget [OF h len]])
      (use got in \<open>fastforce simp: root split: option.splits\<close>)
qed

section \<open>The contract\<close>

lemma bread_length: "bread E s b = Done (0, buf) \<Longrightarrow> length buf = BSIZE"
  by (auto simp: bread_def Let_def split: if_splits)

lemma bmap_walk_no_fault [simp]: "bmap_walk E s n sh bn nb \<noteq> BadAccess"
proof (induction n arbitrary: sh nb)
  case (Suc n)
  show ?case
    by (cases "bread E s nb") (auto simp: Let_def Suc.IH split: if_splits)
qed simp

lemma bmap_no_fault [simp]: "bmap E s ip b \<noteq> BadAccess"
  by (auto simp: bmap_def Let_def split: prod.splits)

lemma dir_block_no_fault [simp]: "dir_block E s ip off \<noteq> BadAccess"
  unfolding dir_block_def
  by (cases "bmap E s ip (off sdiv int BSIZE)"; cases "bread E s (fst (case bmap E s ip (off sdiv int BSIZE) of Done r \<Rightarrow> r))")
    (auto simp: split_def)

lemma namei_loop_no_fault [simp]: "namei_loop E s ip name count off buf \<noteq> BadAccess"
proof (induction count arbitrary: off buf)
  case (Suc count)
  show ?case
    by (cases "dir_block E s ip off") (auto simp: Let_def Suc.IH split: sum.splits)
qed simp

lemma dir_block_err: "dir_block E s ip off = Done (Inl e) \<Longrightarrow> e \<noteq> 0"
  by (auto simp: dir_block_def bind_outcome_Done_iff split: if_splits)

lemma dir_next_ok:
  "dir_next E s ip d off \<noteq> BadAccess"
  "dir_next E s ip d off = Done (Inl e) \<Longrightarrow> e \<noteq> 0"
  "dir_next E s ip d off = Done (Inr (b, off', ino, name)) \<Longrightarrow>
     off' = off + int dentsize \<and> off' \<le> st_size (I_stat ip)"
proof -
  let ?m = "case d of Some b \<Rightarrow> if off AND BMASK = 0 then dir_block E s ip off else Done (Inr (0, b))
    | None \<Rightarrow> dir_block E s ip off"
  have m: "?m \<noteq> BadAccess" "?m = Done (Inl e) \<Longrightarrow> e \<noteq> 0" for e
    using dir_block_err [of E s ip off e] by (auto split: option.splits if_splits)
  show "dir_next E s ip d off \<noteq> BadAccess"
    using m(1) unfolding dir_next_def by (cases ?m) (auto simp: Let_def split: sum.splits if_splits)
  show "e \<noteq> 0" if "dir_next E s ip d off = Done (Inl e)"
  proof (cases "?m")
    case (Done x)
    with that m(2) show ?thesis
      unfolding dir_next_def by (cases x) (auto simp: Let_def split: if_splits)
  qed (use that in \<open>auto simp: dir_next_def split: if_splits\<close>)
  show "off' = off + int dentsize \<and> off' \<le> st_size (I_stat ip)"
    if "dir_next E s ip d off = Done (Inr (b, off', ino, name))"
  proof (cases "?m")
    case (Done x)
    with that show ?thesis
      unfolding dir_next_def by (cases x) (auto simp: Let_def split: if_splits)
  qed (use that in \<open>auto simp: dir_next_def split: if_splits\<close>)
qed

text \<open>One round of a read.\<close>

lemma pbread_step:
  "n \<noteq> 0 \<Longrightarrow> pbread_loop E s ip n off acc err =
     bind_outcome (bmap E s ip (off sdiv int BSIZE)) (\<lambda>(bn, e1).
       if e1 \<noteq> 0 then Done (acc, e1)
       else
         bind_outcome (bread E s bn) (\<lambda>(e2, buf).
           if e2 \<noteq> 0 then Done (acc, e2)
           else pbread_loop E s ip (n - min BSIZE n) (off + int (min BSIZE n)) (acc @ take (min BSIZE n) buf) 0))"
proof -
  assume n: "n \<noteq> 0"
  have k: "(if BSIZE < n then BSIZE else n) = min BSIZE n" by (simp add: min_def)
  show ?thesis using n by (subst pbread_loop.simps) (simp only: Let_def k if_False)
qed

lemma pbread_zero [simp]: "pbread_loop E s ip 0 off acc err = Done (acc, err)"
  by (subst pbread_loop.simps) simp

lemma pbread_loop_ok:
  "pbread_loop E s ip n off acc err \<noteq> BadAccess \<and>
   (\<forall>b e. pbread_loop E s ip n off acc err = Done (b, e) \<longrightarrow>
     length b \<le> length acc + n \<and> (e = 0 \<longrightarrow> length b = length acc + n))"
proof (induction n arbitrary: off acc err rule: less_induct)
  case (less n)
  show ?case
  proof (cases "n = 0")
    case False
    let ?k = "min BSIZE n"
    let ?next = "\<lambda>buf. pbread_loop E s ip (n - ?k) (off + int ?k) (acc @ take ?k buf) 0"
    have onward: "?next buf \<noteq> BadAccess \<and> (\<forall>b e. ?next buf = Done (b, e) \<longrightarrow>
        length b \<le> length acc + n \<and> (e = 0 \<longrightarrow> length b = length acc + n))" if "length buf = BSIZE" for buf
      using less.IH [of "n - ?k" "off + int ?k" "acc @ take ?k buf" 0] False that by auto
    show ?thesis
    proof (cases "bmap E s ip (off sdiv int BSIZE)")
      case (Done r)
      then obtain bn e1 where bm: "bmap E s ip (off sdiv int BSIZE) = Done (bn, e1)" by (cases r) auto
      note step = pbread_step [OF False, of E s ip off acc err, unfolded bm bind_outcome.simps prod.case]
      show ?thesis
      proof (cases "e1 = 0")
        case True
        show ?thesis
        proof (cases "bread E s bn")
          case (Done q)
          then obtain e2 buf where br: "bread E s bn = Done (e2, buf)" by (cases q) auto
          show ?thesis
          proof (cases "e2 = 0")
            case True
            with br bread_length have "length buf = BSIZE" by blast
            from onward [OF this] show ?thesis
              unfolding step br bind_outcome.simps prod.case using True \<open>e1 = 0\<close> by simp
          qed (unfold step br bind_outcome.simps prod.case, use \<open>e1 = 0\<close> in simp)
        qed (unfold step, use True in simp_all)
      qed (unfold step, simp)
    qed (simp_all add: pbread_step [OF False])
  qed simp
qed

text \<open>What an operation finds out is the same in every state with the same disk.\<close>

lemma bmap_same: "same_disk s s' \<Longrightarrow> bmap E s' = bmap E s"
proof -
  assume d: "same_disk s s'"
  then have e: "s_endian s' = s_endian s" by (simp add: same_disk_def)
  have w: "bmap_walk E s' n sh bn nb = bmap_walk E s n sh bn nb" for n sh bn nb
    by (induction n arbitrary: sh nb) (simp_all only: bmap_walk.simps bread_same [OF d] e)
  show "bmap E s' = bmap E s" by (simp only: fun_eq_iff bmap_def w) simp
qed

lemma namei_loop_same: "same_disk s s' \<Longrightarrow> namei_loop E s' ip name count off buf = namei_loop E s ip name count off buf"
proof (induction count arbitrary: off buf)
  case (Suc count)
  then have e: "s_endian s' = s_endian s" by (simp add: same_disk_def)
  have b: "dir_block E s' ip off = dir_block E s ip off"
    unfolding dir_block_def bmap_same [OF Suc.prems] bread_same [OF Suc.prems] by (rule refl)
  show ?case by (simp only: namei_loop.simps b e Suc.IH [OF Suc.prems])
qed simp

text \<open>A lookup, as a function of the disk: an error, or the number and the status.\<close>

definition lookup_disk :: "v7_env \<Rightarrow> super_block \<Rightarrow> u64 \<Rightarrow> bytes \<Rightarrow> (errno + u64 \<times> unix_stat) outcome" where
  "lookup_disk E s parent name =
     (case disk_inode E s (root_ino parent) of
        None \<Rightarrow> Done (Inl ENOENT)
      | Some ip \<Rightarrow>
          if \<not> S_ISDIR (st_mode (I_stat ip)) then Done (Inl ENOTDIR)
          else
            bind_outcome (namei_loop E s ip name (nat (st_size (I_stat ip) div int dentsize)) 0 []) (\<lambda>r.
              case r of
                Inl e \<Rightarrow> Done (Inl e)
              | Inr ino \<Rightarrow>
                  (case disk_inode E s (root_ino ino) of
                     None \<Rightarrow> Done (Inl ENOENT) | Some ip' \<Rightarrow> Done (Inr (root_ino ino, I_stat ip')))))"

abbreviation lookup_ok :: "v7_env \<Rightarrow> super_block \<Rightarrow> u64 \<Rightarrow> bytes \<Rightarrow> errno \<times> u64 \<times> unix_stat \<Rightarrow> bool" where
  "lookup_ok E s parent name res \<equiv>
     (case lookup_disk E s parent name of
        Done (Inl e) \<Rightarrow> fst res = e \<and> (e = 0 \<longrightarrow> snd res = (0, zero_stat))
      | Done (Inr st) \<Rightarrow> res = (0, st)
      | _ \<Rightarrow> False)"

lemma v7_namei:
  assumes h: "v7_holds E s0 s hs" and len: "length hs + 1 < 2 ^ 32 - 2"
  shows "good (\<lambda>res s'. same_used hs s s' \<and> v7_holds E s0 s' hs \<and> lookup_ok E s0 parent name res)
    (unixfs_internal_namei E parent name s)"
proof -
  have root: "root_ino (root_ino ino) = root_ino ino" for ino by (simp add: root_ino_def)
  have put: "good (\<lambda>_ s'. same_used hs s s' \<and> v7_holds E s0 s' hs) (unixfs_internal_iput a s2)"
    if "same_used hs s s2" "v7_holds E s0 s2 (a # hs)" for a s2
    using same_inodes_trans [OF that(1)]
    by (auto intro!: good_mono [OF v7_iput [OF that(2), of a]])
  have sub: "same_used hs s s2" if "same_used (a # hs) s1 s2" "same_used hs s s1" for a s1 s2
    using that unfolding same_inodes_def by (fastforce)
  have got: "good (\<lambda>res s'. same_used hs s s' \<and> v7_holds E s0 s' hs \<and> lookup_ok E s0 parent name res)
      (bindU (lookU (namei_loop E s1 ip name (nat (st_size (I_stat ip) div int dentsize)) 0 []) s1) (\<lambda>r s.
         bindU (case r of Inl ret \<Rightarrow> U_Ret (ret, 0, zero_stat) s | Inr ino \<Rightarrow> unixfs_internal_igetattr E ino s)
           (\<lambda>res s. bindU (unixfs_internal_iput a s) (\<lambda>_ s. U_Ret res s))))"
    if s1: "same_used hs s s1" "v7_holds E s0 s1 (a # hs)"
      and ip: "disk_inode E s0 (root_ino parent) = Some ip" "S_ISDIR (st_mode (I_stat ip))" for a s1 ip
  proof -
    let ?r = "namei_loop E s0 ip name (nat (st_size (I_stat ip) div int dentsize)) 0 []"
    have same: "namei_loop E s1 ip name (nat (st_size (I_stat ip) div int dentsize)) 0 [] = ?r"
      using s1(2) namei_loop_same [of s0 s1] by (simp add: v7_holds_def)
    show ?thesis
    proof (cases ?r)
      case (Done r)
      show ?thesis
      proof (cases r)
        case (Inl e)
        then have "lookup_disk E s0 parent name = Done (Inl e)" using ip Done by (simp add: lookup_disk_def)
        with Done Inl same show ?thesis by (auto intro!: good_bind good_mono [OF put [OF s1]])
      next
        case (Inr ino)
        have len': "length (a # hs) < 2 ^ 32 - 2" using len by simp
        have "lookup_disk E s0 parent name = (case disk_inode E s0 (root_ino ino) of
            None \<Rightarrow> Done (Inl ENOENT) | Some ip' \<Rightarrow> Done (Inr (root_ino ino, I_stat ip')))"
          using ip Done Inr by (simp add: lookup_disk_def)
        with v7_igetattr [OF s1(2) len', of ino]
        have "good (\<lambda>res s'. same_used (a # hs) s1 s' \<and> v7_holds E s0 s' (a # hs) \<and> lookup_ok E s0 parent name res)
            (unixfs_internal_igetattr E ino s1)"
          by (elim good_mono) (auto split: option.splits)
        then show ?thesis
          using Done Inr same
          by (auto intro!: good_bind put sub [OF _ s1(1)] elim!: good_mono)
      qed
    qed (use same in simp_all)
  qed
  show ?thesis
    unfolding unixfs_internal_namei_def
  proof (rule good_bind, rule good_mono [OF v7_iget [OF h, of "root_ino parent"]])
    fix r s1 assume r: "same_used hs s s1 \<and> (case r of
        None \<Rightarrow> disk_inode E s0 (root_ino (root_ino parent)) = None \<and> v7_holds E s0 s1 hs
      | Some c \<Rightarrow> v7_holds E s0 s1 (c # hs) \<and>
          (\<exists>n. il_heap (s_layer s1) c = Some n \<and> I_number n = root_ino (root_ino parent)))"
    show "good (\<lambda>res s'. same_used hs s s' \<and> v7_holds E s0 s' hs \<and> lookup_ok E s0 parent name res)
      (case r of None \<Rightarrow> U_Ret (ENOENT, 0, zero_stat) s1
       | Some a \<Rightarrow> bindU (node_at a s1) (\<lambda>n s.
           if \<not> S_ISDIR (st_mode (I_stat (I_data n)))
           then bindU (unixfs_internal_iput a s) (\<lambda>_ s. U_Ret (ENOTDIR, 0, zero_stat) s)
           else bindU (lookU (namei_loop E s (I_data n) name (nat (st_size (I_stat (I_data n)) div int dentsize)) 0 []) s)
             (\<lambda>r s. bindU (case r of Inl ret \<Rightarrow> U_Ret (ret, 0, zero_stat) s | Inr ino \<Rightarrow> unixfs_internal_igetattr E ino s)
               (\<lambda>res s. bindU (unixfs_internal_iput a s) (\<lambda>_ s. U_Ret res s)))))"
    proof (cases r)
      case None
      with r show ?thesis by (simp add: lookup_disk_def root)
    next
      case (Some a)
      with r obtain n where n: "il_heap (s_layer s1) a = Some n" "I_number n = root_ino parent" by (auto simp: root)
      with r Some have ip: "disk_inode E s0 (root_ino parent) = Some (I_data n)" by (auto simp: v7_holds_def)
      show ?thesis
      proof (cases "S_ISDIR (st_mode (I_stat (I_data n)))")
        case True
        with Some n r got [OF _ _ ip True, of s1 a] show ?thesis by (simp add: node_at_def)
      next
        case False
        with ip have "lookup_disk E s0 parent name = Done (Inl ENOTDIR)" by (simp add: lookup_disk_def)
        with Some n r False put [of s1 a] show ?thesis
          by (auto simp: node_at_def intro!: good_bind elim!: good_mono)
      qed
    qed
  qed (use len in simp)
qed

text \<open>
  An inode number can be read when the disk has its block. The limit leaves room for the inodes that the
  operations themselves use.
\<close>

interpretation v7: unix_file_system "ops_v7 E" "v7_holds E s0" v7_stat "2 ^ 32 - 2" "\<lambda>ino. disk_inode E s0 (root_ino ino) \<noteq> None"
proof
  fix s hs assume h: "v7_holds E s0 s hs"
  show "0 \<notin> set hs"
  proof
    assume "0 \<in> set hs"
    with h obtain n where "il_heap (s_layer s) 0 = Some n" by (rule v7_node)
    moreover have "address_ok (s_layer s) (map A_hold hs) 0" using h by (simp add: v7_holds_def isys_inv_def)
    ultimately show False by (simp add: address_ok_def)
  qed
  fix a ino parent name d and off :: int and n :: nat
  note stat = same_used_stat [of hs s]
  show "good (\<lambda>r s'. (\<forall>a \<in> set hs. v7_stat a s' = v7_stat a s) \<and>
      (case r of None \<Rightarrow> \<not> disk_inode E s0 (root_ino ino) \<noteq> None \<and> v7_holds E s0 s' hs | Some a \<Rightarrow> v7_holds E s0 s' (a # hs)))
      (op_iget (ops_v7 E) ino s)" if "length hs < 2 ^ 32 - 2"
    by (simp add: ops_v7_def, rule good_mono [OF v7_iget [OF h that]]) (auto simp: stat split: option.splits)
  show "good (\<lambda>_ s'. (\<forall>b \<in> set (remove1 a hs). v7_stat b s' = v7_stat b s) \<and> v7_holds E s0 s' (remove1 a hs))
      (op_iput (ops_v7 E) a s)" if "a \<in> set hs"
    by (simp add: ops_v7_def, rule good_mono [OF v7_iput [OF h that]]) (auto simp: same_used_stat [of "remove1 a hs" s])
  show "good (\<lambda>_ s'. (\<forall>a \<in> set hs. v7_stat a s' = v7_stat a s) \<and> v7_holds E s0 s' hs) (op_igetattr (ops_v7 E) ino s)"
    if "length hs < 2 ^ 32 - 2"
    by (simp add: ops_v7_def, rule good_mono [OF v7_igetattr [OF h that]]) (auto simp: stat)
  show "op_istat (ops_v7 E) a s = U_Ret (v7_stat a s) s" if "a \<in> set hs"
    using v7_istat [OF h that] by (simp add: ops_v7_def)
  show "good (\<lambda>_ s'. (\<forall>a \<in> set hs. v7_stat a s' = v7_stat a s) \<and> v7_holds E s0 s' hs) (op_namei (ops_v7 E) parent name s)"
    if "length hs + 1 < 2 ^ 32 - 2"
    by (simp add: ops_v7_def, rule good_mono [OF v7_namei [OF h that]]) (auto simp: stat)
  show "good (\<lambda>r s'. s' = s \<and> (case r of Inl e \<Rightarrow> e \<noteq> 0
      | Inr (b, off', ino, name) \<Rightarrow> off < off' \<and> off' \<le> st_size (snd (v7_stat a s)))) (op_nextdirentry (ops_v7 E) a d off s)"
    if "a \<in> set hs"
  proof -
    note a = that
    obtain m where m: "il_heap (s_layer s) a = Some m" by (rule v7_node [OF h a])
    show ?thesis
    proof (cases "dir_next E s (I_data m) d off")
      case (Done r)
      with m dir_next_ok(2,3) [of E s "I_data m" d off] show ?thesis
        by (cases r) (auto simp: ops_v7_def unixfs_internal_nextdirentry_def node_at_def v7_stat_def istat_def)
    qed (use m dir_next_ok(1) in \<open>simp_all add: ops_v7_def unixfs_internal_nextdirentry_def node_at_def\<close>)
  qed
  show "good (\<lambda>(ret, b, err) s'. s' = s \<and> length b \<le> n \<and> (ret = int (length b) \<or> ret = - 1 \<and> err \<noteq> 0 \<and> b = []) \<and>
      (err = 0 \<longrightarrow> length b = n)) (op_pbread (ops_v7 E) a n off 0 s)" if "a \<in> set hs"
  proof -
    note a = that
    obtain m where m: "il_heap (s_layer s) a = Some m" by (rule v7_node [OF h a])
    show ?thesis
    proof (cases "pbread_loop E s (I_data m) n off [] 0")
      case (Done r)
      with m pbread_loop_ok [of E s "I_data m" n off "[]" 0] show ?thesis
        by (cases r) (auto simp: ops_v7_def unixfs_internal_pbread_def node_at_def)
    qed (use m pbread_loop_ok [of E s "I_data m" n off "[]" 0] in
        \<open>simp_all add: ops_v7_def unixfs_internal_pbread_def node_at_def\<close>)
  qed
qed

end
