(* ===== verification/Unixfs_V7_Laws.thy ===== *)
theory Unixfs_V7_Laws
  imports Unixfs_V7_Session
begin

text \<open>
  Lemmas on what the reader of Seventh Edition disks finds: the blocks of a file against the tree of indirect blocks,
  the content of a file, the names of a directory, and the free list.
\<close>

section \<open>The blocks of a file\<close>

text \<open>A tree of indirect blocks with \<open>l\<close> levels under the block \<open>nb\<close>, and the leaf with the number \<open>k\<close>.\<close>

fun tree_block :: "v7_env \<Rightarrow> super_block \<Rightarrow> nat \<Rightarrow> int \<Rightarrow> nat \<Rightarrow> (int \<times> errno) outcome" where
  "tree_block E s 0 nb k = Done (nb, 0)"
| "tree_block E s (Suc l) nb k =
     bind_outcome (bread E s nb) (\<lambda>(ret, b).
       if ret \<noteq> 0 then Done (0, ret)
       else
         (let nb' = int32 (s_endian s) (4 * (k div 128 ^ l)) b
          in if nb' = 0 then Done (0, EROFS) else tree_block E s l nb' (k mod 128 ^ l)))"

definition root_block :: "v7_env \<Rightarrow> super_block \<Rightarrow> v7_inode \<Rightarrow> nat \<Rightarrow> nat \<Rightarrow> nat \<Rightarrow> (int \<times> errno) outcome" where
  "root_block E s ip i l k =
     (let nb = sint (I_daddr ip ! i) in if nb = 0 then Done (0, EROFS) else tree_block E s l nb k)"

text \<open>The block of the disk for a block of a file: ten direct ones, then one tree of each depth.\<close>

definition file_block_at :: "v7_env \<Rightarrow> super_block \<Rightarrow> v7_inode \<Rightarrow> int \<Rightarrow> (int \<times> errno) outcome" where
  "file_block_at E s ip lblkno =
     (if lblkno < 0 then Done (0, EFBIG)
      else
        (let k = nat lblkno
         in if k < 10 then root_block E s ip k 0 0
            else if k - 10 < 128 then root_block E s ip 10 1 (k - 10)
            else if k - 10 - 128 < 128 ^ 2 then root_block E s ip 11 2 (k - 10 - 128)
            else if k - 10 - 128 - 128 ^ 2 < 128 ^ 3 then root_block E s ip 12 3 (k - 10 - 128 - 128 ^ 2)
            else Done (0, EFBIG)))"

lemma walk_index:
  "drop_bit (7 * n) k AND 127 = (k mod 128 ^ Suc n) div 128 ^ n" for k :: nat
proof -
  have "drop_bit (7 * n) k = k div 128 ^ n" by (simp add: drop_bit_eq_div power_mult)
  moreover have "m AND 127 = m mod 128" for m :: nat
    using take_bit_eq_mask [of 7 m] by (simp add: take_bit_eq_mod mask_eq_exp_minus_1)
  moreover have "(k mod (128 ^ n * 128)) div 128 ^ n = k div 128 ^ n mod 128"
    by (simp add: mod_mult2_eq)
  ultimately show ?thesis by (simp add: mult.commute)
qed

lemma bmap_walk_tree: "bmap_walk E s n (7 * n) k nb = tree_block E s n nb (k mod 128 ^ n)"
proof (induction n arbitrary: nb)
  case (Suc n)
  have m: "k mod 128 ^ n = (k mod 128 ^ Suc n) mod 128 ^ n" by (simp add: mod_mod_cancel)
  have sh: "7 * Suc n - 7 = 7 * n" by simp
  show ?case
    unfolding bmap_walk.simps tree_block.simps Let_def sh walk_index Suc.IH m [symmetric] by (rule refl)
qed simp

lemma levels_eq:
  "bmap_levels 3 0 1 m =
     (if m < 128 then (3, 7, m)
      else if m - 128 < 16384 then (2, 14, m - 128)
      else if m - 128 - 16384 < 2097152 then (1, 21, m - 128 - 16384)
      else (0, 21, m - 128 - 16384 - 2097152))"
proof -
  have "bmap_levels (Suc (Suc (Suc 0))) 0 1 m =
     (if m < 128 then (3, 7, m)
      else if m - 128 < 16384 then (2, 14, m - 128)
      else if m - 128 - 16384 < 2097152 then (1, 21, m - 128 - 16384)
      else (0, 21, m - 128 - 16384 - 2097152))"
    unfolding bmap_levels.simps Let_def push_bit_eq_mult by simp
  then show ?thesis by (simp only: numeral_3_eq_3)
qed

lemma levels:
  "m < 128 \<Longrightarrow> bmap_levels 3 0 1 m = (3, 7, m)"
  "\<not> m < 128 \<Longrightarrow> m - 128 < 128 ^ 2 \<Longrightarrow> bmap_levels 3 0 1 m = (2, 14, m - 128)"
  "\<not> m < 128 \<Longrightarrow> \<not> m - 128 < 128 ^ 2 \<Longrightarrow> m - 128 - 128 ^ 2 < 128 ^ 3 \<Longrightarrow>
   bmap_levels 3 0 1 m = (1, 21, m - 128 - 128 ^ 2)"
  "\<not> m < 128 \<Longrightarrow> \<not> m - 128 < 128 ^ 2 \<Longrightarrow> \<not> m - 128 - 128 ^ 2 < 128 ^ 3 \<Longrightarrow>
   fst (bmap_levels 3 0 1 m) = 0"
  unfolding levels_eq by simp_all

lemma bmap_level:
  assumes "s32 lblkno = int k" "\<not> k < 10" "bmap_levels 3 0 1 (k - 10) = (j, 7 * (4 - j), m)" "j \<noteq> 0" "m < 128 ^ (4 - j)"
  shows "bmap E s ip lblkno = root_block E s ip (13 - j) (4 - j) m"
  using assms(1-4) unfolding bmap_def root_block_def
  by (simp add: Let_def bmap_walk_tree mod_less [OF assms(5)])

section \<open>The content of a file\<close>

text \<open>The bytes of a block of a file, if it is not a hole and can be read; the bytes of the first \<open>m\<close> blocks.\<close>

definition file_block :: "v7_env \<Rightarrow> super_block \<Rightarrow> v7_inode \<Rightarrow> nat \<Rightarrow> bytes option" where
  "file_block E s ip k =
     (case bmap E s ip (int k) of
        Done (bn, e) \<Rightarrow>
          if e \<noteq> 0 then None
          else (case bread E s bn of Done (ret, b) \<Rightarrow> if ret = 0 then Some b else None | _ \<Rightarrow> None)
      | _ \<Rightarrow> None)"

definition intact :: "v7_env \<Rightarrow> super_block \<Rightarrow> v7_inode \<Rightarrow> nat \<Rightarrow> bool" where
  "intact E s ip m \<longleftrightarrow> list_all (\<lambda>k. file_block E s ip k \<noteq> None) [0..<m]"

definition content :: "v7_env \<Rightarrow> super_block \<Rightarrow> v7_inode \<Rightarrow> nat \<Rightarrow> bytes" where
  "content E s ip m = concat (map (\<lambda>k. the (file_block E s ip k)) [0..<m])"

lemma file_blockD:
  assumes "file_block E s ip k = Some b"
  shows "\<exists>bn. bmap E s ip (int k) = Done (bn, 0) \<and> bread E s bn = Done (0, b)" "length b = BSIZE"
proof -
  show ex: "\<exists>bn. bmap E s ip (int k) = Done (bn, 0) \<and> bread E s bn = Done (0, b)"
    using assms by (auto simp: file_block_def split: outcome.splits if_splits)
  then show "length b = BSIZE" using bread_length by blast
qed

lemma intactD: "intact E s ip m \<Longrightarrow> k < m \<Longrightarrow> \<exists>b. file_block E s ip k = Some b"
  by (auto simp: intact_def list_all_iff)

lemma content_Suc: "content E s ip (Suc m) = content E s ip m @ the (file_block E s ip m)"
  by (simp add: content_def)

lemma content_length: "intact E s ip m \<Longrightarrow> length (content E s ip m) = BSIZE * m"
proof (induction m)
  case (Suc m)
  then obtain b where "file_block E s ip m = Some b" using intactD by blast
  moreover from this have "length b = BSIZE" by (rule file_blockD)
  ultimately show ?case using Suc by (simp add: content_Suc intact_def)
qed (simp add: content_def)

text \<open>The content from a block on starts with that block.\<close>

lemma content_drop:
  assumes "intact E s ip m" "k < m" "file_block E s ip k = Some b"
  shows "drop (BSIZE * k) (content E s ip m) = b @ drop (BSIZE * Suc k) (content E s ip m)"
proof -
  have "drop (BSIZE * k) (content E s ip m) = b @ drop (BSIZE * Suc k) (content E s ip m)"
    if "intact E s ip m" "k < m" "m \<le> n" for n
    using that
  proof (induction n arbitrary: m)
    case (Suc n)
    then obtain m' where m': "m = Suc m'" "intact E s ip m'" by (cases m) (auto simp: intact_def)
    note len = content_length [OF m'(2)]
    show ?case
    proof (cases "k = m'")
      case True
      with m' len assms(3) file_blockD(2) [OF assms(3)] show ?thesis by (simp add: content_Suc)
    next
      case False
      with Suc m' have IH: "drop (BSIZE * k) (content E s ip m') = b @ drop (BSIZE * Suc k) (content E s ip m')"
        by (intro Suc.IH) auto
      have "BSIZE * k \<le> BSIZE * m'" "BSIZE * Suc k \<le> BSIZE * m'" using False Suc.prems(2) m'(1) by auto
      then show ?thesis unfolding m'(1) content_Suc drop_append len using IH by simp
    qed
  qed simp
  from this [OF assms(1,2), of m] show ?thesis by simp
qed

text \<open>A read moves bytes from the start of the block that the offset is in.\<close>

lemma pbread_content:
  assumes "intact E s ip m"
  shows "BSIZE * (off div BSIZE) + n \<le> BSIZE * m \<Longrightarrow>
    pbread_loop E s ip n (int off) acc 0 =
      Done (acc @ take n (drop (BSIZE * (off div BSIZE)) (content E s ip m)), 0)"
proof (induction n arbitrary: off acc rule: less_induct)
  case (less n)
  show ?case
  proof (cases "n = 0")
    case False
    let ?k = "off div BSIZE"
    have k: "?k < m"
    proof (rule ccontr)
      assume "\<not> ?k < m"
      then have "BSIZE * m \<le> BSIZE * ?k" by simp
      with less.prems False show False by linarith
    qed
    obtain b where b: "file_block E s ip ?k = Some b" using intactD [OF assms k] by blast
    from file_blockD(1) [OF b] obtain bn where bn: "bmap E s ip (int ?k) = Done (bn, 0)" "bread E s bn = Done (0, b)" by blast
    have len: "length b = BSIZE" by (rule file_blockD(2) [OF b])
    have lbn: "int off sdiv int BSIZE = int ?k" by (cases "off = 0") (simp_all add: signed_divide_int_def zdiv_int)
    have step: "pbread_loop E s ip n (int off) acc 0 =
        pbread_loop E s ip (n - min BSIZE n) (int (off + min BSIZE n)) (acc @ take (min BSIZE n) b) 0"
      unfolding pbread_step [OF False] lbn bn bind_outcome.simps prod.case by simp
    note drop = content_drop [OF assms k b]
    show ?thesis
    proof (cases "n < BSIZE")
      case True
      with step drop len show ?thesis by simp
    next
      case False
      then have next_k: "(off + BSIZE) div BSIZE = Suc ?k" by simp
      have "pbread_loop E s ip (n - BSIZE) (int (off + BSIZE)) (acc @ b) 0 =
          Done ((acc @ b) @ take (n - BSIZE) (drop (BSIZE * Suc ?k) (content E s ip m)), 0)"
        using less.IH [of "n - BSIZE" "off + BSIZE" "acc @ b"] less.prems False \<open>n \<noteq> 0\<close> unfolding next_k by simp
      with step drop len False show ?thesis by (simp add: min_def)
    qed
  qed simp
qed

lemma read_content:
  assumes h: "v7_holds E s0 s hs" "fh \<in> set hs" "il_heap (s_layer s) fh = Some n"
    and size: "st_size (I_stat (I_data n)) = int fsize" and ok: "intact E s (I_data n) m"
    and count: "0 < count" "off \<le> fsize" "e_buffer M (min count (fsize - off))"
    and m: "m = (fsize + 511) div BSIZE"
  shows "unixfs_ll_read (ops_v7 E) M fh count (int off) s =
      U_Ret [Reply_buf (take (min count (fsize - off)) (drop (BSIZE * (off div BSIZE)) (content E s (I_data n) m)))] s"
proof -
  let ?c = "min count (fsize - off)"
  let ?b = "take ?c (drop (BSIZE * (off div BSIZE)) (content E s (I_data n) m))"
  have "BSIZE * m + (fsize + 511) mod BSIZE = fsize + 511" "(fsize + 511) mod BSIZE < BSIZE"
    unfolding m by (rule mult_div_mod_eq) simp
  then have "fsize \<le> BSIZE * m" by linarith
  moreover have "BSIZE * (off div BSIZE) \<le> off" by simp
  ultimately have fits: "BSIZE * (off div BSIZE) + ?c \<le> BSIZE * m" using count(2) by linarith
  have len: "length ?b = ?c" using fits content_length [OF ok] by simp
  have pb: "op_pbread (ops_v7 E) fh ?c (int off) 0 s = U_Ret (int ?c, ?b, 0) s"
    using pbread_content [OF ok fits, of "[]"] h(3) len
    by (simp add: ops_v7_def unixfs_internal_pbread_def node_at_def)
  have loop: "read_loop (ops_v7 E) 2 fh ?c (int off) [] 0 s = U_Ret ?b s"
    unfolding numeral_2_eq_2 read_loop.simps pb bindU.simps prod.case by simp
  have st: "op_istat (ops_v7 E) fh s = U_Ret (istat n) s"
    using h(3) by (simp add: ops_v7_def unixfs_internal_istat_def node_at_def)
  have c: "(if int fsize < int off + int count then nat (int fsize - int off) else count) = ?c"
    using count(2) by auto
  have "fh \<noteq> 0" using v7.nonnull_law [OF h(1)] h(2) by metis
  moreover have "\<not> (count = 0 \<or> int fsize < int off)" using count by simp
  ultimately show ?thesis
    unfolding unixfs_ll_read_def st bindU.simps istat_def prod.case size Let_def c loop
    using count(3) by simp
qed

section \<open>The names of a directory\<close>

definition dir_entry :: "v7_env \<Rightarrow> super_block \<Rightarrow> v7_inode \<Rightarrow> nat \<Rightarrow> nat \<Rightarrow> bytes" where
  "dir_entry E s ip m i = take dentsize (drop (dentsize * i) (content E s ip m))"

definition names :: "fs_endian \<Rightarrow> bytes \<Rightarrow> bytes \<Rightarrow> bool" where
  "names e name d \<longleftrightarrow> u_ino e d \<noteq> 0 \<and> strncmp_eq DIRSIZ name (u_name d)"

text \<open>The search reads the first 2048 entries; the offset of the next one does not fit in 16 bits.\<close>

definition search_result :: "fs_endian \<Rightarrow> bytes \<Rightarrow> bytes list \<Rightarrow> bool \<Rightarrow> errno + u64" where
  "search_result e name ds beyond =
     (case find (names e name) ds of
        Some d \<Rightarrow> Inr (ucast (u_ino e d)) | None \<Rightarrow> Inl (if beyond then EFBIG else ENOENT))"

lemma entry_in_block:
  assumes "intact E s ip m" "i div 32 < m" "file_block E s ip (i div 32) = Some b"
  shows "dir_entry E s ip m i = take dentsize (drop (dentsize * (i mod 32)) b)"
proof -
  have i: "dentsize * i = dentsize * (i mod 32) + BSIZE * (i div 32)"
    using mult_div_mod_eq [of 32 i] by linarith
  have "i mod 32 < 32" by simp
  then have in_block: "dentsize * (i mod 32) + dentsize \<le> BSIZE" by simp
  have len: "length b = BSIZE" by (rule file_blockD(2) [OF assms(3)])
  have "drop (dentsize * i) (content E s ip m) = drop (dentsize * (i mod 32)) (drop (BSIZE * (i div 32)) (content E s ip m))"
    unfolding i by (simp add: add.commute)
  then show ?thesis
    unfolding dir_entry_def content_drop [OF assms] using in_block len by simp
qed

lemma offset_mask: "int (dentsize * i) AND BMASK = int (dentsize * (i mod 32))"
proof -
  have "n AND BMASK = n mod 512" for n :: int using take_bit_eq_mask [of 9 n] by (simp add: take_bit_eq_mod mask_eq_exp_minus_1)
  moreover have "dentsize * i mod 512 = dentsize * (i mod 32)" using mult_mod_right [of 16 i 32] by simp
  ultimately show ?thesis by (metis of_nat_mod of_nat_numeral)
qed

lemma offset_s16: "i < 2048 \<Longrightarrow> s16 (int (dentsize * i)) = int (dentsize * i)" "s16 (s16 k + j) = s16 (k + j)"
proof -
  have s: "s16 x = signed_take_bit 15 x" for x by (simp add: s16_def signed_of_int)
  show "s16 (int (dentsize * i)) = int (dentsize * i)" if "i < 2048"
    unfolding s using that by (intro signed_take_bit_int_eq_self) auto
  from s show "s16 (s16 k + j) = s16 (k + j)" by (metis signed_take_bit_add signed_take_bit_signed_take_bit min.idem)
qed

lemma namei_scan:
  assumes ok: "intact E s ip m"
  shows "i \<le> 2048 \<Longrightarrow> min (i + c) 2048 \<le> 32 * m \<Longrightarrow> (i mod 32 \<noteq> 0 \<Longrightarrow> file_block E s ip (i div 32) = Some buf) \<Longrightarrow>
    namei_loop E s ip name c (s16 (int (dentsize * i))) buf =
      Done (search_result (s_endian s) name (map (dir_entry E s ip m) [i..<min (i + c) 2048]) (2048 < i + c))"
proof (induction c arbitrary: i buf)
  case (Suc c)
  show ?case
  proof (cases "i = 2048")
    case True
    have "s16 32768 = - 32768" "s32 (- 64) = - 64" "(- 32768) sdiv int BSIZE = - 64" "(- 32768) AND BMASK = 0"
      by (simp_all add: s16_def s32_def signed_divide_int_def)
    then show ?thesis
      using True by (simp add: dir_block_def bmap_def search_result_def)
  next
    case False
    with Suc.prems(1) have i: "i < 2048" by simp
    with Suc.prems(2) have k: "i div 32 < m" by (simp add: less_mult_imp_div_less mult.commute)
    then obtain b where b: "file_block E s ip (i div 32) = Some b" using intactD [OF ok] by blast
    from file_blockD(1) [OF b] obtain bn where bn: "bmap E s ip (int (i div 32)) = Done (bn, 0)" "bread E s bn = Done (0, b)"
      by blast
    have load: "dir_block E s ip (int (dentsize * i)) = Done (Inr (0, b))" if "i mod 32 = 0"
    proof -
      have "int (dentsize * i) sdiv int BSIZE = int (i div 32)"
      proof -
        have q: "i = 32 * (i div 32)" using that mult_div_mod_eq [of 32 i] by linarith
        show ?thesis by (subst q) (simp add: signed_divide_int_def sgn_if)
      qed
      with bn show ?thesis by (simp add: dir_block_def)
    qed
    have block: "(if int (dentsize * i) AND BMASK = 0 then
          bind_outcome (dir_block E s ip (int (dentsize * i))) (\<lambda>r.
            case r of Inl ret \<Rightarrow> Done (Inl ret) | Inr (err, b) \<Rightarrow> if err \<noteq> 0 then Done (Inl 0) else Done (Inr b))
        else Done (Inr buf)) = Done (Inr b)"
      unfolding offset_mask using load Suc.prems(3) b by (cases "i mod 32 = 0") simp_all
    have entry: "take dentsize (drop (nat (int (dentsize * i) AND BMASK)) b) = dir_entry E s ip m i"
      unfolding offset_mask nat_int entry_in_block [OF ok k b] by (rule refl)
    have after: "s16 (int (dentsize * i) + int dentsize) = s16 (int (dentsize * Suc i))" by (simp add: algebra_simps)
    have "i < min (i + Suc c) 2048" "i + Suc c = Suc i + c" using i by simp_all
    then have list: "[i..<min (i + Suc c) 2048] = i # [Suc i..<min (Suc i + c) 2048]" by (metis upt_conv_Cons)
    have IH: "namei_loop E s ip name c (s16 (int (dentsize * Suc i))) b =
        Done (search_result (s_endian s) name (map (dir_entry E s ip m) [Suc i..<min (Suc i + c) 2048]) (2048 < Suc i + c))"
    proof (rule Suc.IH)
      show "file_block E s ip (Suc i div 32) = Some b" if "Suc i mod 32 \<noteq> 0"
        using that b by (simp add: div_Suc)
    qed (use i Suc.prems(2) in auto)
    show ?thesis
      unfolding offset_s16(1) [OF i] namei_loop.simps block bind_outcome.simps sum.case Let_def entry after list IH
      by (simp add: search_result_def names_def)
  qed
qed (simp add: search_result_def)

lemma v7_lookup:
  assumes "v7_holds E s0 s hs" "length hs + 1 < 2 ^ 32 - 2"
  shows "good (\<lambda>rs s'. v7_holds E s0 s' hs \<and>
    (case lookup_disk E s0 parent name of
       Done (Inr st) \<Rightarrow> rs = [Reply_entry (fst st) st]
     | Done (Inl e) \<Rightarrow> rs = (if e = 0 then [Reply_entry 0 (0, zero_stat)] else [Reply_err e])
     | _ \<Rightarrow> False)) (unixfs_ll_lookup (ops_v7 E) parent name s)"
  unfolding unixfs_ll_lookup_def
  by (rule good_bind, simp add: ops_v7_def, rule good_mono [OF v7_namei [OF assms]])
    (auto split: outcome.splits sum.splits)

section \<open>The free list\<close>

definition usable :: "super_block \<Rightarrow> int \<Rightarrow> bool" where
  "usable s b \<longleftrightarrow> b \<noteq> 0 \<and> int (unat (s_isize (s_fs_info s))) \<le> b \<and> b < s_fsize (s_fs_info s)"

text \<open>
  The free list that a count and an array of addresses stand for: the addresses from the last one down, and
  behind the first one, which is a block with the next part of the list, that part; it ends with address 0.
\<close>

inductive free_list :: "v7_env \<Rightarrow> super_block \<Rightarrow> nat \<Rightarrow> int list \<Rightarrow> int list \<Rightarrow> bool" for E s where
  empty: "free_list E s 0 free []"
| last: "n < 50 \<Longrightarrow> \<forall>i \<in> {1..n}. usable s (free ! i) \<Longrightarrow> free ! 0 = 0 \<Longrightarrow>
    free_list E s (Suc n) free (map ((!) free) (rev [1..<Suc n]))"
| link: "n < 50 \<Longrightarrow> \<forall>i \<in> {1..n}. usable s (free ! i) \<Longrightarrow> usable s (free ! 0) \<Longrightarrow>
    bread E s (free ! 0) = Done (0, b) \<Longrightarrow> read_fblk (s_endian s) b = (int n', free') \<Longrightarrow>
    free_list E s n' free' xs \<Longrightarrow>
    free_list E s (Suc n) free (map ((!) free) (rev [1..<Suc n]) @ free ! 0 # xs)"

text \<open>The state with another count and array.\<close>

definition with_free :: "int \<Rightarrow> int list \<Rightarrow> super_block \<Rightarrow> super_block" where
  "with_free n free s = upd_fs (\<lambda>fs. fs\<lparr>s_nfree := n, s_free := free\<rparr>) s"

lemma with_free_simps [simp]:
  "with_free n free (with_free n' free' s) = with_free n free s"
  "s_endian (with_free n free s) = s_endian s"
  "usable (with_free n free s) = usable s"
  "bread E (with_free n free s) = bread E s"
  "s_layer (with_free n free s) = s_layer s"
  by (simp_all add: with_free_def upd_fs_def usable_def fun_eq_iff bread_def)

lemma with_free_get: "s_nfree (s_fs_info (with_free n free s)) = n" "s_free (s_fs_info (with_free n free s)) = free"
  by (simp_all add: with_free_def upd_fs_def)

lemma with_free_same: "with_free (s_nfree (s_fs_info s)) (s_free (s_fs_info s)) s = s"
  by (simp add: with_free_def upd_fs_def)

lemma s16_small: "- 32768 \<le> k \<Longrightarrow> k < 32768 \<Longrightarrow> s16 k = k"
  by (simp add: s16_def signed_of_int signed_take_bit_int_eq_self)

lemma alloc_with:
  assumes "n < 50"
  shows "unixfs_internal_alloc E (with_free (int (Suc n)) free s) =
    (let s1 = with_free (int n) free s; b = free ! n
     in if b = 0 \<or> \<not> usable s b then Done (0, s1)
        else if n = 0 then
          bind_outcome (bread E s b) (\<lambda>(ret, ubuf).
            if ret \<noteq> 0 then Done (0, s1)
            else (case read_fblk (s_endian s) ubuf of (n', free') \<Rightarrow> Done (b, with_free n' free' s)))
        else Done (b, s1))"
proof -
  have "s16 (int (Suc n) - 1) = int n" using assms by (simp add: s16_small)
  then show ?thesis
    using assms
    by (auto simp: unixfs_internal_alloc_def with_free_def upd_fs_def usable_def Let_def bread_def split: prod.splits)
qed

lemma count_step:
  "unixfs_internal_alloc E s = Done (b, s1) \<Longrightarrow>
   count_free E s k = (if b = 0 then Some (Done (k, s1)) else count_free E s1 (k + 1))"
  by (subst count_free.simps) simp

text \<open>The addresses above the first one are taken one by one.\<close>

lemma count_pops:
  "n < 50 \<Longrightarrow> \<forall>i \<in> {1..n}. usable s (free ! i) \<Longrightarrow>
   count_free E (with_free (int (Suc n)) free s) k = count_free E (with_free 1 free s) (k + n)"
proof (induction n arbitrary: k)
  case (Suc n)
  then have "usable s (free ! Suc n)" by auto
  then have "unixfs_internal_alloc E (with_free (int (Suc (Suc n))) free s) = Done (free ! Suc n, with_free (int (Suc n)) free s)"
    using alloc_with [OF Suc.prems(1), of E free s] by (simp add: usable_def)
  moreover have "free ! Suc n \<noteq> 0" using \<open>usable s (free ! Suc n)\<close> by (simp add: usable_def)
  ultimately have "count_free E (with_free (int (Suc (Suc n))) free s) k = count_free E (with_free (int (Suc n)) free s) (k + 1)"
    using count_step by simp
  then show ?case using Suc.IH [of "k + 1"] Suc.prems by simp
qed simp

lemma count_list:
  "free_list E s n free xs \<Longrightarrow>
   \<exists>n' free'. count_free E (with_free (int n) free s) k = Some (Done (k + length xs, with_free n' free' s))"
proof (induction arbitrary: k rule: free_list.induct)
  case (empty free)
  have "s16 (- 1) = - 1" by (simp add: s16_small)
  then have "unixfs_internal_alloc E (with_free 0 free s) = Done (0, with_free 0 free s)"
    by (simp add: unixfs_internal_alloc_def with_free_def upd_fs_def)
  then show ?case using count_step [of E "with_free 0 free s" 0 _ k] by auto
next
  case (last n free)
  have "unixfs_internal_alloc E (with_free 1 free s) = Done (0, with_free 0 free s)"
    using alloc_with [of 0 E free s] last(3) by simp
  then show ?case using count_pops [OF last(1,2), of E k] count_step [of E "with_free 1 free s"] by auto
next
  case (link n free b n' free' xs)
  have "unixfs_internal_alloc E (with_free 1 free s) = Done (free ! 0, with_free (int n') free' s)"
    using alloc_with [of 0 E free s] link(3,4,5) by (simp add: usable_def)
  moreover have "free ! 0 \<noteq> 0" using link(3) by (simp add: usable_def)
  ultimately have "count_free E (with_free 1 free s) (k + n) = count_free E (with_free (int n') free' s) (k + n + 1)"
    using count_step by simp
  moreover have "length (map ((!) free) (rev [1..<Suc n]) @ free ! 0 # xs) = n + 1 + length xs"
    by (simp del: upt_Suc)
  ultimately show ?case
    using count_pops [OF link(1,2), of E k] link.IH [of "k + n + 1"] by (simp add: add.assoc del: upt_Suc length_append)
qed

lemma count_stays:
  assumes "unixfs_internal_alloc E s = Done (b, s)" and "b \<noteq> 0"
  shows "count_free E s k = None"
proof -
  have "count_free E' s' k \<noteq> Some r" if "E' = E" "s' = s" for E' s' k r
  proof
    assume "count_free E' s' k = Some r"
    then show False
      using that
    proof (induction rule: count_free.raw_induct [rotated 1, consumes 1])
      case (1 f E' s' k r)
      then show ?case using assms by simp
    qed
  qed
  then show ?thesis by (metis not_Some_eq)
qed

section \<open>When attributes can be had\<close>

text \<open>An inode is given out unless memory is missing or its block is not on the disk; otherwise the code aborts.\<close>

lemma v7_iget_returns:
  assumes h: "v7_holds E s0 s hs" and len: "length hs < 2 ^ 32 - 2"
    and mem: "e_calloc E (root_ino ino)" and ok: "disk_inode E s0 (root_ino ino) \<noteq> None"
  shows "\<exists>a s'. unixfs_internal_iget E ino s = U_Ret (Some a) s'"
proof -
  have calm: "calm (s_layer s) hs" "length hs + 1 < 2 ^ 32" using h len by (simp_all add: v7_holds_def)
  have "unixfs_internal_iget E ino s \<noteq> U_Abort"
  proof (rule iget_alone [OF calm, of zero_inode "e_calloc E (root_ino ino)" "root_ino ino"])
    assume "\<not> e_calloc E (root_ino ino)"
    with mem show ?thesis by simp
  next
    fix a L' n
    assume get: "unixfs_inodelayer_iget zero_inode (e_calloc E (root_ino ino)) (root_ino ino) (s_layer s) =
        Done (Some (Some a, L'))" and n: "il_heap L' a = Some n"
    have "same_disk s0 (upd_layer L' s)" using h by (simp add: v7_holds_def)
    from bread_same [OF this] have "bread E (upd_layer L' s) (itod (root_ino ino)) \<noteq> Panic"
      using ok by (auto simp: disk_inode_def split: outcome.splits)
    then obtain r where "bread E (upd_layer L' s) (itod (root_ino ino)) = Done r"
      by (cases "bread E (upd_layer L' s) (itod (root_ino ino))") auto
    with get n show ?thesis
      by (cases r) (auto simp: unixfs_internal_iget_def node_at_def iget_read_def Let_def unixfs_inodelayer_ifailed_def
          upd_inode_def unixfs_inodelayer_isucceeded_def put_inode_def)
  qed
  with v7_iget [OF h len, of ino] ok show ?thesis
    by (cases "unixfs_internal_iget E ino s") (auto split: option.splits)
qed

lemma v7_iput_returns: "v7_holds E s0 s hs \<Longrightarrow> a \<in> set hs \<Longrightarrow> \<exists>s'. unixfs_internal_iput a s = U_Ret () s'"
  using iput_alone [of "s_layer s" hs a] by (auto simp: v7_holds_def unixfs_internal_iput_def)

lemma v7_igetattr_returns:
  assumes h: "v7_holds E s0 s hs" and len: "length hs < 2 ^ 32 - 2"
    and mem: "e_calloc E (root_ino ino)" and ok: "disk_inode E s0 (root_ino ino) = Some ip"
  shows "\<exists>s'. unixfs_internal_igetattr E ino s = U_Ret (0, root_ino ino, I_stat ip) s'"
proof -
  have root: "root_ino (root_ino ino) = root_ino ino" by (simp add: root_ino_def)
  from v7_iget_returns [OF h len, of "root_ino ino"] mem ok
  obtain a s1 where g: "unixfs_internal_iget E (root_ino ino) s = U_Ret (Some a) s1" by (auto simp: root)
  from v7_iget [OF h len, of "root_ino ino"] have s1: "v7_holds E s0 s1 (a # hs)" unfolding g by simp
  from v7_iput_returns [OF s1, of a] v7_istat [OF s1, of a]
  have "\<exists>res s'. unixfs_internal_igetattr E ino s = U_Ret res s'"
    by (auto simp: unixfs_internal_igetattr_def g)
  with v7_igetattr [OF h len, of ino] ok show ?thesis by auto
qed

section \<open>From the start on\<close>

lemma alloc_layer: "unixfs_internal_alloc E s = Done (b, s1) \<Longrightarrow> s_layer s1 = s_layer s"
  by (auto simp: unixfs_internal_alloc_def Let_def upd_fs_def bind_outcome_Done_iff split: if_splits prod.splits)

lemma count_layer: "count_free E s k = Some (Done (n, s1)) \<Longrightarrow> s_layer s1 = s_layer s"
proof -
  have "r = Done (n, s1) \<longrightarrow> s_layer s1 = s_layer s" if "count_free E s k = Some r" for r
    using that
  proof (induction rule: count_free.raw_induct [rotated 1, consumes 1])
    case (1 f E s k r)
    then show ?case by (auto split: outcome.splits if_splits dest: alloc_layer)
  qed
  then show "count_free E s k = Some (Done (n, s1)) \<Longrightarrow> s_layer s1 = s_layer s" by blast
qed

lemma start_holds: "v7_holds E (start_block E fse b) (start_block E fse b) []"
  using start_ok [of 0] by (simp add: v7_holds_def start_block_def fresh_layer_def Let_def)

lemma sanitycheck_holds:
  assumes "v7_holds E s0 s []"
  shows "good (\<lambda>_ s'. v7_holds E s0 s' []) (unixfs_internal_sanitycheck E disksize s)"
proof -
  have "good (\<lambda>_ s'. v7_holds E s0 s' []) (unixfs_internal_igetattr E ROOTINO s)"
    by (rule good_mono [OF v7_igetattr [OF assms]]) auto
  then show ?thesis
    using assms unfolding unixfs_internal_sanitycheck_def
    by (cases "unixfs_internal_igetattr E ROOTINO s") (simp_all add: Let_def split_def)
qed

lemma init_holds:
  assumes "unixfs_internal_init E I force fse = Some (Done (Some s))"
  shows "v7_holds E s s []"
proof -
  let ?s0 = "start_block E fse (e_pread E (int BSIZE) BSIZE)"
  from assms obtain ret s1 where check: "unixfs_internal_sanitycheck E (i_size I) ?s0 = U_Ret ret s1"
    and counts: "start_counts E s1 = Some (Done (Some s))"
    by (auto simp: unixfs_internal_init_def Let_def split: if_splits urun.splits)
  have "calm (s_layer s1) []"
    using sanitycheck_holds [OF start_holds, of E fse "e_pread E (int BSIZE) BSIZE" "i_size I"]
    unfolding check by (simp add: v7_holds_def)
  moreover obtain files ffree n s2 where "count_free E s1 0 = Some (Done (n, s2))" "s_layer s = s_layer s2"
    using counts by (auto simp: start_counts_def split: outcome.splits prod.splits option.splits)
  ultimately have "calm (s_layer s) []" using count_layer by simp
  then show ?thesis by (simp add: v7_holds_def)
qed

lemma holds_counts:
  assumes "v7_holds E s0 s hs"
  shows "il_heap (s_layer s) a = (if a \<in> set hs then il_heap (s_layer s) a else None)"
    and "il_heap (s_layer s) a = Some n \<Longrightarrow> unat (I_count n) = count_list hs a"
proof -
  have inv: "calm (s_layer s) hs" using assms by (simp add: v7_holds_def)
  have uses: "how_many uses a (map A_hold hs) = count_list hs a" by (induction hs) (auto simp: how_many_def)
  have owns: "how_many owns a (map A_hold hs) = 0" by (auto simp: how_many_def filter_empty_conv)
  show count: "unat (I_count n) = count_list hs a" if "il_heap (s_layer s) a = Some n"
    using inv_address [OF inv, of a] that uses owns
    by (auto simp: address_ok_def inode_ok_def private_ok_def split: if_splits)
  have "a \<in> set hs" if "il_heap (s_layer s) a \<noteq> None"
    using inv_address [OF inv, of a] that uses owns count_list_0_iff [of hs a]
    by (auto simp: address_ok_def inode_ok_def private_ok_def split: if_splits)
  then show "il_heap (s_layer s) a = (if a \<in> set hs then il_heap (s_layer s) a else None)" by (metis (full_types))
qed

lemma holds_exactly:
  assumes h: "v7_holds E s s' hs"
  shows "dom (il_heap (s_layer s')) = set hs \<and>
      (\<forall>a n. il_heap (s_layer s') a = Some n \<longrightarrow>
         unat (I_count n) = count_list hs a \<and> disk_inode E s (I_number n) = Some (I_data n))"
proof -
  have "a \<in> set hs \<longleftrightarrow> il_heap (s_layer s') a \<noteq> None" for a
    using holds_counts(1) [OF h, of a] h by (auto simp: v7_holds_def split: if_splits)
  moreover have "disk_inode E s (I_number n) = Some (I_data n)" if "il_heap (s_layer s') a = Some n" for a n
    using holds_counts(1) [OF h, of a] h that by (fastforce simp: v7_holds_def split: if_splits)
  ultimately show ?thesis using holds_counts(2) [OF h] by auto
qed

end
