(* ===== verification/Unixfs_V7_Sample.thy ===== *)
theory Unixfs_V7_Sample
  imports Unixfs_V7_Laws
begin

text \<open>
  A small disk on which the properties of the reader can be tried.
\<close>

section \<open>A small disk\<close>

text \<open>Ten blocks: the super block, one block of inodes, a directory with two names and a file of five bytes.\<close>

definition sparse_byte :: "(nat \<times> u8) list \<Rightarrow> nat \<Rightarrow> u8" where
  "sparse_byte l i = (case map_of l i of Some b \<Rightarrow> b | None \<Rightarrow> 0)"

definition sparse :: "(nat \<times> u8) list \<Rightarrow> bytes" where
  "sparse l = map (sparse_byte l) [0..<BSIZE]"

lemma sparse_length [simp]: "length (sparse l) = BSIZE"
  by (simp add: sparse_def)

lemma sparse_nth: "i < BSIZE \<Longrightarrow> sparse l ! i = sparse_byte l i"
  by (simp add: sparse_def)

lemma sparse_take_drop: "k + n \<le> BSIZE \<Longrightarrow> take n (drop k (sparse l)) = map (sparse_byte l) [k..<k + n]"
  by (simp add: sparse_def drop_map take_map)

lemma field_sparse:
  "k + n \<le> BSIZE \<Longrightarrow> field_at k n (sparse l) = le_value (map (sparse_byte l) [k..<k + n])"
  by (simp add: field_at_def sparse_take_drop)

lemma field_drop: "field_at k n (drop j b) = field_at (j + k) n b"
  by (simp add: field_at_def add.commute)

definition sample_inodes :: bytes where
  "sample_inodes = sparse [(65, 0x40), (66, 1), (74, 32), (77, 6), (129, 0x80), (130, 1), (138, 5), (141, 7)]"

definition sample_pread :: "int \<Rightarrow> nat \<Rightarrow> bytes" where
  "sample_pread off n =
     (if off = 512 then sparse [(0, 3), (4, 10), (6, 2), (14, 5), (416, 1)]
      else if off = 1024 then sample_inodes
      else if off = 3072 then sparse [(0, 2), (2, 46), (16, 3), (18, 97)]
      else if off = 3584 then sparse [(0, 104), (1, 101), (2, 108), (3, 108), (4, 111)]
      else replicate BSIZE 0)"

definition sample_disk :: v7_env where
  "sample_disk = \<lparr>e_pread = sample_pread, e_calloc = (\<lambda>_. True)\<rparr>"

definition sample_start :: v7_start where
  "sample_start = \<lparr>i_open = True, i_fstat = 0, i_mode = 0x81A4, i_size = 5120, i_mem_sb = True, i_mem_fs = True,
     i_layer = True, i_mem_ubuf = True\<rparr>"

definition sample_block :: super_block where
  "sample_block = start_block sample_disk UNIXFS_FS_INVALID (sample_pread 512 BSIZE)"

named_theorems sample

lemma sample_fs [sample]:
  "s_endian sample_block = UNIXFS_FS_PDP"
  "s_isize (s_fs_info sample_block) = 3"
  "s_fsize (s_fs_info sample_block) = 10"
  "s_nfree (s_fs_info sample_block) = 2"
  "s_ninode (s_fs_info sample_block) = 0"
  "s_time (s_fs_info sample_block) = 1"
  "s_free (s_fs_info sample_block) ! 0 = 0"
  "s_free (s_fs_info sample_block) ! 1 = 5"
  by (simp_all add: sample_block_def start_block_def read_filsys_def sample_pread_def mem16_def mem32_def int16_def
      int32_def field_sparse sparse_byte_def upt_rec fs16_to_host_def fs32_to_host_def pdp11_to_host_def)
lemma sample_bread [sample]:
  "s_fsize (s_fs_info s) = 10 \<Longrightarrow> bread sample_disk s 2 = Done (0, sample_inodes)"
  "s_fsize (s_fs_info s) = 10 \<Longrightarrow> bread sample_disk s 6 = Done (0, sparse [(0, 2), (2, 46), (16, 3), (18, 97)])"
  "s_fsize (s_fs_info s) = 10 \<Longrightarrow> bread sample_disk s 7 = Done (0, sparse [(0, 104), (1, 101), (2, 108), (3, 108), (4, 111)])"
  by (simp_all add: bread_def sample_disk_def sample_pread_def sample_inodes_def)

definition sample_root :: v7_inode where "sample_root = read_dinode UNIXFS_FS_PDP (drop 64 sample_inodes)"
definition sample_file :: v7_inode where "sample_file = read_dinode UNIXFS_FS_PDP (drop 128 sample_inodes)"

lemma sample_disk_inode [sample]:
  assumes "s_fsize (s_fs_info s) = 10" "s_endian s = UNIXFS_FS_PDP"
  shows "disk_inode sample_disk s 2 = Some sample_root" and "disk_inode sample_disk s 3 = Some sample_file"
proof -
  have "(17 :: nat) AND 7 = 1" "(18 :: nat) AND 7 = 2" by (simp_all add: and_nat_def)
  then show "disk_inode sample_disk s 2 = Some sample_root" and "disk_inode sample_disk s 3 = Some sample_file"
    using assms by (simp_all add: disk_inode_def itod_def itoo_def sample sample_root_def sample_file_def)
qed

lemma sample_dinode [sample]:
  "st_mode (I_stat sample_root) = 0x4000" "st_size (I_stat sample_root) = 32" "I_daddr sample_root ! 0 = 6"
  "st_mode (I_stat sample_file) = 0x8000" "st_size (I_stat sample_file) = 5" "I_daddr sample_file ! 0 = 7"
  by (simp_all add: sample_root_def sample_file_def read_dinode_def Let_def mem16_def mem32_def field_drop sample_inodes_def
      field_sparse dinode_daddr_def sparse_nth sparse_byte_def upt_rec fs16_to_host_def fs32_to_host_def pdp11_to_host_def)
lemma root_two [simp]: "root_ino 2 = 2"
  by (simp add: root_ino_def)

lemma sample_check: "\<exists>s. unixfs_internal_sanitycheck sample_disk 5120 sample_block = U_Ret 0 s \<and> same_disk sample_block s"
proof -
  have h: "v7_holds sample_disk sample_block sample_block []"
    unfolding sample_block_def by (rule start_holds)
  have "e_calloc sample_disk (root_ino 2)" by (simp add: sample_disk_def)
  with v7_igetattr_returns [OF h, of 2 sample_root] sample_disk_inode(1) [OF sample_fs(3,1)]
  obtain s where g: "unixfs_internal_igetattr sample_disk ROOTINO sample_block = U_Ret (0, 2, I_stat sample_root) s" by auto
  with v7_igetattr [OF h, of 2] have "same_disk sample_block s" by (simp add: v7_holds_def)
  moreover have "\<not> 5120 < s32 (10 * int BSIZE)" by (simp add: s32_def)
  ultimately show ?thesis
    by (simp add: unixfs_internal_sanitycheck_def Let_def g sample S_ISDIR_def)
qed

lemma sample_counts: "count_block sample_inodes (0, 0) = (2, 6)"
  by (simp add: upt_rec count_block_def sample_inodes_def field_sparse sparse_byte_def)

lemma sample_mounts: "\<exists>s. unixfs_internal_init sample_disk sample_start False UNIXFS_FS_INVALID = Some (Done (Some s)) \<and>
    s_fsize (s_fs_info s) = 10 \<and> s_endian s = UNIXFS_FS_PDP \<and> f_bfree (s_statvfs s) = 1 \<and> f_files (s_statvfs s) = 2"
proof -
  obtain s where c: "unixfs_internal_sanitycheck sample_disk 5120 sample_block = U_Ret 0 s" and d: "same_disk sample_block s"
    using sample_check by blast
  have fs: "s_fs_info s = s_fs_info sample_block" "s_endian s = UNIXFS_FS_PDP"
    using d sample by (simp_all add: same_disk_def)
  have "free_list sample_disk s (Suc 1) (s_free (s_fs_info sample_block)) (map ((!) (s_free (s_fs_info sample_block))) (rev [1..<Suc 1]))"
    by (rule free_list.last) (simp_all add: usable_def fs sample sample_fs(8) [simplified])
  from count_list [OF this, of 0] with_free_same [of s] obtain n' free' where
    count: "count_free sample_disk s 0 = Some (Done (1, with_free n' free' s))" by (auto simp: fs sample)
  have inodes: "count_inodes sample_disk s [2..<3] (0, 0) = Done (2, 6)"
    using sample_counts by (simp add: upt_rec sample fs)
  have isize: "unat (s_isize (s_fs_info s)) = 3" by (simp add: fs sample)
  have "start_counts sample_disk s = Some (Done (Some ((with_free n' free' s)\<lparr>s_statvfs :=
      (s_statvfs (with_free n' free' s))\<lparr>f_files := 2, f_ffree := 6, f_blocks := s_fsize (s_fs_info (with_free n' free' s)),
        f_bfree := 1, f_bavail := 1, f_namemax := DIRSIZ\<rparr>\<rparr>)))"
    unfolding start_counts_def isize inodes count by simp
  moreover have "unixfs_internal_init sample_disk sample_start False UNIXFS_FS_INVALID = start_counts sample_disk s"
    using c unfolding sample_block_def
    by (simp add: unixfs_internal_init_def sample_start_def S_ISREG_def Let_def sample_disk_def sample_pread_def)
  moreover have "s_fsize (s_fs_info (with_free n' free' s)) = 10" by (simp add: with_free_def upd_fs_def fs sample)
  ultimately show ?thesis using fs(2) by simp
qed
section \<open>What the small disk holds\<close>

lemma sample_block_six: "intact sample_disk s sample_root 1 \<and>
    content sample_disk s sample_root 1 = sparse [(0, 2), (2, 46), (16, 3), (18, 97)]"
  if "s_fsize (s_fs_info s) = 10" "s_endian s = UNIXFS_FS_PDP"
proof -
  have "bmap sample_disk s sample_root 0 = Done (6, 0)" by (simp add: bmap_def s32_def sample)
  then have "file_block sample_disk s sample_root 0 = Some (sparse [(0, 2), (2, 46), (16, 3), (18, 97)])"
    using that by (simp add: file_block_def sample)
  then show ?thesis by (simp add: intact_def content_def)
qed

lemma sample_block_seven: "intact sample_disk s sample_file 1 \<and>
    content sample_disk s sample_file 1 = sparse [(0, 104), (1, 101), (2, 108), (3, 108), (4, 111)]"
  if "s_fsize (s_fs_info s) = 10" "s_endian s = UNIXFS_FS_PDP"
proof -
  have "bmap sample_disk s sample_file 0 = Done (7, 0)" by (simp add: bmap_def s32_def sample)
  then have "file_block sample_disk s sample_file 0 = Some (sparse [(0, 104), (1, 101), (2, 108), (3, 108), (4, 111)])"
    using that by (simp add: file_block_def sample)
  then show ?thesis by (simp add: intact_def content_def)
qed

text \<open>The second name of the directory is the one that is looked for.\<close>

lemma sample_names:
  assumes "s_fsize (s_fs_info s) = 10" "s_endian s = UNIXFS_FS_PDP"
  shows "\<exists>d. find (names UNIXFS_FS_PDP [97]) (map (dir_entry sample_disk s sample_root 1) [0..<2]) = Some d \<and>
    u_ino UNIXFS_FS_PDP d = 3"
proof -
  let ?d = "dir_entry sample_disk s sample_root 1"
  have d: "?d k = map (sparse_byte [(0, 2), (2, 46), (16, 3), (18, 97)]) [16 * k..<16 * k + 16]" if "k < 2" for k
    unfolding dir_entry_def conjunct2 [OF sample_block_six [OF assms]] using that by (intro sparse_take_drop) simp
  note defs = names_def u_ino_def u_name_def mem16_def field_at_def sparse_byte_def upt_rec fs16_to_host_def strncmp_eq_def
  have e0: "\<not> names UNIXFS_FS_PDP [97] (?d 0)" using d [of 0] by (simp add: defs)
  have e1: "names UNIXFS_FS_PDP [97] (?d 1)" "u_ino UNIXFS_FS_PDP (?d 1) = 3" using d [of 1] by (simp_all add: defs)
  have "[0..<2] = [0, 1 :: nat]" by (simp add: upt_rec)
  then show ?thesis using e0 e1 by simp
qed

text \<open>A state of the daemon after its start, and one in which the file is open.\<close>

lemma sample_started:
  obtains s where "unixfs_internal_init sample_disk sample_start False UNIXFS_FS_INVALID = Some (Done (Some s))"
    "v7_holds sample_disk s s []" "s_fsize (s_fs_info s) = 10" "s_endian s = UNIXFS_FS_PDP"
  using sample_mounts init_holds by blast

lemma sample_open:
  obtains s0 s a n where "v7_holds sample_disk s0 s [a]" "il_heap (s_layer s) a = Some n" "I_data n = sample_file"
    "s_fsize (s_fs_info s) = 10" "s_endian s = UNIXFS_FS_PDP"
proof -
  obtain s0 where h: "v7_holds sample_disk s0 s0 []" and fs: "s_fsize (s_fs_info s0) = 10" "s_endian s0 = UNIXFS_FS_PDP"
    by (rule sample_started)
  have three: "root_ino 3 = 3" by (simp add: root_ino_def)
  have d: "disk_inode sample_disk s0 3 = Some sample_file" by (rule sample_disk_inode(2) [OF fs])
  obtain a s where g: "unixfs_internal_iget sample_disk 3 s0 = U_Ret (Some a) s"
    using v7_iget_returns [OF h, of 3] d by (auto simp: three sample_disk_def)
  from v7_iget [OF h, of 3] obtain n where "v7_holds sample_disk s0 s [a]" "il_heap (s_layer s) a = Some n" "I_number n = 3"
    by (auto simp: g three)
  moreover from this d have "I_data n = sample_file" by (auto simp: v7_holds_def)
  ultimately show thesis using fs by (intro that [of s0 s a n]) (auto simp: v7_holds_def same_disk_def)
qed

end
