(* ===== verification/Unixfs_V7_Props.thy ===== *)
theory Unixfs_V7_Props
  imports Unixfs_V7_Sample
begin

text \<open>
  The properties of the reader of Seventh Edition disks and of the handlers on it.
\<close>

text \<open>
  C14: The loops of \<^verbatim>\<open>unixfs_internal_bmap\<close> with their shifts and masks find, for every block number, what
  the tree of indirect blocks has there: a block, a hole, an error of the disk, or a number that is out of range.
\<close>

theorem bmap_follows_tree: "bmap E s ip lblkno = file_block_at E s ip (s32 lblkno)"
proof (cases "s32 lblkno < 0")
  case False
  define k where "k = nat (s32 lblkno)"
  have k: "s32 lblkno = int k" using False by (simp add: k_def)
  note level = bmap_level [OF k, of _ _ E s ip]
  consider "k < 10" | "\<not> k < 10" "k - 10 < 128" | "\<not> k < 10" "\<not> k - 10 < 128" "k - 10 - 128 < 128 ^ 2"
    | "\<not> k < 10" "\<not> k - 10 < 128" "\<not> k - 10 - 128 < 128 ^ 2" "k - 10 - 128 - 128 ^ 2 < 128 ^ 3"
    | "\<not> k < 10" "\<not> k - 10 < 128" "\<not> k - 10 - 128 < 128 ^ 2" "\<not> k - 10 - 128 - 128 ^ 2 < 128 ^ 3"
    by blast
  then show ?thesis
  proof cases
    case 1
    then show ?thesis by (simp add: bmap_def file_block_at_def k Let_def root_block_def)
  next
    case 2
    have "file_block_at E s ip (s32 lblkno) = root_block E s ip 10 1 (k - 10)"
      unfolding file_block_at_def k Let_def using 2 by simp
    with level [OF 2(1), of 3 "k - 10"] levels(1) [OF 2(2)] 2 show ?thesis by simp
  next
    case 3
    have "file_block_at E s ip (s32 lblkno) = root_block E s ip 11 2 (k - 10 - 128)"
      unfolding file_block_at_def k Let_def using 3 by simp
    with level [OF 3(1), of 2 "k - 10 - 128"] levels(2) [OF 3(2,3)] 3 show ?thesis by simp
  next
    case 4
    have "file_block_at E s ip (s32 lblkno) = root_block E s ip 12 3 (k - 10 - 128 - 128 ^ 2)"
      unfolding file_block_at_def k Let_def using 4 by simp
    with level [OF 4(1), of 1 "k - 10 - 128 - 128 ^ 2"] levels(3) [OF 4(2,3,4)] 4 show ?thesis by simp
  next
    case 5
    have "file_block_at E s ip (s32 lblkno) = Done (0, EFBIG)"
      unfolding file_block_at_def k Let_def using 5 by simp
    moreover obtain j sh m where l: "bmap_levels 3 0 1 (k - 10) = (j, sh, m)" by (cases "bmap_levels 3 0 1 (k - 10)")
    ultimately show ?thesis
      using levels(4) [OF 5(2,3,4)] 5(1) unfolding bmap_def k by simp
  qed
qed (simp add: bmap_def file_block_at_def)

text \<open>
  C16: Reading an open file whose blocks can all be read replies with bytes of its content: from the start of
  the block that the offset is in, so exactly the bytes that were asked for when the offset is a multiple of
  the size of a block, and other bytes when it is not. Nothing beyond the size of the file is returned.
\<close>

theorem read_replies_content:
  assumes "v7_holds E s0 s hs" and "fh \<in> set hs" and "il_heap (s_layer s) fh = Some n"
    and "st_size (I_stat (I_data n)) = int fsize" and "intact E s (I_data n) ((fsize + 511) div BSIZE)"
    and "0 < count" and "off \<le> fsize" and "e_buffer M (min count (fsize - off))"
  shows "\<exists>b. unixfs_ll_read (ops_v7 E) M fh count (int off) s = U_Ret [Reply_buf b] s \<and>
    b = take (min count (fsize - off)) (drop (off - off mod BSIZE) (content E s (I_data n) ((fsize + 511) div BSIZE))) \<and>
    (off mod BSIZE = 0 \<longrightarrow> b = take count (drop off (take fsize (content E s (I_data n) ((fsize + 511) div BSIZE)))))"
proof -
  have "BSIZE * (off div BSIZE) = off - off mod BSIZE" by (simp add: minus_mod_eq_mult_div)
  moreover have "min count (fsize - off) + off = min fsize (count + off)" using assms(7) by linarith
  ultimately show ?thesis
    using read_content [OF assms refl] by (simp add: take_drop min.commute)
qed

theorem read_replies_content_witness:
  "\<exists>s a. unixfs_ll_read (ops_v7 sample_disk) \<lparr>e_dirsize = \<lambda>_. 0, e_direntry = \<lambda>_ _ _. [], e_buffer = \<lambda>_. True\<rparr> a 9 0 s =
     U_Ret [Reply_buf [104, 101, 108, 108, 111]] s"
proof -
  let ?M = "\<lparr>e_dirsize = \<lambda>_. 0, e_direntry = \<lambda>_ _ _. [], e_buffer = \<lambda>_. True\<rparr>"
  obtain s0 s a n where h: "v7_holds sample_disk s0 s [a]" "il_heap (s_layer s) a = Some n" "I_data n = sample_file"
    "s_fsize (s_fs_info s) = 10" "s_endian s = UNIXFS_FS_PDP" by (rule sample_open)
  have c: "intact sample_disk s sample_file 1"
    "content sample_disk s sample_file 1 = sparse [(0, 104), (1, 101), (2, 108), (3, 108), (4, 111)]"
    using sample_block_seven [OF h(4,5)] by blast+
  have five: "take 5 (sparse [(0, 104), (1, 101), (2, 108), (3, 108), (4, 111)]) = [104, 101, 108, 108, 111]"
    using sparse_take_drop [of 0 5] by (simp add: sparse_byte_def upt_rec)
  have m: "(5 + 511) div BSIZE = 1" by simp
  have "\<exists>b. unixfs_ll_read (ops_v7 sample_disk) ?M a 9 (int 0) s = U_Ret [Reply_buf b] s \<and>
      b = take (min 9 (5 - 0)) (drop (0 - 0 mod BSIZE) (content sample_disk s (I_data n) ((5 + 511) div BSIZE))) \<and>
      (0 mod BSIZE = 0 \<longrightarrow> b = take 9 (drop 0 (take 5 (content sample_disk s (I_data n) ((5 + 511) div BSIZE)))))"
    by (rule read_replies_content [OF h(1) _ h(2)]) (use c h(3) in \<open>simp_all only: m, simp_all add: sample\<close>)
  then show ?thesis unfolding h(3) m c(2) using five by auto
qed

text \<open>
  C15: Looking a name up in a directory whose blocks can be read replies with the number and the attributes
  that the disk has for the first entry that is in use and has this name in its first 14 bytes, whatever is
  cached; without one it replies ENOENT, but EFBIG if the directory has more than 2048 entries, because the
  offset is a 16-bit integer: later entries are never seen.
\<close>

theorem lookup_finds_first_entry:
  assumes "v7_holds E s0 s hs" and "length hs + 1 < 2 ^ 32 - 2"
    and "disk_inode E s0 (root_ino parent) = Some ip" and "S_ISDIR (st_mode (I_stat ip))"
    and "nat (st_size (I_stat ip) div int dentsize) = entries"
    and "intact E s0 ip m" and "min entries 2048 \<le> 32 * m"
  shows "good (\<lambda>rs s'. v7_holds E s0 s' hs \<and>
    rs = (case find (names (s_endian s0) name) (map (dir_entry E s0 ip m) [0..<min entries 2048]) of
            None \<Rightarrow> [Reply_err (if 2048 < entries then EFBIG else ENOENT)]
          | Some d \<Rightarrow>
              (let ino = root_ino (ucast (u_ino (s_endian s0) d))
               in case disk_inode E s0 ino of
                    None \<Rightarrow> [Reply_err ENOENT] | Some f \<Rightarrow> [Reply_entry ino (ino, I_stat f)])))
    (unixfs_ll_lookup (ops_v7 E) parent name s)"
proof -
  define f where "f = find (names (s_endian s0) name) (map (dir_entry E s0 ip m) [0..<min entries 2048])"
  have "namei_loop E s0 ip name entries 0 [] =
      Done (search_result (s_endian s0) name (map (dir_entry E s0 ip m) [0..<min entries 2048]) (2048 < entries))"
    using namei_scan [OF assms(6), of 0 entries "[]" name] assms(7) by (simp add: s16_def)
  then have l: "lookup_disk E s0 parent name =
      (case f of
         None \<Rightarrow> Done (Inl (if 2048 < entries then EFBIG else ENOENT))
       | Some d \<Rightarrow> (case disk_inode E s0 (root_ino (ucast (u_ino (s_endian s0) d))) of
           None \<Rightarrow> Done (Inl ENOENT) | Some f \<Rightarrow> Done (Inr (root_ino (ucast (u_ino (s_endian s0) d)), I_stat f))))"
    using assms(3,4,5) unfolding f_def [symmetric] search_result_def
    by (simp add: lookup_disk_def split: option.splits)
  show ?thesis
    unfolding f_def [symmetric] using v7_lookup [OF assms(1,2), of parent name] unfolding l
    by (elim good_mono) (cases f; simp split: option.splits if_splits add: Let_def)
qed

theorem lookup_finds_first_entry_witness:
  "\<exists>s. unixfs_internal_init sample_disk sample_start False UNIXFS_FS_INVALID = Some (Done (Some s)) \<and>
     good (\<lambda>rs _. rs = [Reply_entry 3 (3, I_stat sample_file)]) (unixfs_ll_lookup (ops_v7 sample_disk) 1 [97] s)"
proof -
  obtain s where s: "unixfs_internal_init sample_disk sample_start False UNIXFS_FS_INVALID = Some (Done (Some s))"
    "v7_holds sample_disk s s []" "s_fsize (s_fs_info s) = 10" "s_endian s = UNIXFS_FS_PDP" by (rule sample_started)
  have r: "root_ino 1 = 2" "root_ino 3 = 3" by (simp_all add: root_ino_def)
  have ok: "intact sample_disk s sample_root 1" using sample_block_six [OF s(3,4)] by blast
  obtain d where d: "find (names UNIXFS_FS_PDP [97]) (map (dir_entry sample_disk s sample_root 1) [0..<2]) = Some d"
    "u_ino UNIXFS_FS_PDP d = 3" using sample_names [OF s(3,4)] by blast
  have "good (\<lambda>rs s'. v7_holds sample_disk s s' [] \<and>
      rs = (case find (names (s_endian s) [97]) (map (dir_entry sample_disk s sample_root 1) [0..<min 2 2048]) of
            None \<Rightarrow> [Reply_err (if 2048 < (2 :: nat) then EFBIG else ENOENT)]
          | Some d \<Rightarrow>
              (let ino = root_ino (ucast (u_ino (s_endian s) d))
               in case disk_inode sample_disk s ino of
                    None \<Rightarrow> [Reply_err ENOENT] | Some f \<Rightarrow> [Reply_entry ino (ino, I_stat f)])))
      (unixfs_ll_lookup (ops_v7 sample_disk) 1 [97] s)"
    by (rule lookup_finds_first_entry [OF s(2)]) (use ok in \<open>simp_all add: r sample s(3,4) S_ISDIR_def\<close>)
  then have "good (\<lambda>rs _. rs = [Reply_entry 3 (3, I_stat sample_file)]) (unixfs_ll_lookup (ops_v7 sample_disk) 1 [97] s)"
    by (rule good_mono) (use d in \<open>simp add: s(3,4) r sample Let_def\<close>)
  with s(1) show ?thesis by blast
qed

text \<open>
  C37: On a disk with a well formed free list the loop that counts the free blocks ends with their number; of
  the state it changes nothing but the part of the list in memory.
\<close>

theorem free_blocks_counted:
  assumes "free_list E s n free xs" and "s_nfree (s_fs_info s) = int n" and "s_free (s_fs_info s) = free"
  shows "\<exists>n' free'. count_free E s 0 = Some (Done (length xs, with_free n' free' s))"
  using count_list [OF assms(1), of 0] with_free_same [of s] assms(2,3) by simp

theorem free_blocks_counted_witness:
  "\<exists>n' free'. count_free sample_disk sample_block 0 = Some (Done (1, with_free n' free' sample_block))"
proof -
  have "free_list sample_disk sample_block (Suc 1) (s_free (s_fs_info sample_block))
      (map ((!) (s_free (s_fs_info sample_block))) (rev [1..<Suc 1]))"
    by (rule free_list.last) (simp_all add: usable_def sample sample_fs(8) [simplified])
  from free_blocks_counted [OF this] show ?thesis by (simp add: sample)
qed

text \<open>
  C38: A damaged disk whose free list leads back to itself keeps the start of the daemon from ever ending: the
  loop has no bound and does not notice the cycle.
\<close>

theorem cyclic_free_list_hangs:
  assumes "usable s b" and "bread E s b = Done (0, buf)" and "read_fblk (s_endian s) buf = (1, free)" and "free ! 0 = b"
    and "s_nfree (s_fs_info s) = 1" and "s_free (s_fs_info s) = free"
  shows "count_free E s 0 = None"
proof (rule count_stays)
  show "unixfs_internal_alloc E s = Done (b, s)"
    using alloc_with [of 0 E free s] assms with_free_same [of s] by (simp add: usable_def)
  show "b \<noteq> 0" using assms(1) by (simp add: usable_def)
qed

theorem cyclic_free_list_hangs_witness:
  "\<exists>free. count_free \<lparr>e_pread = \<lambda>_ _. sparse [(0, 1), (4, 5)], e_calloc = \<lambda>_. True\<rparr> (with_free 1 free sample_block) 0 = None"
proof -
  let ?E = "\<lparr>e_pread = \<lambda>_ _. sparse [(0, 1), (4, 5)], e_calloc = \<lambda>_. True\<rparr>"
  let ?b = "sparse [(0, 1), (4, 5)]"
  let ?free = "snd (read_fblk UNIXFS_FS_PDP ?b)"
  have one: "fst (read_fblk UNIXFS_FS_PDP ?b) = 1" and five: "?free ! 0 = 5"
    by (simp_all add: read_fblk_def int16_def int32_def mem16_def mem32_def field_sparse sparse_byte_def upt_rec
        fs16_to_host_def fs32_to_host_def pdp11_to_host_def)
  have "count_free ?E (with_free 1 ?free sample_block) 0 = None"
  proof (rule cyclic_free_list_hangs [where b = 5 and buf = ?b and free = ?free])
    show "read_fblk (s_endian (with_free 1 ?free sample_block)) ?b = (1, ?free)" using one by (simp add: sample prod_eq_iff)
  qed (use five in \<open>simp_all add: usable_def sample bread_def with_free_get\<close>)
  then show ?thesis by blast
qed

text \<open>
  C13: A daemon that has started on any image can serve any sequence of requests, opening only inodes that
  the disk has: no handler touches freed memory or a null pointer, none waits for ever, and after each
  sequence the inodes in memory are exactly those of the open files, each counted as often as it is open
  and with the content that the disk has. It can end only by \<^verbatim>\<open>abort\<close>, on a damaged disk.
\<close>

theorem requests_served:
  assumes "unixfs_internal_init E I force fse = Some (Done (Some s))" and "length qs < 2 ^ 31"
    and "\<forall>ino. Ll_open ino \<in> set qs \<longrightarrow> disk_inode E s (root_ino ino) \<noteq> None"
  shows "good (\<lambda>(hs, rss) s'. dom (il_heap (s_layer s')) = set hs \<and>
      (\<forall>a n. il_heap (s_layer s') a = Some n \<longrightarrow>
         unat (I_count n) = count_list hs a \<and> disk_inode E s (I_number n) = Some (I_data n)))
    (serve (ops_v7 E) M qs [] s)"
proof -
  have "good (\<lambda>(hs, rss) s'. v7_holds E s s' hs) (serve (ops_v7 E) M qs [] s)"
    by (rule v7.serve_keeps [OF init_holds [OF assms(1)]]) (use assms(2,3) in auto)
  then show ?thesis by (rule good_mono) (use holds_exactly in blast)
qed

theorem requests_served_witness:
  "\<exists>s. unixfs_internal_init sample_disk sample_start False UNIXFS_FS_INVALID = Some (Done (Some s)) \<and>
     good (\<lambda>(hs, rss) s'. dom (il_heap (s_layer s')) = set hs)
       (serve (ops_v7 sample_disk) \<lparr>e_dirsize = length, e_direntry = \<lambda>name _ _. name, e_buffer = \<lambda>_. True\<rparr>
         [Ll_lookup 1 [97], Ll_readdir 1 100 0, Ll_open 3, Ll_getattr 3] [] s)"
proof -
  obtain s where s: "unixfs_internal_init sample_disk sample_start False UNIXFS_FS_INVALID = Some (Done (Some s))"
    "v7_holds sample_disk s s []" "s_fsize (s_fs_info s) = 10" "s_endian s = UNIXFS_FS_PDP" by (rule sample_started)
  have "root_ino 3 = 3" by (simp add: root_ino_def)
  then have "\<forall>ino. Ll_open ino \<in> set [Ll_lookup 1 [97], Ll_readdir 1 100 0, Ll_open 3, Ll_getattr 3] \<longrightarrow>
      disk_inode sample_disk s (root_ino ino) \<noteq> None"
    by (simp add: sample s(3,4))
  from requests_served [OF s(1) _ this] have "good (\<lambda>(hs, rss) s'. dom (il_heap (s_layer s')) = set hs)
       (serve (ops_v7 sample_disk) \<lparr>e_dirsize = length, e_direntry = \<lambda>name _ _. name, e_buffer = \<lambda>_. True\<rparr>
         [Ll_lookup 1 [97], Ll_readdir 1 100 0, Ll_open 3, Ll_getattr 3] [] s)"
    by (rule good_mono) auto
  with s(1) show ?thesis by blast
qed

end
