(* ===== verification/Spec2Isabelle.thy ===== *)
theory Spec2Isabelle
  imports Fuse_Main Fuse_Biglock Fuse_Recursive_Lock Fuse_Isolation Fuse_Unmount Fuse_Mount_Props Unixfs_V7_Props
begin

text \<open>
  MacFUSE is a file system for Mac OS X whose contents a program in user space, the daemon, provides.
  This development models the kernel extension for Mac OS X 10.5 and the programs that load it and
  mount a volume, the directory \<^verbatim>\<open>src/core/10.5/fusefs\<close>, and one family of daemons, the Unix file
  systems of \<^verbatim>\<open>src/filesystems/unixfs\<close>. File names below are relative to the first directory, and to
  the second one in the theories \<open>Unixfs_*\<close>.

  \<^bold>\<open>How the parts interact.\<close> The daemon opens a device (\<^verbatim>\<open>fuse_device.c\<close>), which starts
  a session, and mounts a volume on it. An operation of the kernel on a file of the volume enters
  through a locking wrapper (\<^verbatim>\<open>fuse_biglock_vnops.c\<close>, \<^verbatim>\<open>fuse_locking.c\<close>), runs in
  \<^verbatim>\<open>fuse_vnops.c\<close> or \<^verbatim>\<open>fuse_vfsops.c\<close>, finds the data of the file through the table
  of nodes (\<^verbatim>\<open>fuse_nodehash.c\<close>, \<^verbatim>\<open>fuse_node.c\<close>), builds a request in a ticket with
  the dispatcher (\<^verbatim>\<open>fuse_ipc.c\<close>), queues it and sleeps. The daemon reads the request from the
  device and writes an answer; the handler of the ticket checks the answer, stores it and wakes the
  sleeper, which uses it and gives the ticket back to the pool. A Unix file system is such a daemon:
  handlers that are the same for all of them (\<^verbatim>\<open>common/unixfs/unixfs.c\<close>) call a table of operations
  (\<^verbatim>\<open>unixfs.h\<close>), which each format fills in over a shared table of inodes.

  \<^bold>\<open>Theories.\<close>
  \<^item> \<open>Fuse_Prelude\<close>: outcomes of kernel code (\<open>Done\<close>, \<open>Panic\<close>, \<open>BadAccess\<close>), flag words, bytes and
    little-endian numbers, and the lemmas on them that every part uses.
  \<^item> \<open>Fuse_Queue\<close>: the lists of \<^verbatim>\<open>sys/queue.h\<close> and their contract as a locale, interpreted on
    the message and answer queues of \<open>Fuse_Ticket\<close>.
  \<^item> \<open>Fuse_Kernel_ABI\<close>: the structures of \<^verbatim>\<open>fuse_kernel.h\<close> as C layouts with computed sizes and
    offsets, operation codes, headers, the macros of directory entries.
  \<^item> \<open>Fuse_Iov\<close>: kernel memory (\<^verbatim>\<open>fuse.h\<close>), the tunables and counters (\<^verbatim>\<open>fuse_sysctl.c\<close>)
    and the buffers \<^verbatim>\<open>fuse_iov\<close>.
  \<^item> \<open>Fuse_Ticket\<close>: the records of a ticket and of a session (\<^verbatim>\<open>fuse_data\<close>), tickets living in
    a heap so that a dangling pointer is visible; the pool, the queues, the death of a session.
  \<^item> \<open>Fuse_Ipc\<close>: building requests, checking and storing answers, waiting with timeouts and
    interrupts, forgets and interrupts (\<^verbatim>\<open>fuse_ipc.c\<close> and its callers in
    \<^verbatim>\<open>fuse_internal.c\<close>).
  \<^item> \<open>Fuse_Device\<close>: the device nodes. \<open>Fuse_Exchange\<close> composes all of these and proves what a request
    and its answer do together.
  \<^item> \<open>Fuse_Nodehash\<close>: the table of nodes, with other threads running whenever its mutex is dropped.
  \<^item> \<open>Fuse_Locking\<close>, \<open>Fuse_Recursive_Lock\<close>, \<open>Fuse_Biglock\<close>: node locks, the recursive lock as a step
    relation of threads, and all wrappers over the operation each of them calls.
  \<^item> \<open>Fuse_Attr\<close>, \<open>Fuse_Readdir\<close>: the helpers of \<^verbatim>\<open>fuse_internal.h\<close>, the record of a file
    (\<^verbatim>\<open>fuse_vnode_data\<close>), attribute codecs, and the conversion of directory listings.
  \<^item> \<open>Fuse_Volume\<close>: the state of a volume (session, private data of the mount, table of nodes, data
    of every file, flags of the mount, what the kernel knows of every vnode, the calls made into the
    kernel) and the operations on it as functions from a volume to a result and a volume, \<open>V_Panic\<close>,
    \<open>V_Fault\<close> (a bad access) or \<open>V_Asleep\<close> (the wait for an answer has not ended).
  \<^item> \<open>Fuse_Internal\<close>, \<open>Fuse_File\<close>, \<open>Fuse_Node\<close>: what the operations share, the file handles, and finding
    or creating the vnode of a node number.
  \<^item> \<open>Fuse_Vnops_File\<close> (open, close, mapping, synchronising, the end of a vnode), \<open>Fuse_Vnops_IO\<close>
    (reading, writing, paging, listing, the strategy routine), \<open>Fuse_Vnops_Dir\<close> (creating, finding,
    removing, renaming, exchanging names), \<open>Fuse_Vnops_Attr\<close> (attributes, extended attributes, control
    calls, kernel event notes): the forty operations of \<^verbatim>\<open>fuse_vnops.c\<close>.
  \<^item> \<open>Fuse_Vfsops\<close>: the handshake, mount and unmount, statistics, sync.
  \<^item> \<open>Fuse_Volume_Laws\<close>, \<open>Fuse_Volume_Props\<close>: the rules that run these operations, and their properties.
  \<^item> \<open>Fuse_Handles\<close>, \<open>Fuse_Isolation\<close>: contracts of preservation as locales (what leaves the handles of
    all other files alone, what leaves the whole record of all other files alone), interpreted on the
    operations, with which open and close are shown to implement three counters of handles.
  \<^item> \<open>Fuse_Unmount\<close>: the routes of an unmount.
  \<^item> \<open>Fuse_Main\<close>: start and stop of the module (\<^verbatim>\<open>fuse_main.c\<close>) and the handlers of its
    settings (\<^verbatim>\<open>fuse_sysctl.c\<close>), composed of the table of nodes and the devices.
  \<^item> \<open>Fuse_Mount\<close>, \<open>Fuse_Mount_Props\<close>: the programs in user space that mount a volume and load the
    extension (\<^verbatim>\<open>mount/\<close>, \<^verbatim>\<open>load/\<close>): reading options, checking them, the arguments of the
    mount. The structure they build is the one that the mount of \<open>Fuse_Vfsops\<close> is given.
  \<^item> \<open>Unixfs_Inode\<close>, \<open>Unixfs_Inode_Props\<close>: the table of inodes that the Unix file systems share
    (\<^verbatim>\<open>common/unixfs/unixfs_internal.c\<close>), as a step relation of threads over a heap of inodes.
  \<^item> \<open>Unixfs_Ops\<close>: the table of operations of \<^verbatim>\<open>unixfs.h\<close> as a record, and the contract that
    its callers rely on as the locale \<open>unix_file_system\<close>. \<open>Unixfs_LL\<close>: the handlers of
    \<^verbatim>\<open>unixfs.c\<close> over any such table, with what holds of them under the contract.
  \<^item> \<open>Unixfs_V7\<close>: the reader of Seventh Edition disks (\<^verbatim>\<open>ancientfs/ancientfs_v7.c\<close>), mount, inodes,
    blocks, directories, names and the list of free blocks. \<open>Unixfs_V7_Session\<close>: how one thread uses the
    table of inodes through it, and the interpretation of the contract on it. \<open>Unixfs_V7_Laws\<close>,
    \<open>Unixfs_V7_Sample\<close>, \<open>Unixfs_V7_Props\<close>: the tree of blocks, contents and names it implements, a
    small disk, and the properties.

  \<^bold>\<open>What the lemmas show.\<close> The pool and the queues keep their invariant under every operation, no
  ticket is used after it was freed as long as no request times out, and an answered request returns
  exactly the answer. Opening and closing refine counters of handles, an operation on one file
  changes the record of no other, and an unmount happens whole or not at all. The table of nodes keeps one node per key with exact counts in every
  interleaving. Locks are taken all or not at all and are all released. Requests to change attributes
  and directory listings mean what they should. Mount options are consistent, what the mount program
  lets through the kernel accepts, and a mount that fails leaves no session waiting. A dead session refuses
  work. The table of inodes keeps one inode per number with exact counts of references and waiters in
  every interleaving of threads, save for the crash of a waiter after a failed read, which is proved. A
  daemon that serves a request leaves the references as it found them, and its Seventh Edition reader
  finds blocks, names and bytes where the tree of the disk has them. Where the code does not do what it means to, the theorem states what it does.

  \<^bold>\<open>Bounds.\<close> Nothing runs on unlimited fuel. What other threads do while a thread sleeps or has
  dropped a mutex is given as a list (\<open>w_sleeps\<close>, \<open>v_waits\<close>, \<open>v_gaps\<close>, the gaps of the table): a wait
  that outlives its list is \<open>V_Asleep\<close> or \<open>None\<close>, which no theorem that promises a result accepts. Loops
  that ask the daemon repeatedly take one element of that list per round, so that the number of rounds is
  bounded by its length plus one. The loop that rounds sizes ends within 32 rounds, which is proved; a
  lookup in the table of nodes within three when nobody interferes. A listing of a Unix directory
  (\<open>listing_loop\<close>) has as many rounds as the directory has bytes, plus one, and each entry moves on by at
  least one; a read of a Unix file has two, for the reason given there. A walk over a list of free blocks that may be cyclic is a partial function, \<open>None\<close> when it
  does not end, which it does not on a cyclic list.

  \<^bold>\<open>Parameters.\<close> \<open>kenv\<close> and \<open>venv\<close> hold what belongs to the kernel: the allocator, \<^verbatim>\<open>uiomove\<close>, the
  cluster and virtual memory layers, the name cache, \<^verbatim>\<open>vnode_create\<close>. Calls whose effect is outside the
  extension are recorded, in order, in \<open>v_calls\<close>. \<open>v7_env\<close> and \<open>v7_start\<close> hold the disk image with its
  failing reads and what \<^verbatim>\<open>stat\<close> says of it, \<open>ll_env\<close> the bytes that the FUSE library makes of a
  directory entry.

  \<^bold>\<open>Not modelled.\<close> The extension for 10.4 is an older version of the same code. The
  other formats of Unix file systems (Minix, System V, UFS, the other ancient disks, tapes and archives)
  fill in the same table of operations from other layouts. The other
  examples, the Objective-C framework, the installer and the preference pane are programs of their own.
  Compile-time options that the build leaves off (explicit rename locks, delayed
  reclaim, the lock of single nodes without the big lock) are left out with the code they guard.
\<close>

end
